(* ===== verification/Prelude.thy ===== *)
theory Prelude
  imports Main "HOL-Library.Word"
begin

text \<open>
  Shared vocabulary of the development: machine integers, byte strings, the Rust
  result type with panics, checked and saturating arithmetic, slices, and the
  little-endian codecs. Every component theory builds on it.

  \<^item> \<open>('e, 'a) result\<close> is a Rust \<open>Result<'a, 'e>\<close> that may also panic: \<open>Ok x\<close>,
    \<open>Fail e\<close> or \<open>Panicked\<close>. \<open>try_bind\<close> is the \<open>?\<close> operator, \<open>attempt\<close> is a
    \<open>match\<close> or \<open>if let\<close> on a result: it catches an error and never a panic.
  \<^item> \<open>usize\<close> is \<^typ>\<open>nat\<close>. The indices the modelled code computes are at most the
    length of a Rust slice plus \<open>2 ^ 17\<close>, and a Rust slice has at most
    \<open>isize::MAX\<close> bytes, so its \<open>saturating_add\<close> on \<open>usize\<close> never saturates and is
    plain addition; \<open>saturating_sub\<close> is subtraction on \<^typ>\<open>nat\<close>.
  \<^item> A \<open>Pubkey\<close> and a \<open>Hash\<close>, 32 bytes each, are 256-bit words read little-endian.
\<close>

section \<open>Collections of facts\<close>

named_theorems ok_simps \<open>equations that split a successful computation into its steps\<close>
named_theorems bytes_simps \<open>lengths and round trips of byte encodings\<close>

section \<open>Machine integers and byte strings\<close>

type_synonym byte = "8 word"
type_synonym bytes = "byte list"
type_synonym u8 = "8 word"
type_synonym u16 = "16 word"
type_synonym u32 = "32 word"
type_synonym u64 = "64 word"
type_synonym u128 = "128 word"
type_synonym i16 = "16 word"
type_synonym i64 = "64 word"
type_synonym pubkey = "256 word"
type_synonym hash = "256 word"

section \<open>Results, errors and panics\<close>

datatype 'e fault = Err 'e | Panic

type_synonym ('e, 'a) result = "'e fault + 'a"

abbreviation Ok :: "'a \<Rightarrow> ('e, 'a) result" where "Ok x \<equiv> Inr x"
abbreviation Fail :: "'e \<Rightarrow> ('e, 'a) result" where "Fail e \<equiv> Inl (Err e)"
abbreviation Panicked :: "('e, 'a) result" where "Panicked \<equiv> Inl Panic"

definition try_bind :: "'f + 'a \<Rightarrow> ('a \<Rightarrow> 'f + 'b) \<Rightarrow> 'f + 'b" where
  "try_bind m f = (case m of Inl e \<Rightarrow> Inl e | Inr x \<Rightarrow> f x)"

lemma try_bind_Inl [simp]: "try_bind (Inl e) f = Inl e"
  and try_bind_Inr [simp]: "try_bind (Inr x) f = f x"
  by (simp_all add: try_bind_def)

lemma try_bind_cong [fundef_cong]:
  "m = m' \<Longrightarrow> (\<And>x. m' = Inr x \<Longrightarrow> f x = f' x) \<Longrightarrow> try_bind m f = try_bind m' f'"
  by (cases m') auto

lemma try_bind_eq_Ok [ok_simps]:
  "try_bind m f = Inr y \<longleftrightarrow> (\<exists>x. m = Inr x \<and> f x = Inr y)"
  by (cases m) auto

lemma try_bind_assoc: "try_bind (try_bind m f) g = try_bind m (\<lambda>x. try_bind (f x) g)"
  by (cases m) auto

lemma if_Inl_eq_Ok [ok_simps]:
  "((if c then Inl e else m) = Inr y) \<longleftrightarrow> \<not> c \<and> m = Inr y"
  "((if c then m else Inl e) = Inr y) \<longleftrightarrow> c \<and> m = Inr y"
  by auto

text \<open>A match on a result: an error becomes a value, a panic goes through.\<close>

definition attempt :: "('e, 'a) result \<Rightarrow> ('g, 'e + 'a) result" where
  "attempt m = (case m of
      Inl Panic \<Rightarrow> Panicked
    | Inl (Err e) \<Rightarrow> Ok (Inl e)
    | Inr x \<Rightarrow> Ok (Inr x))"

lemma attempt_simps [simp]:
  "attempt (Fail e) = Ok (Inl e)"
  "attempt Panicked = Panicked"
  "attempt (Ok x) = Ok (Inr x)"
  by (simp_all add: attempt_def)

lemma attempt_eq_Ok [ok_simps]:
  "attempt m = Inr (Inr x) \<longleftrightarrow> m = Ok x"
  "attempt m = Inr (Inl e) \<longleftrightarrow> m = Fail e"
  by (auto simp: attempt_def split: sum.splits fault.splits)

lemma attempt_case_eq_Ok [ok_simps]:
  "try_bind (attempt m) (\<lambda>r. case r of Inl e \<Rightarrow> g e | Inr x \<Rightarrow> f x) = Inr y \<longleftrightarrow>
     (\<exists>e. m = Fail e \<and> g e = Inr y) \<or> (\<exists>x. m = Ok x \<and> f x = Inr y)"
  by (auto simp: attempt_def split: sum.splits fault.splits)

definition map_err :: "('e \<Rightarrow> 'g) \<Rightarrow> ('e, 'a) result \<Rightarrow> ('g, 'a) result" where
  "map_err f m = (case m of
      Inl Panic \<Rightarrow> Panicked
    | Inl (Err e) \<Rightarrow> Fail (f e)
    | Inr x \<Rightarrow> Ok x)"

lemma map_err_simps [simp]:
  "map_err f (Fail e) = Fail (f e)"
  "map_err f Panicked = Panicked"
  "map_err f (Ok x) = Ok x"
  by (simp_all add: map_err_def)

lemma map_err_eq_Ok [ok_simps]: "map_err f m = Inr x \<longleftrightarrow> m = Ok x"
  by (auto simp: map_err_def split: sum.splits fault.splits)

definition is_ok :: "('e, 'a) result \<Rightarrow> ('g, bool) result" where
  "is_ok m = (case m of
      Inl Panic \<Rightarrow> Panicked
    | Inl (Err _) \<Rightarrow> Ok False
    | Inr _ \<Rightarrow> Ok True)"

lemma is_ok_simps [simp]:
  "is_ok (Fail e) = Ok False" "is_ok Panicked = Panicked" "is_ok (Ok x) = Ok True"
  by (simp_all add: is_ok_def)

definition ok_or :: "'a option \<Rightarrow> 'e \<Rightarrow> ('e, 'a) result" where
  "ok_or v e = (case v of None \<Rightarrow> Fail e | Some x \<Rightarrow> Ok x)"

lemma ok_or_simps [simp]: "ok_or None e = Fail e" "ok_or (Some x) e = Ok x"
  by (simp_all add: ok_or_def)

lemma ok_or_eq_Ok [ok_simps]: "ok_or v e = Inr x \<longleftrightarrow> v = Some x"
  by (cases v) auto

text \<open>An operation that never panics, the shape of most totality statements.\<close>

definition no_panic :: "('e, 'a) result \<Rightarrow> bool" where
  "no_panic m \<longleftrightarrow> m \<noteq> Panicked"

lemma no_panic_simps [simp]:
  "no_panic (Ok x)" "no_panic (Fail e)" "\<not> no_panic Panicked"
  by (simp_all add: no_panic_def)

lemma no_panic_bind:
  "no_panic m \<Longrightarrow> (\<And>x. m = Ok x \<Longrightarrow> no_panic (f x)) \<Longrightarrow> no_panic (try_bind m f)"
  by (cases m) (auto simp: no_panic_def)

section \<open>Checked and saturating arithmetic\<close>

definition checked_add :: "'a::len word \<Rightarrow> 'a word \<Rightarrow> 'a word option" where
  "checked_add a b = (if unat a + unat b < 2 ^ LENGTH('a) then Some (a + b) else None)"

definition checked_sub :: "'a::len word \<Rightarrow> 'a word \<Rightarrow> 'a word option" where
  "checked_sub a b = (if b \<le> a then Some (a - b) else None)"

definition checked_mul :: "'a::len word \<Rightarrow> 'a word \<Rightarrow> 'a word option" where
  "checked_mul a b = (if unat a * unat b < 2 ^ LENGTH('a) then Some (a * b) else None)"

definition saturating_add :: "'a::len word \<Rightarrow> 'a word \<Rightarrow> 'a word" where
  "saturating_add a b = (if unat a + unat b < 2 ^ LENGTH('a) then a + b else - 1)"

definition saturating_sub :: "'a::len word \<Rightarrow> 'a word \<Rightarrow> 'a word" where
  "saturating_sub a b = (if b \<le> a then a - b else 0)"

lemma checked_add_Some [ok_simps]:
  "checked_add (a :: 'a::len word) b = Some c \<longleftrightarrow> unat c = unat a + unat b"
proof
  assume "unat c = unat a + unat b"
  moreover have "unat c < 2 ^ LENGTH('a)" by (rule unsigned_less)
  ultimately have "unat a + unat b < 2 ^ LENGTH('a)" "unat c = unat (a + b)"
    by (simp_all add: unat_word_ariths)
  then show "checked_add a b = Some c"
    by (simp add: checked_add_def word_unat_eq_iff)
qed (auto simp: checked_add_def unat_word_ariths split: if_splits)

lemma checked_sub_Some [ok_simps]:
  "checked_sub (a :: 'a::len word) b = Some c \<longleftrightarrow> unat b \<le> unat a \<and> unat c = unat a - unat b"
  by (auto simp: checked_sub_def word_le_nat_alt unat_sub word_unat_eq_iff split: if_splits)

lemma checked_add_None:
  "checked_add (a :: 'a::len word) b = None \<longleftrightarrow> 2 ^ LENGTH('a) \<le> unat a + unat b"
  by (auto simp: checked_add_def)

lemma checked_sub_None: "checked_sub a b = None \<longleftrightarrow> unat a < unat b"
  by (auto simp: checked_sub_def word_le_nat_alt)

lemma unat_saturating_add:
  "unat (saturating_add (a :: 'a::len word) b) = min (unat a + unat b) (2 ^ LENGTH('a) - 1)"
proof -
  have "unat (- 1 :: 'a word) = 2 ^ LENGTH('a) - 1"
    by (simp add: unsigned_minus_1_eq_mask mask_eq_exp_minus_1)
  then show ?thesis
    by (auto simp: saturating_add_def unat_word_ariths)
qed

lemma unat_saturating_sub: "unat (saturating_sub a b) = unat a - unat b"
  by (auto simp: saturating_sub_def word_le_nat_alt unat_sub)

text \<open>Casts that keep the value.\<close>

lemma unat_ucast_le:
  "LENGTH('a) \<le> LENGTH('b) \<Longrightarrow> unat (ucast (x :: 'a::len word) :: 'b::len word) = unat x"
  by (simp add: unsigned_ucast_eq take_bit_nat_eq_self less_le_trans [OF unsigned_less])

lemma ucast_u64_of_nat:
  "unat (x :: u128) < 2 ^ 64 \<Longrightarrow> unat (ucast x :: u64) = unat x"
  by (simp add: unsigned_ucast_eq take_bit_nat_eq_self)

section \<open>Slices and in-place writes\<close>

text \<open>\<open>xs[i]\<close> and \<open>xs[a..b]\<close> panic out of range.\<close>

definition index :: "'a list \<Rightarrow> nat \<Rightarrow> ('e, 'a) result" where
  "index xs i = (if i < length xs then Ok (xs ! i) else Panicked)"

definition slice :: "'a list \<Rightarrow> nat \<Rightarrow> nat \<Rightarrow> ('e, 'a list) result" where
  "slice xs a b = (if a \<le> b \<and> b \<le> length xs then Ok (take (b - a) (drop a xs)) else Panicked)"

definition splice :: "'a list \<Rightarrow> nat \<Rightarrow> 'a list \<Rightarrow> 'a list" where
  "splice xs i ys = take i xs @ ys @ drop (i + length ys) xs"

lemma slice_eq_Ok [ok_simps]:
  "slice xs a b = Inr ys \<longleftrightarrow> a \<le> b \<and> b \<le> length xs \<and> ys = take (b - a) (drop a xs)"
  by (auto simp: slice_def)

lemma index_eq_Ok [ok_simps]: "index xs i = Inr x \<longleftrightarrow> i < length xs \<and> x = xs ! i"
  by (auto simp: index_def)

lemma length_splice [simp]:
  "i + length ys \<le> length xs \<Longrightarrow> length (splice xs i ys) = length xs"
  by (simp add: splice_def)

lemma slice_splice_same:
  "i + length ys \<le> length xs \<Longrightarrow> take (length ys) (drop i (splice xs i ys)) = ys"
  by (simp add: splice_def)

lemma slice_splice_before:
  "j + n \<le> i \<Longrightarrow> i + length ys \<le> length xs \<Longrightarrow>
   take n (drop j (splice xs i ys)) = take n (drop j xs)"
  by (rule nth_equalityI) (auto simp: splice_def nth_append)

lemma slice_splice_after:
  "i + length ys \<le> j \<Longrightarrow> i + length ys \<le> length xs \<Longrightarrow>
   drop j (splice xs i ys) = drop j xs"
  by (simp add: splice_def)

lemma splice_self: "take n (drop i xs) = ys \<Longrightarrow> length ys = n \<Longrightarrow> splice xs i ys = xs"
  by (simp add: splice_def)
     (metis add.commute append_take_drop_id drop_drop)

section \<open>Little-endian codecs\<close>

fun nat_to_le :: "nat \<Rightarrow> nat \<Rightarrow> bytes" where
  "nat_to_le 0 x = []"
| "nat_to_le (Suc n) x = word_of_nat (x mod 256) # nat_to_le n (x div 256)"

fun nat_from_le :: "bytes \<Rightarrow> nat" where
  "nat_from_le [] = 0"
| "nat_from_le (b # bs) = unat b + 256 * nat_from_le bs"

lemma length_nat_to_le [simp]: "length (nat_to_le n x) = n"
  by (induction n arbitrary: x) auto

lemma unat_byte_lt [simp]: "unat (b :: byte) < 256"
  using unsigned_less [of b] by simp

lemma nat_from_to_le: "nat_from_le (nat_to_le n x) = x mod 256 ^ n"
proof (induction n arbitrary: x)
  case (Suc n)
  have "unat (word_of_nat (x mod 256) :: byte) = x mod 256"
    by (simp add: unat_of_nat)
  with Suc show ?case
    by (simp add: mod_mult2_eq)
qed simp

lemma nat_to_from_le: "nat_to_le (length bs) (nat_from_le bs) = bs"
proof (induction bs)
  case (Cons b bs)
  then show ?case by (simp add: word_unat_eq_iff unat_of_nat)
qed simp

lemma nat_from_le_bound: "nat_from_le bs < 256 ^ length bs"
proof (induction bs)
  case (Cons b bs)
  have "unat b + 256 * nat_from_le bs < 256 + 256 * nat_from_le bs"
    by simp
  also have "\<dots> = 256 * Suc (nat_from_le bs)" by simp
  also have "\<dots> \<le> 256 * 256 ^ length bs"
    using Cons by (intro mult_le_mono2) simp
  finally show ?case by simp
qed simp

text \<open>
  \<open>to_le_bytes\<close> and \<open>from_le_bytes\<close> of an integer type of \<open>n\<close> bytes; also the
  32 bytes of a \<^typ>\<open>pubkey\<close>.
\<close>

definition to_le_bytes :: "'a::len word \<Rightarrow> bytes" where
  "to_le_bytes w = nat_to_le (LENGTH('a) div 8) (unat w)"

definition from_le_bytes :: "bytes \<Rightarrow> 'a::len word" where
  "from_le_bytes bs = word_of_nat (nat_from_le bs)"

lemma length_to_le_bytes [bytes_simps]: "length (to_le_bytes (w :: 'a::len word)) = LENGTH('a) div 8"
  by (simp add: to_le_bytes_def)

lemma pow_256: "(256 :: nat) ^ n = 2 ^ (8 * n)"
  by (simp add: power_mult)

lemma from_to_le_bytes:
  assumes "8 dvd LENGTH('a::len)"
  shows "from_le_bytes (to_le_bytes (w :: 'a word)) = w"
proof -
  have "unat w < 256 ^ (LENGTH('a) div 8)"
    using assms unsigned_less [of w] by (simp add: pow_256)
  then show ?thesis
    by (simp add: from_le_bytes_def to_le_bytes_def nat_from_to_le)
qed

lemma to_from_le_bytes:
  assumes "length bs = LENGTH('a::len) div 8" "8 dvd LENGTH('a)"
  shows "to_le_bytes (from_le_bytes bs :: 'a word) = bs"
proof -
  have "nat_from_le bs < 2 ^ LENGTH('a)"
    using nat_from_le_bound [of bs] assms by (simp add: pow_256)
  then have "unat (word_of_nat (nat_from_le bs) :: 'a word) = nat_from_le bs"
    by (simp add: unat_of_nat)
  then show ?thesis
    using assms(1) nat_to_from_le [of bs] by (simp add: from_le_bytes_def to_le_bytes_def)
qed

lemma le_bytes_u16 [bytes_simps]:
  "length (to_le_bytes (w :: u16)) = 2" "from_le_bytes (to_le_bytes (w :: u16)) = w"
  "length bs = 2 \<Longrightarrow> to_le_bytes (from_le_bytes bs :: u16) = bs"
  by (simp_all add: length_to_le_bytes from_to_le_bytes to_from_le_bytes)

lemma le_bytes_u64 [bytes_simps]:
  "length (to_le_bytes (w :: u64)) = 8" "from_le_bytes (to_le_bytes (w :: u64)) = w"
  "length bs = 8 \<Longrightarrow> to_le_bytes (from_le_bytes bs :: u64) = bs"
  by (simp_all add: length_to_le_bytes from_to_le_bytes to_from_le_bytes)

lemma le_bytes_pubkey [bytes_simps]:
  "length (to_le_bytes (w :: pubkey)) = 32" "from_le_bytes (to_le_bytes (w :: pubkey)) = w"
  "length bs = 32 \<Longrightarrow> to_le_bytes (from_le_bytes bs :: pubkey) = bs"
  by (simp_all add: length_to_le_bytes from_to_le_bytes to_from_le_bytes)

end
