(* ===== verification/TokenBase.thy ===== *)
theory TokenBase
  imports Prelude
begin

text \<open>
  Foundations of the token-2022 program (\<open>wasm/utils/solana-extra/src/program/
  spl_token_2022\<close>): its error type (\<open>error.rs\<close>), the program and mint ids, the
  accounts an instruction receives, and the runtime services the program calls.

  What is not under \<open>src/\<close> is a parameter: \<open>token_env\<close> holds the sysvars (rent,
  clock), the ids of the SDK, the error values of the \<open>Pack\<close> trait's provided methods,
  \<open>AccountInfo::realloc\<close> and the cross-program invocations. The accounts of an
  instruction share cells: an \<open>account_info\<close> names the cell that holds its lamports
  and its data, and two infos with the same cell are the runtime's duplicate accounts,
  which share one \<open>RefCell\<close>.
\<close>

section \<open>Errors\<close>

datatype token_error =
    TE_NotRentExempt | TE_InsufficientFunds | TE_InvalidMint | TE_MintMismatch
  | TE_OwnerMismatch | TE_FixedSupply | TE_AlreadyInUse
  | TE_InvalidNumberOfProvidedSigners | TE_InvalidNumberOfRequiredSigners
  | TE_UninitializedState | TE_NativeNotSupported | TE_NonNativeHasBalance
  | TE_InvalidInstruction | TE_InvalidState | TE_Overflow
  | TE_AuthorityTypeNotSupported | TE_MintCannotFreeze | TE_AccountFrozen
  | TE_MintDecimalsMismatch | TE_NonNativeNotSupported | TE_ExtensionTypeMismatch
  | TE_ExtensionBaseMismatch | TE_ExtensionAlreadyInitialized
  | TE_ConfidentialTransferAccountHasBalance | TE_ConfidentialTransferAccountNotApproved
  | TE_ConfidentialTransferDepositsAndTransfersDisabled
  | TE_ConfidentialTransferElGamalPubkeyMismatch | TE_ConfidentialTransferBalanceMismatch
  | TE_MintHasSupply | TE_NoAuthorityExists | TE_TransferFeeExceedsMaximum
  | TE_MintRequiredForTransfer | TE_FeeMismatch | TE_FeeParametersMismatch
  | TE_ImmutableOwner | TE_AccountHasWithheldTransferFees | TE_NoMemo
  | TE_NonTransferable | TE_NonTransferableNeedsImmutableOwnership
  | TE_MaximumPendingBalanceCreditCounterExceeded

text \<open>
  The variants of the SDK's \<open>ProgramError\<close> that the program names, and one for the
  errors that only the SDK raises.
\<close>

datatype program_error =
    PE_Custom u32 | PE_InvalidArgument | PE_InvalidInstructionData | PE_InvalidAccountData
  | PE_AccountDataTooSmall | PE_IncorrectProgramId | PE_MissingRequiredSignature
  | PE_UninitializedAccount | PE_NotEnoughAccountKeys | PE_AccountBorrowFailed
  | PE_External nat

primrec token_error_code :: "token_error \<Rightarrow> u32" where
  "token_error_code TE_NotRentExempt = 0"
| "token_error_code TE_InsufficientFunds = 1"
| "token_error_code TE_InvalidMint = 2"
| "token_error_code TE_MintMismatch = 3"
| "token_error_code TE_OwnerMismatch = 4"
| "token_error_code TE_FixedSupply = 5"
| "token_error_code TE_AlreadyInUse = 6"
| "token_error_code TE_InvalidNumberOfProvidedSigners = 7"
| "token_error_code TE_InvalidNumberOfRequiredSigners = 8"
| "token_error_code TE_UninitializedState = 9"
| "token_error_code TE_NativeNotSupported = 10"
| "token_error_code TE_NonNativeHasBalance = 11"
| "token_error_code TE_InvalidInstruction = 12"
| "token_error_code TE_InvalidState = 13"
| "token_error_code TE_Overflow = 14"
| "token_error_code TE_AuthorityTypeNotSupported = 15"
| "token_error_code TE_MintCannotFreeze = 16"
| "token_error_code TE_AccountFrozen = 17"
| "token_error_code TE_MintDecimalsMismatch = 18"
| "token_error_code TE_NonNativeNotSupported = 19"
| "token_error_code TE_ExtensionTypeMismatch = 20"
| "token_error_code TE_ExtensionBaseMismatch = 21"
| "token_error_code TE_ExtensionAlreadyInitialized = 22"
| "token_error_code TE_ConfidentialTransferAccountHasBalance = 23"
| "token_error_code TE_ConfidentialTransferAccountNotApproved = 24"
| "token_error_code TE_ConfidentialTransferDepositsAndTransfersDisabled = 25"
| "token_error_code TE_ConfidentialTransferElGamalPubkeyMismatch = 26"
| "token_error_code TE_ConfidentialTransferBalanceMismatch = 27"
| "token_error_code TE_MintHasSupply = 28"
| "token_error_code TE_NoAuthorityExists = 29"
| "token_error_code TE_TransferFeeExceedsMaximum = 30"
| "token_error_code TE_MintRequiredForTransfer = 31"
| "token_error_code TE_FeeMismatch = 32"
| "token_error_code TE_FeeParametersMismatch = 33"
| "token_error_code TE_ImmutableOwner = 34"
| "token_error_code TE_AccountHasWithheldTransferFees = 35"
| "token_error_code TE_NoMemo = 36"
| "token_error_code TE_NonTransferable = 37"
| "token_error_code TE_NonTransferableNeedsImmutableOwnership = 38"
| "token_error_code TE_MaximumPendingBalanceCreditCounterExceeded = 39"

definition into_program_error :: "token_error \<Rightarrow> program_error" where
  "into_program_error e = PE_Custom (token_error_code e)"

abbreviation TErr :: "token_error \<Rightarrow> (program_error, 'a) result" where
  "TErr e \<equiv> Fail (into_program_error e)"

lemma token_error_code_inj: "token_error_code e = token_error_code e' \<Longrightarrow> e = e'"
  by (cases e; cases e'; simp)

lemma into_program_error_inj [simp]: "into_program_error e = into_program_error e' \<longleftrightarrow> e = e'"
  by (auto simp: into_program_error_def dest: token_error_code_inj)

section \<open>Ids\<close>

text \<open>The base58 literals of \<open>declare_id!\<close>, decoded to 32 bytes read little-endian.\<close>

definition token_2022_id :: pubkey where
  "token_2022_id = 114229546593812868309265069424466110816696351698675722272150287043719526276358"

definition spl_token_id :: pubkey where
  "spl_token_id = 76442634766951278574851011470472957949510043171089429576505158730255542181126"

definition native_mint_id :: pubkey where
  "native_mint_id = 452312848682254728109074716018410578554233241794521621781515434726607330054"

definition native_mint_decimals :: u8 where
  "native_mint_decimals = 9"

definition memo_v1_id :: pubkey where
  "memo_v1_id = 72806349350411491962335172286596497881102798901400212095380528686332772567557"

definition memo_id :: pubkey where
  "memo_id = 63896293518582907320295649682395513112860751922152869605101951310153771076101"

section \<open>Accounts and runtime services\<close>

record cell =
  cell_lamports :: u64
  cell_data :: bytes

type_synonym store = "nat \<Rightarrow> cell"

record account_info =
  ai_key :: pubkey
  ai_is_signer :: bool
  ai_owner :: pubkey
  ai_cell :: nat

record rent =
  is_exempt :: "u64 \<Rightarrow> nat \<Rightarrow> bool"
  minimum_balance :: "nat \<Rightarrow> u64"

record clock =
  clk_epoch :: u64
  clk_unix_timestamp :: i64

text \<open>
  \<open>env_rent_from_account\<close> is \<open>Rent::from_account_info\<close>; its cell is \<open>None\<close> while
  the caller holds a mutable borrow of it.
  \<open>env_invoke_transfer from to lamports\<close>, \<open>env_invoke_allocate\<close> and
  \<open>env_invoke_assign\<close> are the effects on the store of invoking the system program's
  instructions through \<open>invoke\<close> and \<open>invoke_signed\<close>;
  \<open>env_interest_to_ui\<close> and \<open>env_interest_from_ui\<close> are the conversions
  of \<open>InterestBearingConfig\<close> that compute with \<open>f64::exp\<close>.
\<close>

record token_env =
  env_rent_get :: "(program_error, rent) result"
  env_rent_from_account :: "account_info \<Rightarrow> cell option \<Rightarrow> (program_error, rent) result"
  env_clock_get :: "(program_error, clock) result"
  env_sibling_program :: "pubkey option"
  env_system_program :: pubkey
  env_incinerator :: pubkey
  env_pack_len_error :: "nat \<Rightarrow> nat \<Rightarrow> program_error option"
  env_pack_uninitialized :: program_error
  env_realloc :: "bytes \<Rightarrow> nat \<Rightarrow> (program_error, bytes) result"
  env_invoke_transfer ::
    "account_info \<Rightarrow> account_info \<Rightarrow> u64 \<Rightarrow> store \<Rightarrow> (program_error, store) result"
  env_invoke_allocate :: "account_info \<Rightarrow> u64 \<Rightarrow> store \<Rightarrow> (program_error, store) result"
  env_invoke_assign :: "account_info \<Rightarrow> pubkey \<Rightarrow> store \<Rightarrow> (program_error, store) result"
  env_interest_to_ui :: "bytes \<Rightarrow> u64 \<Rightarrow> u8 \<Rightarrow> i64 \<Rightarrow> bytes option"
  env_interest_from_ui :: "bytes \<Rightarrow> bytes \<Rightarrow> u8 \<Rightarrow> i64 \<Rightarrow> (program_error, u64) result"

text \<open>
  What the program relies on of the \<open>Pack\<close> trait's provided methods: a slice of
  exactly \<open>LEN\<close> bytes passes their length check.
\<close>

definition pack_ok :: "token_env \<Rightarrow> bool" where
  "pack_ok E \<longleftrightarrow> (\<forall>n. env_pack_len_error E n n = None)"

definition lamports :: "store \<Rightarrow> account_info \<Rightarrow> u64" where
  "lamports st a = cell_lamports (st (ai_cell a))"

definition account_data :: "store \<Rightarrow> account_info \<Rightarrow> bytes" where
  "account_data st a = cell_data (st (ai_cell a))"

definition data_len :: "store \<Rightarrow> account_info \<Rightarrow> nat" where
  "data_len st a = length (account_data st a)"

definition set_data :: "store \<Rightarrow> account_info \<Rightarrow> bytes \<Rightarrow> store" where
  "set_data st a bs = st(ai_cell a := (st (ai_cell a))\<lparr>cell_data := bs\<rparr>)"

definition set_lamports :: "store \<Rightarrow> account_info \<Rightarrow> u64 \<Rightarrow> store" where
  "set_lamports st a l = st(ai_cell a := (st (ai_cell a))\<lparr>cell_lamports := l\<rparr>)"

definition next_account_info ::
  "account_info list \<Rightarrow> (program_error, account_info \<times> account_info list) result" where
  "next_account_info xs = (case xs of [] \<Rightarrow> Fail PE_NotEnoughAccountKeys | x # r \<Rightarrow> Ok (x, r))"

lemma next_account_info_Ok [ok_simps]:
  "next_account_info xs = Inr (x, r) \<longleftrightarrow> xs = x # r"
  by (auto simp: next_account_info_def split: list.splits)

lemma next_account_info_Cons [simp]: "next_account_info (x # r) = Ok (x, r)"
  by (simp add: next_account_info_def)

lemma account_data_set_data [simp]:
  "account_data (set_data st a bs) b = (if ai_cell a = ai_cell b then bs else account_data st b)"
  by (auto simp: account_data_def set_data_def)

lemma account_data_set_lamports [simp]:
  "account_data (set_lamports st a l) b = account_data st b"
  by (auto simp: account_data_def set_lamports_def)

lemma lamports_set_lamports [simp]:
  "lamports (set_lamports st a l) b = (if ai_cell a = ai_cell b then l else lamports st b)"
  by (auto simp: lamports_def set_lamports_def)

lemma lamports_set_data [simp]: "lamports (set_data st a bs) b = lamports st b"
  by (auto simp: lamports_def set_data_def)

lemma set_data_other [simp]: "c \<noteq> ai_cell a \<Longrightarrow> set_data st a bs c = st c"
  by (simp add: set_data_def)

lemma set_lamports_other [simp]: "c \<noteq> ai_cell a \<Longrightarrow> set_lamports st a l c = st c"
  by (simp add: set_lamports_def)

section \<open>Program id checks\<close>

definition check_program_account :: "pubkey \<Rightarrow> (program_error, unit) result" where
  "check_program_account p = (if p \<noteq> token_2022_id then Fail PE_IncorrectProgramId else Ok ())"

definition check_spl_token_program_account :: "pubkey \<Rightarrow> (program_error, unit) result" where
  "check_spl_token_program_account p =
     (if p \<noteq> token_2022_id \<and> p \<noteq> spl_token_id then Fail PE_IncorrectProgramId else Ok ())"

text \<open>\<open>sol_memcmp\<close> of the two keys' 32 bytes.\<close>

definition cmp_pubkeys :: "pubkey \<Rightarrow> pubkey \<Rightarrow> bool" where
  "cmp_pubkeys a b \<longleftrightarrow> to_le_bytes a = to_le_bytes b"

lemma cmp_pubkeys_iff [simp]: "cmp_pubkeys a b \<longleftrightarrow> a = b"
  by (auto simp: cmp_pubkeys_def dest: arg_cong [of _ _ from_le_bytes] simp: bytes_simps)
     (metis le_bytes_pubkey(2))

lemma check_program_account_Ok [ok_simps]:
  "check_program_account p = Inr u \<longleftrightarrow> p = token_2022_id"
  by (auto simp: check_program_account_def)

end
