(* ===== verification/TokenPod.thy ===== *)
theory TokenPod
  imports TokenBase
begin

text \<open>
  Plain-old-data types (\<open>spl_token_2022/pod.rs\<close>). A \<open>Pod\<close> type is its size, its byte
  layout (all fields have alignment 1, so \<open>repr(C)\<close> is concatenation) and its default.
  The locale \<open>pod_codec\<close> is the contract the TLV code relies on; it is closed under
  the layout of a struct (\<open>pod_pair\<close>, \<open>pod_iso\<close>) and interpreted here on the integer
  types and the keys, and on each extension in the theory that declares it.
\<close>

section \<open>Pod types and their contract\<close>

record 'v pod =
  pod_size :: nat
  pod_encode :: "'v \<Rightarrow> bytes"
  pod_decode :: "bytes \<Rightarrow> 'v"
  pod_default :: 'v

locale pod_codec =
  fixes P :: "'v pod"
  assumes length_encode: "length (pod_encode P v) = pod_size P"
    and decode_encode: "pod_decode P (pod_encode P v) = v"
    and encode_decode: "length bs = pod_size P \<Longrightarrow> pod_encode P (pod_decode P bs) = bs"
begin

lemma encode_inject: "pod_encode P v = pod_encode P w \<longleftrightarrow> v = w"
  by (metis decode_encode)

lemma decode_inject:
  "length bs = pod_size P \<Longrightarrow> length cs = pod_size P \<Longrightarrow>
   pod_decode P bs = pod_decode P cs \<longleftrightarrow> bs = cs"
  by (metis encode_decode)

end

section \<open>Reading pods out of buffers\<close>

definition pod_get_packed_len :: "'v pod \<Rightarrow> nat" where
  "pod_get_packed_len P = pod_size P"

definition pod_bytes_of :: "'v pod \<Rightarrow> 'v \<Rightarrow> bytes" where
  "pod_bytes_of P v = pod_encode P v"

definition pod_from_bytes :: "'v pod \<Rightarrow> bytes \<Rightarrow> (program_error, 'v) result" where
  "pod_from_bytes P bs =
     (if length bs = pod_size P then Ok (pod_decode P bs) else Fail PE_InvalidArgument)"

definition pod_maybe_from_bytes :: "'v pod \<Rightarrow> bytes \<Rightarrow> (program_error, 'v option) result" where
  "pod_maybe_from_bytes P bs =
     (if bs = [] then Ok None
      else if length bs = pod_size P then Ok (Some (pod_decode P bs))
      else Fail PE_InvalidArgument)"

lemma pod_from_bytes_Ok [ok_simps]:
  "pod_from_bytes P bs = Inr v \<longleftrightarrow> length bs = pod_size P \<and> v = pod_decode P bs"
  by (auto simp: pod_from_bytes_def)

section \<open>Layout combinators\<close>

definition pod_pair :: "'a pod \<Rightarrow> 'b pod \<Rightarrow> ('a \<times> 'b) pod" where
  "pod_pair P Q =
     \<lparr>pod_size = pod_size P + pod_size Q,
      pod_encode = (\<lambda>(a, b). pod_encode P a @ pod_encode Q b),
      pod_decode = (\<lambda>bs. (pod_decode P (take (pod_size P) bs), pod_decode Q (drop (pod_size P) bs))),
      pod_default = (pod_default P, pod_default Q)\<rparr>"

definition pod_iso :: "('a \<Rightarrow> 'b) \<Rightarrow> ('b \<Rightarrow> 'a) \<Rightarrow> 'a pod \<Rightarrow> 'b pod" where
  "pod_iso f g P =
     \<lparr>pod_size = pod_size P, pod_encode = pod_encode P \<circ> g,
      pod_decode = f \<circ> pod_decode P, pod_default = f (pod_default P)\<rparr>"

lemma pod_codec_pair:
  assumes "pod_codec P" "pod_codec Q"
  shows "pod_codec (pod_pair P Q)"
proof
  note p = pod_codec.length_encode [OF assms(1)] pod_codec.decode_encode [OF assms(1)]
    pod_codec.encode_decode [OF assms(1)]
  note q = pod_codec.length_encode [OF assms(2)] pod_codec.decode_encode [OF assms(2)]
    pod_codec.encode_decode [OF assms(2)]
  show "length (pod_encode (pod_pair P Q) v) = pod_size (pod_pair P Q)" for v
    by (cases v) (simp add: pod_pair_def p q)
  show "pod_decode (pod_pair P Q) (pod_encode (pod_pair P Q) v) = v" for v
    by (cases v) (simp add: pod_pair_def p q)
  show "pod_encode (pod_pair P Q) (pod_decode (pod_pair P Q) bs) = bs"
    if "length bs = pod_size (pod_pair P Q)" for bs
    using that by (simp add: pod_pair_def p q)
qed

lemma pod_codec_iso:
  assumes "pod_codec P" "\<And>a. g (f a) = a" "\<And>b. f (g b) = b"
  shows "pod_codec (pod_iso f g P)"
  using assms by (auto simp: pod_codec_def pod_iso_def)

section \<open>Integers, bytes and keys\<close>

text \<open>\<open>PodU16\<close>, \<open>PodI16\<close>, \<open>PodU64\<close>, \<open>PodI64\<close>: an integer stored as its \<open>to_le_bytes\<close>.\<close>

definition pod_u16 :: "u16 pod" where
  "pod_u16 = \<lparr>pod_size = 2, pod_encode = to_le_bytes, pod_decode = from_le_bytes, pod_default = 0\<rparr>"

definition pod_u64 :: "u64 pod" where
  "pod_u64 = \<lparr>pod_size = 8, pod_encode = to_le_bytes, pod_decode = from_le_bytes, pod_default = 0\<rparr>"

definition pod_pubkey :: "pubkey pod" where
  "pod_pubkey = \<lparr>pod_size = 32, pod_encode = to_le_bytes, pod_decode = from_le_bytes, pod_default = 0\<rparr>"

definition pod_u8 :: "u8 pod" where
  "pod_u8 = \<lparr>pod_size = 1, pod_encode = (\<lambda>b. [b]), pod_decode = (\<lambda>bs. bs ! 0), pod_default = 0\<rparr>"

definition pod_unit :: "unit pod" where
  "pod_unit = \<lparr>pod_size = 0, pod_encode = (\<lambda>_. []), pod_decode = (\<lambda>_. ()), pod_default = ()\<rparr>"

interpretation u16_pod: pod_codec pod_u16
  by unfold_locales (simp_all add: pod_u16_def bytes_simps)

interpretation u64_pod: pod_codec pod_u64
  by unfold_locales (simp_all add: pod_u64_def bytes_simps)

interpretation pubkey_pod: pod_codec pod_pubkey
  by unfold_locales (simp_all add: pod_pubkey_def bytes_simps)

interpretation u8_pod: pod_codec pod_u8
  by unfold_locales (auto simp: pod_u8_def length_Suc_conv)

interpretation unit_pod: pod_codec pod_unit
  by unfold_locales (simp_all add: pod_unit_def)

lemmas pod_codecs = u16_pod.pod_codec_axioms u64_pod.pod_codec_axioms
  pubkey_pod.pod_codec_axioms u8_pod.pod_codec_axioms unit_pod.pod_codec_axioms

lemmas pod_layout = pod_pair_def pod_iso_def pod_u16_def pod_u64_def pod_pubkey_def
  pod_u8_def pod_unit_def

section \<open>Optional keys and booleans\<close>

text \<open>
  \<open>OptionalNonZeroPubkey\<close> stores a key, with the zero key for \<open>None\<close>; \<open>PodBool\<close> stores
  a byte, with zero for \<open>false\<close>.
\<close>

definition optional_key_try_from :: "pubkey option \<Rightarrow> (program_error, pubkey) result" where
  "optional_key_try_from p = (case p of
      None \<Rightarrow> Ok 0
    | Some k \<Rightarrow> if k = 0 then Fail PE_InvalidArgument else Ok k)"

definition optional_key_get :: "pubkey \<Rightarrow> pubkey option" where
  "optional_key_get k = (if k = 0 then None else Some k)"

definition pod_bool_from :: "bool \<Rightarrow> u8" where
  "pod_bool_from b = (if b then 1 else 0)"

definition pod_bool_get :: "u8 \<Rightarrow> bool" where
  "pod_bool_get b \<longleftrightarrow> b \<noteq> 0"

lemma pod_bool_round_trip [simp]: "pod_bool_get (pod_bool_from b) = b"
  by (simp add: pod_bool_get_def pod_bool_from_def)

lemma optional_key_try_from_Ok [ok_simps]:
  "optional_key_try_from p = Inr k \<longleftrightarrow> p = optional_key_get k"
  by (auto simp: optional_key_try_from_def optional_key_get_def split: option.splits if_splits)

end
