(* ===== verification/TokenState.thy ===== *)
theory TokenState
  imports TokenPod
begin

text \<open>
  The state types of the token program and their packed layouts
  (\<open>spl_token_2022/state.rs\<close>, \<open>generic_token_account.rs\<close>): \<open>Mint\<close> (82 bytes),
  \<open>Account\<close> (165 bytes) and \<open>Multisig\<close> (355 bytes). The locale \<open>packable\<close> is the
  contract of \<open>Pack\<close> for a type: packing fills exactly \<open>LEN\<close> bytes and unpacking
  reads the value back, and what was unpacked packs to the same bytes again.

  Packing writes into an existing slice: an absent \<open>COption\<close> only clears the tag
  and leaves the body's bytes, so \<open>pack_into_slice\<close> takes the old bytes.
\<close>

section \<open>COption fields\<close>

definition pack_coption_key :: "pubkey option \<Rightarrow> bytes \<Rightarrow> bytes" where
  "pack_coption_key src dst = (case src of
      Some key \<Rightarrow> [1, 0, 0, 0] @ to_le_bytes key
    | None \<Rightarrow> [0, 0, 0, 0] @ drop 4 dst)"

definition unpack_coption_key :: "bytes \<Rightarrow> (program_error, pubkey option) result" where
  "unpack_coption_key src =
     (let tag = take 4 src; body = take 32 (drop 4 src) in
      if tag = [0, 0, 0, 0] then Ok None
      else if tag = [1, 0, 0, 0] then Ok (Some (from_le_bytes body))
      else Fail PE_InvalidAccountData)"

definition pack_coption_u64 :: "u64 option \<Rightarrow> bytes \<Rightarrow> bytes" where
  "pack_coption_u64 src dst = (case src of
      Some amount \<Rightarrow> [1, 0, 0, 0] @ to_le_bytes amount
    | None \<Rightarrow> [0, 0, 0, 0] @ drop 4 dst)"

definition unpack_coption_u64 :: "bytes \<Rightarrow> (program_error, u64 option) result" where
  "unpack_coption_u64 src =
     (let tag = take 4 src; body = take 8 (drop 4 src) in
      if tag = [0, 0, 0, 0] then Ok None
      else if tag = [1, 0, 0, 0] then Ok (Some (from_le_bytes body))
      else Fail PE_InvalidAccountData)"

lemma length_pack_coption [bytes_simps]:
  "length dst = 36 \<Longrightarrow> length (pack_coption_key k dst) = 36"
  "length dst = 12 \<Longrightarrow> length (pack_coption_u64 v dst) = 12"
  by (auto simp: pack_coption_key_def pack_coption_u64_def bytes_simps split: option.splits)

lemma unpack_pack_coption [bytes_simps]:
  "unpack_coption_key (pack_coption_key k dst) = Ok k"
  "unpack_coption_u64 (pack_coption_u64 v dst) = Ok v"
  by (auto simp: pack_coption_key_def unpack_coption_key_def pack_coption_u64_def
      unpack_coption_u64_def bytes_simps split: option.splits)

lemma join_tag: "take 4 src = [a, b, c, d] \<Longrightarrow> a # b # c # d # drop 4 src = src"
  by (metis append_Cons append_Nil append_take_drop_id)

lemma pack_unpack_coption_key:
  assumes "unpack_coption_key src = Ok k" "length src = 36"
  shows "pack_coption_key k src = src"
  using assms
  by (auto simp: pack_coption_key_def unpack_coption_key_def Let_def bytes_simps join_tag split: if_splits)

lemma pack_unpack_coption_u64:
  assumes "unpack_coption_u64 src = Ok v" "length src = 12"
  shows "pack_coption_u64 v src = src"
  using assms
  by (auto simp: pack_coption_u64_def unpack_coption_u64_def Let_def bytes_simps join_tag split: if_splits)

text \<open>A boolean stored in one byte, as \<open>Mint\<close> and \<open>Multisig\<close> do.\<close>

definition unpack_bool :: "bytes \<Rightarrow> (program_error, bool) result" where
  "unpack_bool b = (if b = [0] then Ok False else if b = [1] then Ok True
     else Fail PE_InvalidAccountData)"

definition pack_bool :: "bool \<Rightarrow> bytes" where
  "pack_bool b = [if b then 1 else 0]"

lemma bool_bytes [bytes_simps]:
  "length (pack_bool b) = 1" "unpack_bool (pack_bool b) = Ok b"
  by (simp_all add: pack_bool_def unpack_bool_def)

lemma unpack_bool_Ok: "unpack_bool bs = Ok b \<Longrightarrow> pack_bool b = bs"
  by (auto simp: unpack_bool_def pack_bool_def split: if_splits)

section \<open>Mint\<close>

record mint =
  mint_authority :: "pubkey option"
  mint_supply :: u64
  decimals :: u8
  mint_is_initialized :: bool
  freeze_authority :: "pubkey option"

definition mint_default :: mint where
  "mint_default = \<lparr>mint_authority = None, mint_supply = 0, decimals = 0,
     mint_is_initialized = False, freeze_authority = None\<rparr>"

definition mint_unpack_from_slice :: "bytes \<Rightarrow> (program_error, mint) result" where
  "mint_unpack_from_slice input =
     try_bind (slice input 0 82) (\<lambda>src.
     try_bind (unpack_coption_key (take 36 src)) (\<lambda>ma.
     try_bind (unpack_bool (take 1 (drop 45 src))) (\<lambda>init.
     try_bind (unpack_coption_key (take 36 (drop 46 src))) (\<lambda>fa.
     Ok \<lparr>mint_authority = ma,
         mint_supply = from_le_bytes (take 8 (drop 36 src)),
         decimals = src ! 44,
         mint_is_initialized = init,
         freeze_authority = fa\<rparr>))))"

definition mint_pack_into_slice :: "mint \<Rightarrow> bytes \<Rightarrow> bytes" where
  "mint_pack_into_slice m dst =
     pack_coption_key (mint_authority m) (take 36 dst) @
     to_le_bytes (mint_supply m) @ [decimals m] @ pack_bool (mint_is_initialized m) @
     pack_coption_key (freeze_authority m) (take 36 (drop 46 dst))"

section \<open>Token accounts\<close>

datatype account_state = AS_Uninitialized | AS_Initialized | AS_Frozen

definition account_state_to_u8 :: "account_state \<Rightarrow> u8" where
  "account_state_to_u8 s = (case s of AS_Uninitialized \<Rightarrow> 0 | AS_Initialized \<Rightarrow> 1 | AS_Frozen \<Rightarrow> 2)"

definition account_state_try_from :: "u8 \<Rightarrow> account_state option" where
  "account_state_try_from b =
     (if b = 0 then Some AS_Uninitialized else if b = 1 then Some AS_Initialized
      else if b = 2 then Some AS_Frozen else None)"

lemma account_state_round_trip [simp]:
  "account_state_try_from (account_state_to_u8 s) = Some s"
  by (cases s) (simp_all add: account_state_try_from_def account_state_to_u8_def)

lemma account_state_try_from_Some:
  "account_state_try_from b = Some s \<Longrightarrow> account_state_to_u8 s = b"
  by (auto simp: account_state_try_from_def account_state_to_u8_def split: if_splits)

record token_account =
  acc_mint :: pubkey
  acc_owner :: pubkey
  amount :: u64
  delegate :: "pubkey option"
  acc_state :: account_state
  is_native_reserve :: "u64 option"
  delegated_amount :: u64
  close_authority :: "pubkey option"

definition is_frozen :: "token_account \<Rightarrow> bool" where
  "is_frozen a \<longleftrightarrow> acc_state a = AS_Frozen"

definition is_native :: "token_account \<Rightarrow> bool" where
  "is_native a \<longleftrightarrow> is_native_reserve a \<noteq> None"

lemma state_of_amount [simp]:
  "is_frozen (a\<lparr>amount := n\<rparr>) = is_frozen a" "is_native (a\<lparr>amount := n\<rparr>) = is_native a"
  by (simp_all add: is_frozen_def is_native_def)

definition is_owned_by_system_program_or_incinerator :: "token_env \<Rightarrow> token_account \<Rightarrow> bool" where
  "is_owned_by_system_program_or_incinerator E a \<longleftrightarrow>
     acc_owner a = env_system_program E \<or> acc_owner a = env_incinerator E"

definition account_unpack_from_slice :: "bytes \<Rightarrow> (program_error, token_account) result" where
  "account_unpack_from_slice input =
     try_bind (slice input 0 165) (\<lambda>src.
     try_bind (unpack_coption_key (take 36 (drop 72 src))) (\<lambda>del.
     try_bind (ok_or (account_state_try_from (src ! 108)) PE_InvalidAccountData) (\<lambda>st.
     try_bind (unpack_coption_u64 (take 12 (drop 109 src))) (\<lambda>nat_res.
     try_bind (unpack_coption_key (take 36 (drop 129 src))) (\<lambda>close.
     Ok \<lparr>acc_mint = from_le_bytes (take 32 src),
         acc_owner = from_le_bytes (take 32 (drop 32 src)),
         amount = from_le_bytes (take 8 (drop 64 src)),
         delegate = del,
         acc_state = st,
         is_native_reserve = nat_res,
         delegated_amount = from_le_bytes (take 8 (drop 121 src)),
         close_authority = close\<rparr>)))))"

definition account_pack_into_slice :: "token_account \<Rightarrow> bytes \<Rightarrow> bytes" where
  "account_pack_into_slice a dst =
     to_le_bytes (acc_mint a) @ to_le_bytes (acc_owner a) @ to_le_bytes (amount a) @
     pack_coption_key (delegate a) (take 36 (drop 72 dst)) @
     [account_state_to_u8 (acc_state a)] @
     pack_coption_u64 (is_native_reserve a) (take 12 (drop 109 dst)) @
     to_le_bytes (delegated_amount a) @
     pack_coption_key (close_authority a) (take 36 (drop 129 dst))"

section \<open>Multisig\<close>

definition MIN_SIGNERS :: nat where "MIN_SIGNERS = 1"
definition MAX_SIGNERS :: nat where "MAX_SIGNERS = 11"

definition is_valid_signer_index :: "nat \<Rightarrow> bool" where
  "is_valid_signer_index i \<longleftrightarrow> MIN_SIGNERS \<le> i \<and> i \<le> MAX_SIGNERS"

record multisig =
  ms_m :: u8
  ms_n :: u8
  ms_is_initialized :: bool
  ms_signers :: "pubkey list"

text \<open>\<open>signers\<close> is an array of \<open>MAX_SIGNERS\<close> keys.\<close>

fun chunk_keys :: "nat \<Rightarrow> bytes \<Rightarrow> pubkey list" where
  "chunk_keys 0 bs = []"
| "chunk_keys (Suc n) bs = from_le_bytes (take 32 bs) # chunk_keys n (drop 32 bs)"

definition multisig_unpack_from_slice :: "bytes \<Rightarrow> (program_error, multisig) result" where
  "multisig_unpack_from_slice input =
     try_bind (slice input 0 355) (\<lambda>src.
     try_bind (unpack_bool (take 1 (drop 2 src))) (\<lambda>init.
     Ok \<lparr>ms_m = src ! 0, ms_n = src ! 1, ms_is_initialized = init,
         ms_signers = chunk_keys MAX_SIGNERS (drop 3 src)\<rparr>))"

definition multisig_pack_into_slice :: "multisig \<Rightarrow> bytes \<Rightarrow> bytes" where
  "multisig_pack_into_slice s dst =
     [ms_m s] @ [ms_n s] @ pack_bool (ms_is_initialized s) @ concat (map to_le_bytes (ms_signers s))"

definition multisig_wf :: "multisig \<Rightarrow> bool" where
  "multisig_wf s \<longleftrightarrow> length (ms_signers s) = MAX_SIGNERS"

section \<open>The Pack contract\<close>

datatype account_type = AT_Uninitialized | AT_Mint | AT_Account

record 's pack_type =
  pk_len :: nat
  pk_unpack_from_slice :: "bytes \<Rightarrow> (program_error, 's) result"
  pk_pack_into_slice :: "'s \<Rightarrow> bytes \<Rightarrow> bytes"
  pk_is_initialized :: "'s \<Rightarrow> bool"
  pk_valid :: "'s \<Rightarrow> bool"

text \<open>\<open>pk_valid\<close> is the type's own invariant: the length of a multisig's array.\<close>

locale packable =
  fixes S :: "'s pack_type"
  assumes length_pack:
      "length dst = pk_len S \<Longrightarrow> pk_valid S s \<Longrightarrow> length (pk_pack_into_slice S s dst) = pk_len S"
    and unpack_pack:
      "length dst = pk_len S \<Longrightarrow> pk_valid S s \<Longrightarrow>
       pk_unpack_from_slice S (pk_pack_into_slice S s dst) = Ok s"
    and pack_unpack:
      "length src = pk_len S \<Longrightarrow> pk_unpack_from_slice S src = Ok s \<Longrightarrow>
       pk_pack_into_slice S s src = src"
    and unpack_valid:
      "length src = pk_len S \<Longrightarrow> pk_unpack_from_slice S src = Ok s \<Longrightarrow> pk_valid S s"
    and unpack_no_panic: "length src = pk_len S \<Longrightarrow> no_panic (pk_unpack_from_slice S src)"
begin

lemma unpack_inj:
  assumes "length src = pk_len S" "length src' = pk_len S"
    "pk_unpack_from_slice S src = Ok s" "pk_unpack_from_slice S src' = Ok s"
  shows "pk_pack_into_slice S s src = src \<and> pk_pack_into_slice S s src' = src'"
  using assms pack_unpack by blast

lemma repack:
  assumes "length src = pk_len S" "pk_valid S s" "pk_valid S t"
  shows "pk_unpack_from_slice S (pk_pack_into_slice S t (pk_pack_into_slice S s src)) = Ok t"
  using assms length_pack unpack_pack by blast

end

definition mint_pack :: "mint pack_type" where
  "mint_pack = \<lparr>pk_len = 82, pk_unpack_from_slice = mint_unpack_from_slice,
     pk_pack_into_slice = mint_pack_into_slice, pk_is_initialized = mint_is_initialized,
     pk_valid = (\<lambda>_. True)\<rparr>"

definition account_is_initialized :: "token_account \<Rightarrow> bool" where
  "account_is_initialized a \<longleftrightarrow> acc_state a \<noteq> AS_Uninitialized"

definition account_pack :: "token_account pack_type" where
  "account_pack = \<lparr>pk_len = 165, pk_unpack_from_slice = account_unpack_from_slice,
     pk_pack_into_slice = account_pack_into_slice,
     pk_is_initialized = account_is_initialized,
     pk_valid = (\<lambda>_. True)\<rparr>"

definition multisig_pack :: "multisig pack_type" where
  "multisig_pack = \<lparr>pk_len = 355, pk_unpack_from_slice = multisig_unpack_from_slice,
     pk_pack_into_slice = multisig_pack_into_slice, pk_is_initialized = ms_is_initialized,
     pk_valid = multisig_wf\<rparr>"

lemma byte_at: "i < length xs \<Longrightarrow> [xs ! i] = take 1 (drop i xs)"
  by (cases "drop i xs") (auto simp: nth_via_drop)

text \<open>Consecutive fields of a slice joined back together.\<close>

lemma join_drop: "j = i + n \<Longrightarrow> take n (drop i xs) @ drop j xs = drop i xs"
  by (metis add.commute append_take_drop_id drop_drop)

lemma join_drop_Cons: "j = Suc i \<Longrightarrow> i < length xs \<Longrightarrow> xs ! i # drop j xs = drop i xs"
  by (simp add: Cons_nth_drop_Suc)

interpretation mint_pk: packable mint_pack
proof
  show "length (pk_pack_into_slice mint_pack s dst) = pk_len mint_pack"
    if "length dst = pk_len mint_pack" for s dst
    using that by (simp add: mint_pack_def mint_pack_into_slice_def bytes_simps)
  show "pk_unpack_from_slice mint_pack (pk_pack_into_slice mint_pack s dst) = Ok s"
    if "length dst = pk_len mint_pack" for s dst
    using that by (simp add: mint_pack_def mint_pack_into_slice_def mint_unpack_from_slice_def
        slice_def nth_append bytes_simps)
  show "no_panic (pk_unpack_from_slice mint_pack src)" if "length src = pk_len mint_pack" for src
    using that by (auto simp: mint_pack_def mint_unpack_from_slice_def slice_def
        unpack_coption_key_def unpack_bool_def Let_def intro!: no_panic_bind)
  show "pk_pack_into_slice mint_pack s src = src"
    if "length src = pk_len mint_pack" "pk_unpack_from_slice mint_pack src = Ok s" for src s
    using that
    by (auto simp: mint_pack_def mint_pack_into_slice_def mint_unpack_from_slice_def ok_simps
        pack_unpack_coption_key unpack_bool_Ok bytes_simps join_drop join_drop_Cons)
qed (simp_all add: mint_pack_def)

interpretation account_pk: packable account_pack
proof
  show "length (pk_pack_into_slice account_pack s dst) = pk_len account_pack"
    if "length dst = pk_len account_pack" for s dst
    using that by (simp add: account_pack_def account_pack_into_slice_def bytes_simps)
  show "pk_unpack_from_slice account_pack (pk_pack_into_slice account_pack s dst) = Ok s"
    if "length dst = pk_len account_pack" for s dst
    using that by (simp add: account_pack_def account_pack_into_slice_def
        account_unpack_from_slice_def slice_def nth_append bytes_simps)
  show "no_panic (pk_unpack_from_slice account_pack src)"
    if "length src = pk_len account_pack" for src
    using that by (auto simp: account_pack_def account_unpack_from_slice_def slice_def
        unpack_coption_key_def unpack_coption_u64_def ok_or_def Let_def
        intro!: no_panic_bind split: option.splits)
  show "pk_pack_into_slice account_pack s src = src"
    if "length src = pk_len account_pack" "pk_unpack_from_slice account_pack src = Ok s" for src s
    using that
    by (auto simp: account_pack_def account_pack_into_slice_def account_unpack_from_slice_def
        ok_simps pack_unpack_coption_key pack_unpack_coption_u64 bytes_simps
        join_drop join_drop_Cons dest!: account_state_try_from_Some)
qed (simp_all add: account_pack_def)

lemma length_chunk_keys [simp]: "length (chunk_keys n bs) = n"
  by (induction n arbitrary: bs) auto

lemma chunk_keys_concat: "chunk_keys (length ks) (concat (map to_le_bytes ks)) = ks"
  by (induction ks) (auto simp: bytes_simps)

lemma concat_chunk_keys:
  "length bs = 32 * n \<Longrightarrow> concat (map to_le_bytes (chunk_keys n bs)) = bs"
  by (induction n arbitrary: bs) (auto simp: bytes_simps)

lemma length_concat_keys: "length (concat (map to_le_bytes (ks :: pubkey list))) = 32 * length ks"
  by (induction ks) (auto simp: bytes_simps)

interpretation multisig_pk: packable multisig_pack
proof
  show "length (pk_pack_into_slice multisig_pack s dst) = pk_len multisig_pack"
    if "pk_valid multisig_pack s" for s dst
    using that by (simp add: multisig_pack_def multisig_pack_into_slice_def multisig_wf_def
        length_concat_keys MAX_SIGNERS_def bytes_simps)
  show "pk_unpack_from_slice multisig_pack (pk_pack_into_slice multisig_pack s dst) = Ok s"
    if "pk_valid multisig_pack s" for s dst
    using that chunk_keys_concat [of "ms_signers s"]
    by (simp add: multisig_pack_def multisig_pack_into_slice_def multisig_unpack_from_slice_def
        multisig_wf_def slice_def length_concat_keys MAX_SIGNERS_def pack_bool_def unpack_bool_def)
  show "no_panic (pk_unpack_from_slice multisig_pack src)"
    if "length src = pk_len multisig_pack" for src
    using that by (auto simp: multisig_pack_def multisig_unpack_from_slice_def slice_def
        unpack_bool_def intro!: no_panic_bind)
  show "pk_pack_into_slice multisig_pack s src = src"
    if "length src = pk_len multisig_pack" "pk_unpack_from_slice multisig_pack src = Ok s" for src s
    using that
    by (auto simp: multisig_pack_def multisig_pack_into_slice_def multisig_unpack_from_slice_def
        ok_simps concat_chunk_keys MAX_SIGNERS_def bytes_simps join_drop join_drop_Cons
        dest!: unpack_bool_Ok)
  show "pk_valid multisig_pack s"
    if "length src = pk_len multisig_pack" "pk_unpack_from_slice multisig_pack src = Ok s" for src s
    using that by (auto simp: multisig_pack_def multisig_unpack_from_slice_def multisig_wf_def ok_simps)
qed

section \<open>Provided methods of Pack\<close>

text \<open>
  \<open>Pack::unpack_unchecked\<close> checks the length and unpacks, \<open>Pack::unpack\<close> also
  requires an initialized value, \<open>Pack::pack\<close> checks the length and packs. Their error
  values, and which other lengths they accept, are the environment's.
\<close>

definition pack_check_len :: "token_env \<Rightarrow> 's pack_type \<Rightarrow> bytes \<Rightarrow> (program_error, unit) result" where
  "pack_check_len E S input = (case env_pack_len_error E (pk_len S) (length input) of
      Some e \<Rightarrow> Fail e | None \<Rightarrow> Ok ())"

definition unpack_unchecked :: "token_env \<Rightarrow> 's pack_type \<Rightarrow> bytes \<Rightarrow> (program_error, 's) result" where
  "unpack_unchecked E S input =
     try_bind (pack_check_len E S input) (\<lambda>_. pk_unpack_from_slice S input)"

definition unpack :: "token_env \<Rightarrow> 's pack_type \<Rightarrow> bytes \<Rightarrow> (program_error, 's) result" where
  "unpack E S input =
     try_bind (unpack_unchecked E S input) (\<lambda>v.
     if pk_is_initialized S v then Ok v else Fail (env_pack_uninitialized E))"

definition pack_into :: "token_env \<Rightarrow> 's pack_type \<Rightarrow> 's \<Rightarrow> bytes \<Rightarrow> (program_error, bytes) result" where
  "pack_into E S v dst =
     try_bind (pack_check_len E S dst) (\<lambda>_. Ok (pk_pack_into_slice S v dst))"

lemma pack_check_len_ok [simp]:
  "pack_ok E \<Longrightarrow> length input = pk_len S \<Longrightarrow> pack_check_len E S input = Ok ()"
  by (simp add: pack_check_len_def pack_ok_def)

lemma unpack_eq_Ok:
  "pack_ok E \<Longrightarrow> length input = pk_len S \<Longrightarrow>
   unpack E S input = Inr v \<longleftrightarrow> pk_unpack_from_slice S input = Ok v \<and> pk_is_initialized S v"
  by (auto simp: unpack_def unpack_unchecked_def ok_simps)

lemma pack_type_simps [simp]:
  "pk_len mint_pack = 82" "pk_len account_pack = 165" "pk_len multisig_pack = 355"
  "pk_is_initialized mint_pack = mint_is_initialized"
  "pk_is_initialized account_pack = account_is_initialized"
  "pk_is_initialized multisig_pack = ms_is_initialized"
  "pk_unpack_from_slice mint_pack = mint_unpack_from_slice"
  "pk_unpack_from_slice account_pack = account_unpack_from_slice"
  "pk_unpack_from_slice multisig_pack = multisig_unpack_from_slice"
  "pk_pack_into_slice mint_pack = mint_pack_into_slice"
  "pk_pack_into_slice account_pack = account_pack_into_slice"
  "pk_pack_into_slice multisig_pack = multisig_pack_into_slice"
  "pk_valid mint_pack s" "pk_valid account_pack a"
  by (simp_all add: mint_pack_def account_pack_def multisig_pack_def)

section \<open>Generic token accounts\<close>

definition ACCOUNT_INITIALIZED_INDEX :: nat where
  "ACCOUNT_INITIALIZED_INDEX = 108"

text \<open>\<open>account_data.get(i).unwrap_or(&0)\<close>.\<close>

definition get_or_zero :: "bytes \<Rightarrow> nat \<Rightarrow> byte" where
  "get_or_zero bs i = (if i < length bs then bs ! i else 0)"

definition generic_is_initialized_account :: "bytes \<Rightarrow> bool" where
  "generic_is_initialized_account bs \<longleftrightarrow> get_or_zero bs ACCOUNT_INITIALIZED_INDEX \<noteq> 0"

definition account_type_to_u8 :: "account_type \<Rightarrow> u8" where
  "account_type_to_u8 t = (case t of AT_Uninitialized \<Rightarrow> 0 | AT_Mint \<Rightarrow> 1 | AT_Account \<Rightarrow> 2)"

definition account_type_try_from :: "u8 \<Rightarrow> account_type option" where
  "account_type_try_from b = (if b = 0 then Some AT_Uninitialized
     else if b = 1 then Some AT_Mint else if b = 2 then Some AT_Account else None)"

definition valid_account_data :: "bytes \<Rightarrow> bool" where
  "valid_account_data bs \<longleftrightarrow>
     length bs = pk_len account_pack \<and> generic_is_initialized_account bs \<or>
     (length bs \<ge> pk_len account_pack \<and> length bs \<noteq> pk_len multisig_pack \<and>
      account_type_to_u8 AT_Account = get_or_zero bs (pk_len account_pack) \<and>
      generic_is_initialized_account bs)"

definition unpack_pubkey_unchecked :: "bytes \<Rightarrow> nat \<Rightarrow> (program_error, pubkey) result" where
  "unpack_pubkey_unchecked bs offset =
     try_bind (slice bs offset (offset + 32)) (\<lambda>k. Ok (from_le_bytes k))"

definition unpack_account_owner :: "bytes \<Rightarrow> (program_error, pubkey option) result" where
  "unpack_account_owner bs =
     (if valid_account_data bs
      then try_bind (unpack_pubkey_unchecked bs 32) (\<lambda>k. Ok (Some k)) else Ok None)"

definition unpack_account_mint :: "bytes \<Rightarrow> (program_error, pubkey option) result" where
  "unpack_account_mint bs =
     (if valid_account_data bs
      then try_bind (unpack_pubkey_unchecked bs 0) (\<lambda>k. Ok (Some k)) else Ok None)"

lemma account_type_round_trip [simp]: "account_type_try_from (account_type_to_u8 t) = Some t"
  by (cases t) (simp_all add: account_type_try_from_def account_type_to_u8_def)

lemma account_type_try_from_Some [dest]:
  "account_type_try_from b = Some t \<Longrightarrow> b = account_type_to_u8 t"
  by (auto simp: account_type_try_from_def account_type_to_u8_def split: if_splits)

lemma account_type_to_u8_inj [simp]: "account_type_to_u8 a = account_type_to_u8 b \<longleftrightarrow> a = b"
  by (cases a; cases b) (simp_all add: account_type_to_u8_def)

end
