(* ===== verification/TransferFee.thy ===== *)
theory TransferFee
  imports TokenPod
begin

text \<open>
  The transfer-fee extension's data and arithmetic (\<open>extension/transfer_fee/mod.rs\<close>):
  the fee of a transfer in 128-bit arithmetic, the two-epoch schedule of a mint's fees,
  and the withheld amount of an account. The lemmas give the fee in closed form and
  bound it by the amount and the maximum.
\<close>

definition MAX_FEE_BASIS_POINTS :: u16 where "MAX_FEE_BASIS_POINTS = 10000"
definition ONE_IN_BASIS_POINTS :: u128 where "ONE_IN_BASIS_POINTS = ucast MAX_FEE_BASIS_POINTS"

record transfer_fee =
  fee_epoch :: u64
  maximum_fee :: u64
  transfer_fee_basis_points :: u16

definition u64_try_from_u128 :: "u128 \<Rightarrow> u64 option" where
  "u64_try_from_u128 x = (if unat x < 2 ^ 64 then Some (ucast x) else None)"

definition calculate :: "transfer_fee \<Rightarrow> u64 \<Rightarrow> u64 option" where
  "calculate f amt =
     (let basis_points = ucast (transfer_fee_basis_points f) :: u128 in
      if basis_points = 0 \<or> amt = 0 then Some 0
      else Option.bind (checked_mul (ucast amt) basis_points) (\<lambda>numerator.
        let raw_fee = numerator div ONE_IN_BASIS_POINTS;
            remainder = numerator mod ONE_IN_BASIS_POINTS in
        Option.bind (if remainder > 0 then checked_add raw_fee 1 else Some raw_fee) (\<lambda>raw_fee.
        Option.bind (u64_try_from_u128 raw_fee) (\<lambda>raw_fee.
        Some (min raw_fee (maximum_fee f))))))"

record transfer_fee_config =
  transfer_fee_config_authority :: pubkey
  withdraw_withheld_authority :: pubkey
  cfg_withheld_amount :: u64
  older_transfer_fee :: transfer_fee
  newer_transfer_fee :: transfer_fee

definition get_epoch_fee :: "transfer_fee_config \<Rightarrow> u64 \<Rightarrow> transfer_fee" where
  "get_epoch_fee c epoch =
     (if epoch \<ge> fee_epoch (newer_transfer_fee c) then newer_transfer_fee c
      else older_transfer_fee c)"

definition calculate_epoch_fee :: "transfer_fee_config \<Rightarrow> u64 \<Rightarrow> u64 \<Rightarrow> u64 option" where
  "calculate_epoch_fee c epoch amt = calculate (get_epoch_fee c epoch) amt"

record transfer_fee_amount =
  withheld_amount :: u64

definition closable :: "transfer_fee_amount \<Rightarrow> (program_error, unit) result" where
  "closable a = (if withheld_amount a = 0 then Ok () else TErr TE_AccountHasWithheldTransferFees)"

section \<open>Layouts\<close>

definition transfer_fee_pod :: "transfer_fee pod" where
  "transfer_fee_pod = pod_iso
     (\<lambda>(e, m, b). \<lparr>fee_epoch = e, maximum_fee = m, transfer_fee_basis_points = b\<rparr>)
     (\<lambda>f. (fee_epoch f, maximum_fee f, transfer_fee_basis_points f))
     (pod_pair pod_u64 (pod_pair pod_u64 pod_u16))"

definition transfer_fee_config_pod :: "transfer_fee_config pod" where
  "transfer_fee_config_pod = pod_iso
     (\<lambda>(a, w, n, old, new). \<lparr>transfer_fee_config_authority = a, withdraw_withheld_authority = w,
        cfg_withheld_amount = n, older_transfer_fee = old, newer_transfer_fee = new\<rparr>)
     (\<lambda>c. (transfer_fee_config_authority c, withdraw_withheld_authority c,
        cfg_withheld_amount c, older_transfer_fee c, newer_transfer_fee c))
     (pod_pair pod_pubkey (pod_pair pod_pubkey (pod_pair pod_u64
        (pod_pair transfer_fee_pod transfer_fee_pod))))"

definition transfer_fee_amount_pod :: "transfer_fee_amount pod" where
  "transfer_fee_amount_pod = pod_iso (\<lambda>n. \<lparr>withheld_amount = n\<rparr>) withheld_amount pod_u64"

interpretation transfer_fee: pod_codec transfer_fee_pod
  unfolding transfer_fee_pod_def by (intro pod_codec_iso pod_codec_pair pod_codecs) auto

interpretation transfer_fee_config: pod_codec transfer_fee_config_pod
  unfolding transfer_fee_config_pod_def
  by (intro pod_codec_iso pod_codec_pair pod_codecs transfer_fee.pod_codec_axioms) auto

interpretation transfer_fee_amount: pod_codec transfer_fee_amount_pod
  unfolding transfer_fee_amount_pod_def by (intro pod_codec_iso pod_codecs) auto

lemma transfer_fee_sizes [simp]:
  "pod_size transfer_fee_config_pod = 108" "pod_size transfer_fee_amount_pod = 8"
  by (simp_all add: transfer_fee_config_pod_def transfer_fee_pod_def transfer_fee_amount_pod_def
      pod_layout)

section \<open>The fee in closed form\<close>

lemma unat_ONE_IN_BASIS_POINTS [simp]: "unat ONE_IN_BASIS_POINTS = 10000"
  by (simp add: ONE_IN_BASIS_POINTS_def MAX_FEE_BASIS_POINTS_def)

lemma unat_u64_u128 [simp]: "unat (ucast (x :: u64) :: u128) = unat x"
  by (rule unat_ucast_le) simp

lemma unat_u16_u128 [simp]: "unat (ucast (x :: u16) :: u128) = unat x"
  by (rule unat_ucast_le) simp

lemma u64_lt [simp]: "unat (x :: u64) < 18446744073709551616"
  using unsigned_less [of x] by simp

lemma u16_lt [simp]: "unat (x :: u16) < 65536"
  using unsigned_less [of x] by simp

text \<open>The fee before the cap: the amount's share, rounded up.\<close>

definition raw_fee_spec :: "transfer_fee \<Rightarrow> u64 \<Rightarrow> nat" where
  "raw_fee_spec f amt = (unat amt * unat (transfer_fee_basis_points f) + 9999) div 10000"

lemma raw_fee_spec_le_amount:
  "unat (transfer_fee_basis_points f) \<le> 10000 \<Longrightarrow> raw_fee_spec f amt \<le> unat amt"
proof -
  assume "unat (transfer_fee_basis_points f) \<le> 10000"
  then have "unat amt * unat (transfer_fee_basis_points f) \<le> unat amt * 10000"
    by (rule mult_le_mono2)
  then have "(unat amt * unat (transfer_fee_basis_points f) + 9999) div 10000
      \<le> (unat amt * 10000 + 9999) div 10000"
    by (intro div_le_mono) linarith
  then show ?thesis by (simp add: raw_fee_spec_def)
qed

lemma ceil_div: "(if (n :: nat) mod 10000 > 0 then n div 10000 + 1 else n div 10000) = (n + 9999) div 10000"
proof -
  have "(n + 9999) div 10000 = (n mod 10000 + 9999 + n div 10000 * 10000) div 10000"
    by simp
  also have "\<dots> = n div 10000 + (n mod 10000 + 9999) div 10000"
    by (rule div_mult_self1) simp
  also have "(n mod 10000 + 9999) div 10000 = (if n mod 10000 > 0 then 1 else 0)"
  proof (cases "n mod 10000 > 0")
    case True
    moreover have "n mod 10000 < 10000" by simp
    ultimately show ?thesis by (simp add: div_nat_eqI)
  qed simp
  finally show ?thesis by simp
qed

lemma mult_u64_u16_bound: "unat (a :: u64) * unat (b :: u16) < 2 ^ 80"
proof -
  have "unat a * unat b < 18446744073709551616 * 65536"
    by (rule mult_strict_mono') simp_all
  then show ?thesis by simp
qed

lemma calculate_eq:
  "calculate f amt =
     (if raw_fee_spec f amt < 2 ^ 64
      then Some (word_of_nat (min (raw_fee_spec f amt) (unat (maximum_fee f)))) else None)"
proof -
  let ?a = "ucast amt :: u128" and ?b = "ucast (transfer_fee_basis_points f) :: u128"
  let ?n = "unat amt * unat (transfer_fee_basis_points f)"
  have n: "?n < 2 ^ 80" by (rule mult_u64_u16_bound)
  have mul: "unat (?a * ?b) = ?n" and cm: "checked_mul ?a ?b = Some (?a * ?b)"
    using n by (simp_all add: unat_word_ariths checked_mul_def)
  define raw where "raw = (if (?a * ?b) mod ONE_IN_BASIS_POINTS > 0
     then ?a * ?b div ONE_IN_BASIS_POINTS + 1 else ?a * ?b div ONE_IN_BASIS_POINTS)"
  have dm: "unat (?a * ?b div ONE_IN_BASIS_POINTS) = ?n div 10000"
    "unat ((?a * ?b) mod ONE_IN_BASIS_POINTS) = ?n mod 10000"
    by (simp_all add: unat_div_distrib unat_mod_distrib mul)
  then have pos: "(?a * ?b) mod ONE_IN_BASIS_POINTS > 0 \<longleftrightarrow> ?n mod 10000 > 0"
    by (simp add: word_less_nat_alt)
  have suc: "unat (?a * ?b div ONE_IN_BASIS_POINTS + 1) = ?n div 10000 + 1"
    using n dm by (simp add: unat_word_ariths)
  have raw: "unat raw = raw_fee_spec f amt"
    unfolding raw_def raw_fee_spec_def ceil_div [symmetric] by (simp add: pos suc dm)
  have ca: "(if (?a * ?b) mod ONE_IN_BASIS_POINTS > 0
      then checked_add (?a * ?b div ONE_IN_BASIS_POINTS) 1
      else Some (?a * ?b div ONE_IN_BASIS_POINTS)) = Some raw"
    using suc dm by (auto simp: raw_def checked_add_Some)
  show ?thesis
  proof (cases "?b = 0 \<or> amt = 0")
    case True
    then have "?n = 0" by (auto simp: unat_eq_0 [symmetric] simp del: unat_eq_0 dest: arg_cong [of _ _ unat])
    then show ?thesis using True by (auto simp: calculate_def raw_fee_spec_def)
  next
    case False
    have m: "min (ucast raw) (maximum_fee f) =
        word_of_nat (min (raw_fee_spec f amt) (unat (maximum_fee f)))"
      if "raw_fee_spec f amt < 2 ^ 64"
      using that raw ucast_u64_of_nat [of raw]
      by (auto simp: word_unat_eq_iff unat_of_nat min_def word_le_nat_alt)
    show ?thesis
      using False m by (simp add: calculate_def Let_def cm ca u64_try_from_u128_def raw)
  qed
qed

lemma calculate_Some:
  assumes "unat (transfer_fee_basis_points f) \<le> 10000"
  shows "\<exists>fee. calculate f amt = Some fee \<and>
    unat fee = min (raw_fee_spec f amt) (unat (maximum_fee f))"
proof -
  have lt: "raw_fee_spec f amt < 2 ^ 64"
    using le_less_trans [OF raw_fee_spec_le_amount [OF assms, of amt] u64_lt] by simp
  then have "unat (word_of_nat (min (raw_fee_spec f amt) (unat (maximum_fee f))) :: u64) =
      min (raw_fee_spec f amt) (unat (maximum_fee f))"
    by (simp add: unat_of_nat min_def)
  with lt show ?thesis by (simp add: calculate_eq)
qed

end
