(* ===== verification/InterestBearing.thy ===== *)
theory InterestBearing
  imports TokenPod "HOL-Library.Signed_Division"
begin

text \<open>
  The interest-bearing extension's data and its rate arithmetic
  (\<open>extension/interest_bearing_mint/mod.rs\<close>). Timestamps and rates are the signed
  readings of stored \<open>i64\<close> and \<open>i16\<close> values; the average is computed in \<open>i128\<close>, here
  \<^typ>\<open>int\<close> with every overflow check written out, and Rust's division truncates
  (\<open>sdiv\<close>). The conversions to and from UI amounts use \<open>f64::exp\<close> and are parameters
  of the environment.
\<close>

record interest_bearing_config =
  rate_authority :: pubkey
  initialization_timestamp :: i64
  pre_update_average_rate :: i16
  last_update_timestamp :: i64
  current_rate :: i16

definition interest_bearing_config_pod :: "interest_bearing_config pod" where
  "interest_bearing_config_pod = pod_iso
     (\<lambda>(a, i, p, l, c). \<lparr>rate_authority = a, initialization_timestamp = i,
        pre_update_average_rate = p, last_update_timestamp = l, current_rate = c\<rparr>)
     (\<lambda>c. (rate_authority c, initialization_timestamp c, pre_update_average_rate c,
        last_update_timestamp c, current_rate c))
     (pod_pair pod_pubkey (pod_pair pod_u64 (pod_pair pod_u16 (pod_pair pod_u64 pod_u16))))"

interpretation interest_bearing_config: pod_codec interest_bearing_config_pod
  unfolding interest_bearing_config_pod_def
  by (intro pod_codec_iso pod_codec_pair pod_codecs) auto

lemma interest_bearing_config_size [simp]: "pod_size interest_bearing_config_pod = 52"
  by (simp add: interest_bearing_config_pod_def pod_layout)

section \<open>Signed arithmetic\<close>

definition fit_i64 :: "int \<Rightarrow> int option" where
  "fit_i64 x = (if - (2 ^ 63) \<le> x \<and> x < 2 ^ 63 then Some x else None)"

definition fit_i128 :: "int \<Rightarrow> int option" where
  "fit_i128 x = (if - (2 ^ 127) \<le> x \<and> x < 2 ^ 127 then Some x else None)"

definition checked_div_i128 :: "int \<Rightarrow> int \<Rightarrow> int option" where
  "checked_div_i128 a b = (if b = 0 then None else fit_i128 (a sdiv b))"

definition i16_try_from :: "int \<Rightarrow> i16 option" where
  "i16_try_from x = (if - (2 ^ 15) \<le> x \<and> x < 2 ^ 15 then Some (word_of_int x) else None)"

definition pre_update_timespan :: "interest_bearing_config \<Rightarrow> int option" where
  "pre_update_timespan c =
     fit_i64 (sint (last_update_timestamp c) - sint (initialization_timestamp c))"

definition post_update_timespan :: "interest_bearing_config \<Rightarrow> i64 \<Rightarrow> int option" where
  "post_update_timespan c unix_timestamp =
     fit_i64 (sint unix_timestamp - sint (last_update_timestamp c))"

definition time_weighted_average_rate :: "interest_bearing_config \<Rightarrow> i64 \<Rightarrow> i16 option" where
  "time_weighted_average_rate c current_timestamp =
     (let r_1 = sint (pre_update_average_rate c); r_2 = sint (current_rate c) in
      Option.bind (fit_i128 (sint (last_update_timestamp c) - sint (initialization_timestamp c))) (\<lambda>t_1.
      Option.bind (fit_i128 (sint current_timestamp - sint (last_update_timestamp c))) (\<lambda>t_2.
      Option.bind (fit_i128 (t_1 + t_2)) (\<lambda>total_timespan.
      Option.bind
        (if total_timespan = 0 then Some r_2
         else Option.bind (fit_i128 (r_1 * t_1)) (\<lambda>a.
              Option.bind (fit_i128 (r_2 * t_2)) (\<lambda>b.
              Option.bind (fit_i128 (a + b)) (\<lambda>n. checked_div_i128 n total_timespan))))
        i16_try_from))))"

section \<open>The average lies between the two rates\<close>

lemma sint_i16_bounds: "- 32768 \<le> sint (x :: i16)" "sint x < 32768"
  using sint_greater_eq [of x] sint_less [of x] by simp_all

lemma sint_i64_bounds: "- (2 ^ 63) \<le> sint (x :: i64)" "sint x < 2 ^ 63"
  using sint_greater_eq [of x] sint_less [of x] by simp_all

lemma sdiv_between:
  assumes "0 < (t :: int)" "lo * t \<le> n" "n \<le> hi * t"
  shows "lo \<le> n sdiv t" "n sdiv t \<le> hi"
proof -
  have "n sdiv t = (if 0 \<le> n then n div t else - ((- n) div t))"
    using assms(1) by (auto simp: signed_divide_int_def sgn_if)
  moreover have "lo \<le> n div t" "n div t \<le> hi"
    using assms zdiv_mono1 [of "lo * t" n t] zdiv_mono1 [of n "hi * t" t] by simp_all
  moreover have "- hi \<le> (- n) div t" "(- n) div t \<le> - lo"
    using assms zdiv_mono1 [of "(- hi) * t" "- n" t] zdiv_mono1 [of "- n" "(- lo) * t" t]
      nonzero_mult_div_cancel_right [of t "- hi"] nonzero_mult_div_cancel_right [of t "- lo"]
    by (simp_all del: mult_minus_left)
  ultimately show "lo \<le> n sdiv t" "n sdiv t \<le> hi" by auto
qed

lemma rate_times_span_bound:
  assumes "\<bar>r\<bar> \<le> 2 ^ 15" "\<bar>t\<bar> < 2 ^ 65"
  shows "\<bar>r * t :: int\<bar> \<le> 2 ^ 80"
proof -
  have "\<bar>r * t\<bar> \<le> 2 ^ 15 * 2 ^ 65"
    unfolding abs_mult using assms by (intro mult_mono) auto
  then show ?thesis by simp
qed

lemma average_between:
  fixes r1 r2 t1 t2 :: int
  assumes "0 \<le> t1" "0 \<le> t2" "0 < t1 + t2"
  shows "min r1 r2 \<le> (r1 * t1 + r2 * t2) sdiv (t1 + t2)"
    and "(r1 * t1 + r2 * t2) sdiv (t1 + t2) \<le> max r1 r2"
proof -
  have "min r1 r2 * (t1 + t2) \<le> r1 * t1 + r2 * t2"
    unfolding distrib_left using assms by (intro add_mono mult_right_mono) auto
  moreover have "r1 * t1 + r2 * t2 \<le> max r1 r2 * (t1 + t2)"
    unfolding distrib_left using assms by (intro add_mono mult_right_mono) auto
  ultimately show "min r1 r2 \<le> (r1 * t1 + r2 * t2) sdiv (t1 + t2)"
    and "(r1 * t1 + r2 * t2) sdiv (t1 + t2) \<le> max r1 r2"
    using assms(3) sdiv_between by blast+
qed

lemma average_rate_between:
  assumes "sint (initialization_timestamp c) \<le> sint (last_update_timestamp c)"
    and "sint (last_update_timestamp c) \<le> sint now"
  shows "\<exists>r. time_weighted_average_rate c now = Some r \<and>
    min (sint (pre_update_average_rate c)) (sint (current_rate c)) \<le> sint r \<and>
    sint r \<le> max (sint (pre_update_average_rate c)) (sint (current_rate c))"
proof -
  let ?r1 = "sint (pre_update_average_rate c)" and ?r2 = "sint (current_rate c)"
  define t1 where "t1 = sint (last_update_timestamp c) - sint (initialization_timestamp c)"
  define t2 where "t2 = sint now - sint (last_update_timestamp c)"
  note b = sint_i64_bounds [of "last_update_timestamp c"] sint_i64_bounds [of now]
    sint_i64_bounds [of "initialization_timestamp c"]
  have fit: "fit_i128 x = Some x" if "\<bar>x\<bar> \<le> 2 ^ 81" for x
    using that by (auto simp: fit_i128_def abs_le_iff)
  have r: "\<bar>?r1\<bar> \<le> 2 ^ 15" "\<bar>?r2\<bar> \<le> 2 ^ 15"
    using sint_i16_bounds [of "pre_update_average_rate c"] sint_i16_bounds [of "current_rate c"]
    by (simp_all add: abs_le_iff)
  have t: "0 \<le> t1" "0 \<le> t2" "\<bar>t1\<bar> < 2 ^ 65" "\<bar>t2\<bar> < 2 ^ 65" "\<bar>t1 + t2\<bar> < 2 ^ 65"
    using assms b by (auto simp: t1_def t2_def)
  have p: "\<bar>?r1 * t1\<bar> \<le> 2 ^ 80" "\<bar>?r2 * t2\<bar> \<le> 2 ^ 80"
    by (rule rate_times_span_bound [OF r(1) t(3)], rule rate_times_span_bound [OF r(2) t(4)])
  have fits: "fit_i128 t1 = Some t1" "fit_i128 t2 = Some t2"
    "fit_i128 (t1 + t2) = Some (t1 + t2)"
    "fit_i128 (?r1 * t1) = Some (?r1 * t1)" "fit_i128 (?r2 * t2) = Some (?r2 * t2)"
    "fit_i128 (?r1 * t1 + ?r2 * t2) = Some (?r1 * t1 + ?r2 * t2)"
    using t p by (auto intro!: fit)
  define avg where "avg = (if t1 + t2 = 0 then ?r2 else (?r1 * t1 + ?r2 * t2) sdiv (t1 + t2))"
  have avg: "min ?r1 ?r2 \<le> avg" "avg \<le> max ?r1 ?r2"
    using average_between [of t1 t2 ?r1 ?r2] t by (auto simp: avg_def)
  then have small: "- 32768 \<le> avg" "avg < 32768"
    using sint_i16_bounds [of "pre_update_average_rate c"] sint_i16_bounds [of "current_rate c"]
    by auto
  have "time_weighted_average_rate c now = i16_try_from avg"
    using small fit [of avg]
    unfolding time_weighted_average_rate_def t1_def [symmetric] t2_def [symmetric]
    by (auto simp: Let_def fits avg_def checked_div_i128_def abs_le_iff)
  moreover have "sint (word_of_int avg :: i16) = avg"
    using small by (simp add: sint_sbintrunc' signed_take_bit_int_eq_self)
  ultimately show ?thesis using small avg by (simp add: i16_try_from_def)
qed

end
