(* ===== verification/TokenExtension.thy ===== *)
theory TokenExtension
  imports TokenState TransferFee InterestBearing
begin

text \<open>
  Type-length-value extensions of mints and token accounts
  (\<open>spl_token_2022/extension/mod.rs\<close> and the extension types beside it). A buffer
  with extensions is the packed base state, zero padding up to \<open>BASE_ACCOUNT_LENGTH\<close>,
  one account-type byte, and TLV entries of a 2-byte type, a 2-byte length and a value.

  \<open>StateWithExtensionsMut\<close> is a record that holds the four mutable views of the
  buffer and the padding between them; \<open>swe_buffer\<close> is the buffer it borrows, which is
  what its writes leave behind. A \<open>\&mut V\<close> into the TLV data is the value together
  with its position, written back by \<open>put_extension\<close>.
\<close>

section \<open>Extension types\<close>

datatype extension_type =
    ET_Uninitialized | ET_TransferFeeConfig | ET_TransferFeeAmount | ET_MintCloseAuthority
  | ET_ConfidentialTransferMint | ET_ConfidentialTransferAccount | ET_DefaultAccountState
  | ET_ImmutableOwner | ET_MemoTransfer | ET_NonTransferable | ET_InterestBearingConfig

primrec extension_type_to_u16 :: "extension_type \<Rightarrow> u16" where
  "extension_type_to_u16 ET_Uninitialized = 0"
| "extension_type_to_u16 ET_TransferFeeConfig = 1"
| "extension_type_to_u16 ET_TransferFeeAmount = 2"
| "extension_type_to_u16 ET_MintCloseAuthority = 3"
| "extension_type_to_u16 ET_ConfidentialTransferMint = 4"
| "extension_type_to_u16 ET_ConfidentialTransferAccount = 5"
| "extension_type_to_u16 ET_DefaultAccountState = 6"
| "extension_type_to_u16 ET_ImmutableOwner = 7"
| "extension_type_to_u16 ET_MemoTransfer = 8"
| "extension_type_to_u16 ET_NonTransferable = 9"
| "extension_type_to_u16 ET_InterestBearingConfig = 10"

definition all_extension_types :: "extension_type list" where
  "all_extension_types =
     [ET_Uninitialized, ET_TransferFeeConfig, ET_TransferFeeAmount, ET_MintCloseAuthority,
      ET_ConfidentialTransferMint, ET_ConfidentialTransferAccount, ET_DefaultAccountState,
      ET_ImmutableOwner, ET_MemoTransfer, ET_NonTransferable, ET_InterestBearingConfig]"

definition extension_type_of_u16 :: "u16 \<Rightarrow> extension_type option" where
  "extension_type_of_u16 n = find (\<lambda>t. extension_type_to_u16 t = n) all_extension_types"

definition extension_type_try_from :: "bytes \<Rightarrow> (program_error, extension_type) result" where
  "extension_type_try_from a =
     (if length a \<noteq> 2 then Fail PE_InvalidAccountData
      else ok_or (extension_type_of_u16 (from_le_bytes a)) PE_InvalidAccountData)"

definition extension_type_bytes :: "extension_type \<Rightarrow> bytes" where
  "extension_type_bytes t = to_le_bytes (extension_type_to_u16 t)"

lemma extension_type_of_to_u16 [simp]:
  "extension_type_of_u16 (extension_type_to_u16 t) = Some t"
  by (cases t) (simp_all add: extension_type_of_u16_def all_extension_types_def)

lemma extension_type_round_trip [simp]:
  "extension_type_try_from (extension_type_bytes t) = Ok t" "length (extension_type_bytes t) = 2"
  by (simp_all add: extension_type_try_from_def extension_type_bytes_def bytes_simps)

lemma extension_type_try_from_Ok:
  assumes "extension_type_try_from a = Ok t"
  shows "extension_type_bytes t = a"
proof -
  have "length a = 2" "extension_type_of_u16 (from_le_bytes a) = Some t"
    using assms by (auto simp: extension_type_try_from_def ok_simps)
  moreover from this have "extension_type_to_u16 t = from_le_bytes a"
    by (auto simp: extension_type_of_u16_def find_Some_iff)
  ultimately show ?thesis by (simp add: extension_type_bytes_def bytes_simps)
qed

definition get_account_type :: "extension_type \<Rightarrow> account_type" where
  "get_account_type t = (case t of
      ET_Uninitialized \<Rightarrow> AT_Uninitialized
    | ET_TransferFeeConfig \<Rightarrow> AT_Mint
    | ET_MintCloseAuthority \<Rightarrow> AT_Mint
    | ET_ConfidentialTransferMint \<Rightarrow> AT_Mint
    | ET_DefaultAccountState \<Rightarrow> AT_Mint
    | ET_NonTransferable \<Rightarrow> AT_Mint
    | ET_InterestBearingConfig \<Rightarrow> AT_Mint
    | ET_ImmutableOwner \<Rightarrow> AT_Account
    | ET_TransferFeeAmount \<Rightarrow> AT_Account
    | ET_ConfidentialTransferAccount \<Rightarrow> AT_Account
    | ET_MemoTransfer \<Rightarrow> AT_Account)"

section \<open>The data of the small extensions\<close>

record mint_close_authority =
  mca_close_authority :: pubkey

record default_account_state =
  das_state :: u8

record memo_transfer =
  require_incoming_transfer_memos :: u8

definition mint_close_authority_pod :: "mint_close_authority pod" where
  "mint_close_authority_pod =
     pod_iso (\<lambda>k. \<lparr>mca_close_authority = k\<rparr>) mca_close_authority pod_pubkey"

definition default_account_state_pod :: "default_account_state pod" where
  "default_account_state_pod = pod_iso (\<lambda>s. \<lparr>das_state = s\<rparr>) das_state pod_u8"

definition memo_transfer_pod :: "memo_transfer pod" where
  "memo_transfer_pod = pod_iso (\<lambda>b. \<lparr>require_incoming_transfer_memos = b\<rparr>)
     require_incoming_transfer_memos pod_u8"

interpretation mint_close_authority: pod_codec mint_close_authority_pod
  unfolding mint_close_authority_pod_def by (intro pod_codec_iso pod_codecs) auto

interpretation default_account_state: pod_codec default_account_state_pod
  unfolding default_account_state_pod_def by (intro pod_codec_iso pod_codecs) auto

interpretation memo_transfer: pod_codec memo_transfer_pod
  unfolding memo_transfer_pod_def by (intro pod_codec_iso pod_codecs) auto

text \<open>An implementation of the trait \<open>Extension\<close>.\<close>

record 'v extension =
  ext_type :: extension_type
  ext_pod :: "'v pod"

definition TransferFeeConfig_ext :: "transfer_fee_config extension" where
  "TransferFeeConfig_ext = \<lparr>ext_type = ET_TransferFeeConfig, ext_pod = transfer_fee_config_pod\<rparr>"

definition TransferFeeAmount_ext :: "transfer_fee_amount extension" where
  "TransferFeeAmount_ext = \<lparr>ext_type = ET_TransferFeeAmount, ext_pod = transfer_fee_amount_pod\<rparr>"

definition MintCloseAuthority_ext :: "mint_close_authority extension" where
  "MintCloseAuthority_ext = \<lparr>ext_type = ET_MintCloseAuthority, ext_pod = mint_close_authority_pod\<rparr>"

definition DefaultAccountState_ext :: "default_account_state extension" where
  "DefaultAccountState_ext = \<lparr>ext_type = ET_DefaultAccountState, ext_pod = default_account_state_pod\<rparr>"

definition ImmutableOwner_ext :: "unit extension" where
  "ImmutableOwner_ext = \<lparr>ext_type = ET_ImmutableOwner, ext_pod = pod_unit\<rparr>"

definition MemoTransfer_ext :: "memo_transfer extension" where
  "MemoTransfer_ext = \<lparr>ext_type = ET_MemoTransfer, ext_pod = memo_transfer_pod\<rparr>"

definition NonTransferable_ext :: "unit extension" where
  "NonTransferable_ext = \<lparr>ext_type = ET_NonTransferable, ext_pod = pod_unit\<rparr>"

definition InterestBearingConfig_ext :: "interest_bearing_config extension" where
  "InterestBearingConfig_ext =
     \<lparr>ext_type = ET_InterestBearingConfig, ext_pod = interest_bearing_config_pod\<rparr>"

definition get_type_len :: "extension_type \<Rightarrow> nat" where
  "get_type_len t = (case t of
      ET_Uninitialized \<Rightarrow> 0
    | ET_TransferFeeConfig \<Rightarrow> pod_get_packed_len transfer_fee_config_pod
    | ET_TransferFeeAmount \<Rightarrow> pod_get_packed_len transfer_fee_amount_pod
    | ET_MintCloseAuthority \<Rightarrow> pod_get_packed_len mint_close_authority_pod
    | ET_ImmutableOwner \<Rightarrow> pod_get_packed_len pod_unit
    | ET_ConfidentialTransferMint \<Rightarrow> 0
    | ET_ConfidentialTransferAccount \<Rightarrow> 0
    | ET_DefaultAccountState \<Rightarrow> pod_get_packed_len default_account_state_pod
    | ET_MemoTransfer \<Rightarrow> pod_get_packed_len memo_transfer_pod
    | ET_NonTransferable \<Rightarrow> pod_get_packed_len pod_unit
    | ET_InterestBearingConfig \<Rightarrow> pod_get_packed_len interest_bearing_config_pod)"

section \<open>Lengths\<close>

definition BASE_ACCOUNT_LENGTH :: nat where
  "BASE_ACCOUNT_LENGTH = pk_len account_pack"

definition get_tlv_len :: "extension_type \<Rightarrow> nat" where
  "get_tlv_len t = get_type_len t + 2 + 2"

fun dedupe :: "extension_type list \<Rightarrow> extension_type list \<Rightarrow> extension_type list" where
  "dedupe extensions [] = extensions"
| "dedupe extensions (t # ts) =
     (if t \<in> set extensions then dedupe extensions ts else dedupe (extensions @ [t]) ts)"

definition get_total_tlv_len :: "extension_type list \<Rightarrow> nat" where
  "get_total_tlv_len ts =
     (let tlv_len = sum_list (map get_tlv_len (dedupe [] ts)) in
      if tlv_len = pk_len multisig_pack - BASE_ACCOUNT_LENGTH - 1 then tlv_len + 2 else tlv_len)"

record 's base_state =
  base_pack :: "'s pack_type"
  base_account_type :: account_type

definition Mint_base :: "mint base_state" where
  "Mint_base = \<lparr>base_pack = mint_pack, base_account_type = AT_Mint\<rparr>"

definition Account_base :: "token_account base_state" where
  "Account_base = \<lparr>base_pack = account_pack, base_account_type = AT_Account\<rparr>"

definition get_account_len :: "'s base_state \<Rightarrow> extension_type list \<Rightarrow> nat" where
  "get_account_len S ts =
     (if ts = [] then pk_len (base_pack S)
      else get_total_tlv_len ts + BASE_ACCOUNT_LENGTH + 1)"

definition get_required_init_account_extensions :: "extension_type list \<Rightarrow> extension_type list" where
  "get_required_init_account_extensions ts =
     concat (map (\<lambda>t. case t of ET_TransferFeeConfig \<Rightarrow> [ET_TransferFeeAmount] | _ \<Rightarrow> []) ts)"

end
