(* ===== verification/TokenTlv.thy ===== *)
theory TokenTlv
  imports TokenExtension
begin

text \<open>
  The TLV walk and the views of a buffer with extensions (\<open>extension/mod.rs\<close>:
  \<open>get_extension_indices\<close>, \<open>StateWithExtensions\<close>, \<open>StateWithExtensionsMut\<close>,
  \<open>set_account_type\<close>). The loops advance by at least two bytes per step, which is
  their termination measure. A length field that points past the buffer makes the
  slice of the value panic, and the model says so.
\<close>

section \<open>Walking the entries\<close>

definition length_pod :: "u16 pod" where
  "length_pod = pod_u16"

definition length_try_from :: "nat \<Rightarrow> (program_error, u16) result" where
  "length_try_from n = (if n < 2 ^ 16 then Ok (word_of_nat n) else Fail PE_AccountDataTooSmall)"

record tlv_indices =
  type_start :: nat
  length_start :: nat
  value_start :: nat

definition get_tlv_indices :: "nat \<Rightarrow> tlv_indices" where
  "get_tlv_indices start =
     \<lparr>type_start = start, length_start = start + 2,
      value_start = start + 2 + pod_get_packed_len length_pod\<rparr>"

lemma get_tlv_indices_simps [simp]:
  "type_start (get_tlv_indices s) = s" "length_start (get_tlv_indices s) = s + 2"
  "value_start (get_tlv_indices s) = s + 4"
  by (simp_all add: get_tlv_indices_def pod_get_packed_len_def length_pod_def pod_u16_def)

function get_extension_indices_from ::
  "extension_type \<Rightarrow> bytes \<Rightarrow> bool \<Rightarrow> nat \<Rightarrow> (program_error, tlv_indices) result" where
  "get_extension_indices_from V tlv init start_index =
     (if start_index < length tlv then
        let ix = get_tlv_indices start_index in
        if length tlv < value_start ix then Fail PE_InvalidAccountData
        else
          try_bind (slice tlv (type_start ix) (length_start ix)) (\<lambda>tb.
          try_bind (extension_type_try_from tb) (\<lambda>et.
          if et = ET_Uninitialized then
            if init then Ok ix
            else get_extension_indices_from V tlv init (length_start ix)
          else if et = V then Ok ix
          else if get_account_type V \<noteq> get_account_type et then TErr TE_ExtensionTypeMismatch
          else
            try_bind (slice tlv (length_start ix) (value_start ix)) (\<lambda>lb.
            try_bind (pod_from_bytes length_pod lb) (\<lambda>len.
            get_extension_indices_from V tlv init (value_start ix + unat len)))))
      else Fail PE_InvalidAccountData)"
  by pat_completeness auto
termination
  by (relation "measure (\<lambda>(V, tlv, init, start_index). length tlv - start_index)") auto

declare get_extension_indices_from.simps [simp del]

definition get_extension_indices ::
  "extension_type \<Rightarrow> bytes \<Rightarrow> bool \<Rightarrow> (program_error, tlv_indices) result" where
  "get_extension_indices V tlv init = get_extension_indices_from V tlv init 0"

function get_extension_types_from ::
  "bytes \<Rightarrow> nat \<Rightarrow> extension_type list \<Rightarrow> (program_error, extension_type list) result" where
  "get_extension_types_from tlv start_index extension_types =
     (if start_index < length tlv then
        let ix = get_tlv_indices start_index in
        if length tlv < value_start ix then Ok extension_types
        else
          try_bind (slice tlv (type_start ix) (length_start ix)) (\<lambda>tb.
          try_bind (extension_type_try_from tb) (\<lambda>et.
          if et = ET_Uninitialized then Ok extension_types
          else
            try_bind (slice tlv (length_start ix) (value_start ix)) (\<lambda>lb.
            try_bind (pod_from_bytes length_pod lb) (\<lambda>len.
            get_extension_types_from tlv (value_start ix + unat len) (extension_types @ [et])))))
      else Ok extension_types)"
  by pat_completeness auto
termination
  by (relation "measure (\<lambda>(tlv, start_index, extension_types). length tlv - start_index)") auto

declare get_extension_types_from.simps [simp del]

definition get_extension_types :: "bytes \<Rightarrow> (program_error, extension_type list) result" where
  "get_extension_types tlv = get_extension_types_from tlv 0 []"

definition get_first_extension_type :: "bytes \<Rightarrow> (program_error, extension_type option) result" where
  "get_first_extension_type tlv =
     (if tlv = [] then Ok None
      else
        let ix = get_tlv_indices 0 in
        if length tlv \<le> length_start ix then Ok None
        else
          try_bind (slice tlv (type_start ix) (length_start ix)) (\<lambda>tb.
          try_bind (extension_type_try_from tb) (\<lambda>et.
          if et = ET_Uninitialized then Ok None else Ok (Some et))))"

section \<open>Checks on the base\<close>

definition check_min_len_and_not_multisig :: "bytes \<Rightarrow> nat \<Rightarrow> (program_error, unit) result" where
  "check_min_len_and_not_multisig input minimum_len =
     (if length input = pk_len multisig_pack \<or> length input < minimum_len
      then Fail PE_InvalidAccountData else Ok ())"

definition check_account_type :: "'s base_state \<Rightarrow> account_type \<Rightarrow> (program_error, unit) result" where
  "check_account_type S t =
     (if t \<noteq> base_account_type S then Fail PE_InvalidAccountData else Ok ())"

definition type_and_tlv_indices ::
  "'s base_state \<Rightarrow> bytes \<Rightarrow> (program_error, (nat \<times> nat) option) result" where
  "type_and_tlv_indices S rest_input =
     (if rest_input = [] then Ok None
      else
        let account_type_index = BASE_ACCOUNT_LENGTH - pk_len (base_pack S);
            tlv_start_index = account_type_index + 1 in
        if length rest_input \<le> tlv_start_index then Fail PE_InvalidAccountData
        else if take account_type_index rest_input \<noteq> replicate account_type_index 0
        then Fail PE_InvalidAccountData
        else Ok (Some (account_type_index, tlv_start_index)))"

definition is_initialized_account :: "bytes \<Rightarrow> (program_error, bool) result" where
  "is_initialized_account input =
     (if length input \<noteq> BASE_ACCOUNT_LENGTH then Fail PE_InvalidAccountData
      else try_bind (index input 108) (\<lambda>b. Ok (b \<noteq> 0)))"

definition read_account_type :: "bytes \<Rightarrow> nat \<Rightarrow> (program_error, account_type) result" where
  "read_account_type rest i =
     try_bind (index rest i) (\<lambda>b. ok_or (account_type_try_from b) PE_InvalidAccountData)"

section \<open>Reading an extension\<close>

definition get_extension ::
  "'s base_state \<Rightarrow> 'v extension \<Rightarrow> bytes \<Rightarrow> (program_error, 'v) result" where
  "get_extension S X tlv =
     (if get_account_type (ext_type X) \<noteq> base_account_type S then Fail PE_InvalidAccountData
      else
        try_bind (get_extension_indices (ext_type X) tlv False) (\<lambda>ix.
        try_bind (slice tlv (length_start ix) (value_start ix)) (\<lambda>lb.
        try_bind (pod_from_bytes length_pod lb) (\<lambda>len.
        let value_end = value_start ix + unat len in
        try_bind (slice tlv (value_start ix) value_end) (\<lambda>vb. pod_from_bytes (ext_pod X) vb)))))"

section \<open>Immutable views\<close>

record 's state_with_extensions =
  se_base :: 's
  se_tlv_data :: bytes

definition se_unpack ::
  "token_env \<Rightarrow> 's base_state \<Rightarrow> bytes \<Rightarrow> (program_error, 's state_with_extensions) result" where
  "se_unpack E S input =
     try_bind (check_min_len_and_not_multisig input (pk_len (base_pack S))) (\<lambda>_.
     let base_data = take (pk_len (base_pack S)) input; rest = drop (pk_len (base_pack S)) input in
     try_bind (unpack E (base_pack S) base_data) (\<lambda>base.
     try_bind (type_and_tlv_indices S rest) (\<lambda>indices.
     case indices of
       Some (account_type_index, tlv_start_index) \<Rightarrow>
         try_bind (read_account_type rest account_type_index) (\<lambda>t.
         try_bind (check_account_type S t) (\<lambda>_.
         Ok \<lparr>se_base = base, se_tlv_data = drop tlv_start_index rest\<rparr>))
     | None \<Rightarrow> Ok \<lparr>se_base = base, se_tlv_data = []\<rparr>)))"

definition se_get_extension ::
  "'s base_state \<Rightarrow> 'v extension \<Rightarrow> 's state_with_extensions \<Rightarrow> (program_error, 'v) result" where
  "se_get_extension S X s = get_extension S X (se_tlv_data s)"

definition se_get_extension_types ::
  "'s state_with_extensions \<Rightarrow> (program_error, extension_type list) result" where
  "se_get_extension_types s = get_extension_types (se_tlv_data s)"

section \<open>Mutable views\<close>

text \<open>\<open>padding\<close> is the part of the buffer between \<open>base_data\<close> and \<open>account_type\<close>.\<close>

record 's state_with_extensions_mut =
  base :: 's
  base_data :: bytes
  padding :: bytes
  account_type_data :: bytes
  tlv_data :: bytes

definition swe_buffer :: "'s state_with_extensions_mut \<Rightarrow> bytes" where
  "swe_buffer s = base_data s @ padding s @ account_type_data s @ tlv_data s"

definition swe_unpack ::
  "token_env \<Rightarrow> 's base_state \<Rightarrow> bytes \<Rightarrow> (program_error, 's state_with_extensions_mut) result" where
  "swe_unpack E S input =
     try_bind (check_min_len_and_not_multisig input (pk_len (base_pack S))) (\<lambda>_.
     let bdata = take (pk_len (base_pack S)) input; rest = drop (pk_len (base_pack S)) input in
     try_bind (unpack E (base_pack S) bdata) (\<lambda>b.
     try_bind (type_and_tlv_indices S rest) (\<lambda>indices.
     case indices of
       Some (account_type_index, tlv_start_index) \<Rightarrow>
         try_bind (read_account_type rest account_type_index) (\<lambda>t.
         try_bind (check_account_type S t) (\<lambda>_.
         Ok \<lparr>base = b, base_data = bdata, padding = take account_type_index rest,
             account_type_data = take (tlv_start_index - account_type_index) (drop account_type_index rest),
             tlv_data = drop tlv_start_index rest\<rparr>))
     | None \<Rightarrow> Ok \<lparr>base = b, base_data = bdata, padding = [], account_type_data = [],
         tlv_data = []\<rparr>)))"

definition swe_unpack_uninitialized ::
  "token_env \<Rightarrow> 's base_state \<Rightarrow> bytes \<Rightarrow> (program_error, 's state_with_extensions_mut) result" where
  "swe_unpack_uninitialized E S input =
     try_bind (check_min_len_and_not_multisig input (pk_len (base_pack S))) (\<lambda>_.
     let bdata = take (pk_len (base_pack S)) input; rest = drop (pk_len (base_pack S)) input in
     try_bind (unpack_unchecked E (base_pack S) bdata) (\<lambda>b.
     if pk_is_initialized (base_pack S) b then TErr TE_AlreadyInUse
     else
       try_bind (type_and_tlv_indices S rest) (\<lambda>indices.
       case indices of
         Some (account_type_index, tlv_start_index) \<Rightarrow>
           try_bind (read_account_type rest account_type_index) (\<lambda>t.
           if t \<noteq> AT_Uninitialized then Fail PE_InvalidAccountData
           else
             let s = \<lparr>base = b, base_data = bdata, padding = take account_type_index rest,
                account_type_data =
                  take (tlv_start_index - account_type_index) (drop account_type_index rest),
                tlv_data = drop tlv_start_index rest\<rparr> in
             try_bind (get_first_extension_type (tlv_data s)) (\<lambda>first. case first of
               Some et \<Rightarrow>
                 if get_account_type et \<noteq> base_account_type S then TErr TE_ExtensionBaseMismatch
                 else Ok s
             | None \<Rightarrow> Ok s))
       | None \<Rightarrow> Ok \<lparr>base = b, base_data = bdata, padding = [], account_type_data = [],
           tlv_data = []\<rparr>)))"

text \<open>\<open>get_extension_mut\<close>: the value and its position in the TLV data.\<close>

definition swe_get_extension_mut ::
  "'s base_state \<Rightarrow> 'v extension \<Rightarrow> 's state_with_extensions_mut \<Rightarrow>
   (program_error, nat \<times> 'v) result" where
  "swe_get_extension_mut S X s =
     (if get_account_type (ext_type X) \<noteq> base_account_type S then Fail PE_InvalidAccountData
      else
        try_bind (get_extension_indices (ext_type X) (tlv_data s) False) (\<lambda>ix.
        try_bind (slice (tlv_data s) (type_start ix) (length (tlv_data s))) (\<lambda>from_type.
        if length from_type < get_tlv_len (ext_type X) then Fail PE_InvalidAccountData
        else
          try_bind (slice (tlv_data s) (length_start ix) (value_start ix)) (\<lambda>lb.
          try_bind (pod_from_bytes length_pod lb) (\<lambda>len.
          let value_end = value_start ix + unat len in
          try_bind (slice (tlv_data s) (value_start ix) value_end) (\<lambda>vb.
          try_bind (pod_from_bytes (ext_pod X) vb) (\<lambda>v. Ok (value_start ix, v))))))))"

definition swe_get_extension ::
  "'s base_state \<Rightarrow> 'v extension \<Rightarrow> 's state_with_extensions_mut \<Rightarrow> (program_error, 'v) result" where
  "swe_get_extension S X s = try_bind (swe_get_extension_mut S X s) (\<lambda>(_, v). Ok v)"

text \<open>Assignment through the reference that \<open>get_extension_mut\<close> or \<open>init_extension\<close> returned.\<close>

definition put_extension ::
  "'v extension \<Rightarrow> nat \<Rightarrow> 'v \<Rightarrow> 's state_with_extensions_mut \<Rightarrow> 's state_with_extensions_mut" where
  "put_extension X at v s = s\<lparr>tlv_data := splice (tlv_data s) at (pod_bytes_of (ext_pod X) v)\<rparr>"

definition swe_pack_base ::
  "'s base_state \<Rightarrow> 's state_with_extensions_mut \<Rightarrow> 's state_with_extensions_mut" where
  "swe_pack_base S s = s\<lparr>base_data := pk_pack_into_slice (base_pack S) (base s) (base_data s)\<rparr>"

definition unwrap :: "('e, 'a) result \<Rightarrow> ('g, 'a) result" where
  "unwrap m = (case m of Inr x \<Rightarrow> Ok x | Inl _ \<Rightarrow> Panicked)"

definition swe_init_extension ::
  "'s base_state \<Rightarrow> 'v extension \<Rightarrow> bool \<Rightarrow> 's state_with_extensions_mut \<Rightarrow>
   (program_error, 's state_with_extensions_mut \<times> nat \<times> 'v) result" where
  "swe_init_extension S X overwrite s =
     (if get_account_type (ext_type X) \<noteq> base_account_type S then Fail PE_InvalidAccountData
      else
        try_bind (get_extension_indices (ext_type X) (tlv_data s) True) (\<lambda>ix.
        try_bind (slice (tlv_data s) (type_start ix) (length (tlv_data s))) (\<lambda>from_type.
        if length from_type < get_tlv_len (ext_type X) then Fail PE_InvalidAccountData
        else
          try_bind (slice (tlv_data s) (type_start ix) (length_start ix)) (\<lambda>tb.
          try_bind (extension_type_try_from tb) (\<lambda>et.
          if et = ET_Uninitialized \<or> overwrite then
            let tlv1 = splice (tlv_data s) (type_start ix) (extension_type_bytes (ext_type X));
                len = pod_get_packed_len (ext_pod X) in
            try_bind (unwrap (length_try_from len)) (\<lambda>l.
            let tlv2 = splice tlv1 (length_start ix) (pod_encode length_pod l);
                value_end = value_start ix + len in
            try_bind (slice tlv2 (value_start ix) value_end) (\<lambda>vb.
            try_bind (pod_from_bytes (ext_pod X) vb) (\<lambda>_.
            let d = pod_default (ext_pod X) in
            Ok (put_extension X (value_start ix) d (s\<lparr>tlv_data := tlv2\<rparr>), value_start ix, d))))
          else TErr TE_ExtensionAlreadyInitialized)))))"

definition init_account_extension_from_type ::
  "'s base_state \<Rightarrow> extension_type \<Rightarrow> 's state_with_extensions_mut \<Rightarrow>
   (program_error, 's state_with_extensions_mut) result" where
  "init_account_extension_from_type S t s =
     (if get_account_type t \<noteq> AT_Account then Ok s
      else case t of
        ET_TransferFeeAmount \<Rightarrow>
          try_bind (swe_init_extension S TransferFeeAmount_ext True s) (\<lambda>(s', _). Ok s')
      | ET_ConfidentialTransferAccount \<Rightarrow> Ok s
      | _ \<Rightarrow> Panicked)"

definition init_account_type ::
  "'s base_state \<Rightarrow> 's state_with_extensions_mut \<Rightarrow>
   (program_error, 's state_with_extensions_mut) result" where
  "init_account_type S s =
     (if account_type_data s \<noteq> [] then
        try_bind (get_first_extension_type (tlv_data s)) (\<lambda>first.
        let set_type =
          s\<lparr>account_type_data := (account_type_data s)[0 := account_type_to_u8 (base_account_type S)]\<rparr>
        in case first of
          Some et \<Rightarrow>
            if get_account_type et \<noteq> base_account_type S then TErr TE_ExtensionBaseMismatch
            else Ok set_type
        | None \<Rightarrow> Ok set_type)
      else Ok s)"

definition swe_get_extension_types ::
  "'s state_with_extensions_mut \<Rightarrow> (program_error, extension_type list) result" where
  "swe_get_extension_types s = get_extension_types (tlv_data s)"

text \<open>\<open>set_account_type\<close> works on the whole buffer and returns it.\<close>

definition set_account_type :: "'s base_state \<Rightarrow> bytes \<Rightarrow> (program_error, bytes) result" where
  "set_account_type S input =
     try_bind (check_min_len_and_not_multisig input (pk_len (base_pack S))) (\<lambda>_.
     let bdata = take (pk_len (base_pack S)) input; rest = drop (pk_len (base_pack S)) input in
     try_bind (if base_account_type S = AT_Account then is_initialized_account bdata else Ok True) (\<lambda>ok.
     if \<not> ok then Fail PE_InvalidAccountData
     else
       try_bind (type_and_tlv_indices S rest) (\<lambda>indices.
       case indices of
         Some (account_type_index, _) \<Rightarrow>
           try_bind (read_account_type rest account_type_index) (\<lambda>t.
           let rest' = (if t = AT_Uninitialized
                 then rest[account_type_index := account_type_to_u8 (base_account_type S)] else rest);
               t' = (if t = AT_Uninitialized then base_account_type S else t) in
           try_bind (check_account_type S t') (\<lambda>_. Ok (bdata @ rest')))
       | None \<Rightarrow> Fail PE_InvalidAccountData)))"

end
