(* ===== verification/TokenViews.thy ===== *)
theory TokenViews
  imports TokenTlv
begin

text \<open>
  Laws of the buffer views. The locale \<open>base_state\<close> is the contract of the trait
  \<open>BaseState\<close> (a packable type that fits the base length), interpreted on \<open>Mint\<close> and
  \<open>Account\<close>; in it \<open>swe_unpack_iff\<close> characterises unpacking by the shape of the view,
  from which follow the round trip through a handler's writes. The locale
  \<open>extension_impl\<close> is the contract of the trait \<open>Extension\<close> (a pod whose size is the
  one its type declares), interpreted on every extension; in it are the laws of reading
  and writing TLV entries.
\<close>

section \<open>Base states\<close>

locale base_state =
  fixes S :: "'s base_state"
  assumes base_packable: "packable (base_pack S)"
    and base_len_le: "pk_len (base_pack S) \<le> 165"
begin

sublocale packable "base_pack S"
  by (rule base_packable)

definition shape :: "'s state_with_extensions_mut \<Rightarrow> bool" where
  "shape s \<longleftrightarrow>
     length (base_data s) = pk_len (base_pack S) \<and> length (swe_buffer s) \<noteq> 355 \<and>
     (padding s = [] \<and> account_type_data s = [] \<and> tlv_data s = [] \<or>
      padding s = replicate (165 - pk_len (base_pack S)) 0 \<and> length (account_type_data s) = 1 \<and>
      tlv_data s \<noteq> [])"

lemma BASE_ACCOUNT_LENGTH_eq: "BASE_ACCOUNT_LENGTH = 165"
  by (simp add: BASE_ACCOUNT_LENGTH_def)

lemma take_one: "i < length xs \<Longrightarrow> take 1 (drop i xs) = [xs ! i]"
  by (simp add: take_Suc_conv_app_nth [of 0, simplified])

lemma type_and_tlv_indices_Ok:
  "type_and_tlv_indices S rest = Ok r \<longleftrightarrow>
     (let k = 165 - pk_len (base_pack S) in
      rest = [] \<and> r = None \<or>
      rest \<noteq> [] \<and> length rest > k + 1 \<and> take k rest = replicate k 0 \<and> r = Some (k, k + 1))"
  by (auto simp: type_and_tlv_indices_def Let_def BASE_ACCOUNT_LENGTH_eq)

lemma read_account_type_Ok:
  "read_account_type rest i = Ok t \<longleftrightarrow> i < length rest \<and> rest ! i = account_type_to_u8 t"
  by (auto simp: read_account_type_def ok_simps)

lemma swe_unpack_iff:
  assumes "pack_ok E"
  shows "swe_unpack E S input = Ok s \<longleftrightarrow>
    swe_buffer s = input \<and> shape s \<and>
    pk_unpack_from_slice (base_pack S) (base_data s) = Ok (base s) \<and>
    pk_is_initialized (base_pack S) (base s) \<and>
    (account_type_data s = [] \<or> account_type_data s = [account_type_to_u8 (base_account_type S)])"
    (is "?L \<longleftrightarrow> ?R")
proof
  let ?n = "pk_len (base_pack S)" and ?k = "165 - pk_len (base_pack S)"
  assume L: ?L
  let ?rest = "drop ?n input"
  from L have len: "length input \<noteq> 355" "?n \<le> length input"
    by (auto simp: swe_unpack_def check_min_len_and_not_multisig_def ok_simps)
  then have ltake: "length (take ?n input) = ?n" by simp
  from L obtain b r where b: "unpack E (base_pack S) (take ?n input) = Ok b"
    and r: "type_and_tlv_indices S ?rest = Ok r"
    and rest: "(case r of
       Some (i, j) \<Rightarrow>
         try_bind (read_account_type ?rest i) (\<lambda>t.
         try_bind (check_account_type S t) (\<lambda>_.
         Ok \<lparr>base = b, base_data = take ?n input, padding = take i ?rest,
             account_type_data = take (j - i) (drop i ?rest), tlv_data = drop j ?rest\<rparr>))
     | None \<Rightarrow> Ok \<lparr>base = b, base_data = take ?n input, padding = [], account_type_data = [],
         tlv_data = []\<rparr>) = Ok s"
    unfolding swe_unpack_def Let_def try_bind_eq_Ok by blast
  from b assms ltake have b': "pk_unpack_from_slice (base_pack S) (take ?n input) = Ok b"
    "pk_is_initialized (base_pack S) b"
    by (simp_all add: unpack_eq_Ok)
  show ?R
  proof (cases r)
    case None
    with r have "?rest = []" by (auto simp: type_and_tlv_indices_Ok Let_def)
    with None rest len b' show ?thesis by (auto simp: swe_buffer_def shape_def)
  next
    case (Some p)
    with r have p: "p = (?k, ?k + 1)" "?rest \<noteq> []" "length ?rest > ?k + 1"
      "take ?k ?rest = replicate ?k 0"
      by (auto simp: type_and_tlv_indices_Ok Let_def)
    from rest Some p have at: "?rest ! ?k = account_type_to_u8 (base_account_type S)"
      and s: "s = \<lparr>base = b, base_data = take ?n input, padding = take ?k ?rest,
             account_type_data = take 1 (drop ?k ?rest), tlv_data = drop (?k + 1) ?rest\<rparr>"
      by (auto simp: ok_simps read_account_type_Ok check_account_type_def)
    define rest where "rest = ?rest"
    from p have rest_len: "?k < length rest" "?k + 1 < length rest" by (simp_all add: rest_def)
    have one: "take 1 (drop ?k rest) = [rest ! ?k]" by (rule take_one [OF rest_len(1)])
    have "take ?k rest @ [rest ! ?k] @ drop (?k + 1) rest = rest"
      using rest_len(1) by (simp add: id_take_nth_drop [symmetric])
    then have buf: "swe_buffer s = input"
      unfolding s swe_buffer_def rest_def [symmetric] one
      by (simp add: rest_def)
    have views: "base s = b" "base_data s = take ?n input" "padding s = replicate ?k 0"
      "account_type_data s = [rest ! ?k]" "tlv_data s = drop (?k + 1) rest"
      using one p(4) by (simp_all add: s rest_def)
    then have "shape s"
      using rest_len ltake len buf by (simp add: shape_def)
    then show ?thesis
      using views at b' buf by (simp add: rest_def)
  qed
next
  let ?n = "pk_len (base_pack S)" and ?k = "165 - pk_len (base_pack S)"
  assume R: ?R
  then have sh: "shape s" and buf: "input = swe_buffer s" by auto
  then have n: "take ?n input = base_data s"
    "drop ?n input = padding s @ account_type_data s @ tlv_data s"
    "length (base_data s) = ?n"
    by (auto simp: swe_buffer_def shape_def)
  have min: "check_min_len_and_not_multisig input ?n = Ok ()"
    using sh buf by (auto simp: check_min_len_and_not_multisig_def shape_def swe_buffer_def)
  have un: "unpack E (base_pack S) (base_data s) = Ok (base s)"
    using R n assms by (simp add: unpack_eq_Ok)
  show ?L
  proof (cases "account_type_data s")
    case Nil
    with sh have "padding s = []" "tlv_data s = []" by (auto simp: shape_def)
    with Nil show ?thesis
      by (simp add: swe_unpack_def min n un type_and_tlv_indices_def)
  next
    case (Cons a as)
    with sh R have sh': "padding s = replicate ?k 0"
      "account_type_data s = [account_type_to_u8 (base_account_type S)]" "tlv_data s \<noteq> []"
      by (auto simp: shape_def)
    then have "type_and_tlv_indices S (drop ?n input) = Ok (Some (?k, ?k + 1))"
      by (simp add: n type_and_tlv_indices_Ok Let_def)
    moreover have "read_account_type (drop ?n input) ?k = Ok (base_account_type S)"
      using sh' by (simp add: n read_account_type_Ok nth_append)
    ultimately show ?thesis
      unfolding swe_unpack_def Let_def n(1,2) min
      using sh' by (simp add: un check_account_type_def)
  qed
qed

text \<open>The round trip through a handler's writes.\<close>

lemma swe_unpack_pack_base:
  assumes "pack_ok E" "swe_unpack E S input = Ok s"
    and "pk_is_initialized (base_pack S) b" "pk_valid (base_pack S) b"
  shows "swe_unpack E S (swe_buffer (swe_pack_base S (s\<lparr>base := b\<rparr>))) =
    Ok (swe_pack_base S (s\<lparr>base := b\<rparr>))"
proof -
  from assms(1,2) have s: "shape s" "account_type_data s = [] \<or>
      account_type_data s = [account_type_to_u8 (base_account_type S)]"
    by (simp_all add: swe_unpack_iff)
  then have len: "length (base_data s) = pk_len (base_pack S)" by (simp add: shape_def)
  then have "shape (swe_pack_base S (s\<lparr>base := b\<rparr>))"
    using s(1) length_pack [OF len assms(4)]
    by (simp add: shape_def swe_pack_base_def swe_buffer_def)
  then show ?thesis
    using s(2) unpack_pack [OF len assms(4)] assms(1,3)
    by (simp add: swe_unpack_iff swe_pack_base_def)
qed

lemma swe_unpack_tlv_update:
  assumes "pack_ok E" "swe_unpack E S input = Ok s" "length t = length (tlv_data s)"
  shows "swe_unpack E S (swe_buffer (s\<lparr>tlv_data := t\<rparr>)) = Ok (s\<lparr>tlv_data := t\<rparr>)"
  using assms by (auto simp: swe_unpack_iff shape_def swe_buffer_def)

lemma swe_pack_base_id:
  assumes "pack_ok E" "swe_unpack E S input = Ok s"
  shows "swe_pack_base S s = s"
  using assms pack_unpack [of "base_data s" "base s"]
  by (simp add: swe_unpack_iff swe_pack_base_def shape_def)

lemma length_swe_buffer_pack_base:
  assumes "pack_ok E" "swe_unpack E S input = Ok s" "pk_valid (base_pack S) b"
  shows "length (swe_buffer (swe_pack_base S (s\<lparr>base := b\<rparr>))) = length input"
  using assms length_pack [of "base_data s" b]
  by (auto simp: swe_unpack_iff swe_pack_base_def shape_def swe_buffer_def)

text \<open>A handler's writes: a new base and TLV data of the same length.\<close>

lemma swe_unpack_written:
  assumes "pack_ok E" "swe_unpack E S input = Ok s" "length t = length (tlv_data s)"
    and "pk_is_initialized (base_pack S) b" "pk_valid (base_pack S) b"
  shows "swe_unpack E S (swe_buffer (swe_pack_base S (s\<lparr>base := b, tlv_data := t\<rparr>))) =
    Ok (swe_pack_base S (s\<lparr>base := b, tlv_data := t\<rparr>))"
proof -
  have "s\<lparr>base := b, tlv_data := t\<rparr> = s\<lparr>tlv_data := t\<rparr>\<lparr>base := b\<rparr>" by simp
  then show ?thesis
    using swe_unpack_pack_base [OF assms(1) swe_unpack_tlv_update [OF assms(1-3)] assms(4,5)]
    by (simp only:)
qed

text \<open>Initializing: the views of an uninitialized buffer, and unpacking what was initialized.\<close>

lemma swe_unpack_uninitialized_shape:
  assumes "swe_unpack_uninitialized E S input = Ok s"
  shows "swe_buffer s = input \<and> shape s \<and> \<not> pk_is_initialized (base_pack S) (base s) \<and>
    (account_type_data s = [] \<or> account_type_data s = [account_type_to_u8 AT_Uninitialized])"
proof -
  let ?n = "pk_len (base_pack S)" and ?k = "165 - pk_len (base_pack S)"
  let ?rest = "drop ?n input"
  from assms have len: "length input \<noteq> 355" "?n \<le> length input"
    by (auto simp: swe_unpack_uninitialized_def check_min_len_and_not_multisig_def ok_simps)
  then have ltake: "length (take ?n input) = ?n" by simp
  from assms obtain b r where b: "\<not> pk_is_initialized (base_pack S) b"
    and r: "type_and_tlv_indices S ?rest = Ok r"
    and rest: "(case r of
       Some (i, j) \<Rightarrow>
         try_bind (read_account_type ?rest i) (\<lambda>t.
         if t \<noteq> AT_Uninitialized then Fail PE_InvalidAccountData
         else
           try_bind (get_first_extension_type (drop j ?rest)) (\<lambda>first. case first of
             Some et \<Rightarrow>
               if get_account_type et \<noteq> base_account_type S then TErr TE_ExtensionBaseMismatch
               else Ok \<lparr>base = b, base_data = take ?n input, padding = take i ?rest,
                 account_type_data = take (j - i) (drop i ?rest), tlv_data = drop j ?rest\<rparr>
           | None \<Rightarrow> Ok \<lparr>base = b, base_data = take ?n input, padding = take i ?rest,
                 account_type_data = take (j - i) (drop i ?rest), tlv_data = drop j ?rest\<rparr>))
     | None \<Rightarrow> Ok \<lparr>base = b, base_data = take ?n input, padding = [], account_type_data = [],
         tlv_data = []\<rparr>) = Ok s"
    unfolding swe_unpack_uninitialized_def Let_def try_bind_eq_Ok if_Inl_eq_Ok
    by (simp only: state_with_extensions_mut.simps) blast
  show ?thesis
  proof (cases r)
    case None
    with r have "?rest = []" by (auto simp: type_and_tlv_indices_Ok Let_def)
    with None rest len b show ?thesis by (auto simp: swe_buffer_def shape_def)
  next
    case (Some p)
    with r have p: "p = (?k, ?k + 1)" "length ?rest > ?k + 1" "take ?k ?rest = replicate ?k 0"
      by (auto simp: type_and_tlv_indices_Ok Let_def)
    define rest where "rest = ?rest"
    have rest_len: "?k < length rest" "?k + 1 < length rest" using p(2) by (simp_all add: rest_def)
    have one: "take 1 (drop ?k rest) = [rest ! ?k]" by (rule take_one [OF rest_len(1)])
    from rest Some p have at: "rest ! ?k = account_type_to_u8 AT_Uninitialized"
      and s: "s = \<lparr>base = b, base_data = take ?n input, padding = take ?k rest,
             account_type_data = take 1 (drop ?k rest), tlv_data = drop (?k + 1) rest\<rparr>"
      by (auto simp: read_account_type_Ok rest_def ok_simps split: option.splits if_splits)
    have "take ?k rest @ [rest ! ?k] @ drop (?k + 1) rest = rest"
      using rest_len(1) by (simp add: id_take_nth_drop [symmetric])
    then have buf: "swe_buffer s = input"
      unfolding s swe_buffer_def one by (simp add: rest_def)
    moreover have views: "base s = b" "base_data s = take ?n input" "padding s = replicate ?k 0"
      "account_type_data s = [rest ! ?k]" "tlv_data s = drop (?k + 1) rest"
      using one p(3) by (simp_all add: s rest_def)
    moreover from views have "shape s"
      using rest_len ltake len buf by (simp add: shape_def)
    ultimately show ?thesis using b at by simp
  qed
qed

lemma swe_unpack_initialized:
  assumes "pack_ok E" "shape s" "length t = length (tlv_data s)"
    and "account_type_data s = [] \<or> account_type_data s = [account_type_to_u8 AT_Uninitialized]"
    and "pk_is_initialized (base_pack S) b" "pk_valid (base_pack S) b"
    and "init_account_type S (swe_pack_base S (s\<lparr>base := b, tlv_data := t\<rparr>)) = Ok s'"
  shows "swe_unpack E S (swe_buffer s') = Ok s' \<and> base s' = b \<and> tlv_data s' = t"
proof -
  have len: "length (base_data s) = pk_len (base_pack S)" using assms(2) by (simp add: shape_def)
  have s': "s' = (swe_pack_base S (s\<lparr>base := b, tlv_data := t\<rparr>))\<lparr>account_type_data :=
      (if account_type_data s = [] then [] else [account_type_to_u8 (base_account_type S)])\<rparr>"
    using assms(4,7)
    by (auto simp: init_account_type_def ok_simps swe_pack_base_def Let_def split: option.splits if_splits)
  have "shape s'"
    using assms(2,3,4) length_pack [OF len assms(6)]
    by (auto simp: s' shape_def swe_pack_base_def swe_buffer_def)
  then show ?thesis
    using unpack_pack [OF len assms(6)] assms(1,5)
    by (simp add: swe_unpack_iff) (simp add: s' swe_pack_base_def)
qed

text \<open>Unpacking never panics, whatever the buffer.\<close>

lemma swe_unpack_no_panic: "no_panic (swe_unpack E S input)"
proof -
  have u: "no_panic (unpack E (base_pack S) (take (pk_len (base_pack S)) input))"
    if "pk_len (base_pack S) \<le> length input"
    using that
    by (auto simp: unpack_def unpack_unchecked_def pack_check_len_def intro!: no_panic_bind unpack_no_panic
        split: option.splits)
  have r: "no_panic (read_account_type rest i)" if "i < length rest" for rest i
    using that by (auto simp: read_account_type_def ok_or_def index_def intro!: no_panic_bind split: option.splits)
  have t: "no_panic (type_and_tlv_indices S rest)" for rest
    by (auto simp: type_and_tlv_indices_def Let_def)
  show ?thesis
    unfolding swe_unpack_def Let_def
    by (intro no_panic_bind t)
      (auto simp: check_min_len_and_not_multisig_def check_account_type_def type_and_tlv_indices_Ok Let_def
        intro!: no_panic_bind r u split: option.splits if_splits)
qed

text \<open>The immutable view agrees with the mutable one.\<close>

lemma se_unpack_eq:
  "se_unpack E S input =
     try_bind (swe_unpack E S input) (\<lambda>s. Ok \<lparr>se_base = base s, se_tlv_data = tlv_data s\<rparr>)"
  by (auto simp: se_unpack_def swe_unpack_def Let_def try_bind_assoc intro!: try_bind_cong
      split: option.splits)

end

lemma base_states [simp]:
  "base_pack Mint_base = mint_pack" "base_account_type Mint_base = AT_Mint"
  "base_pack Account_base = account_pack" "base_account_type Account_base = AT_Account"
  by (simp_all add: Mint_base_def Account_base_def)

interpretation mint_base: base_state Mint_base
  by (rule base_state.intro) (simp_all add: mint_pk.packable_axioms)

interpretation account_base: base_state Account_base
  by (rule base_state.intro) (simp_all add: account_pk.packable_axioms)


text \<open>No buffer is both a mint and a token account.\<close>

lemma mint_not_account:
  assumes "pack_ok E" "swe_unpack E Mint_base input = Ok m"
  shows "\<exists>e. swe_unpack E Account_base input = Fail e"
proof (cases "swe_unpack E Account_base input")
  case (Inl e)
  then show ?thesis
    using account_base.swe_unpack_no_panic [of E input] by (cases e) auto
next
  case (Inr s)
  from assms have m: "swe_buffer m = input" "mint_base.shape m"
    "account_type_data m = [] \<or> account_type_data m = [account_type_to_u8 AT_Mint]"
    by (simp_all add: mint_base.swe_unpack_iff)
  from assms(1) Inr have s: "swe_buffer s = input" "account_base.shape s"
    "account_type_data s = [] \<or> account_type_data s = [account_type_to_u8 AT_Account]"
    by (simp_all add: account_base.swe_unpack_iff)
  have len: "165 \<le> length input" using s by (auto simp: account_base.shape_def swe_buffer_def)
  have "account_type_data m \<noteq> []"
    using m len by (auto simp: mint_base.shape_def swe_buffer_def)
  with m have "165 < length input" "165 + 1 < length input" "input ! 165 = account_type_to_u8 AT_Mint"
    by (auto simp: mint_base.shape_def swe_buffer_def nth_append)
  moreover from this s have "account_type_data s \<noteq> []"
    by (auto simp: account_base.shape_def swe_buffer_def)
  with s have "input ! 165 = account_type_to_u8 AT_Account"
    by (auto simp: account_base.shape_def swe_buffer_def nth_append)
  ultimately show ?thesis by simp
qed

end
