(* ===== verification/TokenLaws.thy ===== *)
theory TokenLaws
  imports TokenViews
begin

text \<open>
  Laws of reading and writing TLV entries. The locale \<open>extension_impl\<close> is the contract
  of the trait \<open>Extension\<close> (a pod whose size is the one its type declares), interpreted
  on every extension. In it: a value written through the reference that
  \<open>get_extension_mut\<close> returned is read back, and no other extension changes.
  \<open>tlv_bytes\<close> is the abstract view of TLV data, an association list of types and
  values followed by zeros, which the walk, \<open>init_extension\<close> and the assignment refine.
\<close>

section \<open>The walk\<close>

definition header_type :: "bytes \<Rightarrow> nat \<Rightarrow> (program_error, extension_type) result" where
  "header_type tlv i = extension_type_try_from (take 2 (drop i tlv))"

definition header_len :: "bytes \<Rightarrow> nat \<Rightarrow> nat" where
  "header_len tlv i = unat (from_le_bytes (take 2 (drop (i + 2) tlv)) :: u16)"

lemma length_pod_from_bytes:
  "pod_from_bytes length_pod bs =
     (if length bs = 2 then Ok (from_le_bytes bs) else Fail PE_InvalidArgument)"
  by (simp add: pod_from_bytes_def length_pod_def pod_u16_def)

lemma walk_step:
  "get_extension_indices_from V tlv init i =
     (if i < length tlv then
        if length tlv < i + 4 then Fail PE_InvalidAccountData
        else
          try_bind (header_type tlv i) (\<lambda>et.
          if et = ET_Uninitialized then
            if init then Ok (get_tlv_indices i) else get_extension_indices_from V tlv init (i + 2)
          else if et = V then Ok (get_tlv_indices i)
          else if get_account_type V \<noteq> get_account_type et then TErr TE_ExtensionTypeMismatch
          else get_extension_indices_from V tlv init (i + 4 + header_len tlv i))
      else Fail PE_InvalidAccountData)"
  by (subst get_extension_indices_from.simps)
     (auto simp: Let_def slice_def pod_from_bytes_def length_pod_def pod_u16_def numeral_eq_Suc
       header_type_def header_len_def intro!: try_bind_cong)

text \<open>A successful walk, as the steps it takes.\<close>

inductive walk :: "extension_type \<Rightarrow> bytes \<Rightarrow> bool \<Rightarrow> nat \<Rightarrow> nat \<Rightarrow> bool"
  for V tlv init where
  stop: "i + 4 \<le> length tlv \<Longrightarrow> header_type tlv i = Ok et \<Longrightarrow>
     et = ET_Uninitialized \<and> init \<or> et \<noteq> ET_Uninitialized \<and> et = V \<Longrightarrow> walk V tlv init i i"
| blank: "i + 4 \<le> length tlv \<Longrightarrow> header_type tlv i = Ok ET_Uninitialized \<Longrightarrow> \<not> init \<Longrightarrow>
     walk V tlv init (i + 2) j \<Longrightarrow> walk V tlv init i j"
| hop: "i + 4 \<le> length tlv \<Longrightarrow> header_type tlv i = Ok et \<Longrightarrow> et \<noteq> ET_Uninitialized \<Longrightarrow> et \<noteq> V \<Longrightarrow>
     get_account_type V = get_account_type et \<Longrightarrow>
     walk V tlv init (i + 4 + header_len tlv i) j \<Longrightarrow> walk V tlv init i j"

lemma walk_complete:
  "get_extension_indices_from V tlv init i = Ok ix \<Longrightarrow>
   \<exists>j. walk V tlv init i j \<and> ix = get_tlv_indices j"
proof (induction "length tlv - i" arbitrary: i rule: less_induct)
  case less
  from less.prems obtain et where i: "i + 4 \<le> length tlv" and et: "header_type tlv i = Ok et"
    by (subst (asm) walk_step) (auto simp: ok_simps split: if_splits)
  have step: "\<exists>j. walk V tlv init k j \<and> ix = get_tlv_indices j"
    if "get_extension_indices_from V tlv init k = Ok ix" "i < k" for k
    using that i by (intro less.hyps) auto
  consider "et = ET_Uninitialized \<and> init \<or> et \<noteq> ET_Uninitialized \<and> et = V"
    | "et = ET_Uninitialized" "\<not> init" | "et \<noteq> ET_Uninitialized" "et \<noteq> V"
    by blast
  then show ?case
  proof cases
    case 1
    with less.prems i et show ?thesis
      by (subst (asm) walk_step) (auto intro: walk.stop)
  next
    case 2
    with less.prems i et have "get_extension_indices_from V tlv init (i + 2) = Ok ix"
      by (subst (asm) walk_step) simp
    from step [OF this] obtain j where "walk V tlv init (i + 2) j" "ix = get_tlv_indices j" by auto
    with walk.blank [OF i _ _ this(1)] show ?thesis using 2 et by blast
  next
    case 3
    with less.prems i et have "get_extension_indices_from V tlv init (i + 4 + header_len tlv i) = Ok ix"
      and eq: "get_account_type V = get_account_type et"
      by (subst (asm) walk_step; simp split: if_splits)+
    from step [OF this(1)] obtain j
      where "walk V tlv init (i + 4 + header_len tlv i) j" "ix = get_tlv_indices j" by auto
    with walk.hop [OF i et 3 eq this(1)] show ?thesis by blast
  qed
qed

lemma walk_sound:
  "walk V tlv init i j \<Longrightarrow> get_extension_indices_from V tlv init i = Ok (get_tlv_indices j)"
  by (induction rule: walk.induct) (subst walk_step; force)+

lemma walk_iff:
  "get_extension_indices_from V tlv init i = Inr ix \<longleftrightarrow>
   (\<exists>j. walk V tlv init i j \<and> ix = get_tlv_indices j)"
  using walk_complete walk_sound by blast

lemma walk_end:
  "walk V tlv init i j \<Longrightarrow> i \<le> j \<and> j + 4 \<le> length tlv \<and>
     (\<exists>et. header_type tlv j = Ok et \<and> (et = V \<or> init \<and> et = ET_Uninitialized))"
  by (induction rule: walk.induct) auto

text \<open>Buffers that agree up to the end of the header found.\<close>

lemma take_drop_prefix:
  assumes "take n xs = take n ys" "i + k \<le> n"
  shows "take k (drop i xs) = take k (drop i ys)"
proof -
  have "take k (drop i xs) = drop i (take (i + k) xs)" for xs :: "'a list"
    by (simp add: drop_take)
  moreover have "take (i + k) xs = take (i + k) (take n xs)" "take (i + k) ys = take (i + k) (take n ys)"
    using assms(2) by (simp_all add: min_absorb1)
  ultimately show ?thesis by (simp add: assms(1))
qed

lemma header_prefix:
  assumes "take n tlv' = take n tlv" "i + 4 \<le> n"
  shows "header_type tlv' i = header_type tlv i" "header_len tlv' i = header_len tlv i"
  using assms(2) take_drop_prefix [OF assms(1), of i 2] take_drop_prefix [OF assms(1), of "i + 2" 2]
  by (simp_all add: header_type_def header_len_def)

lemma walk_prefix:
  assumes "walk V tlv init i j" "take (j + 4) tlv' = take (j + 4) tlv" "length tlv' = length tlv"
  shows "walk V tlv' init i j"
  using assms
proof induction
  case (stop i et)
  note eq = header_prefix [OF stop.prems(1) order_refl]
  show ?case
    by (rule walk.stop [of i tlv' et]) (use stop in \<open>simp_all add: eq\<close>)
next
  case (blank i j)
  then have "i + 4 \<le> j + 4" using walk_end [OF blank.hyps(4)] by simp
  note eq = header_prefix [OF blank.prems(1) this]
  show ?case
    by (rule walk.blank [OF _ _ blank.hyps(3) blank.IH [OF blank.prems]])
      (use blank in \<open>simp_all only: eq\<close>)
next
  case (hop i et j)
  then have "i + 4 \<le> j + 4" using walk_end [OF hop.hyps(6)] by simp
  note eq = header_prefix [OF hop.prems(1) this]
  show ?case
    by (rule walk.hop [of i tlv' et, OF _ _ hop.hyps(3-5)])
      (use hop in \<open>simp_all only: eq\<close>)
qed

text \<open>Buffers that differ only inside the value of another entry on the way.\<close>

lemma walk_from_drop:
  "drop i tlv' = drop i tlv \<Longrightarrow> length tlv' = length tlv \<Longrightarrow>
   get_extension_indices_from Y tlv' init i = get_extension_indices_from Y tlv init i"
proof (induction "length tlv - i" arbitrary: i rule: less_induct)
  case less
  have eq: "drop k tlv' = drop k tlv" if "i \<le> k" for k
    using that drop_drop [of "k - i" i tlv'] drop_drop [of "k - i" i tlv] less.prems(1) by simp
  have step: "get_extension_indices_from Y tlv' init k = get_extension_indices_from Y tlv init k"
    if "i < k" "i < length tlv" for k
    using that less.prems by (intro less.hyps eq) auto
  have "header_type tlv' i = header_type tlv i" "header_len tlv' i = header_len tlv i"
    using eq [of i] eq [of "i + 2"] by (simp_all add: header_type_def header_len_def)
  then show ?case
    using step [of "i + 2"] step [of "i + 4 + header_len tlv i"]
    by (subst (1 2) walk_step) (auto simp: less.prems intro!: try_bind_cong)
qed

lemma walk_other:
  assumes "walk X tlv False i j" "Y \<noteq> X"
    and "take (j + 4) tlv' = take (j + 4) tlv" "length tlv' = length tlv"
    and "drop (j + 4 + header_len tlv j) tlv' = drop (j + 4 + header_len tlv j) tlv"
  shows "get_extension_indices_from Y tlv' init i = get_extension_indices_from Y tlv init i"
  using assms
proof induction
  case (stop i et)
  note eq = header_prefix [OF stop.prems(2) order_refl]
  have "get_extension_indices_from Y tlv' init (i + 4 + header_len tlv i) =
      get_extension_indices_from Y tlv init (i + 4 + header_len tlv i)"
    using stop by (intro walk_from_drop) auto
  with stop show ?case
    by (subst (1 2) walk_step) (auto simp: eq)
next
  case (blank i j)
  then have "i + 4 \<le> j + 4" using walk_end [OF blank.hyps(4)] by simp
  note eq = header_prefix [OF blank.prems(2) this]
  show ?case
    using blank by (subst (1 2) walk_step) (auto simp: eq)
next
  case (hop i et j)
  then have "i + 4 \<le> j + 4" using walk_end [OF hop.hyps(6)] by simp
  note eq = header_prefix [OF hop.prems(2) this]
  show ?case
    using hop by (subst (1 2) walk_step) (auto simp: eq)
qed


text \<open>Two entries found in the same data do not overlap.\<close>

inductive_cases walkE: "walk V tlv init i j"

lemma walk_disjoint:
  assumes "walk X tlv False i j" "walk Y tlv False i j'" "Y \<noteq> X"
  shows "j + 4 + header_len tlv j \<le> j' \<or> j' + 4 + header_len tlv j' \<le> j"
  using assms
proof induction
  case (stop i et)
  from stop.prems(1) show ?case
    by (rule walkE) (use stop in \<open>auto dest: walk_end\<close>)
next
  case (blank i j)
  from blank.prems(1) show ?case
    by (rule walkE) (use blank in auto)
next
  case (hop i et j)
  from hop.prems(1) show ?case
    by (rule walkE) (use hop in \<open>auto dest: walk_end\<close>)
qed

section \<open>Extensions\<close>

locale extension_impl = pod_codec "ext_pod X" for X :: "'v extension" +
  assumes size_declared: "pod_size (ext_pod X) = get_type_len (ext_type X)"
    and type_initialized: "ext_type X \<noteq> ET_Uninitialized"
    and size_u16: "pod_size (ext_pod X) < 2 ^ 16"
begin

definition found :: "'s base_state \<Rightarrow> 's state_with_extensions_mut \<Rightarrow> nat \<Rightarrow> bool" where
  "found S s at \<longleftrightarrow>
     get_account_type (ext_type X) = base_account_type S \<and>
     (\<exists>j. walk (ext_type X) (tlv_data s) False 0 j \<and> at = j + 4 \<and>
        header_len (tlv_data s) j = pod_size (ext_pod X) \<and>
        at + pod_size (ext_pod X) \<le> length (tlv_data s))"

lemma get_extension_mut_iff:
  "swe_get_extension_mut S X s = Inr (at, v) \<longleftrightarrow>
     found S s at \<and> v = pod_decode (ext_pod X) (take (pod_size (ext_pod X)) (drop at (tlv_data s)))"
proof -
  show ?thesis
    using size_declared walk_end [of "ext_type X" "tlv_data s" False 0]
    by (force simp: swe_get_extension_mut_def get_extension_indices_def walk_iff ok_simps found_def
        get_tlv_len_def Let_def header_len_def length_pod_def pod_u16_def)
qed

text \<open>What is assigned through the reference is read back, and nothing else changes.\<close>

lemma found_put [simp]:
  assumes "found S s at"
  shows "found S (put_extension X at w s) at"
proof -
  from assms obtain j where j: "get_account_type (ext_type X) = base_account_type S"
    "walk (ext_type X) (tlv_data s) False 0 j" "at = j + 4"
    "header_len (tlv_data s) j = pod_size (ext_pod X)"
    "at + pod_size (ext_pod X) \<le> length (tlv_data s)"
    by (auto simp: found_def)
  let ?t = "tlv_data (put_extension X at w s)"
  have eq: "take (j + 4) ?t = take (j + 4) (tlv_data s)" "length ?t = length (tlv_data s)"
    using j(3,5) by (simp_all add: put_extension_def pod_bytes_of_def length_encode splice_def)
  from walk_prefix [OF j(2) eq] header_prefix(2) [OF eq(1) order_refl] eq(2) j show ?thesis
    by (auto simp: found_def)
qed

lemma put_get:
  assumes "swe_get_extension_mut S X s = Ok (at, v)"
  shows "swe_get_extension_mut S X (put_extension X at w s) = Ok (at, w)"
proof -
  from assms have f: "found S s at" by (simp add: get_extension_mut_iff)
  then have "at + pod_size (ext_pod X) \<le> length (tlv_data s)" by (auto simp: found_def)
  then have "take (pod_size (ext_pod X)) (drop at (tlv_data (put_extension X at w s))) =
      pod_encode (ext_pod X) w"
    using slice_splice_same [of at "pod_encode (ext_pod X) w" "tlv_data s"]
    by (simp add: put_extension_def pod_bytes_of_def length_encode)
  with f show ?thesis by (simp add: get_extension_mut_iff decode_encode)
qed

lemma put_self:
  assumes "swe_get_extension_mut S X s = Ok (at, v)"
  shows "put_extension X at v s = s"
proof -
  from assms have f: "found S s at"
    and v: "v = pod_decode (ext_pod X) (take (pod_size (ext_pod X)) (drop at (tlv_data s)))"
    by (simp_all add: get_extension_mut_iff)
  then have "at + pod_size (ext_pod X) \<le> length (tlv_data s)" by (auto simp: found_def)
  then show ?thesis
    by (simp add: put_extension_def pod_bytes_of_def v encode_decode splice_self)
qed

lemma length_put:
  "found S s at \<Longrightarrow> length (tlv_data (put_extension X at w s)) = length (tlv_data s)"
  by (auto simp: put_extension_def pod_bytes_of_def length_encode found_def)

lemma length_put_mut:
  "swe_get_extension_mut S X s = Ok (at, v) \<Longrightarrow>
   length (tlv_data (put_extension X at w s)) = length (tlv_data s)"
  by (auto simp: get_extension_mut_iff intro: length_put)

end

lemma put_extension_views [simp]:
  "base (put_extension X at v s) = base s" "base_data (put_extension X at v s) = base_data s"
  "padding (put_extension X at v s) = padding s"
  "account_type_data (put_extension X at v s) = account_type_data s"
  by (simp_all add: put_extension_def)

lemma swe_pack_base_views [simp]:
  "base (swe_pack_base S s) = base s" "padding (swe_pack_base S s) = padding s"
  "account_type_data (swe_pack_base S s) = account_type_data s"
  "tlv_data (swe_pack_base S s) = tlv_data s"
  by (simp_all add: swe_pack_base_def)

text \<open>The immutable view reads what the mutable one does.\<close>

lemma get_extension_of_mut:
  "swe_get_extension_mut S X s = Ok (at, v) \<Longrightarrow> get_extension S X (tlv_data s) = Ok v"
  by (auto simp: swe_get_extension_mut_def get_extension_def ok_simps Let_def)

text \<open>Reading an extension depends on the TLV data only.\<close>

lemma get_extension_mut_tlv:
  "tlv_data s = tlv_data t \<Longrightarrow> swe_get_extension_mut S X s = swe_get_extension_mut S X t"
  by (simp only: swe_get_extension_mut_def)

lemma get_extension_mut_views [simp]:
  "swe_get_extension_mut S X (swe_pack_base T s) = swe_get_extension_mut S X s"
  "swe_get_extension_mut S X (s\<lparr>base := b\<rparr>) = swe_get_extension_mut S X s"
  "swe_get_extension_mut S X (s\<lparr>base_data := d\<rparr>) = swe_get_extension_mut S X s"
  by (rule get_extension_mut_tlv; simp)+

text \<open>Another extension's entry is untouched.\<close>

lemma get_put_other:
  assumes "extension_impl X" "extension_impl Y" "ext_type Y \<noteq> ext_type X"
    and "swe_get_extension_mut S X s = Ok (at, v)"
    and "swe_get_extension_mut S Y s = Ok (at', u)"
  shows "swe_get_extension_mut S Y (put_extension X at w s) = Ok (at', u)"
proof -
  let ?s = "put_extension X at w s"
  note mut = extension_impl.get_extension_mut_iff
  from assms(1,4) have X: "extension_impl.found X S s at" by (simp add: mut)
  from assms(2,5) have Y: "extension_impl.found Y S s at'"
    and u: "u = pod_decode (ext_pod Y) (take (pod_size (ext_pod Y)) (drop at' (tlv_data s)))"
    by (simp_all add: mut)
  from X obtain j where j: "walk (ext_type X) (tlv_data s) False 0 j" "at = j + 4"
    "header_len (tlv_data s) j = pod_size (ext_pod X)" "at + pod_size (ext_pod X) \<le> length (tlv_data s)"
    by (auto simp: extension_impl.found_def [OF assms(1)])
  from Y obtain j' where j': "get_account_type (ext_type Y) = base_account_type S"
    "walk (ext_type Y) (tlv_data s) False 0 j'" "at' = j' + 4"
    "header_len (tlv_data s) j' = pod_size (ext_pod Y)"
    "at' + pod_size (ext_pod Y) \<le> length (tlv_data s)"
    by (auto simp: extension_impl.found_def [OF assms(2)])
  have enc: "length (pod_encode (ext_pod X) w) = pod_size (ext_pod X)"
    using assms(1) by (intro pod_codec.length_encode extension_impl.axioms(1))
  have t: "tlv_data ?s = splice (tlv_data s) (j + 4) (pod_encode (ext_pod X) w)"
    by (simp add: put_extension_def pod_bytes_of_def j(2))
  have fit: "j + 4 + length (pod_encode (ext_pod X) w) \<le> length (tlv_data s)"
    using j enc by simp
  have len: "length (tlv_data ?s) = length (tlv_data s)"
    using fit by (simp add: t)
  have "get_extension_indices_from (ext_type Y) (tlv_data ?s) False 0 =
      get_extension_indices_from (ext_type Y) (tlv_data s) False 0"
    using fit by (intro walk_other [OF j(1) assms(3) _ len])
      (simp_all add: t j(3) enc slice_splice_after, simp add: splice_def)
  then have walk: "walk (ext_type Y) (tlv_data ?s) False 0 j'"
    using j'(2) walk_sound [of "ext_type Y" "tlv_data s" False 0 j'] walk_complete
    by (metis get_tlv_indices_simps(1))
  from walk_disjoint [OF j(1) j'(2) assms(3)]
  have "header_len (tlv_data ?s) j' = header_len (tlv_data s) j' \<and>
    take (pod_size (ext_pod Y)) (drop at' (tlv_data ?s)) =
    take (pod_size (ext_pod Y)) (drop at' (tlv_data s))"
  proof
    assume "j + 4 + header_len (tlv_data s) j \<le> j'"
    then have "drop k (tlv_data ?s) = drop k (tlv_data s)" if "j' \<le> k" for k
      using that fit by (simp add: t j(3) enc slice_splice_after)
    then show ?thesis by (simp add: header_len_def j'(3))
  next
    assume "j' + 4 + header_len (tlv_data s) j' \<le> j"
    then have "j' + 4 + pod_size (ext_pod Y) \<le> j" by (simp only: j'(4))
    then show ?thesis
      using fit by (simp add: header_len_def t slice_splice_before j'(3))
  qed
  with walk j' len u show ?thesis
    by (auto simp: mut [OF assms(2)] extension_impl.found_def [OF assms(2)])
qed

section \<open>The implementations\<close>

lemma type_lens [simp]:
  "get_type_len ET_TransferFeeConfig = 108" "get_type_len ET_TransferFeeAmount = 8"
  "get_type_len ET_MintCloseAuthority = 32" "get_type_len ET_ImmutableOwner = 0"
  "get_type_len ET_DefaultAccountState = 1" "get_type_len ET_MemoTransfer = 1"
  "get_type_len ET_NonTransferable = 0" "get_type_len ET_InterestBearingConfig = 52"
  "get_type_len ET_Uninitialized = 0" "get_type_len ET_ConfidentialTransferMint = 0"
  "get_type_len ET_ConfidentialTransferAccount = 0"
  by (simp_all add: get_type_len_def pod_get_packed_len_def mint_close_authority_pod_def
      default_account_state_pod_def memo_transfer_pod_def pod_layout)

lemma small_sizes [simp]:
  "pod_size mint_close_authority_pod = 32" "pod_size default_account_state_pod = 1"
  "pod_size memo_transfer_pod = 1" "pod_size pod_unit = 0"
  by (simp_all add: mint_close_authority_pod_def default_account_state_pod_def
      memo_transfer_pod_def pod_layout)

lemma extension_fields [simp]:
  "ext_type TransferFeeConfig_ext = ET_TransferFeeConfig" "ext_pod TransferFeeConfig_ext = transfer_fee_config_pod"
  "ext_type TransferFeeAmount_ext = ET_TransferFeeAmount" "ext_pod TransferFeeAmount_ext = transfer_fee_amount_pod"
  "ext_type MintCloseAuthority_ext = ET_MintCloseAuthority" "ext_pod MintCloseAuthority_ext = mint_close_authority_pod"
  "ext_type DefaultAccountState_ext = ET_DefaultAccountState" "ext_pod DefaultAccountState_ext = default_account_state_pod"
  "ext_type ImmutableOwner_ext = ET_ImmutableOwner" "ext_pod ImmutableOwner_ext = pod_unit"
  "ext_type MemoTransfer_ext = ET_MemoTransfer" "ext_pod MemoTransfer_ext = memo_transfer_pod"
  "ext_type NonTransferable_ext = ET_NonTransferable" "ext_pod NonTransferable_ext = pod_unit"
  "ext_type InterestBearingConfig_ext = ET_InterestBearingConfig"
  "ext_pod InterestBearingConfig_ext = interest_bearing_config_pod"
  by (simp_all add: TransferFeeConfig_ext_def TransferFeeAmount_ext_def MintCloseAuthority_ext_def
      DefaultAccountState_ext_def ImmutableOwner_ext_def MemoTransfer_ext_def NonTransferable_ext_def
      InterestBearingConfig_ext_def)

lemma account_types [simp]:
  "get_account_type ET_TransferFeeConfig = AT_Mint" "get_account_type ET_TransferFeeAmount = AT_Account"
  "get_account_type ET_MintCloseAuthority = AT_Mint" "get_account_type ET_ImmutableOwner = AT_Account"
  "get_account_type ET_DefaultAccountState = AT_Mint" "get_account_type ET_MemoTransfer = AT_Account"
  "get_account_type ET_NonTransferable = AT_Mint" "get_account_type ET_InterestBearingConfig = AT_Mint"
  by (simp_all add: get_account_type_def)

interpretation transfer_fee_config_ext: extension_impl TransferFeeConfig_ext
  by (intro extension_impl.intro extension_impl_axioms.intro)
    (simp_all add: transfer_fee_config.pod_codec_axioms)

interpretation transfer_fee_amount_ext: extension_impl TransferFeeAmount_ext
  by (intro extension_impl.intro extension_impl_axioms.intro)
    (simp_all add: transfer_fee_amount.pod_codec_axioms)

interpretation mint_close_authority_ext: extension_impl MintCloseAuthority_ext
  by (intro extension_impl.intro extension_impl_axioms.intro)
    (simp_all add: mint_close_authority.pod_codec_axioms)

interpretation default_account_state_ext: extension_impl DefaultAccountState_ext
  by (intro extension_impl.intro extension_impl_axioms.intro)
    (simp_all add: default_account_state.pod_codec_axioms)

interpretation immutable_owner_ext: extension_impl ImmutableOwner_ext
  by (intro extension_impl.intro extension_impl_axioms.intro)
    (simp_all add: unit_pod.pod_codec_axioms)

interpretation memo_transfer_ext: extension_impl MemoTransfer_ext
  by (intro extension_impl.intro extension_impl_axioms.intro)
    (simp_all add: memo_transfer.pod_codec_axioms)

interpretation non_transferable_ext: extension_impl NonTransferable_ext
  by (intro extension_impl.intro extension_impl_axioms.intro)
    (simp_all add: unit_pod.pod_codec_axioms)

interpretation interest_bearing_config_ext: extension_impl InterestBearingConfig_ext
  by (intro extension_impl.intro extension_impl_axioms.intro)
    (simp_all add: interest_bearing_config.pod_codec_axioms)


section \<open>The abstract view: an association list\<close>

type_synonym tlv_entries = "(extension_type \<times> bytes) list"

definition entry_bytes :: "extension_type \<times> bytes \<Rightarrow> bytes" where
  "entry_bytes e = extension_type_bytes (fst e) @ to_le_bytes (word_of_nat (length (snd e)) :: u16) @ snd e"

definition tlv_bytes :: "tlv_entries \<Rightarrow> nat \<Rightarrow> bytes" where
  "tlv_bytes es n = concat (map entry_bytes es) @ replicate n 0"

definition entries_ok :: "account_type \<Rightarrow> tlv_entries \<Rightarrow> bool" where
  "entries_ok A es \<longleftrightarrow> (\<forall>(t, v) \<in> set es. t \<noteq> ET_Uninitialized \<and> get_account_type t = A \<and> length v < 2 ^ 16)"

lemma length_entry_bytes [simp]: "length (entry_bytes e) = 4 + length (snd e)"
  by (simp add: entry_bytes_def bytes_simps)

lemma le_bytes_zero: "to_le_bytes (0 :: u16) = [0, 0]"
proof -
  have "LENGTH(16) div 8 = Suc (Suc 0)" by simp
  then show ?thesis by (simp only: to_le_bytes_def) simp
qed

lemma zero_type_header: "extension_type_try_from [0, 0] = Ok ET_Uninitialized"
  using extension_type_round_trip(1) [of ET_Uninitialized]
  by (simp add: extension_type_bytes_def le_bytes_zero)

lemma header_type_zeros:
  assumes "length pre = i" "2 \<le> n"
  shows "header_type (pre @ replicate n 0) i = Ok ET_Uninitialized"
proof -
  have "take 2 (replicate n (0 :: byte)) = replicate 2 0" using assms(2) by (simp add: min_absorb1)
  also have "\<dots> = [0, 0]" by (simp only: numeral_2_eq_2 replicate.simps)
  finally show ?thesis using assms(1) by (simp add: header_type_def zero_type_header)
qed

lemma header_entry:
  assumes "length pre = i" "length v < 2 ^ 16"
  shows "header_type (pre @ entry_bytes (t, v) @ suf) i = Ok t"
    "header_len (pre @ entry_bytes (t, v) @ suf) i = length v"
  using assms by (simp_all add: header_type_def header_len_def entry_bytes_def bytes_simps unat_of_nat)

text \<open>The offset of the first entry of a type.\<close>

fun entry_offset :: "extension_type \<Rightarrow> tlv_entries \<Rightarrow> nat option" where
  "entry_offset V [] = None"
| "entry_offset V (e # es) =
     (if fst e = V then Some 0
      else map_option (\<lambda>k. length (entry_bytes e) + k) (entry_offset V es))"

lemma walk_zeros:
  "length pre = i \<Longrightarrow> get_extension_indices_from V (pre @ replicate n 0) init i =
     (if init \<and> 4 \<le> n then Ok (get_tlv_indices i) else Fail PE_InvalidAccountData)"
proof (induction n arbitrary: pre i rule: less_induct)
  case (less n)
  show ?case
  proof (cases "4 \<le> n")
    case True
    have "n = 2 + (n - 2)" using True by simp
    then have split: "pre @ replicate n 0 = (pre @ [0, 0]) @ replicate (n - 2) 0"
      using replicate_add [of 2 "n - 2" 0] by (simp add: numeral_2_eq_2)
    have "get_extension_indices_from V (pre @ replicate n 0) init (i + 2) =
        (if init \<and> 4 \<le> n - 2 then Ok (get_tlv_indices (i + 2)) else Fail PE_InvalidAccountData)"
      unfolding split using less.prems True by (intro less.IH) auto
    then show ?thesis
      using True less.prems
      by (subst walk_step) (cases init; simp add: header_type_zeros del: add_2_eq_Suc')
  next
    case False
    then show ?thesis using less.prems by (subst walk_step) auto
  qed
qed

lemma walk_entries:
  assumes "entries_ok (get_account_type V) es" "length pre = i" "V \<noteq> ET_Uninitialized"
  shows "get_extension_indices_from V (pre @ tlv_bytes es n) init i =
    (case entry_offset V es of
       Some k \<Rightarrow> Ok (get_tlv_indices (i + k))
     | None \<Rightarrow> if init \<and> 4 \<le> n then Ok (get_tlv_indices (i + length (concat (map entry_bytes es))))
         else Fail PE_InvalidAccountData)"
  using assms
proof (induction es arbitrary: pre i)
  case Nil
  then show ?case by (simp add: tlv_bytes_def walk_zeros)
next
  case (Cons e es)
  obtain t v where e: "e = (t, v)" by (cases e)
  have ok: "t \<noteq> ET_Uninitialized" "get_account_type t = get_account_type V" "length v < 2 ^ 16"
    and es: "entries_ok (get_account_type V) es"
    using Cons.prems(1) by (auto simp: entries_ok_def e)
  have b: "pre @ tlv_bytes (e # es) n = pre @ entry_bytes (t, v) @ tlv_bytes es n"
    by (simp add: tlv_bytes_def e)
  have IH: "get_extension_indices_from V ((pre @ entry_bytes (t, v)) @ tlv_bytes es n) init
      (i + 4 + length v) =
    (case entry_offset V es of
       Some k \<Rightarrow> Ok (get_tlv_indices (i + 4 + length v + k))
     | None \<Rightarrow> if init \<and> 4 \<le> n
         then Ok (get_tlv_indices (i + 4 + length v + length (concat (map entry_bytes es))))
         else Fail PE_InvalidAccountData)"
    using Cons.prems es by (intro Cons.IH) auto
  show ?case
    unfolding b
    using ok IH Cons.prems(2,3) header_entry [OF Cons.prems(2) ok(3), of t "tlv_bytes es n"]
    by (subst walk_step) (auto simp: e ac_simps split: option.splits)
qed


lemma entry_offset_None: "entry_offset V es = None \<longleftrightarrow> V \<notin> fst ` set es"
  by (induction es) auto

lemma entry_offset_Some:
  "entry_offset V es = Some k \<Longrightarrow>
   \<exists>es1 v es2. es = es1 @ (V, v) # es2 \<and> V \<notin> fst ` set es1 \<and>
     k = length (concat (map entry_bytes es1))"
proof (induction es arbitrary: k)
  case (Cons e es)
  show ?case
  proof (cases "fst e = V")
    case True
    with Cons.prems show ?thesis
      by (intro exI [of _ "[]"] exI [of _ "snd e"] exI [of _ es]) (cases e; auto)
  next
    case False
    with Cons.prems obtain k' where k': "entry_offset V es = Some k'" "k = 4 + length (snd e) + k'"
      by auto
    from Cons.IH [OF k'(1)] obtain es1 v es2 where "es = es1 @ (V, v) # es2" "V \<notin> fst ` set es1"
      "k' = length (concat (map entry_bytes es1))" by blast
    with False k' show ?thesis
      by (intro exI [of _ "e # es1"]) auto
  qed
qed simp

lemma map_of_entry:
  "V \<notin> fst ` set es1 \<Longrightarrow> map_of (es1 @ (V, v) # es2) V = Some v"
  by (induction es1) auto

lemma get_extension_types_entries:
  assumes "entries_ok A es" "length pre = i"
  shows "get_extension_types_from (pre @ tlv_bytes es n) i acc = Ok (acc @ map fst es)"
  using assms
proof (induction es arbitrary: pre i acc)
  case Nil
  then show ?case
    using header_type_zeros [of pre i n]
    by (subst get_extension_types_from.simps)
      (auto simp: tlv_bytes_def slice_def Let_def header_type_def)
next
  case (Cons e es)
  obtain t v where e: "e = (t, v)" by (cases e)
  have ok: "t \<noteq> ET_Uninitialized" "length v < 2 ^ 16" and es: "entries_ok A es"
    using Cons.prems(1) by (auto simp: entries_ok_def e)
  have b: "pre @ tlv_bytes (e # es) n = pre @ entry_bytes (t, v) @ tlv_bytes es n"
    by (simp add: tlv_bytes_def e)
  have IH: "get_extension_types_from ((pre @ entry_bytes (t, v)) @ tlv_bytes es n)
      (i + 4 + length v) (acc @ [t]) = Ok ((acc @ [t]) @ map fst es)"
    using Cons.prems es by (intro Cons.IH) auto
  show ?case
    unfolding b
    using ok IH Cons.prems(2) header_entry [OF Cons.prems(2) ok(2), of t "tlv_bytes es n"]
    by (subst get_extension_types_from.simps)
      (auto simp: e slice_def Let_def header_type_def header_len_def pod_from_bytes_def
        length_pod_def pod_u16_def)
qed

context extension_impl begin

lemma get_extension_entries:
  assumes "entries_ok (base_account_type S) es" "get_account_type (ext_type X) = base_account_type S"
  shows "get_extension S X (tlv_bytes es n) =
    (case map_of es (ext_type X) of
       None \<Rightarrow> Fail PE_InvalidAccountData
     | Some v \<Rightarrow> pod_from_bytes (ext_pod X) v)"
proof -
  have w: "get_extension_indices (ext_type X) (tlv_bytes es n) False =
      (case entry_offset (ext_type X) es of
         Some k \<Rightarrow> Ok (get_tlv_indices k) | None \<Rightarrow> Fail PE_InvalidAccountData)"
    using walk_entries [of "ext_type X" es "[]" 0 n False] assms type_initialized
    by (simp add: get_extension_indices_def cong: option.case_cong)
  show ?thesis
  proof (cases "entry_offset (ext_type X) es")
    case None
    then have "map_of es (ext_type X) = None" by (simp add: map_of_eq_None_iff entry_offset_None)
    moreover have "get_extension_indices (ext_type X) (tlv_bytes es n) False = Fail PE_InvalidAccountData"
      unfolding w None by simp
    ultimately show ?thesis using assms by (simp add: get_extension_def)
  next
    case (Some k)
    from entry_offset_Some [OF Some] obtain es1 v es2 where
      es: "es = es1 @ (ext_type X, v) # es2" "ext_type X \<notin> fst ` set es1"
      "k = length (concat (map entry_bytes es1))" by blast
    define pre where "pre = concat (map entry_bytes es1)"
    have v: "length v < 2 ^ 16" using assms(1) es(1) by (auto simp: entries_ok_def)
    have b: "tlv_bytes es n = pre @ entry_bytes (ext_type X, v) @ tlv_bytes es2 n"
      by (simp add: tlv_bytes_def es(1) pre_def)
    have k: "length pre = k" by (simp add: es(3) pre_def)
    have h: "header_len (tlv_bytes es n) k = length v"
      unfolding b by (rule header_entry(2) [OF k v])
    have len: "k + 4 + length v \<le> length (tlv_bytes es n)"
      by (simp add: b k)
    have val: "take (length v) (drop (k + 4) (tlv_bytes es n)) = v"
      by (simp add: b k entry_bytes_def bytes_simps)
    have "map_of es (ext_type X) = Some v" unfolding es(1) by (rule map_of_entry [OF es(2)])
    with Some w assms h len val show ?thesis
      by (simp add: get_extension_def slice_def Let_def header_len_def
          length_pod_from_bytes)
  qed
qed


lemma init_extension_entries:
  assumes "entries_ok (base_account_type S) es" "get_account_type (ext_type X) = base_account_type S"
    and "tlv_data s = tlv_bytes es n" "ext_type X \<notin> fst ` set es"
    and "get_tlv_len (ext_type X) \<le> n"
  shows "swe_init_extension S X overwrite s =
    Ok (s\<lparr>tlv_data := tlv_bytes (es @ [(ext_type X, pod_encode (ext_pod X) (pod_default (ext_pod X)))])
           (n - get_tlv_len (ext_type X))\<rparr>,
        length (concat (map entry_bytes es)) + 4, pod_default (ext_pod X))"
proof -
  have none: "entry_offset (ext_type X) es = None" using assms(4) by (simp add: entry_offset_None)
  define pre where "pre = concat (map entry_bytes es)"
  let ?k = "length pre" and ?m = "pod_size (ext_pod X)" and ?enc = "pod_encode (ext_pod X)"
  let ?d = "pod_default (ext_pod X)" and ?lb = "to_le_bytes (word_of_nat (pod_size (ext_pod X)) :: u16)"
  have n: "n = 2 + (2 + (?m + (n - get_tlv_len (ext_type X))))"
    using assms(5) size_declared by (simp add: get_tlv_len_def)
  define r where "r = n - get_tlv_len (ext_type X)"
  have z: "replicate n (0 :: byte) =
      replicate 2 0 @ replicate 2 0 @ replicate ?m 0 @ replicate r 0"
    by (subst n) (simp only: replicate_add r_def)
  have t: "tlv_data s = pre @ replicate 2 0 @ replicate 2 0 @ replicate ?m 0 @ replicate r 0"
    by (simp only: assms(3) tlv_bytes_def pre_def z)
  have ix: "get_extension_indices (ext_type X) (tlv_data s) True = Ok (get_tlv_indices ?k)"
    using walk_entries [of "ext_type X" es "[]" 0 n True] assms type_initialized none
    by (simp add: get_extension_indices_def get_tlv_len_def pre_def)
  have at: "extension_type_try_from (take 2 (drop ?k (tlv_data s))) = Ok ET_Uninitialized"
    using header_type_zeros [of pre ?k n] n
    by (simp add: header_type_def assms(3) tlv_bytes_def pre_def)
  have tlv1: "splice (tlv_data s) ?k (extension_type_bytes (ext_type X)) =
      pre @ extension_type_bytes (ext_type X) @ replicate 2 0 @ replicate ?m 0 @ replicate r 0"
    by (simp add: t splice_def)
  have tlv2: "splice (pre @ extension_type_bytes (ext_type X) @ replicate 2 0 @ replicate ?m 0 @ replicate r 0)
        (?k + 2) ?lb =
      pre @ extension_type_bytes (ext_type X) @ ?lb @ replicate ?m 0 @ replicate r 0"
    by (simp add: splice_def bytes_simps)
  have tlv3: "splice (pre @ extension_type_bytes (ext_type X) @ ?lb @ replicate ?m 0 @ replicate r 0)
        (?k + 4) (?enc ?d) =
      tlv_bytes (es @ [(ext_type X, ?enc ?d)]) r"
    by (simp add: splice_def bytes_simps tlv_bytes_def entry_bytes_def pre_def length_encode)
  have sl: "slice (pre @ extension_type_bytes (ext_type X) @ ?lb @ replicate ?m 0 @ replicate r 0)
        (?k + 4) (?k + 4 + ?m) = Ok (replicate ?m 0)"
    by (simp add: slice_def bytes_simps)
  have room: "get_tlv_len (ext_type X) \<le> length (tlv_data s) - ?k" "?k + 2 \<le> length (tlv_data s)"
    "?k \<le> length (tlv_data s)"
    using assms(5) by (simp_all add: assms(3) tlv_bytes_def pre_def get_tlv_len_def)
  have sz: "length_try_from ?m = Ok (word_of_nat ?m)"
    using size_u16 by (simp add: length_try_from_def)
  have enc: "pod_encode length_pod w = to_le_bytes w" for w
    by (simp add: length_pod_def pod_u16_def)
  show ?thesis
    unfolding r_def [symmetric] pre_def [symmetric]
    using room assms(2)
    by (simp add: swe_init_extension_def ix slice_def [of "tlv_data s"] at tlv1 tlv2 tlv3 sl
        pod_get_packed_len_def unwrap_def Let_def put_extension_def sz enc
        pod_bytes_of_def pod_from_bytes_def [of "ext_pod X"] del: add_2_eq_Suc')
qed

text \<open>The data of a single extension.\<close>

lemma get_extension_mut_single:
  assumes "get_account_type (ext_type X) = base_account_type S"
    and "tlv_data s = tlv_bytes [(ext_type X, pod_encode (ext_pod X) v)] n"
  shows "swe_get_extension_mut S X s = Ok (4, v)"
proof -
  let ?e = "(ext_type X, pod_encode (ext_pod X) v)"
  have t: "tlv_data s = [] @ entry_bytes ?e @ replicate n 0"
    by (simp add: assms(2) tlv_bytes_def)
  have len: "length (pod_encode (ext_pod X) v) < 2 ^ 16" using size_u16 by (simp add: length_encode)
  note h = header_entry [OF _ len, of "[]" 0 "ext_type X" "replicate n 0"]
  have "walk (ext_type X) (tlv_data s) False 0 0"
    by (rule walk.stop) (use h type_initialized in \<open>simp_all add: t\<close>)
  then have "found S s 4"
    using assms(1) h by (auto simp: found_def t length_encode)
  moreover have "take (pod_size (ext_pod X)) (drop 4 (tlv_data s)) = pod_encode (ext_pod X) v"
    by (simp add: t entry_bytes_def bytes_simps length_encode)
  ultimately show ?thesis by (simp add: get_extension_mut_iff decode_encode)
qed

lemma init_extension_full:
  assumes "entries_ok (base_account_type S) es" "get_account_type (ext_type X) = base_account_type S"
    and "tlv_data s = tlv_bytes es n" "ext_type X \<notin> fst ` set es"
    and "n < get_tlv_len (ext_type X)"
  shows "swe_init_extension S X overwrite s = Fail PE_InvalidAccountData"
  using walk_entries [of "ext_type X" es "[]" 0 n True] assms type_initialized
    entry_offset_None [of "ext_type X" es]
  by (auto simp: swe_init_extension_def get_extension_indices_def slice_def tlv_bytes_def)

end

end
