(* ===== verification/TokenAuthority.thy ===== *)
theory TokenAuthority
  imports TokenLaws
begin

text \<open>
  Borrows and authorities (\<open>processor.rs\<close>: \<open>Processor::validate_owner\<close>;
  \<open>extension/memo_transfer/mod.rs\<close>). Every handler of the token program takes the store
  and the accounts of the instruction and returns the store it leaves; a failed handler
  returns no store, since the runtime discards the writes of a failed instruction.
  \<open>validate_owner\<close> accepts the expected owner's own signature, or enough signatures
  of a multisig's members; \<open>count_signers_eq\<close> states what it counts.
\<close>

section \<open>Borrows\<close>

text \<open>
  \<open>RefCell::borrow\<close> and \<open>borrow_mut\<close> of an account's data while the cells \<open>held\<close> are
  borrowed in a conflicting way: a conflict panics. \<open>try_borrow_data\<close> reports it.
\<close>

definition acquire :: "nat list \<Rightarrow> account_info \<Rightarrow> ('e, unit) result" where
  "acquire held a = (if ai_cell a \<in> set held then Panicked else Ok ())"

definition try_borrow_data ::
  "nat list \<Rightarrow> store \<Rightarrow> account_info \<Rightarrow> (program_error, bytes) result" where
  "try_borrow_data held st a =
     (if ai_cell a \<in> set held then Fail PE_AccountBorrowFailed else Ok (account_data st a))"

lemma acquire_Ok [ok_simps]: "acquire held a = Inr u \<longleftrightarrow> ai_cell a \<notin> set held"
  by (auto simp: acquire_def)

lemma try_borrow_data_Ok [ok_simps]:
  "try_borrow_data held st a = Inr bs \<longleftrightarrow> ai_cell a \<notin> set held \<and> bs = account_data st a"
  by (auto simp: try_borrow_data_def)

section \<open>Owners and multisigs\<close>

fun match_signer ::
  "account_info \<Rightarrow> pubkey list \<Rightarrow> nat \<Rightarrow> bool list \<Rightarrow> u8 \<Rightarrow> (program_error, bool list \<times> u8) result" where
  "match_signer signer [] position matched num_signers = Ok (matched, num_signers)"
| "match_signer signer (key # keys) position matched num_signers =
     (if cmp_pubkeys key (ai_key signer) \<and> \<not> matched ! position then
        if \<not> ai_is_signer signer then Fail PE_MissingRequiredSignature
        else match_signer signer keys (Suc position) (matched[position := True]) (num_signers + 1)
      else match_signer signer keys (Suc position) matched num_signers)"

fun count_signers ::
  "multisig \<Rightarrow> account_info list \<Rightarrow> bool list \<Rightarrow> u8 \<Rightarrow> (program_error, u8) result" where
  "count_signers ms [] matched num_signers = Ok num_signers"
| "count_signers ms (signer # signers) matched num_signers =
     try_bind (slice (ms_signers ms) 0 (unat (ms_n ms))) (\<lambda>keys.
     try_bind (match_signer signer keys 0 matched num_signers) (\<lambda>(matched, num_signers).
     count_signers ms signers matched num_signers))"

definition validate_owner ::
  "token_env \<Rightarrow> nat list \<Rightarrow> store \<Rightarrow> pubkey \<Rightarrow> pubkey \<Rightarrow> account_info \<Rightarrow> nat \<Rightarrow>
   account_info list \<Rightarrow> (program_error, unit) result" where
  "validate_owner E held st program_id expected_owner owner_info owner_data_len signers =
     (if \<not> cmp_pubkeys expected_owner (ai_key owner_info) then TErr TE_OwnerMismatch
      else if cmp_pubkeys program_id (ai_owner owner_info) \<and> owner_data_len = pk_len multisig_pack then
        try_bind (acquire held owner_info) (\<lambda>_.
        try_bind (unpack E multisig_pack (account_data st owner_info)) (\<lambda>ms.
        try_bind (count_signers ms signers (replicate MAX_SIGNERS False) 0) (\<lambda>num_signers.
        if num_signers < ms_m ms then Fail PE_MissingRequiredSignature else Ok ())))
      else if \<not> ai_is_signer owner_info then Fail PE_MissingRequiredSignature
      else Ok ())"

section \<open>Memos\<close>

definition memo_required ::
  "token_account state_with_extensions_mut \<Rightarrow> (program_error, bool) result" where
  "memo_required s =
     try_bind (attempt (swe_get_extension Account_base MemoTransfer_ext s)) (\<lambda>r. case r of
       Inr extension \<Rightarrow> Ok (pod_bool_get (require_incoming_transfer_memos extension))
     | Inl _ \<Rightarrow> Ok False)"

definition check_previous_sibling_instruction_is_memo :: "token_env \<Rightarrow> (program_error, unit) result" where
  "check_previous_sibling_instruction_is_memo E = (case env_sibling_program E of
      Some p \<Rightarrow> if p = memo_id \<or> p = memo_v1_id then Ok () else TErr TE_NoMemo
    | None \<Rightarrow> TErr TE_NoMemo)"

section \<open>What is counted\<close>

text \<open>The positions of a multisig whose key is the key of a signing account.\<close>

definition signed_positions :: "pubkey list \<Rightarrow> account_info list \<Rightarrow> nat set" where
  "signed_positions keys signers =
     {p. p < length keys \<and> (\<exists>s \<in> set signers. ai_is_signer s \<and> ai_key s = keys ! p)}"

definition marked :: "bool list \<Rightarrow> nat set" where
  "marked matched = {p. p < length matched \<and> matched ! p}"

lemma marked_update:
  "p < length m \<Longrightarrow> marked (m[p := True]) = insert p (marked m)"
  by (auto simp: marked_def nth_list_update)

lemma finite_marked [simp]: "finite (marked m)"
  by (simp add: marked_def)

lemma card_marked_le: "card (marked m) \<le> length m"
proof -
  have "card (marked m) \<le> card {..<length m}" by (intro card_mono) (auto simp: marked_def)
  then show ?thesis by simp
qed

text \<open>One pass marks, from \<open>pos\<close> on, the positions that hold the signer's key.\<close>

definition hits :: "account_info \<Rightarrow> pubkey list \<Rightarrow> nat \<Rightarrow> nat \<Rightarrow> bool" where
  "hits s keys pos p \<longleftrightarrow>
     pos \<le> p \<and> p - pos < length keys \<and> ai_is_signer s \<and> keys ! (p - pos) = ai_key s"

lemma hits_Nil [simp]: "\<not> hits s [] pos p"
  by (simp add: hits_def)

lemma hits_Cons:
  "hits s (key # keys) pos p \<longleftrightarrow>
     p = pos \<and> ai_is_signer s \<and> key = ai_key s \<or> hits s keys (Suc pos) p"
proof (cases "p \<le> pos")
  case False
  then obtain d where "p = Suc pos + d" using less_iff_Suc_add [of pos p] by auto
  then show ?thesis by (simp add: hits_def)
qed (auto simp: hits_def)

lemma match_signer_Ok:
  assumes "match_signer s keys pos matched n = Ok (matched', n')"
    and "pos + length keys \<le> length matched" "length matched < 256" "unat n = card (marked matched)"
  shows "length matched' = length matched \<and> unat n' = card (marked matched') \<and>
    (\<forall>p < length matched. matched' ! p \<longleftrightarrow> matched ! p \<or> hits s keys pos p)"
  using assms
proof (induction keys arbitrary: pos matched n)
  case (Cons key keys)
  show ?case
  proof (cases "key = ai_key s \<and> \<not> matched ! pos")
    case True
    with Cons.prems(1) have sig: "ai_is_signer s"
      and rec: "match_signer s keys (Suc pos) (matched[pos := True]) (n + 1) = Ok (matched', n')"
      by (simp_all split: if_splits)
    have m: "marked (matched[pos := True]) = insert pos (marked matched)" "pos \<notin> marked matched"
      using Cons.prems(2) True by (simp_all add: marked_update) (simp add: marked_def)
    have "card (marked (matched[pos := True])) \<le> length matched"
      using card_marked_le [of "matched[pos := True]"] by simp
    then have "unat (n + 1) = card (marked (matched[pos := True]))"
      using Cons.prems(3,4) by (simp add: m unat_word_ariths)
    from Cons.IH [OF rec _ _ this] Cons.prems(2,3)
    have IH: "length matched' = length matched" "unat n' = card (marked matched')"
      "\<And>p. p < length matched \<Longrightarrow>
         matched' ! p \<longleftrightarrow> matched[pos := True] ! p \<or> hits s keys (Suc pos) p"
      by simp_all
    moreover have "pos < length matched" using Cons.prems(2) by simp
    ultimately show ?thesis using sig True
      by (simp add: hits_Cons nth_list_update)
  next
    case False
    with Cons.prems have rec: "match_signer s keys (Suc pos) matched n = Ok (matched', n')"
      by (simp split: if_splits)
    from Cons.IH [OF rec _ Cons.prems(3,4)] Cons.prems(2) False show ?thesis
      by (auto simp: hits_Cons)
  qed
qed simp

lemma count_signers_Ok:
  assumes "count_signers ms signers matched n = Ok c"
    and "unat (ms_n ms) \<le> length matched" "length matched < 256" "unat n = card (marked matched)"
  shows "unat c = card (marked matched \<union> signed_positions (take (unat (ms_n ms)) (ms_signers ms)) signers)"
  using assms
proof (induction signers arbitrary: matched n)
  case Nil
  then show ?case by (simp add: signed_positions_def)
next
  case (Cons s signers)
  let ?keys = "take (unat (ms_n ms)) (ms_signers ms)"
  from Cons.prems(1) obtain m' n' where len: "unat (ms_n ms) \<le> length (ms_signers ms)"
    and step: "match_signer s ?keys 0 matched n = Ok (m', n')"
    and rec: "count_signers ms signers m' n' = Ok c"
    by (auto simp: ok_simps)
  from match_signer_Ok [OF step _ Cons.prems(3,4)] Cons.prems(2) len
  have m': "length m' = length matched" "unat n' = card (marked m')"
    "\<And>p. p < length matched \<Longrightarrow> m' ! p \<longleftrightarrow> matched ! p \<or> hits s ?keys 0 p"
    by simp_all
  have "marked m' = marked matched \<union> {p. hits s ?keys 0 p}"
    using m'(1,3) Cons.prems(2) by (auto simp: marked_def hits_def)
  then have "marked m' \<union> signed_positions ?keys signers =
      marked matched \<union> signed_positions ?keys (s # signers)"
    by (auto simp: signed_positions_def hits_def)
  with Cons.IH [OF rec _ _ m'(2)] m'(1) Cons.prems(2,3) show ?case by simp
qed

lemma count_signers_eq:
  assumes "count_signers ms signers (replicate MAX_SIGNERS False) 0 = Ok c"
    and "unat (ms_n ms) \<le> MAX_SIGNERS"
  shows "unat c = card (signed_positions (take (unat (ms_n ms)) (ms_signers ms)) signers)"
proof -
  have "marked (replicate MAX_SIGNERS False) = {}" by (auto simp: marked_def)
  then show ?thesis
    using count_signers_Ok [OF assms(1)] assms(2) by (simp add: MAX_SIGNERS_def)
qed

text \<open>What an accepted owner means.\<close>

lemma validate_owner_Ok:
  assumes "validate_owner E held st program_id owner info len signers = Ok u"
  shows "owner = ai_key info" and
    "\<not> (program_id = ai_owner info \<and> len = 355) \<Longrightarrow> ai_is_signer info"
  using assms by (auto simp: validate_owner_def split: if_splits)

end
