(* ===== verification/TokenTransfer.thy ===== *)
theory TokenTransfer
  imports TokenAuthority
begin

text \<open>
  Moving tokens (\<open>processor.rs\<close>): \<open>process_transfer\<close>, \<open>process_approve\<close>,
  \<open>process_revoke\<close>, \<open>process_mint_to\<close>, \<open>process_burn\<close>. The mutable views of the
  accounts are written back to the cells they borrow at the end of the handler; two
  accounts with one cell conflict when both are borrowed, which is a panic. The lemmas
  give what a successful handler did in terms of the accounts' unpacked states.
\<close>

abbreviation overflow_or :: "'a option \<Rightarrow> (program_error, 'a) result" where
  "overflow_or v \<equiv> ok_or v (into_program_error TE_Overflow)"

section \<open>Operations\<close>

definition expected_mint_info ::
  "u8 option \<Rightarrow> account_info list \<Rightarrow>
   (program_error, (account_info \<times> u8) option \<times> account_info list) result" where
  "expected_mint_info expected_decimals accounts = (case expected_decimals of
      Some d \<Rightarrow> try_bind (next_account_info accounts) (\<lambda>(m, rest). Ok (Some (m, d), rest))
    | None \<Rightarrow> Ok (None, accounts))"

text \<open>The fee of a transfer, with the checks on the mint when one is given.\<close>

definition transfer_fee_due ::
  "token_env \<Rightarrow> nat list \<Rightarrow> store \<Rightarrow> token_account state_with_extensions_mut \<Rightarrow>
   (account_info \<times> u8) option \<Rightarrow> u64 \<Rightarrow> (program_error, u64) result" where
  "transfer_fee_due E held st source expected_mint amt = (case expected_mint of
      Some (mint_info, expected_decimals) \<Rightarrow>
        if \<not> cmp_pubkeys (acc_mint (base source)) (ai_key mint_info) then TErr TE_MintMismatch
        else
          try_bind (try_borrow_data held st mint_info) (\<lambda>mint_data.
          try_bind (se_unpack E Mint_base mint_data) (\<lambda>mint.
          try_bind (is_ok (se_get_extension Mint_base NonTransferable_ext mint)) (\<lambda>non_transferable.
          if non_transferable then TErr TE_NonTransferable
          else if expected_decimals \<noteq> decimals (se_base mint) then TErr TE_MintDecimalsMismatch
          else
            try_bind (attempt (se_get_extension Mint_base TransferFeeConfig_ext mint)) (\<lambda>r. case r of
              Inr config \<Rightarrow>
                try_bind (env_clock_get E) (\<lambda>clock.
                overflow_or (calculate_epoch_fee config (clk_epoch clock) amt))
            | Inl _ \<Rightarrow> Ok 0))))
    | None \<Rightarrow>
        try_bind (is_ok (swe_get_extension_mut Account_base TransferFeeAmount_ext source)) (\<lambda>has_fee.
        if has_fee then TErr TE_MintRequiredForTransfer else Ok 0))"

text \<open>The authority of a debit: the delegate within its allowance, or the owner.\<close>

definition debit_authority ::
  "token_env \<Rightarrow> nat list \<Rightarrow> store \<Rightarrow> pubkey \<Rightarrow> token_account \<Rightarrow> account_info \<Rightarrow>
   account_info list \<Rightarrow> u64 \<Rightarrow> bool \<Rightarrow> (program_error, token_account) result" where
  "debit_authority E held st program_id source authority_info signers amt consume =
     (let validate = (\<lambda>owner. validate_owner E held st program_id owner authority_info
            (data_len st authority_info) signers);
          by_owner = try_bind (validate (acc_owner source)) (\<lambda>_. Ok source) in
      case delegate source of
        Some d \<Rightarrow>
          if cmp_pubkeys (ai_key authority_info) d then
            try_bind (validate d) (\<lambda>_.
            if delegated_amount source < amt then TErr TE_InsufficientFunds
            else if consume then
              try_bind (overflow_or (checked_sub (delegated_amount source) amt)) (\<lambda>left.
              Ok (if left = 0 then source\<lparr>delegated_amount := left, delegate := None\<rparr>
                  else source\<lparr>delegated_amount := left\<rparr>))
            else Ok source)
          else by_owner
      | None \<Rightarrow> by_owner)"

definition withhold_fee ::
  "u64 \<Rightarrow> token_account state_with_extensions_mut \<Rightarrow>
   (program_error, token_account state_with_extensions_mut) result" where
  "withhold_fee fee destination =
     (if fee > 0 then
        try_bind (attempt (swe_get_extension_mut Account_base TransferFeeAmount_ext destination)) (\<lambda>r.
        case r of
          Inr (at, extension) \<Rightarrow>
            try_bind (overflow_or (checked_add (withheld_amount extension) fee)) (\<lambda>n.
            Ok (put_extension TransferFeeAmount_ext at (extension\<lparr>withheld_amount := n\<rparr>) destination))
        | Inl _ \<Rightarrow> TErr TE_InvalidState)
      else Ok destination)"

definition move_lamports ::
  "store \<Rightarrow> account_info \<Rightarrow> account_info \<Rightarrow> u64 \<Rightarrow> (program_error, store) result" where
  "move_lamports st source_info destination_info amt =
     try_bind (overflow_or (checked_sub (lamports st source_info) amt)) (\<lambda>l.
     let st = set_lamports st source_info l in
     try_bind (overflow_or (checked_add (lamports st destination_info) amt)) (\<lambda>l.
     Ok (set_lamports st destination_info l)))"

definition write_back ::
  "'s base_state \<Rightarrow> store \<Rightarrow> account_info \<Rightarrow> 's state_with_extensions_mut \<Rightarrow> store" where
  "write_back S st a s = set_data st a (swe_buffer (swe_pack_base S s))"

definition process_transfer ::
  "token_env \<Rightarrow> store \<Rightarrow> pubkey \<Rightarrow> account_info list \<Rightarrow> u64 \<Rightarrow> u8 option \<Rightarrow> u64 option \<Rightarrow>
   (program_error, store) result" where
  "process_transfer E st program_id accounts amt expected_decimals expected_fee =
     try_bind (next_account_info accounts) (\<lambda>(source_info, accounts).
     try_bind (expected_mint_info expected_decimals accounts) (\<lambda>(expected_mint, accounts).
     try_bind (next_account_info accounts) (\<lambda>(destination_info, accounts).
     try_bind (next_account_info accounts) (\<lambda>(authority_info, signers).
     let held = [ai_cell source_info] in
     try_bind (swe_unpack E Account_base (account_data st source_info)) (\<lambda>source.
     if is_frozen (base source) then TErr TE_AccountFrozen
     else if amount (base source) < amt then TErr TE_InsufficientFunds
     else
       try_bind (transfer_fee_due E held st source expected_mint amt) (\<lambda>fee.
       if expected_fee \<noteq> None \<and> expected_fee \<noteq> Some fee then TErr TE_FeeMismatch
       else
         let self_transfer = cmp_pubkeys (ai_key source_info) (ai_key destination_info) in
         try_bind (debit_authority E held st program_id (base source) authority_info signers amt
             (\<not> self_transfer)) (\<lambda>debited.
         try_bind (check_program_account (ai_owner source_info)) (\<lambda>_.
         try_bind (check_program_account (ai_owner destination_info)) (\<lambda>_.
         if self_transfer then Ok st
         else
           try_bind (acquire held destination_info) (\<lambda>_.
           try_bind (swe_unpack E Account_base (account_data st destination_info)) (\<lambda>destination.
           if is_frozen (base destination) then TErr TE_AccountFrozen
           else if \<not> cmp_pubkeys (acc_mint debited) (acc_mint (base destination))
           then TErr TE_MintMismatch
           else
             try_bind (memo_required destination) (\<lambda>memo.
             try_bind (if memo then check_previous_sibling_instruction_is_memo E else Ok ()) (\<lambda>_.
             try_bind (overflow_or (checked_sub (amount debited) amt)) (\<lambda>source_amount.
             try_bind (overflow_or (checked_sub amt fee)) (\<lambda>credited_amount.
             try_bind (overflow_or (checked_add (amount (base destination)) credited_amount))
               (\<lambda>destination_amount.
             let source = source\<lparr>base := debited\<lparr>amount := source_amount\<rparr>\<rparr>;
                 destination = destination\<lparr>base := (base destination)\<lparr>amount := destination_amount\<rparr>\<rparr> in
             try_bind (withhold_fee fee destination) (\<lambda>destination.
             try_bind (if is_native (base source)
                 then move_lamports st source_info destination_info amt else Ok st) (\<lambda>st.
             Ok (write_back Account_base (write_back Account_base st source_info source)
                   destination_info destination)))))))))))))))))))"

definition process_approve ::
  "token_env \<Rightarrow> store \<Rightarrow> pubkey \<Rightarrow> account_info list \<Rightarrow> u64 \<Rightarrow> u8 option \<Rightarrow> (program_error, store) result" where
  "process_approve E st program_id accounts amt expected_decimals =
     try_bind (next_account_info accounts) (\<lambda>(source_info, accounts).
     try_bind (expected_mint_info expected_decimals accounts) (\<lambda>(expected_mint, accounts).
     try_bind (next_account_info accounts) (\<lambda>(delegate_info, accounts).
     try_bind (next_account_info accounts) (\<lambda>(owner_info, signers).
     let held = [ai_cell source_info] in
     try_bind (swe_unpack E Account_base (account_data st source_info)) (\<lambda>source.
     if is_frozen (base source) then TErr TE_AccountFrozen
     else
       try_bind (case expected_mint of
           Some (mint_info, expected_decimals) \<Rightarrow>
             if \<not> cmp_pubkeys (acc_mint (base source)) (ai_key mint_info) then TErr TE_MintMismatch
             else
               try_bind (acquire held mint_info) (\<lambda>_.
               try_bind (se_unpack E Mint_base (account_data st mint_info)) (\<lambda>mint.
               if expected_decimals \<noteq> decimals (se_base mint) then TErr TE_MintDecimalsMismatch
               else Ok ()))
         | None \<Rightarrow> Ok ()) (\<lambda>_.
       try_bind (validate_owner E held st program_id (acc_owner (base source)) owner_info
           (data_len st owner_info) signers) (\<lambda>_.
       let source = source\<lparr>base :=
             (base source)\<lparr>delegate := Some (ai_key delegate_info), delegated_amount := amt\<rparr>\<rparr> in
       Ok (write_back Account_base st source_info source))))))))"

definition process_revoke ::
  "token_env \<Rightarrow> store \<Rightarrow> pubkey \<Rightarrow> account_info list \<Rightarrow> (program_error, store) result" where
  "process_revoke E st program_id accounts =
     try_bind (next_account_info accounts) (\<lambda>(source_info, accounts).
     try_bind (next_account_info accounts) (\<lambda>(authority_info, signers).
     let held = [ai_cell source_info] in
     try_bind (swe_unpack E Account_base (account_data st source_info)) (\<lambda>source.
     if is_frozen (base source) then TErr TE_AccountFrozen
     else
       let authority = (case delegate (base source) of
             Some d \<Rightarrow> if cmp_pubkeys (ai_key authority_info) d then d else acc_owner (base source)
           | None \<Rightarrow> acc_owner (base source)) in
       try_bind (validate_owner E held st program_id authority authority_info
           (data_len st authority_info) signers) (\<lambda>_.
       let source = source\<lparr>base := (base source)\<lparr>delegate := None, delegated_amount := 0\<rparr>\<rparr> in
       Ok (write_back Account_base st source_info source)))))"

definition process_mint_to ::
  "token_env \<Rightarrow> store \<Rightarrow> pubkey \<Rightarrow> account_info list \<Rightarrow> u64 \<Rightarrow> u8 option \<Rightarrow> (program_error, store) result" where
  "process_mint_to E st program_id accounts amt expected_decimals =
     try_bind (next_account_info accounts) (\<lambda>(mint_info, accounts).
     try_bind (next_account_info accounts) (\<lambda>(destination_info, accounts).
     try_bind (next_account_info accounts) (\<lambda>(owner_info, signers).
     try_bind (swe_unpack E Account_base (account_data st destination_info)) (\<lambda>destination.
     if is_frozen (base destination) then TErr TE_AccountFrozen
     else if is_native (base destination) then TErr TE_NativeNotSupported
     else if \<not> cmp_pubkeys (ai_key mint_info) (acc_mint (base destination)) then TErr TE_MintMismatch
     else
       try_bind (acquire [ai_cell destination_info] mint_info) (\<lambda>_.
       let held = [ai_cell mint_info, ai_cell destination_info] in
       try_bind (swe_unpack E Mint_base (account_data st mint_info)) (\<lambda>mint.
       try_bind (is_ok (swe_get_extension Mint_base NonTransferable_ext mint)) (\<lambda>non_transferable.
       try_bind (if non_transferable
           then is_ok (swe_get_extension Account_base ImmutableOwner_ext destination)
           else Ok True) (\<lambda>may_receive.
       if \<not> may_receive then TErr TE_NonTransferableNeedsImmutableOwnership
       else if expected_decimals \<noteq> None \<and> expected_decimals \<noteq> Some (decimals (base mint))
       then TErr TE_MintDecimalsMismatch
       else
         try_bind (case mint_authority (base mint) of
             Some authority \<Rightarrow> validate_owner E held st program_id authority owner_info
               (data_len st owner_info) signers
           | None \<Rightarrow> TErr TE_FixedSupply) (\<lambda>_.
         try_bind (check_program_account (ai_owner mint_info)) (\<lambda>_.
         try_bind (check_program_account (ai_owner destination_info)) (\<lambda>_.
         try_bind (overflow_or (checked_add (amount (base destination)) amt)) (\<lambda>destination_amount.
         try_bind (overflow_or (checked_add (mint_supply (base mint)) amt)) (\<lambda>supply'.
         let destination = destination\<lparr>base := (base destination)\<lparr>amount := destination_amount\<rparr>\<rparr>;
             mint = mint\<lparr>base := (base mint)\<lparr>mint_supply := supply'\<rparr>\<rparr> in
         Ok (write_back Account_base (write_back Mint_base st mint_info mint)
               destination_info destination))))))))))))))"

definition process_burn ::
  "token_env \<Rightarrow> store \<Rightarrow> pubkey \<Rightarrow> account_info list \<Rightarrow> u64 \<Rightarrow> u8 option \<Rightarrow> (program_error, store) result" where
  "process_burn E st program_id accounts amt expected_decimals =
     try_bind (next_account_info accounts) (\<lambda>(source_info, accounts).
     try_bind (next_account_info accounts) (\<lambda>(mint_info, accounts).
     try_bind (next_account_info accounts) (\<lambda>(authority_info, signers).
     try_bind (swe_unpack E Account_base (account_data st source_info)) (\<lambda>source.
     try_bind (acquire [ai_cell source_info] mint_info) (\<lambda>_.
     let held = [ai_cell mint_info, ai_cell source_info] in
     try_bind (swe_unpack E Mint_base (account_data st mint_info)) (\<lambda>mint.
     if is_frozen (base source) then TErr TE_AccountFrozen
     else if is_native (base source) then TErr TE_NativeNotSupported
     else if amount (base source) < amt then TErr TE_InsufficientFunds
     else if ai_key mint_info \<noteq> acc_mint (base source) then TErr TE_MintMismatch
     else if expected_decimals \<noteq> None \<and> expected_decimals \<noteq> Some (decimals (base mint))
     then TErr TE_MintDecimalsMismatch
     else
       try_bind (if is_owned_by_system_program_or_incinerator E (base source) then Ok (base source)
         else debit_authority E held st program_id (base source) authority_info signers amt True) (\<lambda>debited.
       try_bind (check_program_account (ai_owner source_info)) (\<lambda>_.
       try_bind (check_program_account (ai_owner mint_info)) (\<lambda>_.
       try_bind (overflow_or (checked_sub (amount debited) amt)) (\<lambda>source_amount.
       try_bind (overflow_or (checked_sub (mint_supply (base mint)) amt)) (\<lambda>supply'.
       let source = source\<lparr>base := debited\<lparr>amount := source_amount\<rparr>\<rparr>;
           mint = mint\<lparr>base := (base mint)\<lparr>mint_supply := supply'\<rparr>\<rparr> in
       Ok (write_back Mint_base (write_back Account_base st source_info source)
             mint_info mint))))))))))))"


section \<open>Accounts as views\<close>

definition token_view ::
  "token_env \<Rightarrow> store \<Rightarrow> account_info \<Rightarrow> token_account state_with_extensions_mut option" where
  "token_view E st a = (case swe_unpack E Account_base (account_data st a) of
      Inr s \<Rightarrow> Some s | Inl _ \<Rightarrow> None)"

definition mint_view ::
  "token_env \<Rightarrow> store \<Rightarrow> account_info \<Rightarrow> mint state_with_extensions_mut option" where
  "mint_view E st a = (case swe_unpack E Mint_base (account_data st a) of
      Inr s \<Rightarrow> Some s | Inl _ \<Rightarrow> None)"

text \<open>The fees withheld in an account, and all the tokens it holds.\<close>

definition withheld :: "token_account state_with_extensions_mut \<Rightarrow> nat" where
  "withheld s = (case swe_get_extension_mut Account_base TransferFeeAmount_ext s of
      Inr (at, x) \<Rightarrow> unat (withheld_amount x) | Inl _ \<Rightarrow> 0)"

definition tokens_held :: "token_env \<Rightarrow> store \<Rightarrow> account_info \<Rightarrow> nat" where
  "tokens_held E st a = (case token_view E st a of
      Some s \<Rightarrow> unat (amount (base s)) + withheld s | None \<Rightarrow> 0)"

lemma token_view_Some: "token_view E st a = Some s \<longleftrightarrow> swe_unpack E Account_base (account_data st a) = Ok s"
  by (auto simp: token_view_def split: sum.splits)

lemma mint_view_Some: "mint_view E st a = Some s \<longleftrightarrow> swe_unpack E Mint_base (account_data st a) = Ok s"
  by (auto simp: mint_view_def split: sum.splits)

lemma views_cong:
  assumes "account_data st a = account_data st' a"
  shows "token_view E st a = token_view E st' a" "mint_view E st a = mint_view E st' a"
    "tokens_held E st a = tokens_held E st' a"
  using assms by (simp_all add: token_view_def mint_view_def tokens_held_def)

lemma account_data_write_back [simp]:
  "account_data (write_back S st a s) b =
     (if ai_cell a = ai_cell b then swe_buffer (swe_pack_base S s) else account_data st b)"
  by (simp add: write_back_def)

lemma lamports_write_back [simp]: "lamports (write_back S st a s) b = lamports st b"
  by (simp add: write_back_def)

lemma write_back_other [simp]: "c \<noteq> ai_cell a \<Longrightarrow> write_back S st a s c = st c"
  by (simp add: write_back_def)

lemma token_view_written:
  assumes "pack_ok E" "token_view E st0 a = Some s" "length t = length (tlv_data s)"
    and "account_is_initialized b"
  shows "swe_unpack E Account_base (swe_buffer (swe_pack_base Account_base (s\<lparr>base := b, tlv_data := t\<rparr>))) =
    Ok (swe_pack_base Account_base (s\<lparr>base := b, tlv_data := t\<rparr>))"
  using account_base.swe_unpack_written [OF assms(1) _ assms(3)] assms(2,4)
  by (simp add: token_view_Some)

lemma mint_view_written:
  assumes "pack_ok E" "mint_view E st0 a = Some s" "length t = length (tlv_data s)"
    and "mint_is_initialized b"
  shows "swe_unpack E Mint_base (swe_buffer (swe_pack_base Mint_base (s\<lparr>base := b, tlv_data := t\<rparr>))) =
    Ok (swe_pack_base Mint_base (s\<lparr>base := b, tlv_data := t\<rparr>))"
  using mint_base.swe_unpack_written [OF assms(1) _ assms(3)] assms(2,4)
  by (simp add: mint_view_Some)

lemma token_view_initialized:
  "pack_ok E \<Longrightarrow> token_view E st a = Some s \<Longrightarrow> account_is_initialized (base s)"
  using account_base.swe_unpack_iff by (fastforce simp: token_view_Some)

lemma mint_view_initialized:
  "pack_ok E \<Longrightarrow> mint_view E st a = Some s \<Longrightarrow> mint_is_initialized (base s)"
  using mint_base.swe_unpack_iff by (fastforce simp: mint_view_Some)

lemma swe_same_tlv: "s\<lparr>base := b\<rparr> = s\<lparr>base := b, tlv_data := tlv_data s\<rparr>"
  by simp

lemma base_written:
  "pack_ok E \<Longrightarrow> token_view E st a = Some s \<Longrightarrow> account_is_initialized b \<Longrightarrow>
   swe_unpack E Account_base (swe_buffer (swe_pack_base Account_base (s\<lparr>base := b\<rparr>))) =
     Ok (swe_pack_base Account_base (s\<lparr>base := b\<rparr>))"
  "pack_ok E \<Longrightarrow> mint_view E st a = Some m \<Longrightarrow> mint_is_initialized c \<Longrightarrow>
   swe_unpack E Mint_base (swe_buffer (swe_pack_base Mint_base (m\<lparr>base := c\<rparr>))) =
     Ok (swe_pack_base Mint_base (m\<lparr>base := c\<rparr>))"
  using token_view_written [of E st a s "tlv_data s" b] mint_view_written [of E st a m "tlv_data m" c]
  by simp_all

text \<open>A handler that only assigns to an extension.\<close>

lemma extension_written:
  assumes "pack_ok E" "extension_impl X"
  shows "token_view E st a = Some s \<Longrightarrow> swe_get_extension_mut Account_base X s = Ok (at, v) \<Longrightarrow>
      swe_unpack E Account_base (swe_buffer (put_extension X at w s)) = Ok (put_extension X at w s)"
    and "mint_view E st a = Some m \<Longrightarrow> swe_get_extension_mut Mint_base X m = Ok (at, v) \<Longrightarrow>
      swe_unpack E Mint_base (swe_buffer (put_extension X at w m)) = Ok (put_extension X at w m)"
  using account_base.swe_unpack_tlv_update [OF assms(1)] mint_base.swe_unpack_tlv_update [OF assms(1)]
    extension_impl.length_put_mut [OF assms(2), of Account_base s at v w]
    extension_impl.length_put_mut [OF assms(2), of Mint_base m at v w]
  by (simp_all add: token_view_Some mint_view_Some put_extension_def)

section \<open>What the steps of a transfer do\<close>

lemma withheld_views [simp]:
  "withheld (swe_pack_base S s) = withheld s" "withheld (s\<lparr>base := b\<rparr>) = withheld s"
  by (simp_all add: withheld_def)

lemma withhold_fee_Ok:
  assumes "withhold_fee fee d = Ok d'"
  shows "\<exists>t. d' = d\<lparr>tlv_data := t\<rparr> \<and> length t = length (tlv_data d) \<and>
    withheld d' = withheld d + unat fee"
proof (cases "fee > 0")
  case True
  with assms obtain at x n where get: "swe_get_extension_mut Account_base TransferFeeAmount_ext d = Ok (at, x)"
    and n: "unat n = unat (withheld_amount x) + unat fee"
    and d': "d' = put_extension TransferFeeAmount_ext at (x\<lparr>withheld_amount := n\<rparr>) d"
    unfolding withhold_fee_def attempt_case_eq_Ok if_P [OF True]
    by (auto simp: ok_simps)
  have "length (tlv_data d') = length (tlv_data d)"
    unfolding d' by (rule transfer_fee_amount_ext.length_put_mut [OF get])
  moreover have "withheld d' = withheld d + unat fee"
    using transfer_fee_amount_ext.put_get [OF get] get n by (simp add: withheld_def d')
  ultimately show ?thesis by (auto simp: d' put_extension_def)
next
  case False
  with assms have "fee = 0" "d' = d" by (simp_all add: withhold_fee_def word_gt_0)
  then show ?thesis by (intro exI [of _ "tlv_data d"]) simp
qed

lemma debit_authority_Ok:
  assumes "debit_authority E held st pid source info signers amt consume = Ok debited"
  shows "amount debited = amount source" "acc_mint debited = acc_mint source"
    "acc_state debited = acc_state source" "is_native_reserve debited = is_native_reserve source"
    "acc_owner debited = acc_owner source" "close_authority debited = close_authority source"
  using assms
  by (auto simp: debit_authority_def Let_def ok_simps split: option.splits if_splits)

lemma move_lamports_Ok:
  assumes "move_lamports st a b amt = Ok st'" "ai_cell a \<noteq> ai_cell b"
  shows "account_data st' x = account_data st x"
    "unat (lamports st a) = unat (lamports st' a) + unat amt"
    "unat (lamports st' b) = unat (lamports st b) + unat amt"
    "c \<noteq> ai_cell a \<Longrightarrow> c \<noteq> ai_cell b \<Longrightarrow> st' c = st c"
  using assms by (auto simp: move_lamports_def ok_simps Let_def)


lemma expected_mint_info_Ok:
  "expected_mint_info dec accounts = Inr (m, rest) \<longleftrightarrow>
   (case dec of None \<Rightarrow> m = None \<and> rest = accounts
    | Some d \<Rightarrow> \<exists>mi. accounts = mi # rest \<and> m = Some (mi, d))"
  by (auto simp: expected_mint_info_def ok_simps split: option.splits)

text \<open>A transfer that succeeded: what it checked and what it wrote.\<close>

lemma process_transferE:
  assumes "process_transfer E st pid accounts amt dec fee_given = Ok st'"
  obtains (self) source_info destination_info m rest authority signers
    where "expected_mint_info dec (tl accounts) = Ok (m, destination_info # authority # signers)"
      "accounts = source_info # rest" "ai_key source_info = ai_key destination_info" "st' = st"
  | (moved) source_info rest m destination_info authority signers source destination fee debited
      destination' n k st1
    where "accounts = source_info # rest"
      "expected_mint_info dec rest = Ok (m, destination_info # authority # signers)"
      "ai_key source_info \<noteq> ai_key destination_info" "ai_cell source_info \<noteq> ai_cell destination_info"
      "token_view E st source_info = Some source" "token_view E st destination_info = Some destination"
      "\<not> is_frozen (base source)" "\<not> is_frozen (base destination)"
      "acc_mint (base source) = acc_mint (base destination)"
      "transfer_fee_due E [ai_cell source_info] st source m amt = Ok fee"
      "fee_given = None \<or> fee_given = Some fee"
      "debit_authority E [ai_cell source_info] st pid (base source) authority signers amt True = Ok debited"
      "ai_owner source_info = token_2022_id" "ai_owner destination_info = token_2022_id"
      "unat (amount (base source)) = unat n + unat amt" "unat fee \<le> unat amt"
      "unat k + unat fee = unat (amount (base destination)) + unat amt"
      "withhold_fee fee (destination\<lparr>base := (base destination)\<lparr>amount := k\<rparr>\<rparr>) = Ok destination'"
      "if is_native (base source) then move_lamports st source_info destination_info amt = Ok st1
       else st1 = st"
      "st' = write_back Account_base (write_back Account_base st1 source_info
          (source\<lparr>base := debited\<lparr>amount := n\<rparr>\<rparr>)) destination_info destination'"
proof -
  from assms obtain source_info rest m destination_info authority signers source fee debited where
    a: "accounts = source_info # rest"
      "expected_mint_info dec rest = Ok (m, destination_info # authority # signers)"
      "swe_unpack E Account_base (account_data st source_info) = Ok source"
      "\<not> is_frozen (base source)" "\<not> amount (base source) < amt"
      "transfer_fee_due E [ai_cell source_info] st source m amt = Ok fee"
      "fee_given = None \<or> fee_given = Some fee"
      "debit_authority E [ai_cell source_info] st pid (base source) authority signers amt
         (ai_key source_info \<noteq> ai_key destination_info) = Ok debited"
      "ai_owner source_info = token_2022_id" "ai_owner destination_info = token_2022_id"
    by (auto simp: process_transfer_def Let_def ok_simps)
  show thesis
  proof (cases "ai_key source_info = ai_key destination_info")
    case True
    with assms a have "st' = st"
      by (auto simp: process_transfer_def Let_def check_program_account_def)
    with a True self show thesis by simp
  next
    case False
    note d = debit_authority_Ok [OF a(8)]
    have nat: "is_native debited = is_native (base source)"
      by (simp add: is_native_def d)
    from assms a False show thesis
      by (auto simp: process_transfer_def Let_def check_program_account_def ok_simps nat d
          token_view_Some intro!: moved split: if_splits)
  qed
qed


text \<open>What the two accounts hold after the move.\<close>

lemma process_transfer_views:
  assumes "pack_ok E" "token_view E st source_info = Some source"
    "token_view E st destination_info = Some destination"
    "ai_cell source_info \<noteq> ai_cell destination_info"
    "debit_authority E held st0 pid (base source) authority signers amt consume = Ok debited"
    "withhold_fee fee (destination\<lparr>base := (base destination)\<lparr>amount := k\<rparr>\<rparr>) = Ok destination'"
    "st' = write_back Account_base (write_back Account_base st1 source_info
          (source\<lparr>base := debited\<lparr>amount := n\<rparr>\<rparr>)) destination_info destination'"
  shows "token_view E st' source_info =
      Some (swe_pack_base Account_base (source\<lparr>base := debited\<lparr>amount := n\<rparr>\<rparr>))"
    and "token_view E st' destination_info = Some (swe_pack_base Account_base destination')"
    and "base destination' = (base destination)\<lparr>amount := k\<rparr>"
    and "withheld destination' = withheld destination + unat fee"
proof -
  from withhold_fee_Ok [OF assms(6)] obtain t where
    t: "destination' = destination\<lparr>base := (base destination)\<lparr>amount := k\<rparr>, tlv_data := t\<rparr>"
      "length t = length (tlv_data destination)"
      "withheld destination' = withheld destination + unat fee"
    by auto
  have init: "account_is_initialized (debited\<lparr>amount := n\<rparr>)"
    "account_is_initialized ((base destination)\<lparr>amount := k\<rparr>)"
    using token_view_initialized [OF assms(1,2)] token_view_initialized [OF assms(1,3)]
      debit_authority_Ok [OF assms(5)]
    by (simp_all add: account_is_initialized_def)
  show "token_view E st' source_info =
      Some (swe_pack_base Account_base (source\<lparr>base := debited\<lparr>amount := n\<rparr>\<rparr>))"
    using token_view_written [OF assms(1,2) _ init(1), of "tlv_data source"] assms(4)
    by (simp add: assms(7) token_view_Some)
  show "token_view E st' destination_info = Some (swe_pack_base Account_base destination')"
    using token_view_written [OF assms(1,3) t(2) init(2)]
    by (simp add: assms(7) token_view_Some t(1))
  show "base destination' = (base destination)\<lparr>amount := k\<rparr>" by (simp add: t(1))
  show "withheld destination' = withheld destination + unat fee" by (rule t(3))
qed

end
