(* ===== verification/TokenExamples.thy ===== *)
theory TokenExamples
  imports TokenTransfer
begin

text \<open>
  A concrete environment, accounts and stores, at which the witnesses of the token
  properties apply them. \<open>token_cell\<close> and \<open>mint_cell\<close> are packed accounts without
  extensions; the lemmas evaluate their views.
\<close>

definition rent0 :: rent where
  "rent0 = \<lparr>is_exempt = (\<lambda>_ _. True), minimum_balance = (\<lambda>_. 1)\<rparr>"

definition env0 :: token_env where
  "env0 = \<lparr>env_rent_get = Ok rent0, env_rent_from_account = (\<lambda>_ _. Ok rent0),
     env_clock_get = Ok \<lparr>clk_epoch = 5, clk_unix_timestamp = 100\<rparr>,
     env_sibling_program = None, env_system_program = 0, env_incinerator = 1,
     env_pack_len_error = (\<lambda>n k. if n = k then None else Some PE_InvalidAccountData),
     env_pack_uninitialized = PE_UninitializedAccount,
     env_realloc = (\<lambda>bs n. Ok (take n (bs @ replicate n 0))),
     env_invoke_transfer = (\<lambda>a b l st. Ok st), env_invoke_allocate = (\<lambda>a n st. Ok st),
     env_invoke_assign = (\<lambda>a p st. Ok st), env_interest_to_ui = (\<lambda>_ _ _ _. None),
     env_interest_from_ui = (\<lambda>_ _ _ _. Fail PE_InvalidArgument)\<rparr>"

lemma env0_fields [simp]:
  "env_system_program env0 = 0" "env_incinerator env0 = 1"
  "env_clock_get env0 = Ok \<lparr>clk_epoch = 5, clk_unix_timestamp = 100\<rparr>"
  "env_rent_get env0 = Ok rent0" "is_exempt rent0 l n"
  by (simp_all add: env0_def rent0_def)

lemma pack_ok_env0 [simp]: "pack_ok env0"
  by (simp add: pack_ok_def env0_def)

definition token0 :: "pubkey \<Rightarrow> pubkey \<Rightarrow> u64 \<Rightarrow> token_account" where
  "token0 m owner amt = \<lparr>acc_mint = m, acc_owner = owner, amount = amt, delegate = None,
     acc_state = AS_Initialized, is_native_reserve = None, delegated_amount = 0,
     close_authority = None\<rparr>"

definition mint0 :: "pubkey \<Rightarrow> u64 \<Rightarrow> mint" where
  "mint0 authority supply' = \<lparr>mint_authority = Some authority, mint_supply = supply', decimals = 2,
     mint_is_initialized = True, freeze_authority = Some authority\<rparr>"

definition token_bytes :: "token_account \<Rightarrow> bytes" where
  "token_bytes a = account_pack_into_slice a (replicate 165 0)"

definition mint_bytes :: "mint \<Rightarrow> bytes" where
  "mint_bytes m = mint_pack_into_slice m (replicate 82 0)"

definition plain_view :: "'s \<Rightarrow> bytes \<Rightarrow> 's state_with_extensions_mut" where
  "plain_view s bs = \<lparr>base = s, base_data = bs, padding = [], account_type_data = [], tlv_data = []\<rparr>"

lemma length_token_bytes [simp]: "length (token_bytes a) = 165"
  using account_pk.length_pack [of "replicate 165 0" a] by (simp add: token_bytes_def)

lemma length_mint_bytes [simp]: "length (mint_bytes m) = 82"
  using mint_pk.length_pack [of "replicate 82 0" m] by (simp add: mint_bytes_def)

lemma unpack_token_bytes [simp]: "account_unpack_from_slice (token_bytes a) = Ok a"
  using account_pk.unpack_pack [of "replicate 165 0" a] by (simp add: token_bytes_def)

lemma unpack_mint_bytes [simp]: "mint_unpack_from_slice (mint_bytes m) = Ok m"
  using mint_pk.unpack_pack [of "replicate 82 0" m] by (simp add: mint_bytes_def)

lemma swe_unpack_token_bytes [simp]:
  "account_is_initialized a \<Longrightarrow>
   swe_unpack env0 Account_base (token_bytes a) = Ok (plain_view a (token_bytes a))"
  by (simp add: account_base.swe_unpack_iff account_base.shape_def swe_buffer_def plain_view_def)

lemma swe_unpack_mint_bytes [simp]:
  "mint_is_initialized m \<Longrightarrow>
   swe_unpack env0 Mint_base (mint_bytes m) = Ok (plain_view m (mint_bytes m))"
  by (simp add: mint_base.swe_unpack_iff mint_base.shape_def swe_buffer_def plain_view_def)

lemma se_unpack_mint_bytes [simp]:
  "mint_is_initialized m \<Longrightarrow>
   se_unpack env0 Mint_base (mint_bytes m) = Ok \<lparr>se_base = m, se_tlv_data = []\<rparr>"
  by (simp add: mint_base.se_unpack_eq plain_view_def)

lemma plain_view_fields [simp]:
  "base (plain_view s bs) = s" "tlv_data (plain_view s bs) = []"
  by (simp_all add: plain_view_def)

lemma get_extension_mut_plain [simp]:
  "tlv_data s = [] \<Longrightarrow> swe_get_extension_mut S X s = Fail PE_InvalidAccountData"
  by (simp add: swe_get_extension_mut_def get_extension_indices_def get_extension_indices_from.simps)

lemma get_extension_plain [simp]:
  "tlv_data s = [] \<Longrightarrow> swe_get_extension S X s = Fail PE_InvalidAccountData"
  "get_extension S X [] = Fail PE_InvalidAccountData"
  by (simp_all add: swe_get_extension_def get_extension_def get_extension_indices_def
      get_extension_indices_from.simps)

text \<open>Two token accounts of mint 7 with owner 9, the mint, and the owner.\<close>

definition store0 :: store where
  "store0 = (\<lambda>_. \<lparr>cell_lamports = 0, cell_data = []\<rparr>)
     (0 := \<lparr>cell_lamports = 10, cell_data = token_bytes (token0 7 9 100)\<rparr>,
      1 := \<lparr>cell_lamports = 10, cell_data = token_bytes (token0 7 8 50)\<rparr>,
      2 := \<lparr>cell_lamports = 10, cell_data = mint_bytes (mint0 9 150)\<rparr>)"

definition info0 :: "pubkey \<Rightarrow> bool \<Rightarrow> nat \<Rightarrow> account_info" where
  "info0 key signer c = \<lparr>ai_key = key, ai_is_signer = signer, ai_owner = token_2022_id, ai_cell = c\<rparr>"

definition source0 :: account_info where "source0 = info0 100 False 0"
definition destination0 :: account_info where "destination0 = info0 101 False 1"
definition mint_info0 :: account_info where "mint_info0 = info0 7 False 2"
definition owner0 :: account_info where "owner0 = info0 9 True 3"

lemma infos0 [simp]:
  "ai_key source0 = 100" "ai_key destination0 = 101" "ai_key mint_info0 = 7" "ai_key owner0 = 9"
  "ai_cell source0 = 0" "ai_cell destination0 = 1" "ai_cell mint_info0 = 2" "ai_cell owner0 = 3"
  "ai_owner source0 = token_2022_id" "ai_owner destination0 = token_2022_id"
  "ai_owner mint_info0 = token_2022_id" "ai_owner owner0 = token_2022_id" "ai_is_signer owner0"
  by (simp_all add: source0_def destination0_def mint_info0_def owner0_def info0_def)

lemma data0 [simp]:
  "account_data store0 source0 = token_bytes (token0 7 9 100)"
  "account_data store0 destination0 = token_bytes (token0 7 8 50)"
  "account_data store0 mint_info0 = mint_bytes (mint0 9 150)"
  "data_len store0 owner0 = 0"
  by (simp_all add: account_data_def data_len_def store0_def)

lemma states0 [simp]:
  "account_is_initialized (token0 m owner amt)" "mint_is_initialized (mint0 a n)"
  "\<not> is_frozen (token0 m owner amt)" "\<not> is_native (token0 m owner amt)"
  "amount (token0 m owner amt) = amt" "acc_mint (token0 m owner amt) = m"
  "acc_owner (token0 m owner amt) = owner" "delegate (token0 m owner amt) = None"
  "mint_authority (mint0 a n) = Some a" "freeze_authority (mint0 a n) = Some a"
  "mint_supply (mint0 a n) = n" "decimals (mint0 a n) = 2"
  "close_authority (token0 m owner amt) = None" "mint_is_initialized (c\<lparr>mint_authority := k\<rparr>) = mint_is_initialized c"
  by (simp_all add: token0_def mint0_def account_is_initialized_def is_frozen_def is_native_def)

lemma validate_owner0 [simp]: "validate_owner env0 held store0 pid 9 owner0 0 signers = Ok ()"
  by (simp add: validate_owner_def)

lemma memo_required0 [simp]: "tlv_data s = [] \<Longrightarrow> memo_required s = Ok False"
  by (simp add: memo_required_def)

lemma transfer0:
  "\<exists>st. process_transfer env0 store0 token_2022_id [source0, mint_info0, destination0, owner0] 30 (Some 2) None = Ok st"
  by (simp add: process_transfer_def Let_def expected_mint_info_def transfer_fee_due_def
      try_borrow_data_def se_get_extension_def debit_authority_def check_program_account_def
      acquire_def checked_sub_def checked_add_def withhold_fee_def)


text \<open>A multisig of keys 20, 21 and 22 that needs two of them.\<close>

definition multisig0 :: multisig where
  "multisig0 = \<lparr>ms_m = 2, ms_n = 3, ms_is_initialized = True,
     ms_signers = [20, 21, 22, 0, 0, 0, 0, 0, 0, 0, 0]\<rparr>"

definition multisig_info0 :: account_info where "multisig_info0 = info0 30 False 4"

definition store1 :: store where
  "store1 = store0(4 := \<lparr>cell_lamports = 1,
     cell_data = multisig_pack_into_slice multisig0 (replicate 355 0)\<rparr>)"

lemma multisig_info0_fields [simp]:
  "ai_key multisig_info0 = 30" "ai_owner multisig_info0 = token_2022_id" "ai_cell multisig_info0 = 4"
  "ms_m multisig0 = 2"
  by (simp_all add: multisig_info0_def info0_def multisig0_def)

lemma unpack_multisig0 [simp]: "unpack env0 multisig_pack (account_data store1 multisig_info0) = Ok multisig0"
proof -
  have wf: "multisig_wf multisig0" by (simp add: multisig_wf_def multisig0_def MAX_SIGNERS_def)
  have v: "pk_valid multisig_pack multisig0" using wf by (simp add: multisig_pack_def)
  have len: "length (multisig_pack_into_slice multisig0 (replicate 355 0)) = 355"
    using multisig_pk.length_pack [OF _ v, of "replicate 355 0"] by simp
  have "multisig_unpack_from_slice (multisig_pack_into_slice multisig0 (replicate 355 0)) = Ok multisig0"
    using multisig_pk.unpack_pack [OF _ v, of "replicate 355 0"] by simp
  moreover have "ms_is_initialized multisig0" by (simp add: multisig0_def)
  moreover have "account_data store1 multisig_info0 = multisig_pack_into_slice multisig0 (replicate 355 0)"
    by (simp add: account_data_def store1_def multisig_info0_def info0_def)
  ultimately show ?thesis using len by (simp add: unpack_eq_Ok)
qed


text \<open>The mint with its supply fixed, and an empty account to close.\<close>

definition fixed_mint0 :: mint where
  "fixed_mint0 = (mint0 9 150)\<lparr>mint_authority := None\<rparr>"

definition fixed_store0 :: store where
  "fixed_store0 = store0(2 := \<lparr>cell_lamports = 10, cell_data = mint_bytes fixed_mint0\<rparr>)"

definition closing_store0 :: store where
  "closing_store0 = store0(0 := \<lparr>cell_lamports = 10, cell_data = token_bytes (token0 7 9 0)\<rparr>)"


text \<open>The mint with a transfer fee of 2.5 percent and 40 tokens withheld.\<close>

definition fee0 :: transfer_fee where
  "fee0 = \<lparr>fee_epoch = 1, maximum_fee = 1000, transfer_fee_basis_points = 250\<rparr>"

definition fee_config0 :: transfer_fee_config where
  "fee_config0 = \<lparr>transfer_fee_config_authority = 9, withdraw_withheld_authority = 9,
     cfg_withheld_amount = 40, older_transfer_fee = fee0, newer_transfer_fee = fee0\<rparr>"

definition fee_mint_view0 :: "mint state_with_extensions_mut" where
  "fee_mint_view0 = \<lparr>base = mint0 9 150, base_data = mint_bytes (mint0 9 150), padding = replicate 83 0,
     account_type_data = [account_type_to_u8 AT_Mint],
     tlv_data = tlv_bytes [(ET_TransferFeeConfig, pod_encode transfer_fee_config_pod fee_config0)] 0\<rparr>"

definition fee_store0 :: store where
  "fee_store0 = store0(2 := \<lparr>cell_lamports = 10, cell_data = swe_buffer fee_mint_view0\<rparr>)"

lemma fee_mint_unpack [simp]: "swe_unpack env0 Mint_base (account_data fee_store0 mint_info0) = Ok fee_mint_view0"
proof -
  have "length (tlv_data fee_mint_view0) = 112"
    by (simp add: fee_mint_view0_def tlv_bytes_def transfer_fee_config.length_encode)
  moreover from this have "tlv_data fee_mint_view0 \<noteq> []" by auto
  ultimately show ?thesis
    by (simp add: mint_base.swe_unpack_iff mint_base.shape_def swe_buffer_def account_data_def
        fee_store0_def) (simp add: fee_mint_view0_def)
qed

lemma fee_mint_get [simp]:
  "swe_get_extension_mut Mint_base TransferFeeConfig_ext fee_mint_view0 = Ok (4, fee_config0)"
  using transfer_fee_config_ext.get_extension_mut_single [of Mint_base fee_mint_view0 fee_config0 0]
  by (simp add: fee_mint_view0_def)

lemma fee_store_data [simp]:
  "account_data fee_store0 source0 = token_bytes (token0 7 9 100)"
  "account_data fee_store0 destination0 = token_bytes (token0 7 8 50)"
  "data_len fee_store0 owner0 = 0"
  by (simp_all add: account_data_def data_len_def fee_store0_def store0_def)

lemma fee_config0_fields [simp]:
  "optional_key_get (transfer_fee_config_authority fee_config0) = Some 9"
  "optional_key_get (withdraw_withheld_authority fee_config0) = Some 9"
  "cfg_withheld_amount fee_config0 = 40"
  by (simp_all add: fee_config0_def optional_key_get_def)

end
