(* ===== verification/TokenInstruction.thy ===== *)
theory TokenInstruction
  imports TokenExtension TokenState
begin

text \<open>
  The instruction encodings of the token program (\<open>instruction.rs\<close>,
  \<open>extension/transfer_fee/instruction.rs\<close>, \<open>default_account_state/instruction.rs\<close>,
  \<open>memo_transfer/instruction.rs\<close>, \<open>interest_bearing_mint/instruction.rs\<close>): unpacking
  never panics, and unpacking what was packed gives the instruction back. A \<open>&str\<close> is
  its bytes, which \<open>from_utf8\<close> checks.
\<close>

section \<open>Instructions\<close>

datatype authority_type =
    AUTH_MintTokens | AUTH_FreezeAccount | AUTH_AccountOwner | AUTH_CloseAccount
  | AUTH_TransferFeeConfig | AUTH_WithheldWithdraw | AUTH_CloseMint | AUTH_InterestRate

definition authority_type_into :: "authority_type \<Rightarrow> u8" where
  "authority_type_into t = (case t of
      AUTH_MintTokens \<Rightarrow> 0 | AUTH_FreezeAccount \<Rightarrow> 1 | AUTH_AccountOwner \<Rightarrow> 2
    | AUTH_CloseAccount \<Rightarrow> 3 | AUTH_TransferFeeConfig \<Rightarrow> 4 | AUTH_WithheldWithdraw \<Rightarrow> 5
    | AUTH_CloseMint \<Rightarrow> 6 | AUTH_InterestRate \<Rightarrow> 7)"

definition authority_type_from :: "u8 \<Rightarrow> (program_error, authority_type) result" where
  "authority_type_from i =
     (if i = 0 then Ok AUTH_MintTokens else if i = 1 then Ok AUTH_FreezeAccount
      else if i = 2 then Ok AUTH_AccountOwner else if i = 3 then Ok AUTH_CloseAccount
      else if i = 4 then Ok AUTH_TransferFeeConfig else if i = 5 then Ok AUTH_WithheldWithdraw
      else if i = 6 then Ok AUTH_CloseMint else if i = 7 then Ok AUTH_InterestRate
      else TErr TE_InvalidInstruction)"

datatype transfer_fee_instruction =
    TFI_InitializeTransferFeeConfig "pubkey option" "pubkey option" u16 u64
  | TFI_TransferCheckedWithFee u64 u8 u64
  | TFI_WithdrawWithheldTokensFromMint
  | TFI_WithdrawWithheldTokensFromAccounts u8
  | TFI_HarvestWithheldTokensToMint
  | TFI_SetTransferFee u16 u64

datatype token_instruction =
    TI_InitializeMint u8 pubkey "pubkey option"
  | TI_InitializeAccount
  | TI_InitializeMultisig u8
  | TI_Transfer u64
  | TI_Approve u64
  | TI_Revoke
  | TI_SetAuthority authority_type "pubkey option"
  | TI_MintTo u64
  | TI_Burn u64
  | TI_CloseAccount
  | TI_FreezeAccount
  | TI_ThawAccount
  | TI_TransferChecked u64 u8
  | TI_ApproveChecked u64 u8
  | TI_MintToChecked u64 u8
  | TI_BurnChecked u64 u8
  | TI_InitializeAccount2 pubkey
  | TI_SyncNative
  | TI_InitializeAccount3 pubkey
  | TI_InitializeMultisig2 u8
  | TI_InitializeMint2 u8 pubkey "pubkey option"
  | TI_GetAccountDataSize "extension_type list"
  | TI_InitializeImmutableOwner
  | TI_AmountToUiAmount u64
  | TI_UiAmountToAmount bytes
  | TI_InitializeMintCloseAuthority "pubkey option"
  | TI_TransferFeeExtension transfer_fee_instruction
  | TI_ConfidentialTransferExtension
  | TI_DefaultAccountStateExtension
  | TI_Reallocate "extension_type list"
  | TI_MemoTransferExtension
  | TI_CreateNativeMint
  | TI_InitializeNonTransferableMint
  | TI_InterestBearingMintExtension

section \<open>Decoding fields\<close>

definition split_first :: "bytes \<Rightarrow> (program_error, byte \<times> bytes) result" where
  "split_first input = (case input of [] \<Rightarrow> TErr TE_InvalidInstruction | b # rest \<Rightarrow> Ok (b, rest))"

definition unpack_pubkey :: "bytes \<Rightarrow> (program_error, pubkey \<times> bytes) result" where
  "unpack_pubkey input =
     (if length input < 32 then TErr TE_InvalidInstruction
      else Ok (from_le_bytes (take 32 input), drop 32 input))"

definition unpack_pubkey_option :: "bytes \<Rightarrow> (program_error, pubkey option \<times> bytes) result" where
  "unpack_pubkey_option input = (case input of
      [] \<Rightarrow> TErr TE_InvalidInstruction
    | b # rest \<Rightarrow>
        if b = 0 then Ok (None, rest)
        else if b = 1 then try_bind (unpack_pubkey rest) (\<lambda>(pk, rest). Ok (Some pk, rest))
        else TErr TE_InvalidInstruction)"

definition pack_pubkey_option :: "pubkey option \<Rightarrow> bytes" where
  "pack_pubkey_option v = (case v of Some key \<Rightarrow> 1 # to_le_bytes key | None \<Rightarrow> [0])"

definition unpack_u16 :: "bytes \<Rightarrow> (program_error, u16 \<times> bytes) result" where
  "unpack_u16 input =
     (if length input < 2 then TErr TE_InvalidInstruction
      else Ok (from_le_bytes (take 2 input), drop 2 input))"

definition unpack_u64 :: "bytes \<Rightarrow> (program_error, u64 \<times> bytes) result" where
  "unpack_u64 input =
     (if length input < 8 then TErr TE_InvalidInstruction
      else Ok (from_le_bytes (take 8 input), drop 8 input))"

definition unpack_amount_decimals :: "bytes \<Rightarrow> (program_error, u64 \<times> u8 \<times> bytes) result" where
  "unpack_amount_decimals input =
     try_bind (unpack_u64 input) (\<lambda>(amt, rest).
     try_bind (split_first rest) (\<lambda>(d, rest). Ok (amt, d, rest)))"

text \<open>The loop over \<open>rest.chunks(2)\<close>.\<close>

fun unpack_extension_types :: "bytes \<Rightarrow> (program_error, extension_type list) result" where
  "unpack_extension_types [] = Ok []"
| "unpack_extension_types [a] = try_bind (extension_type_try_from [a]) (\<lambda>t. Ok [t])"
| "unpack_extension_types (a # b # rest) =
     try_bind (extension_type_try_from [a, b]) (\<lambda>t.
     try_bind (unpack_extension_types rest) (\<lambda>ts. Ok (t # ts)))"

text \<open>\<open>std::str::from_utf8\<close>.\<close>

definition in_range :: "nat \<Rightarrow> nat \<Rightarrow> byte \<Rightarrow> bool" where
  "in_range lo hi b \<longleftrightarrow> lo \<le> unat b \<and> unat b \<le> hi"

fun utf8_valid :: "bytes \<Rightarrow> bool" where
  "utf8_valid [] = True"
| "utf8_valid (b # bs) =
     (if unat b < 128 then utf8_valid bs
      else if in_range 194 223 b then
        (case bs of c # r \<Rightarrow> in_range 128 191 c \<and> utf8_valid r | _ \<Rightarrow> False)
      else if in_range 224 239 b then
        (case bs of
           c # d # r \<Rightarrow>
             in_range (if unat b = 224 then 160 else 128) (if unat b = 237 then 159 else 191) c \<and>
             in_range 128 191 d \<and> utf8_valid r
         | _ \<Rightarrow> False)
      else if in_range 240 244 b then
        (case bs of
           c # d # e # r \<Rightarrow>
             in_range (if unat b = 240 then 144 else 128) (if unat b = 244 then 143 else 191) c \<and>
             in_range 128 191 d \<and> in_range 128 191 e \<and> utf8_valid r
         | _ \<Rightarrow> False)
      else False)"

section \<open>Transfer-fee instructions\<close>

definition transfer_fee_instruction_unpack ::
  "bytes \<Rightarrow> (program_error, transfer_fee_instruction \<times> bytes) result" where
  "transfer_fee_instruction_unpack input =
     try_bind (split_first input) (\<lambda>(tag, rest).
     if tag = 0 then
       try_bind (unpack_pubkey_option rest) (\<lambda>(config_authority, rest).
       try_bind (unpack_pubkey_option rest) (\<lambda>(withdraw_authority, rest).
       try_bind (unpack_u16 rest) (\<lambda>(basis_points, rest).
       try_bind (unpack_u64 rest) (\<lambda>(max_fee, rest).
       Ok (TFI_InitializeTransferFeeConfig config_authority withdraw_authority basis_points max_fee, rest)))))
     else if tag = 1 then
       try_bind (unpack_amount_decimals rest) (\<lambda>(amt, d, rest).
       try_bind (unpack_u64 rest) (\<lambda>(fee, rest).
       Ok (TFI_TransferCheckedWithFee amt d fee, rest)))
     else if tag = 2 then Ok (TFI_WithdrawWithheldTokensFromMint, rest)
     else if tag = 3 then
       try_bind (split_first rest) (\<lambda>(num_token_accounts, rest).
       Ok (TFI_WithdrawWithheldTokensFromAccounts num_token_accounts, rest))
     else if tag = 4 then Ok (TFI_HarvestWithheldTokensToMint, rest)
     else if tag = 5 then
       try_bind (unpack_u16 rest) (\<lambda>(basis_points, rest).
       try_bind (unpack_u64 rest) (\<lambda>(max_fee, rest).
       Ok (TFI_SetTransferFee basis_points max_fee, rest)))
     else TErr TE_InvalidInstruction)"

definition transfer_fee_instruction_pack :: "transfer_fee_instruction \<Rightarrow> bytes" where
  "transfer_fee_instruction_pack i = (case i of
      TFI_InitializeTransferFeeConfig c w bp m \<Rightarrow>
        0 # pack_pubkey_option c @ pack_pubkey_option w @ to_le_bytes bp @ to_le_bytes m
    | TFI_TransferCheckedWithFee amt d fee \<Rightarrow> 1 # to_le_bytes amt @ [d] @ to_le_bytes fee
    | TFI_WithdrawWithheldTokensFromMint \<Rightarrow> [2]
    | TFI_WithdrawWithheldTokensFromAccounts n \<Rightarrow> [3, n]
    | TFI_HarvestWithheldTokensToMint \<Rightarrow> [4]
    | TFI_SetTransferFee bp m \<Rightarrow> 5 # to_le_bytes bp @ to_le_bytes m)"

section \<open>Token instructions\<close>

definition token_instruction_unpack :: "bytes \<Rightarrow> (program_error, token_instruction) result" where
  "token_instruction_unpack input =
     try_bind (split_first input) (\<lambda>(tag, rest).
     if tag = 0 then
       try_bind (split_first rest) (\<lambda>(d, rest).
       try_bind (unpack_pubkey rest) (\<lambda>(authority, rest).
       try_bind (unpack_pubkey_option rest) (\<lambda>(freeze, _). Ok (TI_InitializeMint d authority freeze))))
     else if tag = 1 then Ok TI_InitializeAccount
     else if tag = 2 then try_bind (split_first rest) (\<lambda>(m, _). Ok (TI_InitializeMultisig m))
     else if tag = 3 \<or> tag = 4 \<or> tag = 7 \<or> tag = 8 then
       (if length rest < 8 then TErr TE_InvalidInstruction
        else
          let amt = from_le_bytes (take 8 rest) in
          if tag = 3 then Ok (TI_Transfer amt)
          else if tag = 4 then Ok (TI_Approve amt)
          else if tag = 7 then Ok (TI_MintTo amt)
          else Ok (TI_Burn amt))
     else if tag = 5 then Ok TI_Revoke
     else if tag = 6 then
       try_bind (split_first rest) (\<lambda>(t, rest).
       try_bind (authority_type_from t) (\<lambda>t.
       try_bind (unpack_pubkey_option rest) (\<lambda>(new_authority, _). Ok (TI_SetAuthority t new_authority))))
     else if tag = 9 then Ok TI_CloseAccount
     else if tag = 10 then Ok TI_FreezeAccount
     else if tag = 11 then Ok TI_ThawAccount
     else if tag = 12 then
       try_bind (unpack_amount_decimals rest) (\<lambda>(amt, d, _). Ok (TI_TransferChecked amt d))
     else if tag = 13 then
       try_bind (unpack_amount_decimals rest) (\<lambda>(amt, d, _). Ok (TI_ApproveChecked amt d))
     else if tag = 14 then
       try_bind (unpack_amount_decimals rest) (\<lambda>(amt, d, _). Ok (TI_MintToChecked amt d))
     else if tag = 15 then
       try_bind (unpack_amount_decimals rest) (\<lambda>(amt, d, _). Ok (TI_BurnChecked amt d))
     else if tag = 16 then try_bind (unpack_pubkey rest) (\<lambda>(owner, _). Ok (TI_InitializeAccount2 owner))
     else if tag = 17 then Ok TI_SyncNative
     else if tag = 18 then try_bind (unpack_pubkey rest) (\<lambda>(owner, _). Ok (TI_InitializeAccount3 owner))
     else if tag = 19 then try_bind (split_first rest) (\<lambda>(m, _). Ok (TI_InitializeMultisig2 m))
     else if tag = 20 then
       try_bind (split_first rest) (\<lambda>(d, rest).
       try_bind (unpack_pubkey rest) (\<lambda>(authority, rest).
       try_bind (unpack_pubkey_option rest) (\<lambda>(freeze, _). Ok (TI_InitializeMint2 d authority freeze))))
     else if tag = 21 then try_bind (unpack_extension_types rest) (\<lambda>ts. Ok (TI_GetAccountDataSize ts))
     else if tag = 22 then Ok TI_InitializeImmutableOwner
     else if tag = 23 then try_bind (unpack_u64 rest) (\<lambda>(amt, _). Ok (TI_AmountToUiAmount amt))
     else if tag = 24 then
       (if utf8_valid rest then Ok (TI_UiAmountToAmount rest) else TErr TE_InvalidInstruction)
     else if tag = 25 then
       try_bind (unpack_pubkey_option rest) (\<lambda>(c, _). Ok (TI_InitializeMintCloseAuthority c))
     else if tag = 26 then
       try_bind (transfer_fee_instruction_unpack rest) (\<lambda>(i, _). Ok (TI_TransferFeeExtension i))
     else if tag = 27 then Ok TI_ConfidentialTransferExtension
     else if tag = 28 then Ok TI_DefaultAccountStateExtension
     else if tag = 29 then try_bind (unpack_extension_types rest) (\<lambda>ts. Ok (TI_Reallocate ts))
     else if tag = 30 then Ok TI_MemoTransferExtension
     else if tag = 31 then Ok TI_CreateNativeMint
     else if tag = 32 then Ok TI_InitializeNonTransferableMint
     else if tag = 33 then Ok TI_InterestBearingMintExtension
     else TErr TE_InvalidInstruction)"

definition token_instruction_pack :: "token_instruction \<Rightarrow> bytes" where
  "token_instruction_pack i = (case i of
      TI_InitializeMint d authority freeze \<Rightarrow> 0 # d # to_le_bytes authority @ pack_pubkey_option freeze
    | TI_InitializeAccount \<Rightarrow> [1]
    | TI_InitializeMultisig m \<Rightarrow> [2, m]
    | TI_Transfer amt \<Rightarrow> 3 # to_le_bytes amt
    | TI_Approve amt \<Rightarrow> 4 # to_le_bytes amt
    | TI_MintTo amt \<Rightarrow> 7 # to_le_bytes amt
    | TI_Burn amt \<Rightarrow> 8 # to_le_bytes amt
    | TI_Revoke \<Rightarrow> [5]
    | TI_SetAuthority t new_authority \<Rightarrow> 6 # authority_type_into t # pack_pubkey_option new_authority
    | TI_CloseAccount \<Rightarrow> [9]
    | TI_FreezeAccount \<Rightarrow> [10]
    | TI_ThawAccount \<Rightarrow> [11]
    | TI_TransferChecked amt d \<Rightarrow> 12 # to_le_bytes amt @ [d]
    | TI_ApproveChecked amt d \<Rightarrow> 13 # to_le_bytes amt @ [d]
    | TI_MintToChecked amt d \<Rightarrow> 14 # to_le_bytes amt @ [d]
    | TI_BurnChecked amt d \<Rightarrow> 15 # to_le_bytes amt @ [d]
    | TI_InitializeAccount2 owner \<Rightarrow> 16 # to_le_bytes owner
    | TI_SyncNative \<Rightarrow> [17]
    | TI_InitializeAccount3 owner \<Rightarrow> 18 # to_le_bytes owner
    | TI_InitializeMultisig2 m \<Rightarrow> [19, m]
    | TI_InitializeMint2 d authority freeze \<Rightarrow> 20 # d # to_le_bytes authority @ pack_pubkey_option freeze
    | TI_GetAccountDataSize ts \<Rightarrow> 21 # concat (map extension_type_bytes ts)
    | TI_InitializeImmutableOwner \<Rightarrow> [22]
    | TI_AmountToUiAmount amt \<Rightarrow> 23 # to_le_bytes amt
    | TI_UiAmountToAmount ui_amount \<Rightarrow> 24 # ui_amount
    | TI_InitializeMintCloseAuthority c \<Rightarrow> 25 # pack_pubkey_option c
    | TI_TransferFeeExtension i \<Rightarrow> 26 # transfer_fee_instruction_pack i
    | TI_ConfidentialTransferExtension \<Rightarrow> [27]
    | TI_DefaultAccountStateExtension \<Rightarrow> [28]
    | TI_Reallocate ts \<Rightarrow> 29 # concat (map extension_type_bytes ts)
    | TI_MemoTransferExtension \<Rightarrow> [30]
    | TI_CreateNativeMint \<Rightarrow> [31]
    | TI_InitializeNonTransferableMint \<Rightarrow> [32]
    | TI_InterestBearingMintExtension \<Rightarrow> [33])"

section \<open>Extension instructions\<close>

definition decode_instruction_type :: "(u8 \<Rightarrow> 'i option) \<Rightarrow> bytes \<Rightarrow> (program_error, 'i) result" where
  "decode_instruction_type try_from input = (case input of
      [] \<Rightarrow> Fail PE_InvalidInstructionData
    | b # _ \<Rightarrow> ok_or (try_from b) (into_program_error TE_InvalidInstruction))"

definition decode_instruction_data :: "'v pod \<Rightarrow> bytes \<Rightarrow> (program_error, 'v) result" where
  "decode_instruction_data P input =
     (if length input \<noteq> pod_get_packed_len P + 1 then Fail PE_InvalidInstructionData
      else pod_from_bytes P (drop 1 input))"

definition encode_instruction_bytes :: "token_instruction \<Rightarrow> u8 \<Rightarrow> 'v pod \<Rightarrow> 'v \<Rightarrow> bytes" where
  "encode_instruction_bytes ti t P v = token_instruction_pack ti @ [t] @ pod_bytes_of P v"

datatype default_account_state_instruction = DAS_Initialize | DAS_Update

definition default_account_state_instruction_try_from :: "u8 \<Rightarrow> default_account_state_instruction option" where
  "default_account_state_instruction_try_from b =
     (if b = 0 then Some DAS_Initialize else if b = 1 then Some DAS_Update else None)"

definition default_account_state_decode ::
  "bytes \<Rightarrow> (program_error, default_account_state_instruction \<times> account_state) result" where
  "default_account_state_decode input =
     (if length input \<noteq> 2 then TErr TE_InvalidInstruction
      else
        try_bind (ok_or (default_account_state_instruction_try_from (input ! 0))
            (into_program_error TE_InvalidInstruction)) (\<lambda>i.
        try_bind (ok_or (account_state_try_from (input ! 1))
            (into_program_error TE_InvalidInstruction)) (\<lambda>s. Ok (i, s))))"

datatype memo_transfers_instruction = MTI_Enable | MTI_Disable

definition memo_transfers_instruction_try_from :: "u8 \<Rightarrow> memo_transfers_instruction option" where
  "memo_transfers_instruction_try_from b =
     (if b = 0 then Some MTI_Enable else if b = 1 then Some MTI_Disable else None)"

datatype interest_bearing_mint_instruction = IBI_Initialize | IBI_UpdateRate

definition interest_bearing_mint_instruction_try_from :: "u8 \<Rightarrow> interest_bearing_mint_instruction option" where
  "interest_bearing_mint_instruction_try_from b =
     (if b = 0 then Some IBI_Initialize else if b = 1 then Some IBI_UpdateRate else None)"

record interest_initialize_data =
  iid_rate_authority :: pubkey
  iid_rate :: i16

definition interest_initialize_data_pod :: "interest_initialize_data pod" where
  "interest_initialize_data_pod = pod_iso (\<lambda>(a, r). \<lparr>iid_rate_authority = a, iid_rate = r\<rparr>)
     (\<lambda>d. (iid_rate_authority d, iid_rate d)) (pod_pair pod_pubkey pod_u16)"

interpretation interest_initialize_data: pod_codec interest_initialize_data_pod
  unfolding interest_initialize_data_pod_def
  by (intro pod_codec_iso pod_codec_pair pod_codecs) auto

section \<open>Round trips\<close>

text \<open>Each field decoder undoes its encoder and leaves the rest.\<close>

lemma split_first_Cons [simp]: "split_first (b # r) = Ok (b, r)"
  by (simp add: split_first_def)

lemma unpack_pubkey_pack [simp]: "unpack_pubkey (to_le_bytes k @ r) = Ok (k, r)"
  "unpack_pubkey (to_le_bytes k) = Ok (k, [])"
  by (simp_all add: unpack_pubkey_def bytes_simps)

lemma unpack_pubkey_option_pack [simp]:
  "unpack_pubkey_option (pack_pubkey_option k @ r) = Ok (k, r)"
  "unpack_pubkey_option (pack_pubkey_option k) = Ok (k, [])"
  by (simp_all add: unpack_pubkey_option_def pack_pubkey_option_def split: option.splits)

lemma unpack_u16_pack [simp]: "unpack_u16 (to_le_bytes w @ r) = Ok (w, r)"
  by (simp add: unpack_u16_def bytes_simps)

lemma unpack_u64_pack [simp]: "unpack_u64 (to_le_bytes w @ r) = Ok (w, r)"
  "unpack_u64 (to_le_bytes w) = Ok (w, [])"
  by (simp_all add: unpack_u64_def bytes_simps)

lemma unpack_amount_decimals_pack [simp]:
  "unpack_amount_decimals (to_le_bytes a @ d # r) = Ok (a, d, r)"
  by (simp add: unpack_amount_decimals_def)

lemma unpack_extension_types_pack [simp]:
  "unpack_extension_types (concat (map extension_type_bytes ts)) = Ok ts"
proof (induction ts)
  case (Cons t ts)
  obtain a b where ab: "extension_type_bytes t = [a, b]"
    using extension_type_round_trip(2) [of t] by (auto simp: length_Suc_conv numeral_2_eq_2 simp del: extension_type_round_trip)
  show ?case
    using Cons extension_type_round_trip(1) [of t] by (simp add: ab)
qed simp

lemma authority_type_round_trip [simp]: "authority_type_from (authority_type_into t) = Ok t"
  by (cases t) (simp_all add: authority_type_from_def authority_type_into_def)

lemma transfer_fee_instruction_round_trip [simp]:
  "transfer_fee_instruction_unpack (transfer_fee_instruction_pack i) = Ok (i, [])"
  by (cases i) (simp_all add: transfer_fee_instruction_unpack_def transfer_fee_instruction_pack_def)

definition token_instruction_ok :: "token_instruction \<Rightarrow> bool" where
  "token_instruction_ok i \<longleftrightarrow> (case i of TI_UiAmountToAmount s \<Rightarrow> utf8_valid s | _ \<Rightarrow> True)"

lemma token_instruction_round_trip:
  "token_instruction_ok i \<Longrightarrow> token_instruction_unpack (token_instruction_pack i) = Ok i"
  by (cases i)
    (simp_all add: token_instruction_unpack_def token_instruction_pack_def token_instruction_ok_def
      bytes_simps)

section \<open>Totality\<close>

lemma field_decoders_no_panic [simp]:
  "no_panic (split_first b)" "no_panic (unpack_pubkey b)" "no_panic (unpack_u16 b)"
  "no_panic (unpack_u64 b)" "no_panic (authority_type_from t)" "no_panic (extension_type_try_from b)"
  by (auto simp: split_first_def unpack_pubkey_def unpack_u16_def unpack_u64_def
      authority_type_from_def extension_type_try_from_def ok_or_def split: list.splits option.splits)

lemma compound_decoders_no_panic [simp]:
  "no_panic (unpack_pubkey_option b)" "no_panic (unpack_amount_decimals b)"
  "no_panic (unpack_extension_types b)"
proof -
  show "no_panic (unpack_pubkey_option b)"
    by (auto simp: unpack_pubkey_option_def intro!: no_panic_bind split: list.splits)
  show "no_panic (unpack_amount_decimals b)"
    by (auto simp: unpack_amount_decimals_def intro!: no_panic_bind)
  show "no_panic (unpack_extension_types b)"
    by (induction b rule: unpack_extension_types.induct) (auto intro!: no_panic_bind)
qed

lemma transfer_fee_instruction_unpack_no_panic [simp]:
  "no_panic (transfer_fee_instruction_unpack b)"
  by (auto simp: transfer_fee_instruction_unpack_def intro!: no_panic_bind)

lemma token_instruction_unpack_no_panic: "no_panic (token_instruction_unpack b)"
  by (auto simp: token_instruction_unpack_def Let_def intro!: no_panic_bind)

text \<open>An accepted instruction's string is valid UTF-8.\<close>

lemma token_instruction_unpack_ok:
  "token_instruction_unpack b = Ok i \<Longrightarrow> token_instruction_ok i"
  by (auto simp: token_instruction_unpack_def token_instruction_ok_def ok_simps Let_def
      split: if_splits token_instruction.splits)

end
