(* ===== verification/TokenOwnership.thy ===== *)
theory TokenOwnership
  imports TokenTransfer TokenInstruction
begin

text \<open>
  The life cycle of accounts (\<open>processor.rs\<close>): \<open>process_set_authority\<close>,
  \<open>process_close_account\<close>, \<open>process_toggle_freeze_account\<close> and
  \<open>process_sync_native\<close>. A handler that tries a token account first and a mint second
  is a match on the two attempts.
\<close>

section \<open>Changing authorities\<close>

definition set_account_authority ::
  "(pubkey \<Rightarrow> (program_error, unit) result) \<Rightarrow> authority_type \<Rightarrow> pubkey option \<Rightarrow>
   token_account state_with_extensions_mut \<Rightarrow>
   (program_error, token_account state_with_extensions_mut) result" where
  "set_account_authority validate authority_type new_authority account =
     (if is_frozen (base account) then TErr TE_AccountFrozen
      else case authority_type of
        AUTH_AccountOwner \<Rightarrow>
          try_bind (validate (acc_owner (base account))) (\<lambda>_.
          try_bind (is_ok (swe_get_extension_mut Account_base ImmutableOwner_ext account)) (\<lambda>immutable.
          if immutable then TErr TE_ImmutableOwner
          else case new_authority of
            None \<Rightarrow> TErr TE_InvalidInstruction
          | Some authority \<Rightarrow>
              let b = (base account)\<lparr>acc_owner := authority, delegate := None, delegated_amount := 0\<rparr> in
              Ok (account\<lparr>base := (if is_native b then b\<lparr>close_authority := None\<rparr> else b)\<rparr>)))
      | AUTH_CloseAccount \<Rightarrow>
          let authority = (case close_authority (base account) of
                Some c \<Rightarrow> c | None \<Rightarrow> acc_owner (base account)) in
          try_bind (validate authority) (\<lambda>_.
          Ok (account\<lparr>base := (base account)\<lparr>close_authority := new_authority\<rparr>\<rparr>))
      | _ \<Rightarrow> TErr TE_AuthorityTypeNotSupported)"

text \<open>
  The authority of a mint's extension: the four arms of \<open>process_set_authority\<close> that read
  an optional key of an extension, validate it and replace it.
\<close>

definition set_extension_authority ::
  "(pubkey \<Rightarrow> (program_error, unit) result) \<Rightarrow> 'v extension \<Rightarrow> ('v \<Rightarrow> pubkey) \<Rightarrow>
   (pubkey \<Rightarrow> 'v \<Rightarrow> 'v) \<Rightarrow> pubkey option \<Rightarrow> mint state_with_extensions_mut \<Rightarrow>
   (program_error, mint state_with_extensions_mut) result" where
  "set_extension_authority validate X get put new_authority mint =
     try_bind (swe_get_extension_mut Mint_base X mint) (\<lambda>(at, extension).
     try_bind (ok_or (optional_key_get (get extension)) (into_program_error TE_AuthorityTypeNotSupported))
       (\<lambda>authority.
     try_bind (validate authority) (\<lambda>_.
     try_bind (optional_key_try_from new_authority) (\<lambda>k.
     Ok (put_extension X at (put k extension) mint)))))"

definition set_mint_authority ::
  "(pubkey \<Rightarrow> (program_error, unit) result) \<Rightarrow> authority_type \<Rightarrow> pubkey option \<Rightarrow>
   mint state_with_extensions_mut \<Rightarrow> (program_error, mint state_with_extensions_mut) result" where
  "set_mint_authority validate authority_type new_authority mint = (case authority_type of
      AUTH_MintTokens \<Rightarrow>
        try_bind (ok_or (mint_authority (base mint)) (into_program_error TE_FixedSupply)) (\<lambda>authority.
        try_bind (validate authority) (\<lambda>_.
        Ok (swe_pack_base Mint_base (mint\<lparr>base := (base mint)\<lparr>mint_authority := new_authority\<rparr>\<rparr>))))
    | AUTH_FreezeAccount \<Rightarrow>
        try_bind (ok_or (freeze_authority (base mint)) (into_program_error TE_MintCannotFreeze)) (\<lambda>authority.
        try_bind (validate authority) (\<lambda>_.
        Ok (swe_pack_base Mint_base (mint\<lparr>base := (base mint)\<lparr>freeze_authority := new_authority\<rparr>\<rparr>))))
    | AUTH_CloseMint \<Rightarrow>
        set_extension_authority validate MintCloseAuthority_ext mca_close_authority
          (\<lambda>k x. x\<lparr>mca_close_authority := k\<rparr>) new_authority mint
    | AUTH_TransferFeeConfig \<Rightarrow>
        set_extension_authority validate TransferFeeConfig_ext transfer_fee_config_authority
          (\<lambda>k x. x\<lparr>transfer_fee_config_authority := k\<rparr>) new_authority mint
    | AUTH_WithheldWithdraw \<Rightarrow>
        set_extension_authority validate TransferFeeConfig_ext withdraw_withheld_authority
          (\<lambda>k x. x\<lparr>withdraw_withheld_authority := k\<rparr>) new_authority mint
    | AUTH_InterestRate \<Rightarrow>
        set_extension_authority validate InterestBearingConfig_ext rate_authority
          (\<lambda>k x. x\<lparr>rate_authority := k\<rparr>) new_authority mint
    | _ \<Rightarrow> TErr TE_AuthorityTypeNotSupported)"

definition process_set_authority ::
  "token_env \<Rightarrow> store \<Rightarrow> pubkey \<Rightarrow> account_info list \<Rightarrow> authority_type \<Rightarrow> pubkey option \<Rightarrow>
   (program_error, store) result" where
  "process_set_authority E st program_id accounts authority_type new_authority =
     try_bind (next_account_info accounts) (\<lambda>(account_info, accounts).
     try_bind (next_account_info accounts) (\<lambda>(authority_info, signers).
     let validate = (\<lambda>owner. validate_owner E [ai_cell account_info] st program_id owner authority_info
           (data_len st authority_info) signers) in
     try_bind (attempt (swe_unpack E Account_base (account_data st account_info))) (\<lambda>r. case r of
       Inr account \<Rightarrow>
         try_bind (set_account_authority validate authority_type new_authority account) (\<lambda>account.
         Ok (write_back Account_base st account_info account))
     | Inl _ \<Rightarrow>
         try_bind (attempt (swe_unpack E Mint_base (account_data st account_info))) (\<lambda>r. case r of
           Inr mint \<Rightarrow>
             try_bind (set_mint_authority validate authority_type new_authority mint) (\<lambda>mint.
             Ok (set_data st account_info (swe_buffer mint)))
         | Inl _ \<Rightarrow> Fail PE_InvalidAccountData))))"

section \<open>Closing\<close>

definition may_close_token_account ::
  "token_env \<Rightarrow> (pubkey \<Rightarrow> (program_error, unit) result) \<Rightarrow> account_info \<Rightarrow>
   token_account state_with_extensions \<Rightarrow> (program_error, unit) result" where
  "may_close_token_account E validate destination_info source =
     (if \<not> is_native (se_base source) \<and> amount (se_base source) \<noteq> 0 then TErr TE_NonNativeHasBalance
      else
        let authority = (case close_authority (se_base source) of
              Some c \<Rightarrow> c | None \<Rightarrow> acc_owner (se_base source)) in
        try_bind (if \<not> is_owned_by_system_program_or_incinerator E (se_base source) then validate authority
          else if ai_key destination_info \<noteq> env_incinerator E then Fail PE_InvalidAccountData
          else Ok ()) (\<lambda>_.
        try_bind (attempt (se_get_extension Account_base TransferFeeAmount_ext source)) (\<lambda>r. case r of
          Inr x \<Rightarrow> closable x
        | Inl _ \<Rightarrow> Ok ())))"

definition may_close_mint ::
  "(pubkey \<Rightarrow> (program_error, unit) result) \<Rightarrow> mint state_with_extensions \<Rightarrow> (program_error, unit) result" where
  "may_close_mint validate mint =
     try_bind (se_get_extension Mint_base MintCloseAuthority_ext mint) (\<lambda>extension.
     try_bind (ok_or (optional_key_get (mca_close_authority extension))
         (into_program_error TE_AuthorityTypeNotSupported)) (\<lambda>authority.
     try_bind (validate authority) (\<lambda>_.
     if mint_supply (se_base mint) \<noteq> 0 then TErr TE_MintHasSupply else Ok ())))"

definition process_close_account ::
  "token_env \<Rightarrow> store \<Rightarrow> pubkey \<Rightarrow> account_info list \<Rightarrow> (program_error, store) result" where
  "process_close_account E st program_id accounts =
     try_bind (next_account_info accounts) (\<lambda>(source_info, accounts).
     try_bind (next_account_info accounts) (\<lambda>(destination_info, accounts).
     try_bind (next_account_info accounts) (\<lambda>(authority_info, signers).
     if cmp_pubkeys (ai_key source_info) (ai_key destination_info) then Fail PE_InvalidAccountData
     else
       let data = account_data st source_info;
           validate = (\<lambda>owner. validate_owner E [ai_cell source_info] st program_id owner authority_info
             (data_len st authority_info) signers) in
       try_bind (attempt (se_unpack E Account_base data)) (\<lambda>r.
       try_bind (case r of
           Inr source \<Rightarrow> may_close_token_account E validate destination_info source
         | Inl _ \<Rightarrow>
             try_bind (attempt (se_unpack E Mint_base data)) (\<lambda>r. case r of
               Inr mint \<Rightarrow> may_close_mint validate mint
             | Inl _ \<Rightarrow> Fail PE_UninitializedAccount)) (\<lambda>_.
       try_bind (overflow_or (checked_add (lamports st destination_info) (lamports st source_info))) (\<lambda>l.
       let st = set_lamports (set_lamports st destination_info l) source_info 0 in
       Ok (set_data st source_info (replicate (length data) 0))))))))"

section \<open>Freezing and native balances\<close>

definition process_toggle_freeze_account ::
  "token_env \<Rightarrow> store \<Rightarrow> pubkey \<Rightarrow> account_info list \<Rightarrow> bool \<Rightarrow> (program_error, store) result" where
  "process_toggle_freeze_account E st program_id accounts freeze =
     try_bind (next_account_info accounts) (\<lambda>(source_info, accounts).
     try_bind (next_account_info accounts) (\<lambda>(mint_info, accounts).
     try_bind (next_account_info accounts) (\<lambda>(authority_info, signers).
     let held = [ai_cell source_info] in
     try_bind (swe_unpack E Account_base (account_data st source_info)) (\<lambda>source.
     if freeze \<and> is_frozen (base source) \<or> \<not> freeze \<and> \<not> is_frozen (base source)
     then TErr TE_InvalidState
     else if is_native (base source) then TErr TE_NativeNotSupported
     else if \<not> cmp_pubkeys (ai_key mint_info) (acc_mint (base source)) then TErr TE_MintMismatch
     else
       try_bind (acquire held mint_info) (\<lambda>_.
       try_bind (se_unpack E Mint_base (account_data st mint_info)) (\<lambda>mint.
       try_bind (case freeze_authority (se_base mint) of
           Some authority \<Rightarrow> validate_owner E held st program_id authority authority_info
             (data_len st authority_info) signers
         | None \<Rightarrow> TErr TE_MintCannotFreeze) (\<lambda>_.
       let source = source\<lparr>base := (base source)
             \<lparr>acc_state := (if freeze then AS_Frozen else AS_Initialized)\<rparr>\<rparr> in
       Ok (write_back Account_base st source_info source))))))))"

definition process_sync_native ::
  "token_env \<Rightarrow> store \<Rightarrow> account_info list \<Rightarrow> (program_error, store) result" where
  "process_sync_native E st accounts =
     try_bind (next_account_info accounts) (\<lambda>(native_info, _).
     try_bind (check_program_account (ai_owner native_info)) (\<lambda>_.
     try_bind (swe_unpack E Account_base (account_data st native_info)) (\<lambda>native.
     case is_native_reserve (base native) of
       Some reserve \<Rightarrow>
         try_bind (overflow_or (checked_sub (lamports st native_info) reserve)) (\<lambda>new_amount.
         if new_amount < amount (base native) then TErr TE_InvalidState
         else
           Ok (write_back Account_base st native_info
                (native\<lparr>base := (base native)\<lparr>amount := new_amount\<rparr>\<rparr>)))
     | None \<Rightarrow> TErr TE_NonNativeNotSupported)))"

end
