(* ===== verification/TokenInitialize.thy ===== *)
theory TokenInitialize
  imports TokenTransfer TokenInstruction
begin

text \<open>
  Creating mints, accounts and multisigs, and initializing their extensions
  (\<open>processor.rs\<close> and the \<open>processor.rs\<close> of each extension, \<open>extension/reallocate.rs\<close>).
  The rent sysvar comes from an account or from the runtime; the system program's
  effects are the environment's.
\<close>

section \<open>Mints, accounts and multisigs\<close>

definition rent_for ::
  "token_env \<Rightarrow> nat list \<Rightarrow> store \<Rightarrow> bool \<Rightarrow> account_info list \<Rightarrow>
   (program_error, rent \<times> account_info list) result" where
  "rent_for E held st rent_sysvar_account accounts =
     (if rent_sysvar_account then
        try_bind (next_account_info accounts) (\<lambda>(rent_info, accounts).
        try_bind (env_rent_from_account E rent_info
            (if ai_cell rent_info \<in> set held then None else Some (st (ai_cell rent_info)))) (\<lambda>rent.
        Ok (rent, accounts)))
      else try_bind (env_rent_get E) (\<lambda>rent. Ok (rent, accounts)))"

definition check_default_state ::
  "pubkey option \<Rightarrow> mint state_with_extensions_mut \<Rightarrow> (program_error, unit) result" where
  "check_default_state new_freeze_authority mint =
     try_bind (attempt (swe_get_extension_mut Mint_base DefaultAccountState_ext mint)) (\<lambda>r. case r of
       Inr (_, x) \<Rightarrow>
         try_bind (ok_or (account_state_try_from (das_state x)) PE_InvalidAccountData) (\<lambda>s.
         if s = AS_Frozen \<and> new_freeze_authority = None then TErr TE_MintCannotFreeze else Ok ())
     | Inl _ \<Rightarrow> Ok ())"

definition process_initialize_mint_impl ::
  "token_env \<Rightarrow> store \<Rightarrow> account_info list \<Rightarrow> u8 \<Rightarrow> pubkey \<Rightarrow> pubkey option \<Rightarrow> bool \<Rightarrow>
   (program_error, store) result" where
  "process_initialize_mint_impl E st accounts d authority new_freeze_authority rent_sysvar_account =
     try_bind (next_account_info accounts) (\<lambda>(mint_info, accounts).
     try_bind (rent_for E [ai_cell mint_info] st rent_sysvar_account accounts) (\<lambda>(rent, _).
     if \<not> is_exempt rent (lamports st mint_info) (data_len st mint_info) then TErr TE_NotRentExempt
     else
       try_bind (swe_unpack_uninitialized E Mint_base (account_data st mint_info)) (\<lambda>mint.
       if mint_is_initialized (base mint) then TErr TE_AlreadyInUse
       else
         try_bind (swe_get_extension_types mint) (\<lambda>extension_types.
         if get_account_len Mint_base extension_types \<noteq> data_len st mint_info
         then Fail PE_InvalidAccountData
         else
           try_bind (check_default_state new_freeze_authority mint) (\<lambda>_.
           let mint = swe_pack_base Mint_base (mint\<lparr>base := (base mint)\<lparr>mint_authority := Some authority,
                 decimals := d, mint_is_initialized := True,
                 freeze_authority := new_freeze_authority\<rparr>\<rparr>) in
           try_bind (init_account_type Mint_base mint) (\<lambda>mint.
           Ok (set_data st mint_info (swe_buffer mint))))))))"

definition process_initialize_mint where
  "process_initialize_mint E st accounts d authority new_freeze_authority =
     process_initialize_mint_impl E st accounts d authority new_freeze_authority True"

definition process_initialize_mint2 where
  "process_initialize_mint2 E st accounts d authority new_freeze_authority =
     process_initialize_mint_impl E st accounts d authority new_freeze_authority False"

definition get_required_account_extensions_from_unpacked_mint ::
  "pubkey \<Rightarrow> mint state_with_extensions \<Rightarrow> (program_error, extension_type list) result" where
  "get_required_account_extensions_from_unpacked_mint token_program_id state =
     try_bind (check_program_account token_program_id) (\<lambda>_.
     try_bind (se_get_extension_types state) (\<lambda>mint_extensions.
     Ok (get_required_init_account_extensions mint_extensions)))"

definition get_required_account_extensions ::
  "token_env \<Rightarrow> store \<Rightarrow> account_info \<Rightarrow> (program_error, extension_type list) result" where
  "get_required_account_extensions E st mint_info =
     try_bind (map_err (\<lambda>_. into_program_error TE_InvalidMint)
         (se_unpack E Mint_base (account_data st mint_info))) (\<lambda>state.
     get_required_account_extensions_from_unpacked_mint (ai_owner mint_info) state)"

fun init_account_extensions ::
  "extension_type list \<Rightarrow> token_account state_with_extensions_mut \<Rightarrow>
   (program_error, token_account state_with_extensions_mut) result" where
  "init_account_extensions [] account = Ok account"
| "init_account_extensions (t # ts) account =
     try_bind (init_account_extension_from_type Account_base t account) (init_account_extensions ts)"

definition starting_state ::
  "mint state_with_extensions \<Rightarrow> (program_error, account_state) result" where
  "starting_state mint =
     try_bind (attempt (se_get_extension Mint_base DefaultAccountState_ext mint)) (\<lambda>r. case r of
       Inr x \<Rightarrow> ok_or (account_state_try_from (das_state x)) PE_InvalidAccountData
     | Inl _ \<Rightarrow> Ok AS_Initialized)"

definition process_initialize_account_impl ::
  "token_env \<Rightarrow> store \<Rightarrow> account_info list \<Rightarrow> pubkey option \<Rightarrow> bool \<Rightarrow> (program_error, store) result" where
  "process_initialize_account_impl E st accounts given_owner rent_sysvar_account =
     try_bind (next_account_info accounts) (\<lambda>(new_info, accounts).
     try_bind (next_account_info accounts) (\<lambda>(mint_info, accounts).
     try_bind (case given_owner of
         Some owner \<Rightarrow> Ok (owner, accounts)
       | None \<Rightarrow> try_bind (next_account_info accounts) (\<lambda>(a, accounts). Ok (ai_key a, accounts)))
       (\<lambda>(owner, accounts).
     try_bind (rent_for E [] st rent_sysvar_account accounts) (\<lambda>(rent, _).
     try_bind (swe_unpack_uninitialized E Account_base (account_data st new_info)) (\<lambda>account.
     if \<not> is_exempt rent (lamports st new_info) (data_len st new_info) then TErr TE_NotRentExempt
     else
       try_bind (acquire [ai_cell new_info] mint_info) (\<lambda>_.
       try_bind (map_err (\<lambda>_. into_program_error TE_InvalidMint)
           (se_unpack E Mint_base (account_data st mint_info))) (\<lambda>mint.
       try_bind (get_required_account_extensions_from_unpacked_mint (ai_owner mint_info) mint)
         (\<lambda>required_extensions.
       if get_account_len Account_base required_extensions > data_len st new_info
       then Fail PE_InvalidAccountData
       else
         try_bind (init_account_extensions required_extensions account) (\<lambda>account.
         try_bind (starting_state mint) (\<lambda>state.
         let b = (base account)\<lparr>acc_mint := ai_key mint_info, acc_owner := owner,
               close_authority := None, delegate := None, delegated_amount := 0, acc_state := state\<rparr> in
         try_bind (if cmp_pubkeys (ai_key mint_info) native_mint_id then
             let rent_exempt_reserve = minimum_balance rent (data_len st new_info) in
             try_bind (overflow_or (checked_sub (lamports st new_info) rent_exempt_reserve)) (\<lambda>amt.
             Ok (b\<lparr>is_native_reserve := Some rent_exempt_reserve, amount := amt\<rparr>))
           else Ok (b\<lparr>is_native_reserve := None, amount := 0\<rparr>)) (\<lambda>b.
         try_bind (init_account_type Account_base (swe_pack_base Account_base (account\<lparr>base := b\<rparr>)))
           (\<lambda>account. Ok (set_data st new_info (swe_buffer account))))))))))))))"

definition process_initialize_account where
  "process_initialize_account E st accounts = process_initialize_account_impl E st accounts None True"

definition process_initialize_account2 where
  "process_initialize_account2 E st accounts owner =
     process_initialize_account_impl E st accounts (Some owner) True"

definition process_initialize_account3 where
  "process_initialize_account3 E st accounts owner =
     process_initialize_account_impl E st accounts (Some owner) False"

text \<open>\<open>multisig.signers[i] = *signer_info.key\<close>, which panics past the array.\<close>

fun set_signers :: "nat \<Rightarrow> account_info list \<Rightarrow> pubkey list \<Rightarrow> (program_error, pubkey list) result" where
  "set_signers i [] keys = Ok keys"
| "set_signers i (a # rest) keys =
     (if i < length keys then set_signers (Suc i) rest (keys[i := ai_key a]) else Panicked)"

definition process_initialize_multisig_impl ::
  "token_env \<Rightarrow> store \<Rightarrow> account_info list \<Rightarrow> u8 \<Rightarrow> bool \<Rightarrow> (program_error, store) result" where
  "process_initialize_multisig_impl E st accounts m rent_sysvar_account =
     try_bind (next_account_info accounts) (\<lambda>(multisig_info, accounts).
     try_bind (rent_for E [] st rent_sysvar_account accounts) (\<lambda>(rent, signer_infos).
     try_bind (unpack_unchecked E multisig_pack (account_data st multisig_info)) (\<lambda>ms.
     if ms_is_initialized ms then TErr TE_AlreadyInUse
     else if \<not> is_exempt rent (lamports st multisig_info) (data_len st multisig_info)
     then TErr TE_NotRentExempt
     else
       let n = word_of_nat (length signer_infos) :: u8 in
       if \<not> is_valid_signer_index (unat n) then TErr TE_InvalidNumberOfProvidedSigners
       else if \<not> is_valid_signer_index (unat m) then TErr TE_InvalidNumberOfRequiredSigners
       else
         try_bind (set_signers 0 signer_infos (ms_signers ms)) (\<lambda>keys.
         try_bind (pack_into E multisig_pack
             (ms\<lparr>ms_m := m, ms_n := n, ms_signers := keys, ms_is_initialized := True\<rparr>)
             (account_data st multisig_info)) (\<lambda>bs.
         Ok (set_data st multisig_info bs))))))"

definition process_initialize_multisig where
  "process_initialize_multisig E st accounts m = process_initialize_multisig_impl E st accounts m True"

definition process_initialize_multisig2 where
  "process_initialize_multisig2 E st accounts m = process_initialize_multisig_impl E st accounts m False"

section \<open>Sizes and the native mint\<close>

text \<open>The value is the program's return data.\<close>

definition process_get_account_data_size ::
  "token_env \<Rightarrow> store \<Rightarrow> account_info list \<Rightarrow> extension_type list \<Rightarrow> (program_error, bytes) result" where
  "process_get_account_data_size E st accounts new_extension_types =
     try_bind (next_account_info accounts) (\<lambda>(mint_info, _).
     try_bind (get_required_account_extensions E st mint_info) (\<lambda>account_extensions.
     let account_len = get_account_len Account_base (account_extensions @ new_extension_types) in
     Ok (to_le_bytes (word_of_nat account_len :: u64))))"

definition process_create_native_mint ::
  "token_env \<Rightarrow> store \<Rightarrow> account_info list \<Rightarrow> (program_error, store) result" where
  "process_create_native_mint E st accounts =
     try_bind (next_account_info accounts) (\<lambda>(payer_info, accounts).
     try_bind (next_account_info accounts) (\<lambda>(mint_info, accounts).
     try_bind (next_account_info accounts) (\<lambda>(system_program_info, _).
     if ai_key mint_info \<noteq> native_mint_id then TErr TE_InvalidMint
     else
       try_bind (env_rent_get E) (\<lambda>rent.
       let lamports_diff = saturating_sub (minimum_balance rent (pk_len mint_pack)) (lamports st mint_info) in
       try_bind (env_invoke_transfer E payer_info mint_info lamports_diff st) (\<lambda>st.
       try_bind (env_invoke_allocate E mint_info (word_of_nat (pk_len mint_pack)) st) (\<lambda>st.
       try_bind (env_invoke_assign E mint_info token_2022_id st) (\<lambda>st.
       try_bind (pack_into E mint_pack
           (mint_default\<lparr>decimals := native_mint_decimals, mint_is_initialized := True\<rparr>)
           (account_data st mint_info)) (\<lambda>bs.
       Ok (set_data st mint_info bs)))))))))"

section \<open>Extensions of a new mint or account\<close>

definition process_initialize_mint_close_authority ::
  "token_env \<Rightarrow> store \<Rightarrow> account_info list \<Rightarrow> pubkey option \<Rightarrow> (program_error, store) result" where
  "process_initialize_mint_close_authority E st accounts new_authority =
     try_bind (next_account_info accounts) (\<lambda>(mint_info, _).
     try_bind (swe_unpack_uninitialized E Mint_base (account_data st mint_info)) (\<lambda>mint.
     try_bind (swe_init_extension Mint_base MintCloseAuthority_ext True mint) (\<lambda>(mint, at, x).
     try_bind (optional_key_try_from new_authority) (\<lambda>k.
     Ok (set_data st mint_info (swe_buffer
          (put_extension MintCloseAuthority_ext at (x\<lparr>mca_close_authority := k\<rparr>) mint)))))))"

definition process_initialize_immutable_owner ::
  "token_env \<Rightarrow> store \<Rightarrow> account_info list \<Rightarrow> (program_error, store) result" where
  "process_initialize_immutable_owner E st accounts =
     try_bind (next_account_info accounts) (\<lambda>(token_info, _).
     try_bind (swe_unpack_uninitialized E Account_base (account_data st token_info)) (\<lambda>account.
     try_bind (swe_init_extension Account_base ImmutableOwner_ext True account) (\<lambda>(account, _, _).
     Ok (set_data st token_info (swe_buffer account)))))"

definition process_initialize_non_transferable_mint ::
  "token_env \<Rightarrow> store \<Rightarrow> account_info list \<Rightarrow> (program_error, store) result" where
  "process_initialize_non_transferable_mint E st accounts =
     try_bind (next_account_info accounts) (\<lambda>(mint_info, _).
     try_bind (swe_unpack_uninitialized E Mint_base (account_data st mint_info)) (\<lambda>mint.
     try_bind (swe_init_extension Mint_base NonTransferable_ext True mint) (\<lambda>(mint, _, _).
     Ok (set_data st mint_info (swe_buffer mint)))))"

section \<open>Default account states\<close>

definition check_valid_default_state :: "account_state \<Rightarrow> (program_error, unit) result" where
  "check_valid_default_state s = (case s of AS_Uninitialized \<Rightarrow> TErr TE_InvalidState | _ \<Rightarrow> Ok ())"

definition process_initialize_default_account_state ::
  "token_env \<Rightarrow> store \<Rightarrow> account_info list \<Rightarrow> account_state \<Rightarrow> (program_error, store) result" where
  "process_initialize_default_account_state E st accounts state =
     try_bind (check_valid_default_state state) (\<lambda>_.
     try_bind (next_account_info accounts) (\<lambda>(mint_info, _).
     try_bind (swe_unpack_uninitialized E Mint_base (account_data st mint_info)) (\<lambda>mint.
     try_bind (swe_init_extension Mint_base DefaultAccountState_ext True mint) (\<lambda>(mint, at, x).
     Ok (set_data st mint_info (swe_buffer
          (put_extension DefaultAccountState_ext at (x\<lparr>das_state := account_state_to_u8 state\<rparr>) mint)))))))"

definition process_update_default_account_state ::
  "token_env \<Rightarrow> store \<Rightarrow> pubkey \<Rightarrow> account_info list \<Rightarrow> account_state \<Rightarrow> (program_error, store) result" where
  "process_update_default_account_state E st program_id accounts state =
     try_bind (check_valid_default_state state) (\<lambda>_.
     try_bind (next_account_info accounts) (\<lambda>(mint_info, accounts).
     try_bind (next_account_info accounts) (\<lambda>(authority_info, signers).
     try_bind (swe_unpack E Mint_base (account_data st mint_info)) (\<lambda>mint.
     try_bind (ok_or (freeze_authority (base mint)) (into_program_error TE_NoAuthorityExists)) (\<lambda>authority.
     try_bind (validate_owner E [ai_cell mint_info] st program_id authority authority_info
         (data_len st authority_info) signers) (\<lambda>_.
     try_bind (swe_get_extension_mut Mint_base DefaultAccountState_ext mint) (\<lambda>(at, x).
     Ok (set_data st mint_info (swe_buffer
          (put_extension DefaultAccountState_ext at (x\<lparr>das_state := account_state_to_u8 state\<rparr>) mint))))))))))"

definition process_default_account_state_instruction ::
  "token_env \<Rightarrow> store \<Rightarrow> pubkey \<Rightarrow> account_info list \<Rightarrow> bytes \<Rightarrow> (program_error, store) result" where
  "process_default_account_state_instruction E st program_id accounts input =
     try_bind (check_program_account program_id) (\<lambda>_.
     try_bind (default_account_state_decode input) (\<lambda>(i, state). case i of
       DAS_Initialize \<Rightarrow> process_initialize_default_account_state E st accounts state
     | DAS_Update \<Rightarrow> process_update_default_account_state E st program_id accounts state))"

section \<open>Required memos\<close>

definition set_required_memo_transfers ::
  "token_env \<Rightarrow> store \<Rightarrow> pubkey \<Rightarrow> account_info list \<Rightarrow> bool \<Rightarrow> (program_error, store) result" where
  "set_required_memo_transfers E st program_id accounts required =
     try_bind (next_account_info accounts) (\<lambda>(token_info, accounts).
     try_bind (next_account_info accounts) (\<lambda>(owner_info, signers).
     try_bind (swe_unpack E Account_base (account_data st token_info)) (\<lambda>account.
     try_bind (validate_owner E [ai_cell token_info] st program_id (acc_owner (base account)) owner_info
         (data_len st owner_info) signers) (\<lambda>_.
     try_bind (attempt (swe_get_extension_mut Account_base MemoTransfer_ext account)) (\<lambda>r.
     try_bind (case r of
         Inr (at, x) \<Rightarrow> Ok (account, at, x)
       | Inl _ \<Rightarrow> swe_init_extension Account_base MemoTransfer_ext True account) (\<lambda>(account, at, x).
     Ok (set_data st token_info (swe_buffer (put_extension MemoTransfer_ext at
          (x\<lparr>require_incoming_transfer_memos := pod_bool_from required\<rparr>) account)))))))))"

definition process_enable_required_memo_transfers where
  "process_enable_required_memo_transfers E st program_id accounts =
     set_required_memo_transfers E st program_id accounts True"

definition process_disable_required_memo_transfers where
  "process_disable_required_memo_transfers E st program_id accounts =
     set_required_memo_transfers E st program_id accounts False"

definition process_memo_transfer_instruction ::
  "token_env \<Rightarrow> store \<Rightarrow> pubkey \<Rightarrow> account_info list \<Rightarrow> bytes \<Rightarrow> (program_error, store) result" where
  "process_memo_transfer_instruction E st program_id accounts input =
     try_bind (check_program_account program_id) (\<lambda>_.
     try_bind (decode_instruction_type memo_transfers_instruction_try_from input) (\<lambda>i. case i of
       MTI_Enable \<Rightarrow> process_enable_required_memo_transfers E st program_id accounts
     | MTI_Disable \<Rightarrow> process_disable_required_memo_transfers E st program_id accounts))"

section \<open>Interest-bearing mints\<close>

definition process_interest_initialize ::
  "token_env \<Rightarrow> store \<Rightarrow> account_info list \<Rightarrow> pubkey \<Rightarrow> i16 \<Rightarrow> (program_error, store) result" where
  "process_interest_initialize E st accounts authority rate =
     try_bind (next_account_info accounts) (\<lambda>(mint_info, _).
     try_bind (swe_unpack_uninitialized E Mint_base (account_data st mint_info)) (\<lambda>mint.
     try_bind (env_clock_get E) (\<lambda>clock.
     try_bind (swe_init_extension Mint_base InterestBearingConfig_ext True mint) (\<lambda>(mint, at, x).
     Ok (set_data st mint_info (swe_buffer (put_extension InterestBearingConfig_ext at
          (x\<lparr>rate_authority := authority, initialization_timestamp := clk_unix_timestamp clock,
             last_update_timestamp := clk_unix_timestamp clock, pre_update_average_rate := rate,
             current_rate := rate\<rparr>) mint)))))))"

definition process_interest_update_rate ::
  "token_env \<Rightarrow> store \<Rightarrow> pubkey \<Rightarrow> account_info list \<Rightarrow> i16 \<Rightarrow> (program_error, store) result" where
  "process_interest_update_rate E st program_id accounts new_rate =
     try_bind (next_account_info accounts) (\<lambda>(mint_info, accounts).
     try_bind (next_account_info accounts) (\<lambda>(owner_info, signers).
     try_bind (swe_unpack E Mint_base (account_data st mint_info)) (\<lambda>mint.
     try_bind (swe_get_extension_mut Mint_base InterestBearingConfig_ext mint) (\<lambda>(at, x).
     try_bind (ok_or (optional_key_get (rate_authority x)) (into_program_error TE_NoAuthorityExists))
       (\<lambda>authority.
     try_bind (validate_owner E [ai_cell mint_info] st program_id authority owner_info
         (data_len st owner_info) signers) (\<lambda>_.
     try_bind (env_clock_get E) (\<lambda>clock.
     try_bind (overflow_or (time_weighted_average_rate x (clk_unix_timestamp clock))) (\<lambda>average.
     Ok (set_data st mint_info (swe_buffer (put_extension InterestBearingConfig_ext at
          (x\<lparr>pre_update_average_rate := average, last_update_timestamp := clk_unix_timestamp clock,
             current_rate := new_rate\<rparr>) mint)))))))))))"

definition process_interest_bearing_instruction ::
  "token_env \<Rightarrow> store \<Rightarrow> pubkey \<Rightarrow> account_info list \<Rightarrow> bytes \<Rightarrow> (program_error, store) result" where
  "process_interest_bearing_instruction E st program_id accounts input =
     try_bind (check_program_account program_id) (\<lambda>_.
     try_bind (decode_instruction_type interest_bearing_mint_instruction_try_from input) (\<lambda>i. case i of
       IBI_Initialize \<Rightarrow>
         try_bind (decode_instruction_data interest_initialize_data_pod input) (\<lambda>d.
         process_interest_initialize E st accounts (iid_rate_authority d) (iid_rate d))
     | IBI_UpdateRate \<Rightarrow>
         try_bind (decode_instruction_data pod_u16 input) (\<lambda>new_rate.
         process_interest_update_rate E st program_id accounts new_rate)))"

section \<open>Reallocation\<close>

definition process_reallocate ::
  "token_env \<Rightarrow> store \<Rightarrow> pubkey \<Rightarrow> account_info list \<Rightarrow> extension_type list \<Rightarrow>
   (program_error, store) result" where
  "process_reallocate E st program_id accounts new_extension_types =
     try_bind (next_account_info accounts) (\<lambda>(token_info, accounts).
     try_bind (next_account_info accounts) (\<lambda>(payer_info, accounts).
     try_bind (next_account_info accounts) (\<lambda>(system_program_info, accounts).
     try_bind (next_account_info accounts) (\<lambda>(authority_info, signers).
     try_bind (se_unpack E Account_base (account_data st token_info)) (\<lambda>account.
     try_bind (validate_owner E [] st program_id (acc_owner (se_base account)) authority_info
         (data_len st authority_info) signers) (\<lambda>_.
     try_bind (se_get_extension_types account) (\<lambda>current_extension_types.
     if \<exists>t \<in> set new_extension_types. get_account_type t \<noteq> AT_Account then TErr TE_InvalidState
     else
       let needed = get_account_len Account_base (current_extension_types @ new_extension_types) in
       if needed \<le> data_len st token_info then Ok st
       else
         try_bind (env_realloc E (account_data st token_info) needed) (\<lambda>bs.
         let st = set_data st token_info bs in
         try_bind (env_rent_get E) (\<lambda>rent.
         let lamports_diff = saturating_sub (minimum_balance rent needed) (lamports st token_info) in
         try_bind (env_invoke_transfer E payer_info token_info lamports_diff st) (\<lambda>st.
         try_bind (set_account_type Account_base (account_data st token_info)) (\<lambda>bs.
         Ok (set_data st token_info bs))))))))))))"

end
