(* ===== verification/TokenFees.thy ===== *)
theory TokenFees
  imports TokenTransfer TokenInstruction
begin

text \<open>
  The transfer-fee processor (\<open>extension/transfer_fee/processor.rs\<close>): configuring the
  fee, and the ways withheld fees leave the accounts that hold them. The two harvest
  loops skip an account that cannot be harvested and go on.
\<close>

section \<open>Configuration\<close>

definition process_initialize_transfer_fee_config ::
  "token_env \<Rightarrow> store \<Rightarrow> account_info list \<Rightarrow> pubkey option \<Rightarrow> pubkey option \<Rightarrow> u16 \<Rightarrow> u64 \<Rightarrow>
   (program_error, store) result" where
  "process_initialize_transfer_fee_config E st accounts config_authority withdraw_authority
     basis_points max_fee =
     try_bind (next_account_info accounts) (\<lambda>(mint_info, _).
     try_bind (swe_unpack_uninitialized E Mint_base (account_data st mint_info)) (\<lambda>mint.
     try_bind (swe_init_extension Mint_base TransferFeeConfig_ext True mint) (\<lambda>(mint, at, x).
     try_bind (optional_key_try_from config_authority) (\<lambda>config_key.
     try_bind (optional_key_try_from withdraw_authority) (\<lambda>withdraw_key.
     if basis_points > MAX_FEE_BASIS_POINTS then TErr TE_TransferFeeExceedsMaximum
     else
       try_bind (env_clock_get E) (\<lambda>clock.
       let fee = \<lparr>fee_epoch = clk_epoch clock, maximum_fee = max_fee,
             transfer_fee_basis_points = basis_points\<rparr> in
       Ok (set_data st mint_info (swe_buffer (put_extension TransferFeeConfig_ext at
            (x\<lparr>transfer_fee_config_authority := config_key, withdraw_withheld_authority := withdraw_key,
               cfg_withheld_amount := 0, older_transfer_fee := fee, newer_transfer_fee := fee\<rparr>) mint)))))))))"

text \<open>The new schedule: the fee in force stays in force, the new one starts two epochs ahead.\<close>

definition schedule_fee :: "u64 \<Rightarrow> u16 \<Rightarrow> u64 \<Rightarrow> transfer_fee_config \<Rightarrow> transfer_fee_config" where
  "schedule_fee epoch basis_points max_fee c =
     (let c = (if fee_epoch (newer_transfer_fee c) \<le> epoch
           then c\<lparr>older_transfer_fee := newer_transfer_fee c\<rparr> else c) in
      c\<lparr>newer_transfer_fee := \<lparr>fee_epoch = saturating_add epoch 2, maximum_fee = max_fee,
          transfer_fee_basis_points = basis_points\<rparr>\<rparr>)"

definition process_set_transfer_fee ::
  "token_env \<Rightarrow> store \<Rightarrow> pubkey \<Rightarrow> account_info list \<Rightarrow> u16 \<Rightarrow> u64 \<Rightarrow> (program_error, store) result" where
  "process_set_transfer_fee E st program_id accounts basis_points max_fee =
     try_bind (next_account_info accounts) (\<lambda>(mint_info, accounts).
     try_bind (next_account_info accounts) (\<lambda>(authority_info, signers).
     try_bind (swe_unpack E Mint_base (account_data st mint_info)) (\<lambda>mint.
     try_bind (swe_get_extension_mut Mint_base TransferFeeConfig_ext mint) (\<lambda>(at, x).
     try_bind (ok_or (optional_key_get (transfer_fee_config_authority x))
         (into_program_error TE_NoAuthorityExists)) (\<lambda>authority.
     try_bind (validate_owner E [ai_cell mint_info] st program_id authority authority_info
         (data_len st authority_info) signers) (\<lambda>_.
     if basis_points > MAX_FEE_BASIS_POINTS then TErr TE_TransferFeeExceedsMaximum
     else
       try_bind (env_clock_get E) (\<lambda>clock.
       Ok (set_data st mint_info (swe_buffer (put_extension TransferFeeConfig_ext at
            (schedule_fee (clk_epoch clock) basis_points max_fee x) mint))))))))))"

section \<open>Withheld fees\<close>

definition process_withdraw_withheld_tokens_from_mint ::
  "token_env \<Rightarrow> store \<Rightarrow> pubkey \<Rightarrow> account_info list \<Rightarrow> (program_error, store) result" where
  "process_withdraw_withheld_tokens_from_mint E st program_id accounts =
     try_bind (next_account_info accounts) (\<lambda>(mint_info, accounts).
     try_bind (next_account_info accounts) (\<lambda>(destination_info, accounts).
     try_bind (next_account_info accounts) (\<lambda>(authority_info, signers).
     let held = [ai_cell mint_info] in
     try_bind (swe_unpack E Mint_base (account_data st mint_info)) (\<lambda>mint.
     try_bind (swe_get_extension_mut Mint_base TransferFeeConfig_ext mint) (\<lambda>(at, x).
     try_bind (ok_or (optional_key_get (withdraw_withheld_authority x))
         (into_program_error TE_NoAuthorityExists)) (\<lambda>authority.
     try_bind (validate_owner E held st program_id authority authority_info
         (data_len st authority_info) signers) (\<lambda>_.
     try_bind (acquire held destination_info) (\<lambda>_.
     try_bind (swe_unpack E Account_base (account_data st destination_info)) (\<lambda>destination.
     if acc_mint (base destination) \<noteq> ai_key mint_info then TErr TE_MintMismatch
     else if is_frozen (base destination) then TErr TE_AccountFrozen
     else
       let mint = put_extension TransferFeeConfig_ext at (x\<lparr>cfg_withheld_amount := 0\<rparr>) mint in
       try_bind (overflow_or (checked_add (amount (base destination)) (cfg_withheld_amount x))) (\<lambda>n.
       Ok (write_back Account_base (set_data st mint_info (swe_buffer mint)) destination_info
            (destination\<lparr>base := (base destination)\<lparr>amount := n\<rparr>\<rparr>))))))))))))"

definition harvest_from_account ::
  "token_env \<Rightarrow> nat list \<Rightarrow> store \<Rightarrow> pubkey \<Rightarrow> account_info \<Rightarrow> (token_error, store \<times> u64) result" where
  "harvest_from_account E held st mint_key info =
     try_bind (acquire held info) (\<lambda>_.
     try_bind (map_err (\<lambda>_. TE_InvalidState) (swe_unpack E Account_base (account_data st info))) (\<lambda>account.
     if acc_mint (base account) \<noteq> mint_key then Fail TE_MintMismatch
     else
       try_bind (map_err (\<lambda>_. TE_InvalidState) (check_program_account (ai_owner info))) (\<lambda>_.
       try_bind (map_err (\<lambda>_. TE_InvalidState)
           (swe_get_extension_mut Account_base TransferFeeAmount_ext account)) (\<lambda>(at, x).
       Ok (set_data st info (swe_buffer
            (put_extension TransferFeeAmount_ext at (x\<lparr>withheld_amount := 0\<rparr>) account)),
           withheld_amount x)))))"

text \<open>The loop of \<open>process_harvest_withheld_tokens_to_mint\<close>, with the mint's withheld amount.\<close>

fun harvest_to_mint ::
  "token_env \<Rightarrow> nat list \<Rightarrow> pubkey \<Rightarrow> account_info list \<Rightarrow> store \<Rightarrow> u64 \<Rightarrow>
   (program_error, store \<times> u64) result" where
  "harvest_to_mint E held mint_key [] st n = Ok (st, n)"
| "harvest_to_mint E held mint_key (info # infos) st n =
     try_bind (attempt (harvest_from_account E held st mint_key info)) (\<lambda>r. case r of
       Inr (st, amt) \<Rightarrow>
         try_bind (overflow_or (checked_add n amt)) (\<lambda>n. harvest_to_mint E held mint_key infos st n)
     | Inl _ \<Rightarrow> harvest_to_mint E held mint_key infos st n)"

definition process_harvest_withheld_tokens_to_mint ::
  "token_env \<Rightarrow> store \<Rightarrow> account_info list \<Rightarrow> (program_error, store) result" where
  "process_harvest_withheld_tokens_to_mint E st accounts =
     try_bind (next_account_info accounts) (\<lambda>(mint_info, token_infos).
     try_bind (swe_unpack E Mint_base (account_data st mint_info)) (\<lambda>mint.
     try_bind (swe_get_extension_mut Mint_base TransferFeeConfig_ext mint) (\<lambda>(at, x).
     try_bind (harvest_to_mint E [ai_cell mint_info] (ai_key mint_info) token_infos st
         (cfg_withheld_amount x)) (\<lambda>(st, n).
     Ok (set_data st mint_info (swe_buffer
          (put_extension TransferFeeConfig_ext at (x\<lparr>cfg_withheld_amount := n\<rparr>) mint)))))))"

text \<open>The loop of \<open>process_withdraw_withheld_tokens_from_accounts\<close>.\<close>

fun withdraw_from_accounts ::
  "token_env \<Rightarrow> nat list \<Rightarrow> pubkey \<Rightarrow> pubkey \<Rightarrow> account_info list \<Rightarrow> store \<Rightarrow>
   token_account state_with_extensions_mut \<Rightarrow>
   (program_error, store \<times> token_account state_with_extensions_mut) result" where
  "withdraw_from_accounts E held mint_key destination_key [] st destination = Ok (st, destination)"
| "withdraw_from_accounts E held mint_key destination_key (info # infos) st destination =
     (let credit = (\<lambda>amt destination.
            try_bind (overflow_or (checked_add (amount (base destination)) amt)) (\<lambda>n.
            Ok (destination\<lparr>base := (base destination)\<lparr>amount := n\<rparr>\<rparr>))) in
      if ai_key info = destination_key then
        try_bind (map_err (\<lambda>_. into_program_error TE_InvalidState)
            (swe_get_extension_mut Account_base TransferFeeAmount_ext destination)) (\<lambda>(at, x).
        try_bind (credit (withheld_amount x)
            (put_extension TransferFeeAmount_ext at (x\<lparr>withheld_amount := 0\<rparr>) destination)) (\<lambda>destination.
        withdraw_from_accounts E held mint_key destination_key infos st destination))
      else
        try_bind (attempt (harvest_from_account E held st mint_key info)) (\<lambda>r. case r of
          Inr (st, amt) \<Rightarrow>
            try_bind (credit amt destination) (\<lambda>destination.
            withdraw_from_accounts E held mint_key destination_key infos st destination)
        | Inl _ \<Rightarrow> withdraw_from_accounts E held mint_key destination_key infos st destination))"

definition process_withdraw_withheld_tokens_from_accounts ::
  "token_env \<Rightarrow> store \<Rightarrow> pubkey \<Rightarrow> account_info list \<Rightarrow> u8 \<Rightarrow> (program_error, store) result" where
  "process_withdraw_withheld_tokens_from_accounts E st program_id accounts num_token_accounts =
     try_bind (next_account_info accounts) (\<lambda>(mint_info, accounts).
     try_bind (next_account_info accounts) (\<lambda>(destination_info, accounts).
     try_bind (next_account_info accounts) (\<lambda>(authority_info, account_infos).
     let num_signers = length account_infos - unat num_token_accounts in
     try_bind (se_unpack E Mint_base (account_data st mint_info)) (\<lambda>mint.
     try_bind (se_get_extension Mint_base TransferFeeConfig_ext mint) (\<lambda>x.
     try_bind (ok_or (optional_key_get (withdraw_withheld_authority x))
         (into_program_error TE_NoAuthorityExists)) (\<lambda>authority.
     try_bind (validate_owner E [] st program_id authority authority_info
         (data_len st authority_info) (take num_signers account_infos)) (\<lambda>_.
     try_bind (acquire [ai_cell mint_info] destination_info) (\<lambda>_.
     try_bind (swe_unpack E Account_base (account_data st destination_info)) (\<lambda>destination.
     if acc_mint (base destination) \<noteq> ai_key mint_info then TErr TE_MintMismatch
     else if is_frozen (base destination) then TErr TE_AccountFrozen
     else
       try_bind (withdraw_from_accounts E [ai_cell mint_info, ai_cell destination_info]
           (ai_key mint_info) (ai_key destination_info) (drop num_signers account_infos) st destination)
         (\<lambda>(st, destination).
       Ok (write_back Account_base st destination_info destination)))))))))))"

definition process_transfer_fee_instruction ::
  "token_env \<Rightarrow> store \<Rightarrow> pubkey \<Rightarrow> account_info list \<Rightarrow> transfer_fee_instruction \<Rightarrow>
   (program_error, store) result" where
  "process_transfer_fee_instruction E st program_id accounts instruction =
     try_bind (check_program_account program_id) (\<lambda>_. case instruction of
       TFI_InitializeTransferFeeConfig c w bp m \<Rightarrow>
         process_initialize_transfer_fee_config E st accounts c w bp m
     | TFI_TransferCheckedWithFee amt d fee \<Rightarrow>
         process_transfer E st program_id accounts amt (Some d) (Some fee)
     | TFI_WithdrawWithheldTokensFromMint \<Rightarrow>
         process_withdraw_withheld_tokens_from_mint E st program_id accounts
     | TFI_WithdrawWithheldTokensFromAccounts n \<Rightarrow>
         process_withdraw_withheld_tokens_from_accounts E st program_id accounts n
     | TFI_HarvestWithheldTokensToMint \<Rightarrow> process_harvest_withheld_tokens_to_mint E st accounts
     | TFI_SetTransferFee bp m \<Rightarrow> process_set_transfer_fee E st program_id accounts bp m)"

section \<open>The schedule\<close>

text \<open>Setting a fee leaves the fee of the current and the next epoch as it was.\<close>

lemma schedule_fee_current:
  assumes "unat epoch + 2 < 2 ^ 64" "unat e \<le> unat epoch + 1"
    and "fee_epoch (newer_transfer_fee c) \<le> epoch \<or> e = epoch"
  shows "get_epoch_fee (schedule_fee epoch bp m c) e =
    (if epoch < fee_epoch (newer_transfer_fee c) then older_transfer_fee c else newer_transfer_fee c)"
proof -
  have "unat (saturating_add epoch 2) = unat epoch + 2"
    using assms(1) by (simp add: unat_saturating_add)
  then have "\<not> saturating_add epoch 2 \<le> e"
    using assms(2) by (simp add: word_le_nat_alt)
  then show ?thesis
    by (auto simp: schedule_fee_def get_epoch_fee_def Let_def)
qed


section \<open>Configurations as views\<close>

text \<open>The transfer-fee configuration of a mint.\<close>

definition fee_config :: "token_env \<Rightarrow> store \<Rightarrow> account_info \<Rightarrow> transfer_fee_config option" where
  "fee_config E st a = (case mint_view E st a of
      Some m \<Rightarrow> (case swe_get_extension_mut Mint_base TransferFeeConfig_ext m of
          Inr (_, x) \<Rightarrow> Some x | Inl _ \<Rightarrow> None)
    | None \<Rightarrow> None)"

lemma fee_config_Some:
  "fee_config E st a = Some x \<longleftrightarrow>
   (\<exists>m at. mint_view E st a = Some m \<and> swe_get_extension_mut Mint_base TransferFeeConfig_ext m = Ok (at, x))"
  by (auto simp: fee_config_def split: option.splits sum.splits)

lemma fee_config_written:
  assumes "pack_ok E" "mint_view E st a = Some m"
    and "swe_get_extension_mut Mint_base TransferFeeConfig_ext m = Ok (at, x)"
    and "account_data st' a = swe_buffer (put_extension TransferFeeConfig_ext at y m)"
  shows "fee_config E st' a = Some y"
  using extension_written(2) [OF assms(1) transfer_fee_config_ext.extension_impl_axioms assms(2,3)]
    transfer_fee_config_ext.put_get [OF assms(3)] assms(4)
  by (auto simp: fee_config_Some mint_view_Some)

text \<open>The withheld fees of the account in a cell.\<close>

definition withheld_in :: "token_env \<Rightarrow> store \<Rightarrow> nat \<Rightarrow> nat" where
  "withheld_in E st c = (case swe_unpack E Account_base (cell_data (st c)) of
      Inr s \<Rightarrow> withheld s | Inl _ \<Rightarrow> 0)"

text \<open>A harvested account's withheld fees are what the harvest returns.\<close>

lemma harvest_from_account_Ok:
  assumes "pack_ok E" "harvest_from_account E held st mint_key info = Ok (st', n)"
  shows "ai_cell info \<notin> set held" "withheld_in E st' (ai_cell info) = 0"
    "withheld_in E st (ai_cell info) = unat n" "c \<noteq> ai_cell info \<Longrightarrow> st' c = st c"
proof -
  from assms(2) obtain s at x where v: "token_view E st info = Some s"
    and get: "swe_get_extension_mut Account_base TransferFeeAmount_ext s = Ok (at, x)"
    and n: "n = withheld_amount x" and held: "ai_cell info \<notin> set held"
    and st': "st' = set_data st info (swe_buffer
        (put_extension TransferFeeAmount_ext at (x\<lparr>withheld_amount := 0\<rparr>) s))"
    by (auto simp: harvest_from_account_def ok_simps token_view_Some)
  note w = extension_written(1) [OF assms(1) transfer_fee_amount_ext.extension_impl_axioms v get]
  show "ai_cell info \<notin> set held" by (rule held)
  show "withheld_in E st' (ai_cell info) = 0"
    using w transfer_fee_amount_ext.put_get [OF get]
    by (simp add: withheld_in_def st' set_data_def withheld_def)
  show "withheld_in E st (ai_cell info) = unat n"
    using v get by (simp add: withheld_in_def token_view_Some account_data_def withheld_def n)
  show "c \<noteq> ai_cell info \<Longrightarrow> st' c = st c" by (simp add: st')
qed

lemma sum_cell_update:
  fixes f g :: "nat \<Rightarrow> nat"
  assumes "finite A" "a \<in> A" "g a = 0" "\<And>c. c \<noteq> a \<Longrightarrow> g c = f c"
  shows "sum f A = sum g A + f a"
  using assms by (simp add: sum.remove [of A a])

lemma withheld_in_cong: "st' c = st c \<Longrightarrow> withheld_in E st' c = withheld_in E st c"
  by (simp add: withheld_in_def)

lemma harvest_to_mint_Ok:
  assumes "pack_ok E" "harvest_to_mint E held mint_key infos st n = Ok (st', n')"
    and "finite A" "ai_cell ` set infos \<subseteq> A"
  shows "unat n' + sum (withheld_in E st') A = unat n + sum (withheld_in E st) A \<and>
    (\<forall>c. c \<notin> ai_cell ` set infos \<longrightarrow> st' c = st c) \<and> (\<forall>c \<in> set held. st' c = st c)"
  using assms(2,4)
proof (induction infos arbitrary: st n)
  case (Cons info infos)
  let ?h = "harvest_from_account E held st mint_key info"
  from Cons.prems(1) consider (skip) e where "?h = Fail e" "harvest_to_mint E held mint_key infos st n = Ok (st', n')"
    | (take) st1 amt m where "?h = Ok (st1, amt)" "unat m = unat n + unat amt"
        "harvest_to_mint E held mint_key infos st1 m = Ok (st', n')"
    unfolding harvest_to_mint.simps attempt_case_eq_Ok by (auto simp: ok_simps)
  then show ?case
  proof cases
    case skip
    have "ai_cell ` set infos \<subseteq> A" using Cons.prems(2) by simp
    from Cons.IH [OF skip(2) this] show ?thesis by simp
  next
    case take
    note h = harvest_from_account_Ok [OF assms(1) take(1)]
    have "withheld_in E st1 c = withheld_in E st c" if "c \<noteq> ai_cell info" for c
      by (rule withheld_in_cong, rule h(4), rule that)
    then have "sum (withheld_in E st) A = sum (withheld_in E st1) A + withheld_in E st (ai_cell info)"
      using Cons.prems(2) by (intro sum_cell_update) (use assms(3) h(2) in simp_all)
    then have "sum (withheld_in E st) A = sum (withheld_in E st1) A + unat amt"
      by (simp only: h(3))
    moreover have "\<forall>c \<in> set held. st1 c = st c" using h by metis
    moreover have "ai_cell ` set infos \<subseteq> A" using Cons.prems(2) by simp
    ultimately show ?thesis
      using Cons.IH [OF take(3)] take(2) h(4) by simp
  qed
qed simp

end
