(* ===== verification/TokenUi.thy ===== *)
theory TokenUi
  imports TokenTransfer
begin

text \<open>
  Amounts as decimal strings (\<open>spl_token_2022/mod.rs\<close>: \<open>amount_to_ui_amount_string\<close>,
  \<open>amount_to_ui_amount_string_trimmed\<close>, \<open>try_ui_amount_into_amount\<close>) and the two
  instructions that convert them (\<open>processor.rs\<close>). Strings are their bytes. The standard
  library's decimal formatting, \<open>split\<close>, \<open>trim_end_matches\<close> and \<open>str::parse::<u64>\<close>
  are modelled, the leading plus sign that \<open>parse\<close> accepts included. Parsing what was
  printed gives the amount back.
\<close>

section \<open>Decimal strings\<close>

abbreviation char_zero :: byte where "char_zero \<equiv> 48"
abbreviation char_dot :: byte where "char_dot \<equiv> 46"
abbreviation char_plus :: byte where "char_plus \<equiv> 43"
abbreviation char_minus :: byte where "char_minus \<equiv> 45"

definition digit_byte :: "nat \<Rightarrow> byte" where
  "digit_byte k = word_of_nat (48 + k)"

definition digit_value :: "byte \<Rightarrow> nat" where
  "digit_value b = unat b - 48"

fun decimal :: "nat \<Rightarrow> bytes" where
  "decimal n = (if n < 10 then [digit_byte n]
     else decimal (n div 10) @ [digit_byte (n mod 10)])"

declare decimal.simps [simp del]

definition zero_padded :: "nat \<Rightarrow> nat \<Rightarrow> bytes" where
  "zero_padded width n = replicate (width - length (decimal n)) char_zero @ decimal n"

definition trim_end_matches :: "byte \<Rightarrow> bytes \<Rightarrow> bytes" where
  "trim_end_matches c s = rev (dropWhile (\<lambda>b. b = c) (rev s))"

fun split_on :: "byte \<Rightarrow> bytes \<Rightarrow> bytes list" where
  "split_on c [] = [[]]"
| "split_on c (b # bs) =
     (if b = c then [] # split_on c bs
      else (case split_on c bs of p # ps \<Rightarrow> (b # p) # ps | [] \<Rightarrow> [[b]]))"

fun parse_digits :: "u64 \<Rightarrow> bytes \<Rightarrow> u64 option" where
  "parse_digits acc [] = Some acc"
| "parse_digits acc (b # bs) =
     (if 48 \<le> unat b \<and> unat b \<le> 57 then
        Option.bind (checked_mul acc 10) (\<lambda>x.
        Option.bind (checked_add x (word_of_nat (digit_value b))) (\<lambda>acc. parse_digits acc bs))
      else None)"

definition parse_u64 :: "bytes \<Rightarrow> u64 option" where
  "parse_u64 s =
     (if s = [] \<or> s = [char_plus] \<or> s = [char_minus] then None
      else parse_digits 0 (if hd s = char_plus then tl s else s))"

definition amount_to_ui_amount_string :: "u64 \<Rightarrow> u8 \<Rightarrow> bytes" where
  "amount_to_ui_amount_string amt dec =
     (let d = unat dec in
      if d > 0 then
        let s = zero_padded (d + 1) (unat amt); k = length s - d in
        take k s @ [char_dot] @ drop k s
      else decimal (unat amt))"

definition amount_to_ui_amount_string_trimmed :: "u64 \<Rightarrow> u8 \<Rightarrow> bytes" where
  "amount_to_ui_amount_string_trimmed amt dec =
     (let s = amount_to_ui_amount_string amt dec in
      if dec > 0 then trim_end_matches char_dot (trim_end_matches char_zero s) else s)"

definition try_ui_amount_into_amount :: "bytes \<Rightarrow> u8 \<Rightarrow> (program_error, u64) result" where
  "try_ui_amount_into_amount ui_amount dec =
     (let d = unat dec;
          parts = split_on char_dot ui_amount;
          amount_str = hd parts;
          after_decimal = trim_end_matches char_zero (case tl parts of p # _ \<Rightarrow> p | [] \<Rightarrow> []) in
      if amount_str = [] \<and> after_decimal = [] \<or> length parts > 2 \<or> length after_decimal > d
      then Fail PE_InvalidArgument
      else ok_or (parse_u64 (amount_str @ after_decimal @
             replicate (d - length after_decimal) char_zero)) PE_InvalidArgument)"

section \<open>Instructions\<close>

definition unpack_ui_mint ::
  "token_env \<Rightarrow> store \<Rightarrow> account_info list \<Rightarrow> (program_error, mint state_with_extensions) result" where
  "unpack_ui_mint E st accounts =
     try_bind (next_account_info accounts) (\<lambda>(mint_info, _).
     try_bind (check_program_account (ai_owner mint_info)) (\<lambda>_.
     map_err (\<lambda>_. into_program_error TE_InvalidMint)
       (se_unpack E Mint_base (account_data st mint_info))))"

definition process_amount_to_ui_amount ::
  "token_env \<Rightarrow> store \<Rightarrow> account_info list \<Rightarrow> u64 \<Rightarrow> (program_error, bytes) result" where
  "process_amount_to_ui_amount E st accounts amt =
     try_bind (unpack_ui_mint E st accounts) (\<lambda>mint.
     try_bind (attempt (se_get_extension Mint_base InterestBearingConfig_ext mint)) (\<lambda>r. case r of
       Inr x \<Rightarrow>
         try_bind (env_clock_get E) (\<lambda>clock.
         ok_or (env_interest_to_ui E (pod_bytes_of interest_bearing_config_pod x) amt
           (decimals (se_base mint)) (clk_unix_timestamp clock)) PE_InvalidArgument)
     | Inl _ \<Rightarrow> Ok (amount_to_ui_amount_string_trimmed amt (decimals (se_base mint)))))"

definition process_ui_amount_to_amount ::
  "token_env \<Rightarrow> store \<Rightarrow> account_info list \<Rightarrow> bytes \<Rightarrow> (program_error, bytes) result" where
  "process_ui_amount_to_amount E st accounts ui_amount =
     try_bind (unpack_ui_mint E st accounts) (\<lambda>mint.
     try_bind (attempt (se_get_extension Mint_base InterestBearingConfig_ext mint)) (\<lambda>r.
     try_bind (case r of
         Inr x \<Rightarrow>
           try_bind (env_clock_get E) (\<lambda>clock.
           env_interest_from_ui E (pod_bytes_of interest_bearing_config_pod x) ui_amount
             (decimals (se_base mint)) (clk_unix_timestamp clock))
       | Inl _ \<Rightarrow> try_ui_amount_into_amount ui_amount (decimals (se_base mint))) (\<lambda>amt.
     Ok (to_le_bytes amt))))"

section \<open>Digits\<close>

definition is_digit :: "byte \<Rightarrow> bool" where
  "is_digit b \<longleftrightarrow> 48 \<le> unat b \<and> unat b \<le> 57"

definition value_from :: "nat \<Rightarrow> bytes \<Rightarrow> nat" where
  "value_from acc bs = foldl (\<lambda>v b. v * 10 + digit_value b) acc bs"

lemma value_from_simps [simp]:
  "value_from acc [] = acc"
  "value_from acc (b # bs) = value_from (acc * 10 + digit_value b) bs"
  "value_from acc (xs @ ys) = value_from (value_from acc xs) ys"
  by (simp_all add: value_from_def)

lemma value_from_ge: "acc \<le> value_from acc bs"
proof (induction bs arbitrary: acc)
  case (Cons b bs)
  show ?case using Cons [of "acc * 10 + digit_value b"] by simp
qed simp

lemma digit_char: "n < 10 \<Longrightarrow> unat (digit_byte n) = 48 + n"
  unfolding digit_byte_def by (subst unat_of_nat) simp

lemma digit_value_byte [simp]: "n < 10 \<Longrightarrow> digit_value (digit_byte n) = n"
  by (simp add: digit_value_def digit_char)

lemma decimal_digits: "\<forall>b \<in> set (decimal n). is_digit b"
proof (induction n rule: decimal.induct)
  case (1 n)
  show ?case
  proof (cases "n < 10")
    case True
    then show ?thesis by (simp add: decimal.simps [of n] is_digit_def digit_char)
  next
    case False
    have "n mod 10 < 10" by simp
    with 1 False show ?thesis
      by (simp add: decimal.simps [of n] is_digit_def digit_char del: mod_less_divisor)
  qed
qed

lemma value_decimal: "value_from 0 (decimal n) = n"
proof (induction n rule: decimal.induct)
  case (1 n)
  show ?case
  proof (cases "n < 10")
    case True
    then show ?thesis by (simp add: decimal.simps [of n] digit_char)
  next
    case False
    have "n mod 10 < 10" by simp
    with 1 False show ?thesis
      by (simp add: decimal.simps [of n] digit_char del: mod_less_divisor)
  qed
qed

lemma decimal_ne [simp]: "decimal n \<noteq> []"
  by (subst decimal.simps) simp

lemma digit_value_zero [simp]: "digit_value char_zero = 0"
  by (simp add: digit_value_def)

lemma value_zeros: "value_from 0 (replicate n char_zero @ bs) = value_from 0 bs"
  by (induction n) simp_all

lemma parse_digits_value:
  "\<forall>b \<in> set bs. is_digit b \<Longrightarrow> value_from (unat acc) bs < 2 ^ 64 \<Longrightarrow>
   parse_digits acc bs = Some (word_of_nat (value_from (unat acc) bs))"
proof (induction bs arbitrary: acc)
  case (Cons b bs)
  let ?d = "digit_value b"
  have d: "is_digit b" using Cons.prems(1) by simp
  have lt: "unat acc * 10 + ?d < 2 ^ 64"
    using Cons.prems(2) value_from_ge [of "unat acc * 10 + ?d" bs] by simp
  have dw: "unat (word_of_nat ?d :: u64) = ?d"
    using d by (subst unat_of_nat) (auto simp: is_digit_def digit_value_def intro!: mod_less)
  have m: "checked_mul acc 10 = Some (acc * 10)" "unat (acc * 10) = unat acc * 10"
    using lt by (simp_all add: checked_mul_def unat_word_ariths)
  have a: "checked_add (acc * 10) (word_of_nat ?d) = Some (acc * 10 + word_of_nat ?d)"
    "unat (acc * 10 + word_of_nat ?d) = unat acc * 10 + ?d"
    using lt by (simp_all add: checked_add_def m(2) dw unat_word_ariths)
  show ?case
    using Cons.IH [of "acc * 10 + word_of_nat ?d"] Cons.prems d
    by (simp add: m a is_digit_def)
qed simp

lemma parse_u64_value:
  assumes "\<forall>b \<in> set bs. is_digit b" "bs \<noteq> []" "value_from 0 bs < 2 ^ 64"
  shows "parse_u64 bs = Some (word_of_nat (value_from 0 bs))"
proof -
  have "b \<noteq> char_plus \<and> b \<noteq> char_minus" if "b \<in> set bs" for b
    using assms(1) that by (auto simp: is_digit_def)
  then have "\<not> (bs = [] \<or> bs = [char_plus] \<or> bs = [char_minus])" "hd bs \<noteq> char_plus"
    using assms(2) by auto
  then show ?thesis
    using parse_digits_value [of bs 0] assms(1,3) by (simp add: parse_u64_def)
qed

section \<open>Splitting and trimming\<close>

lemma digit_no_dot: "\<forall>b \<in> set bs. is_digit b \<Longrightarrow> char_dot \<notin> set bs"
  by (auto simp: is_digit_def)

lemma split_on_none: "c \<notin> set s \<Longrightarrow> split_on c s = [s]"
  by (induction s) auto

lemma split_on_one: "c \<notin> set a \<Longrightarrow> c \<notin> set b \<Longrightarrow> split_on c (a @ c # b) = [a, b]"
  by (induction a) (auto simp: split_on_none)

lemma trim_end_decomp: "\<exists>n. s = trim_end_matches c s @ replicate n c"
proof -
  have "takeWhile (\<lambda>b. b = c) (rev s) = replicate (length (takeWhile (\<lambda>b. b = c) (rev s))) c"
    by (intro replicate_eqI) (auto dest: set_takeWhileD)
  then have "rev s = replicate (length (takeWhile (\<lambda>b. b = c) (rev s))) c @ dropWhile (\<lambda>b. b = c) (rev s)"
    by (metis takeWhile_dropWhile_id)
  then have "s = rev (dropWhile (\<lambda>b. b = c) (rev s)) @ replicate (length (takeWhile (\<lambda>b. b = c) (rev s))) c"
    by (metis rev_append rev_replicate rev_rev_ident)
  then show ?thesis by (auto simp: trim_end_matches_def)
qed

lemma trim_end_idem: "trim_end_matches c (trim_end_matches c s) = trim_end_matches c s"
  by (simp add: trim_end_matches_def)

lemma trim_end_append:
  "trim_end_matches c (a @ b) = (if \<forall>x \<in> set b. x = c then trim_end_matches c a
     else a @ trim_end_matches c b)"
  by (auto simp: trim_end_matches_def dropWhile_append)

lemma trim_end_last: "a \<noteq> [] \<Longrightarrow> last a \<noteq> c \<Longrightarrow> trim_end_matches c a = a"
  by (cases a rule: rev_cases) (simp_all add: trim_end_matches_def)

lemma trim_end_last_ne: "trim_end_matches c a \<noteq> [] \<Longrightarrow> last (trim_end_matches c a) \<noteq> c"
  using hd_dropWhile [of "\<lambda>b. b = c" "rev a"]
  by (simp add: trim_end_matches_def last_rev)


section \<open>Printing and parsing\<close>

text \<open>A number split at a point that leaves digits on both sides parses to its digits.\<close>

lemma try_ui_amount_digits:
  assumes "\<forall>b \<in> set ds. is_digit b" "ds \<noteq> []" "length frac = unat dec"
    and "ds = int_part @ frac" "int_part \<noteq> []" "value_from 0 ds < 2 ^ 64"
    and "ui = int_part @ char_dot # frac \<or> ui = int_part @ char_dot # trim_end_matches char_zero frac \<or>
      ui = int_part \<and> trim_end_matches char_zero frac = []"
  shows "try_ui_amount_into_amount ui dec = Ok (word_of_nat (value_from 0 ds))"
proof -
  obtain n where n: "frac = trim_end_matches char_zero frac @ replicate n char_zero"
    using trim_end_decomp by blast
  define t where "t = trim_end_matches char_zero frac"
  have len: "length t + n = unat dec" using n assms(3) unfolding t_def
    by (metis length_append length_replicate)
  have nd: "char_dot \<notin> set int_part" "char_dot \<notin> set frac"
    using digit_no_dot [OF assms(1)] by (auto simp: assms(4))
  then have "char_dot \<notin> set t" using n unfolding t_def by (metis UnCI set_append)
  with nd assms(7) have parts: "hd (split_on char_dot ui) = int_part"
    "length (split_on char_dot ui) \<le> 2"
    "trim_end_matches char_zero (case tl (split_on char_dot ui) of p # _ \<Rightarrow> p | [] \<Rightarrow> []) = t"
    by (auto simp: split_on_one split_on_none t_def [symmetric] trim_end_idem [of char_zero frac, folded t_def])
      (simp_all add: trim_end_matches_def t_def)
  have "int_part @ t @ replicate (unat dec - length t) char_zero = ds"
    using n len by (simp add: assms(4) t_def) (metis diff_add_inverse len t_def)
  then show ?thesis
    using parts assms(5) len parse_u64_value [OF assms(1,2,6)]
    by (simp add: try_ui_amount_into_amount_def Let_def)
qed

lemma zero_padded_facts:
  "\<forall>b \<in> set (zero_padded w n). is_digit b" "zero_padded w n \<noteq> []"
  "value_from 0 (zero_padded w n) = n" "w \<le> length (zero_padded w n)"
proof -
  show "\<forall>b \<in> set (zero_padded w n). is_digit b"
    using decimal_digits [of n] by (auto simp: zero_padded_def is_digit_def)
  show "zero_padded w n \<noteq> []" by (simp add: zero_padded_def)
  show "value_from 0 (zero_padded w n) = n"
    by (simp add: zero_padded_def value_zeros value_decimal del: value_from_simps(3))
  show "w \<le> length (zero_padded w n)" by (simp add: zero_padded_def)
qed

lemma ui_amount_round_trip:
  "try_ui_amount_into_amount (amount_to_ui_amount_string amt dec) dec = Ok amt"
  "try_ui_amount_into_amount (amount_to_ui_amount_string_trimmed amt dec) dec = Ok amt"
proof -
  have lt: "unat amt < 2 ^ 64" using unsigned_less [of amt] by simp
  have both: "try_ui_amount_into_amount (amount_to_ui_amount_string amt dec) dec = Ok amt \<and>
      try_ui_amount_into_amount (amount_to_ui_amount_string_trimmed amt dec) dec = Ok amt"
  proof (cases "dec = 0")
    case True
    have "try_ui_amount_into_amount (decimal (unat amt)) dec = Ok (word_of_nat (value_from 0 (decimal (unat amt))))"
      using decimal_digits [of "unat amt"] lt True
      by (intro try_ui_amount_digits [where frac = "[]" and int_part = "decimal (unat amt)"])
        (simp_all add: value_decimal trim_end_matches_def)
    then show ?thesis
      using True by (simp add: amount_to_ui_amount_string_def amount_to_ui_amount_string_trimmed_def
          Let_def value_decimal)
  next
    case False
    then have pos: "0 < unat dec" "0 < dec" by (simp_all add: unat_gt_0 word_gt_0)
    let ?s = "zero_padded (unat dec + 1) (unat amt)"
    define k where "k = length ?s - unat dec"
    note z = zero_padded_facts [where w = "unat dec + 1" and n = "unat amt"]
    have k: "0 < k" "k < length ?s + 1" "length (drop k ?s) = unat dec" using z(4) by (auto simp: k_def)
    have full: "amount_to_ui_amount_string amt dec = take k ?s @ char_dot # drop k ?s"
      using pos by (simp add: amount_to_ui_amount_string_def Let_def k_def)
    have int: "take k ?s \<noteq> []" using k z(2) by simp
    have nodot: "last (take k ?s) \<noteq> char_dot"
      using int z(1) by (metis digit_no_dot in_set_takeD last_in_set)
    have "amount_to_ui_amount_string_trimmed amt dec = take k ?s @ char_dot # trim_end_matches char_zero (drop k ?s) \<or>
      amount_to_ui_amount_string_trimmed amt dec = take k ?s \<and> trim_end_matches char_zero (drop k ?s) = []"
    proof (cases "trim_end_matches char_zero (drop k ?s) = []")
      case True
      then obtain m where "drop k ?s = replicate m char_zero"
        using trim_end_decomp [of "drop k ?s" char_zero] by auto
      then have "trim_end_matches char_zero (take k ?s @ char_dot # drop k ?s) = take k ?s @ [char_dot]"
        using trim_end_append [of char_zero "take k ?s @ [char_dot]" "replicate m char_zero"]
          trim_end_last [of "take k ?s @ [char_dot]" char_zero] by simp
      moreover have "trim_end_matches char_dot (take k ?s @ [char_dot]) = take k ?s"
        using trim_end_append [of char_dot "take k ?s" "[char_dot]"] trim_end_last [OF int nodot] by simp
      ultimately show ?thesis
        using pos True by (simp add: amount_to_ui_amount_string_trimmed_def full Let_def)
    next
      case False
      have f: "\<not> (\<forall>x \<in> set (drop k ?s). x = char_zero)"
        using False by (auto simp: trim_end_matches_def)
      have "trim_end_matches char_zero ((take k ?s @ [char_dot]) @ drop k ?s) =
          (take k ?s @ [char_dot]) @ trim_end_matches char_zero (drop k ?s)"
        unfolding trim_end_append [of char_zero "take k ?s @ [char_dot]"] if_not_P [OF f] ..
      then have "trim_end_matches char_zero (take k ?s @ char_dot # drop k ?s) =
          take k ?s @ char_dot # trim_end_matches char_zero (drop k ?s)"
        by simp
      moreover have "last (trim_end_matches char_zero (drop k ?s)) \<noteq> char_dot"
      proof -
        obtain m where "drop k ?s = trim_end_matches char_zero (drop k ?s) @ replicate m char_zero"
          using trim_end_decomp by blast
        then have "last (trim_end_matches char_zero (drop k ?s)) \<in> set (drop k ?s)"
          using False by (metis UnCI last_in_set set_append)
        then show ?thesis using digit_no_dot [OF z(1)] by (metis in_set_dropD)
      qed
      ultimately show ?thesis
        using pos False by (simp add: amount_to_ui_amount_string_trimmed_def full Let_def trim_end_last)
    qed
    then show ?thesis
      using try_ui_amount_digits [OF z(1,2) k(3) _ int] lt z(3)
      by (auto simp: full)
  qed
  then show "try_ui_amount_into_amount (amount_to_ui_amount_string amt dec) dec = Ok amt"
    "try_ui_amount_into_amount (amount_to_ui_amount_string_trimmed amt dec) dec = Ok amt"
    by simp_all
qed

text \<open>Inputs that are no amounts but are accepted: the parser's leading plus sign.\<close>

lemma ui_amount_plus_accepted:
  "try_ui_amount_into_amount [char_dot, char_plus, 53] 2 = Ok 5"
  "try_ui_amount_into_amount [char_plus] 2 = Ok 0"
proof -
  have "parse_u64 [char_plus, 53] = Some 5"
    using parse_digits_value [of "[53]" 0]
    by (simp add: parse_u64_def is_digit_def digit_value_def del: parse_digits.simps)
  then show "try_ui_amount_into_amount [char_dot, char_plus, 53] 2 = Ok 5"
    by (auto simp: try_ui_amount_into_amount_def trim_end_matches_def Let_def)
  have "parse_u64 [char_plus, char_zero, char_zero] = Some 0"
    using parse_digits_value [of "[char_zero, char_zero]" 0]
    by (simp add: parse_u64_def is_digit_def digit_value_def del: parse_digits.simps)
  moreover have "replicate 2 char_zero = [char_zero, char_zero]"
    by (simp only: numeral_2_eq_2 replicate.simps)
  ultimately show "try_ui_amount_into_amount [char_plus] 2 = Ok 0"
    by (simp add: try_ui_amount_into_amount_def trim_end_matches_def Let_def)
qed

end
