(* ===== verification/TokenProcess.thy ===== *)
theory TokenProcess
  imports TokenOwnership TokenInitialize TokenFees TokenUi
begin

text \<open>
  The program's entry point (\<open>processor.rs\<close>: \<open>Processor::process\<close>): unpack the
  instruction and run its handler. The result is the store and, for the instructions
  that set it, the return data.
\<close>

definition no_return :: "('e, store) result \<Rightarrow> ('e, store \<times> bytes option) result" where
  "no_return m = try_bind m (\<lambda>st. Ok (st, None))"

definition return_data :: "store \<Rightarrow> ('e, bytes) result \<Rightarrow> ('e, store \<times> bytes option) result" where
  "return_data st m = try_bind m (\<lambda>bs. Ok (st, Some bs))"

definition run_instruction ::
  "token_env \<Rightarrow> store \<Rightarrow> pubkey \<Rightarrow> account_info list \<Rightarrow> bytes \<Rightarrow> token_instruction \<Rightarrow>
   (program_error, store \<times> bytes option) result" where
  "run_instruction E st program_id accounts input instruction = (case instruction of
      TI_InitializeMint d a f \<Rightarrow> no_return (process_initialize_mint E st accounts d a f)
    | TI_InitializeMint2 d a f \<Rightarrow> no_return (process_initialize_mint2 E st accounts d a f)
    | TI_InitializeAccount \<Rightarrow> no_return (process_initialize_account E st accounts)
    | TI_InitializeAccount2 owner \<Rightarrow> no_return (process_initialize_account2 E st accounts owner)
    | TI_InitializeAccount3 owner \<Rightarrow> no_return (process_initialize_account3 E st accounts owner)
    | TI_InitializeMultisig m \<Rightarrow> no_return (process_initialize_multisig E st accounts m)
    | TI_InitializeMultisig2 m \<Rightarrow> no_return (process_initialize_multisig2 E st accounts m)
    | TI_Transfer amt \<Rightarrow> no_return (process_transfer E st program_id accounts amt None None)
    | TI_Approve amt \<Rightarrow> no_return (process_approve E st program_id accounts amt None)
    | TI_Revoke \<Rightarrow> no_return (process_revoke E st program_id accounts)
    | TI_SetAuthority t a \<Rightarrow> no_return (process_set_authority E st program_id accounts t a)
    | TI_MintTo amt \<Rightarrow> no_return (process_mint_to E st program_id accounts amt None)
    | TI_Burn amt \<Rightarrow> no_return (process_burn E st program_id accounts amt None)
    | TI_CloseAccount \<Rightarrow> no_return (process_close_account E st program_id accounts)
    | TI_FreezeAccount \<Rightarrow> no_return (process_toggle_freeze_account E st program_id accounts True)
    | TI_ThawAccount \<Rightarrow> no_return (process_toggle_freeze_account E st program_id accounts False)
    | TI_TransferChecked amt d \<Rightarrow> no_return (process_transfer E st program_id accounts amt (Some d) None)
    | TI_ApproveChecked amt d \<Rightarrow> no_return (process_approve E st program_id accounts amt (Some d))
    | TI_MintToChecked amt d \<Rightarrow> no_return (process_mint_to E st program_id accounts amt (Some d))
    | TI_BurnChecked amt d \<Rightarrow> no_return (process_burn E st program_id accounts amt (Some d))
    | TI_SyncNative \<Rightarrow> no_return (process_sync_native E st accounts)
    | TI_GetAccountDataSize ts \<Rightarrow> return_data st (process_get_account_data_size E st accounts ts)
    | TI_InitializeMintCloseAuthority c \<Rightarrow>
        no_return (process_initialize_mint_close_authority E st accounts c)
    | TI_TransferFeeExtension i \<Rightarrow> no_return (process_transfer_fee_instruction E st program_id accounts i)
    | TI_ConfidentialTransferExtension \<Rightarrow> Fail PE_InvalidArgument
    | TI_DefaultAccountStateExtension \<Rightarrow>
        no_return (process_default_account_state_instruction E st program_id accounts (drop 1 input))
    | TI_InitializeImmutableOwner \<Rightarrow> no_return (process_initialize_immutable_owner E st accounts)
    | TI_AmountToUiAmount amt \<Rightarrow> return_data st (process_amount_to_ui_amount E st accounts amt)
    | TI_UiAmountToAmount s \<Rightarrow> return_data st (process_ui_amount_to_amount E st accounts s)
    | TI_Reallocate ts \<Rightarrow> no_return (process_reallocate E st program_id accounts ts)
    | TI_MemoTransferExtension \<Rightarrow>
        no_return (process_memo_transfer_instruction E st program_id accounts (drop 1 input))
    | TI_CreateNativeMint \<Rightarrow> no_return (process_create_native_mint E st accounts)
    | TI_InitializeNonTransferableMint \<Rightarrow> no_return (process_initialize_non_transferable_mint E st accounts)
    | TI_InterestBearingMintExtension \<Rightarrow>
        no_return (process_interest_bearing_instruction E st program_id accounts (drop 1 input)))"

definition token_process ::
  "token_env \<Rightarrow> store \<Rightarrow> pubkey \<Rightarrow> account_info list \<Rightarrow> bytes \<Rightarrow>
   (program_error, store \<times> bytes option) result" where
  "token_process E st program_id accounts input =
     try_bind (token_instruction_unpack input) (run_instruction E st program_id accounts input)"

end
