(* ===== verification/TokenProperties.thy ===== *)
theory TokenProperties
  imports TokenExamples TokenProcess
begin

text \<open>
  Properties of the token program's handlers, each with a witness at the concrete store
  of \<open>TokenExamples\<close>.
\<close>

section \<open>Transfers\<close>

text \<open>C1: a transfer between two accounts conserves their tokens, counting both balances
  and withheld fees, and writes no other account's cell.\<close>

theorem process_transfer_conserves:
  assumes "pack_ok E"
    and "process_transfer E st pid (source_info # rest) amt dec fee_given = Ok st'"
    and "expected_mint_info dec rest = Ok (m, destination_info # authority # signers)"
    and "ai_key source_info \<noteq> ai_key destination_info"
  shows "tokens_held E st' source_info + tokens_held E st' destination_info =
      tokens_held E st source_info + tokens_held E st destination_info \<and>
    (\<forall>c. c \<noteq> ai_cell source_info \<and> c \<noteq> ai_cell destination_info \<longrightarrow> st' c = st c)"
  using assms(2)
proof (cases rule: process_transferE)
  case self
  with assms(3,4) show ?thesis by simp
next
  case (moved src r m' dst auth sigs source destination fee debited destination' n k st1)
  with assms(3) have [simp]: "src = source_info" "dst = destination_info" by auto
  note v = process_transfer_views [OF assms(1) moved(5,6,4,12,18,20)]
  have "st1 c = st c" if "c \<noteq> ai_cell source_info" "c \<noteq> ai_cell destination_info" for c
    using moved(4,19) that move_lamports_Ok(4) by (auto split: if_splits)
  then have "\<forall>c. c \<noteq> ai_cell source_info \<and> c \<noteq> ai_cell destination_info \<longrightarrow> st' c = st c"
    by (simp add: moved(20))
  moreover have "tokens_held E st' source_info + unat amt = tokens_held E st source_info"
    using v(1) moved(5,15) by (simp add: tokens_held_def)
  moreover have "tokens_held E st' destination_info = tokens_held E st destination_info + unat amt"
    using v(2-4) moved(6,17) by (simp add: tokens_held_def)
  ultimately show ?thesis by simp
qed

theorem process_transfer_conserves_witness:
  "\<exists>st'. process_transfer env0 store0 token_2022_id [source0, mint_info0, destination0, owner0]
      30 (Some 2) None = Ok st' \<and>
    tokens_held env0 st' source0 + tokens_held env0 st' destination0 =
    tokens_held env0 store0 source0 + tokens_held env0 store0 destination0"
proof -
  from transfer0 obtain st' where st': "process_transfer env0 store0 token_2022_id
      [source0, mint_info0, destination0, owner0] 30 (Some 2) None = Ok st'" by blast
  from process_transfer_conserves [OF pack_ok_env0 this, of "Some (mint_info0, 2)" destination0 owner0 "[]"]
  show ?thesis using st' by (simp add: expected_mint_info_def)
qed

lemma debit_authority_meaning:
  assumes "debit_authority E held st pid source info signers amt True = Ok debited"
  shows "\<exists>prin. validate_owner E held st pid prin info (data_len st info) signers = Ok () \<and>
    (if delegate source = Some (ai_key info)
     then prin = ai_key info \<and> amt \<le> delegated_amount source \<and>
       debited = source\<lparr>delegated_amount := delegated_amount source - amt,
         delegate := (if delegated_amount source = amt then None else Some prin)\<rparr>
     else prin = acc_owner source \<and> debited = source)"
  using assms
  by (auto simp: debit_authority_def Let_def ok_simps checked_sub_def split: option.splits if_splits)

lemma process_transfer_memo:
  assumes "process_transfer E st pid (source_info # rest) amt dec fee_given = Ok st'"
    and "expected_mint_info dec rest = Ok (m, destination_info # authority # signers)"
    and "ai_key source_info \<noteq> ai_key destination_info"
    and "token_view E st destination_info = Some d"
  shows "memo_required d = Ok False \<or>
    memo_required d = Ok True \<and> check_previous_sibling_instruction_is_memo E = Ok ()"
  using assms
  by (auto simp: process_transfer_def Let_def check_program_account_def ok_simps token_view_Some
      split: if_splits)

text \<open>C2: a successful transfer found both accounts unfrozen, of one mint and owned by the
  token program, and the source's balance sufficient. Its authority was accepted: the
  delegate, within an allowance that the transfer consumes, when the given account is the
  delegate, and the owner otherwise. Where the destination requires memos, one precedes. It
  debits the amount, credits the amount less the fee due, withholds the fee in the
  destination, and changes nothing else of the two accounts' fields.\<close>

theorem process_transfer_effect:
  assumes "pack_ok E"
    and "process_transfer E st pid (source_info # rest) amt dec fee_given = Ok st'"
    and "expected_mint_info dec rest = Ok (m, destination_info # authority # signers)"
    and "ai_key source_info \<noteq> ai_key destination_info"
  shows "\<exists>s d s' d' fee prin.
      token_view E st source_info = Some s \<and> token_view E st destination_info = Some d \<and>
      token_view E st' source_info = Some s' \<and> token_view E st' destination_info = Some d' \<and>
      \<not> is_frozen (base s) \<and> \<not> is_frozen (base d) \<and> acc_mint (base s) = acc_mint (base d) \<and>
      ai_owner source_info = token_2022_id \<and> ai_owner destination_info = token_2022_id \<and>
      transfer_fee_due E [ai_cell source_info] st s m amt = Ok fee \<and>
      (fee_given = None \<or> fee_given = Some fee) \<and>
      validate_owner E [ai_cell source_info] st pid prin authority (data_len st authority) signers = Ok () \<and>
      (if delegate (base s) = Some (ai_key authority)
       then prin = ai_key authority \<and> amt \<le> delegated_amount (base s) \<and>
         base s' = (base s)\<lparr>delegated_amount := delegated_amount (base s) - amt,
           delegate := (if delegated_amount (base s) = amt then None else Some prin),
           amount := amount (base s')\<rparr>
       else prin = acc_owner (base s) \<and> base s' = (base s)\<lparr>amount := amount (base s')\<rparr>) \<and>
      (memo_required d = Ok False \<or>
       memo_required d = Ok True \<and> check_previous_sibling_instruction_is_memo E = Ok ()) \<and>
      unat (amount (base s)) = unat (amount (base s')) + unat amt \<and>
      unat (amount (base d')) + unat fee = unat (amount (base d)) + unat amt \<and>
      withheld s' = withheld s \<and> withheld d' = withheld d + unat fee \<and>
      base d' = (base d)\<lparr>amount := amount (base d')\<rparr>"
  using assms(2)
proof (cases rule: process_transferE)
  case self
  with assms(3,4) show ?thesis by simp
next
  case (moved src r m' dst auth sigs source destination fee debited destination' n k st1)
  with assms(3) have [simp]: "src = source_info" "dst = destination_info" "m' = m"
    "auth = authority" "sigs = signers" by auto
  note v = process_transfer_views [OF assms(1) moved(5,6,4,12,18,20)]
  from moved have view: "token_view E st destination_info = Some destination" by simp
  note memo = process_transfer_memo [OF assms(2-4) view]
  from debit_authority_meaning [OF moved(12)] obtain prin where
    au: "validate_owner E [ai_cell source_info] st pid prin authority (data_len st authority) signers = Ok ()"
      "if delegate (base source) = Some (ai_key authority)
       then prin = ai_key authority \<and> amt \<le> delegated_amount (base source) \<and>
         debited = (base source)\<lparr>delegated_amount := delegated_amount (base source) - amt,
           delegate := (if delegated_amount (base source) = amt then None else Some prin)\<rparr>
       else prin = acc_owner (base source) \<and> debited = base source"
    by auto
  let ?s' = "swe_pack_base Account_base (source\<lparr>base := debited\<lparr>amount := n\<rparr>\<rparr>)"
  have debit: "if delegate (base source) = Some (ai_key authority)
      then prin = ai_key authority \<and> amt \<le> delegated_amount (base source) \<and>
        base ?s' = (base source)\<lparr>delegated_amount := delegated_amount (base source) - amt,
          delegate := (if delegated_amount (base source) = amt then None else Some prin),
          amount := amount (base ?s')\<rparr>
      else prin = acc_owner (base source) \<and> base ?s' = (base source)\<lparr>amount := amount (base ?s')\<rparr>"
    using au(2) by (cases "delegate (base source) = Some (ai_key authority)") simp_all
  show ?thesis
    by (rule exI [of _ source], rule exI [of _ destination], rule exI [of _ ?s'],
        rule exI [of _ "swe_pack_base Account_base destination'"], rule exI [of _ fee],
        rule exI [of _ prin], intro conjI)
      (rule debit au(1) memo | use v moved(5-11,13-15,17) in \<open>simp; fail\<close>)+
qed

theorem process_transfer_effect_witness:
  "\<exists>st'. process_transfer env0 store0 token_2022_id [source0, mint_info0, destination0, owner0]
      30 (Some 2) None = Ok st' \<and>
    (\<exists>s s'. token_view env0 store0 source0 = Some s \<and> token_view env0 st' source0 = Some s' \<and>
       unat (amount (base s)) = unat (amount (base s')) + 30)"
proof -
  from transfer0 obtain st' where st': "process_transfer env0 store0 token_2022_id
      [source0, mint_info0, destination0, owner0] 30 (Some 2) None = Ok st'" by blast
  from process_transfer_effect [OF pack_ok_env0 this, of "Some (mint_info0, 2)" destination0 owner0 "[]"]
  show ?thesis using st' by (auto simp: expected_mint_info_def)
qed


section \<open>Minting and burning\<close>

text \<open>C3: minting raises the mint's supply and the destination's balance by the amount, both
  without overflow, and nothing else of either; it needs a mint authority.\<close>

theorem process_mint_to_effect:
  assumes "pack_ok E"
    and "process_mint_to E st pid (mint_info # destination_info # owner_info # signers) amt dec = Ok st'"
  shows "\<exists>m d m' d' authority.
      mint_view E st mint_info = Some m \<and> token_view E st destination_info = Some d \<and>
      mint_view E st' mint_info = Some m' \<and> token_view E st' destination_info = Some d' \<and>
      mint_authority (base m) = Some authority \<and>
      validate_owner E [ai_cell mint_info, ai_cell destination_info] st pid authority owner_info
        (data_len st owner_info) signers = Ok () \<and>
      \<not> is_frozen (base d) \<and> acc_mint (base d) = ai_key mint_info \<and>
      base m' = (base m)\<lparr>mint_supply := mint_supply (base m')\<rparr> \<and>
      base d' = (base d)\<lparr>amount := amount (base d')\<rparr> \<and>
      unat (mint_supply (base m')) = unat (mint_supply (base m)) + unat amt \<and>
      unat (amount (base d')) = unat (amount (base d)) + unat amt \<and>
      tlv_data m' = tlv_data m \<and> tlv_data d' = tlv_data d"
proof -
  from assms(2) obtain m d authority n k where
    v: "mint_view E st mint_info = Some m" "token_view E st destination_info = Some d"
    and cells: "ai_cell mint_info \<noteq> ai_cell destination_info"
    and ok: "mint_authority (base m) = Some authority"
      "validate_owner E [ai_cell mint_info, ai_cell destination_info] st pid authority owner_info
        (data_len st owner_info) signers = Ok ()"
      "\<not> is_frozen (base d)" "acc_mint (base d) = ai_key mint_info"
      "unat n = unat (mint_supply (base m)) + unat amt" "unat k = unat (amount (base d)) + unat amt"
    and st': "st' = write_back Account_base (write_back Mint_base st mint_info
        (m\<lparr>base := (base m)\<lparr>mint_supply := n\<rparr>\<rparr>)) destination_info
        (d\<lparr>base := (base d)\<lparr>amount := k\<rparr>\<rparr>)"
    by (auto simp: process_mint_to_def Let_def ok_simps mint_view_Some token_view_Some
        split: option.splits if_splits)
  have "mint_is_initialized ((base m)\<lparr>mint_supply := n\<rparr>)"
    "account_is_initialized ((base d)\<lparr>amount := k\<rparr>)"
    using mint_view_initialized [OF assms(1) v(1)] token_view_initialized [OF assms(1) v(2)]
    by (simp_all add: account_is_initialized_def)
  with mint_view_written [OF assms(1) v(1), of "tlv_data m"] token_view_written [OF assms(1) v(2), of "tlv_data d"]
  have "mint_view E st' mint_info = Some (swe_pack_base Mint_base (m\<lparr>base := (base m)\<lparr>mint_supply := n\<rparr>\<rparr>))"
    "token_view E st' destination_info = Some (swe_pack_base Account_base (d\<lparr>base := (base d)\<lparr>amount := k\<rparr>\<rparr>))"
    using cells by (simp_all add: st' mint_view_Some token_view_Some)
  with v ok show ?thesis by auto
qed


theorem process_mint_to_effect_witness:
  "\<exists>st' m m'. process_mint_to env0 store0 token_2022_id [mint_info0, destination0, owner0] 30 (Some 2) = Ok st' \<and>
    mint_view env0 store0 mint_info0 = Some m \<and> mint_view env0 st' mint_info0 = Some m' \<and>
    unat (mint_supply (base m')) = unat (mint_supply (base m)) + 30"
proof -
  have "\<exists>st'. process_mint_to env0 store0 token_2022_id [mint_info0, destination0, owner0] 30 (Some 2) = Ok st'"
    by (simp add: process_mint_to_def Let_def acquire_def check_program_account_def checked_add_def)
  then obtain st' where st': "process_mint_to env0 store0 token_2022_id
      [mint_info0, destination0, owner0] 30 (Some 2) = Ok st'" by blast
  from process_mint_to_effect [OF pack_ok_env0 this] show ?thesis using st' by auto
qed

text \<open>Burning lowers the source's balance and the mint's supply by the amount, neither
  below zero, and needs the source unfrozen and of the mint given.\<close>

theorem process_burn_effect:
  assumes "pack_ok E"
    and "process_burn E st pid (source_info # mint_info # authority_info # signers) amt dec = Ok st'"
  shows "\<exists>s m s' m'.
      token_view E st source_info = Some s \<and> mint_view E st mint_info = Some m \<and>
      token_view E st' source_info = Some s' \<and> mint_view E st' mint_info = Some m' \<and>
      \<not> is_frozen (base s) \<and> acc_mint (base s) = ai_key mint_info \<and>
      acc_owner (base s') = acc_owner (base s) \<and> acc_state (base s') = acc_state (base s) \<and>
      base m' = (base m)\<lparr>mint_supply := mint_supply (base m')\<rparr> \<and>
      unat (mint_supply (base m)) = unat (mint_supply (base m')) + unat amt \<and>
      unat (amount (base s)) = unat (amount (base s')) + unat amt \<and>
      tlv_data s' = tlv_data s \<and> tlv_data m' = tlv_data m"
proof -
  from assms(2) obtain s m debited n k where
    v: "token_view E st source_info = Some s" "mint_view E st mint_info = Some m"
    and cells: "ai_cell source_info \<noteq> ai_cell mint_info"
    and ok: "\<not> is_frozen (base s)" "acc_mint (base s) = ai_key mint_info"
      "amt \<le> amount (base s)"
      "unat amt \<le> unat (amount debited)" "unat n = unat (amount debited) - unat amt"
      "unat amt \<le> unat (mint_supply (base m))" "unat k = unat (mint_supply (base m)) - unat amt"
    and d: "(if is_owned_by_system_program_or_incinerator E (base s) then Ok (base s)
        else debit_authority E [ai_cell mint_info, ai_cell source_info] st pid (base s) authority_info
          signers amt True) = Ok debited"
    and st': "st' = write_back Mint_base (write_back Account_base st source_info
        (s\<lparr>base := debited\<lparr>amount := n\<rparr>\<rparr>)) mint_info (m\<lparr>base := (base m)\<lparr>mint_supply := k\<rparr>\<rparr>)"
    by (auto simp: process_burn_def Let_def ok_simps mint_view_Some token_view_Some
        split: option.splits)
  have deb: "amount debited = amount (base s)" "acc_state debited = acc_state (base s)"
    "acc_owner debited = acc_owner (base s)"
    using d debit_authority_Ok by (auto split: if_splits)
  have "mint_is_initialized ((base m)\<lparr>mint_supply := k\<rparr>)"
    "account_is_initialized (debited\<lparr>amount := n\<rparr>)"
    using mint_view_initialized [OF assms(1) v(2)] token_view_initialized [OF assms(1) v(1)] deb
    by (simp_all add: account_is_initialized_def)
  then have "mint_view E st' mint_info = Some (swe_pack_base Mint_base (m\<lparr>base := (base m)\<lparr>mint_supply := k\<rparr>\<rparr>))"
    "token_view E st' source_info = Some (swe_pack_base Account_base (s\<lparr>base := debited\<lparr>amount := n\<rparr>\<rparr>))"
    using cells base_written [OF assms(1)] v by (auto simp: st' mint_view_Some token_view_Some)
  with v ok deb show ?thesis by auto
qed

theorem process_burn_effect_witness:
  "\<exists>st' m m'. process_burn env0 store0 token_2022_id [source0, mint_info0, owner0] 30 None = Ok st' \<and>
    mint_view env0 store0 mint_info0 = Some m \<and> mint_view env0 st' mint_info0 = Some m' \<and>
    unat (mint_supply (base m)) = unat (mint_supply (base m')) + 30"
proof -
  have "\<exists>st'. process_burn env0 store0 token_2022_id [source0, mint_info0, owner0] 30 None = Ok st'"
    by (simp add: process_burn_def Let_def acquire_def check_program_account_def checked_sub_def
        debit_authority_def)
  then obtain st' where st': "process_burn env0 store0 token_2022_id [source0, mint_info0, owner0] 30 None = Ok st'"
    by blast
  from process_burn_effect [OF pack_ok_env0 this] show ?thesis using st' by auto
qed

section \<open>Authorities\<close>

text \<open>C4: an accepted multisig owner is an initialized multisig at least \<open>m\<close> of whose
  positions hold the key of an account that signed.\<close>

theorem validate_owner_multisig_sound:
  assumes "validate_owner E held st pid owner info 355 signers = Ok ()" "ai_owner info = pid"
  shows "ai_key info = owner \<and> (\<exists>ms. unpack E multisig_pack (account_data st info) = Ok ms \<and>
    (unat (ms_n ms) \<le> MAX_SIGNERS \<longrightarrow>
      unat (ms_m ms) \<le> card (signed_positions (take (unat (ms_n ms)) (ms_signers ms)) signers)))"
proof -
  from assms obtain ms c where "owner = ai_key info" "unpack E multisig_pack (account_data st info) = Ok ms"
    "count_signers ms signers (replicate MAX_SIGNERS False) 0 = Ok c" "\<not> c < ms_m ms"
    by (auto simp: validate_owner_def ok_simps split: if_splits)
  then show ?thesis using count_signers_eq by (force simp: word_less_nat_alt)
qed


theorem validate_owner_multisig_sound_witness:
  "validate_owner env0 [] store1 token_2022_id 30 multisig_info0 355 [info0 20 True 5, info0 22 True 6] = Ok () \<and>
   ai_key multisig_info0 = 30"
proof -
  have "count_signers multisig0 [info0 20 True 5, info0 22 True 6] (replicate MAX_SIGNERS False) 0 = Ok 2"
  proof -
    have "replicate MAX_SIGNERS False = [False, False, False, False, False, False, False, False, False, False, False]"
      by (simp add: MAX_SIGNERS_def eval_nat_numeral)
    then show ?thesis by (simp add: multisig0_def slice_def info0_def)
  qed
  then have ok: "validate_owner env0 [] store1 token_2022_id 30 multisig_info0 355
      [info0 20 True 5, info0 22 True 6] = Ok ()"
    by (simp add: validate_owner_def acquire_def)
  show ?thesis using validate_owner_multisig_sound [OF ok] ok by simp
qed

text \<open>C5: changing the owner of a token account needs the current owner's authority and an
  account that is neither frozen nor of immutable ownership; it clears the delegate and,
  for native accounts, the close authority.\<close>

theorem set_owner_effect:
  assumes "pack_ok E" "token_view E st account_info = Some s"
    and "process_set_authority E st pid (account_info # authority_info # signers) AUTH_AccountOwner new = Ok st'"
  shows "\<exists>owner s'. new = Some owner \<and> token_view E st' account_info = Some s' \<and>
      \<not> is_frozen (base s) \<and>
      validate_owner E [ai_cell account_info] st pid (acc_owner (base s)) authority_info
        (data_len st authority_info) signers = Ok () \<and>
      (\<forall>at x. swe_get_extension_mut Account_base ImmutableOwner_ext s \<noteq> Ok (at, x)) \<and>
      base s' = (base s)\<lparr>acc_owner := owner, delegate := None, delegated_amount := 0,
        close_authority := (if is_native (base s) then None else close_authority (base s))\<rparr>"
proof -
  from assms(2) have s: "swe_unpack E Account_base (account_data st account_info) = Ok s"
    by (simp add: token_view_Some)
  have nat: "is_native ((base s)\<lparr>acc_owner := w, delegate := None, delegated_amount := 0\<rparr>) = is_native (base s)"
    for w by (simp add: is_native_def)
  from assms(3) s obtain owner where new: "new = Some owner"
    and ok: "\<not> is_frozen (base s)"
      "validate_owner E [ai_cell account_info] st pid (acc_owner (base s)) authority_info
        (data_len st authority_info) signers = Ok ()"
      "is_ok (swe_get_extension_mut Account_base ImmutableOwner_ext s) = (Ok False :: (program_error, bool) result)"
    and st': "st' = write_back Account_base st account_info (s\<lparr>base := (base s)\<lparr>acc_owner := owner,
        delegate := None, delegated_amount := 0,
        close_authority := (if is_native (base s) then None else close_authority (base s))\<rparr>\<rparr>)"
    by (auto simp: process_set_authority_def set_account_authority_def Let_def ok_simps nat
        split: option.splits if_splits)
  have "account_is_initialized ((base s)\<lparr>acc_owner := owner, delegate := None, delegated_amount := 0,
        close_authority := c\<rparr>)" for c
    using token_view_initialized [OF assms(1,2)] by (simp add: account_is_initialized_def)
  from base_written(1) [OF assms(1,2) this] new ok show ?thesis
    by (auto simp: st' token_view_Some)
qed

theorem set_owner_effect_witness:
  "\<exists>st' s'. process_set_authority env0 store0 token_2022_id [source0, owner0] AUTH_AccountOwner (Some 55) = Ok st' \<and>
    token_view env0 st' source0 = Some s' \<and> acc_owner (base s') = 55"
proof -
  have "\<exists>st'. process_set_authority env0 store0 token_2022_id [source0, owner0] AUTH_AccountOwner (Some 55) = Ok st'"
    by (simp add: process_set_authority_def set_account_authority_def Let_def)
  then obtain st' where st': "process_set_authority env0 store0 token_2022_id [source0, owner0]
      AUTH_AccountOwner (Some 55) = Ok st'" by blast
  have "token_view env0 store0 source0 = Some (plain_view (token0 7 9 100) (token_bytes (token0 7 9 100)))"
    by (simp add: token_view_Some)
  from set_owner_effect [OF pack_ok_env0 this st'] show ?thesis using st' by auto
qed

text \<open>A view of a mint without mint authority, before and after an instruction.\<close>

abbreviation fixed_mint :: "token_env \<Rightarrow> store \<Rightarrow> account_info \<Rightarrow> u64 \<Rightarrow> bool" where
  "fixed_mint E st mint_info n \<equiv> \<exists>m. mint_view E st mint_info = Some m \<and>
     mint_authority (base m) = None \<and> mint_supply (base m) = n"

lemma set_extension_authority_fixed:
  assumes "pack_ok E" "mint_view E st a = Some m" "extension_impl X"
    and "set_extension_authority validate X get put new m = Ok m'"
  shows "swe_unpack E Mint_base (swe_buffer m') = Ok m' \<and> base m' = base m"
  using extension_written(2) [OF assms(1,3,2)] assms(4)
  by (auto simp: set_extension_authority_def ok_simps put_extension_def)

lemmas mint_authority_extensions =
  set_extension_authority_fixed [OF _ _ transfer_fee_config_ext.extension_impl_axioms]
  set_extension_authority_fixed [OF _ _ mint_close_authority_ext.extension_impl_axioms]
  set_extension_authority_fixed [OF _ _ interest_bearing_config_ext.extension_impl_axioms]

lemma set_mint_authority_fixed:
  assumes "pack_ok E" "mint_view E st a = Some m" "mint_authority (base m) = None"
    and "set_mint_authority validate which new m = Ok m'"
  shows "swe_unpack E Mint_base (swe_buffer m') = Ok m' \<and> mint_authority (base m') = None \<and>
    mint_supply (base m') = mint_supply (base m)"
proof (cases which)
  case AUTH_FreezeAccount
  with assms(4) have m': "m' = swe_pack_base Mint_base (m\<lparr>base := (base m)\<lparr>freeze_authority := new\<rparr>\<rparr>)"
    by (auto simp: set_mint_authority_def ok_simps)
  have "mint_is_initialized ((base m)\<lparr>freeze_authority := new\<rparr>)"
    using mint_view_initialized [OF assms(1,2)] by simp
  from base_written(2) [OF assms(1,2) this] assms(3) show ?thesis by (simp add: m')
next
  case AUTH_MintTokens
  with assms(3,4) show ?thesis by (simp add: set_mint_authority_def)
qed (use assms(3,4) in
    \<open>simp_all add: set_mint_authority_def mint_authority_extensions [OF assms(1,2)]\<close>)

lemma live_mint_not_uninitialized:
  assumes "mint_view E st a = Some m"
  shows "swe_unpack_uninitialized E Mint_base (account_data st a) \<noteq> Ok u"
  using assms
  by (auto simp: mint_view_Some swe_unpack_def swe_unpack_uninitialized_def Let_def unpack_def
      unpack_unchecked_def ok_simps split: if_splits)

text \<open>What a successful closing checked and wrote.\<close>

lemma process_close_accountE:
  assumes "process_close_account E st pid (source_info # destination_info # authority # signers) = Ok st'"
  obtains l v where
    "v = (\<lambda>owner. validate_owner E [ai_cell source_info] st pid owner authority
       (data_len st authority) signers)"
    "(\<exists>s. se_unpack E Account_base (account_data st source_info) = Ok s \<and>
        may_close_token_account E v destination_info s = Ok ()) \<or>
     (\<exists>e m. se_unpack E Account_base (account_data st source_info) = Fail e \<and>
        se_unpack E Mint_base (account_data st source_info) = Ok m \<and> may_close_mint v m = Ok ())"
    "unat l = unat (lamports st destination_info) + unat (lamports st source_info)"
    "st' = set_data (set_lamports (set_lamports st destination_info l) source_info 0)
        source_info (replicate (length (account_data st source_info)) 0)"
proof -
  let ?data = "account_data st source_info"
  let ?v = "\<lambda>owner. validate_owner E [ai_cell source_info] st pid owner authority (data_len st authority) signers"
  from assms obtain r l u where
    r: "attempt (se_unpack E Account_base ?data) = (Ok r :: (program_error, _) result)"
      "(case r of Inr source \<Rightarrow> may_close_token_account E ?v destination_info source
        | Inl _ \<Rightarrow> try_bind (attempt (se_unpack E Mint_base ?data)) (\<lambda>r. case r of
            Inr mint \<Rightarrow> may_close_mint ?v mint | Inl _ \<Rightarrow> Fail PE_UninitializedAccount)) = Ok u"
    and l: "unat l = unat (lamports st destination_info) + unat (lamports st source_info)"
    and st': "st' = set_data (set_lamports (set_lamports st destination_info l) source_info 0)
        source_info (replicate (length ?data) 0)"
    unfolding process_close_account_def Let_def
    by (simp only: next_account_info_Cons try_bind_Inr prod.case if_Inl_eq_Ok)
      (simp only: try_bind_eq_Ok ok_or_eq_Ok checked_add_Some sum.inject; blast)
  have "(\<exists>s. se_unpack E Account_base ?data = Ok s \<and>
          may_close_token_account E ?v destination_info s = Ok ()) \<or>
        (\<exists>e m. se_unpack E Account_base ?data = Fail e \<and> se_unpack E Mint_base ?data = Ok m \<and>
          may_close_mint ?v m = Ok ())"
    using r by (cases r) (auto simp: attempt_case_eq_Ok attempt_eq_Ok)
  from that [OF refl this l st'] show thesis .
qed

text \<open>A mint is closed by its close authority and holds no supply.\<close>

lemma close_mint_checked:
  assumes "pack_ok E" "mint_view E st source_info = Some m"
    and "process_close_account E st pid (source_info # destination_info # authority # signers) = Ok st'"
  shows "\<exists>x closer. get_extension Mint_base MintCloseAuthority_ext (tlv_data m) = Ok x \<and>
    optional_key_get (mca_close_authority x) = Some closer \<and>
    validate_owner E [ai_cell source_info] st pid closer authority (data_len st authority) signers = Ok () \<and>
    mint_supply (base m) = 0"
  using assms(3)
proof (cases rule: process_close_accountE)
  case (1 l v)
  from assms(2) have mv: "swe_unpack E Mint_base (account_data st source_info) = Ok m"
    by (simp add: mint_view_Some)
  from mint_not_account [OF assms(1) this]
  have "\<nexists>s. se_unpack E Account_base (account_data st source_info) = Ok s"
    by (auto simp: account_base.se_unpack_eq)
  with 1(2) mv have "may_close_mint v \<lparr>se_base = base m, se_tlv_data = tlv_data m\<rparr> = Ok ()"
    by (auto simp: mint_base.se_unpack_eq)
  then show ?thesis
    by (auto simp: may_close_mint_def se_get_extension_def ok_simps 1(1) split: if_splits)
qed

text \<open>A token account is closed by its close authority or owner, and holds no tokens unless native.\<close>

lemma close_token_account_checked:
  assumes "token_view E st source_info = Some s"
    and "process_close_account E st pid (source_info # destination_info # authority # signers) = Ok st'"
  shows "(if is_owned_by_system_program_or_incinerator E (base s)
      then ai_key destination_info = env_incinerator E
      else validate_owner E [ai_cell source_info] st pid
        (case close_authority (base s) of Some c \<Rightarrow> c | None \<Rightarrow> acc_owner (base s))
        authority (data_len st authority) signers = Ok ()) \<and>
    (is_native (base s) \<or> amount (base s) = 0) \<and> withheld s = 0"
  using assms(2)
proof (cases rule: process_close_accountE)
  case (1 l v)
  have "se_unpack E Account_base (account_data st source_info) =
      Ok \<lparr>se_base = base s, se_tlv_data = tlv_data s\<rparr>"
    using assms(1) by (simp add: account_base.se_unpack_eq token_view_Some)
  with 1(2) have m: "may_close_token_account E v destination_info
      \<lparr>se_base = base s, se_tlv_data = tlv_data s\<rparr> = Ok ()"
    by auto
  have "withheld_amount x = 0"
    if "swe_get_extension_mut Account_base TransferFeeAmount_ext s = Ok (at, x)" for at x
    using m get_extension_of_mut [OF that]
    by (auto simp: may_close_token_account_def se_get_extension_def closable_def ok_simps Let_def
        split: if_splits)
  then have "withheld s = 0"
    by (auto simp: withheld_def split: sum.splits)
  with m show ?thesis
    by (auto simp: may_close_token_account_def Let_def ok_simps 1(1) split: if_splits option.splits)
qed

text \<open>What a burn does to the mint.\<close>

lemma burn_keeps_mint:
  assumes "pack_ok E" "process_burn E st pid (source_info # mint_info # rest) amt dec = Ok st'"
    and "mint_view E st mint_info = Some m"
  shows "amt \<le> mint_supply (base m) \<and> (\<exists>m'. mint_view E st' mint_info = Some m' \<and>
    base m' = (base m)\<lparr>mint_supply := mint_supply (base m) - amt\<rparr>)"
proof -
  from assms(2,3) obtain s where le: "amt \<le> mint_supply (base m)"
    and st': "st' = write_back Mint_base (write_back Account_base st source_info s) mint_info
      (m\<lparr>base := (base m)\<lparr>mint_supply := mint_supply (base m) - amt\<rparr>\<rparr>)"
    by (auto simp: process_burn_def Let_def ok_simps mint_view_Some checked_sub_def split: if_splits)
  have "mint_is_initialized ((base m)\<lparr>mint_supply := mint_supply (base m) - amt\<rparr>)"
    using mint_view_initialized [OF assms(1,3)] by simp
  from base_written(2) [OF assms(1,3) this] le show ?thesis
    by (auto simp: st' mint_view_Some)
qed

text \<open>C6: a mint without mint authority keeps a fixed supply. MintTo never succeeds on it, nor
  do both InitializeMint instructions, so it is not set up again while it lives. SetAuthority
  refuses a mint authority, and whatever other authority it sets leaves the mint without one
  and its supply as it was. A burn keeps the mint without authority and lowers the supply by
  exactly what is burned. Closing, after which the account may become another mint, needs the
  supply to be zero.\<close>

theorem fixed_supply:
  assumes "pack_ok E" "mint_view E st mint_info = Some m" "mint_authority (base m) = None"
  shows "process_mint_to E st pid (mint_info # rest) amt dec \<noteq> Ok st' \<and>
    process_initialize_mint E st (mint_info # rest) d mint_owner freezer \<noteq> Ok st' \<and>
    process_initialize_mint2 E st (mint_info # rest) d mint_owner freezer \<noteq> Ok st' \<and>
    process_set_authority E st pid (mint_info # authority # signers) AUTH_MintTokens new =
      TErr TE_FixedSupply \<and>
    (process_set_authority E st pid (mint_info # authority # signers) which new = Ok st' \<longrightarrow>
      fixed_mint E st' mint_info (mint_supply (base m))) \<and>
    (process_burn E st pid (source_info # mint_info # rest) amt dec = Ok st' \<longrightarrow>
      amt \<le> mint_supply (base m) \<and> fixed_mint E st' mint_info (mint_supply (base m) - amt)) \<and>
    (process_close_account E st pid (mint_info # destination_info # authority # signers) = Ok st' \<longrightarrow>
      mint_supply (base m) = 0)"
proof (intro conjI impI)
  from mint_not_account [OF assms(1)] assms(2) obtain e where
    e: "swe_unpack E Account_base (account_data st mint_info) = Fail e"
    by (auto simp: mint_view_Some)
  from assms(2) have v: "swe_unpack E Mint_base (account_data st mint_info) = Ok m"
    by (simp add: mint_view_Some)
  show "process_set_authority E st pid (mint_info # authority # signers) AUTH_MintTokens new =
      TErr TE_FixedSupply"
    using assms(3) v by (simp add: process_set_authority_def set_mint_authority_def e)
  assume "process_set_authority E st pid (mint_info # authority # signers) which new = Ok st'"
  with v obtain validate m' where "set_mint_authority validate which new m = Ok m'"
    "st' = set_data st mint_info (swe_buffer m')"
    by (auto simp: process_set_authority_def e Let_def ok_simps)
  with set_mint_authority_fixed [OF assms(1-3) this(1)]
  show "fixed_mint E st' mint_info (mint_supply (base m))"
    by (simp add: mint_view_Some)
next
  show "process_mint_to E st pid (mint_info # rest) amt dec \<noteq> Ok st'"
    using assms(2,3) by (auto simp: process_mint_to_def Let_def ok_simps mint_view_Some split: option.splits)
next
  show "process_initialize_mint E st (mint_info # rest) d mint_owner freezer \<noteq> Ok st'"
    "process_initialize_mint2 E st (mint_info # rest) d mint_owner freezer \<noteq> Ok st'"
    using live_mint_not_uninitialized [OF assms(2)]
    by (auto simp: process_initialize_mint_def process_initialize_mint2_def
        process_initialize_mint_impl_def Let_def ok_simps)
next
  assume b: "process_burn E st pid (source_info # mint_info # rest) amt dec = Ok st'"
  from burn_keeps_mint [OF assms(1) b assms(2)] assms(3)
  show "amt \<le> mint_supply (base m)" "fixed_mint E st' mint_info (mint_supply (base m) - amt)"
    by auto
next
  assume "process_close_account E st pid (mint_info # destination_info # authority # signers) = Ok st'"
  from close_mint_checked [OF assms(1,2) this] show "mint_supply (base m) = 0" by blast
qed

theorem fixed_supply_witness:
  "\<exists>m. mint_view env0 fixed_store0 mint_info0 = Some m \<and> mint_authority (base m) = None \<and>
    process_set_authority env0 fixed_store0 token_2022_id [mint_info0, owner0] AUTH_MintTokens (Some 9) =
      TErr TE_FixedSupply"
proof -
  have v: "mint_view env0 fixed_store0 mint_info0 =
      Some (plain_view (fixed_mint0) (mint_bytes fixed_mint0))"
    by (simp add: mint_view_Some account_data_def fixed_store0_def fixed_mint0_def)
  then show ?thesis
    using fixed_supply [OF pack_ok_env0 v, where pid = token_2022_id and authority = owner0
        and signers = "[]" and new = "Some 9"]
    by (simp add: fixed_mint0_def)
qed

section \<open>Closing and freezing\<close>

text \<open>C7: closing moves all the account's lamports to the destination, zeroes its data and
  touches no other cell. A token account is closed by its close authority, or by its owner if it
  has none, and one that belongs to the system program or the incinerator only into the
  incinerator; it withholds no fees and, unless it is a native account, holds no tokens. A mint
  is closed by the authority of its close extension and has no supply.\<close>

theorem close_account_effect:
  assumes "process_close_account E st pid (source_info # destination_info # authority # signers) = Ok st'"
    and "ai_cell source_info \<noteq> ai_cell destination_info"
  shows "unat (lamports st' destination_info) =
      unat (lamports st destination_info) + unat (lamports st source_info) \<and>
    lamports st' source_info = 0 \<and>
    account_data st' source_info = replicate (data_len st source_info) 0 \<and>
    account_data st' destination_info = account_data st destination_info \<and>
    (\<forall>c. c \<noteq> ai_cell source_info \<and> c \<noteq> ai_cell destination_info \<longrightarrow> st' c = st c) \<and>
    (\<forall>s. token_view E st source_info = Some s \<longrightarrow>
       (if is_owned_by_system_program_or_incinerator E (base s)
        then ai_key destination_info = env_incinerator E
        else validate_owner E [ai_cell source_info] st pid
          (case close_authority (base s) of Some c \<Rightarrow> c | None \<Rightarrow> acc_owner (base s))
          authority (data_len st authority) signers = Ok ()) \<and>
       (is_native (base s) \<or> amount (base s) = 0) \<and> withheld s = 0) \<and>
    (\<forall>m. mint_view E st source_info = Some m \<and> pack_ok E \<longrightarrow>
       (\<exists>x closer. get_extension Mint_base MintCloseAuthority_ext (tlv_data m) = Ok x \<and>
          optional_key_get (mca_close_authority x) = Some closer \<and>
          validate_owner E [ai_cell source_info] st pid closer authority
            (data_len st authority) signers = Ok () \<and>
          mint_supply (base m) = 0))"
proof -
  from assms(1) obtain l where l: "unat l = unat (lamports st destination_info) + unat (lamports st source_info)"
    and st': "st' = set_data (set_lamports (set_lamports st destination_info l) source_info 0)
        source_info (replicate (length (account_data st source_info)) 0)"
    by (cases rule: process_close_accountE)
  from assms(2) l have "unat (lamports st' destination_info) =
      unat (lamports st destination_info) + unat (lamports st source_info) \<and>
    lamports st' source_info = 0 \<and>
    account_data st' source_info = replicate (data_len st source_info) 0 \<and>
    account_data st' destination_info = account_data st destination_info \<and>
    (\<forall>c. c \<noteq> ai_cell source_info \<and> c \<noteq> ai_cell destination_info \<longrightarrow> st' c = st c)"
    by (simp add: st' data_len_def)
  then show ?thesis
    using close_token_account_checked [OF _ assms(1)] close_mint_checked [OF _ _ assms(1)]
    by (simp only: conj_assoc) blast
qed

theorem close_account_effect_witness:
  "\<exists>st'. process_close_account env0 closing_store0 token_2022_id [source0, destination0, owner0] = Ok st' \<and>
    unat (lamports st' destination0) = 20 \<and> lamports st' source0 = 0"
proof -
  have d: "account_data closing_store0 source0 = token_bytes (token0 7 9 0)"
    "lamports closing_store0 source0 = 10" "lamports closing_store0 destination0 = 10"
    "data_len closing_store0 owner0 = 0"
    by (simp_all add: closing_store0_def account_data_def lamports_def data_len_def store0_def)
  have "\<exists>st'. process_close_account env0 closing_store0 token_2022_id [source0, destination0, owner0] = Ok st'"
    by (simp add: process_close_account_def d account_base.se_unpack_eq may_close_token_account_def
        is_owned_by_system_program_or_incinerator_def se_get_extension_def validate_owner_def
        checked_add_def Let_def)
  then obtain st' where st': "process_close_account env0 closing_store0 token_2022_id
      [source0, destination0, owner0] = Ok st'" by blast
  from close_account_effect [OF this] show ?thesis using st' by (simp add: d)
qed


text \<open>Freezing and thawing need the mint's freeze authority and flip the state of a
  non-native account of that mint, leaving the rest of it as it was.\<close>

theorem toggle_freeze_effect:
  assumes "pack_ok E"
    and "process_toggle_freeze_account E st pid (source_info # mint_info # authority_info # signers) freeze = Ok st'"
  shows "\<exists>s s' m authority. token_view E st source_info = Some s \<and> token_view E st' source_info = Some s' \<and>
      mint_view E st mint_info = Some m \<and> freeze_authority (base m) = Some authority \<and>
      validate_owner E [ai_cell source_info] st pid authority authority_info
        (data_len st authority_info) signers = Ok () \<and>
      acc_mint (base s) = ai_key mint_info \<and> \<not> is_native (base s) \<and>
      is_frozen (base s) = (\<not> freeze) \<and> is_frozen (base s') = freeze \<and>
      base s' = (base s)\<lparr>acc_state := acc_state (base s')\<rparr>"
proof -
  from assms(2) obtain s m authority where
    v: "token_view E st source_info = Some s" "mint_view E st mint_info = Some m"
    and ok: "freeze_authority (base m) = Some authority"
      "validate_owner E [ai_cell source_info] st pid authority authority_info
        (data_len st authority_info) signers = Ok ()"
      "acc_mint (base s) = ai_key mint_info" "\<not> is_native (base s)" "is_frozen (base s) = (\<not> freeze)"
    and st': "st' = write_back Account_base st source_info (s\<lparr>base := (base s)
        \<lparr>acc_state := (if freeze then AS_Frozen else AS_Initialized)\<rparr>\<rparr>)"
    by (auto simp: process_toggle_freeze_account_def Let_def ok_simps mint_view_Some token_view_Some
        mint_base.se_unpack_eq split: option.splits if_splits)
  have "account_is_initialized ((base s)\<lparr>acc_state := (if freeze then AS_Frozen else AS_Initialized)\<rparr>)"
    by (simp add: account_is_initialized_def)
  from base_written(1) [OF assms(1) v(1) this] v ok show ?thesis
    by (auto simp: st' token_view_Some is_frozen_def)
qed

theorem toggle_freeze_effect_witness:
  "\<exists>st' s'. process_toggle_freeze_account env0 store0 token_2022_id [source0, mint_info0, owner0] True = Ok st' \<and>
    token_view env0 st' source0 = Some s' \<and> is_frozen (base s')"
proof -
  have "\<exists>st'. process_toggle_freeze_account env0 store0 token_2022_id [source0, mint_info0, owner0] True = Ok st'"
    by (simp add: process_toggle_freeze_account_def Let_def acquire_def)
  then obtain st' where st': "process_toggle_freeze_account env0 store0 token_2022_id
      [source0, mint_info0, owner0] True = Ok st'" by blast
  from toggle_freeze_effect [OF pack_ok_env0 this] show ?thesis using st' by auto
qed

section \<open>Transfer fees\<close>

text \<open>C8: the fee of a transfer is the amount's share of basis points rounded up, capped by
  the maximum fee; it never exceeds the amount and the computation never overflows.\<close>

theorem fee_closed_form:
  assumes "unat (transfer_fee_basis_points f) \<le> 10000"
  shows "\<exists>fee. calculate f amt = Some fee \<and> fee \<le> amt \<and>
    unat fee = min ((unat amt * unat (transfer_fee_basis_points f) + 9999) div 10000)
      (unat (maximum_fee f))"
proof -
  from calculate_Some [OF assms] obtain fee where "calculate f amt = Some fee"
    "unat fee = min (raw_fee_spec f amt) (unat (maximum_fee f))" by blast
  with raw_fee_spec_le_amount [OF assms, of amt] show ?thesis
    by (auto simp: raw_fee_spec_def word_le_nat_alt)
qed

theorem fee_closed_form_witness:
  "\<exists>fee. calculate \<lparr>fee_epoch = 0, maximum_fee = 100, transfer_fee_basis_points = 250\<rparr> 1001 = Some fee \<and>
    unat fee = 26"
  using fee_closed_form [of "\<lparr>fee_epoch = 0, maximum_fee = 100, transfer_fee_basis_points = 250\<rparr>" 1001]
  by auto

text \<open>C9: setting the transfer fee needs the fee authority and at most 100 percent; it leaves
  the fee in force in the current epoch unchanged and takes effect two epochs later.\<close>

theorem set_transfer_fee_effect:
  assumes "pack_ok E" "env_clock_get E = Ok clock" "unat (clk_epoch clock) + 2 < 2 ^ 64"
    and "process_set_transfer_fee E st pid (mint_info # authority_info # signers) bp max_fee = Ok st'"
  shows "\<exists>c c' authority. fee_config E st mint_info = Some c \<and> fee_config E st' mint_info = Some c' \<and>
      optional_key_get (transfer_fee_config_authority c) = Some authority \<and>
      validate_owner E [ai_cell mint_info] st pid authority authority_info
        (data_len st authority_info) signers = Ok () \<and> unat bp \<le> 10000 \<and>
      get_epoch_fee c' (clk_epoch clock) = get_epoch_fee c (clk_epoch clock) \<and>
      get_epoch_fee c' (clk_epoch clock + 2) =
        \<lparr>fee_epoch = clk_epoch clock + 2, maximum_fee = max_fee, transfer_fee_basis_points = bp\<rparr> \<and>
      cfg_withheld_amount c' = cfg_withheld_amount c"
proof -
  from assms(2,4) obtain m at c authority where
    v: "mint_view E st mint_info = Some m"
    and get: "swe_get_extension_mut Mint_base TransferFeeConfig_ext m = Ok (at, c)"
    and ok: "optional_key_get (transfer_fee_config_authority c) = Some authority"
      "validate_owner E [ai_cell mint_info] st pid authority authority_info
        (data_len st authority_info) signers = Ok ()" "\<not> MAX_FEE_BASIS_POINTS < bp"
    and st': "st' = set_data st mint_info (swe_buffer (put_extension TransferFeeConfig_ext at
        (schedule_fee (clk_epoch clock) bp max_fee c) m))"
    by (auto simp: process_set_transfer_fee_def ok_simps mint_view_Some)
  let ?c' = "schedule_fee (clk_epoch clock) bp max_fee c"
  have c': "fee_config E st' mint_info = Some ?c'"
    by (rule fee_config_written [OF assms(1) v get]) (simp add: st')
  have c: "fee_config E st mint_info = Some c" using v get by (auto simp: fee_config_Some)
  have bp: "unat bp \<le> 10000" using ok(3) by (simp add: MAX_FEE_BASIS_POINTS_def word_less_nat_alt)
  have now: "get_epoch_fee ?c' (clk_epoch clock) = get_epoch_fee c (clk_epoch clock)"
    using schedule_fee_current [OF assms(3), of "clk_epoch clock" c bp max_fee]
    by (auto simp: get_epoch_fee_def)
  have "saturating_add (clk_epoch clock) 2 = clk_epoch clock + 2"
    using assms(3) by (simp add: saturating_add_def)
  then have "get_epoch_fee ?c' (clk_epoch clock + 2) =
        \<lparr>fee_epoch = clk_epoch clock + 2, maximum_fee = max_fee, transfer_fee_basis_points = bp\<rparr>"
    "cfg_withheld_amount ?c' = cfg_withheld_amount c"
    by (simp_all add: schedule_fee_def get_epoch_fee_def Let_def)
  with c c' ok bp now show ?thesis by blast
qed

theorem set_transfer_fee_effect_witness:
  "\<exists>st' c. process_set_transfer_fee env0 fee_store0 token_2022_id [mint_info0, owner0] 100 50 = Ok st' \<and>
    fee_config env0 st' mint_info0 = Some c \<and> transfer_fee_basis_points (get_epoch_fee c 7) = 100"
proof -
  have "\<exists>st'. process_set_transfer_fee env0 fee_store0 token_2022_id [mint_info0, owner0] 100 50 = Ok st'"
    by (simp add: process_set_transfer_fee_def validate_owner_def MAX_FEE_BASIS_POINTS_def)
  then obtain st' where st': "process_set_transfer_fee env0 fee_store0 token_2022_id
      [mint_info0, owner0] 100 50 = Ok st'" by blast
  from set_transfer_fee_effect [OF pack_ok_env0 _ _ this] show ?thesis using st' by auto
qed

text \<open>Withdrawing the withheld fees of a mint moves them to the destination, all of them
  and nothing else, and needs the withdraw authority.\<close>

theorem withdraw_from_mint_conserves:
  assumes "pack_ok E"
    and "process_withdraw_withheld_tokens_from_mint E st pid
      (mint_info # destination_info # authority_info # signers) = Ok st'"
  shows "\<exists>c c' d d' authority. fee_config E st mint_info = Some c \<and> fee_config E st' mint_info = Some c' \<and>
      token_view E st destination_info = Some d \<and> token_view E st' destination_info = Some d' \<and>
      optional_key_get (withdraw_withheld_authority c) = Some authority \<and>
      validate_owner E [ai_cell mint_info] st pid authority authority_info
        (data_len st authority_info) signers = Ok () \<and>
      acc_mint (base d) = ai_key mint_info \<and> \<not> is_frozen (base d) \<and>
      c' = c\<lparr>cfg_withheld_amount := 0\<rparr> \<and> base d' = (base d)\<lparr>amount := amount (base d')\<rparr> \<and>
      unat (amount (base d')) = unat (amount (base d)) + unat (cfg_withheld_amount c)"
proof -
  from assms(2) obtain m at c authority d n where
    v: "mint_view E st mint_info = Some m" "token_view E st destination_info = Some d"
    and get: "swe_get_extension_mut Mint_base TransferFeeConfig_ext m = Ok (at, c)"
    and ok: "optional_key_get (withdraw_withheld_authority c) = Some authority"
      "validate_owner E [ai_cell mint_info] st pid authority authority_info
        (data_len st authority_info) signers = Ok ()"
      "ai_cell destination_info \<noteq> ai_cell mint_info"
      "acc_mint (base d) = ai_key mint_info" "\<not> is_frozen (base d)"
      "unat n = unat (amount (base d)) + unat (cfg_withheld_amount c)"
    and st': "st' = write_back Account_base (set_data st mint_info (swe_buffer
        (put_extension TransferFeeConfig_ext at (c\<lparr>cfg_withheld_amount := 0\<rparr>) m))) destination_info
        (d\<lparr>base := (base d)\<lparr>amount := n\<rparr>\<rparr>)"
    by (auto simp: process_withdraw_withheld_tokens_from_mint_def Let_def ok_simps mint_view_Some token_view_Some)
  have "fee_config E st' mint_info = Some (c\<lparr>cfg_withheld_amount := 0\<rparr>)"
    by (rule fee_config_written [OF assms(1) v(1) get]) (simp add: st' ok(3))
  moreover have "token_view E st' destination_info =
      Some (swe_pack_base Account_base (d\<lparr>base := (base d)\<lparr>amount := n\<rparr>\<rparr>))"
    using base_written(1) [OF assms(1) v(2), of "(base d)\<lparr>amount := n\<rparr>"]
      token_view_initialized [OF assms(1) v(2)]
    by (simp add: st' token_view_Some account_is_initialized_def)
  moreover have "fee_config E st mint_info = Some c" using v get by (auto simp: fee_config_Some)
  ultimately show ?thesis using v ok by auto
qed


theorem withdraw_from_mint_conserves_witness:
  "\<exists>st' d'. process_withdraw_withheld_tokens_from_mint env0 fee_store0 token_2022_id
      [mint_info0, destination0, owner0] = Ok st' \<and>
    token_view env0 st' destination0 = Some d' \<and> unat (amount (base d')) = 90"
proof -
  have d: "token_view env0 fee_store0 destination0 = Some (plain_view (token0 7 8 50) (token_bytes (token0 7 8 50)))"
    "fee_config env0 fee_store0 mint_info0 = Some fee_config0"
    by (auto simp: token_view_Some fee_config_Some mint_view_Some)
  have "\<exists>st'. process_withdraw_withheld_tokens_from_mint env0 fee_store0 token_2022_id
      [mint_info0, destination0, owner0] = Ok st'"
    by (simp add: process_withdraw_withheld_tokens_from_mint_def validate_owner_def Let_def acquire_def
        checked_add_def)
  then obtain st' where st': "process_withdraw_withheld_tokens_from_mint env0 fee_store0 token_2022_id
      [mint_info0, destination0, owner0] = Ok st'" by blast
  from withdraw_from_mint_conserves [OF pack_ok_env0 this] show ?thesis
    using st' by (auto simp: d fee_config0_def)
qed

end
