(* ===== verification/TokenCodec.thy ===== *)
theory TokenCodec
  imports TokenExamples TokenInstruction TokenUi TokenFees "HOL-Library.AList"
begin

text \<open>
  Properties of the token program's encodings: the TLV data of an account refine an
  association list, instructions and decimal amounts survive being written and read, and
  harvesting moves withheld fees without losing any.
\<close>

section \<open>TLV data as an association list\<close>

lemma update_entry: "t \<notin> fst ` set es1 \<Longrightarrow> AList.update t w (es1 @ (t, v) # es2) = es1 @ (t, w) # es2"
  by (induction es1) auto

lemma update_new: "t \<notin> fst ` set es \<Longrightarrow> AList.update t w es = es @ [(t, w)]"
  by (induction es) auto

context extension_impl begin

lemma get_mut_entries:
  assumes "entries_ok (base_account_type S) es" "tlv_data s = tlv_bytes es n"
    and "swe_get_extension_mut S X s = Ok (at, v)"
  obtains es1 old es2 where "es = es1 @ (ext_type X, old) # es2" "ext_type X \<notin> fst ` set es1"
    "at = length (concat (map entry_bytes es1)) + 4" "length old = pod_size (ext_pod X)" "v = pod_decode (ext_pod X) old"
proof -
  from assms(3) have f: "found S s at"
    and v: "v = pod_decode (ext_pod X) (take (pod_size (ext_pod X)) (drop at (tlv_data s)))"
    by (simp_all add: get_extension_mut_iff)
  then obtain j where type: "get_account_type (ext_type X) = base_account_type S"
    and j: "walk (ext_type X) (tlv_data s) False 0 j" "at = j + 4"
      "header_len (tlv_data s) j = pod_size (ext_pod X)"
    by (auto simp: found_def)
  from j(1) have "get_extension_indices_from (ext_type X) (tlv_data s) False 0 = Ok (get_tlv_indices j)"
    by (auto simp: walk_iff)
  moreover have "get_extension_indices_from (ext_type X) (tlv_bytes es n) False 0 =
      (case entry_offset (ext_type X) es of
         Some k \<Rightarrow> Ok (get_tlv_indices k) | None \<Rightarrow> Fail PE_InvalidAccountData)"
    using walk_entries [of "ext_type X" es "[]" 0 n False] assms(1) type type_initialized
    by (simp cong: option.case_cong)
  ultimately obtain k where k: "entry_offset (ext_type X) es = Some k" "get_tlv_indices k = get_tlv_indices j"
    using assms(2) by (auto split: option.splits)
  from arg_cong [OF k(2), of type_start] have k: "entry_offset (ext_type X) es = Some j"
    using k(1) by simp
  from entry_offset_Some [OF k] obtain es1 old es2 where
    es: "es = es1 @ (ext_type X, old) # es2" "ext_type X \<notin> fst ` set es1"
    "j = length (concat (map entry_bytes es1))" by blast
  have "length old < 2 ^ 16" using assms(1) es(1) by (auto simp: entries_ok_def)
  with j(3) es have len: "length old = pod_size (ext_pod X)"
    using header_entry(2) [of "concat (map entry_bytes es1)" j old "ext_type X" "tlv_bytes es2 n"]
    by (simp add: assms(2) tlv_bytes_def)
  have "take (pod_size (ext_pod X)) (drop at (tlv_data s)) = old"
    by (simp add: assms(2) es tlv_bytes_def entry_bytes_def bytes_simps j(2) flip: len)
  with es len j(2) v show thesis by (intro that) auto
qed

lemma put_entries:
  assumes "entries_ok (base_account_type S) es" "tlv_data s = tlv_bytes es n"
    and "swe_get_extension_mut S X s = Ok (at, v)"
  shows "tlv_data (put_extension X at w s) = tlv_bytes (AList.update (ext_type X) (pod_encode (ext_pod X) w) es) n"
proof -
  from get_mut_entries [OF assms] obtain es1 old es2 where
    es: "es = es1 @ (ext_type X, old) # es2" "ext_type X \<notin> fst ` set es1"
    "at = length (concat (map entry_bytes es1)) + 4" "length old = pod_size (ext_pod X)" by metis
  show ?thesis
    using es by (simp add: put_extension_def pod_bytes_of_def assms(2) update_entry tlv_bytes_def entry_bytes_def
        splice_def bytes_simps length_encode)
qed

end

text \<open>C32: TLV data refine an association list of types and values: listing the types gives its keys,
  reading looks a type up, initializing a new extension and writing through the reference that
  reading returned update it, in place for an entry that exists and at its end for a new one.\<close>

theorem tlv_refines_association_list:
  assumes "extension_impl X" "get_account_type (ext_type X) = base_account_type S"
    and "entries_ok (base_account_type S) es" "tlv_data s = tlv_bytes es n"
  shows "swe_get_extension_types s = Ok (map fst es) \<and>
    get_extension S X (tlv_data s) = (case map_of es (ext_type X) of
       None \<Rightarrow> Fail PE_InvalidAccountData | Some v \<Rightarrow> pod_from_bytes (ext_pod X) v) \<and>
    (ext_type X \<notin> fst ` set es \<and> get_tlv_len (ext_type X) \<le> n \<longrightarrow>
       (\<exists>s' at. swe_init_extension S X overwrite s = Ok (s', at, pod_default (ext_pod X)) \<and>
          tlv_data s' = tlv_bytes (AList.update (ext_type X) (pod_encode (ext_pod X) (pod_default (ext_pod X))) es)
            (n - get_tlv_len (ext_type X)))) \<and>
    (\<forall>at v w. swe_get_extension_mut S X s = Ok (at, v) \<longrightarrow>
       tlv_data (put_extension X at w s) = tlv_bytes (AList.update (ext_type X) (pod_encode (ext_pod X) w) es) n)"
proof (intro conjI impI allI)
  show "swe_get_extension_types s = Ok (map fst es)"
    using get_extension_types_entries [OF assms(3), of "[]" 0 n "[]"] assms(4)
    by (simp add: swe_get_extension_types_def get_extension_types_def)
  show "get_extension S X (tlv_data s) = (case map_of es (ext_type X) of
      None \<Rightarrow> Fail PE_InvalidAccountData | Some v \<Rightarrow> pod_from_bytes (ext_pod X) v)"
    unfolding assms(4) by (rule extension_impl.get_extension_entries [OF assms(1,3,2)])
next
  assume new: "ext_type X \<notin> fst ` set es \<and> get_tlv_len (ext_type X) \<le> n"
  then show "\<exists>s' at. swe_init_extension S X overwrite s = Ok (s', at, pod_default (ext_pod X)) \<and>
      tlv_data s' = tlv_bytes (AList.update (ext_type X) (pod_encode (ext_pod X) (pod_default (ext_pod X))) es)
        (n - get_tlv_len (ext_type X))"
    using extension_impl.init_extension_entries [OF assms(1,3,2,4), of overwrite] by (simp add: update_new)
next
  fix at v w assume "swe_get_extension_mut S X s = Ok (at, v)"
  then show "tlv_data (put_extension X at w s) = tlv_bytes (AList.update (ext_type X) (pod_encode (ext_pod X) w) es) n"
    by (rule extension_impl.put_entries [OF assms(1,3,4)])
qed

theorem tlv_refines_association_list_witness:
  "swe_get_extension_types fee_mint_view0 = Ok [ET_TransferFeeConfig] \<and>
   tlv_data (put_extension TransferFeeConfig_ext 4 (fee_config0\<lparr>cfg_withheld_amount := 0\<rparr>) fee_mint_view0) =
     tlv_bytes [(ET_TransferFeeConfig, pod_encode transfer_fee_config_pod (fee_config0\<lparr>cfg_withheld_amount := 0\<rparr>))] 0"
proof -
  let ?es = "[(ET_TransferFeeConfig, pod_encode transfer_fee_config_pod fee_config0)]"
  have "entries_ok (base_account_type Mint_base) ?es"
    by (simp add: entries_ok_def transfer_fee_config.length_encode)
  moreover have "tlv_data fee_mint_view0 = tlv_bytes ?es 0" by (simp add: fee_mint_view0_def)
  ultimately show ?thesis
    using tlv_refines_association_list [OF transfer_fee_config_ext.extension_impl_axioms, of Mint_base ?es fee_mint_view0 0 False]
    by simp
qed

section \<open>Instructions and amounts\<close>

text \<open>C33: unpacking never panics, whatever the bytes, and gives back every instruction that was packed,
  when a text it holds is UTF-8, as the code's strings are.\<close>

theorem instruction_codec:
  "no_panic (token_instruction_unpack input) \<and>
   ((\<forall>s. i = TI_UiAmountToAmount s \<longrightarrow> utf8_valid s) \<longrightarrow> token_instruction_unpack (token_instruction_pack i) = Ok i)"
  using token_instruction_unpack_no_panic token_instruction_round_trip [of i]
  by (auto simp: token_instruction_ok_def split: token_instruction.split)

theorem instruction_codec_witness:
  "token_instruction_unpack (token_instruction_pack (TI_TransferChecked 500 2)) = Ok (TI_TransferChecked 500 2)"
  using instruction_codec [of "[]" "TI_TransferChecked 500 2"] by simp

text \<open>An amount written with a mint's decimals, trimmed or not, is read back as it was, for every
  amount and every number of decimals.\<close>

theorem ui_amount_codec:
  "try_ui_amount_into_amount (amount_to_ui_amount_string amt dec) dec = Ok amt \<and>
   try_ui_amount_into_amount (amount_to_ui_amount_string_trimmed amt dec) dec = Ok amt"
  using ui_amount_round_trip by blast

section \<open>Harvesting\<close>

text \<open>A cell before and after a harvest: in its view only the value of the withheld-fees extension
  is written over, by zero.\<close>

definition harvested :: "token_env \<Rightarrow> pubkey \<Rightarrow> cell \<Rightarrow> cell \<Rightarrow> bool" where
  "harvested E mint_key c c' \<longleftrightarrow> (\<exists>s at x. swe_unpack E Account_base (cell_data c) = Ok s \<and>
     acc_mint (base s) = mint_key \<and>
     swe_get_extension_mut Account_base TransferFeeAmount_ext s = Ok (at, x) \<and>
     c' = c\<lparr>cell_data := swe_buffer (put_extension TransferFeeAmount_ext at (x\<lparr>withheld_amount := 0\<rparr>) s)\<rparr>)"

lemma harvested_view:
  assumes "pack_ok E" "harvested E k c c'"
  shows "\<exists>s s'. swe_unpack E Account_base (cell_data c) = Ok s \<and>
    swe_unpack E Account_base (cell_data c') = Ok s' \<and> base s' = base s \<and> withheld s' = 0 \<and>
    cell_lamports c' = cell_lamports c"
proof -
  from assms(2) obtain s at x where s: "swe_unpack E Account_base (cell_data c) = Ok s"
    and get: "swe_get_extension_mut Account_base TransferFeeAmount_ext s = Ok (at, x)"
    and c': "c' = c\<lparr>cell_data := swe_buffer (put_extension TransferFeeAmount_ext at (x\<lparr>withheld_amount := 0\<rparr>) s)\<rparr>"
    by (auto simp: harvested_def)
  have "swe_unpack E Account_base (cell_data c') =
      Ok (put_extension TransferFeeAmount_ext at (x\<lparr>withheld_amount := 0\<rparr>) s)"
    using account_base.swe_unpack_tlv_update [OF assms(1) s] transfer_fee_amount_ext.length_put_mut [OF get]
    by (simp add: c' put_extension_def)
  with s transfer_fee_amount_ext.put_get [OF get] show ?thesis
    by (simp add: withheld_def c')
qed

text \<open>Harvesting the same cell twice is harvesting it once.\<close>

lemma harvested_trans:
  assumes "pack_ok E" "harvested E k c c1" "harvested E k c1 c2"
  shows "harvested E k c c2"
proof -
  from assms(2) obtain s at x where s: "swe_unpack E Account_base (cell_data c) = Ok s"
    and get: "swe_get_extension_mut Account_base TransferFeeAmount_ext s = Ok (at, x)"
    and c1: "c1 = c\<lparr>cell_data := swe_buffer (put_extension TransferFeeAmount_ext at (x\<lparr>withheld_amount := 0\<rparr>) s)\<rparr>"
    by (auto simp: harvested_def)
  let ?s1 = "put_extension TransferFeeAmount_ext at (x\<lparr>withheld_amount := 0\<rparr>) s"
  have "swe_unpack E Account_base (cell_data c1) = Ok ?s1"
    using account_base.swe_unpack_tlv_update [OF assms(1) s] transfer_fee_amount_ext.length_put_mut [OF get]
    by (simp add: c1 put_extension_def)
  moreover note get1 = transfer_fee_amount_ext.put_get [OF get, of "x\<lparr>withheld_amount := 0\<rparr>"]
  moreover have "put_extension TransferFeeAmount_ext at (x\<lparr>withheld_amount := 0\<rparr>) ?s1 = ?s1"
    by (rule transfer_fee_amount_ext.put_self [OF get1])
  ultimately have "c2 = c1" using assms(3) by (auto simp: harvested_def c1)
  with assms(2) show ?thesis by simp
qed

lemma harvest_from_account_cell:
  assumes "harvest_from_account E held st mint_key info = Ok (st', n)"
  shows "harvested E mint_key (st (ai_cell info)) (st' (ai_cell info)) \<and>
    ai_owner info = token_2022_id \<and> (\<forall>c. c \<noteq> ai_cell info \<longrightarrow> st' c = st c)"
  using assms
  by (auto simp: harvest_from_account_def ok_simps harvested_def account_data_def set_data_def
      check_program_account_def split: if_splits)

lemma harvest_to_mint_cells:
  assumes "pack_ok E" "harvest_to_mint E held mint_key infos st n = Ok (st', n')"
  shows "st' k = st k \<or> harvested E mint_key (st k) (st' k) \<and>
    (\<exists>info \<in> set infos. ai_cell info = k \<and> ai_owner info = token_2022_id)"
  using assms(2)
proof (induction infos arbitrary: st n)
  case (Cons info infos)
  let ?h = "harvest_from_account E held st mint_key info"
  from Cons.prems consider (skip) "harvest_to_mint E held mint_key infos st n = Ok (st', n')"
    | (take) st1 amt m where "?h = Ok (st1, amt)" "harvest_to_mint E held mint_key infos st1 m = Ok (st', n')"
    unfolding harvest_to_mint.simps attempt_case_eq_Ok by (auto simp: ok_simps)
  then show ?case
  proof cases
    case skip
    from Cons.IH [OF this] show ?thesis by auto
  next
    case take
    from harvest_from_account_cell [OF take(1)] Cons.IH [OF take(2)]
      harvested_trans [OF assms(1), of mint_key "st k" "st1 k" "st' k"]
    show ?thesis by (cases "k = ai_cell info") auto
  qed
qed simp

text \<open>C34: harvesting loses nothing and changes nothing else. What the mint has withheld and what
  the accounts have withheld add up to what they did before. In the mint's cell only the value of
  its fee extension is written over, and of that only the withheld amount changes. A given
  account's cell is as it was, or it is a token account of the mint, owned by the program, in whose
  view only the value of the withheld-fees extension is written over, by zero: its balance, owner,
  other fields and extensions and its lamports stay. No other cell changes.\<close>

theorem harvest_conserves:
  assumes "pack_ok E" "process_harvest_withheld_tokens_to_mint E st (mint_info # infos) = Ok st'"
    and "A = ai_cell ` set infos - {ai_cell mint_info}"
  shows "\<exists>c c'. fee_config E st mint_info = Some c \<and> fee_config E st' mint_info = Some c' \<and>
    c' = c\<lparr>cfg_withheld_amount := cfg_withheld_amount c'\<rparr> \<and>
    unat (cfg_withheld_amount c') + sum (withheld_in E st') A = unat (cfg_withheld_amount c) + sum (withheld_in E st) A \<and>
    (\<exists>mint at. mint_view E st mint_info = Some mint \<and>
      swe_get_extension_mut Mint_base TransferFeeConfig_ext mint = Ok (at, c) \<and>
      st' (ai_cell mint_info) = (st (ai_cell mint_info))
        \<lparr>cell_data := swe_buffer (put_extension TransferFeeConfig_ext at c' mint)\<rparr>) \<and>
    (\<forall>k \<in> A. st' k = st k \<or> harvested E (ai_key mint_info) (st k) (st' k) \<and>
      (\<exists>s s'. swe_unpack E Account_base (cell_data (st k)) = Ok s \<and>
        swe_unpack E Account_base (cell_data (st' k)) = Ok s' \<and>
        base s' = base s \<and> withheld s' = 0 \<and> cell_lamports (st' k) = cell_lamports (st k)) \<and>
      (\<exists>info \<in> set infos. ai_cell info = k \<and> ai_owner info = token_2022_id)) \<and>
    (\<forall>k. k \<notin> A \<and> k \<noteq> ai_cell mint_info \<longrightarrow> st' k = st k)"
proof -
  let ?m = "ai_cell mint_info"
  from assms(2) obtain mint at x st1 n where v: "mint_view E st mint_info = Some mint"
    and get: "swe_get_extension_mut Mint_base TransferFeeConfig_ext mint = Ok (at, x)"
    and loop: "harvest_to_mint E [?m] (ai_key mint_info) infos st (cfg_withheld_amount x) = Ok (st1, n)"
    and st': "st' = set_data st1 mint_info (swe_buffer
      (put_extension TransferFeeConfig_ext at (x\<lparr>cfg_withheld_amount := n\<rparr>) mint))"
    by (auto simp: process_harvest_withheld_tokens_to_mint_def next_account_info_def ok_simps mint_view_Some)
  note h = harvest_to_mint_Ok [OF assms(1) loop, of "insert ?m A"]
  have A: "finite A" "?m \<notin> A" "ai_cell ` set infos \<subseteq> insert ?m A" by (auto simp: assms(3))
  have "withheld_in E st1 ?m = withheld_in E st ?m" using h A by (intro withheld_in_cong) simp
  with h A have sum: "unat n + sum (withheld_in E st1) A = unat (cfg_withheld_amount x) + sum (withheld_in E st) A"
    by simp
  have other: "st' k = st1 k" if "k \<noteq> ?m" for k using that by (simp add: st')
  then have "sum (withheld_in E st') A = sum (withheld_in E st1) A"
    using A(2) by (intro sum.cong refl withheld_in_cong) metis
  moreover have "fee_config E st' mint_info = Some (x\<lparr>cfg_withheld_amount := n\<rparr>)"
    by (rule fee_config_written [OF assms(1) v get]) (simp add: st')
  moreover have "fee_config E st mint_info = Some x" using v get by (auto simp: fee_config_Some)
  moreover have "st' k = st k" if "k \<notin> A" "k \<noteq> ?m" for k
    using that h A other by (auto simp: assms(3))
  moreover have "\<exists>mint at. mint_view E st mint_info = Some mint \<and>
      swe_get_extension_mut Mint_base TransferFeeConfig_ext mint = Ok (at, x) \<and>
      st' ?m = (st ?m)\<lparr>cell_data := swe_buffer
        (put_extension TransferFeeConfig_ext at (x\<lparr>cfg_withheld_amount := n\<rparr>) mint)\<rparr>"
    using v get h A by (auto simp: st' set_data_def)
  moreover have "st' k = st k \<or> harvested E (ai_key mint_info) (st k) (st' k) \<and>
      (\<exists>s s'. swe_unpack E Account_base (cell_data (st k)) = Ok s \<and>
        swe_unpack E Account_base (cell_data (st' k)) = Ok s' \<and>
        base s' = base s \<and> withheld s' = 0 \<and> cell_lamports (st' k) = cell_lamports (st k)) \<and>
      (\<exists>info \<in> set infos. ai_cell info = k \<and> ai_owner info = token_2022_id)" if "k \<in> A" for k
  proof -
    from that A(2) have "st' k = st1 k" using other by metis
    with harvest_to_mint_cells [OF assms(1) loop, of k] harvested_view [OF assms(1)]
    show ?thesis by auto
  qed
  ultimately show ?thesis
    by (intro exI [of _ x] exI [of _ "x\<lparr>cfg_withheld_amount := n\<rparr>"]) (use sum in simp)
qed

text \<open>An account with 5 tokens withheld, at the mint that has 40.\<close>

definition withheld_view0 :: "token_account state_with_extensions_mut" where
  "withheld_view0 = \<lparr>base = token0 7 9 100, base_data = token_bytes (token0 7 9 100), padding = [],
     account_type_data = [account_type_to_u8 AT_Account],
     tlv_data = tlv_bytes [(ET_TransferFeeAmount, pod_encode transfer_fee_amount_pod \<lparr>withheld_amount = 5\<rparr>)] 0\<rparr>"

definition withheld_store0 :: store where
  "withheld_store0 = fee_store0(0 := \<lparr>cell_lamports = 10, cell_data = swe_buffer withheld_view0\<rparr>)"

lemma withheld_unpack: "swe_unpack env0 Account_base (swe_buffer withheld_view0) = Ok withheld_view0"
proof -
  have "length (tlv_data withheld_view0) = 12"
    by (simp add: withheld_view0_def tlv_bytes_def transfer_fee_amount.length_encode)
  moreover from this have "tlv_data withheld_view0 \<noteq> []" by auto
  ultimately show ?thesis
    by (simp add: account_base.swe_unpack_iff account_base.shape_def swe_buffer_def)
      (simp add: withheld_view0_def)
qed

lemma withheld_get:
  "swe_get_extension_mut Account_base TransferFeeAmount_ext withheld_view0 = Ok (4, \<lparr>withheld_amount = 5\<rparr>)"
  using transfer_fee_amount_ext.get_extension_mut_single [of Account_base withheld_view0 "\<lparr>withheld_amount = 5\<rparr>" 0]
  by (simp add: withheld_view0_def)

lemma withheld_store_data:
  "account_data withheld_store0 source0 = swe_buffer withheld_view0"
  "account_data withheld_store0 mint_info0 = account_data fee_store0 mint_info0"
  "acc_mint (base withheld_view0) = 7"
  by (simp_all add: account_data_def withheld_store0_def withheld_view0_def)

theorem harvest_conserves_witness:
  "\<exists>st' c'. process_harvest_withheld_tokens_to_mint env0 withheld_store0 [mint_info0, source0] = Ok st' \<and>
    fee_config env0 st' mint_info0 = Some c' \<and> unat (cfg_withheld_amount c') + withheld_in env0 st' 0 = 45"
proof -
  have "\<exists>st'. process_harvest_withheld_tokens_to_mint env0 withheld_store0 [mint_info0, source0] = Ok st'"
    by (simp add: process_harvest_withheld_tokens_to_mint_def next_account_info_def harvest_from_account_def
        acquire_def withheld_store_data withheld_unpack withheld_get check_program_account_def checked_add_def)
  then obtain st' where st': "process_harvest_withheld_tokens_to_mint env0 withheld_store0 [mint_info0, source0] = Ok st'" by blast
  have "withheld_in env0 withheld_store0 0 = 5" "fee_config env0 withheld_store0 mint_info0 = Some fee_config0"
    by (simp_all add: withheld_in_def withheld_store0_def withheld_unpack withheld_def withheld_get)
      (auto simp: fee_config_Some mint_view_Some withheld_store_data(2) simp flip: withheld_store0_def)
  with harvest_conserves [OF pack_ok_env0 st' refl] st' show ?thesis by auto
qed

end
