(* ===== verification/PgTypes.thy ===== *)
theory PgTypes
  imports Prelude
begin

text \<open>
  The data of Playnet, the in-browser runtime (\<open>wasm/playnet/src\<close>): accounts, errors
  and messages of the SDK as far as the runtime looks at them, the transaction history
  (\<open>runtime/transaction_history.rs\<close>) and the results of the RPC methods (\<open>types.rs\<close>).
  An \<open>Option\<close> of an error's message is the option of the error: \<open>to_string\<close> is the
  SDK's. Accessors that \<open>unwrap\<close> panic.
\<close>

section \<open>Data of the SDK\<close>

type_synonym signature = "512 word"

record account =
  acct_lamports :: u64
  acct_data :: bytes
  acct_owner :: pubkey
  acct_executable :: bool
  acct_rent_epoch :: u64

definition default_account :: account where
  "default_account = \<lparr>acct_lamports = 0, acct_data = [], acct_owner = 0,
     acct_executable = False, acct_rent_epoch = 0\<rparr>"

definition account_new :: "u64 \<Rightarrow> nat \<Rightarrow> pubkey \<Rightarrow> account" where
  "account_new l space owner =
     default_account\<lparr>acct_lamports := l, acct_data := replicate space 0, acct_owner := owner\<rparr>"

text \<open>The errors the runtime names; \<open>External\<close> ones are raised only by the SDK.\<close>

datatype system_error =
    SE_AccountAlreadyInUse | SE_ResultWithNegativeLamports
  | SE_InvalidAccountDataLength | SE_AddressWithSeedMismatch

datatype nonce_error = NE_NoRecentBlockhashes | NE_NotExpired | NE_BadAccountState

text \<open>\<open>IE_Nonce e merge\<close> is \<open>nonce_to_instruction_error(e, merge)\<close>, \<open>IE_System e\<close> and
  \<open>IE_From_Nonce e\<close> are \<open>e.into()\<close>.\<close>

datatype instruction_error =
    IE_InvalidArgument | IE_InvalidAccountOwner | IE_InsufficientFunds
  | IE_MissingRequiredSignature | IE_System system_error | IE_Nonce nonce_error bool
  | IE_From_Nonce nonce_error | IE_External nat

datatype transaction_error =
    TXE_AccountNotFound | TXE_ProgramAccountNotFound | TXE_InvalidWritableAccount
  | TXE_InvalidProgramForExecution | TXE_CallChainTooDeep | TXE_InvalidAccountForFee
  | TXE_InsufficientFundsForFee | TXE_MissingSignatureForFee
  | TXE_MaxLoadedAccountsDataSizeExceeded | TXE_AlreadyProcessed | TXE_InvalidAccountIndex
  | TXE_InstructionError u8 instruction_error | TXE_External nat

record compiled_instruction =
  ci_program_id_index :: u8
  ci_accounts :: "u8 list"
  ci_data :: bytes

text \<open>
  A sanitized message answers the queries of the SDK's \<open>SanitizedMessage\<close> the runtime
  makes: its keys and instructions, and, by position, whether an account is writable, signs,
  or is a key other than a loader's.
\<close>

record sanitized_message =
  msg_account_keys :: "pubkey list"
  msg_instructions :: "compiled_instruction list"
  msg_num_required_signatures :: u8
  msg_recent_blockhash :: hash
  msg_program_id :: "compiled_instruction \<Rightarrow> pubkey"
  msg_is_writable :: "nat \<Rightarrow> bool"
  msg_is_signer :: "nat \<Rightarrow> bool"
  msg_is_non_loader_key :: "nat \<Rightarrow> bool"
  msg_upgradeable_loader_present :: bool

datatype transaction_version = TV_Legacy | TV_Number u8

record versioned_transaction =
  vt_version :: transaction_version
  vt_bytes :: bytes

record sanitized_transaction =
  tx_message :: sanitized_message
  tx_signatures :: "signature list"
  tx_signature :: signature
  tx_versioned :: versioned_transaction

record return_data =
  rd_program_id :: pubkey
  rd_data :: bytes

section \<open>Transaction history\<close>

record confirmed_transaction_meta =
  ctm_fee :: u64
  ctm_pre_balances :: "u64 list"
  ctm_post_balances :: "u64 list"
  ctm_log_messages :: "string list option"
  ctm_err :: "transaction_error option"
  ctm_compute_units_consumed :: "u64 option"

text \<open>
  The fields \<open>inner_instructions\<close>, \<open>pre_token_balances\<close>, \<open>post_token_balances\<close> and
  \<open>loaded_addresses\<close> are never set, and their getters return \<open>None\<close> whatever they hold.
\<close>

definition ctm_inner_instructions :: "confirmed_transaction_meta \<Rightarrow> u8 option" where
  "ctm_inner_instructions meta = None"

definition ctm_pre_token_balances :: "confirmed_transaction_meta \<Rightarrow> u8 option" where
  "ctm_pre_token_balances meta = None"

definition ctm_post_token_balances :: "confirmed_transaction_meta \<Rightarrow> u8 option" where
  "ctm_post_token_balances meta = None"

definition ctm_loaded_addresses :: "confirmed_transaction_meta \<Rightarrow> u8 option" where
  "ctm_loaded_addresses meta = None"

record transaction_data =
  td_slot :: u64
  td_tx :: versioned_transaction
  td_meta :: "confirmed_transaction_meta option"
  td_block_time :: "i64 option"

section \<open>Results of the RPC methods\<close>

record wasm_account =
  wa_lamports :: u64
  wa_data :: bytes
  wa_owner :: pubkey
  wa_executable :: bool
  wa_rent_epoch :: u64

definition wasm_account_from :: "account \<Rightarrow> wasm_account" where
  "wasm_account_from a = \<lparr>wa_lamports = acct_lamports a, wa_data = acct_data a,
     wa_owner = acct_owner a, wa_executable = acct_executable a, wa_rent_epoch = acct_rent_epoch a\<rparr>"

record get_latest_blockhash_result =
  lbr_blockhash :: hash
  lbr_last_valid_block_height :: u64

record simulate_transaction_result =
  str_result :: "(transaction_error, unit) result"
  str_pre_accounts :: "(pubkey \<times> account) list"
  str_post_accounts :: "(pubkey \<times> account) list"
  str_logs :: "string list"
  str_units_consumed :: u64
  str_return_data :: "return_data option"

definition simulate_new_error :: "transaction_error \<Rightarrow> simulate_transaction_result" where
  "simulate_new_error err = \<lparr>str_result = Fail err, str_pre_accounts = [], str_post_accounts = [],
     str_logs = [], str_units_consumed = 0, str_return_data = None\<rparr>"

text \<open>The \<open>error()\<close> getter of a result: the error it holds.\<close>

definition error_of :: "('e, 'a) result \<Rightarrow> 'e option" where
  "error_of r = (case r of Inl (Err e) \<Rightarrow> Some e | _ \<Rightarrow> None)"

definition simulate_error :: "simulate_transaction_result \<Rightarrow> transaction_error option" where
  "simulate_error r = error_of (str_result r)"

type_synonym send_transaction_result = "(transaction_error, signature) result"

definition send_error :: "send_transaction_result \<Rightarrow> transaction_error option" where
  "send_error r = error_of r"

text \<open>\<open>tx_hash\<close> unwraps the result; the text form of the signature is the SDK's.\<close>

definition send_tx_hash :: "send_transaction_result \<Rightarrow> (unit, signature) result" where
  "send_tx_hash r = (case r of Inr s \<Rightarrow> Ok s | Inl _ \<Rightarrow> Panicked)"

datatype commitment_level = CL_Processed | CL_Confirmed | CL_Finalized

record transaction_status =
  ts_confirmation_status :: "commitment_level option"
  ts_confirmations :: "nat option"
  ts_slot :: u64
  ts_err :: "transaction_error option"

type_synonym get_transaction_result = "transaction_data option"

definition unwrap :: "'a option \<Rightarrow> ('e, 'a) result" where
  "unwrap v = (case v of Some x \<Rightarrow> Ok x | None \<Rightarrow> Panicked)"

lemma unwrap_simps [simp]: "unwrap (Some x) = Ok x" "unwrap None = Panicked"
  by (simp_all add: unwrap_def)

lemma unwrap_eq_Ok [ok_simps]: "unwrap v = Inr x \<longleftrightarrow> v = Some x"
  by (cases v) auto

definition gtr_exists :: "get_transaction_result \<Rightarrow> bool" where
  "gtr_exists r \<longleftrightarrow> r \<noteq> None"

definition gtr_block_time :: "get_transaction_result \<Rightarrow> (unit, i64 option) result" where
  "gtr_block_time r = try_bind (unwrap r) (\<lambda>d. Ok (td_block_time d))"

definition gtr_version :: "get_transaction_result \<Rightarrow> (unit, u8 option) result" where
  "gtr_version r = try_bind (unwrap r) (\<lambda>d. Ok (case vt_version (td_tx d) of
      TV_Legacy \<Rightarrow> None | TV_Number version \<Rightarrow> Some version))"

definition gtr_meta :: "get_transaction_result \<Rightarrow> (unit, confirmed_transaction_meta) result" where
  "gtr_meta r = try_bind (unwrap r) (\<lambda>d. unwrap (td_meta d))"

text \<open>\<open>bincode\<close> and \<open>base64\<close> are parameters.\<close>

definition gtr_transaction :: "(bytes \<Rightarrow> string) \<Rightarrow> get_transaction_result \<Rightarrow> (unit, string) result" where
  "gtr_transaction base64_encode r = try_bind (unwrap r) (\<lambda>d. Ok (base64_encode (vt_bytes (td_tx d))))"

end
