(* ===== verification/PgNonce.thy ===== *)
theory PgNonce
  imports PgTypes
begin

text \<open>
  Durable nonce accounts (\<open>runtime/nonce_keyed_account.rs\<close>) and the interface through
  which the builtin programs reach the accounts of an instruction. The transaction
  context, its borrowed accounts and the nonce state versions belong to the SDK: they are
  the parameters \<open>'c\<close> and \<open>'v\<close> and the operations of \<open>runtime_ops\<close>, and
  \<open>lamport_laws\<close>, \<open>data_laws\<close> and \<open>nonce_laws\<close> state the documented behaviour the programs rely on.
\<close>

section \<open>The invocation interface\<close>

record nonce_data =
  nd_authority :: pubkey
  nd_durable_nonce :: hash
  nd_lamports_per_signature :: u64

datatype nonce_state = NS_Uninitialized | NS_Initialized nonce_data

datatype authorize_nonce_error = ANE_Uninitialized | ANE_MissingRequiredSignature pubkey

text \<open>
  Accounts are named by their position in the instruction. \<open>ro_borrow\<close> is
  \<open>try_borrow_instruction_account\<close>; the getters and setters below it are those of the
  \<open>BorrowedAccount\<close> it yields, and a setter returns the context after it. A handler drops
  a borrow before it takes the next one, so no two are alive at once.
  \<open>ro_recent_blockhashes\<close> and \<open>ro_rent\<close> are the checked sysvar lookups of the account at
  a position; a rent is its \<open>minimum_balance\<close>.
\<close>

record ('c, 'v) runtime_ops =
  ro_check_number :: "'c \<Rightarrow> nat \<Rightarrow> (instruction_error, unit) result"
  ro_index :: "'c \<Rightarrow> nat \<Rightarrow> (instruction_error, nat) result"
  ro_key_at :: "'c \<Rightarrow> nat \<Rightarrow> (instruction_error, pubkey) result"
  ro_is_signer :: "'c \<Rightarrow> nat \<Rightarrow> (instruction_error, bool) result"
  ro_borrow :: "'c \<Rightarrow> nat \<Rightarrow> (instruction_error, unit) result"
  ro_get_key :: "'c \<Rightarrow> nat \<Rightarrow> pubkey"
  ro_is_writable :: "'c \<Rightarrow> nat \<Rightarrow> bool"
  ro_lamports :: "'c \<Rightarrow> nat \<Rightarrow> u64"
  ro_data :: "'c \<Rightarrow> nat \<Rightarrow> bytes"
  ro_owner :: "'c \<Rightarrow> nat \<Rightarrow> pubkey"
  ro_set_data_length :: "'c \<Rightarrow> nat \<Rightarrow> nat \<Rightarrow> (instruction_error, 'c) result"
  ro_set_owner :: "'c \<Rightarrow> nat \<Rightarrow> pubkey \<Rightarrow> (instruction_error, 'c) result"
  ro_checked_add_lamports :: "'c \<Rightarrow> nat \<Rightarrow> u64 \<Rightarrow> (instruction_error, 'c) result"
  ro_checked_sub_lamports :: "'c \<Rightarrow> nat \<Rightarrow> u64 \<Rightarrow> (instruction_error, 'c) result"
  ro_get_state :: "'c \<Rightarrow> nat \<Rightarrow> (instruction_error, 'v) result"
  ro_set_state :: "'c \<Rightarrow> nat \<Rightarrow> 'v \<Rightarrow> (instruction_error, 'c) result"
  ro_state :: "'v \<Rightarrow> nonce_state"
  ro_versions_new :: "nonce_state \<Rightarrow> 'v"
  ro_upgrade :: "'v \<Rightarrow> 'v option"
  ro_authorize :: "'v \<Rightarrow> pubkey list \<Rightarrow> pubkey \<Rightarrow> (authorize_nonce_error, 'v) result"
  ro_instruction_data :: "'c \<Rightarrow> (instruction_error, bytes) result"
  ro_signers :: "'c \<Rightarrow> (instruction_error, pubkey list) result"
  ro_recent_blockhashes :: "'c \<Rightarrow> nat \<Rightarrow> (instruction_error, hash list) result"
  ro_rent :: "'c \<Rightarrow> nat \<Rightarrow> (instruction_error, nat \<Rightarrow> u64) result"
  ro_create_with_seed :: "pubkey \<Rightarrow> string \<Rightarrow> pubkey \<Rightarrow> (instruction_error, pubkey) result"
  ro_sdk_checked_add :: "u64 \<Rightarrow> u64 \<Rightarrow> (instruction_error, u64) result"
  ro_from_blockhash :: "hash \<Rightarrow> hash"
  ro_blockhash :: hash
  ro_lamports_per_signature :: u64
  ro_merge_nonce_error :: bool
  ro_transfer_zero_check :: bool
  ro_system_program :: pubkey
  ro_max_data_length :: u64

text \<open>The key of an instruction's account, looked up through the transaction.\<close>

definition instruction_key :: "('c, 'v) runtime_ops \<Rightarrow> 'c \<Rightarrow> nat \<Rightarrow> (instruction_error, pubkey) result" where
  "instruction_key R c i = try_bind (ro_index R c i) (ro_key_at R c)"

section \<open>Nonce accounts\<close>

definition advance_nonce_account ::
  "('c, 'v) runtime_ops \<Rightarrow> 'c \<Rightarrow> nat \<Rightarrow> pubkey list \<Rightarrow> (instruction_error, 'c) result" where
  "advance_nonce_account R c account signers =
     (if \<not> ro_is_writable R c account then Fail IE_InvalidArgument
      else
        try_bind (ro_get_state R c account) (\<lambda>state. case ro_state R state of
          NS_Initialized data \<Rightarrow>
            if nd_authority data \<notin> set signers then Fail IE_MissingRequiredSignature
            else
              let next_durable_nonce = ro_from_blockhash R (ro_blockhash R) in
              if nd_durable_nonce data = next_durable_nonce
              then Fail (IE_Nonce NE_NotExpired (ro_merge_nonce_error R))
              else ro_set_state R c account (ro_versions_new R (NS_Initialized
                \<lparr>nd_authority = nd_authority data, nd_durable_nonce = next_durable_nonce,
                 nd_lamports_per_signature = ro_lamports_per_signature R\<rparr>))
        | NS_Uninitialized \<Rightarrow> Fail (IE_Nonce NE_BadAccountState (ro_merge_nonce_error R))))"

text \<open>The first half of a withdrawal: who must sign, and the state after it.\<close>

definition withdraw_check ::
  "('c, 'v) runtime_ops \<Rightarrow> 'c \<Rightarrow> nat \<Rightarrow> u64 \<Rightarrow> (nat \<Rightarrow> u64) \<Rightarrow> nonce_state \<Rightarrow>
   (instruction_error, 'c \<times> pubkey) result" where
  "withdraw_check R c from lamports rent state = (case state of
      NS_Uninitialized \<Rightarrow>
        if lamports > ro_lamports R c from then Fail IE_InsufficientFunds
        else Ok (c, ro_get_key R c from)
    | NS_Initialized data \<Rightarrow>
        try_bind
          (if lamports = ro_lamports R c from then
             if nd_durable_nonce data = ro_from_blockhash R (ro_blockhash R)
             then Fail (IE_Nonce NE_NotExpired (ro_merge_nonce_error R))
             else ro_set_state R c from (ro_versions_new R NS_Uninitialized)
           else
             try_bind (ro_sdk_checked_add R lamports (rent (length (ro_data R c from)))) (\<lambda>amount.
             if amount > ro_lamports R c from then Fail IE_InsufficientFunds else Ok c))
          (\<lambda>c. Ok (c, nd_authority data)))"

definition withdraw_nonce_account ::
  "('c, 'v) runtime_ops \<Rightarrow> 'c \<Rightarrow> nat \<Rightarrow> u64 \<Rightarrow> nat \<Rightarrow> (nat \<Rightarrow> u64) \<Rightarrow> pubkey list \<Rightarrow>
   (instruction_error, 'c) result" where
  "withdraw_nonce_account R c from lamports to rent signers =
     try_bind (ro_borrow R c from) (\<lambda>_.
     if \<not> ro_is_writable R c from then Fail IE_InvalidArgument
     else
       try_bind (ro_get_state R c from) (\<lambda>state.
       try_bind (withdraw_check R c from lamports rent (ro_state R state)) (\<lambda>(c, signer).
       if signer \<notin> set signers then Fail IE_MissingRequiredSignature
       else
         try_bind (ro_checked_sub_lamports R c from lamports) (\<lambda>c.
         try_bind (ro_borrow R c to) (\<lambda>_.
         ro_checked_add_lamports R c to lamports)))))"

definition initialize_nonce_account ::
  "('c, 'v) runtime_ops \<Rightarrow> 'c \<Rightarrow> nat \<Rightarrow> pubkey \<Rightarrow> (nat \<Rightarrow> u64) \<Rightarrow> (instruction_error, 'c) result" where
  "initialize_nonce_account R c account nonce_authority rent =
     (if \<not> ro_is_writable R c account then Fail IE_InvalidArgument
      else
        try_bind (ro_get_state R c account) (\<lambda>state. case ro_state R state of
          NS_Uninitialized \<Rightarrow>
            if ro_lamports R c account < rent (length (ro_data R c account))
            then Fail IE_InsufficientFunds
            else ro_set_state R c account (ro_versions_new R (NS_Initialized
              \<lparr>nd_authority = nonce_authority,
               nd_durable_nonce = ro_from_blockhash R (ro_blockhash R),
               nd_lamports_per_signature = ro_lamports_per_signature R\<rparr>))
        | NS_Initialized _ \<Rightarrow> Fail (IE_Nonce NE_BadAccountState (ro_merge_nonce_error R))))"

definition authorize_nonce_account ::
  "('c, 'v) runtime_ops \<Rightarrow> 'c \<Rightarrow> nat \<Rightarrow> pubkey \<Rightarrow> pubkey list \<Rightarrow> (instruction_error, 'c) result" where
  "authorize_nonce_account R c account nonce_authority signers =
     (if \<not> ro_is_writable R c account then Fail IE_InvalidArgument
      else
        try_bind (ro_get_state R c account) (\<lambda>state.
        case ro_authorize R state signers nonce_authority of
          Inr versions \<Rightarrow> ro_set_state R c account versions
        | Inl (Err ANE_Uninitialized) \<Rightarrow> Fail (IE_Nonce NE_BadAccountState (ro_merge_nonce_error R))
        | Inl (Err (ANE_MissingRequiredSignature _)) \<Rightarrow> Fail IE_MissingRequiredSignature
        | Inl Panic \<Rightarrow> Panicked))"

section \<open>The documented behaviour of the interface\<close>

text \<open>The nonce state an account holds, when its data decode.\<close>

definition nonce_state_of :: "('c, 'v) runtime_ops \<Rightarrow> 'c \<Rightarrow> nat \<Rightarrow> nonce_state option" where
  "nonce_state_of R c i = (case ro_get_state R c i of Inr v \<Rightarrow> Some (ro_state R v) | Inl _ \<Rightarrow> None)"

text \<open>Two positions of the instruction that name one account of the transaction.\<close>

definition same_account :: "('c, 'v) runtime_ops \<Rightarrow> 'c \<Rightarrow> nat \<Rightarrow> nat \<Rightarrow> bool" where
  "same_account R c i j \<longleftrightarrow> (\<exists>p. ro_index R c i = Ok p \<and> ro_index R c j = Ok p)"

text \<open>
  A setter changes one property of one account. \<open>keeps R c c'\<close>: the instruction's
  positions, keys and permissions are as before.
\<close>

definition keeps :: "('c, 'v) runtime_ops \<Rightarrow> 'c \<Rightarrow> 'c \<Rightarrow> bool" where
  "keeps R c c' \<longleftrightarrow> ro_index R c' = ro_index R c \<and> ro_key_at R c' = ro_key_at R c \<and>
     ro_is_signer R c' = ro_is_signer R c \<and> ro_is_writable R c' = ro_is_writable R c \<and>
     ro_get_key R c' = ro_get_key R c"

definition lamport_laws :: "('c, 'v) runtime_ops \<Rightarrow> bool" where
  "lamport_laws R \<longleftrightarrow>
     (\<forall>c i. ro_borrow R c i = Ok () \<longrightarrow> same_account R c i i) \<and>
     (\<forall>a d n. ro_sdk_checked_add R a d = Ok n \<longrightarrow> unat n = unat a + unat d) \<and>
     (\<forall>c i n c'. ro_checked_sub_lamports R c i n = Ok c' \<longrightarrow>
        keeps R c c' \<and> ro_data R c' = ro_data R c \<and> ro_owner R c' = ro_owner R c \<and>
        ro_get_state R c' = ro_get_state R c \<and>
        (\<forall>j. if same_account R c i j then unat (ro_lamports R c j) = unat (ro_lamports R c' j) + unat n
             else ro_lamports R c' j = ro_lamports R c j)) \<and>
     (\<forall>c i n c'. ro_checked_add_lamports R c i n = Ok c' \<longrightarrow>
        keeps R c c' \<and> ro_data R c' = ro_data R c \<and> ro_owner R c' = ro_owner R c \<and>
        ro_get_state R c' = ro_get_state R c \<and>
        (\<forall>j. if same_account R c i j then unat (ro_lamports R c' j) = unat (ro_lamports R c j) + unat n
             else ro_lamports R c' j = ro_lamports R c j))"

definition data_laws :: "('c, 'v) runtime_ops \<Rightarrow> bool" where
  "data_laws R \<longleftrightarrow>
     (\<forall>c i n c'. ro_set_data_length R c i n = Ok c' \<longrightarrow>
        keeps R c c' \<and> ro_lamports R c' = ro_lamports R c \<and> ro_owner R c' = ro_owner R c \<and>
        (\<forall>j. if same_account R c i j
             then ro_data R c' j = take n (ro_data R c j) @ replicate (n - length (ro_data R c j)) 0
             else ro_data R c' j = ro_data R c j)) \<and>
     (\<forall>c i k c'. ro_set_owner R c i k = Ok c' \<longrightarrow>
        keeps R c c' \<and> ro_lamports R c' = ro_lamports R c \<and> ro_data R c' = ro_data R c \<and>
        (\<forall>j. ro_owner R c' j = (if same_account R c i j then k else ro_owner R c j)))"

definition nonce_laws :: "('c, 'v) runtime_ops \<Rightarrow> bool" where
  "nonce_laws R \<longleftrightarrow>
     (\<forall>s. ro_state R (ro_versions_new R s) = s) \<and>
     (\<forall>c i v c'. ro_set_state R c i v = Ok c' \<longrightarrow>
        keeps R c c' \<and> ro_lamports R c' = ro_lamports R c \<and> ro_owner R c' = ro_owner R c \<and>
        ro_get_state R c' i = Ok v) \<and>
     (\<forall>v signers k v'. ro_authorize R v signers k = Ok v' \<longrightarrow>
        (\<exists>d. ro_state R v = NS_Initialized d \<and> nd_authority d \<in> set signers \<and>
           ro_state R v' = NS_Initialized (d\<lparr>nd_authority := k\<rparr>)))"

section \<open>Consequences of the laws\<close>

lemma same_account_keeps: "keeps R c c' \<Longrightarrow> same_account R c' i j = same_account R c i j"
  by (simp add: keeps_def same_account_def)

lemma keeps_trans: "keeps R c c' \<Longrightarrow> keeps R c' c'' \<Longrightarrow> keeps R c c''"
  by (simp add: keeps_def)

lemma keeps_refl [simp]: "keeps R c c" by (simp add: keeps_def)

lemma same_account_sym: "same_account R c i j = same_account R c j i"
  by (auto simp: same_account_def)

lemma same_account_trans: "same_account R c i j \<Longrightarrow> same_account R c j k \<Longrightarrow> same_account R c i k"
  by (auto simp: same_account_def)

lemma borrow_same: "lamport_laws R \<Longrightarrow> ro_borrow R c i = Ok u \<Longrightarrow> same_account R c i i"
  by (simp add: lamport_laws_def)

lemma sub_lamportsD:
  assumes "lamport_laws R" "ro_checked_sub_lamports R c i n = Ok c'"
  shows "keeps R c c'" "ro_data R c' = ro_data R c" "ro_owner R c' = ro_owner R c"
    "ro_get_state R c' = ro_get_state R c"
    "same_account R c i j \<Longrightarrow> unat (ro_lamports R c j) = unat (ro_lamports R c' j) + unat n"
    "\<not> same_account R c i j \<Longrightarrow> ro_lamports R c' j = ro_lamports R c j"
  using assms unfolding lamport_laws_def by meson+

lemma add_lamportsD:
  assumes "lamport_laws R" "ro_checked_add_lamports R c i n = Ok c'"
  shows "keeps R c c'" "ro_data R c' = ro_data R c" "ro_owner R c' = ro_owner R c"
    "ro_get_state R c' = ro_get_state R c"
    "same_account R c i j \<Longrightarrow> unat (ro_lamports R c' j) = unat (ro_lamports R c j) + unat n"
    "\<not> same_account R c i j \<Longrightarrow> ro_lamports R c' j = ro_lamports R c j"
  using assms unfolding lamport_laws_def by meson+

lemma set_data_lengthD:
  assumes "data_laws R" "ro_set_data_length R c i n = Ok c'"
  shows "keeps R c c'" "ro_lamports R c' = ro_lamports R c" "ro_owner R c' = ro_owner R c"
    "same_account R c i j \<Longrightarrow>
      ro_data R c' j = take n (ro_data R c j) @ replicate (n - length (ro_data R c j)) 0"
    "\<not> same_account R c i j \<Longrightarrow> ro_data R c' j = ro_data R c j"
  using assms unfolding data_laws_def by meson+

lemma set_ownerD:
  assumes "data_laws R" "ro_set_owner R c i k = Ok c'"
  shows "keeps R c c'" "ro_lamports R c' = ro_lamports R c" "ro_data R c' = ro_data R c"
    "ro_owner R c' j = (if same_account R c i j then k else ro_owner R c j)"
  using assms unfolding data_laws_def by blast+

lemma set_stateD:
  assumes "nonce_laws R" "ro_set_state R c i v = Ok c'"
  shows "keeps R c c'" "ro_lamports R c' = ro_lamports R c" "ro_owner R c' = ro_owner R c"
    "ro_get_state R c' i = Ok v"
  using assms unfolding nonce_laws_def by blast+

text \<open>Lamports debited from one account and credited to another.\<close>

definition lamports_moved :: "('c, 'v) runtime_ops \<Rightarrow> 'c \<Rightarrow> 'c \<Rightarrow> nat \<Rightarrow> nat \<Rightarrow> u64 \<Rightarrow> bool" where
  "lamports_moved R c c' from to n \<longleftrightarrow>
     (if same_account R c from to then ro_lamports R c' = ro_lamports R c
      else unat (ro_lamports R c from) = unat (ro_lamports R c' from) + unat n \<and>
        unat (ro_lamports R c' to) = unat (ro_lamports R c to) + unat n \<and>
        (\<forall>j. \<not> same_account R c from j \<and> \<not> same_account R c to j \<longrightarrow>
           ro_lamports R c' j = ro_lamports R c j))"

lemma sub_add_moved:
  assumes L: "lamport_laws R" and sub: "ro_checked_sub_lamports R c from n = Ok c1"
    and add: "ro_checked_add_lamports R c1 to n = Ok c2"
    and refl: "same_account R c from from" "same_account R c to to"
  shows "lamports_moved R c c2 from to n \<and> keeps R c c2 \<and> ro_data R c2 = ro_data R c \<and>
    ro_owner R c2 = ro_owner R c \<and> ro_get_state R c2 = ro_get_state R c"
proof -
  note s = sub_lamportsD [OF L sub] and a = add_lamportsD [OF L add]
  note [simp] = same_account_keeps [OF s(1)]
  have frame: "keeps R c c2" "ro_data R c2 = ro_data R c" "ro_owner R c2 = ro_owner R c"
    "ro_get_state R c2 = ro_get_state R c"
    using s(1-4) a(1-4) by (auto intro: keeps_trans)
  have "lamports_moved R c c2 from to n"
  proof (cases "same_account R c from to")
    case True
    have "ro_lamports R c2 j = ro_lamports R c j" for j
    proof (cases "same_account R c from j")
      case j: True
      then have "same_account R c to j" using True same_account_sym same_account_trans by metis
      with j s(5) [of j] a(5) [of j] have "unat (ro_lamports R c2 j) = unat (ro_lamports R c j)" by simp
      then show ?thesis by (simp add: word_unat_eq_iff)
    next
      case j: False
      then have "\<not> same_account R c to j" using True same_account_trans by metis
      with j s(6) [of j] a(6) [of j] show ?thesis by simp
    qed
    with True show ?thesis by (auto simp: lamports_moved_def)
  next
    case False
    then have "\<not> same_account R c to from" by (simp add: same_account_sym)
    with False refl s(5,6) a(5,6) show ?thesis by (simp add: lamports_moved_def)
  qed
  with frame show ?thesis by blast
qed

section \<open>Effects of the nonce operations\<close>

lemma nonce_state_of_Some:
  "nonce_state_of R c i = Some s \<longleftrightarrow> (\<exists>v. ro_get_state R c i = Ok v \<and> ro_state R v = s)"
  by (auto simp: nonce_state_of_def split: sum.splits)

lemma nonce_state_set:
  assumes "nonce_laws R" "ro_set_state R c i (ro_versions_new R s) = Ok c'"
  shows "nonce_state_of R c' i = Some s"
  using set_stateD [OF assms] assms(1) by (simp add: nonce_state_of_def nonce_laws_def)

lemma advance_nonce_account_Ok:
  assumes "nonce_laws R" "advance_nonce_account R c i signers = Ok c'"
  shows "\<exists>d. nonce_state_of R c i = Some (NS_Initialized d) \<and> nd_authority d \<in> set signers \<and>
    nd_durable_nonce d \<noteq> ro_from_blockhash R (ro_blockhash R) \<and> ro_is_writable R c i \<and>
    nonce_state_of R c' i = Some (NS_Initialized \<lparr>nd_authority = nd_authority d,
      nd_durable_nonce = ro_from_blockhash R (ro_blockhash R),
      nd_lamports_per_signature = ro_lamports_per_signature R\<rparr>)"
proof -
  from assms(2) obtain v where v: "ro_get_state R c i = Ok v" and w: "ro_is_writable R c i"
    by (auto simp: advance_nonce_account_def ok_simps)
  show ?thesis
  proof (cases "ro_state R v")
    case NS_Uninitialized
    with assms(2) v w show ?thesis by (simp add: advance_nonce_account_def)
  next
    case (NS_Initialized d)
    with assms(2) v w nonce_state_set [OF assms(1), of c i _ c'] show ?thesis
      by (auto simp: advance_nonce_account_def ok_simps nonce_state_of_Some Let_def)
  qed
qed

lemma withdraw_check_Ok:
  assumes "nonce_laws R" "lamport_laws R" "withdraw_check R c i n rent s = Ok (c', signer)"
  shows "keeps R c c' \<and> ro_lamports R c' = ro_lamports R c \<and>
    (case s of
       NS_Uninitialized \<Rightarrow> c' = c \<and> signer = ro_get_key R c i \<and> n \<le> ro_lamports R c i
     | NS_Initialized d \<Rightarrow> signer = nd_authority d \<and>
         (if n = ro_lamports R c i then nd_durable_nonce d \<noteq> ro_from_blockhash R (ro_blockhash R) \<and>
            nonce_state_of R c' i = Some NS_Uninitialized
          else c' = c \<and> unat n + unat (rent (length (ro_data R c i))) \<le> unat (ro_lamports R c i)))"
proof (cases s)
  case NS_Uninitialized
  with assms(3) show ?thesis by (auto simp: withdraw_check_def split: if_splits)
next
  case (NS_Initialized d)
  have sum: "\<And>a b m. ro_sdk_checked_add R a b = Ok m \<Longrightarrow> unat m = unat a + unat b"
    using assms(2) by (simp add: lamport_laws_def)
  show ?thesis
  proof (cases "n = ro_lamports R c i")
    case True
    with assms(3) NS_Initialized have "nd_durable_nonce d \<noteq> ro_from_blockhash R (ro_blockhash R)"
      "ro_set_state R c i (ro_versions_new R NS_Uninitialized) = Ok c'" "signer = nd_authority d"
      by (auto simp: withdraw_check_def ok_simps)
    with True NS_Initialized nonce_state_set [OF assms(1)] set_stateD [OF assms(1)]
    show ?thesis by simp
  next
    case False
    with assms(3) NS_Initialized obtain amount where
      "ro_sdk_checked_add R n (rent (length (ro_data R c i))) = Ok amount"
      "\<not> amount > ro_lamports R c i" "c' = c" "signer = nd_authority d"
      by (auto simp: withdraw_check_def ok_simps)
    with False NS_Initialized sum show ?thesis by (auto simp: word_le_nat_alt not_less)
  qed
qed

lemma withdraw_nonce_account_Ok:
  assumes "nonce_laws R" "lamport_laws R" "withdraw_nonce_account R c from n to rent signers = Ok c'"
  shows "\<exists>s. nonce_state_of R c from = Some s \<and> lamports_moved R c c' from to n \<and>
    ro_is_writable R c from \<and>
    (case s of
       NS_Uninitialized \<Rightarrow> ro_get_key R c from \<in> set signers \<and> nonce_state_of R c' from = Some s
     | NS_Initialized d \<Rightarrow> nd_authority d \<in> set signers \<and>
         (if n = ro_lamports R c from then nd_durable_nonce d \<noteq> ro_from_blockhash R (ro_blockhash R) \<and>
            nonce_state_of R c' from = Some NS_Uninitialized
          else nonce_state_of R c' from = Some s \<and>
            unat n + unat (rent (length (ro_data R c from))) \<le> unat (ro_lamports R c from)))"
proof -
  from assms(3) obtain v c1 signer c2 where
    st: "ro_borrow R c from = Ok ()" "ro_is_writable R c from" "ro_get_state R c from = Ok v"
    and chk: "withdraw_check R c from n rent (ro_state R v) = Ok (c1, signer)"
    and sig: "signer \<in> set signers"
    and mv: "ro_checked_sub_lamports R c1 from n = Ok c2" "ro_borrow R c2 to = Ok ()"
      "ro_checked_add_lamports R c2 to n = Ok c'"
    by (auto simp: withdraw_nonce_account_def ok_simps)
  note w = withdraw_check_Ok [OF assms(1,2) chk]
  then have k1: "keeps R c c1" and l1: "ro_lamports R c1 = ro_lamports R c" by auto
  note [simp] = same_account_keeps [OF k1] same_account_keeps [OF sub_lamportsD(1) [OF assms(2) mv(1)]]
  have "same_account R c1 from from" using borrow_same [OF assms(2) st(1)] by simp
  moreover have "same_account R c1 to to" using borrow_same [OF assms(2) mv(2)] by simp
  ultimately have m: "lamports_moved R c1 c' from to n" "ro_get_state R c' = ro_get_state R c1"
    using sub_add_moved [OF assms(2) mv(1,3)] by auto
  from m(1) have moved: "lamports_moved R c c' from to n"
    by (cases "same_account R c from to") (simp_all add: lamports_moved_def l1)
  have ns: "nonce_state_of R c' from = nonce_state_of R c1 from" by (simp add: nonce_state_of_def m(2))
  have s: "nonce_state_of R c from = Some (ro_state R v)" using st(3) by (simp add: nonce_state_of_def)
  show ?thesis
    by (rule exI [of _ "ro_state R v"]) (use w sig moved ns s st(2) in \<open>auto split: nonce_state.splits if_splits\<close>)
qed

lemma initialize_nonce_account_Ok:
  assumes "nonce_laws R" "initialize_nonce_account R c i authority rent = Ok c'"
  shows "nonce_state_of R c i = Some NS_Uninitialized \<and> ro_is_writable R c i \<and>
    rent (length (ro_data R c i)) \<le> ro_lamports R c i \<and>
    nonce_state_of R c' i = Some (NS_Initialized \<lparr>nd_authority = authority,
      nd_durable_nonce = ro_from_blockhash R (ro_blockhash R),
      nd_lamports_per_signature = ro_lamports_per_signature R\<rparr>)"
proof -
  from assms(2) obtain v where v: "ro_get_state R c i = Ok v" and w: "ro_is_writable R c i"
    by (auto simp: initialize_nonce_account_def ok_simps)
  with assms(2) nonce_state_set [OF assms(1), of c i _ c'] show ?thesis
    by (cases "ro_state R v") (auto simp: initialize_nonce_account_def ok_simps nonce_state_of_Some not_less)
qed

lemma authorize_nonce_account_Ok:
  assumes "nonce_laws R" "authorize_nonce_account R c i authority signers = Ok c'"
  shows "\<exists>d. nonce_state_of R c i = Some (NS_Initialized d) \<and> nd_authority d \<in> set signers \<and>
    ro_is_writable R c i \<and> nonce_state_of R c' i = Some (NS_Initialized (d\<lparr>nd_authority := authority\<rparr>))"
proof -
  from assms(2) obtain v where v: "ro_get_state R c i = Ok v" "ro_is_writable R c i"
    by (auto simp: authorize_nonce_account_def ok_simps)
  with assms(2) obtain v' where a: "ro_authorize R v signers authority = Ok v'"
    and s: "ro_set_state R c i v' = Ok c'"
    by (auto simp: authorize_nonce_account_def
        split: sum.split_asm fault.split_asm authorize_nonce_error.split_asm)
  from assms(1) a obtain d where "ro_state R v = NS_Initialized d" "nd_authority d \<in> set signers"
    "ro_state R v' = NS_Initialized (d\<lparr>nd_authority := authority\<rparr>)"
    unfolding nonce_laws_def by blast
  with v set_stateD [OF assms(1) s] show ?thesis by (auto simp: nonce_state_of_Some)
qed

end
