(* ===== verification/PgSystem.thy ===== *)
theory PgSystem
  imports PgNonce
begin

text \<open>
  The system program of Playnet (\<open>runtime/system_instruction_processor.rs\<close>): the
  addresses that may derive from a seed, allocation, assignment, creation and transfers,
  and the dispatch of its instructions.
\<close>

datatype system_instruction =
    SI_CreateAccount u64 u64 pubkey
  | SI_Assign pubkey
  | SI_Transfer u64
  | SI_CreateAccountWithSeed pubkey string u64 u64 pubkey
  | SI_AdvanceNonceAccount
  | SI_WithdrawNonceAccount u64
  | SI_InitializeNonceAccount pubkey
  | SI_AuthorizeNonceAccount pubkey
  | SI_Allocate u64
  | SI_AllocateWithSeed pubkey string u64 pubkey
  | SI_AssignWithSeed pubkey string pubkey
  | SI_TransferWithSeed u64 string pubkey
  | SI_UpgradeNonceAccount

section \<open>Addresses\<close>

record address =
  addr_address :: pubkey
  addr_base :: "pubkey option"

definition address_is_signer :: "address \<Rightarrow> pubkey list \<Rightarrow> bool" where
  "address_is_signer a signers = (case addr_base a of
      Some b \<Rightarrow> b \<in> set signers
    | None \<Rightarrow> addr_address a \<in> set signers)"

definition address_create ::
  "('c, 'v) runtime_ops \<Rightarrow> pubkey \<Rightarrow> (pubkey \<times> string \<times> pubkey) option \<Rightarrow>
   (instruction_error, address) result" where
  "address_create R key with_seed = (case with_seed of
      Some (b, seed, owner) \<Rightarrow>
        try_bind (ro_create_with_seed R b seed owner) (\<lambda>address_with_seed.
        if key \<noteq> address_with_seed then Fail (IE_System SE_AddressWithSeedMismatch)
        else Ok \<lparr>addr_address = key, addr_base = Some b\<rparr>)
    | None \<Rightarrow> Ok \<lparr>addr_address = key, addr_base = None\<rparr>)"

section \<open>Allocation and creation\<close>

definition allocate ::
  "('c, 'v) runtime_ops \<Rightarrow> 'c \<Rightarrow> nat \<Rightarrow> address \<Rightarrow> u64 \<Rightarrow> pubkey list \<Rightarrow> (instruction_error, 'c) result" where
  "allocate R c account address space signers =
     (if \<not> address_is_signer address signers then Fail IE_MissingRequiredSignature
      else if ro_data R c account \<noteq> [] \<or> ro_owner R c account \<noteq> ro_system_program R
      then Fail (IE_System SE_AccountAlreadyInUse)
      else if space > ro_max_data_length R then Fail (IE_System SE_InvalidAccountDataLength)
      else ro_set_data_length R c account (unat space))"

definition assign ::
  "('c, 'v) runtime_ops \<Rightarrow> 'c \<Rightarrow> nat \<Rightarrow> address \<Rightarrow> pubkey \<Rightarrow> pubkey list \<Rightarrow> (instruction_error, 'c) result" where
  "assign R c account address owner signers =
     (if ro_owner R c account = owner then Ok c
      else if \<not> address_is_signer address signers then Fail IE_MissingRequiredSignature
      else ro_set_owner R c account owner)"

definition allocate_and_assign ::
  "('c, 'v) runtime_ops \<Rightarrow> 'c \<Rightarrow> nat \<Rightarrow> address \<Rightarrow> u64 \<Rightarrow> pubkey \<Rightarrow> pubkey list \<Rightarrow>
   (instruction_error, 'c) result" where
  "allocate_and_assign R c to to_address space owner signers =
     try_bind (allocate R c to to_address space signers) (\<lambda>c.
     assign R c to to_address owner signers)"

section \<open>Transfers\<close>

definition transfer_verified ::
  "('c, 'v) runtime_ops \<Rightarrow> 'c \<Rightarrow> nat \<Rightarrow> nat \<Rightarrow> u64 \<Rightarrow> (instruction_error, 'c) result" where
  "transfer_verified R c from to lamports =
     try_bind (ro_borrow R c from) (\<lambda>_.
     if ro_data R c from \<noteq> [] then Fail IE_InvalidArgument
     else if lamports > ro_lamports R c from then Fail (IE_System SE_ResultWithNegativeLamports)
     else
       try_bind (ro_checked_sub_lamports R c from lamports) (\<lambda>c.
       try_bind (ro_borrow R c to) (\<lambda>_.
       ro_checked_add_lamports R c to lamports)))"

text \<open>The key of the account that must sign is looked up for the log message before the
  error is returned, so a failing lookup takes precedence.\<close>

definition transfer ::
  "('c, 'v) runtime_ops \<Rightarrow> 'c \<Rightarrow> nat \<Rightarrow> nat \<Rightarrow> u64 \<Rightarrow> (instruction_error, 'c) result" where
  "transfer R c from to lamports =
     (if \<not> ro_transfer_zero_check R \<and> lamports = 0 then Ok c
      else
        try_bind (ro_is_signer R c from) (\<lambda>signer.
        if \<not> signer then
          try_bind (instruction_key R c from) (\<lambda>_. Fail IE_MissingRequiredSignature)
        else transfer_verified R c from to lamports))"

definition transfer_with_seed ::
  "('c, 'v) runtime_ops \<Rightarrow> 'c \<Rightarrow> nat \<Rightarrow> nat \<Rightarrow> string \<Rightarrow> pubkey \<Rightarrow> nat \<Rightarrow> u64 \<Rightarrow>
   (instruction_error, 'c) result" where
  "transfer_with_seed R c from from_base from_seed from_owner to lamports =
     (if \<not> ro_transfer_zero_check R \<and> lamports = 0 then Ok c
      else
        try_bind (ro_is_signer R c from_base) (\<lambda>signer.
        if \<not> signer then
          try_bind (instruction_key R c from_base) (\<lambda>_. Fail IE_MissingRequiredSignature)
        else
          try_bind (instruction_key R c from_base) (\<lambda>base_key.
          try_bind (ro_create_with_seed R base_key from_seed from_owner) (\<lambda>address_from_seed.
          try_bind (instruction_key R c from) (\<lambda>from_key.
          if from_key \<noteq> address_from_seed then Fail (IE_System SE_AddressWithSeedMismatch)
          else transfer_verified R c from to lamports)))))"

definition create_account ::
  "('c, 'v) runtime_ops \<Rightarrow> 'c \<Rightarrow> nat \<Rightarrow> nat \<Rightarrow> address \<Rightarrow> u64 \<Rightarrow> u64 \<Rightarrow> pubkey \<Rightarrow> pubkey list \<Rightarrow>
   (instruction_error, 'c) result" where
  "create_account R c from to to_address lamports space owner signers =
     try_bind (ro_borrow R c to) (\<lambda>_.
     if ro_lamports R c to > 0 then Fail (IE_System SE_AccountAlreadyInUse)
     else
       try_bind (allocate_and_assign R c to to_address space owner signers) (\<lambda>c.
       transfer R c from to lamports))"

section \<open>Dispatch\<close>

text \<open>Borrow the account at a position, then derive its address.\<close>

definition borrow_address ::
  "('c, 'v) runtime_ops \<Rightarrow> 'c \<Rightarrow> nat \<Rightarrow> (pubkey \<times> string \<times> pubkey) option \<Rightarrow>
   (instruction_error, address) result" where
  "borrow_address R c i with_seed =
     try_bind (ro_borrow R c i) (\<lambda>_.
     try_bind (instruction_key R c i) (\<lambda>key. address_create R key with_seed))"

definition create_account_at ::
  "('c, 'v) runtime_ops \<Rightarrow> 'c \<Rightarrow> (pubkey \<times> string \<times> pubkey) option \<Rightarrow> u64 \<Rightarrow> u64 \<Rightarrow> pubkey \<Rightarrow>
   pubkey list \<Rightarrow> (instruction_error, 'c) result" where
  "create_account_at R c with_seed lamports space owner signers =
     try_bind (ro_check_number R c 2) (\<lambda>_.
     try_bind (instruction_key R c 1) (\<lambda>key.
     try_bind (address_create R key with_seed) (\<lambda>to_address.
     create_account R c 0 1 to_address lamports space owner signers)))"

definition upgrade_nonce_account :: "('c, 'v) runtime_ops \<Rightarrow> 'c \<Rightarrow> (instruction_error, 'c) result" where
  "upgrade_nonce_account R c =
     try_bind (ro_borrow R c 0) (\<lambda>_.
     if ro_owner R c 0 \<noteq> ro_system_program R then Fail IE_InvalidAccountOwner
     else if \<not> ro_is_writable R c 0 then Fail IE_InvalidArgument
     else
       try_bind (ro_get_state R c 0) (\<lambda>nonce_versions. case ro_upgrade R nonce_versions of
         None \<Rightarrow> Fail IE_InvalidArgument
       | Some nonce_versions \<Rightarrow> ro_set_state R c 0 nonce_versions))"

definition run_system_instruction ::
  "('c, 'v) runtime_ops \<Rightarrow> 'c \<Rightarrow> pubkey list \<Rightarrow> system_instruction \<Rightarrow> (instruction_error, 'c) result" where
  "run_system_instruction R c signers instruction = (case instruction of
      SI_CreateAccount lamports space owner \<Rightarrow>
        create_account_at R c None lamports space owner signers
    | SI_CreateAccountWithSeed b seed lamports space owner \<Rightarrow>
        create_account_at R c (Some (b, seed, owner)) lamports space owner signers
    | SI_Assign owner \<Rightarrow>
        try_bind (ro_check_number R c 1) (\<lambda>_.
        try_bind (borrow_address R c 0 None) (\<lambda>address. assign R c 0 address owner signers))
    | SI_Transfer lamports \<Rightarrow>
        try_bind (ro_check_number R c 2) (\<lambda>_. transfer R c 0 1 lamports)
    | SI_TransferWithSeed lamports from_seed from_owner \<Rightarrow>
        try_bind (ro_check_number R c 3) (\<lambda>_.
        transfer_with_seed R c 0 1 from_seed from_owner 2 lamports)
    | SI_AdvanceNonceAccount \<Rightarrow>
        try_bind (ro_check_number R c 1) (\<lambda>_.
        try_bind (ro_borrow R c 0) (\<lambda>_.
        try_bind (ro_recent_blockhashes R c 1) (\<lambda>recent_blockhashes.
        if recent_blockhashes = [] then Fail (IE_From_Nonce NE_NoRecentBlockhashes)
        else advance_nonce_account R c 0 signers)))
    | SI_WithdrawNonceAccount lamports \<Rightarrow>
        try_bind (ro_check_number R c 2) (\<lambda>_.
        try_bind (ro_recent_blockhashes R c 2) (\<lambda>_.
        try_bind (ro_rent R c 3) (\<lambda>rent. withdraw_nonce_account R c 0 lamports 1 rent signers)))
    | SI_InitializeNonceAccount authorized \<Rightarrow>
        try_bind (ro_check_number R c 1) (\<lambda>_.
        try_bind (ro_borrow R c 0) (\<lambda>_.
        try_bind (ro_recent_blockhashes R c 1) (\<lambda>recent_blockhashes.
        if recent_blockhashes = [] then Fail (IE_From_Nonce NE_NoRecentBlockhashes)
        else
          try_bind (ro_rent R c 2) (\<lambda>rent. initialize_nonce_account R c 0 authorized rent))))
    | SI_AuthorizeNonceAccount nonce_authority \<Rightarrow>
        try_bind (ro_check_number R c 1) (\<lambda>_.
        try_bind (ro_borrow R c 0) (\<lambda>_.
        authorize_nonce_account R c 0 nonce_authority signers))
    | SI_UpgradeNonceAccount \<Rightarrow>
        try_bind (ro_check_number R c 1) (\<lambda>_. upgrade_nonce_account R c)
    | SI_Allocate space \<Rightarrow>
        try_bind (ro_check_number R c 1) (\<lambda>_.
        try_bind (borrow_address R c 0 None) (\<lambda>address. allocate R c 0 address space signers))
    | SI_AllocateWithSeed b seed space owner \<Rightarrow>
        try_bind (ro_check_number R c 1) (\<lambda>_.
        try_bind (borrow_address R c 0 (Some (b, seed, owner))) (\<lambda>address.
        allocate_and_assign R c 0 address space owner signers))
    | SI_AssignWithSeed b seed owner \<Rightarrow>
        try_bind (ro_check_number R c 1) (\<lambda>_.
        try_bind (borrow_address R c 0 (Some (b, seed, owner))) (\<lambda>address.
        assign R c 0 address owner signers)))"

text \<open>\<open>limited_deserialize\<close> is a parameter.\<close>

definition process_system_instruction ::
  "('c, 'v) runtime_ops \<Rightarrow> (bytes \<Rightarrow> (instruction_error, system_instruction) result) \<Rightarrow> 'c \<Rightarrow>
   (instruction_error, 'c) result" where
  "process_system_instruction R limited_deserialize c =
     try_bind (ro_instruction_data R c) (\<lambda>instruction_data.
     try_bind (limited_deserialize instruction_data) (\<lambda>instruction.
     try_bind (ro_signers R c) (\<lambda>signers.
     run_system_instruction R c signers instruction)))"

section \<open>Kinds of system accounts\<close>

datatype system_account_kind = SAK_System | SAK_Nonce

text \<open>\<open>nonce_size\<close> is \<open>nonce::State::size()\<close>; \<open>nonce_of\<close> decodes an account's data and
  reads the state of the version found.\<close>

definition get_system_account_kind ::
  "pubkey \<Rightarrow> nat \<Rightarrow> (bytes \<Rightarrow> nonce_state option) \<Rightarrow> account \<Rightarrow> system_account_kind option" where
  "get_system_account_kind system_program nonce_size nonce_of account =
     (if acct_owner account = system_program then
        if acct_data account = [] then Some SAK_System
        else if length (acct_data account) = nonce_size then
          (case nonce_of (acct_data account) of
             Some (NS_Initialized _) \<Rightarrow> Some SAK_Nonce
           | _ \<Rightarrow> None)
        else None
      else None)"

section \<open>Effects\<close>

lemma transfer_verified_Ok:
  assumes "lamport_laws R" "transfer_verified R c from to n = Ok c'"
  shows "ro_data R c from = [] \<and> n \<le> ro_lamports R c from \<and> lamports_moved R c c' from to n \<and>
    keeps R c c' \<and> ro_data R c' = ro_data R c \<and> ro_owner R c' = ro_owner R c"
proof -
  from assms(2) obtain c1 where m: "ro_borrow R c from = Ok ()" "ro_data R c from = []"
    "n \<le> ro_lamports R c from" "ro_checked_sub_lamports R c from n = Ok c1" "ro_borrow R c1 to = Ok ()"
    "ro_checked_add_lamports R c1 to n = Ok c'"
    by (auto simp: transfer_verified_def ok_simps not_less)
  have "same_account R c to to"
    using borrow_same [OF assms(1) m(5)] same_account_keeps [OF sub_lamportsD(1) [OF assms(1) m(4)]] by simp
  with sub_add_moved [OF assms(1) m(4,6) borrow_same [OF assms(1) m(1)]] m(2,3) show ?thesis by simp
qed

lemma lamports_moved_zero: "lamports_moved R c c from to 0"
  by (simp add: lamports_moved_def)

text \<open>A transfer that moves lamports was signed by its source.\<close>

lemma transfer_Ok:
  assumes "lamport_laws R" "transfer R c from to n = Ok c'"
  shows "lamports_moved R c c' from to n \<and> keeps R c c' \<and> ro_data R c' = ro_data R c \<and>
    ro_owner R c' = ro_owner R c \<and>
    (n \<noteq> 0 \<longrightarrow> ro_is_signer R c from = Ok True \<and> ro_data R c from = [] \<and> n \<le> ro_lamports R c from)"
proof (cases "\<not> ro_transfer_zero_check R \<and> n = 0")
  case True
  with assms(2) show ?thesis by (simp add: transfer_def lamports_moved_zero)
next
  case False
  with assms(2) have "ro_is_signer R c from = Ok True" "transfer_verified R c from to n = Ok c'"
    by (auto simp: transfer_def ok_simps split: if_splits)
  with transfer_verified_Ok [OF assms(1)] show ?thesis by blast
qed

lemma allocate_Ok:
  assumes "data_laws R" "allocate R c i address space signers = Ok c'" "same_account R c i i"
  shows "address_is_signer address signers \<and> ro_data R c i = [] \<and> ro_owner R c i = ro_system_program R \<and>
    space \<le> ro_max_data_length R \<and> keeps R c c' \<and> ro_lamports R c' = ro_lamports R c \<and>
    ro_owner R c' = ro_owner R c \<and> ro_data R c' i = replicate (unat space) 0 \<and>
    (\<forall>j. \<not> same_account R c i j \<longrightarrow> ro_data R c' j = ro_data R c j)"
proof -
  from assms(2) have g: "address_is_signer address signers" "ro_data R c i = []"
    "ro_owner R c i = ro_system_program R" "space \<le> ro_max_data_length R"
    and s: "ro_set_data_length R c i (unat space) = Ok c'"
    by (auto simp: allocate_def not_less split: if_splits)
  with set_data_lengthD [OF assms(1) s] assms(3) show ?thesis by simp
qed

lemma assign_Ok:
  assumes "data_laws R" "assign R c i address owner signers = Ok c'" "same_account R c i i"
  shows "(ro_owner R c i \<noteq> owner \<longrightarrow> address_is_signer address signers) \<and> keeps R c c' \<and>
    ro_lamports R c' = ro_lamports R c \<and> ro_data R c' = ro_data R c \<and> ro_owner R c' i = owner \<and>
    (\<forall>j. \<not> same_account R c i j \<longrightarrow> ro_owner R c' j = ro_owner R c j)"
proof (cases "ro_owner R c i = owner")
  case True
  with assms(2) show ?thesis by (simp add: assign_def)
next
  case False
  with assms(2) have "address_is_signer address signers" "ro_set_owner R c i owner = Ok c'"
    by (auto simp: assign_def split: if_splits)
  with set_ownerD [OF assms(1)] assms(3) show ?thesis by simp
qed

lemma allocate_and_assign_Ok:
  assumes "data_laws R" "allocate_and_assign R c i address space owner signers = Ok c'" "same_account R c i i"
  shows "address_is_signer address signers \<and> ro_data R c i = [] \<and> ro_owner R c i = ro_system_program R \<and>
    space \<le> ro_max_data_length R \<and> keeps R c c' \<and> ro_lamports R c' = ro_lamports R c \<and>
    ro_owner R c' i = owner \<and> ro_data R c' i = replicate (unat space) 0 \<and>
    (\<forall>j. \<not> same_account R c i j \<longrightarrow> ro_data R c' j = ro_data R c j \<and> ro_owner R c' j = ro_owner R c j)"
proof -
  from assms(2) obtain c1 where a: "allocate R c i address space signers = Ok c1"
    and b: "assign R c1 i address owner signers = Ok c'"
    by (auto simp: allocate_and_assign_def ok_simps)
  note h = allocate_Ok [OF assms(1) a assms(3)]
  then have kc: "keeps R c c1" by simp
  have k: "same_account R c1 i j = same_account R c i j" for j
    by (rule same_account_keeps [OF kc])
  note g = assign_Ok [OF assms(1) b, unfolded k, OF assms(3)]
  from g have "keeps R c1 c'" by simp
  with kc have "keeps R c c'" by (rule keeps_trans)
  with g h show ?thesis by simp
qed

text \<open>Creating an account: only a fresh one, by its own signature, and paid for by the source.\<close>

lemma create_account_Ok:
  assumes "data_laws R" "lamport_laws R"
    and "create_account R c from to address n space owner signers = Ok c'"
  shows "ro_lamports R c to = 0 \<and> ro_data R c to = [] \<and> ro_owner R c to = ro_system_program R \<and>
    address_is_signer address signers \<and> space \<le> ro_max_data_length R \<and>
    ro_data R c' to = replicate (unat space) 0 \<and> ro_owner R c' to = owner \<and>
    lamports_moved R c c' from to n \<and> (n \<noteq> 0 \<longrightarrow> ro_is_signer R c from = Ok True)"
proof -
  from assms(3) obtain c1 where a: "ro_borrow R c to = Ok ()" "ro_lamports R c to = 0"
    "allocate_and_assign R c to address space owner signers = Ok c1" and t: "transfer R c1 from to n = Ok c'"
    by (auto simp: create_account_def ok_simps word_neq_0_conv [symmetric])
  note h = allocate_and_assign_Ok [OF assms(1) a(3) borrow_same [OF assms(2) a(1)]]
  note m = transfer_Ok [OF assms(2) t]
  from h have k: "keeps R c c1" "ro_lamports R c1 = ro_lamports R c" by auto
  have "same_account R c1 i j = same_account R c i j" for i j by (rule same_account_keeps [OF k(1)])
  then have "lamports_moved R c c' from to n = lamports_moved R c1 c' from to n"
    by (simp only: lamports_moved_def k(2))
  moreover have "ro_is_signer R c1 = ro_is_signer R c" using k(1) by (simp add: keeps_def)
  ultimately show ?thesis using h m a(2) by simp
qed

end
