(* ===== verification/PgMessage.thy ===== *)
theory PgMessage
  imports PgTypes
begin

text \<open>
  The message processor (\<open>runtime/message_processor.rs\<close>): the instructions of a message
  run in order on one transaction context, and the first that fails ends the transaction
  with its index. The transaction context \<open>'c\<close> and the invocation of a program are the
  SDK's, the operations of \<open>machine\<close>. The timings, which no result depends on, are left out.
\<close>

record instruction_account =
  ia_index_in_transaction :: nat
  ia_index_in_caller :: nat
  ia_index_in_callee :: nat
  ia_is_signer :: bool
  ia_is_writable :: bool

text \<open>
  \<open>vm_process\<close> is \<open>InvokeContext::process_instruction\<close>: the context after it and the compute
  units it consumed. \<open>vm_configure\<close> is \<open>get_next_instruction_context\<close> with \<open>configure\<close> of
  the result, \<open>vm_push\<close> and \<open>vm_pop\<close> enter and leave an instruction. \<open>vm_store_index\<close> is
  \<open>get_account_at_index\<close> with \<open>store_current_index\<close> into the account's data, \<open>None\<close> when there is
  no account at the index.
\<close>

record 'c machine =
  vm_is_precompile :: "pubkey \<Rightarrow> bool"
  vm_instructions_id :: pubkey
  vm_find_index :: "'c \<Rightarrow> pubkey \<Rightarrow> nat option"
  vm_store_index :: "'c \<Rightarrow> nat \<Rightarrow> u16 \<Rightarrow> 'c option"
  vm_configure :: "'c \<Rightarrow> nat list \<Rightarrow> instruction_account list \<Rightarrow> bytes \<Rightarrow> (instruction_error, 'c) result"
  vm_push :: "'c \<Rightarrow> (instruction_error, 'c) result"
  vm_pop :: "'c \<Rightarrow> (instruction_error, 'c) result"
  vm_process :: "'c \<Rightarrow> bytes \<Rightarrow> instruction_account list \<Rightarrow> nat list \<Rightarrow>
     (instruction_error, 'c \<times> u64) result"
  vm_data_len_delta :: "'c \<Rightarrow> i64"

section \<open>The accounts of an instruction\<close>

fun position :: "'a \<Rightarrow> 'a list \<Rightarrow> nat option" where
  "position x [] = None"
| "position x (y # ys) = (if x = y then Some 0 else map_option Suc (position x ys))"

text \<open>\<open>index_in_callee\<close> is the first position of the instruction that names the same account.\<close>

definition index_in_callee :: "u8 list \<Rightarrow> nat \<Rightarrow> nat" where
  "index_in_callee accounts i = (case position (accounts ! i) (take i accounts) of
      Some j \<Rightarrow> j | None \<Rightarrow> i)"

definition instruction_account_at :: "sanitized_message \<Rightarrow> u8 list \<Rightarrow> nat \<Rightarrow> instruction_account" where
  "instruction_account_at message accounts i =
     (let index_in_transaction = unat (accounts ! i) in
      \<lparr>ia_index_in_transaction = index_in_transaction,
       ia_index_in_caller = index_in_transaction,
       ia_index_in_callee = index_in_callee accounts i,
       ia_is_signer = msg_is_signer message index_in_transaction,
       ia_is_writable = msg_is_writable message index_in_transaction\<rparr>)"

definition instruction_accounts :: "sanitized_message \<Rightarrow> compiled_instruction \<Rightarrow> instruction_account list" where
  "instruction_accounts message ix =
     map (instruction_account_at message (ci_accounts ix)) [0..<length (ci_accounts ix)]"

section \<open>Running a message\<close>

text \<open>The instructions sysvar account, when loaded, learns the current index.\<close>

definition fixup_instructions :: "'c machine \<Rightarrow> 'c \<Rightarrow> nat \<Rightarrow> (transaction_error, 'c) result" where
  "fixup_instructions V c i = (case vm_find_index V c (vm_instructions_id V) of
      None \<Rightarrow> Ok c
    | Some account_index \<Rightarrow>
        ok_or (vm_store_index V c account_index (word_of_nat i)) TXE_InvalidAccountIndex)"

definition run_instruction_at ::
  "'c machine \<Rightarrow> sanitized_message \<Rightarrow> 'c \<Rightarrow> compiled_instruction \<Rightarrow> nat list \<Rightarrow> u64 \<Rightarrow>
   (instruction_error, 'c \<times> u64) result" where
  "run_instruction_at V message c ix program_indices units =
     (let accounts = instruction_accounts message ix in
      if vm_is_precompile V (msg_program_id message ix) then
        try_bind (vm_configure V c program_indices accounts (ci_data ix)) (\<lambda>c.
        try_bind (vm_push V c) (\<lambda>c.
        try_bind (vm_pop V c) (\<lambda>c. Ok (c, units))))
      else
        try_bind (vm_process V c (ci_data ix) accounts program_indices) (\<lambda>(c, consumed).
        Ok (c, saturating_add units consumed)))"

fun process_instructions ::
  "'c machine \<Rightarrow> sanitized_message \<Rightarrow> (compiled_instruction \<times> nat list) list \<Rightarrow> nat \<Rightarrow> 'c \<Rightarrow> u64 \<Rightarrow>
   (transaction_error, 'c \<times> u64) result" where
  "process_instructions V message [] i c units = Ok (c, units)"
| "process_instructions V message ((ix, program_indices) # rest) i c units =
     try_bind (fixup_instructions V c i) (\<lambda>c.
     try_bind (map_err (TXE_InstructionError (word_of_nat i))
         (run_instruction_at V message c ix program_indices units)) (\<lambda>(c, units).
     process_instructions V message rest (Suc i) c units))"

text \<open>
  \<open>process_message\<close> on a fresh context; the result is the context, the units consumed and
  the change in the accounts' data length.
\<close>

definition process_message ::
  "'c machine \<Rightarrow> sanitized_message \<Rightarrow> nat list list \<Rightarrow> 'c \<Rightarrow>
   (transaction_error, 'c \<times> u64 \<times> i64) result" where
  "process_message V message program_indices c =
     try_bind (process_instructions V message (zip (msg_instructions message) program_indices) 0 c 0)
       (\<lambda>(c, units). Ok (c, units, vm_data_len_delta V c))"

section \<open>Positions\<close>

lemma position_Some:
  "position x xs = Some i \<Longrightarrow> i < length xs \<and> xs ! i = x \<and> x \<notin> set (take i xs)"
  by (induction xs arbitrary: i) (auto split: if_splits)

lemma position_None: "position x xs = None \<longleftrightarrow> x \<notin> set xs"
  by (induction xs) auto

text \<open>The callee's index of an account is its first position in the instruction.\<close>

lemma index_in_callee_first:
  assumes "i < length accounts"
  shows "index_in_callee accounts i \<le> i \<and> accounts ! index_in_callee accounts i = accounts ! i \<and>
    (\<forall>j < index_in_callee accounts i. accounts ! j \<noteq> accounts ! i)"
proof (cases "position (accounts ! i) (take i accounts)")
  case None
  then have "accounts ! i \<notin> set (take i accounts)" by (simp add: position_None)
  then have "\<forall>j < i. accounts ! j \<noteq> accounts ! i"
    using assms by (auto simp: in_set_conv_nth)
  then show ?thesis by (simp add: index_in_callee_def None)
next
  case (Some k)
  from position_Some [OF Some] have k: "k < i" "accounts ! k = accounts ! i"
    "accounts ! i \<notin> set (take k accounts)" using assms by (auto simp: min_def split: if_splits)
  then have "\<forall>j < k. accounts ! j \<noteq> accounts ! i"
    using assms by (auto simp: in_set_conv_nth)
  with k show ?thesis by (simp add: index_in_callee_def Some)
qed

section \<open>Runs\<close>

text \<open>A failing run names the index of the instruction that failed, after the ones before it ran.\<close>

lemma process_instructions_append:
  "process_instructions V message (xs @ ys) i c units =
     try_bind (process_instructions V message xs i c units) (\<lambda>(c, units).
     process_instructions V message ys (i + length xs) c units)"
proof (induction xs arbitrary: i c units)
  case (Cons x xs)
  obtain ix pis where "x = (ix, pis)" by (cases x)
  then show ?case by (simp add: Cons.IH try_bind_assoc case_prod_beta')
qed simp

lemma process_instructions_Fail:
  assumes "process_instructions V message xs i c units = Fail (TXE_InstructionError n e)"
  shows "\<exists>k c' units' c''. k < length xs \<and> n = word_of_nat (i + k) \<and>
    process_instructions V message (take k xs) i c units = Ok (c', units') \<and>
    fixup_instructions V c' (i + k) = Ok c'' \<and>
    run_instruction_at V message c'' (fst (xs ! k)) (snd (xs ! k)) units' = Fail e"
  using assms
proof (induction xs arbitrary: i c units)
  case (Cons x xs)
  obtain ix pis where x: "x = (ix, pis)" by (cases x)
  show ?case
  proof (cases "fixup_instructions V c i")
    case (Inl f)
    with Cons.prems x show ?thesis
      by (auto simp: fixup_instructions_def ok_or_def split: option.splits)
  next
    case (Inr c1)
    note fx = this
    show ?thesis
    proof (cases "run_instruction_at V message c1 ix pis units")
      case (Inl f)
      with Cons.prems x fx show ?thesis
        by (cases f) (auto intro!: exI [of _ 0])
    next
      case (Inr r)
      obtain c2 units2 where r: "r = (c2, units2)" by (cases r)
      with Cons.prems x fx Inr have
        "process_instructions V message xs (Suc i) c2 units2 = Fail (TXE_InstructionError n e)" by simp
      from Cons.IH [OF this] obtain k c' units' c'' where
        "k < length xs" "n = word_of_nat (Suc i + k)"
        "process_instructions V message (take k xs) (Suc i) c2 units2 = Ok (c', units')"
        "fixup_instructions V c' (Suc i + k) = Ok c''"
        "run_instruction_at V message c'' (fst (xs ! k)) (snd (xs ! k)) units' = Fail e" by blast
      with x fx Inr r show ?thesis
        by (intro exI [of _ "Suc k"] exI [of _ c'] exI [of _ units'] exI [of _ c'']) simp
    qed
  qed
qed simp

end
