(* ===== verification/PgBank.thy ===== *)
theory PgBank
  imports PgSystem PgMessage
begin

text \<open>
  Playnet's bank (\<open>runtime/bank.rs\<close>, \<open>utils.rs\<close>): the accounts, the transaction history, the
  slot and the blockhash; loading, executing and recording transactions. The error counters,
  which are written and then dropped, are left out. A method that changes the bank returns the bank after it
  with its result; a result that panics leaves no usable bank.
\<close>

section \<open>Parameters\<close>

text \<open>
  Program and sysvar ids, hashing, the decoding of loader and nonce states, and the
  transaction context are the SDK's. \<open>pe_machine\<close> is what \<open>InvokeContext::new\<close> makes of the
  builtin programs, the rent, the blockhash, the lamports per signature and the accounts'
  data length; \<open>pe_record\<close> is the accounts and the return data of the execution record;
  \<open>pe_transfer_tx\<close> is a system transfer, signed by the payer, with a blockhash;
  \<open>pe_try_create\<close> is \<open>SanitizedTransaction::try_create\<close> with the arguments of \<open>utils.rs\<close>.
\<close>

datatype builtin = B_BpfLoader | B_System

record keypair =
  kp_bytes :: bytes
  kp_pubkey :: pubkey

record 'c pg_env =
  pe_bpf_loader :: pubkey
  pe_bpf_loader_upgradeable :: pubkey
  pe_native_loader :: pubkey
  pe_system_program :: pubkey
  pe_sysvar :: pubkey
  pe_clock_id :: pubkey
  pe_rent_id :: pubkey
  pe_instructions_id :: pubkey
  pe_clock_data :: bytes
  pe_clock_timestamp :: i64
  pe_rent_data :: bytes
  pe_minimum_balance :: "nat \<Rightarrow> u64"
  pe_hash :: "bytes \<Rightarrow> hash"
  pe_program_data :: "account \<Rightarrow> pubkey option"
  pe_nonce_size :: nat
  pe_nonce_of :: "bytes \<Rightarrow> nonce_state option"
  pe_instructions_owned_by_sysvar :: bool
  pe_construct_instructions :: "sanitized_message \<Rightarrow> bytes"
  pe_new_context :: "(pubkey \<times> account) list \<Rightarrow> 'c"
  pe_machine :: "(pubkey \<times> builtin) list \<Rightarrow> (nat \<Rightarrow> u64) \<Rightarrow> hash \<Rightarrow> u64 \<Rightarrow> u64 \<Rightarrow> 'c machine"
  pe_record :: "'c \<Rightarrow> (pubkey \<times> account) list \<times> return_data"
  pe_logs :: "'c \<Rightarrow> string list"
  pe_transfer_tx :: "keypair \<Rightarrow> pubkey \<Rightarrow> u64 \<Rightarrow> hash \<Rightarrow> versioned_transaction"
  pe_try_create :: "versioned_transaction \<Rightarrow> (transaction_error, sanitized_transaction) result"

section \<open>The bank\<close>

record sysvar_cache =
  sc_clock :: "i64 option"
  sc_rent :: "(nat \<Rightarrow> u64) option"

record pg_bank =
  bank_accounts :: "pubkey \<Rightarrow> account option"
  bank_txs :: "signature \<Rightarrow> transaction_data option"
  bank_slot :: u64
  bank_block_height :: u64
  bank_genesis_hash :: hash
  bank_latest_blockhash :: hash
  bank_airdrop_kp :: keypair
  bank_builtin_programs :: "(pubkey \<times> builtin) list"
  bank_sysvar_cache :: sysvar_cache

text \<open>\<open>create_blockhash\<close> of \<open>utils.rs\<close>.\<close>

definition create_blockhash :: "'c pg_env \<Rightarrow> bytes \<Rightarrow> hash" where
  "create_blockhash E bs = pe_hash E bs"

definition LAMPORTS_PER_SIGNATURE :: u64 where
  "LAMPORTS_PER_SIGNATURE = 0"

text \<open>The bytes of the string that seeds the genesis hash.\<close>

definition genesis_seed :: bytes where
  "genesis_seed = [112, 108, 97, 121, 110, 101, 116]"

definition default_bank :: "'c pg_env \<Rightarrow> keypair \<Rightarrow> pg_bank" where
  "default_bank E new_keypair =
     (let genesis_hash = create_blockhash E genesis_seed in
      \<lparr>bank_accounts = (\<lambda>_. None), bank_txs = (\<lambda>_. None), bank_slot = 0, bank_block_height = 0,
       bank_genesis_hash = genesis_hash, bank_latest_blockhash = genesis_hash,
       bank_airdrop_kp = new_keypair, bank_builtin_programs = [],
       bank_sysvar_cache = \<lparr>sc_clock = None, sc_rent = None\<rparr>\<rparr>)"

section \<open>Reading and writing accounts\<close>

definition get_slot :: "pg_bank \<Rightarrow> u64" where "get_slot b = bank_slot b"
definition get_block_height :: "pg_bank \<Rightarrow> u64" where "get_block_height b = bank_block_height b"
definition get_genesis_hash :: "pg_bank \<Rightarrow> hash" where "get_genesis_hash b = bank_latest_blockhash b"
definition get_latest_blockhash :: "pg_bank \<Rightarrow> hash" where "get_latest_blockhash b = bank_latest_blockhash b"

definition get_minimum_balance_for_rent_exemption :: "'c pg_env \<Rightarrow> nat \<Rightarrow> u64" where
  "get_minimum_balance_for_rent_exemption E data_len = max (pe_minimum_balance E data_len) 1"

definition get_account :: "pg_bank \<Rightarrow> pubkey \<Rightarrow> account option" where
  "get_account b k = bank_accounts b k"

definition get_account_default :: "pg_bank \<Rightarrow> pubkey \<Rightarrow> account" where
  "get_account_default b k = (case bank_accounts b k of Some a \<Rightarrow> a | None \<Rightarrow> default_account)"

definition set_account :: "pubkey \<Rightarrow> account \<Rightarrow> pg_bank \<Rightarrow> pg_bank \<times> account option" where
  "set_account k a b = (b\<lparr>bank_accounts := (bank_accounts b)(k := Some a)\<rparr>, bank_accounts b k)"

definition get_fee_for_message :: "sanitized_message \<Rightarrow> u64 option" where
  "get_fee_for_message msg =
     checked_mul (ucast (max (msg_num_required_signatures msg) 1) :: u64) LAMPORTS_PER_SIGNATURE"

definition get_tx :: "pg_bank \<Rightarrow> signature \<Rightarrow> transaction_data option" where
  "get_tx b s = bank_txs b s"

section \<open>A new bank\<close>

definition native_account :: "'c pg_env \<Rightarrow> account" where
  "native_account E = (account_new 1 0 (pe_native_loader E))\<lparr>acct_executable := True\<rparr>"

definition sysvar_account :: "'c pg_env \<Rightarrow> bytes \<Rightarrow> account" where
  "sysvar_account E data = (account_new 1 (length data) (pe_sysvar E))\<lparr>acct_data := data\<rparr>"

definition LAMPORTS_PER_SOL :: u64 where "LAMPORTS_PER_SOL = 1000000000"

definition airdrop_account :: "'c pg_env \<Rightarrow> account" where
  "airdrop_account E = account_new (1000000 * LAMPORTS_PER_SOL) 0 (pe_system_program E)"

definition new_accounts :: "'c pg_env \<Rightarrow> pg_bank \<Rightarrow> (pubkey \<times> account) list" where
  "new_accounts E b =
     [(pe_bpf_loader E, native_account E),
      (pe_bpf_loader_upgradeable E, native_account E),
      (pe_system_program E, native_account E),
      (pe_clock_id E, sysvar_account E (pe_clock_data E)),
      (pe_rent_id E, sysvar_account E (pe_rent_data E)),
      (kp_pubkey (bank_airdrop_kp b), airdrop_account E)]"

definition set_accounts :: "(pubkey \<times> account) list \<Rightarrow> pg_bank \<Rightarrow> pg_bank" where
  "set_accounts kas b = fold (\<lambda>(k, a) b. fst (set_account k a b)) kas b"

text \<open>
  \<open>PgBank::new\<close> on what the save data decoded to: the native programs, the sysvars and the
  airdrop account are put in place again, and the parts that are not saved are set up.
\<close>

definition bank_new :: "'c pg_env \<Rightarrow> keypair \<Rightarrow> pg_bank option \<Rightarrow> pg_bank" where
  "bank_new E new_keypair maybe_bank =
     (let b = (case maybe_bank of Some b \<Rightarrow> b | None \<Rightarrow> default_bank E new_keypair) in
      (set_accounts (new_accounts E b) b)
        \<lparr>bank_sysvar_cache := \<lparr>sc_clock = Some (pe_clock_timestamp E), sc_rent = Some (pe_minimum_balance E)\<rparr>,
         bank_builtin_programs :=
           [(pe_bpf_loader E, B_BpfLoader), (pe_bpf_loader_upgradeable E, B_BpfLoader),
            (pe_system_program E, B_System)]\<rparr>)"

end
