(* ===== verification/PgLoad.thy ===== *)
theory PgLoad
  imports PgBank
begin

text \<open>
  Loading the accounts of a transaction (\<open>runtime/bank.rs\<close>: \<open>load_tx\<close>,
  \<open>load_tx_accounts\<close>, \<open>load_executable_accounts\<close> and their helpers). An \<open>IndexOfAccount\<close> is
  16 bits and \<open>usize\<close> on wasm32 is 32 bits; the casts and saturations are written out. The walk up the chain of loaders
  stops with an error at depth five, which is its termination measure.
\<close>

section \<open>Sizes and fees\<close>

definition usize_max :: nat where "usize_max = 2 ^ 32 - 1"

definition usize_saturating_add :: "nat \<Rightarrow> nat \<Rightarrow> nat" where
  "usize_saturating_add a b = min (a + b) usize_max"

definition index_of_account :: "nat \<Rightarrow> nat" where
  "index_of_account n = n mod 2 ^ 16"

text \<open>The result is the accumulated size after the call.\<close>

definition accumulate_and_check_loaded_account_data_size ::
  "nat \<Rightarrow> nat \<Rightarrow> nat option \<Rightarrow> (transaction_error, nat) result" where
  "accumulate_and_check_loaded_account_data_size accumulated account_data_size limit = (case limit of
      Some requested \<Rightarrow>
        let accumulated = usize_saturating_add accumulated account_data_size in
        if accumulated > requested then Fail TXE_MaxLoadedAccountsDataSizeExceeded
        else Ok accumulated
    | None \<Rightarrow> Ok accumulated)"

text \<open>The branch for nonce accounts is a \<open>todo!()\<close>.\<close>

definition validate_fee_payer :: "'c pg_env \<Rightarrow> account \<Rightarrow> u64 \<Rightarrow> (transaction_error, unit) result" where
  "validate_fee_payer E payer_account fee =
     (if acct_lamports payer_account = 0 then Fail TXE_AccountNotFound
      else
        try_bind (ok_or (get_system_account_kind (pe_system_program E) (pe_nonce_size E) (pe_nonce_of E)
            payer_account) TXE_InvalidAccountForFee) (\<lambda>kind.
        try_bind (case kind of SAK_System \<Rightarrow> Ok 0 | SAK_Nonce \<Rightarrow> Panicked) (\<lambda>min_balance.
        if acct_lamports payer_account < fee + min_balance then Fail TXE_InsufficientFundsForFee
        else Ok ())))"

definition construct_instructions_account :: "'c pg_env \<Rightarrow> sanitized_message \<Rightarrow> bool \<Rightarrow> account" where
  "construct_instructions_account E message is_owned_by_sysvar =
     default_account\<lparr>acct_data := pe_construct_instructions E message,
       acct_owner := (if is_owned_by_sysvar then pe_sysvar E else pe_system_program E)\<rparr>"

section \<open>The accounts of the message\<close>

text \<open>
  The program data account an executable account of the upgradeable loader depends on, with
  its address.
\<close>

definition load_programdata ::
  "'c pg_env \<Rightarrow> pg_bank \<Rightarrow> account \<Rightarrow> (transaction_error, pubkey \<times> account) result" where
  "load_programdata E b account = (case pe_program_data E account of
      Some programdata_address \<Rightarrow> (case get_account b programdata_address of
          Some programdata_account \<Rightarrow> Ok (programdata_address, programdata_account)
        | None \<Rightarrow> Fail TXE_ProgramAccountNotFound)
    | None \<Rightarrow> Fail TXE_InvalidProgramForExecution)"

text \<open>What the write lock on a program or an upgradeable account allows, and its dependency.\<close>

definition load_dependency ::
  "'c pg_env \<Rightarrow> pg_bank \<Rightarrow> sanitized_message \<Rightarrow> nat \<Rightarrow> account \<Rightarrow>
   (transaction_error, (pubkey \<times> account) option) result" where
  "load_dependency E b message i account =
     (if acct_owner account = pe_bpf_loader_upgradeable E then
        if msg_is_writable message i \<and> \<not> msg_upgradeable_loader_present message
        then Fail TXE_InvalidWritableAccount
        else if acct_executable account then
          try_bind (load_programdata E b account) (\<lambda>dep. Ok (Some dep))
        else Ok None
      else if acct_executable account \<and> msg_is_writable message i
      then Fail TXE_InvalidWritableAccount
      else Ok None)"

text \<open>
  One step of the loop over the keys: the account, the size it adds beside its own data,
  whether the fee payer is now validated, and the dependencies so far.
\<close>

definition load_account_at ::
  "'c pg_env \<Rightarrow> pg_bank \<Rightarrow> sanitized_message \<Rightarrow> u64 \<Rightarrow> nat \<Rightarrow> pubkey \<Rightarrow> bool \<Rightarrow>
   (pubkey \<times> account) list \<Rightarrow>
   (transaction_error, account \<times> nat \<times> bool \<times> (pubkey \<times> account) list) result" where
  "load_account_at E b message fee i key validated deps =
     (if \<not> msg_is_non_loader_key message i then
        let account = get_account_default b key in
        Ok (account, length (acct_data account), validated, deps)
      else if key = pe_instructions_id E then
        Ok (construct_instructions_account E message (pe_instructions_owned_by_sysvar E), 0, validated, deps)
      else
        let account = get_account_default b key in
        try_bind (if validated then Ok () else validate_fee_payer E account fee) (\<lambda>_.
        try_bind (load_dependency E b message i account) (\<lambda>dep. case dep of
          Some (k, a) \<Rightarrow> Ok (account, length (acct_data a), True, deps @ [(k, a)])
        | None \<Rightarrow> Ok (account, 0, True, deps))))"

fun load_keys ::
  "'c pg_env \<Rightarrow> pg_bank \<Rightarrow> sanitized_message \<Rightarrow> u64 \<Rightarrow> nat option \<Rightarrow> nat \<Rightarrow> pubkey list \<Rightarrow> bool \<Rightarrow>
   (pubkey \<times> account) list \<Rightarrow> nat \<Rightarrow>
   (transaction_error, (pubkey \<times> account) list \<times> bool \<times> (pubkey \<times> account) list \<times> nat) result" where
  "load_keys E b message fee limit i [] validated deps sz = Ok ([], validated, deps, sz)"
| "load_keys E b message fee limit i (key # keys) validated deps sz =
     try_bind (load_account_at E b message fee i key validated deps) (\<lambda>(account, extra, validated, deps).
     try_bind (accumulate_and_check_loaded_account_data_size sz
         (usize_saturating_add (length (acct_data account)) extra) limit) (\<lambda>sz.
     try_bind (load_keys E b message fee limit (Suc i) keys validated deps sz)
       (\<lambda>(accounts, validated, deps, sz).
     Ok ((key, account) # accounts, validated, deps, sz))))"

section \<open>The chain of loaders of a program\<close>

text \<open>
  One turn of the loop: the program and, for an upgradeable one, its data are appended and
  their indices put in front; the loader to load next is the program's owner.
\<close>

definition load_program ::
  "'c pg_env \<Rightarrow> pg_bank \<Rightarrow> bool \<Rightarrow> (pubkey \<times> account) list \<Rightarrow> pubkey \<Rightarrow> nat list \<Rightarrow>
   (transaction_error, (pubkey \<times> account) list \<times> pubkey \<times> nat \<times> nat list) result" where
  "load_program E b counted accounts program_id indices = (case get_account b program_id of
      None \<Rightarrow> Fail TXE_ProgramAccountNotFound
    | Some program_account \<Rightarrow>
        let i = index_of_account (length accounts);
            total = (if counted then usize_saturating_add 0 (length (acct_data program_account)) else 0);
            accounts = accounts @ [(program_id, program_account)] in
        try_bind (index accounts i) (\<lambda>(_, program).
        if \<not> acct_executable program then Fail TXE_InvalidProgramForExecution
        else
          let owner = acct_owner program; indices = i # indices in
          if owner = pe_bpf_loader_upgradeable E then
            try_bind (load_programdata E b program) (\<lambda>(address, programdata).
            Ok (accounts @ [(address, programdata)], owner,
                (if counted then usize_saturating_add total (length (acct_data programdata)) else total),
                index_of_account (length accounts) # indices))
          else Ok (accounts, owner, total, indices)))"

function load_chain ::
  "'c pg_env \<Rightarrow> pg_bank \<Rightarrow> nat option \<Rightarrow> bool \<Rightarrow> nat \<Rightarrow> pubkey \<Rightarrow> (pubkey \<times> account) list \<Rightarrow>
   nat list \<Rightarrow> nat \<Rightarrow> (transaction_error, (pubkey \<times> account) list \<times> nat list \<times> nat) result" where
  "load_chain E b limit already depth program_id accounts indices sz =
     (if program_id = pe_native_loader E then Ok (accounts, indices, sz)
      else if depth \<ge> 5 then Fail TXE_CallChainTooDeep
      else
        try_bind (load_program E b (\<not> (depth + 1 = 1 \<and> already)) accounts program_id indices)
          (\<lambda>(accounts, owner, total, indices).
        try_bind (accumulate_and_check_loaded_account_data_size sz total limit) (\<lambda>sz.
        load_chain E b limit already (depth + 1) owner accounts indices sz)))"
  by pat_completeness auto

termination
  by (relation "measure (\<lambda>(_, _, _, _, depth, _). 5 - depth)") auto

declare load_chain.simps [simp del]

definition load_executable_accounts ::
  "'c pg_env \<Rightarrow> pg_bank \<Rightarrow> nat option \<Rightarrow> (pubkey \<times> account) list \<Rightarrow> nat \<Rightarrow> nat \<Rightarrow>
   (transaction_error, (pubkey \<times> account) list \<times> nat list \<times> nat) result" where
  "load_executable_accounts E b limit accounts program_account_index sz =
     (if program_account_index < length accounts then
        let (program_id, program_account) = accounts ! program_account_index in
        load_chain E b limit (program_account \<noteq> default_account) 0 program_id accounts [] sz
      else Fail TXE_ProgramAccountNotFound)"

fun load_programs ::
  "'c pg_env \<Rightarrow> pg_bank \<Rightarrow> nat option \<Rightarrow> compiled_instruction list \<Rightarrow> (pubkey \<times> account) list \<Rightarrow> nat \<Rightarrow>
   (transaction_error, (pubkey \<times> account) list \<times> nat list list) result" where
  "load_programs E b limit [] accounts sz = Ok (accounts, [])"
| "load_programs E b limit (ix # ixs) accounts sz =
     try_bind (load_executable_accounts E b limit accounts (unat (ci_program_id_index ix)) sz)
       (\<lambda>(accounts, indices, sz).
     try_bind (load_programs E b limit ixs accounts sz) (\<lambda>(accounts, rest).
     Ok (accounts, indices # rest)))"

record loaded_transaction =
  lt_accounts :: "(pubkey \<times> account) list"
  lt_program_indices :: "nat list list"

definition load_tx_accounts ::
  "'c pg_env \<Rightarrow> pg_bank \<Rightarrow> sanitized_transaction \<Rightarrow> u64 \<Rightarrow> (transaction_error, loaded_transaction) result" where
  "load_tx_accounts E b tx fee =
     (if tx_signatures tx = [] \<and> fee \<noteq> 0 then Fail TXE_MissingSignatureForFee
      else
        let message = tx_message tx; limit = None in
        try_bind (load_keys E b message fee limit 0 (msg_account_keys message) False [] 0)
          (\<lambda>(accounts, validated, deps, sz).
        if \<not> validated then Fail TXE_AccountNotFound
        else
          try_bind (load_programs E b limit (msg_instructions message) (accounts @ deps) sz)
            (\<lambda>(accounts, program_indices).
          Ok \<lparr>lt_accounts = accounts, lt_program_indices = program_indices\<rparr>)))"

definition load_tx :: "'c pg_env \<Rightarrow> pg_bank \<Rightarrow> sanitized_transaction \<Rightarrow> (transaction_error, loaded_transaction) result" where
  "load_tx E b tx = load_tx_accounts E b tx 0"

section \<open>What is loaded\<close>

lemma validate_fee_payer_Ok:
  "validate_fee_payer E a fee = Ok u \<longleftrightarrow>
    acct_lamports a \<noteq> 0 \<and> acct_owner a = pe_system_program E \<and> acct_data a = [] \<and> fee \<le> acct_lamports a"
  by (cases u) (auto simp: validate_fee_payer_def get_system_account_kind_def ok_simps not_less
      split: system_account_kind.splits option.splits nonce_state.splits if_splits)

text \<open>The loaded programs are appended; their indices are the appended range, downwards.\<close>

definition appended :: "'a list \<Rightarrow> 'a list \<Rightarrow> nat list \<Rightarrow> nat list \<Rightarrow> nat \<Rightarrow> bool" where
  "appended accounts accounts' indices indices' n \<longleftrightarrow>
     (\<exists>ext. accounts' = accounts @ ext \<and> length ext \<le> n) \<and>
     indices' = rev [length accounts ..< length accounts'] @ indices"

lemma appended_refl: "appended xs xs is is n"
  by (simp add: appended_def)

lemma appended_trans:
  assumes "appended xs ys is js m" "appended ys zs js ks n"
  shows "appended xs zs is ks (m + n)"
proof -
  from assms obtain as bs where "ys = xs @ as" "length as \<le> m" "zs = ys @ bs" "length bs \<le> n"
    "js = rev [length xs ..< length ys] @ is" "ks = rev [length ys ..< length zs] @ js"
    unfolding appended_def by auto
  moreover have "[length xs ..< length xs + length as + length bs] =
      [length xs ..< length xs + length as] @ [length xs + length as ..< length xs + length as + length bs]"
    by (rule upt_add_eq_append) simp
  ultimately show ?thesis by (auto simp: appended_def add.assoc)
qed

lemma load_program_Ok:
  assumes "load_program E b counted accounts program_id is = Ok (accounts', owner, tot, is')"
    and "length accounts + 2 \<le> 2 ^ 16"
  shows "appended accounts accounts' is is' 2 \<and>
    (\<exists>a. get_account b program_id = Some a \<and> acct_executable a \<and> owner = acct_owner a)"
proof -
  have idx: "index_of_account (length accounts) = length accounts"
    "index_of_account (Suc (length accounts)) = Suc (length accounts)"
    using assms(2) by (simp_all add: index_of_account_def)
  from assms(1) obtain a where a: "get_account b program_id = Some a"
    by (auto simp: load_program_def split: option.splits)
  show ?thesis
  proof (cases "acct_executable a \<and> acct_owner a = pe_bpf_loader_upgradeable E")
    case True
    with assms(1) a show ?thesis
      by (auto simp: load_program_def idx index_def Let_def ok_simps appended_def)
  next
    case False
    with assms(1) a show ?thesis
      by (auto simp: load_program_def idx index_def Let_def ok_simps appended_def)
  qed
qed

lemma load_chain_Ok:
  assumes "load_chain E b limit already depth program_id accounts is sz = Ok (accounts', is', sz')"
    and "length accounts + 2 * (5 - depth) \<le> 2 ^ 16" "depth \<le> 5"
  shows "appended accounts accounts' is is' (2 * (5 - depth))"
  using assms
proof (induction E b limit already depth program_id accounts "is" sz rule: load_chain.induct)
  case (1 E b limit already depth program_id accounts "is" sz)
  show ?case
  proof (cases "program_id = pe_native_loader E")
    case True
    with "1.prems"(1) show ?thesis by (simp add: load_chain.simps appended_refl)
  next
    case False
    let ?lp = "load_program E b (\<not> (depth + 1 = 1 \<and> already)) accounts program_id is"
    from "1.prems"(1) False have d: "depth < 5"
      by (subst (asm) load_chain.simps) (simp split: if_splits)
    from "1.prems"(1) False d obtain accounts1 owner tot is1 sz1 where
      lp: "?lp = Ok (accounts1, owner, tot, is1)"
      and acc: "accumulate_and_check_loaded_account_data_size sz tot limit = Ok sz1"
      and rest: "load_chain E b limit already (depth + 1) owner accounts1 is1 sz1 = Ok (accounts', is', sz')"
      by (subst (asm) load_chain.simps) (auto simp: ok_simps)
    have a1: "appended accounts accounts1 is is1 2"
      using load_program_Ok [OF lp] "1.prems"(2) d by simp
    then have "length accounts1 \<le> length accounts + 2" by (auto simp: appended_def)
    then have "length accounts1 + 2 * (5 - (depth + 1)) \<le> 2 ^ 16" using "1.prems"(2) d by simp
    from "1.IH" [OF False _ lp refl refl refl acc rest this] d
    have "appended accounts1 accounts' is1 is' (2 * (5 - (depth + 1)))" by simp
    from appended_trans [OF a1 this] d show ?thesis by (simp add: Suc_diff_Suc [symmetric])
  qed
qed

lemma load_executable_accounts_Ok:
  assumes "load_executable_accounts E b limit accounts i sz = Ok (accounts', is, sz')"
    and "length accounts + 10 \<le> 2 ^ 16"
  shows "\<exists>ext. accounts' = accounts @ ext \<and> length ext \<le> 10 \<and>
    is = rev [length accounts ..< length accounts']"
proof -
  from assms(1) have "load_chain E b limit (snd (accounts ! i) \<noteq> default_account) 0
      (fst (accounts ! i)) accounts [] sz = Ok (accounts', is, sz')"
    by (auto simp: load_executable_accounts_def case_prod_beta' Let_def split: if_splits)
  from load_chain_Ok [OF this] assms(2) show ?thesis by (auto simp: appended_def)
qed

lemma load_programs_Ok:
  assumes "load_programs E b limit ixs accounts sz = Ok (accounts', iss)"
    and "length accounts + 10 * length ixs \<le> 2 ^ 16"
  shows "length iss = length ixs \<and> (\<exists>ext. accounts' = accounts @ ext) \<and>
    (\<forall>is \<in> set iss. \<forall>i \<in> set is. i < length accounts')"
  using assms
proof (induction ixs arbitrary: accounts sz accounts' iss)
  case (Cons ix ixs)
  from Cons.prems(1) obtain accounts1 "is" sz1 rest where
    le: "load_executable_accounts E b limit accounts (unat (ci_program_id_index ix)) sz = Ok (accounts1, is, sz1)"
    and rest: "load_programs E b limit ixs accounts1 sz1 = Ok (accounts', rest)" and iss: "iss = is # rest"
    by (auto simp: ok_simps)
  from load_executable_accounts_Ok [OF le] Cons.prems(2) obtain ext where
    e: "accounts1 = accounts @ ext" "length ext \<le> 10" "is = rev [length accounts ..< length accounts1]" by auto
  have "length accounts1 + 10 * length ixs \<le> 2 ^ 16" using e Cons.prems(2) by simp
  from Cons.IH [OF rest this] e iss show ?case by auto
qed auto

text \<open>
  The account loaded for a key, and the keys that can pay the fee: the first of those must
  pass the check of the fee payer.
\<close>

definition loaded_account :: "'c pg_env \<Rightarrow> pg_bank \<Rightarrow> sanitized_message \<Rightarrow> nat \<Rightarrow> pubkey \<Rightarrow> account" where
  "loaded_account E b message i key =
     (if msg_is_non_loader_key message i \<and> key = pe_instructions_id E
      then construct_instructions_account E message (pe_instructions_owned_by_sysvar E)
      else get_account_default b key)"

definition may_pay :: "'c pg_env \<Rightarrow> sanitized_message \<Rightarrow> nat \<Rightarrow> pubkey \<Rightarrow> bool" where
  "may_pay E message i key \<longleftrightarrow> msg_is_non_loader_key message i \<and> key \<noteq> pe_instructions_id E"

lemma load_account_at_Ok:
  assumes "load_account_at E b message fee i key validated deps = Ok (account, extra, validated', deps')"
  shows "account = loaded_account E b message i key \<and> validated' = (validated \<or> may_pay E message i key) \<and>
    (may_pay E message i key \<and> \<not> validated \<longrightarrow> validate_fee_payer E account fee = Ok ()) \<and>
    length deps' \<le> Suc (length deps) \<and>
    (may_pay E message i key \<and> acct_executable account \<and> msg_is_writable message i \<longrightarrow>
       acct_owner account = pe_bpf_loader_upgradeable E \<and> msg_upgradeable_loader_present message)"
proof (cases "may_pay E message i key")
  case False
  with assms show ?thesis
    by (auto simp: load_account_at_def loaded_account_def may_pay_def Let_def split: if_splits)
next
  case True
  let ?a = "get_account_default b key"
  from True assms obtain dep where v: "(if validated then Ok () else validate_fee_payer E ?a fee) = Ok ()"
    and d: "load_dependency E b message i ?a = Ok dep"
    and r: "(case dep of Some (k, a) \<Rightarrow> Ok (?a, length (acct_data a), True, deps @ [(k, a)])
        | None \<Rightarrow> Ok (?a, 0, True, deps)) = (Ok (account, extra, validated', deps') :: (transaction_error, _) result)"
    by (auto simp: load_account_at_def may_pay_def Let_def ok_simps)
  from r have "account = ?a" "validated'" "length deps' \<le> Suc (length deps)"
    by (auto split: option.splits prod.splits)
  moreover from d have "acct_executable ?a \<and> msg_is_writable message i \<longrightarrow>
      acct_owner ?a = pe_bpf_loader_upgradeable E \<and> msg_upgradeable_loader_present message"
    by (auto simp: load_dependency_def split: if_splits)
  moreover have "loaded_account E b message i key = ?a" using True by (auto simp: loaded_account_def may_pay_def)
  ultimately show ?thesis using v True by auto
qed

lemma load_keys_Ok:
  assumes "load_keys E b message fee limit i keys validated deps sz = Ok (accounts, validated', deps', sz')"
  shows "accounts = map (\<lambda>j. (keys ! j, loaded_account E b message (i + j) (keys ! j))) [0..<length keys] \<and>
    validated' = (validated \<or> (\<exists>j < length keys. may_pay E message (i + j) (keys ! j))) \<and>
    length deps' \<le> length deps + length keys \<and>
    (\<forall>j < length keys. may_pay E message (i + j) (keys ! j) \<longrightarrow>
      (let a = loaded_account E b message (i + j) (keys ! j) in
       (\<not> validated \<and> (\<forall>k < j. \<not> may_pay E message (i + k) (keys ! k)) \<longrightarrow>
          validate_fee_payer E a fee = Ok ()) \<and>
       (acct_executable a \<and> msg_is_writable message (i + j) \<longrightarrow>
          acct_owner a = pe_bpf_loader_upgradeable E \<and> msg_upgradeable_loader_present message)))"
  using assms
proof (induction keys arbitrary: i validated deps sz accounts validated' deps' sz')
  case (Cons key keys)
  from Cons.prems obtain account extra validated1 deps1 sz1 rest where
    la: "load_account_at E b message fee i key validated deps = Ok (account, extra, validated1, deps1)"
    and lk: "load_keys E b message fee limit (Suc i) keys validated1 deps1 sz1 = Ok (rest, validated', deps', sz')"
    and acc: "accounts = (key, account) # rest"
    by (auto simp: ok_simps)
  note a = load_account_at_Ok [OF la] and r = Cons.IH [OF lk]
  have "accounts = map (\<lambda>j. ((key # keys) ! j, loaded_account E b message (i + j) ((key # keys) ! j)))
      [0..<length (key # keys)]"
    using a r by (simp add: acc upt_conv_Cons map_Suc_upt [symmetric] del: upt_Suc)
  moreover have "validated' = (validated \<or> (\<exists>j < length (key # keys). may_pay E message (i + j) ((key # keys) ! j)))"
    using a r by (auto simp: less_Suc_eq_0_disj)
  moreover have "length deps' \<le> length deps + length (key # keys)" using a r by auto
  moreover have "let x = loaded_account E b message (i + j) ((key # keys) ! j) in
      (\<not> validated \<and> (\<forall>k < j. \<not> may_pay E message (i + k) ((key # keys) ! k)) \<longrightarrow>
         validate_fee_payer E x fee = Ok ()) \<and>
      (acct_executable x \<and> msg_is_writable message (i + j) \<longrightarrow>
         acct_owner x = pe_bpf_loader_upgradeable E \<and> msg_upgradeable_loader_present message)"
    if j: "j < length (key # keys)" "may_pay E message (i + j) ((key # keys) ! j)" for j
  proof (cases j)
    case 0
    from a have "account = loaded_account E b message i key" by blast
    with j a 0 show ?thesis by (simp add: Let_def)
  next
    case (Suc k)
    with j have k: "k < length keys" "may_pay E message (Suc i + k) (keys ! k)" by simp_all
    have "\<not> validated1 \<and> (\<forall>l < k. \<not> may_pay E message (Suc i + l) (keys ! l))"
      if "\<not> validated \<and> (\<forall>l < j. \<not> may_pay E message (i + l) ((key # keys) ! l))"
      using that a by (simp add: Suc All_less_Suc2)
    with k r Suc show ?thesis by (simp add: Let_def)
  qed
  ultimately show ?case by blast
qed simp

text \<open>A program that is its own loader never reaches the native loader: the walk gives up.\<close>

lemma load_chain_self_owned:
  assumes "get_account b k = Some a" "acct_executable a" "acct_owner a = k"
    and "k \<noteq> pe_native_loader E" "k \<noteq> pe_bpf_loader_upgradeable E"
    and "length accounts + (5 - depth) \<le> 2 ^ 16" "depth \<le> 5"
  shows "load_chain E b None already depth k accounts is sz = Fail TXE_CallChainTooDeep"
  using assms(6,7)
proof (induction "5 - depth" arbitrary: depth accounts "is" sz)
  case 0
  then show ?case using assms(4) by (subst load_chain.simps) simp
next
  case (Suc n)
  have d: "depth < 5" "n = 5 - (depth + 1)" using Suc.hyps(2) by auto
  have "load_program E b counted accounts k is =
      Ok (accounts @ [(k, a)], k, (if counted then usize_saturating_add 0 (length (acct_data a)) else 0),
        length accounts # is)" for counted
    using assms(1-3,5) Suc.prems d by (simp add: load_program_def index_def index_of_account_def Let_def)
  moreover have "load_chain E b None already (depth + 1) k (accounts @ [(k, a)]) (length accounts # is) sz' =
      Fail TXE_CallChainTooDeep" for sz'
    using Suc.hyps(1) [OF d(2)] Suc.prems d by simp
  ultimately show ?case
    using assms(4) d
    by (subst load_chain.simps) (simp add: accumulate_and_check_loaded_account_data_size_def)
qed

end
