(* ===== verification/PgExecute.thy ===== *)
theory PgExecute
  imports PgLoad
begin

text \<open>
  Executing and recording transactions (\<open>runtime/bank.rs\<close>: \<open>execute_loaded_tx\<close>,
  \<open>simulate_tx\<close>, \<open>process_tx\<close>, \<open>save_tx\<close>, \<open>new_slot\<close>, \<open>airdrop\<close>). A method on
  \<open>&mut self\<close> maps a bank to the bank after it and its result. The slot and the block
  height are 64 bits and wrap, as in the release build.
\<close>

section \<open>Execution\<close>

record execution_details =
  ed_status :: "(transaction_error, unit) result"
  ed_log_messages :: "string list option"
  ed_return_data :: "return_data option"
  ed_executed_units :: u64
  ed_accounts_data_len_delta :: i64

datatype transaction_execution_result =
    TER_Executed execution_details
  | TER_NotExecuted transaction_error

text \<open>The return data up to its last nonzero byte, if there is one.\<close>

definition trim_return_data :: "return_data \<Rightarrow> return_data option" where
  "trim_return_data r =
     (let data = rev (dropWhile (\<lambda>x. x = 0) (rev (rd_data r))) in
      if data = [] then None else Some (r\<lparr>rd_data := data\<rparr>))"

text \<open>The result and the loaded accounts after the execution; after an error nothing reads
  the accounts, so they are left as they were loaded.\<close>

definition execute_loaded_tx ::
  "'c pg_env \<Rightarrow> pg_bank \<Rightarrow> sanitized_transaction \<Rightarrow> loaded_transaction \<Rightarrow>
   (transaction_error, transaction_execution_result \<times> loaded_transaction) result" where
  "execute_loaded_tx E b tx loaded =
     try_bind (unwrap (sc_rent (bank_sysvar_cache b))) (\<lambda>rent.
     let V = pe_machine E (bank_builtin_programs b) rent (msg_recent_blockhash (tx_message tx))
           LAMPORTS_PER_SIGNATURE (- 1) in
     try_bind (attempt (process_message V (tx_message tx) (lt_program_indices loaded)
         (pe_new_context E (lt_accounts loaded)))) (\<lambda>r. case r of
       Inr (c, units, delta) \<Rightarrow>
         let (accounts, return_data) = pe_record E c in
         Ok (TER_Executed \<lparr>ed_status = Ok (), ed_log_messages = Some (pe_logs E c),
               ed_return_data = trim_return_data return_data, ed_executed_units = units,
               ed_accounts_data_len_delta = delta\<rparr>,
             loaded\<lparr>lt_accounts := accounts\<rparr>)
     | Inl err \<Rightarrow> Ok (TER_NotExecuted err, loaded)))"

text \<open>The result of a simulation: the accounts of the message before and after it.\<close>

definition simulation_of ::
  "nat \<Rightarrow> loaded_transaction \<Rightarrow> transaction_execution_result \<Rightarrow> loaded_transaction \<Rightarrow>
   simulate_transaction_result" where
  "simulation_of account_count before result after = (case result of
      TER_Executed details \<Rightarrow>
        \<lparr>str_result = ed_status details, str_pre_accounts = take account_count (lt_accounts before),
         str_post_accounts = take account_count (lt_accounts after),
         str_logs = (case ed_log_messages details of Some logs \<Rightarrow> logs | None \<Rightarrow> []),
         str_units_consumed = ed_executed_units details,
         str_return_data = ed_return_data details\<rparr>
    | TER_NotExecuted err \<Rightarrow> simulate_new_error err)"

definition simulate_tx ::
  "'c pg_env \<Rightarrow> pg_bank \<Rightarrow> sanitized_transaction \<Rightarrow> (transaction_error, simulate_transaction_result) result" where
  "simulate_tx E b tx =
     try_bind (attempt (load_tx E b tx)) (\<lambda>r. case r of
       Inl err \<Rightarrow> Ok (simulate_new_error err)
     | Inr loaded \<Rightarrow>
         try_bind (execute_loaded_tx E b tx loaded) (\<lambda>(result, after).
         Ok (simulation_of (length (msg_account_keys (tx_message tx))) loaded result after)))"

section \<open>Recording\<close>

definition new_slot :: "'c pg_env \<Rightarrow> pg_bank \<Rightarrow> pg_bank" where
  "new_slot E b = b\<lparr>bank_latest_blockhash := create_blockhash E (to_le_bytes (bank_latest_blockhash b)),
     bank_slot := bank_slot b + 1, bank_block_height := bank_block_height b + 1\<rparr>"

text \<open>Whether some instruction is a \<open>Write\<close> of the upgradeable loader.\<close>

fun bpf_upgradeable_write_ix_exists ::
  "'c pg_env \<Rightarrow> pubkey list \<Rightarrow> compiled_instruction list \<Rightarrow> (transaction_error, bool) result" where
  "bpf_upgradeable_write_ix_exists E keys [] = Ok False"
| "bpf_upgradeable_write_ix_exists E keys (ix # ixs) =
     try_bind (index keys (unat (ci_program_id_index ix))) (\<lambda>program_id.
     if program_id = pe_bpf_loader_upgradeable E \<and> take 1 (ci_data ix) = [1] then Ok True
     else bpf_upgradeable_write_ix_exists E keys ixs)"

definition history_entry ::
  "pg_bank \<Rightarrow> sanitized_transaction \<Rightarrow> simulate_transaction_result \<Rightarrow> u64 \<Rightarrow> i64 \<Rightarrow> transaction_data" where
  "history_entry b tx r fee time =
     \<lparr>td_slot = get_slot b, td_tx = tx_versioned tx,
      td_meta = Some \<lparr>ctm_fee = fee,
        ctm_pre_balances = map (\<lambda>(_, a). acct_lamports a) (str_pre_accounts r),
        ctm_post_balances = map (\<lambda>(_, a). acct_lamports a) (str_post_accounts r),
        ctm_log_messages = Some (str_logs r), ctm_err = error_of (str_result r),
        ctm_compute_units_consumed = Some (str_units_consumed r)\<rparr>,
      td_block_time = Some time\<rparr>"

definition save_tx ::
  "'c pg_env \<Rightarrow> pg_bank \<Rightarrow> sanitized_transaction \<Rightarrow> simulate_transaction_result \<Rightarrow> u64 \<Rightarrow>
   pg_bank \<times> (transaction_error, signature) result" where
  "save_tx E b tx r fee =
     (let signature = tx_signature tx in
      case bpf_upgradeable_write_ix_exists E (msg_account_keys (tx_message tx))
          (msg_instructions (tx_message tx)) of
        Inl e \<Rightarrow> (b, Inl e)
      | Inr True \<Rightarrow> (b, Ok signature)
      | Inr False \<Rightarrow> (case bank_txs b signature of
            Some _ \<Rightarrow> (b, Fail TXE_AlreadyProcessed)
          | None \<Rightarrow> (case sc_clock (bank_sysvar_cache b) of
                None \<Rightarrow> (b, Panicked)
              | Some time \<Rightarrow>
                  (new_slot E (b\<lparr>bank_txs := (bank_txs b)(signature := Some (history_entry b tx r fee time))\<rparr>),
                   Ok signature))))"

definition process_tx ::
  "'c pg_env \<Rightarrow> pg_bank \<Rightarrow> sanitized_transaction \<Rightarrow> pg_bank \<times> (transaction_error, signature) result" where
  "process_tx E b tx = (case simulate_tx E b tx of
      Inl e \<Rightarrow> (b, Inl e)
    | Inr simulation_result \<Rightarrow> (case str_result simulation_result of
          Inr _ \<Rightarrow> (case get_fee_for_message (tx_message tx) of
              None \<Rightarrow> (b, Panicked)
            | Some fee \<Rightarrow>
                save_tx E (set_accounts (str_post_accounts simulation_result) b) tx simulation_result fee)
        | Inl e \<Rightarrow> (b, Inl e)))"

definition airdrop ::
  "'c pg_env \<Rightarrow> pg_bank \<Rightarrow> pubkey \<Rightarrow> u64 \<Rightarrow> pg_bank \<times> (transaction_error, signature) result" where
  "airdrop E b to_pubkey lamports =
     (case pe_try_create E (pe_transfer_tx E (bank_airdrop_kp b) to_pubkey lamports
          (bank_latest_blockhash b)) of
        Inl e \<Rightarrow> (b, Inl e)
      | Inr sanitized_tx \<Rightarrow> process_tx E b sanitized_tx)"

section \<open>Effects\<close>

lemma set_accounts_fields [simp]:
  "bank_txs (set_accounts kas b) = bank_txs b" "bank_slot (set_accounts kas b) = bank_slot b"
  "bank_block_height (set_accounts kas b) = bank_block_height b"
  "bank_genesis_hash (set_accounts kas b) = bank_genesis_hash b"
  "bank_latest_blockhash (set_accounts kas b) = bank_latest_blockhash b"
  "bank_airdrop_kp (set_accounts kas b) = bank_airdrop_kp b"
  "bank_builtin_programs (set_accounts kas b) = bank_builtin_programs b"
  "bank_sysvar_cache (set_accounts kas b) = bank_sysvar_cache b"
  by (induction kas arbitrary: b) (auto simp: set_accounts_def set_account_def)

text \<open>The last write to a key is the one that stays; other keys are as they were.\<close>

lemma set_accounts_accounts:
  "bank_accounts (set_accounts kas b) = bank_accounts b ++ map_of (rev kas)"
proof (induction kas arbitrary: b)
  case (Cons ka kas)
  obtain k a where ka: "ka = (k, a)" by (cases ka)
  have "bank_accounts (set_accounts (ka # kas) b) = bank_accounts (set_accounts kas (fst (set_account k a b)))"
    by (simp add: set_accounts_def ka)
  also have "\<dots> = bank_accounts b ++ map_of (rev (ka # kas))"
    by (simp add: Cons.IH) (simp add: set_account_def ka map_add_def fun_eq_iff split: option.split)
  finally show ?case .
qed (simp add: set_accounts_def)

lemma get_fee_for_message_zero [simp]: "get_fee_for_message msg = Some 0"
  by (simp add: get_fee_for_message_def checked_mul_def LAMPORTS_PER_SIGNATURE_def)

lemma new_slot_fields [simp]:
  "bank_accounts (new_slot E b) = bank_accounts b" "bank_txs (new_slot E b) = bank_txs b"
  "bank_slot (new_slot E b) = bank_slot b + 1" "bank_block_height (new_slot E b) = bank_block_height b + 1"
  "bank_genesis_hash (new_slot E b) = bank_genesis_hash b"
  "bank_latest_blockhash (new_slot E b) = create_blockhash E (to_le_bytes (bank_latest_blockhash b))"
  "bank_airdrop_kp (new_slot E b) = bank_airdrop_kp b"
  "bank_builtin_programs (new_slot E b) = bank_builtin_programs b"
  "bank_sysvar_cache (new_slot E b) = bank_sysvar_cache b"
  by (simp_all add: new_slot_def)

text \<open>The outcomes of recording a transaction.\<close>

definition is_write_tx :: "'c pg_env \<Rightarrow> sanitized_transaction \<Rightarrow> bool" where
  "is_write_tx E tx \<longleftrightarrow> bpf_upgradeable_write_ix_exists E (msg_account_keys (tx_message tx))
     (msg_instructions (tx_message tx)) = Ok True"

lemma save_tx_cases:
  assumes "save_tx E b tx r fee = (b', res)"
  obtains (panicked) "b' = b" "res = Panicked"
  | (write_tx) "is_write_tx E tx" "b' = b" "res = Ok (tx_signature tx)"
  | (replayed) d where "\<not> is_write_tx E tx" "bank_txs b (tx_signature tx) = Some d" "b' = b"
      "res = Fail TXE_AlreadyProcessed"
  | (recorded) time where "\<not> is_write_tx E tx" "bank_txs b (tx_signature tx) = None"
      "sc_clock (bank_sysvar_cache b) = Some time" "res = Ok (tx_signature tx)"
      "b' = new_slot E (b\<lparr>bank_txs := (bank_txs b)(tx_signature tx := Some (history_entry b tx r fee time))\<rparr>)"
proof -
  have no_fail: "bpf_upgradeable_write_ix_exists E keys ixs \<noteq> Fail e" for keys ixs e
  proof (induction ixs)
    case (Cons ix ixs)
    then show ?case
      by (cases "unat (ci_program_id_index ix) < length keys") (simp_all add: index_def)
  qed simp
  show thesis
  proof (cases "bpf_upgradeable_write_ix_exists E (msg_account_keys (tx_message tx))
      (msg_instructions (tx_message tx))")
    case (Inl f)
    with no_fail have "f = Panic" by (cases f) auto
    with assms Inl show ?thesis by (intro panicked) (simp_all add: save_tx_def)
  next
    case w: (Inr w)
    show ?thesis
    proof (cases w)
      case True
      with assms w show ?thesis by (intro write_tx) (simp_all add: save_tx_def is_write_tx_def)
    next
      case False
      then have nw: "\<not> is_write_tx E tx" using w by (simp add: is_write_tx_def)
      show ?thesis
      proof (cases "bank_txs b (tx_signature tx)")
        case (Some d)
        with assms w False nw show ?thesis by (intro replayed [of d]) (auto simp: save_tx_def Let_def)
      next
        case none: None
        show ?thesis
        proof (cases "sc_clock (bank_sysvar_cache b)")
          case None
          with assms w False none show ?thesis by (intro panicked) (simp_all add: save_tx_def)
        next
          case (Some time)
          with assms w False none nw show ?thesis
            by (intro recorded [of time]) (auto simp: save_tx_def Let_def)
        qed
      qed
    qed
  qed
qed

text \<open>The accounts are written before the transaction is recorded.\<close>

lemma process_tx_cases:
  assumes "process_tx E b tx = (b', res)"
  obtains (rejected) e where "b' = b" "res = Inl e"
      "simulate_tx E b tx = Inl e \<or> (\<exists>r. simulate_tx E b tx = Ok r \<and> str_result r = Inl e)"
  | (executed) r where "simulate_tx E b tx = Ok r" "str_result r = Ok ()"
      "save_tx E (set_accounts (str_post_accounts r) b) tx r 0 = (b', res)"
proof (cases "simulate_tx E b tx")
  case (Inl e)
  then show ?thesis using assms by (intro rejected [of e]) (auto simp: process_tx_def)
next
  case (Inr r)
  show ?thesis
  proof (cases "str_result r")
    case (Inl e)
    with Inr show ?thesis using assms by (intro rejected [of e]) (auto simp: process_tx_def)
  next
    case (Inr u)
    with \<open>simulate_tx E b tx = Ok r\<close> show ?thesis
      using assms by (intro executed [of r]) (simp_all add: process_tx_def)
  qed
qed

lemma simulate_tx_Ok:
  assumes "simulate_tx E b tx = Ok r" "str_result r = Ok u"
  shows "\<exists>lt details lt'. load_tx E b tx = Ok lt \<and>
    execute_loaded_tx E b tx lt = Ok (TER_Executed details, lt') \<and>
    r = simulation_of (length (msg_account_keys (tx_message tx))) lt (TER_Executed details) lt'"
proof -
  from assms obtain lt result lt' where x: "load_tx E b tx = Ok lt"
    "execute_loaded_tx E b tx lt = Ok (result, lt')"
    "r = simulation_of (length (msg_account_keys (tx_message tx))) lt result lt'"
    unfolding simulate_tx_def attempt_case_eq_Ok by (auto simp: ok_simps simulate_new_error_def)
  with assms(2) show ?thesis
    by (cases result) (auto simp: simulation_of_def simulate_new_error_def)
qed

lemma trim_zeros: "\<exists>n. xs = rev (dropWhile (\<lambda>x. x = 0) (rev xs)) @ replicate n (0 :: byte)"
proof -
  have "rev xs = takeWhile (\<lambda>x. x = 0) (rev xs) @ dropWhile (\<lambda>x. x = 0) (rev xs)" by simp
  then have "xs = rev (dropWhile (\<lambda>x. x = 0) (rev xs)) @ rev (takeWhile (\<lambda>x. x = 0) (rev xs))"
    by (metis rev_append rev_rev_ident)
  moreover have "rev (takeWhile (\<lambda>x. x = 0) (rev xs)) =
      replicate (length (takeWhile (\<lambda>x. x = 0) (rev xs))) (0 :: byte)"
    by (rule replicate_eqI) (auto dest: set_takeWhileD)
  ultimately show ?thesis by metis
qed

end
