(* ===== verification/PgRpc.thy ===== *)
theory PgRpc
  imports PgExecute
begin

text \<open>
  The methods clients call (\<open>rpc.rs\<close>), the life cycle of a Playnet (\<open>playnet.rs\<close>) and the
  custom encodings of its save data (\<open>serde.rs\<close>). Parsing and printing of keys, signatures,
  messages and JSON are parameters; a text that does not parse panics, as the code unwraps.
\<close>

section \<open>Parameters\<close>

record pg_codec =
  pc_pubkey_from_str :: "string \<Rightarrow> pubkey option"
  pc_pubkey_to_string :: "pubkey \<Rightarrow> string"
  pc_signature_from_str :: "string \<Rightarrow> signature option"
  pc_hash_to_string :: "hash \<Rightarrow> string"
  pc_parse_tx :: "bytes \<Rightarrow> versioned_transaction option"
  pc_parse_message :: "bytes \<Rightarrow> sanitized_message option"
  pc_verify :: "sanitized_transaction \<Rightarrow> (transaction_error, unit) result"
  pc_verify_precompiles :: "sanitized_transaction \<Rightarrow> (transaction_error, unit) result"
  pc_keypair_from_bytes :: "bytes \<Rightarrow> keypair option"

definition get_sanitized_tx_from_serialized_tx ::
  "'c pg_env \<Rightarrow> pg_codec \<Rightarrow> bytes \<Rightarrow> (transaction_error, sanitized_transaction) result" where
  "get_sanitized_tx_from_serialized_tx E C serialized_tx =
     try_bind (unwrap (pc_parse_tx C serialized_tx)) (pe_try_create E)"

section \<open>RPC methods\<close>

definition rpc_get_account_info ::
  "pg_codec \<Rightarrow> pg_bank \<Rightarrow> string \<Rightarrow> (unit, wasm_account) result" where
  "rpc_get_account_info C b pubkey_str =
     try_bind (unwrap (pc_pubkey_from_str C pubkey_str)) (\<lambda>k.
     Ok (wasm_account_from (get_account_default b k)))"

definition rpc_get_genesis_hash :: "pg_codec \<Rightarrow> pg_bank \<Rightarrow> string" where
  "rpc_get_genesis_hash C b = pc_hash_to_string C (get_genesis_hash b)"

definition rpc_get_latest_blockhash :: "pg_bank \<Rightarrow> get_latest_blockhash_result" where
  "rpc_get_latest_blockhash b =
     \<lparr>lbr_blockhash = get_latest_blockhash b, lbr_last_valid_block_height = get_block_height b\<rparr>"

definition rpc_get_fee_for_message :: "pg_codec \<Rightarrow> bytes \<Rightarrow> (unit, u64 option) result" where
  "rpc_get_fee_for_message C serialized_msg =
     try_bind (unwrap (pc_parse_message C serialized_msg)) (\<lambda>msg. Ok (get_fee_for_message msg))"

definition rpc_simulate_transaction ::
  "'c pg_env \<Rightarrow> pg_codec \<Rightarrow> pg_bank \<Rightarrow> bytes \<Rightarrow> (transaction_error, simulate_transaction_result) result" where
  "rpc_simulate_transaction E C b serialized_tx =
     try_bind (attempt (get_sanitized_tx_from_serialized_tx E C serialized_tx)) (\<lambda>r. case r of
       Inr tx \<Rightarrow> simulate_tx E b tx
     | Inl err \<Rightarrow> Ok (simulate_new_error err))"

definition rpc_send_transaction ::
  "'c pg_env \<Rightarrow> pg_codec \<Rightarrow> pg_bank \<Rightarrow> bytes \<Rightarrow> pg_bank \<times> send_transaction_result" where
  "rpc_send_transaction E C b serialized_tx =
     (case try_bind (get_sanitized_tx_from_serialized_tx E C serialized_tx) (\<lambda>tx.
          try_bind (pc_verify C tx) (\<lambda>_. try_bind (pc_verify_precompiles C tx) (\<lambda>_. Ok tx))) of
        Inl err \<Rightarrow> (b, Inl err)
      | Inr tx \<Rightarrow> process_tx E b tx)"

definition rpc_request_airdrop ::
  "'c pg_env \<Rightarrow> pg_codec \<Rightarrow> pg_bank \<Rightarrow> string \<Rightarrow> u64 \<Rightarrow> pg_bank \<times> send_transaction_result" where
  "rpc_request_airdrop E C b pubkey_str lamports = (case pc_pubkey_from_str C pubkey_str of
      None \<Rightarrow> (b, Panicked)
    | Some k \<Rightarrow> airdrop E b k lamports)"

definition rpc_get_transaction ::
  "pg_codec \<Rightarrow> pg_bank \<Rightarrow> string \<Rightarrow> (unit, get_transaction_result) result" where
  "rpc_get_transaction C b signature_str =
     try_bind (unwrap (pc_signature_from_str C signature_str)) (\<lambda>s. Ok (get_tx b s))"

text \<open>
  The status of one recorded transaction. The slot difference is a 64-bit subtraction; the
  number of confirmations is cast to \<open>usize\<close>, 32 bits on wasm32.
\<close>

definition transaction_status_of :: "pg_bank \<Rightarrow> transaction_data \<Rightarrow> transaction_status" where
  "transaction_status_of b tx_data =
     (let confirmations = get_slot b - td_slot tx_data in
      \<lparr>ts_confirmation_status = Some (if confirmations = 0 then CL_Processed
           else if confirmations < 32 then CL_Confirmed else CL_Finalized),
       ts_confirmations = Some (unat confirmations mod 2 ^ 32),
       ts_slot = td_slot tx_data,
       ts_err = (case td_meta tx_data of Some meta \<Rightarrow> ctm_err meta | None \<Rightarrow> None)\<rparr>)"

fun rpc_get_signature_statuses ::
  "pg_codec \<Rightarrow> pg_bank \<Rightarrow> string list \<Rightarrow> (unit, transaction_status option list) result" where
  "rpc_get_signature_statuses C b [] = Ok []"
| "rpc_get_signature_statuses C b (signature_str # rest) =
     try_bind (unwrap (pc_signature_from_str C signature_str)) (\<lambda>s.
     try_bind (rpc_get_signature_statuses C b rest) (\<lambda>statuses.
     Ok (map_option (transaction_status_of b) (get_tx b s) # statuses)))"

section \<open>Save data\<close>

text \<open>
  The serialized fields of a bank; the transactions, the builtin programs and the caches are
  skipped. A hash map serializes its entries in an unspecified order, the parameter
  \<open>entries\<close>; keys are written as strings.
\<close>

record save_data =
  sd_accounts :: "(string \<times> account) list"
  sd_slot :: u64
  sd_block_height :: u64
  sd_genesis_hash :: hash
  sd_latest_blockhash :: hash
  sd_airdrop_kp :: bytes

definition serialize_accounts :: "pg_codec \<Rightarrow> (pubkey \<times> account) list \<Rightarrow> (string \<times> account) list" where
  "serialize_accounts C entries = map (\<lambda>(k, v). (pc_pubkey_to_string C k, v)) entries"

text \<open>
  \<open>deserialize_accounts\<close> inserts the entries of the string map it is given, in the order it is given them.
\<close>

fun deserialize_accounts ::
  "pg_codec \<Rightarrow> (string \<times> account) list \<Rightarrow> (pubkey \<Rightarrow> account option) \<Rightarrow>
   (unit, pubkey \<Rightarrow> account option) result" where
  "deserialize_accounts C [] pubkey_hm = Ok pubkey_hm"
| "deserialize_accounts C ((s, acc) # rest) pubkey_hm =
     try_bind (unwrap (pc_pubkey_from_str C s)) (\<lambda>k.
     deserialize_accounts C rest (pubkey_hm(k := Some acc)))"

definition get_save_data :: "pg_codec \<Rightarrow> (pubkey \<times> account) list \<Rightarrow> pg_bank \<Rightarrow> save_data" where
  "get_save_data C entries b =
     \<lparr>sd_accounts = serialize_accounts C entries, sd_slot = bank_slot b,
      sd_block_height = bank_block_height b, sd_genesis_hash = bank_genesis_hash b,
      sd_latest_blockhash = bank_latest_blockhash b, sd_airdrop_kp = kp_bytes (bank_airdrop_kp b)\<rparr>"

definition bank_from_save_data :: "pg_codec \<Rightarrow> save_data \<Rightarrow> (unit, pg_bank) result" where
  "bank_from_save_data C d =
     try_bind (deserialize_accounts C (sd_accounts d) (\<lambda>_. None)) (\<lambda>accounts.
     try_bind (unwrap (pc_keypair_from_bytes C (sd_airdrop_kp d))) (\<lambda>kp.
     Ok \<lparr>bank_accounts = accounts, bank_txs = (\<lambda>_. None), bank_slot = sd_slot d,
         bank_block_height = sd_block_height d, bank_genesis_hash = sd_genesis_hash d,
         bank_latest_blockhash = sd_latest_blockhash d, bank_airdrop_kp = kp,
         bank_builtin_programs = [], bank_sysvar_cache = \<lparr>sc_clock = None, sc_rent = None\<rparr>\<rparr>))"

text \<open>
  A new Playnet from a save string: \<open>parse_json\<close> yields the save data, or nothing when the
  string is not the JSON of one, and then the bank is a fresh one.
\<close>

definition playnet_new ::
  "'c pg_env \<Rightarrow> pg_codec \<Rightarrow> keypair \<Rightarrow> (string \<Rightarrow> save_data option) \<Rightarrow> string option \<Rightarrow>
   (unit, pg_bank) result" where
  "playnet_new E C new_keypair parse_json maybe_bank_string =
     (case maybe_bank_string of
        None \<Rightarrow> Ok (bank_new E new_keypair None)
      | Some s \<Rightarrow> (case parse_json s of
            None \<Rightarrow> Ok (bank_new E new_keypair None)
          | Some d \<Rightarrow> try_bind (bank_from_save_data C d) (\<lambda>b. Ok (bank_new E new_keypair (Some b)))))"

text \<open>Keys whose text parses back are read as they were written.\<close>

lemma deserialize_serialize:
  assumes "\<forall>k \<in> fst ` set entries. pc_pubkey_from_str C (pc_pubkey_to_string C k) = Some k"
  shows "deserialize_accounts C (serialize_accounts C entries) m = Ok (m ++ map_of (rev entries))"
  using assms
proof (induction entries arbitrary: m)
  case (Cons e entries)
  obtain k v where e: "e = (k, v)" by (cases e)
  with Cons have "deserialize_accounts C (serialize_accounts C (e # entries)) m =
      Ok (m(k \<mapsto> v) ++ map_of (rev entries))"
    by (simp add: serialize_accounts_def)
  also have "m(k \<mapsto> v) ++ map_of (rev entries) = m ++ map_of (rev (e # entries))"
    by (auto simp: e map_add_def fun_eq_iff split: option.split)
  finally show ?case .
qed (simp add: serialize_accounts_def)

lemma map_of_rev_distinct: "distinct (map fst xs) \<Longrightarrow> map_of (rev xs) = map_of xs"
  by (rule map_of_inject_set [THEN iffD2]) (simp_all add: rev_map [symmetric])

end
