(* ===== verification/PgSteps.thy ===== *)
theory PgSteps
  imports PgRpc
begin

text \<open>
  Playnet as a state machine: a client starts a fresh instance, sends transactions, requests
  airdrops, and saves and restores it. \<open>pg_run E C n b\<close> holds of the banks reached in \<open>n\<close>
  such steps, none of which panicked. The invariant of the reachable banks ties the slot, the
  block height and the blockhash together and bounds the slots of the recorded transactions;
  it needs fewer than \<open>2 ^ 64\<close> steps, so that the slot does not wrap.
\<close>

inductive pg_run :: "'c pg_env \<Rightarrow> pg_codec \<Rightarrow> nat \<Rightarrow> pg_bank \<Rightarrow> bool" for E C where
  start: "pg_run E C 0 (bank_new E kp None)"
| send: "pg_run E C (Suc n) b'"
    if "pg_run E C n b" "rpc_send_transaction E C b bs = (b', res)" "res \<noteq> Panicked"
| airdrop: "pg_run E C (Suc n) b'"
    if "pg_run E C n b" "rpc_request_airdrop E C b s l = (b', res)" "res \<noteq> Panicked"
| restart: "pg_run E C (Suc n) (bank_new E kp (Some b1))"
    if "pg_run E C n b" "map_of entries = bank_accounts b"
      "bank_from_save_data C (get_save_data C entries b) = Ok b1"

inductive_simps pg_run_0: "pg_run E C 0 b"

text \<open>The blockhash after a number of slots.\<close>

definition blockhash_at :: "'c pg_env \<Rightarrow> nat \<Rightarrow> hash" where
  "blockhash_at E n = ((\<lambda>h. create_blockhash E (to_le_bytes h)) ^^ n) (create_blockhash E genesis_seed)"

definition recorded_ok :: "'c pg_env \<Rightarrow> pg_bank \<Rightarrow> transaction_data \<Rightarrow> bool" where
  "recorded_ok E b d \<longleftrightarrow> unat (td_slot d) < unat (bank_slot b) \<and>
     td_block_time d = Some (pe_clock_timestamp E) \<and>
     (\<exists>meta. td_meta d = Some meta \<and> ctm_err meta = None \<and> ctm_fee meta = 0 \<and>
        (\<exists>logs units. ctm_log_messages meta = Some logs \<and> ctm_compute_units_consumed meta = Some units))"

definition bank_inv :: "'c pg_env \<Rightarrow> nat \<Rightarrow> pg_bank \<Rightarrow> bool" where
  "bank_inv E n b \<longleftrightarrow> unat (bank_slot b) \<le> n \<and> bank_block_height b = bank_slot b \<and>
     bank_genesis_hash b = create_blockhash E genesis_seed \<and>
     bank_latest_blockhash b = blockhash_at E (unat (bank_slot b)) \<and>
     bank_sysvar_cache b =
       \<lparr>sc_clock = Some (pe_clock_timestamp E), sc_rent = Some (pe_minimum_balance E)\<rparr> \<and>
     (\<forall>s d. bank_txs b s = Some d \<longrightarrow> recorded_ok E b d)"

lemma bank_new_fields [simp]:
  "bank_txs (bank_new E kp mb) = (case mb of Some b \<Rightarrow> bank_txs b | None \<Rightarrow> (\<lambda>_. None))"
  "bank_slot (bank_new E kp mb) = (case mb of Some b \<Rightarrow> bank_slot b | None \<Rightarrow> 0)"
  "bank_block_height (bank_new E kp mb) = (case mb of Some b \<Rightarrow> bank_block_height b | None \<Rightarrow> 0)"
  "bank_genesis_hash (bank_new E kp mb) =
     (case mb of Some b \<Rightarrow> bank_genesis_hash b | None \<Rightarrow> create_blockhash E genesis_seed)"
  "bank_latest_blockhash (bank_new E kp mb) =
     (case mb of Some b \<Rightarrow> bank_latest_blockhash b | None \<Rightarrow> create_blockhash E genesis_seed)"
  "bank_sysvar_cache (bank_new E kp mb) =
     \<lparr>sc_clock = Some (pe_clock_timestamp E), sc_rent = Some (pe_minimum_balance E)\<rparr>"
  by (cases mb; simp add: bank_new_def default_bank_def Let_def)+

lemma bank_new_accounts:
  "bank_accounts (bank_new E kp (Some b)) = bank_accounts b ++ map_of (rev (new_accounts E b))"
  by (simp add: bank_new_def set_accounts_accounts Let_def)

lemma unat_suc_slot: "unat (s :: u64) \<le> n \<Longrightarrow> Suc n < 2 ^ 64 \<Longrightarrow> unat (s + 1) = Suc (unat s)"
  by (simp add: unat_word_ariths)

lemma bank_inv_mono: "bank_inv E n b \<Longrightarrow> bank_inv E (Suc n) b"
  by (auto simp: bank_inv_def)

lemma bank_inv_set_accounts [simp]: "bank_inv E n (set_accounts kas b) = bank_inv E n b"
  by (simp add: bank_inv_def recorded_ok_def)

lemma process_tx_inv:
  assumes inv: "bank_inv E n b" and n: "Suc n < 2 ^ 64"
    and tx: "process_tx E b tx = (b', res)" and res: "res \<noteq> Panicked"
  shows "bank_inv E (Suc n) b'"
  using tx
proof (cases rule: process_tx_cases)
  case (rejected e)
  with inv show ?thesis by (simp add: bank_inv_mono)
next
  case (executed r)
  let ?b = "set_accounts (str_post_accounts r) b"
  from executed(3) show ?thesis
  proof (cases rule: save_tx_cases)
    case (recorded time)
    have s: "unat (bank_slot b + 1) = Suc (unat (bank_slot b))"
      using inv n by (intro unat_suc_slot) (auto simp: bank_inv_def)
    have "recorded_ok E b' d" if "recorded_ok E b d" for d
      using that s by (auto simp: recorded_ok_def recorded(5))
    moreover have "recorded_ok E b' (history_entry ?b tx r 0 time)"
      using recorded(3) inv s executed(2)
      by (simp add: recorded_ok_def recorded(5) history_entry_def get_slot_def bank_inv_def error_of_def)
    moreover have "blockhash_at E (Suc k) = create_blockhash E (to_le_bytes (blockhash_at E k))" for k
      by (simp add: blockhash_at_def)
    ultimately show ?thesis using inv s
      by (auto simp: bank_inv_def recorded(5) split: if_splits)
  qed (use inv res in \<open>simp_all add: bank_inv_mono\<close>)
qed

theorem pg_run_inv: "pg_run E C n b \<Longrightarrow> n < 2 ^ 64 \<Longrightarrow> bank_inv E n b"
proof (induction rule: pg_run.induct)
  case (start kp)
  then show ?case by (simp add: bank_inv_def blockhash_at_def)
next
  case (send n b bs b' res)
  then have inv: "bank_inv E n b" by simp
  from send.hyps(2) consider "b' = b" | tx where "process_tx E b tx = (b', res)"
    by (auto simp: rpc_send_transaction_def split: sum.splits)
  then show ?case
    using process_tx_inv [OF inv send.prems _ send.hyps(3)] bank_inv_mono [OF inv] by cases auto
next
  case (airdrop n b s l b' res)
  then have inv: "bank_inv E n b" by simp
  from airdrop.hyps(2,3) consider "b' = b" | tx where "process_tx E b tx = (b', res)"
    by (auto simp: rpc_request_airdrop_def airdrop_def split: option.splits sum.splits)
  then show ?case
    using process_tx_inv [OF inv airdrop.prems _ airdrop.hyps(3)] bank_inv_mono [OF inv] by cases auto
next
  case (restart n b entries b1 kp)
  then have inv: "bank_inv E n b" by simp
  from restart.hyps(3) show ?case
    using inv by (auto simp: bank_from_save_data_def get_save_data_def ok_simps bank_inv_def)
qed

end
