(* ===== verification/PgExamples.thy ===== *)
theory PgExamples
  imports PgSteps
begin

text \<open>
  Concrete instances at which the properties of Playnet are witnessed: a transaction
  context for the system program that satisfies the laws of \<open>PgNonce\<close>, and an environment
  whose machine runs one small program.
\<close>

section \<open>A transaction context\<close>

record sys_ctx =
  sx_number :: nat
  sx_pos :: "nat \<Rightarrow> nat"
  sx_acct :: "nat \<Rightarrow> account"
  sx_nonce :: "nat \<Rightarrow> nonce_state"
  sx_key :: "nat \<Rightarrow> pubkey"
  sx_signer :: "nat \<Rightarrow> bool"

definition sx_at :: "sys_ctx \<Rightarrow> nat \<Rightarrow> account" where
  "sx_at c i = sx_acct c (sx_pos c i)"

definition sx_set :: "sys_ctx \<Rightarrow> nat \<Rightarrow> account \<Rightarrow> sys_ctx" where
  "sx_set c i a = c\<lparr>sx_acct := (sx_acct c)(sx_pos c i := a)\<rparr>"

definition authorize0 :: "nonce_state \<Rightarrow> pubkey list \<Rightarrow> pubkey \<Rightarrow> (authorize_nonce_error, nonce_state) result" where
  "authorize0 s signers k = (case s of
      NS_Uninitialized \<Rightarrow> Fail ANE_Uninitialized
    | NS_Initialized d \<Rightarrow>
        if nd_authority d \<in> set signers then Ok (NS_Initialized (d\<lparr>nd_authority := k\<rparr>))
        else Fail (ANE_MissingRequiredSignature (nd_authority d)))"

definition ops0 :: "(sys_ctx, nonce_state) runtime_ops" where
  "ops0 = \<lparr>
     ro_check_number = (\<lambda>c n. if n \<le> sx_number c then Ok () else Fail (IE_External 0)),
     ro_index = (\<lambda>c i. Ok (sx_pos c i)),
     ro_key_at = (\<lambda>c p. Ok (sx_key c p)),
     ro_is_signer = (\<lambda>c i. Ok (sx_signer c (sx_pos c i))),
     ro_borrow = (\<lambda>c i. Ok ()),
     ro_get_key = (\<lambda>c i. sx_key c (sx_pos c i)),
     ro_is_writable = (\<lambda>c i. True),
     ro_lamports = (\<lambda>c i. acct_lamports (sx_at c i)),
     ro_data = (\<lambda>c i. acct_data (sx_at c i)),
     ro_owner = (\<lambda>c i. acct_owner (sx_at c i)),
     ro_set_data_length = (\<lambda>c i n. Ok (sx_set c i ((sx_at c i)\<lparr>acct_data :=
         take n (acct_data (sx_at c i)) @ replicate (n - length (acct_data (sx_at c i))) 0\<rparr>))),
     ro_set_owner = (\<lambda>c i k. Ok (sx_set c i ((sx_at c i)\<lparr>acct_owner := k\<rparr>))),
     ro_checked_add_lamports = (\<lambda>c i n. try_bind (ok_or (checked_add (acct_lamports (sx_at c i)) n) (IE_External 1))
         (\<lambda>l. Ok (sx_set c i ((sx_at c i)\<lparr>acct_lamports := l\<rparr>)))),
     ro_checked_sub_lamports = (\<lambda>c i n. try_bind (ok_or (checked_sub (acct_lamports (sx_at c i)) n) (IE_External 1))
         (\<lambda>l. Ok (sx_set c i ((sx_at c i)\<lparr>acct_lamports := l\<rparr>)))),
     ro_get_state = (\<lambda>c i. Ok (sx_nonce c (sx_pos c i))),
     ro_set_state = (\<lambda>c i s. Ok (c\<lparr>sx_nonce := (sx_nonce c)(sx_pos c i := s)\<rparr>)),
     ro_state = (\<lambda>s. s), ro_versions_new = (\<lambda>s. s), ro_upgrade = (\<lambda>s. None),
     ro_authorize = authorize0,
     ro_instruction_data = (\<lambda>c. Ok []), ro_signers = (\<lambda>c. Ok [9, 8]),
     ro_recent_blockhashes = (\<lambda>c i. Ok [1]), ro_rent = (\<lambda>c i. Ok (\<lambda>n. 10)),
     ro_create_with_seed = (\<lambda>b s k. Ok b),
     ro_sdk_checked_add = (\<lambda>a b. ok_or (checked_add a b) (IE_External 1)),
     ro_from_blockhash = (\<lambda>h. h + 1), ro_blockhash = 5, ro_lamports_per_signature = 0,
     ro_merge_nonce_error = False, ro_transfer_zero_check = False, ro_system_program = 0,
     ro_max_data_length = 10485760\<rparr>"

lemma same_account_ops0 [simp]: "same_account ops0 c i j \<longleftrightarrow> sx_pos c i = sx_pos c j"
  by (auto simp: same_account_def ops0_def)

lemma lamport_laws_ops0: "lamport_laws ops0"
  unfolding lamport_laws_def
  by (auto simp: ops0_def keeps_def same_account_def sx_set_def sx_at_def ok_simps fun_eq_iff)

lemma data_laws_ops0: "data_laws ops0"
  unfolding data_laws_def
  by (auto simp: ops0_def keeps_def same_account_def sx_set_def sx_at_def fun_eq_iff)

lemma nonce_laws_ops0: "nonce_laws ops0"
  unfolding nonce_laws_def
  by (auto simp: ops0_def keeps_def sx_at_def fun_eq_iff authorize0_def
      split: nonce_state.split_asm if_splits)

text \<open>Three accounts: a funded signer 9, a fresh signer 8, and a nonce account of authority 9.\<close>

definition ctx0 :: sys_ctx where
  "ctx0 = \<lparr>sx_number = 3, sx_pos = (\<lambda>i. i),
     sx_acct = (\<lambda>p. if p = 0 then default_account\<lparr>acct_lamports := 100\<rparr>
        else if p = 1 then default_account else default_account\<lparr>acct_lamports := 50\<rparr>),
     sx_nonce = (\<lambda>p. if p = 2 then NS_Initialized \<lparr>nd_authority = 9, nd_durable_nonce = 3,
         nd_lamports_per_signature = 0\<rparr> else NS_Uninitialized),
     sx_key = (\<lambda>p. if p = 0 then 9 else if p = 1 then 8 else 7), sx_signer = (\<lambda>p. p < 2)\<rparr>"

lemmas ctx0_simps = ops0_def ctx0_def sx_at_def sx_set_def default_account_def

section \<open>An environment\<close>

text \<open>
  The machine's one program moves seven lamports from the first to the second account of
  the instruction. A context is the list of loaded accounts.
\<close>

definition add_lamports0 :: "u64 \<Rightarrow> pubkey \<times> account \<Rightarrow> pubkey \<times> account" where
  "add_lamports0 n ka = (fst ka, (snd ka)\<lparr>acct_lamports := acct_lamports (snd ka) + n\<rparr>)"

definition machine0 :: "(pubkey \<times> account) list machine" where
  "machine0 = \<lparr>vm_is_precompile = (\<lambda>k. False), vm_instructions_id = 99,
     vm_find_index = (\<lambda>c k. None), vm_store_index = (\<lambda>c i n. None),
     vm_configure = (\<lambda>c pis ias data. Ok c), vm_push = (\<lambda>c. Ok c), vm_pop = (\<lambda>c. Ok c),
     vm_process = (\<lambda>c data ias pis. case ias of
         a # b # _ \<Rightarrow> let i = ia_index_in_transaction a; j = ia_index_in_transaction b in
           Ok (c[i := add_lamports0 (- 7) (c ! i), j := add_lamports0 7 (c ! j)], 3)
       | _ \<Rightarrow> Fail IE_InvalidArgument),
     vm_data_len_delta = (\<lambda>c. 0)\<rparr>"

definition message0 :: sanitized_message where
  "message0 = \<lparr>msg_account_keys = [9, 8, 0],
     msg_instructions = [\<lparr>ci_program_id_index = 2, ci_accounts = [0, 1], ci_data = [5]\<rparr>],
     msg_num_required_signatures = 1, msg_recent_blockhash = 0, msg_program_id = (\<lambda>ix. 0),
     msg_is_writable = (\<lambda>i. i < 2), msg_is_signer = (\<lambda>i. i = 0), msg_is_non_loader_key = (\<lambda>i. i < 2),
     msg_upgradeable_loader_present = False\<rparr>"

definition tx0 :: sanitized_transaction where
  "tx0 = \<lparr>tx_message = message0, tx_signatures = [11], tx_signature = 11,
     tx_versioned = \<lparr>vt_version = TV_Legacy, vt_bytes = [1, 2]\<rparr>\<rparr>"

lemma tx0_simps:
  "tx_message tx0 = message0" "tx_signatures tx0 = [11]" "tx_signature tx0 = 11"
  "msg_account_keys message0 = [9, 8, 0]"
  "msg_instructions message0 = [\<lparr>ci_program_id_index = 2, ci_accounts = [0, 1], ci_data = [5]\<rparr>]"
  by (simp_all add: tx0_def message0_def)

definition pg_env0 :: "(pubkey \<times> account) list pg_env" where
  "pg_env0 = \<lparr>pe_bpf_loader = 1, pe_bpf_loader_upgradeable = 2, pe_native_loader = 3,
     pe_system_program = 0, pe_sysvar = 4, pe_clock_id = 5, pe_rent_id = 6, pe_instructions_id = 99,
     pe_clock_data = [0], pe_clock_timestamp = 0, pe_rent_data = [0], pe_minimum_balance = (\<lambda>n. 10),
     pe_hash = (\<lambda>bs. from_le_bytes bs + 1), pe_program_data = (\<lambda>a. None), pe_nonce_size = 80,
     pe_nonce_of = (\<lambda>bs. Some (NS_Initialized \<lparr>nd_authority = 9, nd_durable_nonce = 3,
         nd_lamports_per_signature = 0\<rparr>)),
     pe_instructions_owned_by_sysvar = False, pe_construct_instructions = (\<lambda>m. []),
     pe_new_context = (\<lambda>accounts. accounts), pe_machine = (\<lambda>_ _ _ _ _. machine0),
     pe_record = (\<lambda>c. (c, \<lparr>rd_program_id = 0, rd_data = [1, 0]\<rparr>)), pe_logs = (\<lambda>c. []),
     pe_transfer_tx = (\<lambda>kp k n h. \<lparr>vt_version = TV_Legacy, vt_bytes = [1, 2]\<rparr>),
     pe_try_create = (\<lambda>v. Ok tx0)\<rparr>"

definition keypair0 :: keypair where
  "keypair0 = \<lparr>kp_bytes = [1], kp_pubkey = 9\<rparr>"

definition codec0 :: pg_codec where
  "codec0 = \<lparr>pc_pubkey_from_str = (\<lambda>s. Some (word_of_nat (length s))),
     pc_pubkey_to_string = (\<lambda>k. replicate (unat k) CHR ''1''),
     pc_signature_from_str = (\<lambda>s. Some 11), pc_hash_to_string = (\<lambda>h. []),
     pc_parse_tx = (\<lambda>bs. Some \<lparr>vt_version = TV_Legacy, vt_bytes = bs\<rparr>),
     pc_parse_message = (\<lambda>bs. Some message0), pc_verify = (\<lambda>tx. Ok ()),
     pc_verify_precompiles = (\<lambda>tx. Ok ()), pc_keypair_from_bytes = (\<lambda>bs. Some keypair0)\<rparr>"

definition pg_bank0 :: pg_bank where
  "pg_bank0 = bank_new pg_env0 keypair0 None"

lemma bank0_accounts [simp]:
  "bank_accounts pg_bank0 9 = Some (airdrop_account pg_env0)" "bank_accounts pg_bank0 8 = None"
  "bank_accounts pg_bank0 0 = Some (native_account pg_env0)"
  by (simp_all add: pg_bank0_def bank_new_def set_accounts_accounts new_accounts_def default_bank_def
      keypair0_def pg_env0_def Let_def map_add_def)

text \<open>What the transaction loads and does, on a bank where key 9 can pay.\<close>

lemma load_tx0:
  assumes "bank_accounts b 9 = Some p" "acct_lamports p \<noteq> 0" "acct_owner p = 0" "acct_data p = []"
    and "\<not> acct_executable p" "\<not> acct_executable (get_account_default b 8)"
    and "acct_owner (get_account_default b 8) = 0"
    and "bank_accounts b 0 = Some (native_account pg_env0)"
  shows "load_tx pg_env0 b tx0 = Ok \<lparr>
    lt_accounts = [(9, p), (8, get_account_default b 8), (0, native_account pg_env0), (0, native_account pg_env0)],
    lt_program_indices = [[3]]\<rparr>"
proof -
  have d: "get_account_default b 9 = p" "get_account_default b 0 = native_account pg_env0"
    "get_account b 0 = Some (native_account pg_env0)"
    using assms by (simp_all add: get_account_default_def get_account_def)
  have n: "acct_executable (native_account pg_env0)" "acct_owner (native_account pg_env0) = 3"
    by (simp_all add: native_account_def account_new_def pg_env0_def)
  have e: "pe_native_loader pg_env0 = 3" "pe_bpf_loader_upgradeable pg_env0 = 2"
    "pe_instructions_id pg_env0 = 99" "pe_system_program pg_env0 = 0"
    by (simp_all add: pg_env0_def)
  have v: "validate_fee_payer pg_env0 p 0 = Ok ()"
    using assms by (simp add: validate_fee_payer_Ok e)
  have k: "load_keys pg_env0 b message0 0 None 0 [9, 8, 0] False [] 0 =
      Ok ([(9, p), (8, get_account_default b 8), (0, native_account pg_env0)], True, [], 0)"
    using assms v by (simp add: load_account_at_def load_dependency_def message0_def d e Let_def
        accumulate_and_check_loaded_account_data_size_def)
  have "load_executable_accounts pg_env0 b None
      [(9, p), (8, get_account_default b 8), (0, native_account pg_env0)] 2 0 =
    Ok ([(9, p), (8, get_account_default b 8), (0, native_account pg_env0), (0, native_account pg_env0)], [3], 0)"
    by (simp add: load_executable_accounts_def, subst load_chain.simps)
      (simp add: load_program_def d n e index_def index_of_account_def Let_def
        accumulate_and_check_loaded_account_data_size_def load_chain.simps [of _ _ _ _ "Suc 0"])
  then show ?thesis
    using k by (simp add: load_tx_def load_tx_accounts_def tx0_simps del: load_keys.simps)
qed

definition paid0 :: "account \<Rightarrow> account \<Rightarrow> (pubkey \<times> account) list" where
  "paid0 p q = [(9, p\<lparr>acct_lamports := acct_lamports p - 7\<rparr>), (8, q\<lparr>acct_lamports := acct_lamports q + 7\<rparr>),
     (0, native_account pg_env0)]"

lemma simulate_tx0:
  assumes "bank_accounts b 9 = Some p" "acct_lamports p \<noteq> 0" "acct_owner p = 0" "acct_data p = []"
    and "\<not> acct_executable p" "\<not> acct_executable (get_account_default b 8)"
    and "acct_owner (get_account_default b 8) = 0"
    and "bank_accounts b 0 = Some (native_account pg_env0)" "sc_rent (bank_sysvar_cache b) = Some r"
  shows "\<exists>res. simulate_tx pg_env0 b tx0 = Ok res \<and> str_result res = Ok () \<and>
    str_post_accounts res = paid0 p (get_account_default b 8) \<and>
    str_pre_accounts res = [(9, p), (8, get_account_default b 8), (0, native_account pg_env0)] \<and>
    str_return_data res = Some \<lparr>rd_program_id = 0, rd_data = [1]\<rparr>"
proof -
  let ?l = "[(9, p), (8, get_account_default b 8), (0, native_account pg_env0), (0, native_account pg_env0)]"
  let ?l' = "paid0 p (get_account_default b 8) @ [(0, native_account pg_env0)]"
  have pm: "process_message machine0 message0 [[3]] ?l = Ok (?l', 3, 0)"
    by (simp add: process_message_def message0_def fixup_instructions_def run_instruction_at_def
        instruction_accounts_def instruction_account_at_def machine0_def Let_def paid0_def
        add_lamports0_def saturating_add_def)
  have "execute_loaded_tx pg_env0 b tx0 \<lparr>lt_accounts = ?l, lt_program_indices = [[3]]\<rparr> =
      Ok (TER_Executed \<lparr>ed_status = Ok (), ed_log_messages = Some [],
          ed_return_data = Some \<lparr>rd_program_id = 0, rd_data = [1]\<rparr>, ed_executed_units = 3,
          ed_accounts_data_len_delta = 0\<rparr>, \<lparr>lt_accounts = ?l', lt_program_indices = [[3]]\<rparr>)"
    using assms(9) pm
    by (simp add: execute_loaded_tx_def Let_def tx0_def) (simp add: pg_env0_def trim_return_data_def)
  then show ?thesis
    using load_tx0 [OF assms(1-8)]
    by (simp add: simulate_tx_def simulation_of_def) (simp add: tx0_def message0_def paid0_def)
qed

section \<open>The bank after the transaction\<close>

definition pg_bank1 :: pg_bank where
  "pg_bank1 = fst (process_tx pg_env0 pg_bank0 tx0)"

lemma not_write_tx0: "\<not> is_write_tx pg_env0 tx0"
  by (simp add: is_write_tx_def tx0_simps index_def pg_env0_def)

lemma airdrop_account0: "acct_lamports (airdrop_account pg_env0) = 1000000000000000"
  "acct_owner (airdrop_account pg_env0) = 0" "acct_data (airdrop_account pg_env0) = []"
  "\<not> acct_executable (airdrop_account pg_env0)"
  by (simp_all add: airdrop_account_def account_new_def default_account_def LAMPORTS_PER_SOL_def pg_env0_def)

lemma simulate_bank0:
  "\<exists>res. simulate_tx pg_env0 pg_bank0 tx0 = Ok res \<and> str_result res = Ok () \<and>
    str_post_accounts res = paid0 (airdrop_account pg_env0) default_account"
proof -
  have "get_account_default pg_bank0 8 = default_account" by (simp add: get_account_default_def)
  moreover have "sc_rent (bank_sysvar_cache pg_bank0) = Some (pe_minimum_balance pg_env0)"
    by (simp add: pg_bank0_def)
  ultimately show ?thesis
    using simulate_tx0 [of pg_bank0 "airdrop_account pg_env0" "pe_minimum_balance pg_env0"]
    by (auto simp: airdrop_account0 default_account_def)
qed

lemma process_bank0: "process_tx pg_env0 pg_bank0 tx0 = (pg_bank1, Ok 11)"
  and bank1_accounts: "bank_accounts pg_bank1 =
    bank_accounts pg_bank0 ++ map_of (rev (paid0 (airdrop_account pg_env0) default_account))"
  and bank1_slot: "bank_slot pg_bank1 = 1"
  and bank1_tx: "\<exists>d. bank_txs pg_bank1 11 = Some d \<and> td_slot d = 0"
  and bank1_cache: "bank_sysvar_cache pg_bank1 = bank_sysvar_cache pg_bank0"
proof -
  from simulate_bank0 obtain r where r: "simulate_tx pg_env0 pg_bank0 tx0 = Ok r" "str_result r = Ok ()"
    "str_post_accounts r = paid0 (airdrop_account pg_env0) default_account" by blast
  obtain b' res where p: "process_tx pg_env0 pg_bank0 tx0 = (b', res)" by fastforce
  have f: "bank_txs pg_bank0 11 = None" "bank_slot pg_bank0 = 0"
    "sc_clock (bank_sysvar_cache pg_bank0) = Some 0"
    by (simp_all add: pg_bank0_def pg_env0_def)
  from p have s: "save_tx pg_env0 (set_accounts (str_post_accounts r) pg_bank0) tx0 r 0 = (b', res)"
    by (simp add: process_tx_def r)
  have w: "bpf_upgradeable_write_ix_exists pg_env0 (msg_account_keys (tx_message tx0))
      (msg_instructions (tx_message tx0)) = Ok False"
    by (simp add: tx0_simps index_def pg_env0_def)
  from s have "res = Ok 11 \<and> b' = new_slot pg_env0 ((set_accounts (str_post_accounts r) pg_bank0)
      \<lparr>bank_txs := (bank_txs pg_bank0)(11 := Some (history_entry (set_accounts (str_post_accounts r) pg_bank0)
        tx0 r 0 0))\<rparr>)"
    by (auto simp: save_tx_def w f Let_def tx0_simps(3))
  with p r f show "process_tx pg_env0 pg_bank0 tx0 = (pg_bank1, Ok 11)"
    "bank_accounts pg_bank1 =
      bank_accounts pg_bank0 ++ map_of (rev (paid0 (airdrop_account pg_env0) default_account))"
    "bank_slot pg_bank1 = 1" "\<exists>d. bank_txs pg_bank1 11 = Some d \<and> td_slot d = 0"
    "bank_sysvar_cache pg_bank1 = bank_sysvar_cache pg_bank0"
    by (simp_all add: pg_bank1_def set_accounts_accounts history_entry_def get_slot_def)
qed

text \<open>The same transaction again executes on the new balances.\<close>

lemma simulate_bank1:
  "\<exists>res p q. simulate_tx pg_env0 pg_bank1 tx0 = Ok res \<and> str_result res = Ok () \<and>
    str_post_accounts res = paid0 p q \<and> acct_lamports p = 999999999999993 \<and>
    bank_accounts pg_bank1 9 = Some p"
proof -
  let ?p = "(airdrop_account pg_env0)\<lparr>acct_lamports := 999999999999993\<rparr>"
  have a: "bank_accounts pg_bank1 9 = Some ?p"
    "get_account_default pg_bank1 8 = default_account\<lparr>acct_lamports := 7\<rparr>"
    "bank_accounts pg_bank1 0 = Some (native_account pg_env0)"
    by (simp_all add: get_account_default_def bank1_accounts paid0_def airdrop_account0 map_add_def)
      (simp add: default_account_def)
  have r: "sc_rent (bank_sysvar_cache pg_bank1) = Some (pe_minimum_balance pg_env0)"
    by (simp add: bank1_cache) (simp add: pg_bank0_def)
  from simulate_tx0 [OF a(1) _ _ _ _ _ _ a(3) r] a(1) show ?thesis
    by (fastforce simp: a(2) airdrop_account0 default_account_def)
qed

lemma pg_run0: "pg_run pg_env0 codec0 0 pg_bank0"
  by (auto simp: pg_run_0 pg_bank0_def)

lemma pg_run1: "pg_run pg_env0 codec0 1 pg_bank1"
proof -
  have "rpc_send_transaction pg_env0 codec0 pg_bank0 [] = (pg_bank1, Ok 11)"
    by (simp add: rpc_send_transaction_def get_sanitized_tx_from_serialized_tx_def codec0_def)
      (simp add: pg_env0_def [THEN arg_cong, of pe_try_create] process_bank0)
  from pg_run.send [OF pg_run0 this] show ?thesis by simp
qed

definition saved_bank0 :: pg_bank where
  "saved_bank0 = (default_bank pg_env0 keypair0)\<lparr>bank_accounts := [8 \<mapsto> default_account], bank_slot := 4\<rparr>"

end
