(* ===== verification/PgProperties.thy ===== *)
theory PgProperties
  imports PgExamples
begin

text \<open>
  Properties of Playnet: its system program and nonce accounts, the message processor, the
  loading of accounts, the bank and its RPC methods, each with a witness at the concrete
  instances of \<open>PgExamples\<close>.
\<close>

section \<open>The system program\<close>

text \<open>C16: a transfer moves exactly its lamports from the first to the second account and
  changes nothing else; one that moves lamports was signed by its source, which carries no
  data and has enough of them.\<close>

theorem system_transfer_effect:
  assumes "lamport_laws R"
    and "run_system_instruction R c signers (SI_Transfer n) = Ok c'"
  shows "lamports_moved R c c' 0 1 n \<and> ro_data R c' = ro_data R c \<and> ro_owner R c' = ro_owner R c \<and>
    (n \<noteq> 0 \<longrightarrow> ro_is_signer R c 0 = Ok True \<and> ro_data R c 0 = [] \<and> n \<le> ro_lamports R c 0)"
proof -
  from assms(2) have "transfer R c 0 1 n = Ok c'"
    by (auto simp: run_system_instruction_def ok_simps)
  from transfer_Ok [OF assms(1) this] show ?thesis by blast
qed

theorem system_transfer_effect_witness:
  "\<exists>c'. run_system_instruction ops0 ctx0 [9, 8] (SI_Transfer 30) = Ok c' \<and>
    lamports_moved ops0 ctx0 c' 0 1 30 \<and> unat (ro_lamports ops0 c' 1) = 30"
proof -
  have "\<exists>c'. run_system_instruction ops0 ctx0 [9, 8] (SI_Transfer 30) = Ok c'"
    by (simp add: run_system_instruction_def transfer_def transfer_verified_def ctx0_simps
        checked_sub_def checked_add_def)
  then obtain c' where c': "run_system_instruction ops0 ctx0 [9, 8] (SI_Transfer 30) = Ok c'" by blast
  from system_transfer_effect [OF lamport_laws_ops0 this]
  have "lamports_moved ops0 ctx0 c' 0 1 30" by blast
  moreover from this have "unat (ro_lamports ops0 c' 1) = 30"
    by (simp add: lamports_moved_def) (simp add: ctx0_simps)
  ultimately show ?thesis using c' by blast
qed

text \<open>C17: an account is created only at an address that signed and was unused: no lamports,
  no data, owned by the system program. It gets the owner given, zeroed data of the space
  given and the lamports of the first account, which signed if there were any.\<close>

theorem create_account_effect:
  assumes "data_laws R" "lamport_laws R"
    and "run_system_instruction R c signers (SI_CreateAccount n space owner) = Ok c'"
  shows "\<exists>key. instruction_key R c 1 = Ok key \<and> key \<in> set signers \<and>
    ro_lamports R c 1 = 0 \<and> ro_data R c 1 = [] \<and> ro_owner R c 1 = ro_system_program R \<and>
    space \<le> ro_max_data_length R \<and> ro_data R c' 1 = replicate (unat space) 0 \<and>
    ro_owner R c' 1 = owner \<and> lamports_moved R c c' 0 1 n \<and>
    (n \<noteq> 0 \<longrightarrow> ro_is_signer R c 0 = Ok True)"
proof -
  from assms(3) obtain key where key: "instruction_key R c 1 = Ok key"
    and cr: "create_account R c 0 1 \<lparr>addr_address = key, addr_base = None\<rparr> n space owner signers = Ok c'"
    by (auto simp: run_system_instruction_def create_account_at_def address_create_def ok_simps)
  from create_account_Ok [OF assms(1,2) cr] key show ?thesis by (simp add: address_is_signer_def)
qed

theorem create_account_effect_witness:
  "\<exists>c'. run_system_instruction ops0 ctx0 [9, 8] (SI_CreateAccount 30 2 77) = Ok c' \<and>
    ro_data ops0 c' 1 = [0, 0] \<and> ro_owner ops0 c' 1 = 77"
proof -
  have "\<exists>c'. run_system_instruction ops0 ctx0 [9, 8] (SI_CreateAccount 30 2 77) = Ok c'"
    by (simp add: run_system_instruction_def create_account_at_def instruction_key_def address_create_def
        create_account_def allocate_and_assign_def allocate_def assign_def address_is_signer_def
        transfer_def transfer_verified_def ctx0_simps checked_sub_def checked_add_def)
  then obtain c' where c': "run_system_instruction ops0 ctx0 [9, 8] (SI_CreateAccount 30 2 77) = Ok c'" by blast
  have "replicate 2 (0 :: byte) = [0, 0]" by (simp add: numeral_2_eq_2)
  then have "replicate (unat (2 :: u64)) (0 :: byte) = [0, 0]" by simp
  with create_account_effect [OF data_laws_ops0 lamport_laws_ops0 c'] c' show ?thesis by metis
qed

section \<open>Nonce accounts\<close>



text \<open>C19: a withdrawal moves exactly its lamports. From an uninitialized nonce account it needs the
  account's own signature and leaves it uninitialized. From an initialized one it needs the authority,
  and either takes every lamport, which the account's durable nonce must then have expired for, and
  leaves the account uninitialized, or takes a part, whatever the nonce, and keeps the nonce data and at
  least the rent-exempt minimum.\<close>

theorem withdraw_nonce_safe:
  assumes "nonce_laws R" "lamport_laws R"
    and "withdraw_nonce_account R c from n to rent signers = Ok c'" "\<not> same_account R c from to"
  shows "lamports_moved R c c' from to n \<and> ro_is_writable R c from \<and>
    (\<exists>s. nonce_state_of R c from = Some s \<and> (case s of
       NS_Uninitialized \<Rightarrow> ro_get_key R c from \<in> set signers \<and>
         nonce_state_of R c' from = Some NS_Uninitialized
     | NS_Initialized d \<Rightarrow> nd_authority d \<in> set signers \<and>
         (if n = ro_lamports R c from
          then nd_durable_nonce d \<noteq> ro_from_blockhash R (ro_blockhash R) \<and>
            ro_lamports R c' from = 0 \<and> nonce_state_of R c' from = Some NS_Uninitialized
          else nonce_state_of R c' from = Some (NS_Initialized d) \<and>
            rent (length (ro_data R c from)) \<le> ro_lamports R c' from)))"
proof -
  from withdraw_nonce_account_Ok [OF assms(1-3)] obtain s where
    w: "nonce_state_of R c from = Some s" "lamports_moved R c c' from to n" "ro_is_writable R c from"
      "case s of
         NS_Uninitialized \<Rightarrow> ro_get_key R c from \<in> set signers \<and> nonce_state_of R c' from = Some s
       | NS_Initialized d \<Rightarrow> nd_authority d \<in> set signers \<and>
           (if n = ro_lamports R c from then nd_durable_nonce d \<noteq> ro_from_blockhash R (ro_blockhash R) \<and>
              nonce_state_of R c' from = Some NS_Uninitialized
            else nonce_state_of R c' from = Some s \<and>
              unat n + unat (rent (length (ro_data R c from))) \<le> unat (ro_lamports R c from))"
    by blast
  then have m: "unat (ro_lamports R c from) = unat (ro_lamports R c' from) + unat n"
    using assms(4) by (auto simp: lamports_moved_def)
  then have "n = ro_lamports R c from \<longleftrightarrow> ro_lamports R c' from = 0"
    by (auto simp: word_unat_eq_iff)
  with w m show ?thesis by (cases s) (auto simp: word_le_nat_alt split: if_splits)
qed

theorem withdraw_nonce_safe_witness:
  "\<exists>c'. withdraw_nonce_account ops0 ctx0 2 30 0 (\<lambda>n. 10) [9] = Ok c' \<and> 10 \<le> ro_lamports ops0 c' 2"
proof -
  have "\<exists>c'. withdraw_nonce_account ops0 ctx0 2 30 0 (\<lambda>n. 10) [9] = Ok c'"
    by (simp add: withdraw_nonce_account_def withdraw_check_def ctx0_simps checked_add_def checked_sub_def)
  then obtain c' where c': "withdraw_nonce_account ops0 ctx0 2 30 0 (\<lambda>n. 10) [9] = Ok c'" by blast
  have s: "nonce_state_of ops0 ctx0 2 = Some (NS_Initialized \<lparr>nd_authority = 9, nd_durable_nonce = 3,
      nd_lamports_per_signature = 0\<rparr>)"
    by (simp add: nonce_state_of_def ctx0_simps)
  have "\<not> same_account ops0 ctx0 2 0" by (simp add: ctx0_def)
  moreover have "ro_lamports ops0 ctx0 2 = 50" by (simp add: ctx0_simps)
  ultimately show ?thesis
    using withdraw_nonce_safe [OF nonce_laws_ops0 lamport_laws_ops0 c'] c' s by (auto split: if_splits)
qed

section \<open>Running messages\<close>

text \<open>C20: when a message fails with an instruction's error, every instruction before it ran,
  and the index in the error is that of the instruction that failed.\<close>

theorem message_error_index:
  assumes "process_message V message program_indices c = Fail (TXE_InstructionError n e)"
  shows "\<exists>k c' units c''. k < length (msg_instructions message) \<and> n = word_of_nat k \<and>
    process_instructions V message (take k (zip (msg_instructions message) program_indices)) 0 c 0 = Ok (c', units) \<and>
    fixup_instructions V c' k = Ok c'' \<and>
    run_instruction_at V message c'' (msg_instructions message ! k) (program_indices ! k) units = Fail e"
proof -
  let ?z = "zip (msg_instructions message) program_indices"
  from assms have "process_instructions V message ?z 0 c 0 = Fail (TXE_InstructionError n e)"
    by (cases "process_instructions V message ?z 0 c 0") (auto simp: process_message_def)
  from process_instructions_Fail [OF this] obtain k c' units c'' where
    "k < length ?z" "n = word_of_nat k" "process_instructions V message (take k ?z) 0 c 0 = Ok (c', units)"
    "fixup_instructions V c' k = Ok c''"
    "run_instruction_at V message c'' (fst (?z ! k)) (snd (?z ! k)) units = Fail e" by auto
  then show ?thesis by (intro exI [of _ k] exI [of _ c'] exI [of _ units] exI [of _ c'']) simp
qed

text \<open>The second instruction names one account where the program needs two.\<close>

theorem message_error_index_witness:
  "\<exists>k. k < 2 \<and> (1 :: u8) = word_of_nat k"
proof -
  let ?ix = "\<lparr>ci_program_id_index = 2, ci_accounts = [0, 1], ci_data = [5]\<rparr>"
  let ?m = "message0\<lparr>msg_instructions := [?ix, ?ix\<lparr>ci_accounts := [0]\<rparr>]\<rparr>"
  have "process_message machine0 ?m [[3], [3]] [(9, default_account), (8, default_account)] =
      Fail (TXE_InstructionError 1 IE_InvalidArgument)"
    by (simp add: process_message_def fixup_instructions_def run_instruction_at_def
        instruction_accounts_def instruction_account_at_def machine0_def Let_def)
  from message_error_index [OF this] obtain k where "k < length (msg_instructions ?m)" "(1 :: u8) = word_of_nat k"
    by blast
  then show ?thesis by (intro exI [of _ k]) simp
qed

text \<open>The account list handed to a program has one entry per account of the instruction,
  each with the permissions the message gives its account, and its callee index is the
  first position that names the same account.\<close>

theorem instruction_accounts_first:
  assumes "i < length (ci_accounts ix)"
  shows "length (instruction_accounts message ix) = length (ci_accounts ix) \<and>
    (let a = instruction_accounts message ix ! i; p = unat (ci_accounts ix ! i) in
     ia_index_in_transaction a = p \<and> ia_is_signer a = msg_is_signer message p \<and>
     ia_is_writable a = msg_is_writable message p \<and> ia_index_in_callee a \<le> i \<and>
     ci_accounts ix ! ia_index_in_callee a = ci_accounts ix ! i \<and>
     (\<forall>j < ia_index_in_callee a. ci_accounts ix ! j \<noteq> ci_accounts ix ! i))"
  using index_in_callee_first [OF assms] assms
  by (simp add: instruction_accounts_def instruction_account_at_def Let_def)

theorem instruction_accounts_first_witness:
  "ia_index_in_callee (instruction_accounts message0
      \<lparr>ci_program_id_index = 2, ci_accounts = [4, 1, 4], ci_data = []\<rparr> ! 2) \<le> 2"
  using instruction_accounts_first [of 2 "\<lparr>ci_program_id_index = 2, ci_accounts = [4, 1, 4], ci_data = []\<rparr>" message0]
  by (simp add: Let_def)

section \<open>Loading accounts\<close>

text \<open>The loaders of a program: the program and then each owner up to the native loader, every one an
  executable account of the bank, and behind a program of the upgradeable loader its program data.\<close>

fun loader_chain :: "'c pg_env \<Rightarrow> pg_bank \<Rightarrow> pubkey \<Rightarrow> (pubkey \<times> account) list \<Rightarrow> bool" where
  "loader_chain E b k [] \<longleftrightarrow> k = pe_native_loader E"
| "loader_chain E b k ((k', a) # xs) \<longleftrightarrow>
     k \<noteq> pe_native_loader E \<and> k' = k \<and> get_account b k = Some a \<and> acct_executable a \<and>
     (if acct_owner a = pe_bpf_loader_upgradeable E
      then (case xs of
          [] \<Rightarrow> False
        | (d, data) # ys \<Rightarrow> pe_program_data E a = Some d \<and> get_account b d = Some data \<and>
            loader_chain E b (acct_owner a) ys)
      else loader_chain E b (acct_owner a) xs)"

lemma load_program_appends:
  assumes "load_program E b counted accounts k is = Ok (accounts', owner, tot, is')"
    and "length accounts + 2 \<le> 2 ^ 16"
  shows "\<exists>a. get_account b k = Some a \<and> acct_executable a \<and> owner = acct_owner a \<and>
    (if owner = pe_bpf_loader_upgradeable E
     then \<exists>d data. pe_program_data E a = Some d \<and> get_account b d = Some data \<and>
       accounts' = accounts @ [(k, a), (d, data)]
     else accounts' = accounts @ [(k, a)])"
proof -
  have idx: "index_of_account (length accounts) = length accounts"
    using assms(2) by (simp add: index_of_account_def)
  from assms(1) obtain a where a: "get_account b k = Some a"
    by (auto simp: load_program_def split: option.splits)
  with assms(1) show ?thesis
    by (auto simp: load_program_def load_programdata_def idx index_def Let_def ok_simps
        split: if_splits option.splits)
qed

lemma load_chain_appends:
  assumes "load_chain E b limit already depth k accounts is sz = Ok (accounts', is', sz')"
    and "length accounts + 2 * (5 - depth) \<le> 2 ^ 16" "depth \<le> 5"
  shows "\<exists>ext. accounts' = accounts @ ext \<and> loader_chain E b k ext"
  using assms
proof (induction E b limit already depth k accounts "is" sz rule: load_chain.induct)
  case (1 E b limit already depth k accounts "is" sz)
  show ?case
  proof (cases "k = pe_native_loader E")
    case True
    with "1.prems"(1) show ?thesis by (simp add: load_chain.simps)
  next
    case False
    from "1.prems"(1) False have d: "depth < 5"
      by (subst (asm) load_chain.simps) (simp split: if_splits)
    from "1.prems"(1) False d obtain accounts1 owner tot is1 sz1 where
      lp: "load_program E b (\<not> (depth + 1 = 1 \<and> already)) accounts k is = Ok (accounts1, owner, tot, is1)"
      and acc: "accumulate_and_check_loaded_account_data_size sz tot limit = Ok sz1"
      and rest: "load_chain E b limit already (depth + 1) owner accounts1 is1 sz1 = Ok (accounts', is', sz')"
      by (subst (asm) load_chain.simps) (auto simp: ok_simps)
    have room: "length accounts + 2 \<le> 2 ^ 16" using "1.prems"(2) d by simp
    note a = load_program_appends [OF lp room]
    have "length accounts1 + 2 * (5 - (depth + 1)) \<le> 2 ^ 16"
      using a "1.prems"(2) d by (auto split: if_splits)
    from "1.IH" [OF False _ lp refl refl refl acc rest this] d obtain ext where
      "accounts' = accounts1 @ ext" "loader_chain E b owner ext" by auto
    with a False show ?thesis by (cases "owner = pe_bpf_loader_upgradeable E") auto
  qed
qed

text \<open>The programs of an instruction, from its own to the last loader, in the loaded accounts.\<close>

definition program_chain ::
  "'c pg_env \<Rightarrow> pg_bank \<Rightarrow> (pubkey \<times> account) list \<Rightarrow> nat \<Rightarrow> nat list \<Rightarrow> bool" where
  "program_chain E b accounts p is \<longleftrightarrow> p < length accounts \<and> (\<forall>i \<in> set is. i < length accounts) \<and>
     loader_chain E b (fst (accounts ! p)) (map (\<lambda>i. accounts ! i) (rev is))"

lemma program_chain_append:
  assumes "program_chain E b accounts p is"
  shows "program_chain E b (accounts @ ext) p is"
proof -
  from assms have "map (\<lambda>i. (accounts @ ext) ! i) (rev is) = map (\<lambda>i. accounts ! i) (rev is)"
    by (simp add: program_chain_def nth_append)
  moreover from assms have "(accounts @ ext) ! p = accounts ! p"
    by (simp add: program_chain_def nth_append)
  ultimately show ?thesis
    using assms by (auto simp only: program_chain_def length_append intro: trans_less_add1)
qed

lemma load_executable_accounts_chain:
  assumes "load_executable_accounts E b limit accounts p sz = Ok (accounts', is, sz')"
    and "length accounts + 10 \<le> 2 ^ 16"
  shows "program_chain E b accounts' p is"
proof -
  from assms(1) have p: "p < length accounts" and c: "load_chain E b limit (snd (accounts ! p) \<noteq> default_account) 0
      (fst (accounts ! p)) accounts [] sz = Ok (accounts', is, sz')"
    by (auto simp: load_executable_accounts_def case_prod_beta' Let_def split: if_splits)
  from load_chain_appends [OF c] assms(2) obtain ext where
    e: "accounts' = accounts @ ext" "loader_chain E b (fst (accounts ! p)) ext" by auto
  from load_executable_accounts_Ok [OF assms] have i: "is = rev [length accounts ..< length accounts']" by blast
  have "map (\<lambda>i. accounts' ! i) [length accounts ..< length accounts'] = ext"
    by (rule nth_equalityI) (simp_all add: e(1))
  with e p i show ?thesis by (auto simp: program_chain_def nth_append)
qed

lemma load_programs_chain:
  assumes "load_programs E b limit ixs accounts sz = Ok (accounts', iss)"
    and "length accounts + 10 * length ixs \<le> 2 ^ 16"
  shows "list_all2 (\<lambda>ix is. program_chain E b accounts' (unat (ci_program_id_index ix)) is) ixs iss"
  using assms
proof (induction ixs arbitrary: accounts sz accounts' iss)
  case (Cons ix ixs)
  from Cons.prems(1) obtain accounts1 "is" sz1 rest where
    le: "load_executable_accounts E b limit accounts (unat (ci_program_id_index ix)) sz = Ok (accounts1, is, sz1)"
    and rest: "load_programs E b limit ixs accounts1 sz1 = Ok (accounts', rest)" and iss: "iss = is # rest"
    by (auto simp: ok_simps)
  have room: "length accounts + 10 \<le> 2 ^ 16" using Cons.prems(2) by simp
  from load_executable_accounts_Ok [OF le room] Cons.prems(2)
  have room1: "length accounts1 + 10 * length ixs \<le> 2 ^ 16" by auto
  from load_programs_Ok [OF rest room1] obtain ext where "accounts' = accounts1 @ ext" by blast
  with program_chain_append [OF load_executable_accounts_chain [OF le room]] Cons.IH [OF rest room1] iss
  show ?case by simp
qed auto

text \<open>C21: a loaded transaction begins with the accounts of the message's keys in order. Each of its
  instructions has a chain of programs, which the program indices list from the last loader down to
  the instruction's program: it starts at the program's key, every program of it is an executable
  account of the bank owned by the next, each program of the upgradeable loader comes with its program
  data, and it ends at the native loader. The fee payer, the first key that is no loader key nor the
  instructions sysvar, holds lamports in a system account without data. No executable account is
  writable unless the upgradeable loader, which then owns it, is in the message.\<close>

theorem load_tx_effect:
  assumes "load_tx E b tx = Ok lt"
    and "2 * length (msg_account_keys (tx_message tx)) + 10 * length (msg_instructions (tx_message tx)) \<le> 2 ^ 16"
  shows "let message = tx_message tx; keys = msg_account_keys message; n = length keys in
    take n (lt_accounts lt) = map (\<lambda>i. (keys ! i, loaded_account E b message i (keys ! i))) [0..<n] \<and>
    list_all2 (\<lambda>ix is. program_chain E b (lt_accounts lt) (unat (ci_program_id_index ix)) is)
      (msg_instructions message) (lt_program_indices lt) \<and>
    (\<exists>i < n. may_pay E message i (keys ! i) \<and> (\<forall>j < i. \<not> may_pay E message j (keys ! j)) \<and>
       acct_lamports (get_account_default b (keys ! i)) \<noteq> 0 \<and>
       acct_owner (get_account_default b (keys ! i)) = pe_system_program E \<and>
       acct_data (get_account_default b (keys ! i)) = []) \<and>
    (\<forall>i < n. may_pay E message i (keys ! i) \<and> acct_executable (get_account_default b (keys ! i)) \<and>
       msg_is_writable message i \<longrightarrow>
       acct_owner (get_account_default b (keys ! i)) = pe_bpf_loader_upgradeable E \<and>
       msg_upgradeable_loader_present message)"
proof -
  let ?m = "tx_message tx" let ?keys = "msg_account_keys ?m" let ?n = "length ?keys"
  let ?P = "\<lambda>i. may_pay E ?m i (?keys ! i)"
  from assms(1) obtain accounts deps sz accounts' where
    k: "load_keys E b ?m 0 None 0 ?keys False [] 0 = Ok (accounts, True, deps, sz)"
    and p: "load_programs E b None (msg_instructions ?m) (accounts @ deps) sz =
      Ok (accounts', lt_program_indices lt)" and lt: "lt_accounts lt = accounts'"
    by (auto simp: load_tx_def load_tx_accounts_def ok_simps Let_def)
  note h = load_keys_Ok [OF k]
  then have acc: "accounts = map (\<lambda>i. (?keys ! i, loaded_account E b ?m i (?keys ! i))) [0..<?n]"
    and ex: "\<exists>i < ?n. ?P i" and dep: "length deps \<le> ?n" by auto
  from acc dep assms(2) have room: "length (accounts @ deps) + 10 * length (msg_instructions ?m) \<le> 2 ^ 16" by simp
  from load_programs_Ok [OF p room] obtain ext where ext: "accounts' = accounts @ deps @ ext" by auto
  note idx = load_programs_chain [OF p room]
  have loaded: "loaded_account E b ?m i (?keys ! i) = get_account_default b (?keys ! i)" if "?P i" for i
    using that by (auto simp: loaded_account_def may_pay_def)
  from ex have "\<exists>i. (i < ?n \<and> ?P i) \<and> (\<forall>j < i. \<not> (j < ?n \<and> ?P j))"
    using exists_least_iff [of "\<lambda>i. i < ?n \<and> ?P i"] by blast
  then obtain i where i: "?P i" "i < ?n" "\<forall>j < i. \<not> ?P j" by (auto dest: less_trans)
  then have "validate_fee_payer E (get_account_default b (?keys ! i)) 0 = Ok ()"
    using h loaded by (simp add: Let_def)
  with i have payer: "\<exists>i < ?n. ?P i \<and> (\<forall>j < i. \<not> ?P j) \<and>
      acct_lamports (get_account_default b (?keys ! i)) \<noteq> 0 \<and>
      acct_owner (get_account_default b (?keys ! i)) = pe_system_program E \<and>
      acct_data (get_account_default b (?keys ! i)) = []"
    by (auto simp: validate_fee_payer_Ok)
  have locks: "\<forall>i < ?n. ?P i \<and> acct_executable (get_account_default b (?keys ! i)) \<and> msg_is_writable ?m i \<longrightarrow>
       acct_owner (get_account_default b (?keys ! i)) = pe_bpf_loader_upgradeable E \<and>
       msg_upgradeable_loader_present ?m"
    using h loaded by (auto simp: Let_def)
  have "take ?n accounts' = accounts" using acc by (simp add: ext)
  then show ?thesis
    unfolding Let_def lt using acc payer locks idx by (intro conjI) (simp_all only: simp_thms)
qed

theorem load_tx_effect_witness:
  "\<exists>lt is. load_tx pg_env0 pg_bank0 tx0 = Ok lt \<and> map fst (take 3 (lt_accounts lt)) = [9, 8, 0] \<and>
    lt_program_indices lt = [is] \<and> program_chain pg_env0 pg_bank0 (lt_accounts lt) 2 is"
proof -
  from simulate_bank0 obtain r where "simulate_tx pg_env0 pg_bank0 tx0 = Ok r" "str_result r = Ok ()" by blast
  from simulate_tx_Ok [OF this] obtain lt where lt: "load_tx pg_env0 pg_bank0 tx0 = Ok lt" by blast
  let ?ix = "\<lparr>ci_program_id_index = 2, ci_accounts = [0, 1], ci_data = [5]\<rparr>"
  from load_tx_effect [OF lt] have
    t: "take 3 (lt_accounts lt) = map (\<lambda>i. ([9, 8, 0] ! i, loaded_account pg_env0 pg_bank0 message0 i ([9, 8, 0] ! i))) [0..<3]"
    and l: "list_all2 (\<lambda>ix is. program_chain pg_env0 pg_bank0 (lt_accounts lt) (unat (ci_program_id_index ix)) is)
      [?ix] (lt_program_indices lt)"
    by (simp_all only: tx0_simps Let_def list.size, simp_all add: numeral_3_eq_3)
  have "map fst (take 3 (lt_accounts lt)) = [9, 8, 0]" by (subst t) (simp add: upt_conv_Cons)
  moreover from l [unfolded list_all2_Cons1 list_all2_Nil] obtain "is" where
    "lt_program_indices lt = [is]" "program_chain pg_env0 pg_bank0 (lt_accounts lt) (unat (ci_program_id_index ?ix)) is"
    by (elim exE conjE) (simp only:)
  moreover have "unat (ci_program_id_index ?ix) = 2" by simp
  ultimately show ?thesis
    using lt by (intro exI [of _ lt] exI [of _ "is"]) simp
qed

text \<open>A program whose owner chain cannot end, being its own loader, is rejected after five
  levels: loading terminates with an error whatever the bank holds.\<close>

theorem self_owned_program_rejected:
  assumes "get_account b k = Some a" "acct_executable a" "acct_owner a = k"
    and "k \<noteq> pe_native_loader E" "k \<noteq> pe_bpf_loader_upgradeable E"
    and "i < length accounts" "fst (accounts ! i) = k" "length accounts + 5 \<le> 2 ^ 16"
  shows "load_executable_accounts E b None accounts i sz = Fail TXE_CallChainTooDeep"
  using load_chain_self_owned [OF assms(1-5), of accounts 0] assms(6-8)
  by (simp add: load_executable_accounts_def case_prod_beta' Let_def)

theorem self_owned_program_rejected_witness:
  "load_executable_accounts pg_env0
     (fst (set_account 50 (default_account\<lparr>acct_executable := True, acct_owner := 50\<rparr>) pg_bank0)) None
     [(9, default_account), (50, default_account)] 1 0 = Fail TXE_CallChainTooDeep"
  by (rule self_owned_program_rejected [of _ 50 "default_account\<lparr>acct_executable := True, acct_owner := 50\<rparr>"])
    (simp_all add: get_account_def set_account_def pg_env0_def)

text \<open>Validating the fee payer panics exactly when the payer is a funded, initialized nonce
  account, for which the branch is a \<open>todo!()\<close>; it accepts exactly the funded system
  accounts without data that can pay the fee.\<close>

theorem fee_payer_outcomes:
  "(validate_fee_payer E a fee = Panicked \<longleftrightarrow>
     acct_lamports a \<noteq> 0 \<and> acct_owner a = pe_system_program E \<and> acct_data a \<noteq> [] \<and>
     length (acct_data a) = pe_nonce_size E \<and> (\<exists>d. pe_nonce_of E (acct_data a) = Some (NS_Initialized d)))
   \<and> (validate_fee_payer E a fee = Ok () \<longleftrightarrow>
     acct_lamports a \<noteq> 0 \<and> acct_owner a = pe_system_program E \<and> acct_data a = [] \<and> fee \<le> acct_lamports a)"
  by (auto simp: validate_fee_payer_Ok validate_fee_payer_def get_system_account_kind_def
      split: if_splits option.splits nonce_state.splits)

section \<open>Processing transactions\<close>

text \<open>C22: a transaction whose simulation reports an error leaves the bank as it was and returns
  that error.\<close>

theorem rejected_tx_leaves_bank:
  assumes "simulate_tx E b tx = Ok r" "simulate_error r = Some e"
  shows "process_tx E b tx = (b, Fail e)"
  using assms by (auto simp: process_tx_def simulate_error_def error_of_def split: sum.splits fault.splits)

theorem rejected_tx_leaves_bank_witness:
  "process_tx pg_env0 (fst (set_account 9 default_account pg_bank0)) tx0 =
    (fst (set_account 9 default_account pg_bank0), Fail TXE_AccountNotFound)"
proof -
  let ?b = "fst (set_account 9 default_account pg_bank0)"
  have "get_account_default ?b 9 = default_account" by (simp add: get_account_default_def set_account_def)
  then have "load_tx pg_env0 ?b tx0 = Fail TXE_AccountNotFound"
    by (simp add: load_tx_def load_tx_accounts_def tx0_simps load_account_at_def Let_def validate_fee_payer_def)
      (simp add: message0_def pg_env0_def default_account_def)
  then have s: "simulate_tx pg_env0 ?b tx0 = Ok (simulate_new_error TXE_AccountNotFound)"
    by (simp add: simulate_tx_def)
  show ?thesis
    by (rule rejected_tx_leaves_bank [OF s]) (simp add: simulate_error_def simulate_new_error_def error_of_def)
qed

text \<open>C23: a recorded transaction had a fresh signature; it writes the accounts its simulation
  ended with, and no others, and opens a new slot, whose blockhash is the hash of the last
  one; the history gains exactly its entry, with the slot it ran in and the balances.\<close>

theorem recorded_tx_effect:
  assumes "process_tx E b tx = (b', Ok s)" "\<not> is_write_tx E tx"
  shows "\<exists>r d. simulate_tx E b tx = Ok r \<and> str_result r = Ok () \<and> s = tx_signature tx \<and>
    bank_txs b s = None \<and> bank_txs b' = (bank_txs b)(s \<mapsto> d) \<and> td_slot d = bank_slot b \<and>
    td_tx d = tx_versioned tx \<and>
    map_option ctm_post_balances (td_meta d) = Some (map (acct_lamports \<circ> snd) (str_post_accounts r)) \<and>
    bank_accounts b' = bank_accounts b ++ map_of (rev (str_post_accounts r)) \<and>
    bank_slot b' = bank_slot b + 1 \<and> bank_block_height b' = bank_block_height b + 1 \<and>
    bank_latest_blockhash b' = create_blockhash E (to_le_bytes (bank_latest_blockhash b))"
  using assms(1)
proof (cases rule: process_tx_cases)
  case (executed r)
  from executed(3) show ?thesis
  proof (cases rule: save_tx_cases)
    case (recorded time)
    with executed assms(2) show ?thesis
      by (intro exI [of _ r] exI [of _ "history_entry (set_accounts (str_post_accounts r) b) tx r 0 time"])
        (auto simp: history_entry_def get_slot_def set_accounts_accounts)
  qed (use assms(2) in auto)
qed simp

theorem recorded_tx_effect_witness:
  "process_tx pg_env0 pg_bank0 tx0 = (pg_bank1, Ok 11) \<and> bank_txs pg_bank0 11 = None \<and>
    bank_slot pg_bank1 = bank_slot pg_bank0 + 1"
  using recorded_tx_effect [OF process_bank0 not_write_tx0] process_bank0 by auto

text \<open>C24: sending a recorded transaction again reports \<open>AlreadyProcessed\<close>, but only after its
  accounts have been written: the replay's effects stay in the bank.\<close>

theorem replayed_tx_still_writes:
  assumes "simulate_tx E b tx = Ok r" "str_result r = Ok ()" "bank_txs b (tx_signature tx) = Some d"
    and "process_tx E b tx = (b', Fail e)"
  shows "e = TXE_AlreadyProcessed \<and> b' = set_accounts (str_post_accounts r) b"
proof -
  from assms(1,2,4) have "save_tx E (set_accounts (str_post_accounts r) b) tx r 0 = (b', Fail e)"
    by (simp add: process_tx_def)
  then show ?thesis using assms(3) by (cases rule: save_tx_cases) auto
qed

text \<open>At the witness the replay moves the seven lamports once more.\<close>

theorem replayed_tx_still_writes_witness:
  "\<exists>b' p p'. process_tx pg_env0 pg_bank1 tx0 = (b', Fail TXE_AlreadyProcessed) \<and>
    bank_accounts pg_bank1 9 = Some p \<and> bank_accounts b' 9 = Some p' \<and>
    acct_lamports p = 999999999999993 \<and> acct_lamports p' = 999999999999986"
proof -
  from simulate_bank1 obtain r p q where r: "simulate_tx pg_env0 pg_bank1 tx0 = Ok r" "str_result r = Ok ()"
    "str_post_accounts r = paid0 p q" "acct_lamports p = 999999999999993" "bank_accounts pg_bank1 9 = Some p"
    by blast
  from bank1_tx obtain d where d: "bank_txs pg_bank1 (tx_signature tx0) = Some d" by (auto simp: tx0_simps)
  obtain b' res where p: "process_tx pg_env0 pg_bank1 tx0 = (b', res)" by fastforce
  then have "save_tx pg_env0 (set_accounts (paid0 p q) pg_bank1) tx0 r 0 = (b', res)"
    by (simp add: process_tx_def r)
  moreover have "bpf_upgradeable_write_ix_exists pg_env0 (msg_account_keys (tx_message tx0))
      (msg_instructions (tx_message tx0)) = Ok False"
    by (simp add: tx0_simps index_def pg_env0_def)
  ultimately have "res = Fail TXE_AlreadyProcessed" using d by (simp add: save_tx_def tx0_simps(3))
  with p have p: "process_tx pg_env0 pg_bank1 tx0 = (b', Fail TXE_AlreadyProcessed)" by simp
  from replayed_tx_still_writes [OF r(1,2) d this] have b': "b' = set_accounts (paid0 p q) pg_bank1"
    by (simp add: r(3))
  have "bank_accounts b' 9 = Some (p\<lparr>acct_lamports := 999999999999986\<rparr>)"
    by (simp add: b' set_accounts_accounts paid0_def r(4) map_add_def)
  with p r(4,5) show ?thesis
    by (intro exI [of _ b'] exI [of _ p] exI [of _ "p\<lparr>acct_lamports := 999999999999986\<rparr>"]) simp
qed

section \<open>The life of a Playnet\<close>

text \<open>C25: in every bank a client can reach, by sending transactions, requesting airdrops, saving
  and restoring, the block height is the slot, the blockhash is that many hashes from the
  genesis hash, and every recorded transaction succeeded in an earlier slot.\<close>

theorem reachable_bank_invariant:
  assumes "pg_run E C n b" "n < 2 ^ 64"
  shows "get_block_height b = get_slot b \<and> unat (get_slot b) \<le> n \<and>
    get_latest_blockhash b = blockhash_at E (unat (get_slot b)) \<and>
    (\<forall>s d. get_tx b s = Some d \<longrightarrow> unat (td_slot d) < unat (get_slot b) \<and>
       (\<exists>meta. td_meta d = Some meta \<and> ctm_err meta = None))"
  using pg_run_inv [OF assms]
  by (auto simp: bank_inv_def recorded_ok_def get_block_height_def get_slot_def get_latest_blockhash_def get_tx_def)

theorem reachable_bank_invariant_witness:
  "pg_run pg_env0 codec0 1 pg_bank1 \<and> get_block_height pg_bank1 = get_slot pg_bank1"
  using reachable_bank_invariant [OF pg_run1] pg_run1 by simp

text \<open>The status of a recorded transaction is never \<open>Processed\<close>: recording it already
  opened a new slot, so it has at least one confirmation. It is \<open>Confirmed\<close> below 32
  slots and \<open>Finalized\<close> from there on.\<close>

theorem status_never_processed:
  assumes "pg_run E C n b" "n < 2 ^ 64" "get_tx b s = Some d"
  shows "let k = unat (get_slot b) - unat (td_slot d) in 1 \<le> k \<and>
    ts_confirmation_status (transaction_status_of b d) =
      Some (if k < 32 then CL_Confirmed else CL_Finalized) \<and>
    ts_confirmations (transaction_status_of b d) = Some (k mod 2 ^ 32) \<and>
    ts_err (transaction_status_of b d) = None"
proof -
  from reachable_bank_invariant [OF assms(1,2)] assms(3) obtain meta where
    lt: "unat (td_slot d) < unat (get_slot b)" and m: "td_meta d = Some meta" "ctm_err meta = None" by blast
  then have k: "unat (get_slot b - td_slot d) = unat (get_slot b) - unat (td_slot d)"
    by (simp add: unat_sub word_le_nat_alt)
  then have "get_slot b - td_slot d \<noteq> 0" using lt by (auto simp: word_unat_eq_iff)
  with lt k m show ?thesis by (simp add: transaction_status_of_def Let_def word_less_nat_alt)
qed

theorem status_never_processed_witness:
  "\<exists>d. get_tx pg_bank1 11 = Some d \<and>
    ts_confirmation_status (transaction_status_of pg_bank1 d) = Some CL_Confirmed"
proof -
  from bank1_tx obtain d where d: "get_tx pg_bank1 11 = Some d" "td_slot d = 0" by (auto simp: get_tx_def)
  from status_never_processed [OF pg_run1 _ d(1)] d show ?thesis
    by (simp add: Let_def get_slot_def bank1_slot)
qed

text \<open>The genesis hash a Playnet reports is its latest blockhash, not the genesis hash it
  keeps: a recorded transaction changes what is reported and not what is kept.\<close>

theorem reported_genesis_hash_moves:
  assumes "process_tx E b tx = (b', Ok s)" "\<not> is_write_tx E tx"
  shows "get_genesis_hash b' = create_blockhash E (to_le_bytes (get_genesis_hash b)) \<and>
    bank_genesis_hash b' = bank_genesis_hash b"
  using assms(1)
proof (cases rule: process_tx_cases)
  case (executed r)
  from executed(3) show ?thesis
    by (cases rule: save_tx_cases) (use assms(2) in \<open>auto simp: get_genesis_hash_def\<close>)
qed simp

theorem reported_genesis_hash_moves_witness:
  "get_genesis_hash pg_bank0 = bank_genesis_hash pg_bank0 \<and> get_genesis_hash pg_bank1 \<noteq> bank_genesis_hash pg_bank1"
proof -
  have g: "get_genesis_hash pg_bank0 = bank_genesis_hash pg_bank0" by (simp add: get_genesis_hash_def pg_bank0_def)
  moreover have "create_blockhash pg_env0 (to_le_bytes h) = h + 1" for h :: hash
    by (simp add: create_blockhash_def pg_env0_def bytes_simps)
  ultimately show ?thesis using reported_genesis_hash_moves [OF process_bank0 not_write_tx0] by simp
qed

text \<open>A restored Playnet has the accounts that were saved, with the native programs, the
  sysvars and the airdrop account put in place again, and the saved slot and blockhash; it
  has forgotten every transaction.\<close>

theorem save_restore:
  assumes "distinct (map fst entries)" "map_of entries = bank_accounts b"
    and "\<forall>k \<in> fst ` set entries. pc_pubkey_from_str C (pc_pubkey_to_string C k) = Some k"
    and "pc_keypair_from_bytes C (kp_bytes (bank_airdrop_kp b)) = Some (bank_airdrop_kp b)"
    and "parse_json s = Some (get_save_data C entries b)"
  shows "\<exists>b'. playnet_new E C new_keypair parse_json (Some s) = Ok b' \<and>
    bank_accounts b' = bank_accounts b ++ map_of (rev (new_accounts E b)) \<and>
    bank_slot b' = bank_slot b \<and> bank_block_height b' = bank_block_height b \<and>
    bank_latest_blockhash b' = bank_latest_blockhash b \<and> bank_txs b' = (\<lambda>_. None)"
proof -
  have acc: "deserialize_accounts C (serialize_accounts C entries) (\<lambda>_. None) = Ok (bank_accounts b)"
    using deserialize_serialize [OF assms(3)] assms(1,2) by (simp add: map_of_rev_distinct)
  let ?b1 = "\<lparr>bank_accounts = bank_accounts b, bank_txs = (\<lambda>_. None), bank_slot = bank_slot b,
         bank_block_height = bank_block_height b, bank_genesis_hash = bank_genesis_hash b,
         bank_latest_blockhash = bank_latest_blockhash b, bank_airdrop_kp = bank_airdrop_kp b,
         bank_builtin_programs = [], bank_sysvar_cache = \<lparr>sc_clock = None, sc_rent = None\<rparr>\<rparr>"
  have "bank_from_save_data C (get_save_data C entries b) = Ok ?b1"
    using acc assms(4) by (simp add: bank_from_save_data_def get_save_data_def)
  then have "playnet_new E C new_keypair parse_json (Some s) = Ok (bank_new E new_keypair (Some ?b1))"
    by (simp add: playnet_new_def assms(5))
  moreover have "new_accounts E ?b1 = new_accounts E b" by (simp add: new_accounts_def)
  ultimately show ?thesis by (simp add: bank_new_accounts)
qed

theorem save_restore_witness:
  "\<exists>b'. playnet_new pg_env0 codec0 keypair0 (\<lambda>s. Some (get_save_data codec0 [(8, default_account)] saved_bank0))
      (Some []) = Ok b' \<and> bank_slot b' = 4"
proof -
  have "\<exists>b'. playnet_new pg_env0 codec0 keypair0 (\<lambda>s. Some (get_save_data codec0 [(8, default_account)] saved_bank0))
      (Some []) = Ok b' \<and> bank_accounts b' = bank_accounts saved_bank0 ++ map_of (rev (new_accounts pg_env0 saved_bank0)) \<and>
    bank_slot b' = bank_slot saved_bank0 \<and> bank_block_height b' = bank_block_height saved_bank0 \<and>
    bank_latest_blockhash b' = bank_latest_blockhash saved_bank0 \<and> bank_txs b' = (\<lambda>_. None)"
    by (rule save_restore) (simp_all add: saved_bank0_def codec0_def default_bank_def Let_def)
  then show ?thesis by (auto simp: saved_bank0_def)
qed

section \<open>Results\<close>

text \<open>The return data of a simulation are the program's without the trailing zeros; data
  that are all zero count as none.\<close>

theorem return_data_trimmed:
  "case trim_return_data r of
     None \<Rightarrow> (\<forall>x \<in> set (rd_data r). x = 0)
   | Some r' \<Rightarrow> rd_program_id r' = rd_program_id r \<and> rd_data r' \<noteq> [] \<and> last (rd_data r') \<noteq> 0 \<and>
       (\<exists>n. rd_data r = rd_data r' @ replicate n 0)"
proof -
  let ?d = "rev (dropWhile (\<lambda>x. x = 0) (rev (rd_data r)))"
  from trim_zeros [of "rd_data r"] obtain n where n: "rd_data r = ?d @ replicate n 0" by blast
  show ?thesis
  proof (cases "?d = []")
    case True
    with n show ?thesis by (auto simp: trim_return_data_def dropWhile_eq_Nil_conv)
  next
    case False
    then have "last ?d \<noteq> 0" using hd_dropWhile [of "\<lambda>x. x = 0" "rev (rd_data r)"] by (simp add: last_rev)
    with False n show ?thesis by (auto simp: trim_return_data_def Let_def)
  qed
qed

theorem return_data_trimmed_witness:
  "rd_data (the (trim_return_data \<lparr>rd_program_id = 7, rd_data = [1, 0, 2, 0]\<rparr>)) = [1, 0, 2]"
  using return_data_trimmed [of "\<lparr>rd_program_id = 7, rd_data = [1, 0, 2, 0]\<rparr>"]
  by (simp add: trim_return_data_def)

text \<open>A transaction a client can look up has its version, metadata and block time: none of
  the accessors that unwrap them panics.\<close>

theorem transaction_accessors_total:
  assumes "pg_run E C n b" "n < 2 ^ 64" "rpc_get_transaction C b sig = Ok r" "gtr_exists r"
  shows "no_panic (gtr_meta r) \<and> no_panic (gtr_version r) \<and> no_panic (gtr_block_time r) \<and>
    no_panic (gtr_transaction base64 r)"
proof -
  from assms(3,4) obtain s d where "r = Some d" "get_tx b s = Some d"
    by (auto simp: rpc_get_transaction_def ok_simps gtr_exists_def)
  with reachable_bank_invariant [OF assms(1,2)] show ?thesis
    by (fastforce simp: gtr_meta_def gtr_version_def gtr_block_time_def gtr_transaction_def)
qed

theorem transaction_accessors_total_witness:
  "\<exists>d. rpc_get_transaction codec0 pg_bank1 [] = Ok (Some d) \<and> no_panic (gtr_meta (Some d))"
proof -
  from bank1_tx obtain d where "get_tx pg_bank1 11 = Some d" by (auto simp: get_tx_def)
  then have d: "rpc_get_transaction codec0 pg_bank1 [] = Ok (Some d)"
    by (simp add: rpc_get_transaction_def codec0_def)
  from transaction_accessors_total [OF pg_run1 _ this] d show ?thesis by (simp add: gtr_exists_def)
qed

end
