(* ===== verification/VoteTypes.thy ===== *)
theory VoteTypes
  imports Prelude
begin

text \<open>
  The data of the vote program (\<open>wasm/utils/solana-extra/src/program/vote\<close>): votes, lockouts
  and tower updates, the vote state and its versions (\<open>vote_state/mod.rs\<close>,
  \<open>vote_state_versions.rs\<close>, \<open>vote_state_0_23_5.rs\<close>), and the errors (\<open>vote_error.rs\<close>).
  A \<open>VecDeque\<close> and a \<open>Vec\<close> are lists with their back at the end.
\<close>

type_synonym slot = u64
type_synonym epoch = u64
type_synonym slot_hash = "slot \<times> hash"

section \<open>Errors\<close>

datatype vote_error =
    VE_VoteTooOld | VE_SlotsMismatch | VE_SlotHashMismatch | VE_EmptySlots | VE_TimestampTooOld
  | VE_TooSoonToReauthorize | VE_LockoutConflict | VE_NewVoteStateLockoutMismatch
  | VE_SlotsNotOrdered | VE_ConfirmationsNotOrdered | VE_ZeroConfirmations
  | VE_ConfirmationTooLarge | VE_RootRollBack | VE_ConfirmationRollBack
  | VE_SlotSmallerThanRoot | VE_TooManyVotes | VE_VotesTooOldAllFiltered | VE_RootOnDifferentFork

text \<open>The instruction errors of the handlers; \<open>VIE_Vote e\<close> is \<open>e.into()\<close>, a custom error.\<close>

datatype vote_ie =
    VIE_InvalidAccountData | VIE_MissingRequiredSignature | VIE_InsufficientFunds
  | VIE_AccountAlreadyInitialized | VIE_UninitializedAccount | VIE_AccountDataTooSmall
  | VIE_GenericError | VIE_Vote vote_error | VIE_External nat

section \<open>Votes and lockouts\<close>

definition MAX_LOCKOUT_HISTORY :: nat where "MAX_LOCKOUT_HISTORY = 31"
definition INITIAL_LOCKOUT :: nat where "INITIAL_LOCKOUT = 2"
definition MAX_EPOCH_CREDITS_HISTORY :: nat where "MAX_EPOCH_CREDITS_HISTORY = 64"
definition DEFAULT_PRIOR_VOTERS_OFFSET :: nat where "DEFAULT_PRIOR_VOTERS_OFFSET = 82"

record vote =
  vote_slots :: "slot list"
  vote_hash :: hash
  vote_timestamp :: "i64 option"

definition vote_new :: "slot list \<Rightarrow> hash \<Rightarrow> vote" where
  "vote_new slots h = \<lparr>vote_slots = slots, vote_hash = h, vote_timestamp = None\<rparr>"

record lockout =
  lo_slot :: slot
  lo_confirmation_count :: u32

definition lockout_new :: "slot \<Rightarrow> lockout" where
  "lockout_new s = \<lparr>lo_slot = s, lo_confirmation_count = 1\<rparr>"

text \<open>\<open>pow\<close> and \<open>+\<close> wrap.\<close>

definition lockout_slots :: "lockout \<Rightarrow> u64" where
  "lockout_slots l = word_of_nat INITIAL_LOCKOUT ^ unat (lo_confirmation_count l)"

definition last_locked_out_slot :: "lockout \<Rightarrow> slot" where
  "last_locked_out_slot l = lo_slot l + lockout_slots l"

definition is_locked_out_at_slot :: "lockout \<Rightarrow> slot \<Rightarrow> bool" where
  "is_locked_out_at_slot l s \<longleftrightarrow> last_locked_out_slot l \<ge> s"

record vote_state_update =
  vsu_lockouts :: "lockout list"
  vsu_root :: "slot option"
  vsu_hash :: hash
  vsu_timestamp :: "i64 option"

definition vote_state_update_from :: "(slot \<times> u32) list \<Rightarrow> vote_state_update" where
  "vote_state_update_from recent_slots =
     \<lparr>vsu_lockouts = map (\<lambda>(s, n). \<lparr>lo_slot = s, lo_confirmation_count = n\<rparr>) recent_slots,
      vsu_root = None, vsu_hash = 0, vsu_timestamp = None\<rparr>"

definition vote_state_update_new :: "lockout list \<Rightarrow> slot option \<Rightarrow> hash \<Rightarrow> vote_state_update" where
  "vote_state_update_new lockouts root h =
     \<lparr>vsu_lockouts = lockouts, vsu_root = root, vsu_hash = h, vsu_timestamp = None\<rparr>"

definition vsu_slots :: "vote_state_update \<Rightarrow> slot list" where
  "vsu_slots u = map lo_slot (vsu_lockouts u)"

section \<open>Vote transactions\<close>

definition last_of :: "'a list \<Rightarrow> 'a option" where
  "last_of xs = (if xs = [] then None else Some (last xs))"

datatype vote_transaction = VT_Vote vote | VT_VoteStateUpdate vote_state_update

fun vt_slots :: "vote_transaction \<Rightarrow> slot list" where
  "vt_slots (VT_Vote v) = vote_slots v"
| "vt_slots (VT_VoteStateUpdate u) = vsu_slots u"

fun vt_slot :: "vote_transaction \<Rightarrow> nat \<Rightarrow> ('e, slot) result" where
  "vt_slot (VT_Vote v) i = index (vote_slots v) i"
| "vt_slot (VT_VoteStateUpdate u) i = try_bind (index (vsu_lockouts u) i) (\<lambda>l. Ok (lo_slot l))"

fun vt_len :: "vote_transaction \<Rightarrow> nat" where
  "vt_len (VT_Vote v) = length (vote_slots v)"
| "vt_len (VT_VoteStateUpdate u) = length (vsu_lockouts u)"

fun vt_is_empty :: "vote_transaction \<Rightarrow> bool" where
  "vt_is_empty (VT_Vote v) = (vote_slots v = [])"
| "vt_is_empty (VT_VoteStateUpdate u) = (vsu_lockouts u = [])"

fun vt_hash :: "vote_transaction \<Rightarrow> hash" where
  "vt_hash (VT_Vote v) = vote_hash v"
| "vt_hash (VT_VoteStateUpdate u) = vsu_hash u"

fun vt_timestamp :: "vote_transaction \<Rightarrow> i64 option" where
  "vt_timestamp (VT_Vote v) = vote_timestamp v"
| "vt_timestamp (VT_VoteStateUpdate u) = vsu_timestamp u"

fun vt_set_timestamp :: "i64 option \<Rightarrow> vote_transaction \<Rightarrow> vote_transaction" where
  "vt_set_timestamp ts (VT_Vote v) = VT_Vote (v\<lparr>vote_timestamp := ts\<rparr>)"
| "vt_set_timestamp ts (VT_VoteStateUpdate u) = VT_VoteStateUpdate (u\<lparr>vsu_timestamp := ts\<rparr>)"

fun vt_last_voted_slot :: "vote_transaction \<Rightarrow> slot option" where
  "vt_last_voted_slot (VT_Vote v) = last_of (vote_slots v)"
| "vt_last_voted_slot (VT_VoteStateUpdate u) = map_option lo_slot (last_of (vsu_lockouts u))"

definition vt_last_voted_slot_hash :: "vote_transaction \<Rightarrow> (slot \<times> hash) option" where
  "vt_last_voted_slot_hash t = map_option (\<lambda>s. (s, vt_hash t)) (vt_last_voted_slot t)"

section \<open>Circular buffers\<close>

text \<open>An array of 32 items; \<open>cb_idx\<close> is the last item written.\<close>

definition MAX_ITEMS :: nat where "MAX_ITEMS = 32"

record 'a circ_buf =
  cb_buf :: "'a list"
  cb_idx :: nat
  cb_is_empty :: bool

definition circ_buf_default :: "'a \<Rightarrow> 'a circ_buf" where
  "circ_buf_default d = \<lparr>cb_buf = replicate MAX_ITEMS d, cb_idx = MAX_ITEMS - 1, cb_is_empty = True\<rparr>"

definition circ_buf_append :: "'a \<Rightarrow> 'a circ_buf \<Rightarrow> 'a circ_buf" where
  "circ_buf_append item c =
     (let idx = (cb_idx c + 1) mod MAX_ITEMS in
      \<lparr>cb_buf = (cb_buf c)[idx := item], cb_idx = idx, cb_is_empty = False\<rparr>)"

definition circ_buf_last :: "'a circ_buf \<Rightarrow> 'a option" where
  "circ_buf_last c = (if \<not> cb_is_empty c then Some (cb_buf c ! cb_idx c) else None)"

text \<open>The items of a well-formed buffer, oldest first, are what \<open>append\<close> extends.\<close>

definition circ_buf_ok :: "'a circ_buf \<Rightarrow> bool" where
  "circ_buf_ok c \<longleftrightarrow> length (cb_buf c) = MAX_ITEMS \<and> cb_idx c < MAX_ITEMS"

lemma circ_buf_default_ok [simp]: "circ_buf_ok (circ_buf_default d)"
  by (simp add: circ_buf_ok_def circ_buf_default_def MAX_ITEMS_def)

lemma circ_buf_append_ok [simp]: "circ_buf_ok c \<Longrightarrow> circ_buf_ok (circ_buf_append x c)"
  by (simp add: circ_buf_ok_def circ_buf_append_def Let_def MAX_ITEMS_def)

lemma circ_buf_last_append: "circ_buf_ok c \<Longrightarrow> circ_buf_last (circ_buf_append x c) = Some x"
  by (simp add: circ_buf_ok_def circ_buf_append_def circ_buf_last_def Let_def MAX_ITEMS_def)

lemma circ_buf_last_default [simp]: "circ_buf_last (circ_buf_default d) = None"
  by (simp add: circ_buf_default_def circ_buf_last_def)

end
