(* ===== verification/VoteAuthorized.thy ===== *)
theory VoteAuthorized
  imports VoteTypes
begin

text \<open>
  The authorized voters of a vote account (\<open>authorized_voters.rs\<close>): a map from epochs to
  keys, where an epoch without an entry has the voter of the latest entry before it. The
  \<open>BTreeMap\<close> is an association list sorted by key. The locale \<open>voter_schedule\<close> is what the
  vote state relies on: caching an epoch and purging the past do not change who votes from
  the current epoch on, and an entry added after the latest one takes over from its epoch.
\<close>

section \<open>Ordered maps\<close>

fun btree_insert :: "'k::linorder \<Rightarrow> 'v \<Rightarrow> ('k \<times> 'v) list \<Rightarrow> ('k \<times> 'v) list" where
  "btree_insert k v [] = [(k, v)]"
| "btree_insert k v ((k', v') # m) =
     (if k < k' then (k, v) # (k', v') # m
      else if k = k' then (k, v) # m
      else (k', v') # btree_insert k v m)"

definition btree_ok :: "('k::linorder \<times> 'v) list \<Rightarrow> bool" where
  "btree_ok m \<longleftrightarrow> sorted_wrt (<) (map fst m)"

definition range_to :: "'k::linorder \<Rightarrow> ('k \<times> 'v) list \<Rightarrow> ('k \<times> 'v) list" where
  "range_to k m = filter (\<lambda>(k', _). k' < k) m"

lemma btree_ok_simps [simp]:
  "btree_ok []" "btree_ok ((k, v) # m) \<longleftrightarrow> (\<forall>x \<in> set m. k < fst x) \<and> btree_ok m"
  by (auto simp: btree_ok_def)

lemma btree_ok_snoc [simp]: "btree_ok (m @ [(k, v)]) \<longleftrightarrow> (\<forall>x \<in> set m. fst x < k) \<and> btree_ok m"
  by (auto simp: btree_ok_def sorted_wrt_append)

lemma set_btree_insert: "set (btree_insert k v m) \<subseteq> insert (k, v) (set m)"
  by (induction k v m rule: btree_insert.induct) auto

lemma btree_ok_insert [simp]: "btree_ok m \<Longrightarrow> btree_ok (btree_insert k v m)"
  by (induction k v m rule: btree_insert.induct) (use set_btree_insert in fastforce)+

lemma btree_ok_filter [simp]: "btree_ok m \<Longrightarrow> btree_ok (filter P m)"
  by (induction m) auto

lemma btree_insert_ne [simp]: "btree_insert k v m \<noteq> []"
  by (cases "(k, v, m)" rule: btree_insert.cases) auto

lemma map_of_btree_insert: "map_of (btree_insert k v m) = (map_of m)(k \<mapsto> v)"
  by (induction k v m rule: btree_insert.induct) auto

lemma btree_insert_last: "\<forall>x \<in> set m. fst x < k \<Longrightarrow> btree_insert k v m = m @ [(k, v)]"
  by (induction k v m rule: btree_insert.induct) auto

section \<open>The voters\<close>

type_synonym authorized_voters = "(epoch \<times> pubkey) list"

definition av_new :: "epoch \<Rightarrow> pubkey \<Rightarrow> authorized_voters" where
  "av_new e k = btree_insert e k []"

definition av_get_or_calculate :: "authorized_voters \<Rightarrow> epoch \<Rightarrow> (pubkey \<times> bool) option" where
  "av_get_or_calculate av e = (case map_of av e of
      None \<Rightarrow> map_option (\<lambda>(_, k). (k, False)) (last_of (range_to e av))
    | Some k \<Rightarrow> Some (k, True))"

definition av_get_authorized_voter :: "authorized_voters \<Rightarrow> epoch \<Rightarrow> pubkey option" where
  "av_get_authorized_voter av e = map_option (\<lambda>(k, _). k) (av_get_or_calculate av e)"

definition av_get_and_cache :: "authorized_voters \<Rightarrow> epoch \<Rightarrow> authorized_voters \<times> pubkey option" where
  "av_get_and_cache av e = (case av_get_or_calculate av e of
      None \<Rightarrow> (av, None)
    | Some (k, existed) \<Rightarrow> (if \<not> existed then btree_insert e k av else av, Some k))"

definition av_insert :: "epoch \<Rightarrow> pubkey \<Rightarrow> authorized_voters \<Rightarrow> authorized_voters" where
  "av_insert e k av = btree_insert e k av"

text \<open>The keys of the range are removed one by one; the assertion is the panic.\<close>

definition av_purge :: "epoch \<Rightarrow> authorized_voters \<Rightarrow> ('e, authorized_voters) result" where
  "av_purge current_epoch av =
     (let expired_keys = map fst (range_to current_epoch av);
          av = filter (\<lambda>(k, _). k \<notin> set expired_keys) av in
      if av \<noteq> [] then Ok av else Panicked)"

definition av_is_empty :: "authorized_voters \<Rightarrow> bool" where "av_is_empty av \<longleftrightarrow> av = []"

definition av_first :: "authorized_voters \<Rightarrow> (epoch \<times> pubkey) option" where
  "av_first av = (case av of [] \<Rightarrow> None | x # _ \<Rightarrow> Some x)"

definition av_last :: "authorized_voters \<Rightarrow> (epoch \<times> pubkey) option" where
  "av_last av = last_of av"

definition av_len :: "authorized_voters \<Rightarrow> nat" where "av_len av = length av"

definition av_contains :: "authorized_voters \<Rightarrow> epoch \<Rightarrow> bool" where
  "av_contains av e \<longleftrightarrow> map_of av e \<noteq> None"

section \<open>The schedule they stand for\<close>

text \<open>The voter of an epoch is the one of the latest entry at or before it.\<close>

definition voter_at :: "authorized_voters \<Rightarrow> epoch \<Rightarrow> pubkey option" where
  "voter_at av e = map_option snd (last_of (filter (\<lambda>(k, _). k \<le> e) av))"

lemma last_of_simps [simp]:
  "last_of [] = None" "last_of (xs @ [x]) = Some x" "last_of xs = None \<longleftrightarrow> xs = []"
  by (auto simp: last_of_def)

lemma last_of_Cons: "last_of (x # xs) = (case last_of xs of None \<Rightarrow> Some x | Some y \<Rightarrow> Some y)"
  by (simp add: last_of_def)

lemma last_of_in: "last_of xs = Some x \<Longrightarrow> x \<in> set xs"
  by (auto simp: last_of_def split: if_splits)

lemma voter_at_simps [simp]:
  "voter_at [] e = None"
  "voter_at ((k, v) # av) e = (case voter_at av e of Some v' \<Rightarrow> Some v'
     | None \<Rightarrow> if k \<le> e then Some v else None)"
  by (auto simp: voter_at_def last_of_Cons split: option.split)

lemma voter_at_before: "\<forall>x \<in> set av. e < fst x \<Longrightarrow> voter_at av e = None"
  by (induction av) (auto split: option.split)

lemma av_get_authorized_voter_eq: "btree_ok av \<Longrightarrow> av_get_authorized_voter av e = voter_at av e"
proof (induction av)
  case (Cons x av)
  obtain k v where x: "x = (k, v)" by force
  from Cons x have IH: "av_get_authorized_voter av e = voter_at av e" and lt: "\<forall>x \<in> set av. k < fst x" by auto
  show ?case
  proof (cases "e \<le> k")
    case True
    then have "\<forall>x \<in> set av. e < fst x" using lt by auto
    moreover from this have "range_to e av = []" by (auto simp: range_to_def filter_empty_conv)
    ultimately have "voter_at av e = None" "range_to e av = []" "map_of av e = None"
      using voter_at_before [of av e] by (auto simp: map_of_eq_None_iff)
    with True x show ?thesis
      by (auto simp: av_get_authorized_voter_def av_get_or_calculate_def range_to_def)
  next
    case False
    with IH x show ?thesis
      by (auto simp: av_get_authorized_voter_def av_get_or_calculate_def range_to_def last_of_Cons
          split: option.splits)
  qed
qed (simp add: av_get_authorized_voter_def av_get_or_calculate_def range_to_def)

lemma voter_at_insert:
  "btree_ok av \<Longrightarrow> voter_at av e = Some v \<Longrightarrow> map_of av e = None \<Longrightarrow> voter_at (btree_insert e v av) = voter_at av"
proof (induction av)
  case (Cons x av)
  obtain k w where x: "x = (k, w)" by force
  have ok: "btree_ok av" "\<forall>x \<in> set av. k < fst x" and ne: "e \<noteq> k" "map_of av e = None"
    using Cons.prems(1,3) by (auto simp: x split: if_splits)
  show ?case
  proof (cases "e < k")
    case True
    then have "\<forall>x \<in> set av. e < fst x" using ok(2) by auto
    then have "voter_at av e = None" by (rule voter_at_before)
    with Cons.prems(2) True have False by (auto simp: x split: if_splits)
    then show ?thesis ..
  next
    case False
    then have ke: "k < e" using ne by auto
    show ?thesis
    proof (cases "voter_at av e")
      case (Some u)
      with Cons ok ne ke False show ?thesis by (auto simp: x fun_eq_iff)
    next
      case None
      have all: "\<forall>x \<in> set av. e < fst x"
      proof (rule ccontr)
        assume "\<not> ?thesis"
        then obtain y where "y \<in> set av" "\<not> e < fst y" by blast
        then have "filter (\<lambda>(k, _). k \<le> e) av \<noteq> []"
          by (auto simp: filter_empty_conv case_prod_unfold not_less)
        with None show False by (auto simp: voter_at_def)
      qed
      with ne ke have "btree_insert e v av = (e, v) # av" by (cases av) auto
      moreover from Cons.prems(2) None less_imp_le [OF ke] have "v = w" by (simp add: x)
      ultimately show ?thesis using ke by (auto simp: x fun_eq_iff split: option.split)
    qed
  qed
qed simp

lemma voter_at_drop: "e \<le> e' \<Longrightarrow> filter (\<lambda>(k, _). k \<ge> e) av \<noteq> [] \<Longrightarrow> btree_ok av \<Longrightarrow>
  map_of av e \<noteq> None \<Longrightarrow> voter_at (filter (\<lambda>(k, _). k \<ge> e) av) e' = voter_at av e'"
proof (induction av)
  case (Cons x av)
  obtain k w where x: "x = (k, w)" by force
  have same: "filter (\<lambda>(k, _). k \<ge> e) av = av" if "e \<le> k"
    using Cons.prems(3) that by (auto simp: x filter_id_conv)
  show ?case
  proof (cases "e \<le> k")
    case True
    with same show ?thesis by (simp add: x)
  next
    case False
    then have m: "map_of av e \<noteq> None" using Cons.prems(4) by (auto simp: x split: if_splits)
    then obtain v where "(e, v) \<in> set av" by (auto dest: map_of_SomeD)
    then have "(e, v) \<in> set (filter (\<lambda>(k, _). k \<ge> e) av)" "(e, v) \<in> set (filter (\<lambda>(k, _). k \<le> e') av)"
      using Cons.prems(1) by auto
    then have "filter (\<lambda>(k, _). k \<ge> e) av \<noteq> []" "voter_at av e' \<noteq> None"
      unfolding voter_at_def by (metis list.set(1) empty_iff, metis last_of_simps(3) list.set(1) empty_iff option.map_disc_iff)
    with Cons False m show ?thesis by (auto simp: x)
  qed
qed simp

section \<open>What the vote state relies on\<close>

locale voter_schedule =
  fixes ok :: "'s \<Rightarrow> bool"
    and voter :: "'s \<Rightarrow> epoch \<Rightarrow> pubkey option"
    and put :: "epoch \<Rightarrow> pubkey \<Rightarrow> 's \<Rightarrow> 's"
    and cache :: "'s \<Rightarrow> epoch \<Rightarrow> 's \<times> pubkey option"
    and purge :: "epoch \<Rightarrow> 's \<Rightarrow> ('e, 's) result"
    and latest :: "'s \<Rightarrow> (epoch \<times> pubkey) option"
  assumes put_ok: "ok s \<Longrightarrow> ok (put e k s)"
    and voter_put: "ok s \<Longrightarrow> latest s = Some (l, j) \<Longrightarrow> l < e \<Longrightarrow>
      voter (put e k s) e' = (if e \<le> e' then Some k else voter s e')"
    and cache_None: "ok s \<Longrightarrow> cache s e = (s', None) \<Longrightarrow> s' = s \<and> voter s e = None"
    and cache_purge: "ok s \<Longrightarrow> cache s e = (s', Some k) \<Longrightarrow> \<exists>s''. purge e s' = Ok s'' \<and> ok s'' \<and>
      latest s'' \<noteq> None \<and> voter s e = Some k \<and> (\<forall>e' \<ge> e. voter s'' e' = voter s e')"
begin

text \<open>Looking up the voter of the current epoch never runs into the assertion of \<open>purge\<close>.\<close>

lemma update_total: "ok s \<Longrightarrow> cache s e = (s', Some k) \<Longrightarrow> purge e s' \<noteq> Panicked"
  using cache_purge by fastforce

text \<open>A new voter takes over at the target epoch, and nothing changes between now and then.\<close>

lemma takeover:
  assumes "ok s" "cache s now = (s1, Some k)" "purge now s1 = Ok s2" "latest s2 = Some (l, j)"
    and "l < target" "now \<le> e"
  shows "voter (put target k' s2) e = (if target \<le> e then Some k' else voter s e)"
  using cache_purge [OF assms(1,2)] voter_put [of s2 l j target k' e] assms(3-6) by auto

end

lemma voter_at_append: "voter_at (av @ [(k, v)]) e = (if k \<le> e then Some v else voter_at av e)"
  by (simp add: voter_at_def)

lemma btree_last_max:
  assumes "btree_ok av" "last_of av = Some (l, j)" "x \<in> set av"
  shows "fst x \<le> l"
proof -
  from assms(2) obtain ys where "av = ys @ [(l, j)]"
    by (metis append_butlast_last_id last_of_def option.distinct(1) option.inject)
  with assms show ?thesis by auto
qed

lemma av_get_and_cache_Some:
  assumes "btree_ok av" "av_get_and_cache av e = (av', Some k)"
  shows "btree_ok av' \<and> map_of av' e = Some k \<and> voter_at av' = voter_at av \<and> voter_at av e = Some k"
proof -
  have "voter_at av e = Some k"
    using assms(2) by (auto simp: av_get_and_cache_def av_get_authorized_voter_def
        simp flip: av_get_authorized_voter_eq [OF assms(1)] split: option.splits prod.splits)
  moreover from this have "btree_ok av' \<and> map_of av' e = Some k \<and> voter_at av' = voter_at av"
    using assms voter_at_insert [of av e k]
    by (auto simp: av_get_and_cache_def av_get_or_calculate_def map_of_btree_insert split: option.splits)
  ultimately show ?thesis by simp
qed

lemma av_purge_eq:
  "av_purge e av = (let av' = filter (\<lambda>(k, _). k \<ge> e) av in if av' \<noteq> [] then Ok av' else Panicked)"
proof -
  have "filter (\<lambda>(k, _). k \<notin> set (map fst (range_to e av))) av = filter (\<lambda>(k, _). k \<ge> e) av"
    by (rule filter_cong) (force simp: range_to_def image_iff not_less)+
  then show ?thesis by (simp add: av_purge_def Let_def)
qed

interpretation authorized_voters:
  voter_schedule btree_ok av_get_authorized_voter av_insert av_get_and_cache
    "av_purge :: epoch \<Rightarrow> authorized_voters \<Rightarrow> (vote_ie, authorized_voters) result" av_last
proof
  fix av l j e k e'
  assume ok: "btree_ok av" and l: "av_last av = Some (l, j)" "l < e"
  then have "\<forall>x \<in> set av. fst x < e" using btree_last_max [OF ok] by (fastforce simp: av_last_def)
  with ok show "av_get_authorized_voter (av_insert e k av) e' =
      (if e \<le> e' then Some k else av_get_authorized_voter av e')"
    by (simp add: av_get_authorized_voter_eq av_insert_def btree_insert_last voter_at_append)
next
  fix av e av'
  assume "btree_ok av" "av_get_and_cache av e = (av', None)"
  then show "av' = av \<and> av_get_authorized_voter av e = None"
    by (auto simp: av_get_and_cache_def av_get_authorized_voter_def split: option.splits)
next
  fix av e av' k
  assume ok: "btree_ok av" and c: "av_get_and_cache av e = (av', Some k)"
  note c = av_get_and_cache_Some [OF ok c]
  let ?f = "filter (\<lambda>(k, _). k \<ge> e) av'"
  have ne: "?f \<noteq> []" using c by (force simp: filter_empty_conv dest: map_of_SomeD)
  then have "av_purge e av' = Ok ?f" by (simp add: av_purge_eq)
  moreover have "voter_at ?f e' = voter_at av e'" if "e \<le> e'" for e'
    using voter_at_drop [OF that ne] c by simp
  ultimately show "\<exists>av''. av_purge e av' = Ok av'' \<and> btree_ok av'' \<and> av_last av'' \<noteq> None \<and>
      av_get_authorized_voter av e = Some k \<and>
      (\<forall>e' \<ge> e. av_get_authorized_voter av'' e' = av_get_authorized_voter av e')"
    using ok c ne by (intro exI [of _ ?f]) (simp add: av_get_authorized_voter_eq av_last_def)
qed (simp add: av_insert_def)

end
