(* ===== verification/VoteState.thy ===== *)
theory VoteState
  imports VoteAuthorized
begin

text \<open>
  The vote state and the operations that keep it (\<open>vote_state/mod.rs\<close>: \<open>impl VoteState\<close>,
  \<open>vote_state_versions.rs\<close>): credits, commission, timestamps, the authorized voter, and
  the tower of lockouts one vote at a time. Reading and writing the bytes of an account is
  \<open>bincode\<close>'s, a parameter.
\<close>

section \<open>State and versions\<close>

record block_timestamp =
  bt_slot :: slot
  bt_timestamp :: i64

record vote_init =
  vi_node_pubkey :: pubkey
  vi_authorized_voter :: pubkey
  vi_authorized_withdrawer :: pubkey
  vi_commission :: u8

datatype vote_authorize_kind = VA_Voter | VA_Withdrawer

record vote_state =
  vs_node_pubkey :: pubkey
  vs_authorized_withdrawer :: pubkey
  vs_commission :: u8
  vs_votes :: "lockout list"
  vs_root_slot :: "slot option"
  vs_authorized_voters :: authorized_voters
  vs_prior_voters :: "(pubkey \<times> epoch \<times> epoch) circ_buf"
  vs_epoch_credits :: "(epoch \<times> u64 \<times> u64) list"
  vs_last_timestamp :: block_timestamp

definition vote_state_default :: vote_state where
  "vote_state_default =
     \<lparr>vs_node_pubkey = 0, vs_authorized_withdrawer = 0, vs_commission = 0, vs_votes = [],
      vs_root_slot = None, vs_authorized_voters = [], vs_prior_voters = circ_buf_default (0, 0, 0),
      vs_epoch_credits = [], vs_last_timestamp = \<lparr>bt_slot = 0, bt_timestamp = 0\<rparr>\<rparr>"

definition vote_state_new :: "vote_init \<Rightarrow> epoch \<Rightarrow> vote_state" where
  "vote_state_new vote_init clock_epoch = vote_state_default
     \<lparr>vs_node_pubkey := vi_node_pubkey vote_init,
      vs_authorized_voters := av_new clock_epoch (vi_authorized_voter vote_init),
      vs_authorized_withdrawer := vi_authorized_withdrawer vote_init,
      vs_commission := vi_commission vote_init\<rparr>"

text \<open>The layout before version 0.23.5 of the SDK had one voter and a buffer without \<open>is_empty\<close>.\<close>

record 'a circ_buf_0_23_5 =
  ob_buf :: "'a list"
  ob_idx :: nat

definition old_circ_buf_append :: "'a \<Rightarrow> 'a circ_buf_0_23_5 \<Rightarrow> 'a circ_buf_0_23_5" where
  "old_circ_buf_append item c =
     (let idx = (ob_idx c + 1) mod MAX_ITEMS in \<lparr>ob_buf = (ob_buf c)[idx := item], ob_idx = idx\<rparr>)"

record vote_state_0_23_5 =
  ov_node_pubkey :: pubkey
  ov_authorized_voter :: pubkey
  ov_authorized_voter_epoch :: epoch
  ov_prior_voters :: "(pubkey \<times> epoch \<times> epoch \<times> slot) circ_buf_0_23_5"
  ov_authorized_withdrawer :: pubkey
  ov_commission :: u8
  ov_votes :: "lockout list"
  ov_root_slot :: "slot option"
  ov_epoch_credits :: "(epoch \<times> u64 \<times> u64) list"
  ov_last_timestamp :: block_timestamp

datatype vote_state_versions = V0_23_5 vote_state_0_23_5 | Current vote_state

definition new_current :: "vote_state \<Rightarrow> vote_state_versions" where
  "new_current s = Current s"

fun convert_to_current :: "vote_state_versions \<Rightarrow> vote_state" where
  "convert_to_current (V0_23_5 s) =
     \<lparr>vs_node_pubkey = ov_node_pubkey s, vs_authorized_withdrawer = ov_authorized_withdrawer s,
      vs_commission = ov_commission s, vs_votes = ov_votes s, vs_root_slot = ov_root_slot s,
      vs_authorized_voters = av_new (ov_authorized_voter_epoch s) (ov_authorized_voter s),
      vs_prior_voters = circ_buf_default (0, 0, 0), vs_epoch_credits = ov_epoch_credits s,
      vs_last_timestamp = ov_last_timestamp s\<rparr>"
| "convert_to_current (Current s) = s"

fun is_uninitialized :: "vote_state_versions \<Rightarrow> bool" where
  "is_uninitialized (V0_23_5 s) \<longleftrightarrow> ov_authorized_voter s = 0"
| "is_uninitialized (Current s) \<longleftrightarrow> av_is_empty (vs_authorized_voters s)"

section \<open>Bytes\<close>

definition VOTE_STATE_SIZE :: nat where "VOTE_STATE_SIZE = 3731"

datatype bincode_error = BE_SizeLimit | BE_Other

definition vote_state_deserialize ::
  "(bytes \<Rightarrow> vote_state_versions option) \<Rightarrow> bytes \<Rightarrow> (vote_ie, vote_state) result" where
  "vote_state_deserialize decode input =
     try_bind (ok_or (decode input) VIE_InvalidAccountData) (\<lambda>versioned. Ok (convert_to_current versioned))"

definition vote_state_serialize ::
  "(vote_state_versions \<Rightarrow> bytes \<Rightarrow> (bincode_error, bytes) result) \<Rightarrow> vote_state_versions \<Rightarrow> bytes \<Rightarrow>
   (vote_ie, bytes) result" where
  "vote_state_serialize encode versioned output =
     map_err (\<lambda>e. case e of BE_SizeLimit \<Rightarrow> VIE_AccountDataTooSmall | BE_Other \<Rightarrow> VIE_GenericError)
       (encode versioned output)"

definition is_correct_size_and_initialized :: "bytes \<Rightarrow> bool" where
  "is_correct_size_and_initialized d \<longleftrightarrow> length d = VOTE_STATE_SIZE \<and>
     take DEFAULT_PRIOR_VOTERS_OFFSET (drop 4 d) \<noteq> replicate DEFAULT_PRIOR_VOTERS_OFFSET 0"

section \<open>Commission\<close>

definition commission_split :: "vote_state \<Rightarrow> u64 \<Rightarrow> u64 \<times> u64 \<times> bool" where
  "commission_split s on =
     (let split = min (vs_commission s) 100 in
      if split = 0 then (0, on, False)
      else if split = 100 then (on, 0, False)
      else
        let on = ucast on :: u128;
            mine = on * ucast split div 100;
            theirs = on * ucast (100 - split) div 100 in
        (ucast mine, ucast theirs, True))"

section \<open>Credits\<close>

definition increment_credits :: "epoch \<Rightarrow> u64 \<Rightarrow> vote_state \<Rightarrow> vote_state" where
  "increment_credits epoch credits s =
     (let h = vs_epoch_credits s;
          h = (if h = [] then [(epoch, 0, 0)]
               else let (last_epoch, c, prev) = last h in
                 if epoch \<noteq> last_epoch then
                   let h = (if c \<noteq> prev then h @ [(epoch, c, c)]
                            else butlast h @ [(epoch, c, prev)]) in
                   if length h > MAX_EPOCH_CREDITS_HISTORY then tl h else h
                 else h);
          (e, c, prev) = last h in
      s\<lparr>vs_epoch_credits := butlast h @ [(e, c + credits, prev)]\<rparr>)"

definition current_epoch :: "vote_state \<Rightarrow> epoch" where
  "current_epoch s = (if vs_epoch_credits s = [] then 0 else fst (last (vs_epoch_credits s)))"

definition vs_credits :: "vote_state \<Rightarrow> u64" where
  "vs_credits s = (if vs_epoch_credits s = [] then 0 else fst (snd (last (vs_epoch_credits s))))"

section \<open>The tower\<close>

definition nth_recent_vote :: "vote_state \<Rightarrow> nat \<Rightarrow> lockout option" where
  "nth_recent_vote s position =
     (if position < length (vs_votes s) then Some (vs_votes s ! (length (vs_votes s) - 1 - position))
      else None)"

definition last_lockout :: "vote_state \<Rightarrow> lockout option" where
  "last_lockout s = last_of (vs_votes s)"

definition last_voted_slot :: "vote_state \<Rightarrow> slot option" where
  "last_voted_slot s = map_option lo_slot (last_lockout s)"

definition tower :: "vote_state \<Rightarrow> slot list" where
  "tower s = map lo_slot (vs_votes s)"

text \<open>Votes are popped from the back as long as they are not locked out.\<close>

definition pop_expired :: "slot \<Rightarrow> lockout list \<Rightarrow> lockout list" where
  "pop_expired next votes = rev (dropWhile (\<lambda>l. \<not> is_locked_out_at_slot l next) (rev votes))"

definition pop_expired_votes :: "slot \<Rightarrow> vote_state \<Rightarrow> vote_state" where
  "pop_expired_votes next s = s\<lparr>vs_votes := pop_expired next (vs_votes s)\<rparr>"

fun double_from :: "nat \<Rightarrow> nat \<Rightarrow> lockout list \<Rightarrow> lockout list" where
  "double_from depth i [] = []"
| "double_from depth i (v # vs) =
     (if depth > i + unat (lo_confirmation_count v)
      then v\<lparr>lo_confirmation_count := lo_confirmation_count v + 1\<rparr> else v) # double_from depth (Suc i) vs"

definition double_lockouts :: "vote_state \<Rightarrow> vote_state" where
  "double_lockouts s = s\<lparr>vs_votes := double_from (length (vs_votes s)) 0 (vs_votes s)\<rparr>"

text \<open>A full stack roots its oldest vote; it is not empty then, so \<open>unwrap\<close> does not panic.\<close>

definition process_next_vote_slot :: "slot \<Rightarrow> epoch \<Rightarrow> vote_state \<Rightarrow> vote_state" where
  "process_next_vote_slot next epoch s =
     (if (case last_voted_slot s of None \<Rightarrow> False | Some l \<Rightarrow> next \<le> l) then s
      else
        let s = pop_expired_votes next s;
            s = (if length (vs_votes s) = MAX_LOCKOUT_HISTORY then
                   increment_credits epoch 1
                     (s\<lparr>vs_votes := tl (vs_votes s), vs_root_slot := Some (lo_slot (hd (vs_votes s)))\<rparr>)
                 else s) in
        double_lockouts (s\<lparr>vs_votes := vs_votes s @ [lockout_new next]\<rparr>))"

section \<open>Timestamps\<close>

definition process_timestamp :: "slot \<Rightarrow> i64 \<Rightarrow> vote_state \<Rightarrow> (vote_error, vote_state) result" where
  "process_timestamp s timestamp vs =
     (let l = vs_last_timestamp vs in
      if (s < bt_slot l \<or> sint timestamp < sint (bt_timestamp l)) \<or>
         (s = bt_slot l \<and> \<lparr>bt_slot = s, bt_timestamp = timestamp\<rparr> \<noteq> l \<and> bt_slot l \<noteq> 0)
      then Fail VE_TimestampTooOld
      else Ok (vs\<lparr>vs_last_timestamp := \<lparr>bt_slot = s, bt_timestamp = timestamp\<rparr>\<rparr>))"

section \<open>The authorized voter\<close>

definition get_and_update_authorized_voter ::
  "epoch \<Rightarrow> vote_state \<Rightarrow> (vote_ie, vote_state \<times> pubkey) result" where
  "get_and_update_authorized_voter epoch s =
     (let (av, r) = av_get_and_cache (vs_authorized_voters s) epoch in
      try_bind (ok_or r VIE_InvalidAccountData) (\<lambda>k.
      try_bind (av_purge epoch av) (\<lambda>av.
      Ok (s\<lparr>vs_authorized_voters := av\<rparr>, k))))"

definition set_new_authorized_voter ::
  "pubkey \<Rightarrow> epoch \<Rightarrow> epoch \<Rightarrow> (pubkey \<Rightarrow> (vote_ie, unit) result) \<Rightarrow> vote_state \<Rightarrow> (vote_ie, vote_state) result" where
  "set_new_authorized_voter authorized_pubkey epoch target_epoch verify s =
     try_bind (get_and_update_authorized_voter epoch s) (\<lambda>(s, epoch_authorized_voter).
     try_bind (verify epoch_authorized_voter) (\<lambda>_.
     if av_contains (vs_authorized_voters s) target_epoch then Fail (VIE_Vote VE_TooSoonToReauthorize)
     else
       try_bind (ok_or (av_last (vs_authorized_voters s)) VIE_InvalidAccountData)
         (\<lambda>(latest_epoch, latest_authorized_pubkey).
       try_bind
         (if latest_authorized_pubkey \<noteq> authorized_pubkey then
            let epoch_of_last_authorized_switch = (case circ_buf_last (vs_prior_voters s) of
                  Some (_, _, e) \<Rightarrow> e | None \<Rightarrow> 0) in
            if target_epoch > latest_epoch then
              Ok (s\<lparr>vs_prior_voters := circ_buf_append
                    (latest_authorized_pubkey, epoch_of_last_authorized_switch, target_epoch)
                    (vs_prior_voters s)\<rparr>)
            else Panicked
          else Ok s) (\<lambda>s.
       Ok (s\<lparr>vs_authorized_voters := av_insert target_epoch authorized_pubkey (vs_authorized_voters s)\<rparr>)))))"

end
