(* ===== verification/VoteUpdate.thy ===== *)
theory VoteUpdate
  imports VoteState
begin

text \<open>
  Votes and tower updates on a vote state (\<open>vote_state/mod.rs\<close>: \<open>process_vote\<close>,
  \<open>check_slots_are_valid\<close>, \<open>check_update_vote_state_slots_are_valid\<close>,
  \<open>process_new_vote_state\<close>). Slot hashes run from the newest to the oldest slot; the loops
  walk them from the back. A feature set is the predicate of the active features; the code
  passes it as an option.
\<close>

datatype vote_feature =
    Vote_state_update_credit_per_dequeue
  | Filter_votes_outside_slot_hashes
  | Vote_withdraw_authority_may_change_authorized_voter

type_synonym feature_set = "vote_feature \<Rightarrow> bool"

section \<open>Binary search\<close>

text \<open>
  The standard library's search of a slice; \<open>mid\<close> is below the length. On a \<open>VecDeque\<close> it
  first chooses one of two slices by the ring buffer's split, which makes no difference to
  whether a slot is found in a sorted tower.
\<close>

function binary_search :: "('a \<Rightarrow> 'k::linorder) \<Rightarrow> 'a list \<Rightarrow> 'k \<Rightarrow> nat \<Rightarrow> nat \<Rightarrow> nat option" where
  "binary_search key xs k left right =
     (if left < right then
        let mid = left + (right - left) div 2 in
        if key (xs ! mid) < k then binary_search key xs k (mid + 1) right
        else if k < key (xs ! mid) then binary_search key xs k left mid
        else Some mid
      else None)"
  by pat_completeness auto

termination by (relation "measure (\<lambda>(_, _, _, left, right). right - left)") auto

declare binary_search.simps [simp del]

definition contains_slot :: "vote_state \<Rightarrow> slot \<Rightarrow> bool" where
  "contains_slot s candidate \<longleftrightarrow>
     binary_search lo_slot (vs_votes s) candidate 0 (length (vs_votes s)) \<noteq> None"

section \<open>Votes\<close>

text \<open>\<open>i\<close> counts the vote's slots from the oldest, \<open>j\<close> the slot hashes from the newest.\<close>

function match_slots :: "slot option \<Rightarrow> slot list \<Rightarrow> slot_hash list \<Rightarrow> nat \<Rightarrow> nat \<Rightarrow> nat \<times> nat" where
  "match_slots last_voted slots hashes i j =
     (if i < length slots \<and> j > 0 then
        if (case last_voted of None \<Rightarrow> False | Some l \<Rightarrow> slots ! i \<le> l)
        then match_slots last_voted slots hashes (i + 1) j
        else if slots ! i \<noteq> fst (hashes ! (j - 1)) then match_slots last_voted slots hashes i (j - 1)
        else match_slots last_voted slots hashes (i + 1) (j - 1)
      else (i, j))"
  by pat_completeness auto

termination by (relation "measure (\<lambda>(_, slots, _, i, j). length slots - i + j)") auto

declare match_slots.simps [simp del]

definition check_slots_are_valid ::
  "vote_state \<Rightarrow> slot list \<Rightarrow> hash \<Rightarrow> slot_hash list \<Rightarrow> (vote_error, unit) result" where
  "check_slots_are_valid s slots expected hashes =
     (let (i, j) = match_slots (last_voted_slot s) slots hashes 0 (length hashes) in
      if j = length hashes then Fail VE_VoteTooOld
      else if i \<noteq> length slots then Fail VE_SlotsMismatch
      else
        try_bind (index hashes j) (\<lambda>(_, h).
        if h \<noteq> expected then Fail VE_SlotHashMismatch else Ok ()))"

definition vs_process_vote ::
  "vote \<Rightarrow> slot_hash list \<Rightarrow> epoch \<Rightarrow> feature_set option \<Rightarrow> vote_state \<Rightarrow> (vote_error, vote_state) result" where
  "vs_process_vote v hashes epoch features s =
     (if vote_slots v = [] then Fail VE_EmptySlots
      else
        let filtered = Option.bind features (\<lambda>active.
              if active Filter_votes_outside_slot_hashes then
                let earliest = (case last_of hashes of Some (sl, _) \<Rightarrow> sl | None \<Rightarrow> 0) in
                Some (filter (\<lambda>sl. sl \<ge> earliest) (vote_slots v))
              else None);
            slots = (case filtered of Some f \<Rightarrow> f | None \<Rightarrow> vote_slots v) in
        if slots = [] then Fail VE_VotesTooOldAllFiltered
        else
          try_bind (check_slots_are_valid s slots (vote_hash v) hashes) (\<lambda>_.
          Ok (fold (\<lambda>sl s. process_next_vote_slot sl epoch s) slots s)))"

text \<open>Used by the tower: an error leaves the state as it was.\<close>

definition process_vote_unchecked :: "vote \<Rightarrow> vote_state \<Rightarrow> ('e, vote_state) result" where
  "process_vote_unchecked v s =
     (let hashes = map (\<lambda>x. (x, vote_hash v)) (rev (vote_slots v)) in
      case vs_process_vote v hashes (current_epoch s) None s of
        Inr s' \<Rightarrow> Ok s' | Inl (Err _) \<Rightarrow> Ok s | Inl Panic \<Rightarrow> Panicked)"

definition process_slot_vote_unchecked :: "slot \<Rightarrow> vote_state \<Rightarrow> ('e, vote_state) result" where
  "process_slot_vote_unchecked sl s = process_vote_unchecked (vote_new [sl] 0) s"

section \<open>Updates: the slots\<close>

text \<open>
  \<open>root\<close> is \<open>check_root\<close>, \<open>i\<close> indexes the update's lockouts, \<open>j\<close> the slot hashes
  (\<open>j\<close> is at most their number), \<open>filt\<close> collects the lockouts to drop.
\<close>

function match_update ::
  "vote_state \<Rightarrow> slot_hash list \<Rightarrow> slot \<Rightarrow> lockout list \<Rightarrow> slot option \<Rightarrow> nat \<Rightarrow> nat \<Rightarrow> nat list \<Rightarrow>
   (vote_error, nat \<times> nat \<times> nat list) result" where
  "match_update s hashes earliest lockouts root i j filt =
     (if i < length lockouts \<and> j > 0 then
        let proposed = (case root of Some r \<Rightarrow> r | None \<Rightarrow> lo_slot (lockouts ! i)) in
        if root = None \<and> i > 0 \<and> proposed \<le> lo_slot (lockouts ! (i - 1)) then Fail VE_SlotsNotOrdered
        else
          let ancestor = fst (hashes ! (j - 1)) in
          if proposed < ancestor then
            if j = length hashes then
              if \<not> proposed < earliest then Panicked
              else
                let filt = (if \<not> contains_slot s proposed \<and> root = None then filt @ [i] else filt) in
                if root \<noteq> None then (case vs_root_slot s of
                    None \<Rightarrow> Panicked
                  | Some r \<Rightarrow> if r < earliest then match_update s hashes earliest lockouts None i j filt
                      else Panicked)
                else match_update s hashes earliest lockouts root (i + 1) j filt
            else if root \<noteq> None then Fail VE_RootOnDifferentFork else Fail VE_SlotsMismatch
          else if ancestor < proposed then match_update s hashes earliest lockouts root i (j - 1) filt
          else if root \<noteq> None then match_update s hashes earliest lockouts None i j filt
          else match_update s hashes earliest lockouts root (i + 1) (j - 1) filt
      else Ok (i, j, filt))"
  by pat_completeness auto

termination
  by (relation "measure (\<lambda>(_, _, _, lockouts, root, i, j, _).
        length lockouts - i + j + (if root = None then 0 else 1))") (auto split: if_splits)

declare match_update.simps [simp del]

text \<open>\<open>retain\<close> with the indexes to drop, which ascend: the head of \<open>filt\<close> is the next one.\<close>

fun retain_from :: "nat \<Rightarrow> nat list \<Rightarrow> 'a list \<Rightarrow> 'a list" where
  "retain_from i filt [] = []"
| "retain_from i [] (x # xs) = x # retain_from (Suc i) [] xs"
| "retain_from i (k # ks) (x # xs) =
     (if i = k then retain_from (Suc i) ks xs else x # retain_from (Suc i) (k # ks) xs)"

definition check_update_vote_state_slots_are_valid ::
  "vote_state \<Rightarrow> vote_state_update \<Rightarrow> slot_hash list \<Rightarrow> (vote_error, vote_state_update) result" where
  "check_update_vote_state_slots_are_valid s u hashes =
     (case last_of (vsu_lockouts u) of
        None \<Rightarrow> Fail VE_EmptySlots
      | Some newest \<Rightarrow>
          if (case last_of (vs_votes s) of None \<Rightarrow> False | Some l \<Rightarrow> lo_slot newest \<le> lo_slot l)
          then Fail VE_VoteTooOld
          else case last_of hashes of
            None \<Rightarrow> Fail VE_SlotsMismatch
          | Some (earliest, _) \<Rightarrow>
              if lo_slot newest < earliest then Fail VE_VoteTooOld
              else
                let u = (case vsu_root u of
                      Some r \<Rightarrow> if earliest > r then u\<lparr>vsu_root := vs_root_slot s\<rparr> else u
                    | None \<Rightarrow> u) in
                try_bind (match_update s hashes earliest (vsu_lockouts u) (vsu_root u) 0 (length hashes) [])
                  (\<lambda>(i, j, filt).
                if i \<noteq> length (vsu_lockouts u) then Fail VE_SlotsMismatch
                else
                  try_bind (index hashes j) (\<lambda>(sl, h).
                  if lo_slot newest \<noteq> sl then Panicked
                  else if h \<noteq> vsu_hash u then Fail VE_SlotHashMismatch
                  else Ok (u\<lparr>vsu_lockouts := retain_from 0 filt (vsu_lockouts u)\<rparr>))))"

section \<open>Updates: the new tower\<close>

text \<open>Each vote is checked by itself, then against the one before it.\<close>

definition check_vote :: "slot option \<Rightarrow> lockout \<Rightarrow> (vote_error, unit) result" where
  "check_vote new_root v =
     (if lo_confirmation_count v = 0 then Fail VE_ZeroConfirmations
      else if lo_confirmation_count v > word_of_nat MAX_LOCKOUT_HISTORY then Fail VE_ConfirmationTooLarge
      else case new_root of
        Some r \<Rightarrow> if lo_slot v \<le> r \<and> r \<noteq> 0 then Fail VE_SlotSmallerThanRoot else Ok ()
      | None \<Rightarrow> Ok ())"

definition check_consecutive :: "lockout \<Rightarrow> lockout \<Rightarrow> (vote_error, unit) result" where
  "check_consecutive previous v =
     (if lo_slot previous \<ge> lo_slot v then Fail VE_SlotsNotOrdered
      else if lo_confirmation_count previous \<le> lo_confirmation_count v then Fail VE_ConfirmationsNotOrdered
      else if lo_slot v > last_locked_out_slot previous then Fail VE_NewVoteStateLockoutMismatch
      else Ok ())"

fun check_tower :: "slot option \<Rightarrow> lockout option \<Rightarrow> lockout list \<Rightarrow> (vote_error, unit) result" where
  "check_tower new_root previous [] = Ok ()"
| "check_tower new_root previous (v # vs) =
     try_bind (check_vote new_root v) (\<lambda>_.
     try_bind (case previous of None \<Rightarrow> Ok () | Some p \<Rightarrow> check_consecutive p v) (\<lambda>_.
     check_tower new_root (Some v) vs))"

text \<open>The current votes up to the new root, and the number of slots finalized with it.\<close>

fun skip_rooted :: "slot option \<Rightarrow> lockout list \<Rightarrow> u64 \<Rightarrow> lockout list \<times> u64" where
  "skip_rooted new_root [] n = ([], n)"
| "skip_rooted new_root (v # vs) n = (case new_root of
      Some r \<Rightarrow> if lo_slot v \<le> r then skip_rooted new_root vs (if lo_slot v \<noteq> r then n + 1 else n)
        else (v # vs, n)
    | None \<Rightarrow> (v # vs, n))"

text \<open>The current votes missing from the new tower must have expired.\<close>

fun check_no_rollback :: "lockout list \<Rightarrow> lockout list \<Rightarrow> (vote_error, unit) result" where
  "check_no_rollback (c # cs) (v # vs) =
     (if lo_slot c < lo_slot v then
        if last_locked_out_slot c \<ge> lo_slot v then Fail VE_LockoutConflict
        else check_no_rollback cs (v # vs)
      else if lo_slot c = lo_slot v then
        if lo_confirmation_count v < lo_confirmation_count c then Fail VE_ConfirmationRollBack
        else check_no_rollback cs vs
      else check_no_rollback (c # cs) vs)"
| "check_no_rollback _ _ = Ok ()"

definition check_root_rollback :: "slot option \<Rightarrow> slot option \<Rightarrow> (vote_error, unit) result" where
  "check_root_rollback new_root current = (case (new_root, current) of
      (Some r, Some c) \<Rightarrow> if r < c then Fail VE_RootRollBack else Ok ()
    | (None, Some _) \<Rightarrow> Fail VE_RootRollBack
    | _ \<Rightarrow> Ok ())"

text \<open>The checks of \<open>process_new_vote_state\<close>, which do not change the state.\<close>

definition check_new_vote_state ::
  "vote_state \<Rightarrow> lockout list \<Rightarrow> slot option \<Rightarrow> (vote_error, u64) result" where
  "check_new_vote_state s new_state new_root =
     (if new_state = [] then Panicked
      else if length new_state > MAX_LOCKOUT_HISTORY then Fail VE_TooManyVotes
      else
        try_bind (check_root_rollback new_root (vs_root_slot s)) (\<lambda>_.
        try_bind (check_tower new_root None new_state) (\<lambda>_.
        let (current, finalized_slot_count) = skip_rooted new_root (vs_votes s) 1 in
        try_bind (check_no_rollback current new_state) (\<lambda>_. Ok finalized_slot_count))))"

text \<open>The state after the call comes with the result: a timestamp error comes after the credits.\<close>

definition process_new_vote_state ::
  "lockout list \<Rightarrow> slot option \<Rightarrow> i64 option \<Rightarrow> epoch \<Rightarrow> feature_set option \<Rightarrow> vote_state \<Rightarrow>
   vote_state \<times> (vote_error, unit) result" where
  "process_new_vote_state new_state new_root timestamp epoch features s =
     (case check_new_vote_state s new_state new_root of
        Inl e \<Rightarrow> (s, Inl e)
      | Inr finalized_slot_count \<Rightarrow>
          let s = (if vs_root_slot s \<noteq> new_root then
                     if (case features of Some active \<Rightarrow> active Vote_state_update_credit_per_dequeue
                         | None \<Rightarrow> False)
                     then increment_credits epoch finalized_slot_count s
                     else increment_credits epoch 1 s
                   else s) in
          case (case timestamp of None \<Rightarrow> Ok s
                | Some t \<Rightarrow> process_timestamp (lo_slot (last new_state)) t s) of
            Inl e \<Rightarrow> (s, Inl e)
          | Inr s \<Rightarrow> (s\<lparr>vs_root_slot := new_root, vs_votes := new_state\<rparr>, Ok ()))"

end
