(* ===== verification/VoteTower.thy ===== *)
theory VoteTower
  imports VoteUpdate
begin

text \<open>
  The tower of lockouts. \<open>tower_ok\<close> says that a state's tower would pass the checks a tower
  update must pass; both ways of voting keep it. \<open>no_rollback_spec\<close> is what the comparison of
  the old and the new tower promises.
\<close>

section \<open>Lockouts\<close>

text \<open>No overflow for the slots below \<open>2 ^ 63\<close>.\<close>

definition slot_bound :: nat where "slot_bound = 2 ^ 63"

definition count :: "lockout \<Rightarrow> nat" where "count l = unat (lo_confirmation_count l)"

lemma unat_last_locked_out_slot:
  assumes "unat (lo_slot l) < slot_bound" "count l \<le> MAX_LOCKOUT_HISTORY"
  shows "unat (last_locked_out_slot l) = unat (lo_slot l) + 2 ^ count l"
proof -
  have "(2 :: nat) ^ count l \<le> 2 ^ 31"
    using assms(2) by (intro power_increasing) (simp_all add: MAX_LOCKOUT_HISTORY_def)
  then have "(2 :: nat) ^ count l < 2 ^ 63" and "unat (lo_slot l) + 2 ^ count l < 2 ^ 64"
    using assms(1) by (simp_all add: slot_bound_def)
  have "lockout_slots l = word_of_nat (2 ^ count l)"
    by (simp add: lockout_slots_def INITIAL_LOCKOUT_def count_def)
  moreover have "unat (word_of_nat (2 ^ count l) :: u64) = 2 ^ count l"
    using \<open>2 ^ count l < 2 ^ 63\<close> by (simp add: unat_of_nat del: of_nat_power)
  ultimately have "unat (lockout_slots l) = 2 ^ count l" by simp
  with \<open>unat (lo_slot l) + 2 ^ count l < 2 ^ 64\<close> show ?thesis
    by (simp add: last_locked_out_slot_def unat_word_ariths)
qed

lemma count_le_31: "lo_confirmation_count l \<le> word_of_nat MAX_LOCKOUT_HISTORY \<longleftrightarrow> count l \<le> MAX_LOCKOUT_HISTORY"
  by (simp add: word_le_nat_alt count_def MAX_LOCKOUT_HISTORY_def)

lemma count_pos: "lo_confirmation_count l = 0 \<longleftrightarrow> count l = 0"
  by (simp add: count_def unat_eq_0)

section \<open>What the checks accept\<close>

definition vote_ok :: "slot option \<Rightarrow> lockout \<Rightarrow> bool" where
  "vote_ok root v \<longleftrightarrow> 0 < count v \<and> count v \<le> MAX_LOCKOUT_HISTORY \<and>
     (\<forall>r. root = Some r \<longrightarrow> r < lo_slot v \<or> r = 0)"

definition consecutive :: "lockout \<Rightarrow> lockout \<Rightarrow> bool" where
  "consecutive p v \<longleftrightarrow> lo_slot p < lo_slot v \<and> count v < count p \<and> lo_slot v \<le> last_locked_out_slot p"

lemma check_vote_Ok: "check_vote root v = Ok u \<longleftrightarrow> vote_ok root v"
  using count_le_31 [of v] count_pos [of v]
  by (auto simp: check_vote_def vote_ok_def not_le not_less ok_simps split: option.splits if_splits)

lemma check_consecutive_Ok: "check_consecutive p v = Ok u \<longleftrightarrow> consecutive p v"
  by (auto simp: check_consecutive_def consecutive_def count_def word_le_nat_alt word_less_nat_alt ok_simps)

lemma check_tower_Ok:
  "check_tower root p vs = Ok u \<longleftrightarrow> (\<forall>v \<in> set vs. vote_ok root v) \<and>
     successively consecutive ((case p of None \<Rightarrow> [] | Some l \<Rightarrow> [l]) @ vs)"
  by (induction root p vs rule: check_tower.induct)
    (auto simp: ok_simps check_vote_Ok check_consecutive_Ok successively_Cons split: option.splits)

definition votes_ok :: "slot option \<Rightarrow> lockout list \<Rightarrow> bool" where
  "votes_ok root vs \<longleftrightarrow> length vs \<le> MAX_LOCKOUT_HISTORY \<and> (\<forall>v \<in> set vs. vote_ok root v) \<and>
     successively consecutive vs"

lemma votes_ok_check:
  "votes_ok root vs \<longleftrightarrow> length vs \<le> MAX_LOCKOUT_HISTORY \<and> check_tower root None vs = Ok ()"
  by (simp add: votes_ok_def check_tower_Ok)

lemma votes_ok_prefix: "votes_ok root (xs @ ys) \<Longrightarrow> votes_ok root xs"
  by (simp add: votes_ok_def successively_append_iff)

lemma votes_ok_tl: "votes_ok root (x # xs) \<Longrightarrow> votes_ok root xs"
  by (auto simp: votes_ok_def successively_Cons)

lemma votes_sorted: "successively consecutive vs \<Longrightarrow> sorted_wrt (\<lambda>a b. lo_slot a < lo_slot b) vs"
proof -
  assume "successively consecutive vs"
  then have "successively (\<lambda>a b. lo_slot a < lo_slot b) vs"
    by (rule successively_mono) (simp add: consecutive_def)
  then show ?thesis
    by (rule successively_iff_sorted_wrt_strong [THEN iffD1, rotated]) (auto intro: less_trans)
qed

section \<open>Popping and doubling\<close>

lemma pop_expired_split:
  obtains zs where "vs = pop_expired nxt vs @ zs" "\<forall>z \<in> set zs. last_locked_out_slot z < nxt"
    "pop_expired nxt vs = [] \<or> nxt \<le> last_locked_out_slot (last (pop_expired nxt vs))"
proof -
  let ?P = "\<lambda>l. \<not> is_locked_out_at_slot l nxt"
  let ?zs = "rev (takeWhile ?P (rev vs))"
  have "rev (rev vs) = rev (takeWhile ?P (rev vs) @ dropWhile ?P (rev vs))" by simp
  then have "vs = pop_expired nxt vs @ ?zs" unfolding pop_expired_def rev_append by simp
  moreover have "\<forall>z \<in> set ?zs. last_locked_out_slot z < nxt"
    by (auto dest: set_takeWhileD simp: is_locked_out_at_slot_def not_le)
  moreover have "pop_expired nxt vs = [] \<or> nxt \<le> last_locked_out_slot (last (pop_expired nxt vs))"
    using hd_dropWhile [of ?P "rev vs"] by (auto simp: pop_expired_def last_rev is_locked_out_at_slot_def)
  ultimately show thesis by (rule that)
qed

definition bump :: "nat \<Rightarrow> nat \<Rightarrow> lockout \<Rightarrow> lockout" where
  "bump depth i v = (if depth > i + count v
     then v\<lparr>lo_confirmation_count := lo_confirmation_count v + 1\<rparr> else v)"

lemma length_double_from [simp]: "length (double_from depth i vs) = length vs"
  by (induction depth i vs rule: double_from.induct) auto

lemma double_from_nth: "j < length vs \<Longrightarrow> double_from depth i vs ! j = bump depth (i + j) (vs ! j)"
  by (induction depth i vs arbitrary: j rule: double_from.induct)
    (auto simp: nth_Cons bump_def count_def split: nat.split)

lemma bump_slot [simp]: "lo_slot (bump depth i v) = lo_slot v"
  by (simp add: bump_def)

lemma double_from_slots [simp]: "map lo_slot (double_from depth i vs) = map lo_slot vs"
  by (induction depth i vs rule: double_from.induct) auto

lemma count_bump:
  assumes "count v \<le> MAX_LOCKOUT_HISTORY"
  shows "count (bump depth i v) = (if depth > i + count v then Suc (count v) else count v)"
proof -
  have "unat (lo_confirmation_count v + 1) = Suc (unat (lo_confirmation_count v))"
    using assms by (simp add: count_def MAX_LOCKOUT_HISTORY_def unat_word_ariths)
  then show ?thesis by (simp add: bump_def count_def)
qed

lemma bump_locks:
  assumes "unat (lo_slot v) < slot_bound" "count v \<le> MAX_LOCKOUT_HISTORY"
    "count (bump depth i v) \<le> MAX_LOCKOUT_HISTORY"
  shows "last_locked_out_slot v \<le> last_locked_out_slot (bump depth i v)"
  using assms unat_last_locked_out_slot [of v] unat_last_locked_out_slot [of "bump depth i v"]
  by (simp add: word_le_nat_alt count_bump)

text \<open>Doubling the lockouts after a push keeps a tower in order.\<close>

lemma votes_ok_push:
  assumes ok: "votes_ok root xs" and len: "length xs < MAX_LOCKOUT_HISTORY"
    and new: "\<forall>x \<in> set xs. lo_slot x < nxt" "unat nxt < slot_bound"
      "xs = [] \<or> nxt \<le> last_locked_out_slot (last xs)"
      "\<forall>r. root = Some r \<longrightarrow> r < nxt \<or> r = 0"
  shows "votes_ok root (double_from (Suc (length xs)) 0 (xs @ [lockout_new nxt]))"
proof -
  let ?n = "Suc (length xs)" and ?vs = "xs @ [lockout_new nxt]"
  let ?ds = "double_from ?n 0 ?vs"
  have new_fields: "lo_slot (lockout_new nxt) = nxt" "count (lockout_new nxt) = 1"
    by (simp_all add: lockout_new_def count_def)
  have range: "0 < count v \<and> count v \<le> MAX_LOCKOUT_HISTORY" if "v \<in> set ?vs" for v
    using that ok new_fields by (auto simp: votes_ok_def vote_ok_def MAX_LOCKOUT_HISTORY_def)
  have root: "r < lo_slot v \<or> r = 0" if "v \<in> set ?vs" "root = Some r" for v r
    using that ok new new_fields by (auto simp: votes_ok_def vote_ok_def)
  have bounded: "unat (lo_slot v) < slot_bound" if "v \<in> set ?vs" for v
    using that new new_fields by (auto simp: word_less_nat_alt dest!: bspec)
  have nth: "?ds ! j = bump ?n j (?vs ! j)" if "j < ?n" for j
    using double_from_nth [of j ?vs ?n 0] that by simp
  have le: "count (bump ?n j v) \<le> MAX_LOCKOUT_HISTORY" if "v \<in> set ?vs" for v j
    using range [OF that] len by (auto simp: count_bump)
  have ok_bump: "vote_ok root (bump ?n j v)" if "v \<in> set ?vs" for v j
    using range [OF that] root [OF that] le [OF that] by (auto simp: vote_ok_def count_bump)
  have all: "\<forall>v \<in> set ?ds. vote_ok root v"
    unfolding all_set_conv_all_nth
  proof (intro allI impI)
    fix j assume "j < length ?ds"
    then have j: "j < ?n" "j < length ?vs" by simp_all
    show "vote_ok root (?ds ! j)"
      unfolding nth [OF j(1)] by (rule ok_bump) (rule nth_mem [OF j(2)])
  qed
  have "consecutive (?ds ! j) (?ds ! Suc j)" if j: "Suc j < ?n" for j
  proof -
    let ?a = "?vs ! j" and ?b = "?vs ! Suc j"
    have mem: "?a \<in> set ?vs" "?b \<in> set ?vs" by (rule nth_mem, use j in simp)+
    have "lo_slot ?a < lo_slot ?b \<and> lo_slot ?b \<le> last_locked_out_slot ?a \<and>
        count (bump ?n (Suc j) ?b) < count (bump ?n j ?a)"
    proof (cases "Suc j < length xs")
      case True
      then have "consecutive (xs ! j) (xs ! Suc j)"
        using ok by (auto simp: votes_ok_def successively_conv_nth)
      with True range [OF mem(1)] range [OF mem(2)] show ?thesis
        by (auto simp: nth_append consecutive_def count_bump)
    next
      case False
      with j have j: "Suc j = length xs" by simp
      then have ne: "xs \<noteq> []" and "length xs - 1 = j" by auto
      then have a: "?a = last xs" "?a \<in> set xs" by (simp_all add: nth_append last_conv_nth flip: j)
      from j have b: "?b = lockout_new nxt" by (simp add: nth_append)
      with a ne new range [OF mem(1)] j show ?thesis by (auto simp: new_fields count_bump MAX_LOCKOUT_HISTORY_def)
    qed
    moreover note bump_locks [OF bounded [OF mem(1)] conjunct2 [OF range [OF mem(1)]] le [OF mem(1)]]
    ultimately show ?thesis using j by (auto simp: nth consecutive_def intro: order_trans)
  qed
  then have "successively consecutive ?ds" by (simp add: successively_conv_nth)
  with all len show ?thesis by (simp add: votes_ok_def)
qed

section \<open>One vote at a time\<close>

definition tower_ok :: "vote_state \<Rightarrow> bool" where
  "tower_ok s \<longleftrightarrow> votes_ok (vs_root_slot s) (vs_votes s) \<and> (vs_votes s = [] \<longrightarrow> vs_root_slot s = None)"

lemma increment_credits_tower [simp]:
  "vs_votes (increment_credits e n s) = vs_votes s"
  "vs_root_slot (increment_credits e n s) = vs_root_slot s"
  by (simp_all add: increment_credits_def Let_def split: prod.split)

text \<open>The tower a vote leaves, for a slot after the last one: \<open>pushed\<close> on what is left of it.\<close>

definition pushed :: "slot \<Rightarrow> lockout list \<Rightarrow> lockout list" where
  "pushed nxt xs = double_from (Suc (length xs)) 0 (xs @ [lockout_new nxt])"

lemma process_next_vote_slot_cases:
  obtains (old) l where "last_voted_slot s = Some l" "nxt \<le> l" "process_next_vote_slot nxt e s = s"
  | (push) xs zs where "\<forall>l. last_voted_slot s = Some l \<longrightarrow> l < nxt"
      "vs_votes s = xs @ zs" "\<forall>z \<in> set zs. last_locked_out_slot z < nxt"
      "xs = [] \<or> nxt \<le> last_locked_out_slot (last xs)" "length xs \<noteq> MAX_LOCKOUT_HISTORY"
      "process_next_vote_slot nxt e s = s\<lparr>vs_votes := pushed nxt xs\<rparr>"
  | (root) r xs zs where "\<forall>l. last_voted_slot s = Some l \<longrightarrow> l < nxt"
      "vs_votes s = (r # xs) @ zs" "\<forall>z \<in> set zs. last_locked_out_slot z < nxt"
      "nxt \<le> last_locked_out_slot (last (r # xs))" "length (r # xs) = MAX_LOCKOUT_HISTORY"
      "process_next_vote_slot nxt e s = (increment_credits e 1 s)
         \<lparr>vs_votes := pushed nxt xs, vs_root_slot := Some (lo_slot r)\<rparr>"
proof -
  let ?xs = "pop_expired nxt (vs_votes s)"
  consider l where "last_voted_slot s = Some l" "nxt \<le> l"
    | "\<forall>l. last_voted_slot s = Some l \<longrightarrow> l < nxt" by (meson not_le)
  then show thesis
  proof cases
    case (1 l)
    then show thesis by (intro old) (simp_all add: process_next_vote_slot_def)
  next
    case 2
    then have new: "\<not> (case last_voted_slot s of None \<Rightarrow> False | Some l \<Rightarrow> nxt \<le> l)"
      by (auto split: option.splits)
    obtain zs where zs: "vs_votes s = ?xs @ zs" "\<forall>z \<in> set zs. last_locked_out_slot z < nxt"
      "?xs = [] \<or> nxt \<le> last_locked_out_slot (last ?xs)" by (rule pop_expired_split)
    show thesis
    proof (cases "length ?xs = MAX_LOCKOUT_HISTORY")
      case False
      then have "process_next_vote_slot nxt e s = s\<lparr>vs_votes := pushed nxt ?xs\<rparr>"
        using new by (simp add: process_next_vote_slot_def pop_expired_votes_def double_lockouts_def pushed_def)
      from push [OF 2 zs False this] show thesis .
    next
      case True
      then obtain r xs where xs: "?xs = r # xs" by (cases ?xs) (auto simp: MAX_LOCKOUT_HISTORY_def)
      have "process_next_vote_slot nxt e s = (increment_credits e 1 s)
         \<lparr>vs_votes := pushed nxt xs, vs_root_slot := Some (lo_slot r)\<rparr>"
        using new True xs
        by (simp add: process_next_vote_slot_def pop_expired_votes_def double_lockouts_def pushed_def
            increment_credits_def Let_def split: prod.split)
      with 2 zs True xs show thesis by (intro root) auto
    qed
  qed
qed

lemma last_voted_slot_max:
  assumes "votes_ok root (vs_votes s)" "v \<in> set (vs_votes s)" "\<forall>l. last_voted_slot s = Some l \<longrightarrow> l < nxt"
  shows "lo_slot v < nxt"
proof -
  from assms(2) obtain ys l where ys: "vs_votes s = ys @ [l]" by (metis list.set_intros(1) list.distinct(1) neq_Nil_conv rev_exhaust split_list append_is_Nil_conv)
  have "sorted_wrt (\<lambda>a b. lo_slot a < lo_slot b) (ys @ [l])"
    using assms(1) ys by (auto simp: votes_ok_def dest: votes_sorted)
  with assms(2,3) ys show ?thesis
    by (auto simp: sorted_wrt_append last_voted_slot_def last_lockout_def)
qed

lemma pushed_ne [simp]: "pushed nxt xs \<noteq> []"
proof -
  have "length (pushed nxt xs) \<noteq> 0" by (simp add: pushed_def)
  then show ?thesis by force
qed

lemma votes_ok_rooted:
  assumes "votes_ok root (r # xs)"
  shows "votes_ok (Some (lo_slot r)) xs"
proof -
  have "sorted_wrt (\<lambda>a b. lo_slot a < lo_slot b) (r # xs)"
    using assms by (auto simp: votes_ok_def dest: votes_sorted)
  with votes_ok_tl [OF assms] show ?thesis by (auto simp: votes_ok_def vote_ok_def)
qed

lemma process_next_vote_slot_tower_ok:
  assumes ok: "tower_ok s" and bound: "unat nxt < slot_bound"
  shows "tower_ok (process_next_vote_slot nxt e s)"
proof (rule process_next_vote_slot_cases [where s = s and nxt = nxt and e = e])
  fix l assume "process_next_vote_slot nxt e s = s"
  with ok show ?thesis by simp
next
  fix xs zs
  assume push: "\<forall>l. last_voted_slot s = Some l \<longrightarrow> l < nxt"
      "vs_votes s = xs @ zs" "\<forall>z \<in> set zs. last_locked_out_slot z < nxt"
      "xs = [] \<or> nxt \<le> last_locked_out_slot (last xs)" "length xs \<noteq> MAX_LOCKOUT_HISTORY"
      "process_next_vote_slot nxt e s = s\<lparr>vs_votes := pushed nxt xs\<rparr>"
  have votes: "votes_ok (vs_root_slot s) (vs_votes s)" using ok by (simp add: tower_ok_def)
  have lt: "\<forall>v \<in> set (vs_votes s). lo_slot v < nxt" using last_voted_slot_max [OF votes _ push(1)] by blast
  have "\<forall>r. vs_root_slot s = Some r \<longrightarrow> r < nxt \<or> r = 0"
  proof (intro allI impI)
    fix r assume r: "vs_root_slot s = Some r"
    with ok obtain v where v: "v \<in> set (vs_votes s)" by (cases "vs_votes s") (auto simp: tower_ok_def)
    with votes r have "r < lo_slot v \<or> r = 0" by (auto simp: votes_ok_def vote_ok_def)
    with lt v show "r < nxt \<or> r = 0" by (auto intro: less_trans)
  qed
  moreover have "votes_ok (vs_root_slot s) xs" using votes push(2) votes_ok_prefix by metis
  moreover from this push(5) have "length xs < MAX_LOCKOUT_HISTORY" by (simp add: votes_ok_def)
  ultimately have "votes_ok (vs_root_slot s) (pushed nxt xs)"
    unfolding pushed_def using lt push(2,4) bound by (intro votes_ok_push) auto
  with push(6) show ?thesis by (simp add: tower_ok_def)
next
  fix r xs zs
  assume root: "\<forall>l. last_voted_slot s = Some l \<longrightarrow> l < nxt"
      "vs_votes s = (r # xs) @ zs" "\<forall>z \<in> set zs. last_locked_out_slot z < nxt"
      "nxt \<le> last_locked_out_slot (last (r # xs))" "length (r # xs) = MAX_LOCKOUT_HISTORY"
      "process_next_vote_slot nxt e s = (increment_credits e 1 s)
         \<lparr>vs_votes := pushed nxt xs, vs_root_slot := Some (lo_slot r)\<rparr>"
  have votes: "votes_ok (vs_root_slot s) (vs_votes s)" using ok by (simp add: tower_ok_def)
  have lt: "\<forall>v \<in> set (vs_votes s). lo_slot v < nxt" using last_voted_slot_max [OF votes _ root(1)] by blast
  have "votes_ok (Some (lo_slot r)) xs" using votes root(2) votes_ok_prefix votes_ok_rooted by metis
  moreover have "xs \<noteq> []" using root(5) by (auto simp: MAX_LOCKOUT_HISTORY_def)
  ultimately have "votes_ok (Some (lo_slot r)) (pushed nxt xs)"
    unfolding pushed_def using lt root(2,4,5) bound by (intro votes_ok_push) auto
  with root(6) show ?thesis by (simp add: tower_ok_def)
qed

lemma process_next_vote_slots_tower_ok:
  "tower_ok s \<Longrightarrow> \<forall>sl \<in> set slots. unat sl < slot_bound \<Longrightarrow>
   tower_ok (fold (\<lambda>sl s. process_next_vote_slot sl e s) slots s)"
  by (induction slots arbitrary: s) (simp_all add: process_next_vote_slot_tower_ok)

section \<open>No rollback\<close>

text \<open>What the new tower owes to a current vote: the same slot with at least its confirmations,
  or a first later slot that its lockout does not reach.\<close>

definition kept_or_expired :: "lockout list \<Rightarrow> lockout \<Rightarrow> bool" where
  "kept_or_expired new c \<longleftrightarrow> (case find (\<lambda>v. lo_slot c \<le> lo_slot v) new of
      None \<Rightarrow> True
    | Some v \<Rightarrow> if lo_slot v = lo_slot c then count c \<le> count v
        else last_locked_out_slot c < lo_slot v)"

lemma check_no_rollback_Ok:
  assumes "sorted_wrt (\<lambda>a b. lo_slot a < lo_slot b) cs" "sorted_wrt (\<lambda>a b. lo_slot a < lo_slot b) new"
  shows "check_no_rollback cs new = Ok () \<longleftrightarrow> (\<forall>c \<in> set cs. kept_or_expired new c)"
  using assms
proof (induction cs new rule: check_no_rollback.induct)
  case (1 c cs v vs)
  have skip: "kept_or_expired (v # vs) d \<longleftrightarrow> kept_or_expired vs d" if "lo_slot v < lo_slot d" for d
    using that by (simp add: kept_or_expired_def flip: not_le)
  consider "lo_slot c < lo_slot v" | "lo_slot c = lo_slot v" | "lo_slot v < lo_slot c" by fastforce
  then show ?case
  proof cases
    case 1
    then have "kept_or_expired (v # vs) c \<longleftrightarrow> last_locked_out_slot c < lo_slot v"
      by (auto simp: kept_or_expired_def)
    with 1 "1.IH"(1) "1.prems" show ?thesis by (auto simp: not_le)
  next
    case 2
    with "1.prems" skip have "(\<forall>d \<in> set cs. kept_or_expired (v # vs) d) \<longleftrightarrow> (\<forall>d \<in> set cs. kept_or_expired vs d)"
      by auto
    moreover from 2 have "kept_or_expired (v # vs) c \<longleftrightarrow> \<not> lo_confirmation_count v < lo_confirmation_count c"
      by (simp add: kept_or_expired_def count_def not_less word_le_nat_alt)
    ultimately show ?thesis using 2 "1.IH"(2) "1.prems" by auto
  next
    case 3
    with "1.prems" have "\<forall>d \<in> set (c # cs). lo_slot v < lo_slot d" by auto
    with skip have "(\<forall>d \<in> set (c # cs). kept_or_expired (v # vs) d) \<longleftrightarrow> (\<forall>d \<in> set (c # cs). kept_or_expired vs d)"
      by blast
    with 3 "1.IH"(3) "1.prems" show ?thesis by auto
  qed
qed (simp_all add: kept_or_expired_def)

lemma skip_rooted_split:
  "\<exists>rooted. vs = rooted @ fst (skip_rooted root vs n) \<and>
    (\<forall>v \<in> set rooted. \<exists>r. root = Some r \<and> lo_slot v \<le> r)"
proof (induction root vs n rule: skip_rooted.induct)
  case (2 root v vs n)
  show ?case
  proof (cases "\<exists>r. root = Some r \<and> lo_slot v \<le> r")
    case True
    then obtain r where r: "root = Some r" "lo_slot v \<le> r" by blast
    from 2 [OF r] obtain rooted where
      "vs = rooted @ fst (skip_rooted root vs (if lo_slot v \<noteq> r then n + 1 else n))"
      "\<forall>v \<in> set rooted. \<exists>r. root = Some r \<and> lo_slot v \<le> r" by blast
    with r show ?thesis by (intro exI [of _ "v # rooted"]) simp
  next
    case False
    then show ?thesis by (intro exI [of _ "[]"]) (auto split: option.split)
  qed
qed simp

section \<open>Accepted towers\<close>

lemma process_new_vote_state_Ok:
  assumes "process_new_vote_state new root ts e fs s = (s', Ok ())"
  shows "vs_votes s' = new \<and> vs_root_slot s' = root \<and> new \<noteq> [] \<and> votes_ok root new \<and>
    check_root_rollback root (vs_root_slot s) = Ok () \<and>
    vs_authorized_voters s' = vs_authorized_voters s \<and>
    check_no_rollback (fst (skip_rooted root (vs_votes s) 1)) new = Ok ()"
proof -
  have kept: "vs_authorized_voters (increment_credits e n s) = vs_authorized_voters s" for n
    by (simp add: increment_credits_def Let_def split: prod.split)
  have "process_timestamp sl t x = Ok y \<Longrightarrow> vs_authorized_voters y = vs_authorized_voters x" for sl t x y
    by (auto simp: process_timestamp_def Let_def split: if_splits)
  with assms show ?thesis
    by (auto simp: process_new_vote_state_def check_new_vote_state_def ok_simps votes_ok_check Let_def kept
        split: sum.splits option.splits if_splits prod.splits)
qed

lemma process_new_vote_state_no_rollback:
  assumes "process_new_vote_state new root ts e fs s = (s', Ok ())" "tower_ok s" "c \<in> set (vs_votes s)"
  shows "(\<exists>r. root = Some r \<and> lo_slot c \<le> r) \<or> kept_or_expired new c"
proof -
  note acc = process_new_vote_state_Ok [OF assms(1)]
  obtain rooted where split: "vs_votes s = rooted @ fst (skip_rooted root (vs_votes s) 1)"
    and rooted: "\<forall>v \<in> set rooted. \<exists>r. root = Some r \<and> lo_slot v \<le> r" using skip_rooted_split by blast
  let ?rest = "fst (skip_rooted root (vs_votes s) 1)"
  have "sorted_wrt (\<lambda>a b. lo_slot a < lo_slot b) (rooted @ ?rest)"
    using assms(2) split by (auto simp: tower_ok_def votes_ok_def dest: votes_sorted)
  moreover have "sorted_wrt (\<lambda>a b. lo_slot a < lo_slot b) new"
    using acc by (auto simp: votes_ok_def dest: votes_sorted)
  ultimately have "\<forall>c \<in> set ?rest. kept_or_expired new c"
    using acc check_no_rollback_Ok [of ?rest new] by (simp add: sorted_wrt_append)
  moreover have "c \<in> set rooted \<union> set ?rest" using assms(3) split by (metis set_append)
  ultimately show ?thesis using rooted by blast
qed

text \<open>A vote on the tower, sent as an update of the tower, is accepted and gives the same state.\<close>

lemma kept_by_slot:
  assumes "sorted_wrt (\<lambda>a b. lo_slot a < lo_slot b) new" "v \<in> set new" "lo_slot v = lo_slot c" "count c \<le> count v"
  shows "kept_or_expired new c"
proof -
  from assms(2) obtain i where i: "i < length new" "new ! i = v" by (auto simp: in_set_conv_nth)
  have "lo_slot (new ! j) < lo_slot v" if "j < i" for j
    using sorted_wrt_nth_less [OF assms(1) that i(1)] i(2) by simp
  then have "find (\<lambda>v. lo_slot c \<le> lo_slot v) new = Some v"
    using i assms(3) by (auto simp: find_Some_iff not_le intro!: exI [of _ i])
  with assms(3,4) show ?thesis by (simp add: kept_or_expired_def)
qed

lemma kept_pushed:
  assumes ok: "votes_ok root (pushed nxt xs)" and "c \<in> set xs" "count c \<le> MAX_LOCKOUT_HISTORY"
  shows "kept_or_expired (pushed nxt xs) c"
proof -
  from assms(2) obtain j where j: "j < length xs" "xs ! j = c" by (auto simp: in_set_conv_nth)
  let ?v = "pushed nxt xs ! j"
  have v: "?v = bump (Suc (length xs)) j c"
    using j double_from_nth [of j "xs @ [lockout_new nxt]" "Suc (length xs)" 0] by (simp add: pushed_def nth_append)
  show ?thesis
  proof (rule kept_by_slot)
    show "sorted_wrt (\<lambda>a b. lo_slot a < lo_slot b) (pushed nxt xs)"
      using ok by (auto simp: votes_ok_def dest: votes_sorted)
    show "?v \<in> set (pushed nxt xs)" using j(1) by (intro nth_mem) (simp add: pushed_def)
  qed (simp_all add: v count_bump [OF assms(3)])
qed

lemma expired_pushed:
  assumes "\<forall>x \<in> set xs. lo_slot x < lo_slot c" "lo_slot c < nxt" "last_locked_out_slot c < nxt"
  shows "kept_or_expired (pushed nxt xs) c"
proof -
  let ?new = "pushed nxt xs" and ?n = "length xs"
  have slots: "lo_slot (?new ! j) = lo_slot ((xs @ [lockout_new nxt]) ! j)" if "j \<le> ?n" for j
    using that double_from_nth [of j "xs @ [lockout_new nxt]" "Suc ?n" 0] by (simp add: pushed_def)
  have "lo_slot (?new ! ?n) = nxt" using slots [of ?n] by (simp add: lockout_new_def)
  moreover have "\<not> lo_slot c \<le> lo_slot (?new ! j)" if "j < ?n" for j
    using that slots [of j] assms(1) by (auto simp: nth_append not_le)
  moreover have "?n < length ?new" by (simp add: pushed_def)
  ultimately have "find (\<lambda>v. lo_slot c \<le> lo_slot v) ?new = Some (?new ! ?n)"
    using assms(2) by (auto simp: find_Some_iff intro!: exI [of _ ?n])
  with assms(2,3) \<open>lo_slot (?new ! ?n) = nxt\<close> show ?thesis by (auto simp: kept_or_expired_def)
qed

lemma check_new_vote_state_intro:
  assumes "new \<noteq> []" "votes_ok root new" "check_root_rollback root (vs_root_slot s) = Ok ()"
    and "skip_rooted root (vs_votes s) 1 = (rest, n)" "tower_ok s"
    and "\<forall>c \<in> set rest. kept_or_expired new c"
  shows "check_new_vote_state s new root = Ok n"
proof -
  obtain rooted where split: "vs_votes s = rooted @ rest"
    using skip_rooted_split [of "vs_votes s" root 1] assms(4) by auto
  have "sorted_wrt (\<lambda>a b. lo_slot a < lo_slot b) (rooted @ rest)"
    using assms(5) split by (auto simp: tower_ok_def votes_ok_def dest: votes_sorted)
  moreover have "sorted_wrt (\<lambda>a b. lo_slot a < lo_slot b) new"
    using assms(2) by (auto simp: votes_ok_def dest: votes_sorted)
  ultimately have "check_no_rollback rest new = Ok ()"
    using assms(6) check_no_rollback_Ok [of rest new] by (simp add: sorted_wrt_append)
  with assms show ?thesis by (simp add: check_new_vote_state_def votes_ok_check not_less)
qed

lemma root_unchanged_check: "check_root_rollback root root = Ok ()"
  by (simp add: check_root_rollback_def split: option.split)

lemma skip_rooted_mem: "skip_rooted root vs n = (rest, m) \<Longrightarrow> set rest \<subseteq> set vs"
  using skip_rooted_split [of vs root n] by (metis Un_upper2 fst_conv set_append)

lemma process_new_same_root:
  assumes "check_new_vote_state s new (vs_root_slot s) = Ok n"
  shows "process_new_vote_state new (vs_root_slot s) None e fs s = (s\<lparr>vs_votes := new\<rparr>, Ok ())"
  using assms by (simp add: process_new_vote_state_def)

lemma next_vote_as_update:
  assumes ok: "tower_ok s" and bound: "unat nxt < slot_bound"
    and strict: "\<forall>v \<in> set (vs_votes s). vs_root_slot s \<noteq> Some (lo_slot v)"
    and s': "s' = process_next_vote_slot nxt e s"
  shows "process_new_vote_state (vs_votes s') (vs_root_slot s') None e fs s = (s', Ok ())"
proof -
  have ok': "tower_ok s'" unfolding s' by (rule process_next_vote_slot_tower_ok [OF ok bound])
  have votes: "votes_ok (vs_root_slot s) (vs_votes s)" using ok by (simp add: tower_ok_def)
  then have sorted: "sorted_wrt (\<lambda>a b. lo_slot a < lo_slot b) (vs_votes s)"
    and le: "\<forall>v \<in> set (vs_votes s). count v \<le> MAX_LOCKOUT_HISTORY"
    by (auto simp: votes_ok_def vote_ok_def dest: votes_sorted)
  show ?thesis
  proof (rule process_next_vote_slot_cases [where s = s and nxt = nxt and e = e])
    fix l assume old: "last_voted_slot s = Some l" "process_next_vote_slot nxt e s = s"
    have "kept_or_expired (vs_votes s) c" if "c \<in> set (vs_votes s)" for c
      by (rule kept_by_slot [OF sorted that]) simp_all
    moreover obtain rest n where sk: "skip_rooted (vs_root_slot s) (vs_votes s) 1 = (rest, n)" by fastforce
    moreover have "vs_votes s \<noteq> []" using old(1) by (auto simp: last_voted_slot_def last_lockout_def)
    ultimately have "check_new_vote_state s (vs_votes s) (vs_root_slot s) = Ok n"
      using ok votes root_unchanged_check skip_rooted_mem [OF sk] by (intro check_new_vote_state_intro) auto
    from process_new_same_root [OF this] old(2) s' show ?thesis by simp
  next
    fix xs zs
    assume push: "\<forall>l. last_voted_slot s = Some l \<longrightarrow> l < nxt"
      "vs_votes s = xs @ zs" "\<forall>z \<in> set zs. last_locked_out_slot z < nxt"
      "process_next_vote_slot nxt e s = s\<lparr>vs_votes := pushed nxt xs\<rparr>"
    have pushed: "votes_ok (vs_root_slot s) (pushed nxt xs)" using ok' push(4) s' by (simp add: tower_ok_def)
    have "kept_or_expired (pushed nxt xs) c" if "c \<in> set (vs_votes s)" for c
    proof (cases "c \<in> set xs")
      case True
      with kept_pushed [OF pushed] le that show ?thesis by simp
    next
      case False
      with that push(2) have "c \<in> set zs" by simp
      moreover have "lo_slot c < nxt" using last_voted_slot_max [OF votes that push(1)] .
      ultimately show ?thesis using push(2,3) sorted by (intro expired_pushed) (auto simp: sorted_wrt_append)
    qed
    moreover obtain rest n where sk: "skip_rooted (vs_root_slot s) (vs_votes s) 1 = (rest, n)" by fastforce
    ultimately have "check_new_vote_state s (pushed nxt xs) (vs_root_slot s) = Ok n"
      using ok pushed root_unchanged_check skip_rooted_mem [OF sk] by (intro check_new_vote_state_intro) auto
    from process_new_same_root [OF this] push(4) s' show ?thesis by simp
  next
    fix r xs zs
    assume root: "vs_votes s = (r # xs) @ zs" "length (r # xs) = MAX_LOCKOUT_HISTORY"
      "process_next_vote_slot nxt e s = (increment_credits e 1 s)
         \<lparr>vs_votes := pushed nxt xs, vs_root_slot := Some (lo_slot r)\<rparr>"
    have "length (r # xs) + length zs \<le> MAX_LOCKOUT_HISTORY" using root(1) votes by (simp add: votes_ok_def)
    with root(2) have "length zs = 0" by linarith
    then have "zs = []" by simp
    then have vs: "vs_votes s = r # xs" using root(1) by simp
    have pushed: "votes_ok (Some (lo_slot r)) (pushed nxt xs)" using ok' root(3) s' by (simp add: tower_ok_def)
    have "skip_rooted (Some (lo_slot r)) (r # xs) 1 = (xs, 1)"
      using sorted vs by (cases xs) (auto simp: not_le)
    moreover have "check_root_rollback (Some (lo_slot r)) (vs_root_slot s) = Ok ()"
      using votes vs by (auto simp: check_root_rollback_def votes_ok_def vote_ok_def split: option.split)
    moreover have "\<forall>c \<in> set xs. kept_or_expired (pushed nxt xs) c"
      using kept_pushed [OF pushed] le vs by simp
    ultimately have "check_new_vote_state s (pushed nxt xs) (Some (lo_slot r)) = Ok 1"
      using ok pushed by (intro check_new_vote_state_intro) (simp_all add: vs)
    moreover have "vs_root_slot s \<noteq> Some (lo_slot r)" using strict vs by simp
    ultimately show ?thesis using root(3) s' by (simp add: process_new_vote_state_def split: option.split)
  qed
qed

text \<open>A tower that starts empty never holds its own root.\<close>

lemma process_next_vote_slot_strict:
  assumes ok: "tower_ok s" and strict: "\<forall>v \<in> set (vs_votes s). \<forall>r. vs_root_slot s = Some r \<longrightarrow> r < lo_slot v"
  shows "\<forall>v \<in> set (vs_votes (process_next_vote_slot nxt e s)). \<forall>r.
    vs_root_slot (process_next_vote_slot nxt e s) = Some r \<longrightarrow> r < lo_slot v"
proof -
  have votes: "votes_ok (vs_root_slot s) (vs_votes s)" using ok by (simp add: tower_ok_def)
  have slots: "lo_slot ` set (pushed nxt xs) = insert nxt (lo_slot ` set xs)" for xs
  proof -
    have "set (map lo_slot (pushed nxt xs)) = insert nxt (set (map lo_slot xs))"
      by (simp add: pushed_def lockout_new_def del: set_map)
    then show ?thesis by simp
  qed
  show ?thesis
  proof (rule process_next_vote_slot_cases [where s = s and nxt = nxt and e = e])
    fix xs zs
    assume push: "\<forall>l. last_voted_slot s = Some l \<longrightarrow> l < nxt" "vs_votes s = xs @ zs"
      "process_next_vote_slot nxt e s = s\<lparr>vs_votes := pushed nxt xs\<rparr>"
    have "\<forall>x \<in> lo_slot ` set (pushed nxt xs). \<forall>r. vs_root_slot s = Some r \<longrightarrow> r < x"
    proof (intro ballI allI impI)
      fix x r assume x: "x \<in> lo_slot ` set (pushed nxt xs)" and r: "vs_root_slot s = Some r"
      from ok r obtain v where v: "v \<in> set (vs_votes s)" by (cases "vs_votes s") (auto simp: tower_ok_def)
      then have "r < lo_slot v" "lo_slot v < nxt" using strict r last_voted_slot_max [OF votes v push(1)] by auto
      with x r strict push(2) show "r < x" unfolding slots by auto
    qed
    with push(3) show ?thesis by simp
  next
    fix r xs zs
    assume root: "\<forall>l. last_voted_slot s = Some l \<longrightarrow> l < nxt" "vs_votes s = (r # xs) @ zs"
      "process_next_vote_slot nxt e s = (increment_credits e 1 s)
         \<lparr>vs_votes := pushed nxt xs, vs_root_slot := Some (lo_slot r)\<rparr>"
    have "sorted_wrt (\<lambda>a b. lo_slot a < lo_slot b) (vs_votes s)"
      using votes by (auto simp: votes_ok_def dest: votes_sorted)
    moreover have "lo_slot r < nxt" using last_voted_slot_max [OF votes _ root(1)] root(2) by simp
    ultimately have "\<forall>x \<in> lo_slot ` set (pushed nxt xs). lo_slot r < x"
      unfolding slots using root(2) by auto
    with root(3) show ?thesis by simp
  qed (use strict in simp)
qed

lemma kept_or_expired_cases:
  assumes "kept_or_expired new c" "new \<noteq> []" "lo_slot c < lo_slot (last new)"
  shows "\<exists>v \<in> set new. lo_slot v = lo_slot c \<and> count c \<le> count v \<or>
    lo_slot c < lo_slot v \<and> last_locked_out_slot c < lo_slot v"
proof -
  have "find (\<lambda>v. lo_slot c \<le> lo_slot v) new \<noteq> None"
    using assms(2,3) by (auto simp: find_None_iff intro!: exI [of _ "last new"])
  then obtain v where v: "find (\<lambda>v. lo_slot c \<le> lo_slot v) new = Some v" by blast
  then have "v \<in> set new" "lo_slot c \<le> lo_slot v" by (auto simp: find_Some_iff)
  with v assms(1) show ?thesis
    by (intro bexI [of _ v]) (auto simp: kept_or_expired_def split: if_splits)
qed

end
