(* ===== verification/VoteChecks.thy ===== *)
theory VoteChecks
  imports VoteTower "HOL-Library.Sublist"
begin

text \<open>
  The loops that compare a vote with the slot hashes. A vote passes exactly when its new
  slots are a subsequence of the hashed slots, oldest first, and its hash is the one of the
  last. A tower update never runs into the assertions of its check: the one after the loop
  holds because the loop ends on the update's last slot.
\<close>

section \<open>Binary search\<close>

lemma binary_search_None:
  assumes "binary_search key xs k left right = None" "right \<le> length xs"
    and "sorted_wrt (\<lambda>a b. key a < key b) xs"
  shows "\<forall>i. left \<le> i \<and> i < right \<longrightarrow> key (xs ! i) \<noteq> k"
  using assms
proof (induction key xs k left right rule: binary_search.induct)
  case (1 key xs k left right)
  let ?mid = "left + (right - left) div 2"
  show ?case
  proof (cases "left < right")
    case True
    then have mid: "left \<le> ?mid" "?mid < right" by auto
    have less: "key (xs ! i) < key (xs ! j)" if "i < j" "j < right" for i j
      using sorted_wrt_nth_less [OF "1.prems"(3) that(1)] that(2) "1.prems"(2) by simp
    consider "key (xs ! ?mid) < k" | "k < key (xs ! ?mid)"
      using "1.prems"(1) True by (fastforce simp: binary_search.simps [of key xs k left right] Let_def)
    then show ?thesis
    proof cases
      case a: 1
      then have "binary_search key xs k (?mid + 1) right = None"
        using "1.prems"(1) True by (simp add: binary_search.simps [of key xs k left right] Let_def)
      from "1.IH"(1) [OF True refl a this "1.prems"(2,3)] have IH: "\<forall>i. ?mid + 1 \<le> i \<and> i < right \<longrightarrow> key (xs ! i) \<noteq> k" .
      show ?thesis
      proof (intro allI impI)
        fix i assume i: "left \<le> i \<and> i < right"
        show "key (xs ! i) \<noteq> k"
        proof (cases "?mid + 1 \<le> i")
          case False
          then have "key (xs ! i) \<le> key (xs ! ?mid)" using less [of i ?mid] mid by (cases "i = ?mid") auto
          with a show ?thesis by simp
        qed (use IH i in simp)
      qed
    next
      case b: 2
      then have nb: "\<not> key (xs ! ?mid) < k" by simp
      with b have "binary_search key xs k left ?mid = None"
        using "1.prems"(1) True by (simp add: binary_search.simps [of key xs k left right] Let_def)
      moreover have "?mid \<le> length xs" using mid "1.prems"(2) by auto
      ultimately have IH: "\<forall>i. left \<le> i \<and> i < ?mid \<longrightarrow> key (xs ! i) \<noteq> k"
        using "1.IH"(2) [OF True refl nb b] "1.prems"(3) by blast
      show ?thesis
      proof (intro allI impI)
        fix i assume i: "left \<le> i \<and> i < right"
        show "key (xs ! i) \<noteq> k"
        proof (cases "i < ?mid")
          case False
          then have "key (xs ! ?mid) \<le> key (xs ! i)" using less [of ?mid i] i by (cases "i = ?mid") auto
          with b show ?thesis by auto
        qed (use IH i in simp)
      qed
    qed
  qed auto
qed

lemma binary_search_Some:
  "binary_search key xs k left right = Some i \<Longrightarrow> left \<le> i \<and> i < right \<and> key (xs ! i) = k"
proof (induction key xs k left right rule: binary_search.induct)
  case (1 key xs k left right)
  let ?mid = "left + (right - left) div 2"
  have eq: "left < right" using "1.prems" by (auto simp: binary_search.simps [of key xs k left right] split: if_splits)
  then have mid: "left \<le> ?mid" "?mid < right" by auto
  show ?case
    using 1 eq mid
    by (auto simp: binary_search.simps [of key xs k left right] Let_def split: if_splits)
qed

lemma contains_slot_iff:
  assumes "sorted_wrt (\<lambda>a b. lo_slot a < lo_slot b) (vs_votes s)"
  shows "contains_slot s sl \<longleftrightarrow> sl \<in> lo_slot ` set (vs_votes s)"
proof
  assume "contains_slot s sl"
  then obtain i where "binary_search lo_slot (vs_votes s) sl 0 (length (vs_votes s)) = Some i"
    by (auto simp: contains_slot_def)
  from binary_search_Some [OF this] show "sl \<in> lo_slot ` set (vs_votes s)" by force
next
  assume "sl \<in> lo_slot ` set (vs_votes s)"
  then obtain i where "i < length (vs_votes s)" "lo_slot (vs_votes s ! i) = sl" by (auto simp: in_set_conv_nth)
  with binary_search_None [of lo_slot "vs_votes s" sl 0 "length (vs_votes s)"] assms
  show "contains_slot s sl" by (auto simp: contains_slot_def)
qed

section \<open>The slots of a vote\<close>

definition newer :: "slot option \<Rightarrow> slot \<Rightarrow> bool" where
  "newer last_voted sl \<longleftrightarrow> (case last_voted of None \<Rightarrow> True | Some l \<Rightarrow> l < sl)"

text \<open>The slots of the \<open>j\<close> newest hashes, oldest first.\<close>

definition ancestors :: "slot_hash list \<Rightarrow> nat \<Rightarrow> slot list" where
  "ancestors hashes j = rev (map fst (take j hashes))"

lemma ancestors_0 [simp]: "ancestors hashes 0 = []"
  by (simp add: ancestors_def)

lemma ancestors_pos:
  "0 < j \<Longrightarrow> j \<le> length hashes \<Longrightarrow> ancestors hashes j = fst (hashes ! (j - 1)) # ancestors hashes (j - 1)"
  by (cases j) (simp_all add: ancestors_def take_Suc_conv_app_nth)

lemma match_slots_skip:
  assumes "\<forall>k < i'. i \<le> k \<longrightarrow> \<not> newer l (slots ! k)" "i \<le> i'" "i' \<le> length slots" "0 < j"
  shows "match_slots l slots hashes i j = match_slots l slots hashes i' j"
  using assms
proof (induction "i' - i" arbitrary: i)
  case (Suc n)
  then have "\<not> newer l (slots ! i)" "i < length slots" by auto
  then have "match_slots l slots hashes i j = match_slots l slots hashes (i + 1) j"
    using Suc.prems(4) by (subst match_slots.simps) (auto simp: newer_def split: option.splits)
  with Suc.hyps(1) [of "i + 1"] Suc.hyps(2) Suc.prems show ?case by simp
qed simp

lemma match_slots_newer:
  assumes "match_slots l slots hashes i j = (i', j')" "\<forall>sl \<in> set (drop i slots). newer l sl"
    and "j \<le> length hashes" "i \<le> length slots"
  shows "j' \<le> j \<and> (i' = length slots \<longleftrightarrow> subseq (drop i slots) (ancestors hashes j)) \<and>
    (i' = length slots \<and> i < length slots \<longrightarrow> j' < j \<and> fst (hashes ! j') = last slots) \<and>
    (i < length slots \<and> 0 < j \<longrightarrow> j' < j)"
  using assms
proof (induction l slots hashes i j rule: match_slots.induct)
  case (1 l slots hashes i j)
  show ?case
  proof (cases "i < length slots \<and> 0 < j")
    case True
    then have i: "drop i slots = slots ! i # drop (i + 1) slots" and j: "ancestors hashes j =
        fst (hashes ! (j - 1)) # ancestors hashes (j - 1)"
      using ancestors_pos "1.prems"(3) by (auto simp: Cons_nth_drop_Suc)
    have new: "\<not> (case l of None \<Rightarrow> False | Some l \<Rightarrow> slots ! i \<le> l)"
      using "1.prems"(2) i by (auto simp: newer_def split: option.splits)
    show ?thesis
    proof (cases "slots ! i = fst (hashes ! (j - 1))")
      case False
      with "1.prems"(1) True new have m: "match_slots l slots hashes i (j - 1) = (i', j')"
        by (subst (asm) match_slots.simps) simp
      have "j - 1 \<le> length hashes" using "1.prems"(3) by simp
      note IH = "1.IH"(2) [OF True new False m "1.prems"(2) this "1.prems"(4)]
      have "subseq (drop i slots) (ancestors hashes j) \<longleftrightarrow> subseq (drop i slots) (ancestors hashes (j - 1))"
        unfolding i j using False by simp
      with IH True show ?thesis by (cases "0 < j - 1") auto
    next
      case same: True
      with "1.prems"(1) True new have m: "match_slots l slots hashes (i + 1) (j - 1) = (i', j')"
        by (subst (asm) match_slots.simps) simp
      have "\<not> slots ! i \<noteq> fst (hashes ! (j - 1))" using same by simp
      from "1.IH"(3) [OF True new this m] "1.prems"(2,3,4) True i
      have IH: "j' \<le> j - 1 \<and> (i' = length slots \<longleftrightarrow> subseq (drop (i + 1) slots) (ancestors hashes (j - 1))) \<and>
        (i' = length slots \<and> i + 1 < length slots \<longrightarrow> j' < j - 1 \<and> fst (hashes ! j') = last slots)" by auto
      have "fst (hashes ! j') = last slots" if "i' = length slots"
      proof (cases "i + 1 < length slots")
        case False
        then have "i + 1 = length slots" using True by simp
        with m have "j' = j - 1" by (subst (asm) match_slots.simps) simp
        moreover have "slots ! i = last slots" using \<open>i + 1 = length slots\<close>
          by (metis add_diff_cancel_right' last_conv_nth list.size(3) not_add_less2 True less_nat_zero_code)
        ultimately show ?thesis using same by simp
      qed (use IH that in simp)
      moreover have "subseq (drop i slots) (ancestors hashes j) \<longleftrightarrow>
          subseq (drop (i + 1) slots) (ancestors hashes (j - 1))"
        unfolding i j same by simp
      ultimately show ?thesis using IH True by auto
    qed
  next
    case False
    with "1.prems" have "i' = i" "j' = j" by (simp_all add: match_slots.simps [of l slots hashes i j] split: if_splits)
    with False "1.prems"(4) show ?thesis by (cases "i = length slots") (auto simp: drop_eq_Nil)
  qed
qed

lemma sorted_newer:
  "sorted slots \<Longrightarrow> dropWhile (\<lambda>sl. \<not> newer l sl) slots = filter (newer l) slots"
proof (induction slots)
  case (Cons a slots)
  have "newer l b" if "newer l a" "b \<in> set slots" for b
    using that Cons.prems by (auto simp: newer_def intro: less_le_trans split: option.splits)
  with Cons show ?case by (auto simp: filter_id_conv)
qed simp

lemma check_slots_are_valid_iff:
  assumes "sorted slots" "distinct (map fst hashes)"
  shows "check_slots_are_valid s slots h hashes = Ok () \<longleftrightarrow>
    (let new = filter (newer (last_voted_slot s)) slots in
     new \<noteq> [] \<and> subseq new (rev (map fst hashes)) \<and> map_of hashes (last new) = Some h)"
proof -
  let ?l = "last_voted_slot s" and ?n = "length hashes"
  let ?i = "length (takeWhile (\<lambda>sl. \<not> newer ?l sl) slots)"
  have new: "drop ?i slots = filter (newer ?l) slots"
    using sorted_newer [OF assms(1)] by (simp add: dropWhile_eq_drop)
  have anc: "ancestors hashes ?n = rev (map fst hashes)" by (simp add: ancestors_def)
  obtain i j where m: "match_slots ?l slots hashes 0 ?n = (i, j)" by fastforce
  show ?thesis
  proof (cases "hashes = []")
    case True
    with m show ?thesis by (simp add: check_slots_are_valid_def match_slots.simps Let_def)
  next
    case False
    then have pos: "0 < ?n" by simp
    have "match_slots ?l slots hashes 0 ?n = match_slots ?l slots hashes ?i ?n"
    proof (rule match_slots_skip)
      show "\<forall>k < ?i. 0 \<le> k \<longrightarrow> \<not> newer ?l (slots ! k)"
        using nth_mem [of _ "takeWhile (\<lambda>sl. \<not> newer ?l sl) slots"]
        by (metis set_takeWhileD takeWhile_nth)
    qed (use pos length_takeWhile_le in auto)
    with m have m': "match_slots ?l slots hashes ?i ?n = (i, j)" by simp
    show ?thesis
    proof (cases "?i < length slots")
      case False
      with m' have "j = ?n" by (subst (asm) match_slots.simps) simp
      moreover from False new have "filter (newer ?l) slots = []" by (simp flip: new)
      ultimately show ?thesis using m by (simp add: check_slots_are_valid_def Let_def)
    next
      case True
      then have ne: "filter (newer ?l) slots \<noteq> []" by (simp flip: new)
      have lst: "last (filter (newer ?l) slots) = last slots" using True by (simp flip: new)
      from match_slots_newer [OF m'] new anc True pos
      have r: "j < ?n" "i = length slots \<longleftrightarrow> subseq (filter (newer ?l) slots) (rev (map fst hashes))"
        "i = length slots \<longrightarrow> fst (hashes ! j) = last slots" by auto
      have "(fst (hashes ! j), snd (hashes ! j)) \<in> set hashes" using r(1) by simp
      then have "map_of hashes (fst (hashes ! j)) = Some (snd (hashes ! j))"
        using assms(2) by (simp add: map_of_is_SomeI)
      with r m ne lst show ?thesis
        by (auto simp: check_slots_are_valid_def Let_def index_def ok_simps case_prod_unfold)
    qed
  qed
qed

section \<open>The slots of an update\<close>

text \<open>The rounds the loop may still take.\<close>

definition rounds :: "nat \<Rightarrow> slot option \<Rightarrow> nat \<Rightarrow> nat \<Rightarrow> nat" where
  "rounds n root i j = (n - i) + j + (if root = None then 0 else 1)"

lemma rounds_less:
  "root \<noteq> None \<Longrightarrow> rounds n None i j < rounds n root i j"
  "i < n \<Longrightarrow> rounds n None (i + 1) j < rounds n None i j"
  "0 < j \<Longrightarrow> rounds n root i (j - 1) < rounds n root i j"
  "i < n \<Longrightarrow> rounds n None (i + 1) (j - 1) < rounds n None i j"
  by (auto simp: rounds_def)

lemma match_update_total:
  assumes "earliest = fst (last hashes)" "hashes \<noteq> []" "j \<le> length hashes"
    and "\<forall>r. root = Some r \<and> r < earliest \<longrightarrow> vs_root_slot s = Some r"
  shows "match_update s hashes earliest lockouts root i j filt \<noteq> Panicked"
  using assms
proof (induction "rounds (length lockouts) root i j" arbitrary: root i j filt rule: less_induct)
  case less
  let ?go = "match_update s hashes earliest lockouts"
  have oldest: "fst (hashes ! (length hashes - 1)) = earliest"
    using less.prems(1,2) by (simp add: last_conv_nth)
  show ?case
  proof (cases "i < length lockouts \<and> 0 < j")
    case False
    then show ?thesis by (auto simp: match_update.simps)
  next
    case True
    have le: "j - 1 \<le> length hashes" using less.prems(3) by simp
    have root: "?go None i j f \<noteq> Panicked" if "root \<noteq> None" for f
      by (rule less.hyps [OF rounds_less(1) [OF that] less.prems(1-3)]) simp
    have next_slot: "?go None (i + 1) j f \<noteq> Panicked" if "root = None" for f
      using less.hyps [OF _ less.prems(1-3), of None "i + 1"] rounds_less(2) [of i "length lockouts" j] that True
      by simp
    have next_hash: "?go root i (j - 1) f \<noteq> Panicked" for f
      using True by (intro less.hyps rounds_less le less.prems) simp
    have both: "?go None (i + 1) (j - 1) f \<noteq> Panicked" if "root = None" for f
      using less.hyps [OF _ less.prems(1,2) le, of None "i + 1"] rounds_less(4) [of i "length lockouts" j] that True
      by simp
    show ?thesis
    proof (cases root)
      case None
      with True next_slot next_hash both oldest show ?thesis
        by (subst match_update.simps) (auto simp: Let_def)
    next
      case (Some r)
      with True root next_hash oldest less.prems(4) show ?thesis
        by (subst match_update.simps) (auto simp: Let_def)
    qed
  qed
qed

text \<open>One round of the loop, when it goes on.\<close>

lemma match_update_step:
  assumes "match_update s hashes earliest ls root i j filt = Ok r" "i < length ls" "0 < j"
  obtains (old_root) x where "root = Some x" "match_update s hashes earliest ls None i j filt = Ok r"
  | (old_slot) "root = None" "lo_slot (ls ! i) < earliest" "match_update s hashes earliest ls None (i + 1) j
        (if contains_slot s (lo_slot (ls ! i)) then filt else filt @ [i]) = Ok r"
  | (ahead) "match_update s hashes earliest ls root i (j - 1) filt = Ok r"
  | (found) "root = None" "lo_slot (ls ! i) = fst (hashes ! (j - 1))"
      "match_update s hashes earliest ls None (i + 1) (j - 1) filt = Ok r"
  using assms
  by (subst (asm) match_update.simps)
    (auto simp: Let_def not_less_iff_gr_or_eq split: option.splits if_splits)

lemma match_update_stop:
  "\<not> i < length ls \<Longrightarrow> match_update s hashes earliest ls root i j filt = Ok (i, j, filt)"
  "match_update s hashes earliest ls root i 0 filt = Ok (i, 0, filt)"
  by (simp_all add: match_update.simps)

lemma match_update_end:
  assumes "match_update s hashes earliest ls root i j filt = Ok (length ls, j', filt')"
    and "i < length ls" "j \<le> length hashes"
  shows "lo_slot (last ls) < earliest \<or> (j' < length hashes \<and> fst (hashes ! j') = lo_slot (last ls))"
  using assms
proof (induction "rounds (length ls) root i j" arbitrary: root i j filt rule: less_induct)
  case less
  have lst: "ls ! i = last ls" if "\<not> i + 1 < length ls"
  proof -
    from that less.prems(2) have "length ls - 1 = i" "ls \<noteq> []" by auto
    then show ?thesis by (simp add: last_conv_nth)
  qed
  have "0 < j" using less.prems(1,2) by (cases j) (auto simp: match_update_stop)
  from less.prems(1,2) this show ?case
  proof (cases rule: match_update_step)
    case (old_root x)
    then have "root \<noteq> None" by simp
    from less.hyps [OF rounds_less(1) [OF this] old_root(2) less.prems(2,3)] show ?thesis .
  next
    case old_slot
    show ?thesis
    proof (cases "i + 1 < length ls")
      case True
      from less.hyps [OF _ old_slot(3) True less.prems(3)] rounds_less(2) [OF less.prems(2)] old_slot(1)
      show ?thesis by metis
    next
      case False
      with old_slot(2) lst show ?thesis by simp
    qed
  next
    case ahead
    have "j - 1 \<le> length hashes" using less.prems(3) by simp
    from less.hyps [OF rounds_less(3) [OF \<open>0 < j\<close>] ahead less.prems(2) this] show ?thesis .
  next
    case found
    show ?thesis
    proof (cases "i + 1 < length ls")
      case True
      have "j - 1 \<le> length hashes" using less.prems(3) by simp
      from less.hyps [OF _ found(3) True this] rounds_less(4) [OF less.prems(2)] found(1)
      show ?thesis by metis
    next
      case False
      with found(3) have "j' = j - 1" by (simp add: match_update_stop)
      with found(2) lst [OF False] less.prems(3) \<open>0 < j\<close> show ?thesis by auto
    qed
  qed
qed

definition dropped :: "vote_state \<Rightarrow> slot \<Rightarrow> lockout list \<Rightarrow> nat \<Rightarrow> bool" where
  "dropped s earliest ls k \<longleftrightarrow> k < length ls \<and> lo_slot (ls ! k) < earliest \<and>
     \<not> contains_slot s (lo_slot (ls ! k))"

definition accounted :: "vote_state \<Rightarrow> slot_hash list \<Rightarrow> slot \<Rightarrow> slot \<Rightarrow> bool" where
  "accounted s hashes earliest sl \<longleftrightarrow> sl \<in> fst ` set hashes \<or> sl < earliest \<and> contains_slot s sl"

text \<open>What holds of the collected indexes when the first \<open>i\<close> lockouts have been looked at.\<close>

definition filt_ok :: "vote_state \<Rightarrow> slot_hash list \<Rightarrow> slot \<Rightarrow> lockout list \<Rightarrow> nat \<Rightarrow> nat list \<Rightarrow> bool" where
  "filt_ok s hashes earliest ls i filt \<longleftrightarrow> sorted_wrt (<) filt \<and>
     (\<forall>k \<in> set filt. k < i \<and> dropped s earliest ls k) \<and>
     (\<forall>k < i. k \<in> set filt \<or> accounted s hashes earliest (lo_slot (ls ! k)))"

lemma filt_ok_Nil [simp]: "filt_ok s hashes earliest ls 0 []"
  by (simp add: filt_ok_def)

lemma filt_ok_drop:
  "filt_ok s hashes earliest ls i filt \<Longrightarrow> dropped s earliest ls i \<Longrightarrow> filt_ok s hashes earliest ls (i + 1) (filt @ [i])"
  by (auto simp: filt_ok_def sorted_wrt_append less_Suc_eq)

lemma filt_ok_keep:
  "filt_ok s hashes earliest ls i filt \<Longrightarrow> accounted s hashes earliest (lo_slot (ls ! i)) \<Longrightarrow>
   filt_ok s hashes earliest ls (i + 1) filt"
  by (auto simp: filt_ok_def less_Suc_eq)

lemma match_update_filt_ok:
  assumes "match_update s hashes earliest ls root i j filt = Ok (i', j', filt')" "j \<le> length hashes"
    and "filt_ok s hashes earliest ls i filt"
  shows "filt_ok s hashes earliest ls i' filt'"
  using assms
proof (induction "rounds (length ls) root i j" arbitrary: root i j filt rule: less_induct)
  case less
  show ?case
  proof (cases "i < length ls \<and> 0 < j")
    case False
    with less.prems show ?thesis by (auto simp: match_update_stop)
  next
    case True
    then have lt: "i < length ls" and pos: "0 < j" by auto
    have le: "j - 1 \<le> length hashes" using less.prems(2) by simp
    from less.prems(1) lt pos show ?thesis
    proof (cases rule: match_update_step)
      case (old_root x)
      then have "root \<noteq> None" by simp
      from less.hyps [OF rounds_less(1) [OF this] old_root(2) less.prems(2,3)] show ?thesis .
    next
      case old_slot
      have "filt_ok s hashes earliest ls (i + 1)
          (if contains_slot s (lo_slot (ls ! i)) then filt else filt @ [i])"
        using filt_ok_drop [OF less.prems(3)] filt_ok_keep [OF less.prems(3)] lt old_slot(2)
        by (auto simp: dropped_def accounted_def)
      from less.hyps [OF _ old_slot(3) less.prems(2) this] rounds_less(2) [OF lt] old_slot(1)
      show ?thesis by metis
    next
      case ahead
      from less.hyps [OF rounds_less(3) [OF pos] ahead le less.prems(3)] show ?thesis .
    next
      case found
      have "fst (hashes ! (j - 1)) \<in> fst ` set hashes" using less.prems(2) pos by (intro imageI nth_mem) simp
      then have "filt_ok s hashes earliest ls (i + 1) filt"
        using filt_ok_keep [OF less.prems(3)] found(2) by (simp add: accounted_def)
      from less.hyps [OF _ found(3) le this] rounds_less(4) [OF lt] found(1) show ?thesis by metis
    qed
  qed
qed

lemma retain_from_mem:
  assumes "x \<in> set (retain_from i filt xs)" "sorted_wrt (<) filt" "\<forall>k \<in> set filt. i \<le> k"
  shows "\<exists>k < length xs. x = xs ! k \<and> i + k \<notin> set filt"
  using assms
proof (induction i filt xs rule: retain_from.induct)
  case (2 i x' xs)
  then consider "x = x'" | "x \<in> set (retain_from (Suc i) [] xs)" by auto
  then show ?case
  proof cases
    case 1
    then show ?thesis by (intro exI [of _ 0]) simp
  next
    case b: 2
    with "2.IH" obtain k where "k < length xs" "x = xs ! k" by auto
    then show ?thesis by (intro exI [of _ "Suc k"]) simp
  qed
next
  case (3 i k ks x' xs)
  show ?case
  proof (cases "i = k")
    case True
    with 3 have "\<exists>k < length xs. x = xs ! k \<and> Suc i + k \<notin> set ks" by (auto simp: Suc_le_eq)
    then obtain m where "m < length xs" "x = xs ! m" "Suc i + m \<notin> set ks" by blast
    with True show ?thesis by (intro exI [of _ "Suc m"]) simp
  next
    case False
    then have ge: "\<forall>m \<in> set (k # ks). Suc i \<le> m" using "3.prems" by (auto simp: Suc_le_eq order_le_less)
    consider "x = x'" | "x \<in> set (retain_from (Suc i) (k # ks) xs)" using "3.prems"(1) False by auto
    then show ?thesis
    proof cases
      case 1
      have "i \<notin> set (k # ks)" using ge by force
      with 1 show ?thesis by (intro exI [of _ 0]) simp
    next
      case 2
      with "3.IH"(2) [OF False] "3.prems"(2) ge
      obtain m where "m < length xs" "x = xs ! m" "Suc i + m \<notin> set (k # ks)" by blast
      then show ?thesis by (intro exI [of _ "Suc m"]) simp
    qed
  qed
qed simp

lemma last_retain_from:
  "xs \<noteq> [] \<Longrightarrow> i + length xs - 1 \<notin> set filt \<Longrightarrow> retain_from i filt xs \<noteq> [] \<and> last (retain_from i filt xs) = last xs"
proof (induction i filt xs rule: retain_from.induct)
  case (2 i x xs)
  then show ?case by (cases xs) auto
next
  case (3 i k ks x xs)
  then show ?case by (cases xs) (auto split: if_splits)
qed simp

lemma last_of_Some: "last_of xs = Some x \<longleftrightarrow> xs \<noteq> [] \<and> x = last xs"
  by (auto simp: last_of_def)

text \<open>The update's root after the check of its age.\<close>

definition checked_root :: "vote_state \<Rightarrow> slot \<Rightarrow> slot option \<Rightarrow> slot option" where
  "checked_root s earliest root = (case root of
      Some r \<Rightarrow> if earliest > r then vs_root_slot s else root | None \<Rightarrow> None)"

lemma check_update_eq:
  assumes "vsu_lockouts u \<noteq> []" "hashes \<noteq> []" "\<not> lo_slot (last (vsu_lockouts u)) < fst (last hashes)"
    and "\<forall>l. last_of (vs_votes s) = Some l \<longrightarrow> lo_slot l < lo_slot (last (vsu_lockouts u))"
  shows "check_update_vote_state_slots_are_valid s u hashes =
    (let ls = vsu_lockouts u; root = checked_root s (fst (last hashes)) (vsu_root u) in
     try_bind (match_update s hashes (fst (last hashes)) ls root 0 (length hashes) []) (\<lambda>(i, j, filt).
     if i \<noteq> length ls then Fail VE_SlotsMismatch
     else try_bind (index hashes j) (\<lambda>(sl, h).
       if lo_slot (last ls) \<noteq> sl then Panicked
       else if h \<noteq> vsu_hash u then Fail VE_SlotHashMismatch
       else Ok (u\<lparr>vsu_root := root, vsu_lockouts := retain_from 0 filt ls\<rparr>))))"
proof -
  have "\<not> (case last_of (vs_votes s) of None \<Rightarrow> False | Some l \<Rightarrow> lo_slot (last (vsu_lockouts u)) \<le> lo_slot l)"
    using assms(4) by (auto split: option.splits)
  moreover obtain e h where eh: "last hashes = (e, h)" by force
  moreover have "(case vsu_root u of None \<Rightarrow> u | Some r \<Rightarrow>
      if r < e then u\<lparr>vsu_root := vs_root_slot s\<rparr> else u) = u\<lparr>vsu_root := checked_root s e (vsu_root u)\<rparr>"
    by (cases u) (auto simp: checked_root_def split: option.split)
  ultimately show ?thesis using assms(1-3)
    by (simp add: check_update_vote_state_slots_are_valid_def last_of_def Let_def cong: if_cong)
qed

lemma check_update_early:
  assumes "\<not> (vsu_lockouts u \<noteq> [] \<and> hashes \<noteq> [] \<and> \<not> lo_slot (last (vsu_lockouts u)) < fst (last hashes) \<and>
    (\<forall>l. last_of (vs_votes s) = Some l \<longrightarrow> lo_slot l < lo_slot (last (vsu_lockouts u))))"
  shows "\<exists>e. check_update_vote_state_slots_are_valid s u hashes = Fail e"
proof -
  obtain e h where eh: "hashes \<noteq> [] \<Longrightarrow> last hashes = (e, h)" by force
  show ?thesis
  proof (cases "vsu_lockouts u = []")
    case False
    then have l: "last_of (vsu_lockouts u) = Some (last (vsu_lockouts u))" by (simp add: last_of_def)
    show ?thesis
    proof (cases "\<forall>l. last_of (vs_votes s) = Some l \<longrightarrow> lo_slot l < lo_slot (last (vsu_lockouts u))")
      case True
      then have "\<not> (case last_of (vs_votes s) of None \<Rightarrow> False | Some l \<Rightarrow> lo_slot (last (vsu_lockouts u)) \<le> lo_slot l)"
        by (auto split: option.splits)
      then show ?thesis using True False assms eh l
        by (cases "hashes = []") (simp_all add: check_update_vote_state_slots_are_valid_def last_of_def)
    qed (auto simp: check_update_vote_state_slots_are_valid_def l not_less)
  qed (simp add: check_update_vote_state_slots_are_valid_def last_of_def)
qed

lemma check_update_total: "check_update_vote_state_slots_are_valid s u hashes \<noteq> Panicked"
proof (cases "vsu_lockouts u \<noteq> [] \<and> hashes \<noteq> [] \<and> \<not> lo_slot (last (vsu_lockouts u)) < fst (last hashes) \<and>
    (\<forall>l. last_of (vs_votes s) = Some l \<longrightarrow> lo_slot l < lo_slot (last (vsu_lockouts u)))")
  case False
  from check_update_early [OF this] show ?thesis by auto
next
  case True
  let ?ls = "vsu_lockouts u" and ?e = "fst (last hashes)"
  let ?root = "checked_root s ?e (vsu_root u)"
  let ?m = "match_update s hashes ?e ?ls ?root 0 (length hashes) []"
  have "?m \<noteq> Panicked"
    using True by (intro match_update_total) (auto simp: checked_root_def split: option.splits if_splits)
  moreover have "j < length hashes \<and> fst (hashes ! j) = lo_slot (last ?ls)" if "?m = Ok (length ?ls, j, filt)" for j filt
    using match_update_end [OF that] True by auto
  ultimately show ?thesis using True
    by (cases ?m) (auto simp: check_update_eq Let_def index_def try_bind_def case_prod_unfold)
qed

lemma check_update_Ok:
  assumes "check_update_vote_state_slots_are_valid s u hashes = Ok u'"
  shows "vsu_lockouts u' \<noteq> [] \<and> last (vsu_lockouts u') = last (vsu_lockouts u) \<and>
    (\<forall>l. last_of (vs_votes s) = Some l \<longrightarrow> lo_slot l < lo_slot (last (vsu_lockouts u'))) \<and>
    (lo_slot (last (vsu_lockouts u')), vsu_hash u) \<in> set hashes \<and>
    vsu_root u' = checked_root s (fst (last hashes)) (vsu_root u) \<and> vsu_timestamp u' = vsu_timestamp u \<and>
    (\<forall>l \<in> set (vsu_lockouts u'). l \<in> set (vsu_lockouts u) \<and> accounted s hashes (fst (last hashes)) (lo_slot l))"
proof (cases "vsu_lockouts u \<noteq> [] \<and> hashes \<noteq> [] \<and> \<not> lo_slot (last (vsu_lockouts u)) < fst (last hashes) \<and>
    (\<forall>l. last_of (vs_votes s) = Some l \<longrightarrow> lo_slot l < lo_slot (last (vsu_lockouts u)))")
  case False
  from check_update_early [OF this] assms show ?thesis by auto
next
  case True
  let ?ls = "vsu_lockouts u" and ?e = "fst (last hashes)"
  from assms True obtain j filt where
    m: "match_update s hashes ?e ?ls (checked_root s ?e (vsu_root u)) 0 (length hashes) [] = Ok (length ?ls, j, filt)"
    and j: "j < length hashes" "fst (hashes ! j) = lo_slot (last ?ls)" "snd (hashes ! j) = vsu_hash u"
    and u': "u' = u\<lparr>vsu_root := checked_root s ?e (vsu_root u), vsu_lockouts := retain_from 0 filt ?ls\<rparr>"
    by (auto simp: check_update_eq Let_def ok_simps case_prod_unfold split: if_splits)
  note filt = match_update_filt_ok [OF m order_refl filt_ok_Nil, unfolded filt_ok_def]
  have "0 + length ?ls - 1 \<notin> set filt"
    using filt True by (auto simp: dropped_def last_conv_nth)
  with True have lst: "vsu_lockouts u' \<noteq> [] \<and> last (vsu_lockouts u') = last ?ls"
    using last_retain_from [of ?ls 0 filt] u' by simp
  have "(fst (hashes ! j), snd (hashes ! j)) \<in> set hashes" using j(1) by simp
  then have h: "(lo_slot (last ?ls), vsu_hash u) \<in> set hashes" using j(2,3) by simp
  have "l \<in> set ?ls \<and> accounted s hashes ?e (lo_slot l)" if "l \<in> set (vsu_lockouts u')" for l
    using retain_from_mem [of l 0 filt ?ls] that filt u' by auto
  with lst h True u' show ?thesis by simp
qed

end
