(* ===== verification/VoteHandlers.thy ===== *)
theory VoteHandlers
  imports VoteUpdate
begin

text \<open>
  The handlers of the vote program (the free functions of \<open>vote_state/mod.rs\<close>) on the
  accounts of an instruction. The borrowed accounts are the SDK's: \<open>vote_ops\<close> are the
  operations the handlers call on a position of the instruction, each setter returning the
  context after it, and \<open>vote_laws\<close> their documented behaviour. A handler that fails returns
  no context: the runtime discards its changes.
\<close>

record 'c vote_ops =
  vo_borrow :: "'c \<Rightarrow> nat \<Rightarrow> (vote_ie, unit) result"
  vo_get_state :: "'c \<Rightarrow> nat \<Rightarrow> (vote_ie, vote_state_versions) result"
  vo_set_state :: "'c \<Rightarrow> nat \<Rightarrow> vote_state_versions \<Rightarrow> (vote_ie, 'c) result"
  vo_data_len :: "'c \<Rightarrow> nat \<Rightarrow> nat"
  vo_lamports :: "'c \<Rightarrow> nat \<Rightarrow> u64"
  vo_checked_sub_lamports :: "'c \<Rightarrow> nat \<Rightarrow> u64 \<Rightarrow> (vote_ie, 'c) result"
  vo_checked_add_lamports :: "'c \<Rightarrow> nat \<Rightarrow> u64 \<Rightarrow> (vote_ie, 'c) result"

record vote_clock =
  vck_epoch :: epoch
  vck_leader_schedule_epoch :: epoch

definition verify_authorized_signer :: "pubkey \<Rightarrow> pubkey list \<Rightarrow> (vote_ie, unit) result" where
  "verify_authorized_signer authorized signers =
     (if authorized \<in> set signers then Ok () else Fail VIE_MissingRequiredSignature)"

section \<open>Authorities\<close>

definition vote_authorize ::
  "'c vote_ops \<Rightarrow> 'c \<Rightarrow> nat \<Rightarrow> pubkey \<Rightarrow> vote_authorize_kind \<Rightarrow> pubkey list \<Rightarrow> vote_clock \<Rightarrow> feature_set \<Rightarrow>
   (vote_ie, 'c) result" where
  "vote_authorize V c vote_account authorized which signers clock active =
     try_bind (vo_get_state V c vote_account) (\<lambda>versioned.
     let s = convert_to_current versioned in
     try_bind
       (case which of
          VA_Voter \<Rightarrow>
            try_bind (if active Vote_withdraw_authority_may_change_authorized_voter
                then is_ok (verify_authorized_signer (vs_authorized_withdrawer s) signers)
                else Ok False) (\<lambda>authorized_withdrawer_signer.
            set_new_authorized_voter authorized (vck_epoch clock) (vck_leader_schedule_epoch clock + 1)
              (\<lambda>epoch_authorized_voter. if authorized_withdrawer_signer then Ok ()
                 else verify_authorized_signer epoch_authorized_voter signers) s)
        | VA_Withdrawer \<Rightarrow>
            try_bind (verify_authorized_signer (vs_authorized_withdrawer s) signers) (\<lambda>_.
            Ok (s\<lparr>vs_authorized_withdrawer := authorized\<rparr>))) (\<lambda>s.
     vo_set_state V c vote_account (new_current s)))"

definition update_validator_identity ::
  "'c vote_ops \<Rightarrow> 'c \<Rightarrow> nat \<Rightarrow> pubkey \<Rightarrow> pubkey list \<Rightarrow> (vote_ie, 'c) result" where
  "update_validator_identity V c vote_account node_pubkey signers =
     try_bind (vo_get_state V c vote_account) (\<lambda>versioned.
     let s = convert_to_current versioned in
     try_bind (verify_authorized_signer (vs_authorized_withdrawer s) signers) (\<lambda>_.
     try_bind (verify_authorized_signer node_pubkey signers) (\<lambda>_.
     vo_set_state V c vote_account (new_current (s\<lparr>vs_node_pubkey := node_pubkey\<rparr>)))))"

definition update_commission ::
  "'c vote_ops \<Rightarrow> 'c \<Rightarrow> nat \<Rightarrow> u8 \<Rightarrow> pubkey list \<Rightarrow> (vote_ie, 'c) result" where
  "update_commission V c vote_account commission signers =
     try_bind (vo_get_state V c vote_account) (\<lambda>versioned.
     let s = convert_to_current versioned in
     try_bind (verify_authorized_signer (vs_authorized_withdrawer s) signers) (\<lambda>_.
     vo_set_state V c vote_account (new_current (s\<lparr>vs_commission := commission\<rparr>))))"

section \<open>Withdrawal\<close>

definition vote_withdraw ::
  "'c vote_ops \<Rightarrow> 'c \<Rightarrow> nat \<Rightarrow> u64 \<Rightarrow> nat \<Rightarrow> pubkey list \<Rightarrow> (nat \<Rightarrow> u64) option \<Rightarrow> vote_clock option \<Rightarrow>
   (vote_ie, 'c) result" where
  "vote_withdraw V c vote_account lamports to_account signers rent_sysvar clock =
     try_bind (vo_borrow V c vote_account) (\<lambda>_.
     try_bind (vo_get_state V c vote_account) (\<lambda>versioned.
     let s = convert_to_current versioned in
     try_bind (verify_authorized_signer (vs_authorized_withdrawer s) signers) (\<lambda>_.
     try_bind (ok_or (checked_sub (vo_lamports V c vote_account) lamports) VIE_InsufficientFunds)
       (\<lambda>remaining_balance.
     try_bind
       (if remaining_balance = 0 then
          let reject = (case (clock, last_of (vs_epoch_credits s)) of
                (Some clk, Some (last_epoch, _, _)) \<Rightarrow> saturating_sub (vck_epoch clk) last_epoch < 2
              | _ \<Rightarrow> False) in
          if reject then Fail VIE_InvalidAccountData
          else vo_set_state V c vote_account (new_current vote_state_default)
        else case rent_sysvar of
          Some rent \<Rightarrow>
            if remaining_balance < rent (vo_data_len V c vote_account) then Fail VIE_InsufficientFunds
            else Ok c
        | None \<Rightarrow> Ok c) (\<lambda>c.
     try_bind (vo_checked_sub_lamports V c vote_account lamports) (\<lambda>c.
     try_bind (vo_borrow V c to_account) (\<lambda>_.
     vo_checked_add_lamports V c to_account lamports)))))))"

section \<open>Initialization and votes\<close>

definition vote_initialize_account ::
  "'c vote_ops \<Rightarrow> 'c \<Rightarrow> nat \<Rightarrow> vote_init \<Rightarrow> pubkey list \<Rightarrow> vote_clock \<Rightarrow> (vote_ie, 'c) result" where
  "vote_initialize_account V c vote_account vote_init signers clock =
     (if vo_data_len V c vote_account \<noteq> VOTE_STATE_SIZE then Fail VIE_InvalidAccountData
      else
        try_bind (vo_get_state V c vote_account) (\<lambda>versioned.
        if \<not> is_uninitialized versioned then Fail VIE_AccountAlreadyInitialized
        else
          try_bind (verify_authorized_signer (vi_node_pubkey vote_init) signers) (\<lambda>_.
          vo_set_state V c vote_account (new_current (vote_state_new vote_init (vck_epoch clock))))))"

definition verify_and_get_vote_state ::
  "'c vote_ops \<Rightarrow> 'c \<Rightarrow> nat \<Rightarrow> vote_clock \<Rightarrow> pubkey list \<Rightarrow> (vote_ie, vote_state) result" where
  "verify_and_get_vote_state V c vote_account clock signers =
     try_bind (vo_get_state V c vote_account) (\<lambda>versioned.
     if is_uninitialized versioned then Fail VIE_UninitializedAccount
     else
       try_bind (get_and_update_authorized_voter (vck_epoch clock) (convert_to_current versioned))
         (\<lambda>(s, authorized_voter).
       try_bind (verify_authorized_signer authorized_voter signers) (\<lambda>_. Ok s)))"

text \<open>The largest slot of a vote; \<open>max\<close> of an iterator is none when there is none.\<close>

definition max_slot :: "slot list \<Rightarrow> slot option" where
  "max_slot slots = (if slots = [] then None else Some (fold max (tl slots) (hd slots)))"

definition process_vote ::
  "'c vote_ops \<Rightarrow> 'c \<Rightarrow> nat \<Rightarrow> slot_hash list \<Rightarrow> vote_clock \<Rightarrow> vote \<Rightarrow> pubkey list \<Rightarrow> feature_set \<Rightarrow>
   (vote_ie, 'c) result" where
  "process_vote V c vote_account hashes clock v signers active =
     try_bind (verify_and_get_vote_state V c vote_account clock signers) (\<lambda>s.
     try_bind (map_err VIE_Vote (vs_process_vote v hashes (vck_epoch clock) (Some active) s)) (\<lambda>s.
     try_bind (case vote_timestamp v of
         None \<Rightarrow> Ok s
       | Some t \<Rightarrow> map_err VIE_Vote
           (try_bind (ok_or (max_slot (vote_slots v)) VE_EmptySlots) (\<lambda>sl. process_timestamp sl t s))) (\<lambda>s.
     vo_set_state V c vote_account (new_current s))))"

definition process_vote_state_update ::
  "'c vote_ops \<Rightarrow> 'c \<Rightarrow> nat \<Rightarrow> slot_hash list \<Rightarrow> vote_clock \<Rightarrow> vote_state_update \<Rightarrow> pubkey list \<Rightarrow>
   feature_set \<Rightarrow> (vote_ie, 'c) result" where
  "process_vote_state_update V c vote_account hashes clock u signers active =
     try_bind (verify_and_get_vote_state V c vote_account clock signers) (\<lambda>s.
     try_bind (map_err VIE_Vote (check_update_vote_state_slots_are_valid s u hashes)) (\<lambda>u.
     let (s, r) = process_new_vote_state (vsu_lockouts u) (vsu_root u) (vsu_timestamp u)
           (vck_epoch clock) (Some active) s in
     try_bind (map_err VIE_Vote r) (\<lambda>_.
     vo_set_state V c vote_account (new_current s))))"

section \<open>Accounts\<close>

definition vote_state_from :: "(bytes \<Rightarrow> vote_state_versions option) \<Rightarrow> bytes \<Rightarrow> vote_state option" where
  "vote_state_from decode d = (case vote_state_deserialize decode d of Inr s \<Rightarrow> Some s | Inl _ \<Rightarrow> None)"

definition credits_from :: "(bytes \<Rightarrow> vote_state_versions option) \<Rightarrow> bytes \<Rightarrow> u64 option" where
  "credits_from decode d = map_option vs_credits (vote_state_from decode d)"

definition get_rent_exempt_reserve :: "(nat \<Rightarrow> u64) \<Rightarrow> u64" where
  "get_rent_exempt_reserve rent = rent VOTE_STATE_SIZE"

text \<open>The lamports, data and owner of a new account; serializing is unwrapped.\<close>

definition create_account_with_authorized ::
  "(vote_state_versions \<Rightarrow> bytes \<Rightarrow> (bincode_error, bytes) result) \<Rightarrow> pubkey \<Rightarrow> pubkey \<Rightarrow> pubkey \<Rightarrow> pubkey \<Rightarrow>
   u8 \<Rightarrow> u64 \<Rightarrow> (vote_ie, u64 \<times> bytes \<times> pubkey) result" where
  "create_account_with_authorized encode program_id node_pubkey authorized_voter authorized_withdrawer
       commission lamports =
     (let s = vote_state_new \<lparr>vi_node_pubkey = node_pubkey, vi_authorized_voter = authorized_voter,
            vi_authorized_withdrawer = authorized_withdrawer, vi_commission = commission\<rparr> 0 in
      case vote_state_serialize encode (new_current s) (replicate VOTE_STATE_SIZE 0) of
        Inl _ \<Rightarrow> Panicked
      | Inr d \<Rightarrow> Ok (lamports, d, program_id))"

definition create_vote_account ::
  "(vote_state_versions \<Rightarrow> bytes \<Rightarrow> (bincode_error, bytes) result) \<Rightarrow> pubkey \<Rightarrow> pubkey \<Rightarrow> pubkey \<Rightarrow>
   u8 \<Rightarrow> u64 \<Rightarrow> (vote_ie, u64 \<times> bytes \<times> pubkey) result" where
  "create_vote_account encode program_id vote_pubkey node_pubkey commission lamports =
     create_account_with_authorized encode program_id node_pubkey vote_pubkey vote_pubkey commission lamports"

end
