(* ===== verification/VoteEffects.thy ===== *)
theory VoteEffects
  imports VoteChecks VoteHandlers
begin

text \<open>
  What the handlers of the vote program do, from the lemmas on the tower, the checks and the
  voter schedule, and the arithmetic of commissions and credits.
\<close>

section \<open>The documented behaviour of the accounts\<close>

text \<open>\<open>acct\<close> names the account at each position of the instruction.\<close>

definition vote_laws :: "'c vote_ops \<Rightarrow> (nat \<Rightarrow> nat) \<Rightarrow> bool" where
  "vote_laws V acct \<longleftrightarrow>
     (\<forall>c i v c'. vo_set_state V c i v = Ok c' \<longrightarrow>
        vo_get_state V c' i = Ok v \<and> vo_lamports V c' = vo_lamports V c) \<and>
     (\<forall>c i n c'. vo_checked_sub_lamports V c i n = Ok c' \<longrightarrow> vo_get_state V c' = vo_get_state V c \<and>
        (\<forall>j. if acct i = acct j then unat (vo_lamports V c j) = unat (vo_lamports V c' j) + unat n
             else vo_lamports V c' j = vo_lamports V c j)) \<and>
     (\<forall>c i n c'. vo_checked_add_lamports V c i n = Ok c' \<longrightarrow> vo_get_state V c' = vo_get_state V c \<and>
        (\<forall>j. if acct i = acct j then unat (vo_lamports V c' j) = unat (vo_lamports V c j) + unat n
             else vo_lamports V c' j = vo_lamports V c j))"

lemma vote_set_stateD:
  assumes "vote_laws V acct" "vo_set_state V c i v = Ok c'"
  shows "vo_get_state V c' i = Ok v" "vo_lamports V c' = vo_lamports V c"
  using assms unfolding vote_laws_def by blast+

lemma vote_sub_lamportsD:
  assumes "vote_laws V acct" "vo_checked_sub_lamports V c i n = Ok c'"
  shows "vo_get_state V c' = vo_get_state V c"
    "acct i = acct j \<Longrightarrow> unat (vo_lamports V c j) = unat (vo_lamports V c' j) + unat n"
    "acct i \<noteq> acct j \<Longrightarrow> vo_lamports V c' j = vo_lamports V c j"
  using assms unfolding vote_laws_def by meson+

lemma vote_add_lamportsD:
  assumes "vote_laws V acct" "vo_checked_add_lamports V c i n = Ok c'"
  shows "vo_get_state V c' = vo_get_state V c"
    "acct i = acct j \<Longrightarrow> unat (vo_lamports V c' j) = unat (vo_lamports V c j) + unat n"
    "acct i \<noteq> acct j \<Longrightarrow> vo_lamports V c' j = vo_lamports V c j"
  using assms unfolding vote_laws_def by meson+

lemma verify_authorized_signer_Ok [simp]:
  "verify_authorized_signer k signers = Ok u \<longleftrightarrow> k \<in> set signers"
  "verify_authorized_signer k signers \<noteq> Panicked"
  by (simp_all add: verify_authorized_signer_def)

section \<open>The authorized voter\<close>

lemma get_and_update_Ok:
  assumes "btree_ok (vs_authorized_voters s)" "get_and_update_authorized_voter e s = Ok (s', k)"
  obtains av where "s' = s\<lparr>vs_authorized_voters := av\<rparr>" "btree_ok av"
    "av_get_authorized_voter (vs_authorized_voters s) e = Some k"
    "\<forall>e' \<ge> e. av_get_authorized_voter av e' = av_get_authorized_voter (vs_authorized_voters s) e'"
proof -
  obtain av1 r where c: "av_get_and_cache (vs_authorized_voters s) e = (av1, r)" by fastforce
  with assms(2) obtain av where r: "r = Some k"
    and av: "(av_purge e av1 :: (vote_ie, _) result) = Ok av" "s' = s\<lparr>vs_authorized_voters := av\<rparr>"
    by (auto simp: get_and_update_authorized_voter_def ok_simps)
  from authorized_voters.cache_purge [OF assms(1) c [unfolded r]] av show thesis by (intro that) auto
qed

lemma get_and_update_total:
  assumes "btree_ok (vs_authorized_voters s)"
  shows "get_and_update_authorized_voter e s \<noteq> Panicked"
proof -
  obtain av1 r where c: "av_get_and_cache (vs_authorized_voters s) e = (av1, r)" by fastforce
  show ?thesis
  proof (cases r)
    case (Some k)
    from authorized_voters.cache_purge [OF assms c [unfolded Some]] Some c show ?thesis
      by (auto simp: get_and_update_authorized_voter_def)
  qed (simp add: get_and_update_authorized_voter_def c)
qed

lemma set_new_authorized_voter_Ok:
  assumes ok: "btree_ok (vs_authorized_voters s)"
    and set: "set_new_authorized_voter k now target verify s = Ok s'"
    and later: "\<forall>x \<in> set (vs_authorized_voters s). fst x \<le> target" "now < target"
  shows "\<exists>cur. av_get_authorized_voter (vs_authorized_voters s) now = Some cur \<and> verify cur = Ok () \<and>
    btree_ok (vs_authorized_voters s') \<and>
    (\<forall>e \<ge> now. av_get_authorized_voter (vs_authorized_voters s') e =
      (if target \<le> e then Some k else av_get_authorized_voter (vs_authorized_voters s) e)) \<and>
    vs_votes s' = vs_votes s \<and> vs_root_slot s' = vs_root_slot s \<and>
    vs_authorized_withdrawer s' = vs_authorized_withdrawer s"
proof -
  let ?av = "vs_authorized_voters s"
  obtain av1 r where c: "av_get_and_cache ?av now = (av1, r)" by fastforce
  from set c obtain cur av2 l j where r: "r = Some cur" and p: "(av_purge now av1 :: (vote_ie, _) result) = Ok av2" "verify cur = Ok ()"
    "\<not> av_contains av2 target" "av_last av2 = Some (l, j)"
    and s': "vs_authorized_voters s' = av_insert target k av2" "vs_votes s' = vs_votes s"
      "vs_root_slot s' = vs_root_slot s" "vs_authorized_withdrawer s' = vs_authorized_withdrawer s"
    by (auto simp: set_new_authorized_voter_def get_and_update_authorized_voter_def ok_simps Let_def split: if_splits)
  note c = c [unfolded r]
  from authorized_voters.cache_purge [OF ok c] p(1) have av2: "btree_ok av2"
    "av_get_authorized_voter ?av now = Some cur" by auto
  have "fst x \<le> target" if "x \<in> set av1" for x
  proof -
    have "x \<in> set ?av \<or> fst x = now"
      using c that set_btree_insert [of now cur ?av]
      by (auto simp: av_get_and_cache_def split: option.splits if_splits)
    with later show ?thesis by auto
  qed
  moreover have "(l, j) \<in> set av1" using p(1,4) last_of_in [of av2] unfolding av_last_def
    by (auto simp: av_purge_eq Let_def split: if_splits)
  ultimately have "l \<le> target" by force
  moreover have "l \<noteq> target"
    using p(3,4) last_of_in [of av2] by (auto simp: av_contains_def av_last_def map_of_eq_None_iff image_iff)
  ultimately have "l < target" by simp
  from authorized_voters.takeover [OF ok c p(1,4) this] av2 p(2) s' show ?thesis
    by (simp add: authorized_voters.put_ok)
qed

section \<open>Commission and credits\<close>

lemma commission_split_sum:
  assumes "commission_split s on = (voter, staker, was_split)"
  shows "let p = min (unat (vs_commission s)) 100 in
    unat voter = unat on * p div 100 \<and> unat staker = unat on * (100 - p) div 100 \<and>
    (was_split \<longleftrightarrow> 0 < p \<and> p < 100)"
proof -
  let ?c = "min (vs_commission s) 100"
  have c: "unat ?c = min (unat (vs_commission s)) 100" by (simp add: min_def word_le_nat_alt)
  have on: "unat on < 2 ^ 64" using unsigned_less [of on] by simp
  show ?thesis
  proof (cases "?c = 0 \<or> ?c = 100")
    case True
    with assms c show ?thesis
      by (auto simp: commission_split_def Let_def unat_eq_0 dest: arg_cong [of _ _ unat])
  next
    case False
    have "?c \<noteq> 0" "?c \<noteq> 100" using False by blast+
    then have "unat ?c \<noteq> 0" "unat ?c \<noteq> 100"
      using word_unat_eq_iff [of ?c 0] word_unat_eq_iff [of ?c 100] by simp_all
    then have p: "0 < unat ?c" "unat ?c < 100" using c by linarith+
    have part: "unat (ucast ((ucast on :: u128) * ucast w div 100) :: u64) = unat on * unat w div 100"
      if "unat w \<le> 100" for w :: u8
    proof -
      have casts: "unat (ucast on :: u128) = unat on" "unat (ucast w :: u128) = unat w"
        by (rule unat_ucast_le, simp)+
      have "unat on * unat w \<le> unat on * 100" using that by simp
      also have "\<dots> < 2 ^ 128" using on by simp
      finally have m: "unat ((ucast on :: u128) * ucast w) = unat on * unat w"
        by (simp add: unat_word_ariths casts)
      have "unat on * unat w div 100 \<le> unat on * 100 div 100" using that by (intro div_le_mono mult_le_mono) simp_all
      then have "unat ((ucast on :: u128) * ucast w div 100) < 2 ^ 64" using on by (simp add: unat_div m)
      then show ?thesis by (simp add: ucast_u64_of_nat unat_div m)
    qed
    have rest: "unat (100 - ?c) = 100 - unat ?c" using p by (simp add: unat_sub word_le_nat_alt)
    from assms False have "voter = ucast ((ucast on :: u128) * ucast ?c div 100)"
      "staker = ucast ((ucast on :: u128) * ucast (100 - ?c) div 100)" "was_split"
      by (auto simp: commission_split_def Let_def)
    with part [of ?c] part [of "100 - ?c"] p rest c show ?thesis by (simp add: Let_def)
  qed
qed

text \<open>Each entry of the history starts from the credits of the one before it.\<close>

definition credits_ok :: "(epoch \<times> u64 \<times> u64) list \<Rightarrow> bool" where
  "credits_ok h \<longleftrightarrow> length h \<le> MAX_EPOCH_CREDITS_HISTORY \<and>
     successively (\<lambda>(_, c, _) (_, _, prev). prev = c) h"

lemma credits_ok_tl: "length h \<le> Suc MAX_EPOCH_CREDITS_HISTORY \<Longrightarrow> h \<noteq> [] \<Longrightarrow>
  successively (\<lambda>(_, c, _) (_, _, prev). prev = c) h \<Longrightarrow> credits_ok (tl h)"
  by (cases h) (auto simp: credits_ok_def successively_Cons)

lemma increment_credits_history:
  assumes "credits_ok (vs_epoch_credits s)"
  shows "credits_ok (vs_epoch_credits (increment_credits e n s)) \<and>
    vs_credits (increment_credits e n s) = vs_credits s + n \<and> current_epoch (increment_credits e n s) = e"
proof -
  let ?R = "\<lambda>(_, c, _) (_, _, prev). prev = (c :: u64)"
  have set_last: "credits_ok (butlast h @ [(e', c', prev)])"
    if "credits_ok h" "h \<noteq> []" "snd (snd (last h)) = prev" for h :: "(epoch \<times> u64 \<times> u64) list" and e' c' prev
  proof -
    from that(2) obtain ys y where "h = ys @ [y]" by (cases h rule: rev_cases) auto
    with that show ?thesis by (auto simp: credits_ok_def successively_append_iff case_prod_unfold)
  qed
  show ?thesis
  proof (cases "vs_epoch_credits s = []")
    case True
    then show ?thesis
      by (simp add: increment_credits_def vs_credits_def current_epoch_def credits_ok_def MAX_EPOCH_CREDITS_HISTORY_def)
  next
    case False
    obtain le c prev where l: "last (vs_epoch_credits s) = (le, c, prev)" by (metis prod_cases3)
    let ?h = "vs_epoch_credits s"
    show ?thesis
    proof (cases "e \<noteq> le \<and> c \<noteq> prev")
      case True
      let ?g = "?h @ [(e, c, c)]"
      let ?k = "if length ?g > MAX_EPOCH_CREDITS_HISTORY then tl ?g else ?g"
      have "successively ?R ?g" using assms l by (auto simp: credits_ok_def successively_append_iff)
      moreover have "length ?g \<le> Suc MAX_EPOCH_CREDITS_HISTORY" using assms by (simp add: credits_ok_def)
      ultimately have k: "credits_ok ?k" using credits_ok_tl [of ?g] by (auto simp: credits_ok_def)
      have lk: "last ?k = (e, c, c)" "?k \<noteq> []" using False by (auto simp: tl_append split: list.split)
      have "vs_epoch_credits (increment_credits e n s) = butlast ?k @ [(e, c + n, c)]"
        using False l True lk by (simp add: increment_credits_def Let_def)
      with set_last [OF k lk(2)] lk l False show ?thesis by (simp add: vs_credits_def current_epoch_def)
    next
      case same: False
      have "vs_epoch_credits (increment_credits e n s) = butlast ?h @ [(e, c + n, prev)]"
        using False l same assms by (auto simp: increment_credits_def Let_def credits_ok_def)
      with set_last [OF assms False] l False show ?thesis by (simp add: vs_credits_def current_epoch_def)
    qed
  qed
qed

section \<open>Handlers\<close>

lemma verify_and_get_Ok:
  assumes "verify_and_get_vote_state V c i clock signers = Ok s"
  obtains versioned k where "vo_get_state V c i = Ok versioned" "\<not> is_uninitialized versioned"
    "get_and_update_authorized_voter (vck_epoch clock) (convert_to_current versioned) = Ok (s, k)" "k \<in> set signers"
  using assms by (auto simp: verify_and_get_vote_state_def ok_simps split: if_splits)

lemma process_vote_state_update_Ok:
  assumes "process_vote_state_update V c i hashes clock u signers active = Ok c'"
  obtains s u' s' where "verify_and_get_vote_state V c i clock signers = Ok s"
    "check_update_vote_state_slots_are_valid s u hashes = Ok u'"
    "process_new_vote_state (vsu_lockouts u') (vsu_root u') (vsu_timestamp u') (vck_epoch clock) (Some active) s = (s', Ok ())"
    "vo_set_state V c i (new_current s') = Ok c'"
proof -
  from assms obtain s u' where s: "verify_and_get_vote_state V c i clock signers = Ok s"
    "check_update_vote_state_slots_are_valid s u hashes = Ok u'"
    and rest: "(let (s, r) = process_new_vote_state (vsu_lockouts u') (vsu_root u') (vsu_timestamp u')
           (vck_epoch clock) (Some active) s in
     try_bind (map_err VIE_Vote r) (\<lambda>_. vo_set_state V c i (new_current s))) = Ok c'"
    by (auto simp: process_vote_state_update_def ok_simps)
  obtain s' r where "process_new_vote_state (vsu_lockouts u') (vsu_root u') (vsu_timestamp u')
      (vck_epoch clock) (Some active) s = (s', r)" by fastforce
  with s rest show thesis by (intro that) (auto simp: ok_simps)
qed

lemma get_and_update_votes:
  "get_and_update_authorized_voter e s = Ok (s', k) \<Longrightarrow> vs_votes s' = vs_votes s \<and> vs_root_slot s' = vs_root_slot s"
  by (auto simp: get_and_update_authorized_voter_def ok_simps split: prod.splits)

lemma vs_process_vote_Ok:
  assumes "vs_process_vote v hashes e features s = Ok s'"
  shows "\<exists>slots. set slots \<subseteq> set (vote_slots v) \<and> slots \<noteq> [] \<and>
    check_slots_are_valid s slots (vote_hash v) hashes = Ok () \<and>
    s' = fold (\<lambda>sl s. process_next_vote_slot sl e s) slots s"
proof -
  let ?earliest = "case last_of hashes of Some (sl, _) \<Rightarrow> sl | None \<Rightarrow> 0"
  let ?slots = "case Option.bind features (\<lambda>active. if active Filter_votes_outside_slot_hashes
      then Some (filter (\<lambda>sl. sl \<ge> ?earliest) (vote_slots v)) else None) of
      Some f \<Rightarrow> f | None \<Rightarrow> vote_slots v"
  have "set ?slots \<subseteq> set (vote_slots v)" by (auto split: option.splits simp: bind_eq_Some_conv if_splits)
  with assms [unfolded vs_process_vote_def Let_def] show ?thesis
    by (intro exI [of _ ?slots]) (simp add: ok_simps split: if_splits)
qed

text \<open>Neither checks nor timestamps panic on a tower that is not empty.\<close>

lemma check_tower_total: "check_tower root p vs \<noteq> Panicked"
  by (induction root p vs rule: check_tower.induct)
    (auto simp: try_bind_def check_vote_def check_consecutive_def split: sum.splits option.splits)

lemma check_no_rollback_total: "check_no_rollback cs vs \<noteq> Panicked"
  by (induction cs vs rule: check_no_rollback.induct) auto

lemma process_new_vote_state_total:
  assumes "new \<noteq> []"
  shows "snd (process_new_vote_state new root ts e fs s) \<noteq> Panicked"
proof -
  have "check_root_rollback root r \<noteq> Panicked" for r
    by (simp add: check_root_rollback_def split: option.split)
  then have "check_new_vote_state s new root \<noteq> Panicked"
    using assms check_tower_total check_no_rollback_total
    by (auto simp: check_new_vote_state_def try_bind_def split: sum.splits prod.splits)
  moreover have "process_timestamp sl t x \<noteq> Panicked" for sl t x
    by (simp add: process_timestamp_def Let_def)
  ultimately show ?thesis
    by (auto simp: process_new_vote_state_def Let_def split: sum.splits option.splits)
qed

end
