(* ===== verification/VoteProperties.thy ===== *)
theory VoteProperties
  imports VoteEffects
begin

text \<open>
  Properties of the vote program, each with a witness at the concrete context \<open>vote_ops0\<close>,
  whose accounts hold a vote state and lamports.
\<close>

section \<open>A concrete context\<close>

definition vote_ops0 :: "(nat \<Rightarrow> vote_state_versions \<times> u64) vote_ops" where
  "vote_ops0 =
     \<lparr>vo_borrow = (\<lambda>_ _. Ok ()), vo_get_state = (\<lambda>c i. Ok (fst (c i))),
      vo_set_state = (\<lambda>c i v. Ok (c(i := (v, snd (c i))))), vo_data_len = (\<lambda>_ _. VOTE_STATE_SIZE),
      vo_lamports = (\<lambda>c i. snd (c i)),
      vo_checked_sub_lamports = (\<lambda>c i n. try_bind (ok_or (checked_sub (snd (c i)) n) VIE_InsufficientFunds)
        (\<lambda>m. Ok (c(i := (fst (c i), m))))),
      vo_checked_add_lamports = (\<lambda>c i n. try_bind (ok_or (checked_add (snd (c i)) n) VIE_GenericError)
        (\<lambda>m. Ok (c(i := (fst (c i), m)))))\<rparr>"

lemma vote_laws_ops0: "vote_laws vote_ops0 id"
  unfolding vote_laws_def by (auto simp: vote_ops0_def ok_simps)

definition vote_init0 :: vote_init where
  "vote_init0 = \<lparr>vi_node_pubkey = 1, vi_authorized_voter = 2, vi_authorized_withdrawer = 3, vi_commission = 10\<rparr>"

text \<open>A state that has voted for slots 4 and 5 in epoch 7.\<close>

definition state0 :: vote_state where "state0 = vote_state_new vote_init0 7"

definition state2 :: vote_state where
  "state2 = state0\<lparr>vs_votes := [\<lparr>lo_slot = 4, lo_confirmation_count = 2\<rparr>, \<lparr>lo_slot = 5, lo_confirmation_count = 1\<rparr>]\<rparr>"

definition ctx2 :: "nat \<Rightarrow> vote_state_versions \<times> u64" where
  "ctx2 i = (Current state2, 100)"

definition clock7 :: vote_clock where "clock7 = \<lparr>vck_epoch = 7, vck_leader_schedule_epoch = 8\<rparr>"

lemmas state0_defs = state2_def state0_def vote_state_new_def vote_state_default_def vote_init0_def av_new_def

lemma tower_ok_state2: "tower_ok state2"
  by (simp add: tower_ok_def votes_ok_def vote_ok_def consecutive_def count_def state0_defs MAX_LOCKOUT_HISTORY_def
      last_locked_out_slot_def lockout_slots_def INITIAL_LOCKOUT_def)

lemma voters_state2: "vs_authorized_voters state2 = [(7, 2)]" "vs_root_slot state2 = None"
  "vs_authorized_withdrawer state2 = 3" "vs_epoch_credits state2 = []"
  "last_voted_slot state2 = Some 5" "last_of (vs_votes state2) = Some \<lparr>lo_slot = 5, lo_confirmation_count = 1\<rparr>"
  by (simp_all add: state0_defs last_voted_slot_def last_lockout_def last_of_def)

section \<open>The tower\<close>

text \<open>C26: voting slot by slot and replacing the tower both keep it well formed: at most 31 votes,
  slots ascending above the root, confirmations between 1 and 31 and descending, and each
  vote within the lockout of the one before it.\<close>

theorem tower_invariant:
  assumes "tower_ok s" "\<forall>sl \<in> set (vote_slots v). unat sl < 2 ^ 63"
  shows "(vs_process_vote v hashes e features s = Ok s' \<longrightarrow> tower_ok s') \<and>
    (process_new_vote_state new root timestamp e features s = (s'', Ok ()) \<longrightarrow> tower_ok s'')"
proof (intro conjI impI)
  assume "vs_process_vote v hashes e features s = Ok s'"
  then obtain slots where "set slots \<subseteq> set (vote_slots v)"
    "s' = fold (\<lambda>sl s. process_next_vote_slot sl e s) slots s"
    using vs_process_vote_Ok by blast
  with assms show "tower_ok s'"
    by (auto simp: slot_bound_def intro!: process_next_vote_slots_tower_ok)
next
  assume "process_new_vote_state new root timestamp e features s = (s'', Ok ())"
  from process_new_vote_state_Ok [OF this] show "tower_ok s''" by (simp add: tower_ok_def)
qed

theorem tower_invariant_witness:
  "\<exists>s'. vs_process_vote \<lparr>vote_slots = [6], vote_hash = 9, vote_timestamp = None\<rparr> [(6, 9)] 7 None state2 = Ok s' \<and>
    tower_ok s' \<and> last_voted_slot s' = Some 6"
proof -
  let ?v = "\<lparr>vote_slots = [6], vote_hash = 9, vote_timestamp = None\<rparr>"
  have "check_slots_are_valid state2 [6] 9 [(6, 9)] = Ok ()"
    by (simp add: check_slots_are_valid_iff voters_state2 newer_def)
  then have p: "vs_process_vote ?v [(6, 9)] 7 None state2 = Ok (process_next_vote_slot 6 7 state2)"
    by (simp add: vs_process_vote_def)
  have "last_voted_slot (process_next_vote_slot 6 7 state2) = Some 6"
    by (simp add: process_next_vote_slot_def voters_state2 pop_expired_votes_def pop_expired_def state0_defs
        is_locked_out_at_slot_def last_locked_out_slot_def lockout_slots_def INITIAL_LOCKOUT_def
        MAX_LOCKOUT_HISTORY_def double_lockouts_def lockout_new_def last_voted_slot_def last_lockout_def last_of_def)
  with p tower_invariant [OF tower_ok_state2, of ?v "[(6, 9)]" 7 None] show ?thesis by simp
qed

text \<open>C27: the tower after a vote, sent as an update of the tower, is accepted and leads to the
  very same state: tower updates refine voting slot by slot.\<close>

theorem vote_equals_update:
  assumes "tower_ok s" "unat sl < 2 ^ 63" "\<forall>v \<in> set (vs_votes s). vs_root_slot s \<noteq> Some (lo_slot v)"
  shows "let s' = process_next_vote_slot sl e s in
    process_new_vote_state (vs_votes s') (vs_root_slot s') None e features s = (s', Ok ())"
  using next_vote_as_update [OF assms(1) _ assms(3) refl] assms(2) by (simp add: slot_bound_def Let_def)

theorem vote_equals_update_witness:
  "let s' = process_next_vote_slot 6 7 state2 in
    process_new_vote_state (vs_votes s') (vs_root_slot s') None 7 None state2 = (s', Ok ())"
  using vote_equals_update [OF tower_ok_state2, of 6 7 None] by (simp add: voters_state2)

text \<open>C28: an accepted tower update never rolls a vote back. Every vote of the old tower is rooted,
  or kept with at least its confirmations, or expired before the vote that replaces it; the
  root does not recede, the tower grows, and its last slot has the hash the update names.\<close>

theorem tower_update_safety:
  assumes "vote_laws V acct" "process_vote_state_update V c i hashes clock u signers active = Ok c'"
    and "vo_get_state V c i = Ok versioned" "s = convert_to_current versioned" "tower_ok s"
  shows "\<exists>s'. vo_get_state V c' i = Ok (Current s') \<and> tower_ok s' \<and>
    (\<forall>v \<in> set (vs_votes s). lo_slot v < lo_slot (last (vs_votes s')) \<and>
      ((\<exists>r. vs_root_slot s' = Some r \<and> lo_slot v \<le> r) \<or>
       (\<exists>v' \<in> set (vs_votes s'). lo_slot v' = lo_slot v \<and> count v \<le> count v' \<or>
          lo_slot v < lo_slot v' \<and> last_locked_out_slot v < lo_slot v'))) \<and>
    (\<forall>r. vs_root_slot s = Some r \<longrightarrow> (\<exists>r'. vs_root_slot s' = Some r' \<and> r \<le> r')) \<and>
    (lo_slot (last (vs_votes s')), vsu_hash u) \<in> set hashes"
  using assms(2)
proof (rule process_vote_state_update_Ok)
  fix s1 u' s' assume v: "verify_and_get_vote_state V c i clock signers = Ok s1"
    and chk: "check_update_vote_state_slots_are_valid s1 u hashes = Ok u'"
    and new: "process_new_vote_state (vsu_lockouts u') (vsu_root u') (vsu_timestamp u')
      (vck_epoch clock) (Some active) s1 = (s', Ok ())"
    and set: "vo_set_state V c i (new_current s') = Ok c'"
  from v assms(3,4) get_and_update_votes have same: "vs_votes s1 = vs_votes s" "vs_root_slot s1 = vs_root_slot s"
    by (auto elim!: verify_and_get_Ok)
  then have ok1: "tower_ok s1" using assms(5) by (simp add: tower_ok_def)
  note acc = process_new_vote_state_Ok [OF new] and upd = check_update_Ok [OF chk]
  have newer: "lo_slot w < lo_slot (last (vs_votes s'))" if w: "w \<in> set (vs_votes s)" for w
  proof -
    have "\<forall>l. last_voted_slot s1 = Some l \<longrightarrow> l < lo_slot (last (vs_votes s'))"
      using upd acc by (auto simp: last_voted_slot_def last_lockout_def)
    with last_voted_slot_max [of "vs_root_slot s1" s1 w] ok1 w same show ?thesis by (simp add: tower_ok_def)
  qed
  have "(\<exists>r. vs_root_slot s' = Some r \<and> lo_slot w \<le> r) \<or>
      (\<exists>v' \<in> set (vs_votes s'). lo_slot v' = lo_slot w \<and> count w \<le> count v' \<or>
        lo_slot w < lo_slot v' \<and> last_locked_out_slot w < lo_slot v')" if w: "w \<in> set (vs_votes s)" for w
    using process_new_vote_state_no_rollback [OF new ok1, of w] w same acc newer [OF w]
      kept_or_expired_cases [of "vs_votes s'" w] by auto
  with newer upd acc same new_current_def vote_set_stateD(1) [OF assms(1) set] show ?thesis
    by (intro exI [of _ s'])
      (auto simp: tower_ok_def check_root_rollback_def new_current_def ok_simps not_less split: option.splits)
qed

text \<open>The update keeps the votes 4 and 5 and adds 6.\<close>

definition update0 :: vote_state_update where
  "update0 = \<lparr>vsu_lockouts = [\<lparr>lo_slot = 4, lo_confirmation_count = 3\<rparr>,
       \<lparr>lo_slot = 5, lo_confirmation_count = 2\<rparr>, \<lparr>lo_slot = 6, lo_confirmation_count = 1\<rparr>],
     vsu_root = None, vsu_hash = 9, vsu_timestamp = None\<rparr>"

definition hashes0 :: "slot_hash list" where "hashes0 = [(6, 9), (5, 8), (4, 8)]"

lemma verify0: "verify_and_get_vote_state vote_ops0 ctx2 0 clock7 [2, 3] = Ok state2"
  by (simp add: verify_and_get_vote_state_def vote_ops0_def ctx2_def voters_state2 av_is_empty_def
      get_and_update_authorized_voter_def clock7_def av_get_and_cache_def av_get_or_calculate_def av_purge_eq)
    (simp add: state0_defs verify_authorized_signer_def)

lemma check_update0: "check_update_vote_state_slots_are_valid state2 update0 hashes0 = Ok update0"
proof -
  let ?ls = "vsu_lockouts update0"
  note run = update0_def hashes0_def match_update_stop
  have "match_update state2 hashes0 4 ?ls None (Suc (Suc 0)) 1 [] = Ok (3, 0, [])"
    by (subst match_update.simps) (simp add: run)
  then have "match_update state2 hashes0 4 ?ls None 1 2 [] = Ok (3, 0, [])"
    by (subst match_update.simps) (simp add: run)
  then have m: "match_update state2 hashes0 4 ?ls None 0 3 [] = Ok (3, 0, [])"
    by (subst match_update.simps) (simp add: run)
  have facts: "?ls \<noteq> []" "hashes0 \<noteq> []" "last hashes0 = (4, 8)" "length hashes0 = 3" "length ?ls = 3"
    "lo_slot (last ?ls) = 6" "vsu_root update0 = None" "vsu_hash update0 = 9" "index hashes0 0 = Ok (6, 9)"
    "retain_from 0 [] ?ls = ?ls"
    by (simp_all add: update0_def hashes0_def index_def)
  have u: "update0\<lparr>vsu_root := None, vsu_lockouts := ?ls\<rparr> = update0" by (simp add: update0_def)
  show ?thesis
    by (subst check_update_eq) (simp_all add: facts voters_state2 checked_root_def m u)
qed

lemma check_new0: "check_new_vote_state state2 (vsu_lockouts update0) None = Ok 1"
proof (rule check_new_vote_state_intro)
  show "votes_ok None (vsu_lockouts update0)"
    by (simp add: update0_def votes_ok_def vote_ok_def consecutive_def count_def MAX_LOCKOUT_HISTORY_def
        last_locked_out_slot_def lockout_slots_def INITIAL_LOCKOUT_def)
  show "skip_rooted None (vs_votes state2) 1 = (vs_votes state2, 1)" by (simp add: state0_defs)
  show "\<forall>c \<in> set (vs_votes state2). kept_or_expired (vsu_lockouts update0) c"
    by (simp add: state0_defs update0_def kept_or_expired_def count_def)
qed (simp_all add: update0_def tower_ok_state2 voters_state2 check_root_rollback_def)

lemma epoch7: "vck_epoch clock7 = 7" by (simp add: clock7_def)

lemma process_update0: "process_vote_state_update vote_ops0 ctx2 0 hashes0 clock7 update0 [2, 3] (\<lambda>_. True) =
  Ok (ctx2(0 := (Current (state2\<lparr>vs_votes := vsu_lockouts update0\<rparr>), 100)))"
proof -
  have "process_new_vote_state (vsu_lockouts update0) None None 7 (Some (\<lambda>_. True)) state2 =
      (state2\<lparr>vs_votes := vsu_lockouts update0\<rparr>, Ok ())"
    using process_new_same_root [of state2 "vsu_lockouts update0" 1] check_new0 by (simp add: voters_state2)
  moreover have "vsu_root update0 = None" "vsu_timestamp update0 = None" by (simp_all add: update0_def)
  ultimately show ?thesis
    by (simp add: process_vote_state_update_def verify0 check_update0 epoch7)
      (simp add: vote_ops0_def new_current_def ctx2_def)
qed

theorem tower_update_safety_witness:
  "\<exists>s'. fst ((ctx2(0 := (Current (state2\<lparr>vs_votes := vsu_lockouts update0\<rparr>), 100))) 0) = Current s' \<and>
    (lo_slot (last (vs_votes s')), 9) \<in> set hashes0"
proof -
  have "vo_get_state vote_ops0 ctx2 0 = Ok (Current state2)" by (simp add: vote_ops0_def ctx2_def)
  from tower_update_safety [OF vote_laws_ops0 process_update0 this _ tower_ok_state2] show ?thesis
    by (auto simp: vote_ops0_def update0_def)
qed

section \<open>The checks\<close>

text \<open>A vote with ascending slots is accepted exactly when its slots newer than the last vote
  are not none, occur in the slot hashes in that order, and its hash is the one of the last.\<close>

theorem vote_slots_checked:
  assumes "sorted slots" "distinct (map fst hashes)"
  shows "check_slots_are_valid s slots h hashes = Ok () \<longleftrightarrow>
    (let new = filter (\<lambda>sl. case last_voted_slot s of None \<Rightarrow> True | Some l \<Rightarrow> l < sl) slots in
     new \<noteq> [] \<and> subseq new (rev (map fst hashes)) \<and> map_of hashes (last new) = Some h)"
  using check_slots_are_valid_iff [OF assms] unfolding newer_def .

theorem vote_slots_checked_witness:
  "check_slots_are_valid state2 [5, 6, 8] 3 [(8, 3), (7, 1), (6, 9), (5, 8)] = Ok () \<and>
   check_slots_are_valid state2 [5, 6, 8] 9 [(8, 3), (7, 1), (6, 9), (5, 8)] \<noteq> Ok ()"
  using vote_slots_checked [of "[5, 6, 8]" "[(8, 3), (7, 1), (6, 9), (5, 8)]" state2]
  by (simp add: voters_state2)

text \<open>C29: a tower update never panics, whatever the update and the slot hashes: the assertions on
  the root and on the end of the loop hold, the filtered tower is not empty, and the map of
  authorized voters is not emptied.\<close>

theorem tower_update_total:
  assumes "\<And>versioned. vo_get_state V c i = Ok versioned \<Longrightarrow> btree_ok (vs_authorized_voters (convert_to_current versioned))"
    and "vo_get_state V c i \<noteq> Panicked" "\<And>v. vo_set_state V c i v \<noteq> Panicked"
  shows "process_vote_state_update V c i hashes clock u signers active \<noteq> Panicked"
proof -
  have panic: "try_bind m f = Panicked \<longleftrightarrow> m = Panicked \<or> (\<exists>x. m = Ok x \<and> f x = Panicked)"
    for m :: "(vote_ie, 'x) result" and f :: "'x \<Rightarrow> (vote_ie, 'y) result"
    by (cases m) auto
  have err: "map_err VIE_Vote m = Panicked \<longleftrightarrow> m = Panicked" for m :: "(vote_error, 'x) result"
    by (auto simp: map_err_def split: sum.splits fault.splits)
  have get: "verify_and_get_vote_state V c i clock signers \<noteq> Panicked"
    using assms(1,2) get_and_update_total by (auto simp: verify_and_get_vote_state_def panic)
  have new: "(let (s, r) = process_new_vote_state (vsu_lockouts u') root t e f s in
      try_bind (map_err VIE_Vote r) (\<lambda>_. vo_set_state V c i (new_current s))) \<noteq> Panicked"
    if "check_update_vote_state_slots_are_valid s u hashes = Ok u'" for s u' root t e f
  proof -
    obtain s' r where p: "process_new_vote_state (vsu_lockouts u') root t e f s = (s', r)" by fastforce
    have "vsu_lockouts u' \<noteq> []" using check_update_Ok [OF that] by blast
    from process_new_vote_state_total [OF this] p have "r \<noteq> Panicked" by (metis snd_conv)
    with assms(3) show ?thesis by (simp add: p panic err)
  qed
  show ?thesis
    unfolding process_vote_state_update_def
    by (simp add: panic err get check_update_total ok_simps) (use new [unfolded Let_def] in blast)
qed

theorem tower_update_total_witness:
  "process_vote_state_update vote_ops0 ctx2 0 [(1, 2)] clock7 update0 [2] (\<lambda>_. False) \<noteq> Panicked"
  by (rule tower_update_total) (auto simp: vote_ops0_def ctx2_def voters_state2)

section \<open>Authorities and lamports\<close>

text \<open>C30: changing the voter needs the signature of the current epoch's voter, or of the withdrawer
  once the feature is active; the new voter votes from the epoch after the leader schedule's on,
  nobody's right to vote before that changes, and the tower is kept.\<close>

theorem authorize_takeover:
  assumes "vote_laws V acct" "vote_authorize V c i k VA_Voter signers clock active = Ok c'"
    and "vo_get_state V c i = Ok versioned" "s = convert_to_current versioned"
    and "btree_ok (vs_authorized_voters s)" "target = vck_leader_schedule_epoch clock + 1"
    and "\<forall>x \<in> set (vs_authorized_voters s). fst x \<le> target" "vck_epoch clock < target"
  shows "\<exists>s' cur. vo_get_state V c' i = Ok (Current s') \<and>
    av_get_authorized_voter (vs_authorized_voters s) (vck_epoch clock) = Some cur \<and>
    (cur \<in> set signers \<or> active Vote_withdraw_authority_may_change_authorized_voter \<and>
       vs_authorized_withdrawer s \<in> set signers) \<and>
    (\<forall>e \<ge> vck_epoch clock. av_get_authorized_voter (vs_authorized_voters s') e =
       (if target \<le> e then Some k else av_get_authorized_voter (vs_authorized_voters s) e)) \<and>
    btree_ok (vs_authorized_voters s') \<and> vs_votes s' = vs_votes s \<and> vs_root_slot s' = vs_root_slot s \<and>
    vs_authorized_withdrawer s' = vs_authorized_withdrawer s"
proof -
  let ?w = "active Vote_withdraw_authority_may_change_authorized_voter \<and> vs_authorized_withdrawer s \<in> set signers"
  from assms(2,3) obtain b s' where
    b: "(if active Vote_withdraw_authority_may_change_authorized_voter
        then is_ok (verify_authorized_signer (vs_authorized_withdrawer s) signers) else Ok False) =
        (Ok b :: (vote_ie, bool) result)"
    and set: "set_new_authorized_voter k (vck_epoch clock) target
      (\<lambda>cur. if b then Ok () else verify_authorized_signer cur signers) s = Ok s'"
    and store: "vo_set_state V c i (new_current s') = Ok c'"
    unfolding assms(4,6) by (auto simp: vote_authorize_def Let_def ok_simps)
  from b have "b \<Longrightarrow> ?w" by (auto simp: is_ok_def verify_authorized_signer_def split: if_splits)
  with set_new_authorized_voter_Ok [OF assms(5) set assms(7,8)]
    vote_set_stateD(1) [OF assms(1) store] show ?thesis
    by (auto simp: new_current_def split: if_splits)
qed

definition voted0 :: "nat \<Rightarrow> vote_state_versions \<times> u64" where
  "voted0 = ctx2(0 := (Current (state2\<lparr>vs_authorized_voters := [(7, 2), (9, 5)],
     vs_prior_voters := circ_buf_append (2, 0, 9) (vs_prior_voters state2)\<rparr>), 100))"

lemma authorize0: "vote_authorize vote_ops0 ctx2 0 5 VA_Voter [2] clock7 (\<lambda>_. False) = Ok voted0"
  by (simp add: vote_authorize_def vote_ops0_def ctx2_def clock7_def set_new_authorized_voter_def Let_def
      get_and_update_authorized_voter_def voters_state2 av_get_and_cache_def av_get_or_calculate_def av_purge_eq
      verify_authorized_signer_def av_contains_def av_last_def av_insert_def voted0_def new_current_def
      last_of_Cons cong: if_cong)
    (simp add: state0_defs circ_buf_last_def circ_buf_default_def)

theorem authorize_takeover_witness:
  "av_get_authorized_voter [(7, 2), (9, 5)] 8 = Some 2 \<and> av_get_authorized_voter [(7, 2), (9, 5)] 9 = Some 5"
proof -
  have "vo_get_state vote_ops0 ctx2 0 = Ok (Current state2)" by (simp add: vote_ops0_def ctx2_def)
  from authorize_takeover [OF vote_laws_ops0 authorize0 this refl _ refl] show ?thesis
    by (auto simp: vote_ops0_def voted0_def voters_state2 clock7_def av_get_authorized_voter_eq)
qed

text \<open>C31: a withdrawal is signed by the withdrawer and moves exactly the lamports asked for, which the
  account has. What remains is nothing, in an account that took no part in the last epoch and is
  reset to the default state, or at least the rent of the account, whose state is kept.\<close>

theorem vote_withdraw_effect:
  assumes "vote_laws V acct" "vote_withdraw V c i n to signers rent clock = Ok c'" "acct i \<noteq> acct to"
    and "vo_get_state V c i = Ok versioned" "s = convert_to_current versioned"
  shows "vs_authorized_withdrawer s \<in> set signers \<and>
    unat (vo_lamports V c i) = unat (vo_lamports V c' i) + unat n \<and>
    unat (vo_lamports V c' to) = unat (vo_lamports V c to) + unat n \<and>
    (if vo_lamports V c' i = 0
     then vo_get_state V c' i = Ok (Current vote_state_default) \<and>
       (\<forall>clk e x. clock = Some clk \<longrightarrow> last_of (vs_epoch_credits s) = Some (e, x) \<longrightarrow> 
         unat e + 2 \<le> unat (vck_epoch clk))
     else vo_get_state V c' i = Ok versioned \<and>
       (\<forall>r. rent = Some r \<longrightarrow> r (vo_data_len V c i) \<le> vo_lamports V c' i))"
proof -
  from assms(2,4) obtain rest c1 c2 where signed: "vs_authorized_withdrawer s \<in> set signers"
    and rest: "checked_sub (vo_lamports V c i) n = Some rest"
    and c1: "(if rest = 0 then
          if (case (clock, last_of (vs_epoch_credits s)) of
                (Some clk, Some (e, _, _)) \<Rightarrow> saturating_sub (vck_epoch clk) e < 2 | _ \<Rightarrow> False)
          then Fail VIE_InvalidAccountData else vo_set_state V c i (new_current vote_state_default)
        else case rent of Some r \<Rightarrow> if rest < r (vo_data_len V c i) then Fail VIE_InsufficientFunds else Ok c
        | None \<Rightarrow> Ok c) = Ok c1"
    and c2: "vo_checked_sub_lamports V c1 i n = Ok c2" "vo_checked_add_lamports V c2 to n = Ok c'"
    unfolding assms(5) vote_withdraw_def Let_def by (auto simp: ok_simps simp del: checked_sub_Some)
  note sub = vote_sub_lamportsD [OF assms(1) c2(1)] and add = vote_add_lamportsD [OF assms(1) c2(2)]
  have state: "vo_get_state V c' = vo_get_state V c1" using sub(1) add(1) by simp
  have c1_lamports: "vo_lamports V c1 = vo_lamports V c"
    using c1 vote_set_stateD(2) [OF assms(1)] by (auto split: if_splits option.splits)
  have i: "unat (vo_lamports V c i) = unat (vo_lamports V c' i) + unat n"
    using sub(2) [of i] add(3) [of i] assms(3) c1_lamports by simp
  have to: "unat (vo_lamports V c' to) = unat (vo_lamports V c to) + unat n"
    using sub(3) [of to] add(2) [of to] assms(3) c1_lamports by simp
  have "unat rest = unat (vo_lamports V c' i)" using rest i by (simp add: ok_simps)
  then have rest: "rest = vo_lamports V c' i" by (simp add: word_unat_eq_iff)
  show ?thesis
  proof (cases "rest = 0")
    case True
    with c1 have "vo_set_state V c i (new_current vote_state_default) = Ok c1"
      and old: "\<forall>clk e x. clock = Some clk \<longrightarrow> last_of (vs_epoch_credits s) = Some (e, x) \<longrightarrow>
        \<not> saturating_sub (vck_epoch clk) e < 2"
      by (auto split: if_splits option.splits prod.splits)
    moreover have "unat e + 2 \<le> unat t" if "\<not> saturating_sub t e < 2" for t e :: epoch
      using that unat_saturating_sub [of t e] by (simp add: word_less_nat_alt)
    ultimately show ?thesis using vote_set_stateD(1) [OF assms(1)] signed i to state True rest
      by (auto simp: new_current_def)
  next
    case False
    with c1 have "c1 = c" "\<forall>r. rent = Some r \<longrightarrow> r (vo_data_len V c i) \<le> rest"
      by (auto split: if_splits option.splits)
    with False rest signed i to state assms(4) show ?thesis by simp
  qed
qed

lemma withdraw0: "vote_withdraw vote_ops0 ctx2 0 100 1 [3] None (Some clock7) =
  Ok (ctx2(0 := (Current vote_state_default, 0), 1 := (Current state2, 200)))"
  by (simp add: vote_withdraw_def vote_ops0_def ctx2_def voters_state2 Let_def verify_authorized_signer_def
      checked_sub_def checked_add_def new_current_def fun_upd_twist)

theorem vote_withdraw_effect_witness:
  "100 = unat (snd ((ctx2(0 := (Current vote_state_default, 0), 1 := (Current state2, 200))) 0)) + 100 \<and>
   fst ((ctx2(0 := (Current vote_state_default, 0), 1 := (Current state2, 200))) 0) = Current vote_state_default"
proof -
  have "vo_get_state vote_ops0 ctx2 0 = Ok (Current state2)" by (simp add: vote_ops0_def ctx2_def)
  from vote_withdraw_effect [OF vote_laws_ops0 withdraw0 _ this] show ?thesis
    by (simp add: vote_ops0_def ctx2_def)
qed

section \<open>Commission and credits\<close>

text \<open>The voter's part of a reward is its commission, capped at all of it and rounded down, the
  stakers' part the remainder, rounded down too; together they miss at most one lamport.\<close>

theorem commission_split_parts:
  "case commission_split s on of (voter, staker, was_split) \<Rightarrow>
     unat voter = unat on * min (unat (vs_commission s)) 100 div 100 \<and>
     unat voter + unat staker \<le> unat on \<and> unat on \<le> unat voter + unat staker + 1 \<and>
     (was_split \<longleftrightarrow> vs_commission s \<noteq> 0 \<and> vs_commission s < 100)"
proof -
  obtain voter staker was_split where c: "commission_split s on = (voter, staker, was_split)"
    by (metis prod_cases3)
  let ?p = "min (unat (vs_commission s)) 100"
  have "unat on * ?p + unat on * (100 - ?p) = 100 * unat on" by (simp flip: distrib_left)
  then have "unat on * ?p div 100 + unat on * (100 - ?p) div 100 \<le> unat on"
    "unat on \<le> unat on * ?p div 100 + unat on * (100 - ?p) div 100 + 1" by linarith+
  moreover have "vs_commission s \<noteq> 0 \<longleftrightarrow> 0 < unat (vs_commission s)"
    "vs_commission s < 100 \<longleftrightarrow> unat (vs_commission s) < 100"
    by (simp_all add: unat_gt_0 word_less_nat_alt)
  ultimately show ?thesis using commission_split_sum [OF c] unfolding c Let_def
    by (simp add: min_less_iff_disj)
qed

text \<open>However epochs and votes interleave, the history keeps at most 64 epochs, each starting from
  the credits the one before it ended with, and the credits are the sum of those earned.\<close>

theorem credits_history:
  assumes "credits_ok (vs_epoch_credits s)"
  shows "let s' = fold (\<lambda>(e, n). increment_credits e n) earned s in
    credits_ok (vs_epoch_credits s') \<and> vs_credits s' = vs_credits s + sum_list (map snd earned)"
  using assms
proof (induction earned arbitrary: s)
  case (Cons x earned)
  obtain e n where x: "x = (e, n)" by force
  with increment_credits_history [OF Cons.prems, of e n] Cons.IH [of "increment_credits e n s"]
  show ?case by (simp add: Let_def add.assoc)
qed simp

theorem credits_history_witness:
  "vs_credits (fold (\<lambda>(e, n). increment_credits e n) [(7, 3), (7, 1), (9, 5)] state2) = 9"
proof -
  have "credits_ok (vs_epoch_credits state2)" by (simp add: voters_state2 credits_ok_def)
  from credits_history [OF this, of "[(7, 3), (7, 1), (9, 5)]"] show ?thesis
    by (simp add: Let_def vs_credits_def [of state2] voters_state2)
qed

end
