(* ===== verification/Instructions.thy ===== *)
theory Instructions
  imports Prelude
begin

text \<open>
  The SDK's \<open>Instruction\<close> and \<open>AccountMeta\<close>, which clients build and the runtime turns
  into the account infos of a program, and the ids of the SDK's sysvars and programs, which
  are parameters. Pushing an authority and the signers of a multisig is a step that the
  builders share.
\<close>

record account_meta =
  am_pubkey :: pubkey
  am_is_signer :: bool
  am_is_writable :: bool

definition meta_new :: "pubkey \<Rightarrow> bool \<Rightarrow> account_meta" where
  "meta_new k signer = \<lparr>am_pubkey = k, am_is_signer = signer, am_is_writable = True\<rparr>"

definition meta_readonly :: "pubkey \<Rightarrow> bool \<Rightarrow> account_meta" where
  "meta_readonly k signer = \<lparr>am_pubkey = k, am_is_signer = signer, am_is_writable = False\<rparr>"

record instruction =
  in_program_id :: pubkey
  in_accounts :: "account_meta list"
  in_data :: bytes

record sdk_ids =
  sid_rent :: pubkey
  sid_clock :: pubkey
  sid_slot_hashes :: pubkey
  sid_system_program :: pubkey

text \<open>The authority signs itself, unless it is a multisig whose signers are given.\<close>

definition authority_metas :: "pubkey \<Rightarrow> pubkey list \<Rightarrow> account_meta list" where
  "authority_metas authority signers =
     meta_readonly authority (signers = []) # map (\<lambda>k. meta_readonly k True) signers"

text \<open>The signed and the writable accounts of a built instruction.\<close>

definition signed_keys :: "instruction \<Rightarrow> pubkey set" where
  "signed_keys ix = set (map am_pubkey (filter am_is_signer (in_accounts ix)))"

definition written_keys :: "instruction \<Rightarrow> pubkey set" where
  "written_keys ix = set (map am_pubkey (filter am_is_writable (in_accounts ix)))"

lemma meta_fields [simp]:
  "am_pubkey (meta_new k s) = k" "am_is_signer (meta_new k s) = s" "am_is_writable (meta_new k s)"
  "am_pubkey (meta_readonly k s) = k" "am_is_signer (meta_readonly k s) = s" "\<not> am_is_writable (meta_readonly k s)"
  by (simp_all add: meta_new_def meta_readonly_def)

lemma authority_metas_keys [simp]: "map am_pubkey (authority_metas a signers) = a # signers"
  by (simp add: authority_metas_def comp_def)

lemma length_authority_metas [simp]: "length (authority_metas a signers) = Suc (length signers)"
  by (simp add: authority_metas_def)

end
