(* ===== verification/TokenBuilders.thy ===== *)
theory TokenBuilders
  imports TokenProcess Instructions
begin

text \<open>
  The client side of the token program: the functions that build its instructions
  (\<open>instruction.rs\<close>, \<open>extension/transfer_fee/instruction.rs\<close>,
  \<open>default_account_state/instruction.rs\<close>, \<open>memo_transfer/instruction.rs\<close>,
  \<open>interest_bearing_mint/instruction.rs\<close>), prefixed with \<open>ix_\<close>.
\<close>

section \<open>Base instructions\<close>

definition ix_initialize_mint ::
  "sdk_ids \<Rightarrow> pubkey \<Rightarrow> pubkey \<Rightarrow> pubkey \<Rightarrow> pubkey option \<Rightarrow> u8 \<Rightarrow>
   (program_error, instruction) result" where
  "ix_initialize_mint ids program_id mint_key authority freeze d =
     try_bind (check_spl_token_program_account program_id) (\<lambda>_.
     Ok \<lparr>in_program_id = program_id,
       in_accounts = [meta_new mint_key False, meta_readonly (sid_rent ids) False],
       in_data = token_instruction_pack (TI_InitializeMint d authority freeze)\<rparr>)"

definition ix_initialize_mint2 ::
  "pubkey \<Rightarrow> pubkey \<Rightarrow> pubkey \<Rightarrow> pubkey option \<Rightarrow> u8 \<Rightarrow>
   (program_error, instruction) result" where
  "ix_initialize_mint2 program_id mint_key authority freeze d =
     try_bind (check_spl_token_program_account program_id) (\<lambda>_.
     Ok \<lparr>in_program_id = program_id,
       in_accounts = [meta_new mint_key False],
       in_data = token_instruction_pack (TI_InitializeMint2 d authority freeze)\<rparr>)"

definition ix_initialize_account ::
  "sdk_ids \<Rightarrow> pubkey \<Rightarrow> pubkey \<Rightarrow> pubkey \<Rightarrow> pubkey \<Rightarrow>
   (program_error, instruction) result" where
  "ix_initialize_account ids program_id account mint_key owner =
     try_bind (check_spl_token_program_account program_id) (\<lambda>_.
     Ok \<lparr>in_program_id = program_id,
       in_accounts = [meta_new account False, meta_readonly mint_key False, meta_readonly owner False,
         meta_readonly (sid_rent ids) False],
       in_data = token_instruction_pack TI_InitializeAccount\<rparr>)"

definition ix_initialize_account2 ::
  "sdk_ids \<Rightarrow> pubkey \<Rightarrow> pubkey \<Rightarrow> pubkey \<Rightarrow> pubkey \<Rightarrow>
   (program_error, instruction) result" where
  "ix_initialize_account2 ids program_id account mint_key owner =
     try_bind (check_spl_token_program_account program_id) (\<lambda>_.
     Ok \<lparr>in_program_id = program_id,
       in_accounts = [meta_new account False, meta_readonly mint_key False, meta_readonly (sid_rent ids) False],
       in_data = token_instruction_pack (TI_InitializeAccount2 owner)\<rparr>)"

definition ix_initialize_account3 ::
  "pubkey \<Rightarrow> pubkey \<Rightarrow> pubkey \<Rightarrow> pubkey \<Rightarrow>
   (program_error, instruction) result" where
  "ix_initialize_account3 program_id account mint_key owner =
     try_bind (check_spl_token_program_account program_id) (\<lambda>_.
     Ok \<lparr>in_program_id = program_id,
       in_accounts = [meta_new account False, meta_readonly mint_key False],
       in_data = token_instruction_pack (TI_InitializeAccount3 owner)\<rparr>)"

definition ix_initialize_multisig ::
  "sdk_ids \<Rightarrow> pubkey \<Rightarrow> pubkey \<Rightarrow> pubkey list \<Rightarrow> u8 \<Rightarrow>
   (program_error, instruction) result" where
  "ix_initialize_multisig ids program_id multisig_key signers m =
     try_bind (check_spl_token_program_account program_id) (\<lambda>_.
     if \<not> is_valid_signer_index (unat m) \<or> \<not> is_valid_signer_index (length signers) \<or> unat m > length signers
     then Fail PE_MissingRequiredSignature
     else Ok \<lparr>in_program_id = program_id,
       in_accounts = meta_new multisig_key False # meta_readonly (sid_rent ids) False #
         map (\<lambda>k. meta_readonly k False) signers,
       in_data = token_instruction_pack (TI_InitializeMultisig m)\<rparr>)"

definition ix_initialize_multisig2 ::
  "pubkey \<Rightarrow> pubkey \<Rightarrow> pubkey list \<Rightarrow> u8 \<Rightarrow>
   (program_error, instruction) result" where
  "ix_initialize_multisig2 program_id multisig_key signers m =
     try_bind (check_spl_token_program_account program_id) (\<lambda>_.
     if \<not> is_valid_signer_index (unat m) \<or> \<not> is_valid_signer_index (length signers) \<or> unat m > length signers
     then Fail PE_MissingRequiredSignature
     else Ok \<lparr>in_program_id = program_id,
       in_accounts = meta_new multisig_key False # map (\<lambda>k. meta_readonly k False) signers,
       in_data = token_instruction_pack (TI_InitializeMultisig2 m)\<rparr>)"

definition ix_transfer ::
  "pubkey \<Rightarrow> pubkey \<Rightarrow> pubkey \<Rightarrow> pubkey \<Rightarrow> pubkey list \<Rightarrow> u64 \<Rightarrow>
   (program_error, instruction) result" where
  "ix_transfer program_id source destination authority signers amt =
     try_bind (check_spl_token_program_account program_id) (\<lambda>_.
     Ok \<lparr>in_program_id = program_id,
       in_accounts = meta_new source False # meta_new destination False #
         authority_metas authority signers,
       in_data = token_instruction_pack (TI_Transfer amt)\<rparr>)"

definition ix_approve ::
  "pubkey \<Rightarrow> pubkey \<Rightarrow> pubkey \<Rightarrow> pubkey \<Rightarrow> pubkey list \<Rightarrow> u64 \<Rightarrow>
   (program_error, instruction) result" where
  "ix_approve program_id source delegate_key authority signers amt =
     try_bind (check_spl_token_program_account program_id) (\<lambda>_.
     Ok \<lparr>in_program_id = program_id,
       in_accounts = meta_new source False # meta_readonly delegate_key False #
         authority_metas authority signers,
       in_data = token_instruction_pack (TI_Approve amt)\<rparr>)"

definition ix_revoke ::
  "pubkey \<Rightarrow> pubkey \<Rightarrow> pubkey \<Rightarrow> pubkey list \<Rightarrow>
   (program_error, instruction) result" where
  "ix_revoke program_id source authority signers =
     try_bind (check_spl_token_program_account program_id) (\<lambda>_.
     Ok \<lparr>in_program_id = program_id,
       in_accounts = meta_new source False # authority_metas authority signers,
       in_data = token_instruction_pack TI_Revoke\<rparr>)"

definition ix_set_authority ::
  "pubkey \<Rightarrow> pubkey \<Rightarrow> pubkey option \<Rightarrow> authority_type \<Rightarrow> pubkey \<Rightarrow> pubkey list \<Rightarrow>
   (program_error, instruction) result" where
  "ix_set_authority program_id owned new_authority which authority signers =
     try_bind (check_spl_token_program_account program_id) (\<lambda>_.
     Ok \<lparr>in_program_id = program_id,
       in_accounts = meta_new owned False # authority_metas authority signers,
       in_data = token_instruction_pack (TI_SetAuthority which new_authority)\<rparr>)"

definition ix_mint_to ::
  "pubkey \<Rightarrow> pubkey \<Rightarrow> pubkey \<Rightarrow> pubkey \<Rightarrow> pubkey list \<Rightarrow> u64 \<Rightarrow>
   (program_error, instruction) result" where
  "ix_mint_to program_id mint_key account authority signers amt =
     try_bind (check_spl_token_program_account program_id) (\<lambda>_.
     Ok \<lparr>in_program_id = program_id,
       in_accounts = meta_new mint_key False # meta_new account False #
         authority_metas authority signers,
       in_data = token_instruction_pack (TI_MintTo amt)\<rparr>)"

definition ix_burn ::
  "pubkey \<Rightarrow> pubkey \<Rightarrow> pubkey \<Rightarrow> pubkey \<Rightarrow> pubkey list \<Rightarrow> u64 \<Rightarrow>
   (program_error, instruction) result" where
  "ix_burn program_id account mint_key authority signers amt =
     try_bind (check_spl_token_program_account program_id) (\<lambda>_.
     Ok \<lparr>in_program_id = program_id,
       in_accounts = meta_new account False # meta_new mint_key False #
         authority_metas authority signers,
       in_data = token_instruction_pack (TI_Burn amt)\<rparr>)"

definition ix_close_account ::
  "pubkey \<Rightarrow> pubkey \<Rightarrow> pubkey \<Rightarrow> pubkey \<Rightarrow> pubkey list \<Rightarrow>
   (program_error, instruction) result" where
  "ix_close_account program_id account destination authority signers =
     try_bind (check_spl_token_program_account program_id) (\<lambda>_.
     Ok \<lparr>in_program_id = program_id,
       in_accounts = meta_new account False # meta_new destination False #
         authority_metas authority signers,
       in_data = token_instruction_pack TI_CloseAccount\<rparr>)"

definition ix_freeze_account ::
  "pubkey \<Rightarrow> pubkey \<Rightarrow> pubkey \<Rightarrow> pubkey \<Rightarrow> pubkey list \<Rightarrow>
   (program_error, instruction) result" where
  "ix_freeze_account program_id account mint_key authority signers =
     try_bind (check_spl_token_program_account program_id) (\<lambda>_.
     Ok \<lparr>in_program_id = program_id,
       in_accounts = meta_new account False # meta_readonly mint_key False #
         authority_metas authority signers,
       in_data = token_instruction_pack TI_FreezeAccount\<rparr>)"

definition ix_thaw_account ::
  "pubkey \<Rightarrow> pubkey \<Rightarrow> pubkey \<Rightarrow> pubkey \<Rightarrow> pubkey list \<Rightarrow>
   (program_error, instruction) result" where
  "ix_thaw_account program_id account mint_key authority signers =
     try_bind (check_spl_token_program_account program_id) (\<lambda>_.
     Ok \<lparr>in_program_id = program_id,
       in_accounts = meta_new account False # meta_readonly mint_key False #
         authority_metas authority signers,
       in_data = token_instruction_pack TI_ThawAccount\<rparr>)"

definition ix_transfer_checked ::
  "pubkey \<Rightarrow> pubkey \<Rightarrow> pubkey \<Rightarrow> pubkey \<Rightarrow> pubkey \<Rightarrow> pubkey list \<Rightarrow> u64 \<Rightarrow> u8 \<Rightarrow>
   (program_error, instruction) result" where
  "ix_transfer_checked program_id source mint_key destination authority signers amt d =
     try_bind (check_spl_token_program_account program_id) (\<lambda>_.
     Ok \<lparr>in_program_id = program_id,
       in_accounts = meta_new source False # meta_readonly mint_key False # meta_new destination False #
         authority_metas authority signers,
       in_data = token_instruction_pack (TI_TransferChecked amt d)\<rparr>)"

definition ix_approve_checked ::
  "pubkey \<Rightarrow> pubkey \<Rightarrow> pubkey \<Rightarrow> pubkey \<Rightarrow> pubkey \<Rightarrow> pubkey list \<Rightarrow> u64 \<Rightarrow> u8 \<Rightarrow>
   (program_error, instruction) result" where
  "ix_approve_checked program_id source mint_key delegate_key authority signers amt d =
     try_bind (check_spl_token_program_account program_id) (\<lambda>_.
     Ok \<lparr>in_program_id = program_id,
       in_accounts = meta_new source False # meta_readonly mint_key False # meta_readonly delegate_key False #
         authority_metas authority signers,
       in_data = token_instruction_pack (TI_ApproveChecked amt d)\<rparr>)"

definition ix_mint_to_checked ::
  "pubkey \<Rightarrow> pubkey \<Rightarrow> pubkey \<Rightarrow> pubkey \<Rightarrow> pubkey list \<Rightarrow> u64 \<Rightarrow> u8 \<Rightarrow>
   (program_error, instruction) result" where
  "ix_mint_to_checked program_id mint_key account authority signers amt d =
     try_bind (check_spl_token_program_account program_id) (\<lambda>_.
     Ok \<lparr>in_program_id = program_id,
       in_accounts = meta_new mint_key False # meta_new account False #
         authority_metas authority signers,
       in_data = token_instruction_pack (TI_MintToChecked amt d)\<rparr>)"

definition ix_burn_checked ::
  "pubkey \<Rightarrow> pubkey \<Rightarrow> pubkey \<Rightarrow> pubkey \<Rightarrow> pubkey list \<Rightarrow> u64 \<Rightarrow> u8 \<Rightarrow>
   (program_error, instruction) result" where
  "ix_burn_checked program_id account mint_key authority signers amt d =
     try_bind (check_spl_token_program_account program_id) (\<lambda>_.
     Ok \<lparr>in_program_id = program_id,
       in_accounts = meta_new account False # meta_new mint_key False #
         authority_metas authority signers,
       in_data = token_instruction_pack (TI_BurnChecked amt d)\<rparr>)"

definition ix_sync_native ::
  "pubkey \<Rightarrow> pubkey \<Rightarrow>
   (program_error, instruction) result" where
  "ix_sync_native program_id account =
     try_bind (check_spl_token_program_account program_id) (\<lambda>_.
     Ok \<lparr>in_program_id = program_id,
       in_accounts = [meta_new account False],
       in_data = token_instruction_pack TI_SyncNative\<rparr>)"

definition ix_get_account_data_size ::
  "pubkey \<Rightarrow> pubkey \<Rightarrow> extension_type list \<Rightarrow>
   (program_error, instruction) result" where
  "ix_get_account_data_size program_id mint_key extension_types =
     try_bind (check_spl_token_program_account program_id) (\<lambda>_.
     Ok \<lparr>in_program_id = program_id,
       in_accounts = [meta_readonly mint_key False],
       in_data = token_instruction_pack (TI_GetAccountDataSize extension_types)\<rparr>)"

definition ix_initialize_mint_close_authority ::
  "pubkey \<Rightarrow> pubkey \<Rightarrow> pubkey option \<Rightarrow>
   (program_error, instruction) result" where
  "ix_initialize_mint_close_authority program_id mint_key close_key =
     try_bind (check_program_account program_id) (\<lambda>_.
     Ok \<lparr>in_program_id = program_id,
       in_accounts = [meta_new mint_key False],
       in_data = token_instruction_pack (TI_InitializeMintCloseAuthority close_key)\<rparr>)"

definition ix_initialize_immutable_owner ::
  "pubkey \<Rightarrow> pubkey \<Rightarrow>
   (program_error, instruction) result" where
  "ix_initialize_immutable_owner program_id account =
     try_bind (check_spl_token_program_account program_id) (\<lambda>_.
     Ok \<lparr>in_program_id = program_id,
       in_accounts = [meta_new account False],
       in_data = token_instruction_pack TI_InitializeImmutableOwner\<rparr>)"

definition ix_amount_to_ui_amount ::
  "pubkey \<Rightarrow> pubkey \<Rightarrow> u64 \<Rightarrow>
   (program_error, instruction) result" where
  "ix_amount_to_ui_amount program_id mint_key amt =
     try_bind (check_spl_token_program_account program_id) (\<lambda>_.
     Ok \<lparr>in_program_id = program_id,
       in_accounts = [meta_readonly mint_key False],
       in_data = token_instruction_pack (TI_AmountToUiAmount amt)\<rparr>)"

definition ix_ui_amount_to_amount ::
  "pubkey \<Rightarrow> pubkey \<Rightarrow> bytes \<Rightarrow>
   (program_error, instruction) result" where
  "ix_ui_amount_to_amount program_id mint_key ui_amount =
     try_bind (check_spl_token_program_account program_id) (\<lambda>_.
     Ok \<lparr>in_program_id = program_id,
       in_accounts = [meta_readonly mint_key False],
       in_data = token_instruction_pack (TI_UiAmountToAmount ui_amount)\<rparr>)"

definition ix_reallocate ::
  "sdk_ids \<Rightarrow> pubkey \<Rightarrow> pubkey \<Rightarrow> pubkey \<Rightarrow> pubkey \<Rightarrow> pubkey list \<Rightarrow> extension_type list \<Rightarrow>
   (program_error, instruction) result" where
  "ix_reallocate ids program_id account payer authority signers extension_types =
     try_bind (check_program_account program_id) (\<lambda>_.
     Ok \<lparr>in_program_id = program_id,
       in_accounts = meta_new account False # meta_new payer True # meta_readonly (sid_system_program ids) False #
         authority_metas authority signers,
       in_data = token_instruction_pack (TI_Reallocate extension_types)\<rparr>)"

definition ix_create_native_mint ::
  "sdk_ids \<Rightarrow> pubkey \<Rightarrow> pubkey \<Rightarrow>
   (program_error, instruction) result" where
  "ix_create_native_mint ids program_id payer =
     try_bind (check_program_account program_id) (\<lambda>_.
     Ok \<lparr>in_program_id = program_id,
       in_accounts = [meta_new payer True, meta_new native_mint_id False, meta_readonly (sid_system_program ids) False],
       in_data = token_instruction_pack TI_CreateNativeMint\<rparr>)"

definition ix_initialize_non_transferable_mint ::
  "pubkey \<Rightarrow> pubkey \<Rightarrow>
   (program_error, instruction) result" where
  "ix_initialize_non_transferable_mint program_id mint_key =
     try_bind (check_program_account program_id) (\<lambda>_.
     Ok \<lparr>in_program_id = program_id,
       in_accounts = [meta_new mint_key False],
       in_data = token_instruction_pack TI_InitializeNonTransferableMint\<rparr>)"

section \<open>Transfer fees\<close>

definition ix_initialize_transfer_fee_config ::
  "pubkey \<Rightarrow> pubkey \<Rightarrow> pubkey option \<Rightarrow> pubkey option \<Rightarrow> u16 \<Rightarrow> u64 \<Rightarrow>
   (program_error, instruction) result" where
  "ix_initialize_transfer_fee_config program_id mint_key config_authority withdraw_authority basis_points max_fee =
     try_bind (check_program_account program_id) (\<lambda>_.
     Ok \<lparr>in_program_id = program_id,
       in_accounts = [meta_new mint_key False],
       in_data = token_instruction_pack (TI_TransferFeeExtension
         (TFI_InitializeTransferFeeConfig config_authority withdraw_authority basis_points max_fee))\<rparr>)"

definition ix_transfer_checked_with_fee ::
  "pubkey \<Rightarrow> pubkey \<Rightarrow> pubkey \<Rightarrow> pubkey \<Rightarrow> pubkey \<Rightarrow> pubkey list \<Rightarrow> u64 \<Rightarrow> u8 \<Rightarrow> u64 \<Rightarrow>
   (program_error, instruction) result" where
  "ix_transfer_checked_with_fee program_id source mint_key destination authority signers amt d fee =
     try_bind (check_program_account program_id) (\<lambda>_.
     Ok \<lparr>in_program_id = program_id,
       in_accounts = meta_new source False # meta_readonly mint_key False # meta_new destination False #
         authority_metas authority signers,
       in_data = token_instruction_pack (TI_TransferFeeExtension
         (TFI_TransferCheckedWithFee amt d fee))\<rparr>)"

definition ix_withdraw_withheld_tokens_from_mint ::
  "pubkey \<Rightarrow> pubkey \<Rightarrow> pubkey \<Rightarrow> pubkey \<Rightarrow> pubkey list \<Rightarrow>
   (program_error, instruction) result" where
  "ix_withdraw_withheld_tokens_from_mint program_id mint_key destination authority signers =
     try_bind (check_program_account program_id) (\<lambda>_.
     Ok \<lparr>in_program_id = program_id,
       in_accounts = meta_new mint_key False # meta_new destination False #
         authority_metas authority signers,
       in_data = token_instruction_pack (TI_TransferFeeExtension
         TFI_WithdrawWithheldTokensFromMint)\<rparr>)"

definition ix_withdraw_withheld_tokens_from_accounts ::
  "pubkey \<Rightarrow> pubkey \<Rightarrow> pubkey \<Rightarrow> pubkey \<Rightarrow> pubkey list \<Rightarrow> pubkey list \<Rightarrow>
   (program_error, instruction) result" where
  "ix_withdraw_withheld_tokens_from_accounts program_id mint_key destination authority signers sources =
     try_bind (check_program_account program_id) (\<lambda>_.
     try_bind (if length sources < 256 then Ok (word_of_nat (length sources))
       else Fail PE_InvalidInstructionData) (\<lambda>num_token_accounts.
     Ok \<lparr>in_program_id = program_id,
       in_accounts = meta_readonly mint_key False # meta_new destination False #
         authority_metas authority signers @
         map (\<lambda>k. meta_new k False) sources,
       in_data = token_instruction_pack (TI_TransferFeeExtension
         (TFI_WithdrawWithheldTokensFromAccounts num_token_accounts))\<rparr>))"

definition ix_harvest_withheld_tokens_to_mint ::
  "pubkey \<Rightarrow> pubkey \<Rightarrow> pubkey list \<Rightarrow>
   (program_error, instruction) result" where
  "ix_harvest_withheld_tokens_to_mint program_id mint_key sources =
     try_bind (check_program_account program_id) (\<lambda>_.
     Ok \<lparr>in_program_id = program_id,
       in_accounts = meta_new mint_key False # map (\<lambda>k. meta_new k False) sources,
       in_data = token_instruction_pack (TI_TransferFeeExtension TFI_HarvestWithheldTokensToMint)\<rparr>)"

definition ix_set_transfer_fee ::
  "pubkey \<Rightarrow> pubkey \<Rightarrow> pubkey \<Rightarrow> pubkey list \<Rightarrow> u16 \<Rightarrow> u64 \<Rightarrow>
   (program_error, instruction) result" where
  "ix_set_transfer_fee program_id mint_key authority signers basis_points max_fee =
     try_bind (check_program_account program_id) (\<lambda>_.
     Ok \<lparr>in_program_id = program_id,
       in_accounts = meta_new mint_key False # authority_metas authority signers,
       in_data = token_instruction_pack (TI_TransferFeeExtension
         (TFI_SetTransferFee basis_points max_fee))\<rparr>)"

section \<open>Other extensions\<close>

definition default_account_state_encode ::
  "pubkey \<Rightarrow> account_meta list \<Rightarrow> default_account_state_instruction \<Rightarrow> account_state \<Rightarrow> instruction" where
  "default_account_state_encode program_id metas i s =
     \<lparr>in_program_id = program_id, in_accounts = metas,
      in_data = token_instruction_pack TI_DefaultAccountStateExtension @
        [case i of DAS_Initialize \<Rightarrow> 0 | DAS_Update \<Rightarrow> 1] @ [account_state_to_u8 s]\<rparr>"

definition ix_initialize_default_account_state ::
  "pubkey \<Rightarrow> pubkey \<Rightarrow> account_state \<Rightarrow> (program_error, instruction) result" where
  "ix_initialize_default_account_state program_id mint_key s =
     try_bind (check_program_account program_id) (\<lambda>_.
     Ok (default_account_state_encode program_id [meta_new mint_key False] DAS_Initialize s))"

definition ix_update_default_account_state ::
  "pubkey \<Rightarrow> pubkey \<Rightarrow> pubkey \<Rightarrow> pubkey list \<Rightarrow> account_state \<Rightarrow> (program_error, instruction) result" where
  "ix_update_default_account_state program_id mint_key authority signers s =
     try_bind (check_program_account program_id) (\<lambda>_.
     Ok (default_account_state_encode program_id (meta_new mint_key False # authority_metas authority signers)
       DAS_Update s))"

definition ix_enable_required_transfer_memos ::
  "pubkey \<Rightarrow> pubkey \<Rightarrow> pubkey \<Rightarrow> pubkey list \<Rightarrow>
   (program_error, instruction) result" where
  "ix_enable_required_transfer_memos program_id account authority signers =
     try_bind (check_program_account program_id) (\<lambda>_.
     Ok \<lparr>in_program_id = program_id,
       in_accounts = meta_new account False # authority_metas authority signers,
       in_data = encode_instruction_bytes TI_MemoTransferExtension 0 pod_unit ()\<rparr>)"

definition ix_disable_required_transfer_memos ::
  "pubkey \<Rightarrow> pubkey \<Rightarrow> pubkey \<Rightarrow> pubkey list \<Rightarrow>
   (program_error, instruction) result" where
  "ix_disable_required_transfer_memos program_id account authority signers =
     try_bind (check_program_account program_id) (\<lambda>_.
     Ok \<lparr>in_program_id = program_id,
       in_accounts = meta_new account False # authority_metas authority signers,
       in_data = encode_instruction_bytes TI_MemoTransferExtension 1 pod_unit ()\<rparr>)"

definition ix_interest_initialize ::
  "pubkey \<Rightarrow> pubkey \<Rightarrow> pubkey option \<Rightarrow> i16 \<Rightarrow>
   (program_error, instruction) result" where
  "ix_interest_initialize program_id mint_key rate_key rate =
     try_bind (check_program_account program_id) (\<lambda>_.
     try_bind (optional_key_try_from rate_key) (\<lambda>a.
     Ok \<lparr>in_program_id = program_id,
       in_accounts = [meta_new mint_key False],
       in_data = encode_instruction_bytes TI_InterestBearingMintExtension 0 interest_initialize_data_pod
         \<lparr>iid_rate_authority = a, iid_rate = rate\<rparr>\<rparr>))"

definition ix_interest_update_rate ::
  "pubkey \<Rightarrow> pubkey \<Rightarrow> pubkey \<Rightarrow> pubkey list \<Rightarrow> i16 \<Rightarrow>
   (program_error, instruction) result" where
  "ix_interest_update_rate program_id mint_key authority signers rate =
     try_bind (check_program_account program_id) (\<lambda>_.
     Ok \<lparr>in_program_id = program_id,
       in_accounts = meta_new mint_key False # authority_metas authority signers,
       in_data = encode_instruction_bytes TI_InterestBearingMintExtension 1 pod_u16 rate\<rparr>)"

end
