(* ===== verification/SplToken.thy ===== *)
theory SplToken
  imports TokenBuilders
begin

text \<open>
  The client module of the token program's first version (\<open>spl_token/mod.rs\<close>,
  \<open>error.rs\<close>, \<open>instruction.rs\<close>): its instructions, their encoding and their builders, all
  prefixed with \<open>v1\<close> or \<open>ix1\<close>. Token-2022 promises to understand them; the lemmas relate
  each definition to its successor. \<open>split_at\<close> panics past the end of a slice.
\<close>

section \<open>Errors and ids\<close>

datatype v1_token_error =
    TE1_NotRentExempt | TE1_InsufficientFunds | TE1_InvalidMint | TE1_MintMismatch
  | TE1_OwnerMismatch | TE1_FixedSupply | TE1_AlreadyInUse | TE1_InvalidNumberOfProvidedSigners
  | TE1_InvalidNumberOfRequiredSigners | TE1_UninitializedState | TE1_NativeNotSupported | TE1_NonNativeHasBalance
  | TE1_InvalidInstruction | TE1_InvalidState | TE1_Overflow | TE1_AuthorityTypeNotSupported
  | TE1_MintCannotFreeze | TE1_AccountFrozen | TE1_MintDecimalsMismatch | TE1_NonNativeNotSupported

fun v1_token_error_code :: "v1_token_error \<Rightarrow> u32" where
  "v1_token_error_code TE1_NotRentExempt = 0"
| "v1_token_error_code TE1_InsufficientFunds = 1"
| "v1_token_error_code TE1_InvalidMint = 2"
| "v1_token_error_code TE1_MintMismatch = 3"
| "v1_token_error_code TE1_OwnerMismatch = 4"
| "v1_token_error_code TE1_FixedSupply = 5"
| "v1_token_error_code TE1_AlreadyInUse = 6"
| "v1_token_error_code TE1_InvalidNumberOfProvidedSigners = 7"
| "v1_token_error_code TE1_InvalidNumberOfRequiredSigners = 8"
| "v1_token_error_code TE1_UninitializedState = 9"
| "v1_token_error_code TE1_NativeNotSupported = 10"
| "v1_token_error_code TE1_NonNativeHasBalance = 11"
| "v1_token_error_code TE1_InvalidInstruction = 12"
| "v1_token_error_code TE1_InvalidState = 13"
| "v1_token_error_code TE1_Overflow = 14"
| "v1_token_error_code TE1_AuthorityTypeNotSupported = 15"
| "v1_token_error_code TE1_MintCannotFreeze = 16"
| "v1_token_error_code TE1_AccountFrozen = 17"
| "v1_token_error_code TE1_MintDecimalsMismatch = 18"
| "v1_token_error_code TE1_NonNativeNotSupported = 19"

definition v1_into_program_error :: "v1_token_error \<Rightarrow> program_error" where
  "v1_into_program_error e = PE_Custom (v1_token_error_code e)"

abbreviation V1Err :: "v1_token_error \<Rightarrow> (program_error, 'a) result" where
  "V1Err e \<equiv> Fail (v1_into_program_error e)"

definition v1_check_program_account :: "pubkey \<Rightarrow> (program_error, unit) result" where
  "v1_check_program_account p = (if p \<noteq> spl_token_id then Fail PE_IncorrectProgramId else Ok ())"

definition v1_is_valid_signer_index :: "nat \<Rightarrow> bool" where
  "v1_is_valid_signer_index i \<longleftrightarrow> 1 \<le> i \<and> i \<le> 11"

section \<open>Instructions\<close>

datatype v1_authority_type = AUTH1_MintTokens | AUTH1_FreezeAccount | AUTH1_AccountOwner | AUTH1_CloseAccount

fun v1_authority_into :: "v1_authority_type \<Rightarrow> u8" where
  "v1_authority_into AUTH1_MintTokens = 0"
| "v1_authority_into AUTH1_FreezeAccount = 1"
| "v1_authority_into AUTH1_AccountOwner = 2"
| "v1_authority_into AUTH1_CloseAccount = 3"

definition v1_authority_from :: "u8 \<Rightarrow> (program_error, v1_authority_type) result" where
  "v1_authority_from i =
     (if i = 0 then Ok AUTH1_MintTokens else if i = 1 then Ok AUTH1_FreezeAccount
      else if i = 2 then Ok AUTH1_AccountOwner else if i = 3 then Ok AUTH1_CloseAccount
      else V1Err TE1_InvalidInstruction)"

datatype v1_instruction =
    V1_InitializeMint u8 pubkey "pubkey option"
  | V1_InitializeAccount
  | V1_InitializeMultisig u8
  | V1_Transfer u64
  | V1_Approve u64
  | V1_Revoke
  | V1_SetAuthority v1_authority_type "pubkey option"
  | V1_MintTo u64
  | V1_Burn u64
  | V1_CloseAccount
  | V1_FreezeAccount
  | V1_ThawAccount
  | V1_TransferChecked u64 u8
  | V1_ApproveChecked u64 u8
  | V1_MintToChecked u64 u8
  | V1_BurnChecked u64 u8
  | V1_InitializeAccount2 pubkey
  | V1_SyncNative
  | V1_InitializeAccount3 pubkey
  | V1_InitializeMultisig2 u8
  | V1_InitializeMint2 u8 pubkey "pubkey option"
  | V1_GetAccountDataSize
  | V1_InitializeImmutableOwner
  | V1_AmountToUiAmount u64
  | V1_UiAmountToAmount bytes

section \<open>Encoding\<close>

definition v1_split_first :: "bytes \<Rightarrow> (program_error, byte \<times> bytes) result" where
  "v1_split_first input = (case input of [] \<Rightarrow> V1Err TE1_InvalidInstruction | b # rest \<Rightarrow> Ok (b, rest))"

definition v1_unpack_pubkey :: "bytes \<Rightarrow> (program_error, pubkey \<times> bytes) result" where
  "v1_unpack_pubkey input =
     (if length input \<ge> 32 then Ok (from_le_bytes (take 32 input), drop 32 input)
      else V1Err TE1_InvalidInstruction)"

definition v1_unpack_pubkey_option :: "bytes \<Rightarrow> (program_error, pubkey option \<times> bytes) result" where
  "v1_unpack_pubkey_option input = (case input of
      [] \<Rightarrow> V1Err TE1_InvalidInstruction
    | b # rest \<Rightarrow>
        if b = 0 then Ok (None, rest)
        else if b = 1 \<and> length rest \<ge> 32 then Ok (Some (from_le_bytes (take 32 rest)), drop 32 rest)
        else V1Err TE1_InvalidInstruction)"

definition v1_pack_pubkey_option :: "pubkey option \<Rightarrow> bytes" where
  "v1_pack_pubkey_option v = (case v of Some key \<Rightarrow> 1 # to_le_bytes key | None \<Rightarrow> [0])"

text \<open>The amount that the checked instructions read with \<open>rest.split_at(8)\<close>.\<close>

definition v1_split_amount :: "bytes \<Rightarrow> (program_error, u64 \<times> bytes) result" where
  "v1_split_amount rest =
     (if 8 \<le> length rest then Ok (from_le_bytes (take 8 rest), drop 8 rest) else Panicked)"

definition v1_amount_decimals :: "bytes \<Rightarrow> (program_error, u64 \<times> u8) result" where
  "v1_amount_decimals rest =
     try_bind (v1_split_amount rest) (\<lambda>(amt, rest).
     try_bind (v1_split_first rest) (\<lambda>(d, _). Ok (amt, d)))"

definition v1_instruction_unpack :: "bytes \<Rightarrow> (program_error, v1_instruction) result" where
  "v1_instruction_unpack input =
     try_bind (v1_split_first input) (\<lambda>(tag, rest).
     if tag = 0 then
       try_bind (v1_split_first rest) (\<lambda>(d, rest).
       try_bind (v1_unpack_pubkey rest) (\<lambda>(authority, rest).
       try_bind (v1_unpack_pubkey_option rest) (\<lambda>(freeze, _). Ok (V1_InitializeMint d authority freeze))))
     else if tag = 1 then Ok V1_InitializeAccount
     else if tag = 2 then try_bind (v1_split_first rest) (\<lambda>(m, _). Ok (V1_InitializeMultisig m))
     else if tag = 3 \<or> tag = 4 \<or> tag = 7 \<or> tag = 8 then
       (if length rest < 8 then V1Err TE1_InvalidInstruction
        else
          let amt = from_le_bytes (take 8 rest) in
          if tag = 3 then Ok (V1_Transfer amt)
          else if tag = 4 then Ok (V1_Approve amt)
          else if tag = 7 then Ok (V1_MintTo amt)
          else Ok (V1_Burn amt))
     else if tag = 5 then Ok V1_Revoke
     else if tag = 6 then
       try_bind (v1_split_first rest) (\<lambda>(t, rest).
       try_bind (v1_authority_from t) (\<lambda>t.
       try_bind (v1_unpack_pubkey_option rest) (\<lambda>(new_authority, _). Ok (V1_SetAuthority t new_authority))))
     else if tag = 9 then Ok V1_CloseAccount
     else if tag = 10 then Ok V1_FreezeAccount
     else if tag = 11 then Ok V1_ThawAccount
     else if tag = 12 then try_bind (v1_amount_decimals rest) (\<lambda>(amt, d). Ok (V1_TransferChecked amt d))
     else if tag = 13 then try_bind (v1_amount_decimals rest) (\<lambda>(amt, d). Ok (V1_ApproveChecked amt d))
     else if tag = 14 then try_bind (v1_amount_decimals rest) (\<lambda>(amt, d). Ok (V1_MintToChecked amt d))
     else if tag = 15 then try_bind (v1_amount_decimals rest) (\<lambda>(amt, d). Ok (V1_BurnChecked amt d))
     else if tag = 16 then try_bind (v1_unpack_pubkey rest) (\<lambda>(owner, _). Ok (V1_InitializeAccount2 owner))
     else if tag = 17 then Ok V1_SyncNative
     else if tag = 18 then try_bind (v1_unpack_pubkey rest) (\<lambda>(owner, _). Ok (V1_InitializeAccount3 owner))
     else if tag = 19 then try_bind (v1_split_first rest) (\<lambda>(m, _). Ok (V1_InitializeMultisig2 m))
     else if tag = 20 then
       try_bind (v1_split_first rest) (\<lambda>(d, rest).
       try_bind (v1_unpack_pubkey rest) (\<lambda>(authority, rest).
       try_bind (v1_unpack_pubkey_option rest) (\<lambda>(freeze, _). Ok (V1_InitializeMint2 d authority freeze))))
     else if tag = 21 then Ok V1_GetAccountDataSize
     else if tag = 22 then Ok V1_InitializeImmutableOwner
     else if tag = 23 then try_bind (v1_split_amount rest) (\<lambda>(amt, _). Ok (V1_AmountToUiAmount amt))
     else if tag = 24 then
       (if utf8_valid rest then Ok (V1_UiAmountToAmount rest) else V1Err TE1_InvalidInstruction)
     else V1Err TE1_InvalidInstruction)"

definition v1_instruction_pack :: "v1_instruction \<Rightarrow> bytes" where
  "v1_instruction_pack i = (case i of
      V1_InitializeMint d authority freeze \<Rightarrow> 0 # d # to_le_bytes authority @ v1_pack_pubkey_option freeze
    | V1_InitializeAccount \<Rightarrow> [1]
    | V1_InitializeMultisig m \<Rightarrow> [2, m]
    | V1_Transfer amt \<Rightarrow> 3 # to_le_bytes amt
    | V1_Approve amt \<Rightarrow> 4 # to_le_bytes amt
    | V1_MintTo amt \<Rightarrow> 7 # to_le_bytes amt
    | V1_Burn amt \<Rightarrow> 8 # to_le_bytes amt
    | V1_Revoke \<Rightarrow> [5]
    | V1_SetAuthority t new_authority \<Rightarrow> 6 # v1_authority_into t # v1_pack_pubkey_option new_authority
    | V1_CloseAccount \<Rightarrow> [9]
    | V1_FreezeAccount \<Rightarrow> [10]
    | V1_ThawAccount \<Rightarrow> [11]
    | V1_TransferChecked amt d \<Rightarrow> 12 # to_le_bytes amt @ [d]
    | V1_ApproveChecked amt d \<Rightarrow> 13 # to_le_bytes amt @ [d]
    | V1_MintToChecked amt d \<Rightarrow> 14 # to_le_bytes amt @ [d]
    | V1_BurnChecked amt d \<Rightarrow> 15 # to_le_bytes amt @ [d]
    | V1_InitializeAccount2 owner \<Rightarrow> 16 # to_le_bytes owner
    | V1_SyncNative \<Rightarrow> [17]
    | V1_InitializeAccount3 owner \<Rightarrow> 18 # to_le_bytes owner
    | V1_InitializeMultisig2 m \<Rightarrow> [19, m]
    | V1_InitializeMint2 d authority freeze \<Rightarrow> 20 # d # to_le_bytes authority @ v1_pack_pubkey_option freeze
    | V1_GetAccountDataSize \<Rightarrow> [21]
    | V1_InitializeImmutableOwner \<Rightarrow> [22]
    | V1_AmountToUiAmount amt \<Rightarrow> 23 # to_le_bytes amt
    | V1_UiAmountToAmount ui_amount \<Rightarrow> 24 # ui_amount)"

section \<open>Builders\<close>

definition ix1_initialize_mint ::
  "sdk_ids \<Rightarrow> pubkey \<Rightarrow> pubkey \<Rightarrow> pubkey \<Rightarrow> pubkey option \<Rightarrow> u8 \<Rightarrow>
   (program_error, instruction) result" where
  "ix1_initialize_mint ids program_id mint_key authority freeze d =
     try_bind (v1_check_program_account program_id) (\<lambda>_.
     Ok \<lparr>in_program_id = program_id,
       in_accounts = [meta_new mint_key False, meta_readonly (sid_rent ids) False],
       in_data = v1_instruction_pack (V1_InitializeMint d authority freeze)\<rparr>)"

definition ix1_initialize_mint2 ::
  "pubkey \<Rightarrow> pubkey \<Rightarrow> pubkey \<Rightarrow> pubkey option \<Rightarrow> u8 \<Rightarrow>
   (program_error, instruction) result" where
  "ix1_initialize_mint2 program_id mint_key authority freeze d =
     try_bind (v1_check_program_account program_id) (\<lambda>_.
     Ok \<lparr>in_program_id = program_id,
       in_accounts = [meta_new mint_key False],
       in_data = v1_instruction_pack (V1_InitializeMint2 d authority freeze)\<rparr>)"

definition ix1_initialize_account ::
  "sdk_ids \<Rightarrow> pubkey \<Rightarrow> pubkey \<Rightarrow> pubkey \<Rightarrow> pubkey \<Rightarrow>
   (program_error, instruction) result" where
  "ix1_initialize_account ids program_id account mint_key owner =
     try_bind (v1_check_program_account program_id) (\<lambda>_.
     Ok \<lparr>in_program_id = program_id,
       in_accounts = [meta_new account False, meta_readonly mint_key False, meta_readonly owner False,
         meta_readonly (sid_rent ids) False],
       in_data = v1_instruction_pack V1_InitializeAccount\<rparr>)"

definition ix1_initialize_account2 ::
  "sdk_ids \<Rightarrow> pubkey \<Rightarrow> pubkey \<Rightarrow> pubkey \<Rightarrow> pubkey \<Rightarrow>
   (program_error, instruction) result" where
  "ix1_initialize_account2 ids program_id account mint_key owner =
     try_bind (v1_check_program_account program_id) (\<lambda>_.
     Ok \<lparr>in_program_id = program_id,
       in_accounts = [meta_new account False, meta_readonly mint_key False, meta_readonly (sid_rent ids) False],
       in_data = v1_instruction_pack (V1_InitializeAccount2 owner)\<rparr>)"

definition ix1_initialize_account3 ::
  "pubkey \<Rightarrow> pubkey \<Rightarrow> pubkey \<Rightarrow> pubkey \<Rightarrow>
   (program_error, instruction) result" where
  "ix1_initialize_account3 program_id account mint_key owner =
     try_bind (v1_check_program_account program_id) (\<lambda>_.
     Ok \<lparr>in_program_id = program_id,
       in_accounts = [meta_new account False, meta_readonly mint_key False],
       in_data = v1_instruction_pack (V1_InitializeAccount3 owner)\<rparr>)"

definition ix1_initialize_multisig ::
  "sdk_ids \<Rightarrow> pubkey \<Rightarrow> pubkey \<Rightarrow> pubkey list \<Rightarrow> u8 \<Rightarrow>
   (program_error, instruction) result" where
  "ix1_initialize_multisig ids program_id multisig_key signers m =
     try_bind (v1_check_program_account program_id) (\<lambda>_.
     if \<not> v1_is_valid_signer_index (unat m) \<or> \<not> v1_is_valid_signer_index (length signers) \<or> unat m > length signers
     then Fail PE_MissingRequiredSignature
     else Ok \<lparr>in_program_id = program_id,
       in_accounts = meta_new multisig_key False # meta_readonly (sid_rent ids) False #
         map (\<lambda>k. meta_readonly k False) signers,
       in_data = v1_instruction_pack (V1_InitializeMultisig m)\<rparr>)"

definition ix1_initialize_multisig2 ::
  "pubkey \<Rightarrow> pubkey \<Rightarrow> pubkey list \<Rightarrow> u8 \<Rightarrow>
   (program_error, instruction) result" where
  "ix1_initialize_multisig2 program_id multisig_key signers m =
     try_bind (v1_check_program_account program_id) (\<lambda>_.
     if \<not> v1_is_valid_signer_index (unat m) \<or> \<not> v1_is_valid_signer_index (length signers) \<or> unat m > length signers
     then Fail PE_MissingRequiredSignature
     else Ok \<lparr>in_program_id = program_id,
       in_accounts = meta_new multisig_key False # map (\<lambda>k. meta_readonly k False) signers,
       in_data = v1_instruction_pack (V1_InitializeMultisig2 m)\<rparr>)"

definition ix1_transfer ::
  "pubkey \<Rightarrow> pubkey \<Rightarrow> pubkey \<Rightarrow> pubkey \<Rightarrow> pubkey list \<Rightarrow> u64 \<Rightarrow>
   (program_error, instruction) result" where
  "ix1_transfer program_id source destination authority signers amt =
     try_bind (v1_check_program_account program_id) (\<lambda>_.
     Ok \<lparr>in_program_id = program_id,
       in_accounts = meta_new source False # meta_new destination False #
         authority_metas authority signers,
       in_data = v1_instruction_pack (V1_Transfer amt)\<rparr>)"

definition ix1_approve ::
  "pubkey \<Rightarrow> pubkey \<Rightarrow> pubkey \<Rightarrow> pubkey \<Rightarrow> pubkey list \<Rightarrow> u64 \<Rightarrow>
   (program_error, instruction) result" where
  "ix1_approve program_id source delegate_key authority signers amt =
     try_bind (v1_check_program_account program_id) (\<lambda>_.
     Ok \<lparr>in_program_id = program_id,
       in_accounts = meta_new source False # meta_readonly delegate_key False #
         authority_metas authority signers,
       in_data = v1_instruction_pack (V1_Approve amt)\<rparr>)"

definition ix1_revoke ::
  "pubkey \<Rightarrow> pubkey \<Rightarrow> pubkey \<Rightarrow> pubkey list \<Rightarrow>
   (program_error, instruction) result" where
  "ix1_revoke program_id source authority signers =
     try_bind (v1_check_program_account program_id) (\<lambda>_.
     Ok \<lparr>in_program_id = program_id,
       in_accounts = meta_new source False # authority_metas authority signers,
       in_data = v1_instruction_pack V1_Revoke\<rparr>)"

definition ix1_set_authority ::
  "pubkey \<Rightarrow> pubkey \<Rightarrow> pubkey option \<Rightarrow> v1_authority_type \<Rightarrow> pubkey \<Rightarrow> pubkey list \<Rightarrow>
   (program_error, instruction) result" where
  "ix1_set_authority program_id owned new_authority which authority signers =
     try_bind (v1_check_program_account program_id) (\<lambda>_.
     Ok \<lparr>in_program_id = program_id,
       in_accounts = meta_new owned False # authority_metas authority signers,
       in_data = v1_instruction_pack (V1_SetAuthority which new_authority)\<rparr>)"

definition ix1_mint_to ::
  "pubkey \<Rightarrow> pubkey \<Rightarrow> pubkey \<Rightarrow> pubkey \<Rightarrow> pubkey list \<Rightarrow> u64 \<Rightarrow>
   (program_error, instruction) result" where
  "ix1_mint_to program_id mint_key account authority signers amt =
     try_bind (v1_check_program_account program_id) (\<lambda>_.
     Ok \<lparr>in_program_id = program_id,
       in_accounts = meta_new mint_key False # meta_new account False #
         authority_metas authority signers,
       in_data = v1_instruction_pack (V1_MintTo amt)\<rparr>)"

definition ix1_burn ::
  "pubkey \<Rightarrow> pubkey \<Rightarrow> pubkey \<Rightarrow> pubkey \<Rightarrow> pubkey list \<Rightarrow> u64 \<Rightarrow>
   (program_error, instruction) result" where
  "ix1_burn program_id account mint_key authority signers amt =
     try_bind (v1_check_program_account program_id) (\<lambda>_.
     Ok \<lparr>in_program_id = program_id,
       in_accounts = meta_new account False # meta_new mint_key False #
         authority_metas authority signers,
       in_data = v1_instruction_pack (V1_Burn amt)\<rparr>)"

definition ix1_close_account ::
  "pubkey \<Rightarrow> pubkey \<Rightarrow> pubkey \<Rightarrow> pubkey \<Rightarrow> pubkey list \<Rightarrow>
   (program_error, instruction) result" where
  "ix1_close_account program_id account destination authority signers =
     try_bind (v1_check_program_account program_id) (\<lambda>_.
     Ok \<lparr>in_program_id = program_id,
       in_accounts = meta_new account False # meta_new destination False #
         authority_metas authority signers,
       in_data = v1_instruction_pack V1_CloseAccount\<rparr>)"

definition ix1_freeze_account ::
  "pubkey \<Rightarrow> pubkey \<Rightarrow> pubkey \<Rightarrow> pubkey \<Rightarrow> pubkey list \<Rightarrow>
   (program_error, instruction) result" where
  "ix1_freeze_account program_id account mint_key authority signers =
     try_bind (v1_check_program_account program_id) (\<lambda>_.
     Ok \<lparr>in_program_id = program_id,
       in_accounts = meta_new account False # meta_readonly mint_key False #
         authority_metas authority signers,
       in_data = v1_instruction_pack V1_FreezeAccount\<rparr>)"

definition ix1_thaw_account ::
  "pubkey \<Rightarrow> pubkey \<Rightarrow> pubkey \<Rightarrow> pubkey \<Rightarrow> pubkey list \<Rightarrow>
   (program_error, instruction) result" where
  "ix1_thaw_account program_id account mint_key authority signers =
     try_bind (v1_check_program_account program_id) (\<lambda>_.
     Ok \<lparr>in_program_id = program_id,
       in_accounts = meta_new account False # meta_readonly mint_key False #
         authority_metas authority signers,
       in_data = v1_instruction_pack V1_ThawAccount\<rparr>)"

definition ix1_transfer_checked ::
  "pubkey \<Rightarrow> pubkey \<Rightarrow> pubkey \<Rightarrow> pubkey \<Rightarrow> pubkey \<Rightarrow> pubkey list \<Rightarrow> u64 \<Rightarrow> u8 \<Rightarrow>
   (program_error, instruction) result" where
  "ix1_transfer_checked program_id source mint_key destination authority signers amt d =
     try_bind (v1_check_program_account program_id) (\<lambda>_.
     Ok \<lparr>in_program_id = program_id,
       in_accounts = meta_new source False # meta_readonly mint_key False # meta_new destination False #
         authority_metas authority signers,
       in_data = v1_instruction_pack (V1_TransferChecked amt d)\<rparr>)"

definition ix1_approve_checked ::
  "pubkey \<Rightarrow> pubkey \<Rightarrow> pubkey \<Rightarrow> pubkey \<Rightarrow> pubkey \<Rightarrow> pubkey list \<Rightarrow> u64 \<Rightarrow> u8 \<Rightarrow>
   (program_error, instruction) result" where
  "ix1_approve_checked program_id source mint_key delegate_key authority signers amt d =
     try_bind (v1_check_program_account program_id) (\<lambda>_.
     Ok \<lparr>in_program_id = program_id,
       in_accounts = meta_new source False # meta_readonly mint_key False # meta_readonly delegate_key False #
         authority_metas authority signers,
       in_data = v1_instruction_pack (V1_ApproveChecked amt d)\<rparr>)"

definition ix1_mint_to_checked ::
  "pubkey \<Rightarrow> pubkey \<Rightarrow> pubkey \<Rightarrow> pubkey \<Rightarrow> pubkey list \<Rightarrow> u64 \<Rightarrow> u8 \<Rightarrow>
   (program_error, instruction) result" where
  "ix1_mint_to_checked program_id mint_key account authority signers amt d =
     try_bind (v1_check_program_account program_id) (\<lambda>_.
     Ok \<lparr>in_program_id = program_id,
       in_accounts = meta_new mint_key False # meta_new account False #
         authority_metas authority signers,
       in_data = v1_instruction_pack (V1_MintToChecked amt d)\<rparr>)"

definition ix1_burn_checked ::
  "pubkey \<Rightarrow> pubkey \<Rightarrow> pubkey \<Rightarrow> pubkey \<Rightarrow> pubkey list \<Rightarrow> u64 \<Rightarrow> u8 \<Rightarrow>
   (program_error, instruction) result" where
  "ix1_burn_checked program_id account mint_key authority signers amt d =
     try_bind (v1_check_program_account program_id) (\<lambda>_.
     Ok \<lparr>in_program_id = program_id,
       in_accounts = meta_new account False # meta_new mint_key False #
         authority_metas authority signers,
       in_data = v1_instruction_pack (V1_BurnChecked amt d)\<rparr>)"

definition ix1_sync_native ::
  "pubkey \<Rightarrow> pubkey \<Rightarrow>
   (program_error, instruction) result" where
  "ix1_sync_native program_id account =
     try_bind (v1_check_program_account program_id) (\<lambda>_.
     Ok \<lparr>in_program_id = program_id,
       in_accounts = [meta_new account False],
       in_data = v1_instruction_pack V1_SyncNative\<rparr>)"

definition ix1_get_account_data_size ::
  "pubkey \<Rightarrow> pubkey \<Rightarrow>
   (program_error, instruction) result" where
  "ix1_get_account_data_size program_id mint_key =
     try_bind (v1_check_program_account program_id) (\<lambda>_.
     Ok \<lparr>in_program_id = program_id,
       in_accounts = [meta_readonly mint_key False],
       in_data = v1_instruction_pack V1_GetAccountDataSize\<rparr>)"

definition ix1_initialize_immutable_owner ::
  "pubkey \<Rightarrow> pubkey \<Rightarrow>
   (program_error, instruction) result" where
  "ix1_initialize_immutable_owner program_id account =
     try_bind (v1_check_program_account program_id) (\<lambda>_.
     Ok \<lparr>in_program_id = program_id,
       in_accounts = [meta_new account False],
       in_data = v1_instruction_pack V1_InitializeImmutableOwner\<rparr>)"

definition ix1_amount_to_ui_amount ::
  "pubkey \<Rightarrow> pubkey \<Rightarrow> u64 \<Rightarrow>
   (program_error, instruction) result" where
  "ix1_amount_to_ui_amount program_id mint_key amt =
     try_bind (v1_check_program_account program_id) (\<lambda>_.
     Ok \<lparr>in_program_id = program_id,
       in_accounts = [meta_readonly mint_key False],
       in_data = v1_instruction_pack (V1_AmountToUiAmount amt)\<rparr>)"

definition ix1_ui_amount_to_amount ::
  "pubkey \<Rightarrow> pubkey \<Rightarrow> bytes \<Rightarrow>
   (program_error, instruction) result" where
  "ix1_ui_amount_to_amount program_id mint_key ui_amount =
     try_bind (v1_check_program_account program_id) (\<lambda>_.
     Ok \<lparr>in_program_id = program_id,
       in_accounts = [meta_readonly mint_key False],
       in_data = v1_instruction_pack (V1_UiAmountToAmount ui_amount)\<rparr>)"

end
