(* ===== verification/TokenClient.thy ===== *)
theory TokenClient
  imports SplToken TokenExamples
begin

text \<open>
  What the builders promise: the program runs a built instruction with the accounts in the
  places where its handler looks for them and with the signatures it asks for, and
  token-2022 understands everything the first version's builders make.
\<close>

section \<open>From instructions to account infos\<close>

text \<open>The runtime hands the program one info per meta, with its key and signer flag.\<close>

definition infos_for :: "account_meta list \<Rightarrow> account_info list \<Rightarrow> bool" where
  "infos_for metas infos \<longleftrightarrow>
     list_all2 (\<lambda>m i. ai_key i = am_pubkey m \<and> (am_is_signer m \<longrightarrow> ai_is_signer i)) metas infos"

lemma infos_for_Cons [simp]:
  "infos_for (m # ms) infos \<longleftrightarrow>
     (\<exists>i rest. infos = i # rest \<and> ai_key i = am_pubkey m \<and> (am_is_signer m \<longrightarrow> ai_is_signer i) \<and> infos_for ms rest)"
  by (auto simp: infos_for_def list_all2_Cons1)

lemma infos_for_signers:
  "infos_for (map (\<lambda>k. meta_readonly k True) ks) infos \<longleftrightarrow> map ai_key infos = ks \<and> list_all ai_is_signer infos"
proof (induction ks arbitrary: infos)
  case Nil
  then show ?case by (cases infos) (simp_all add: infos_for_def)
next
  case (Cons k ks)
  then show ?case by (cases infos) (auto simp: infos_for_def)
qed

section \<open>Enough signatures\<close>

lemma match_signer_total:
  "ai_is_signer s \<Longrightarrow> \<exists>r. match_signer s keys pos matched n = Ok r"
  by (induction keys arbitrary: pos matched n) auto

lemma count_signers_total:
  "list_all ai_is_signer signers \<Longrightarrow> unat (ms_n ms) \<le> length (ms_signers ms) \<Longrightarrow>
   \<exists>c. count_signers ms signers matched n = Ok c"
proof (induction signers arbitrary: matched n)
  case (Cons s signers)
  then have keys: "slice (ms_signers ms) 0 (unat (ms_n ms)) = Ok (take (unat (ms_n ms)) (ms_signers ms))"
    by (simp add: slice_def)
  from match_signer_total [of s] Cons.prems obtain m k where
    "match_signer s (take (unat (ms_n ms)) (ms_signers ms)) 0 matched n = Ok (m, k)" by fastforce
  moreover from Cons obtain c where "count_signers ms signers m k = Ok c" by auto
  ultimately show ?case by (simp add: keys)
qed simp

text \<open>The signatures that a multisig can count among some keys.\<close>

definition matching_positions :: "multisig \<Rightarrow> pubkey set \<Rightarrow> nat set" where
  "matching_positions ms ks = {p. p < unat (ms_n ms) \<and> ms_signers ms ! p \<in> ks}"

lemma authority_accepted:
  assumes "infos_for (authority_metas a signers) (info # rest)"
  shows "signers = [] \<Longrightarrow> \<not> (ai_owner info = pid \<and> len = 355) \<Longrightarrow>
      validate_owner E held st pid a info len rest = Ok ()"
    and "ai_owner info = pid \<Longrightarrow> len = 355 \<Longrightarrow> ai_cell info \<notin> set held \<Longrightarrow>
      unpack E multisig_pack (account_data st info) = Ok ms \<Longrightarrow> multisig_wf ms \<Longrightarrow> unat (ms_n ms) \<le> MAX_SIGNERS \<Longrightarrow>
      unat (ms_m ms) \<le> card (matching_positions ms (set signers)) \<Longrightarrow>
      validate_owner E held st pid a info len rest = Ok ()"
proof -
  from assms have key: "ai_key info = a" and self: "signers = [] \<Longrightarrow> ai_is_signer info"
    and rest: "map ai_key rest = signers" "list_all ai_is_signer rest"
    by (auto simp: authority_metas_def infos_for_signers)
  show "validate_owner E held st pid a info len rest = Ok ()"
    if "signers = []" "\<not> (ai_owner info = pid \<and> len = 355)"
    using that key self by (auto simp: validate_owner_def)
  assume ms: "ai_owner info = pid" "len = 355" "ai_cell info \<notin> set held"
    "unpack E multisig_pack (account_data st info) = Ok ms" "multisig_wf ms" "unat (ms_n ms) \<le> MAX_SIGNERS"
    "unat (ms_m ms) \<le> card (matching_positions ms (set signers))"
  have n: "unat (ms_n ms) \<le> length (ms_signers ms)" using ms(5,6) by (simp add: multisig_wf_def)
  obtain c where c: "count_signers ms rest (replicate MAX_SIGNERS False) 0 = Ok c"
    using count_signers_total [OF rest(2) n] by blast
  have "signed_positions (take (unat (ms_n ms)) (ms_signers ms)) rest = matching_positions ms (set signers)"
    using n rest(2) unfolding rest(1) [symmetric]
    by (force simp: signed_positions_def matching_positions_def list_all_iff)
  with count_signers_eq [OF c ms(6)] ms(7) have "\<not> c < ms_m ms" by (simp add: word_less_nat_alt)
  with ms key c show "validate_owner E held st pid a info len rest = Ok ()"
    by (simp add: validate_owner_def acquire_def)
qed

section \<open>Built transfers\<close>

text \<open>C35: the program runs a built transfer as a transfer of the amount between the accounts named,
  and accepts its authority: one that signs itself, or a multisig with enough of the signers.\<close>

theorem built_transfer_accepted:
  assumes "ix_transfer_checked pid source mint_key destination authority signers amt d = Ok ix"
    and "infos_for (in_accounts ix) infos"
  shows "\<exists>s m t a rest. infos = s # m # t # a # rest \<and>
    map ai_key [s, m, t, a] = [source, mint_key, destination, authority] \<and>
    token_process E st pid infos (in_data ix) = no_return (process_transfer E st pid infos amt (Some d) None) \<and>
    (signers = [] \<and> \<not> (ai_owner a = pid \<and> len = 355) \<longrightarrow>
       validate_owner E held st pid authority a len rest = Ok ()) \<and>
    (\<forall>ms. ai_owner a = pid \<and> len = 355 \<and> ai_cell a \<notin> set held \<and>
       unpack E multisig_pack (account_data st a) = Ok ms \<and> multisig_wf ms \<and> unat (ms_n ms) \<le> MAX_SIGNERS \<and>
       unat (ms_m ms) \<le> card (matching_positions ms (set signers)) \<longrightarrow>
       validate_owner E held st pid authority a len rest = Ok ())"
proof -
  from assms(1) have ix: "in_accounts ix = meta_new source False # meta_readonly mint_key False #
      meta_new destination False # authority_metas authority signers"
    "in_data ix = token_instruction_pack (TI_TransferChecked amt d)"
    by (auto simp: ix_transfer_checked_def ok_simps)
  with assms(2) obtain s m t tail where infos: "infos = s # m # t # tail"
    and keys: "ai_key s = source" "ai_key m = mint_key" "ai_key t = destination"
    and auth: "infos_for (authority_metas authority signers) tail"
    by auto
  then obtain a rest where tail: "tail = a # rest" and a: "ai_key a = authority"
    by (auto simp: authority_metas_def)
  note ok = authority_accepted [OF auth [unfolded tail]]
  have "token_process E st pid infos (in_data ix) = no_return (process_transfer E st pid infos amt (Some d) None)"
    by (simp add: token_process_def ix token_instruction_round_trip token_instruction_ok_def run_instruction_def)
  with infos tail keys a ok show ?thesis by (intro exI [of _ s] exI [of _ m] exI [of _ t] exI [of _ a] exI [of _ rest]) auto
qed

theorem built_transfer_accepted_witness:
  "validate_owner env0 [] store1 token_2022_id 30 multisig_info0 355 [info0 20 True 5, info0 22 True 6] = Ok ()"
proof -
  let ?infos = "[source0, mint_info0, destination0, multisig_info0, info0 20 True 5, info0 22 True 6]"
  obtain ix where ix: "ix_transfer_checked token_2022_id 100 7 101 30 [20, 22] 5 2 = Ok ix"
    by (simp add: ix_transfer_checked_def check_spl_token_program_account_def)
  then have "infos_for (in_accounts ix) ?infos"
    by (auto simp: ix_transfer_checked_def ok_simps authority_metas_def info0_def) (simp add: infos_for_def)
  note t = built_transfer_accepted [OF ix this, where E = env0 and st = store1 and len = 355 and held = "[]"]
  have "{0, 2} \<subseteq> matching_positions multisig0 {20, 22}"
    by (simp add: matching_positions_def multisig0_def)
  moreover have "finite (matching_positions multisig0 {20, 22})" by (simp add: matching_positions_def)
  ultimately have "card {0 :: nat, 2} \<le> card (matching_positions multisig0 {20, 22})" by (rule card_mono [rotated])
  moreover have "multisig_wf multisig0" "unat (ms_n multisig0) \<le> MAX_SIGNERS"
    by (simp_all add: multisig_wf_def multisig0_def MAX_SIGNERS_def)
  ultimately show ?thesis using t by auto
qed

section \<open>Built extension instructions\<close>

text \<open>The data after the tag of an extension's instruction is what its handler decodes.\<close>

lemma built_default_account_state:
  assumes "ix_update_default_account_state pid mint_key authority signers s = Ok ix"
  shows "token_process E st pid infos (in_data ix) =
    no_return (process_update_default_account_state E st pid infos s)"
proof -
  from assms have "in_data ix = [28, 1, account_state_to_u8 s]" "pid = token_2022_id"
    by (auto simp: ix_update_default_account_state_def default_account_state_encode_def token_instruction_pack_def ok_simps)
  then show ?thesis
    by (simp add: token_process_def token_instruction_unpack_def run_instruction_def
        process_default_account_state_instruction_def default_account_state_decode_def
        default_account_state_instruction_try_from_def check_program_account_def)
qed

lemma built_interest_rate:
  assumes "ix_interest_update_rate pid mint_key authority signers rate = Ok ix"
  shows "decode_instruction_type interest_bearing_mint_instruction_try_from (drop 1 (in_data ix)) = Ok IBI_UpdateRate"
    "decode_instruction_data pod_u16 (drop 1 (in_data ix)) = Ok rate"
proof -
  from assms have d: "in_data ix = [33, 1] @ pod_bytes_of pod_u16 rate"
    by (auto simp: ix_interest_update_rate_def encode_instruction_bytes_def token_instruction_pack_def ok_simps)
  show "decode_instruction_type interest_bearing_mint_instruction_try_from (drop 1 (in_data ix)) = Ok IBI_UpdateRate"
    by (simp add: d decode_instruction_type_def interest_bearing_mint_instruction_try_from_def)
  show "decode_instruction_data pod_u16 (drop 1 (in_data ix)) = Ok rate"
    by (simp add: d decode_instruction_data_def pod_from_bytes_def pod_bytes_of_def pod_get_packed_len_def pod_u16_def bytes_simps)
qed

section \<open>The first version\<close>

fun authority_2022 :: "v1_authority_type \<Rightarrow> authority_type" where
  "authority_2022 AUTH1_MintTokens = AUTH_MintTokens"
| "authority_2022 AUTH1_FreezeAccount = AUTH_FreezeAccount"
| "authority_2022 AUTH1_AccountOwner = AUTH_AccountOwner"
| "authority_2022 AUTH1_CloseAccount = AUTH_CloseAccount"

fun instruction_2022 :: "v1_instruction \<Rightarrow> token_instruction" where
  "instruction_2022 (V1_InitializeMint d a f) = TI_InitializeMint d a f"
| "instruction_2022 V1_InitializeAccount = TI_InitializeAccount"
| "instruction_2022 (V1_InitializeMultisig m) = TI_InitializeMultisig m"
| "instruction_2022 (V1_Transfer amt) = TI_Transfer amt"
| "instruction_2022 (V1_Approve amt) = TI_Approve amt"
| "instruction_2022 V1_Revoke = TI_Revoke"
| "instruction_2022 (V1_SetAuthority t a) = TI_SetAuthority (authority_2022 t) a"
| "instruction_2022 (V1_MintTo amt) = TI_MintTo amt"
| "instruction_2022 (V1_Burn amt) = TI_Burn amt"
| "instruction_2022 V1_CloseAccount = TI_CloseAccount"
| "instruction_2022 V1_FreezeAccount = TI_FreezeAccount"
| "instruction_2022 V1_ThawAccount = TI_ThawAccount"
| "instruction_2022 (V1_TransferChecked amt d) = TI_TransferChecked amt d"
| "instruction_2022 (V1_ApproveChecked amt d) = TI_ApproveChecked amt d"
| "instruction_2022 (V1_MintToChecked amt d) = TI_MintToChecked amt d"
| "instruction_2022 (V1_BurnChecked amt d) = TI_BurnChecked amt d"
| "instruction_2022 (V1_InitializeAccount2 owner) = TI_InitializeAccount2 owner"
| "instruction_2022 V1_SyncNative = TI_SyncNative"
| "instruction_2022 (V1_InitializeAccount3 owner) = TI_InitializeAccount3 owner"
| "instruction_2022 (V1_InitializeMultisig2 m) = TI_InitializeMultisig2 m"
| "instruction_2022 (V1_InitializeMint2 d a f) = TI_InitializeMint2 d a f"
| "instruction_2022 V1_GetAccountDataSize = TI_GetAccountDataSize []"
| "instruction_2022 V1_InitializeImmutableOwner = TI_InitializeImmutableOwner"
| "instruction_2022 (V1_AmountToUiAmount amt) = TI_AmountToUiAmount amt"
| "instruction_2022 (V1_UiAmountToAmount s) = TI_UiAmountToAmount s"

lemma v1_pack: "token_instruction_pack (instruction_2022 i) = v1_instruction_pack i"
proof (cases i)
  case (V1_SetAuthority t a)
  then show ?thesis
    by (cases t) (simp_all add: token_instruction_pack_def v1_instruction_pack_def authority_type_into_def
        pack_pubkey_option_def v1_pack_pubkey_option_def)
qed (simp_all add: token_instruction_pack_def v1_instruction_pack_def pack_pubkey_option_def v1_pack_pubkey_option_def)

text \<open>Each decoder of the first version, where it succeeds, is the decoder of its successor.\<close>

lemma v1_fields:
  "v1_split_first b = Ok x \<longleftrightarrow> split_first b = Ok x"
  "v1_unpack_pubkey b = Ok y \<longleftrightarrow> unpack_pubkey b = Ok y"
  "v1_unpack_pubkey_option b = Ok z \<longleftrightarrow> unpack_pubkey_option b = Ok z"
  "v1_split_amount b = Ok w \<longleftrightarrow> unpack_u64 b = Ok w"
  by (auto simp: v1_split_first_def split_first_def v1_unpack_pubkey_def unpack_pubkey_def
      v1_unpack_pubkey_option_def unpack_pubkey_option_def v1_split_amount_def unpack_u64_def
      split: list.splits if_splits)

lemma v1_authority: "v1_authority_from t = Ok a \<Longrightarrow> authority_type_from t = Ok (authority_2022 a)"
  by (auto simp: v1_authority_from_def authority_type_from_def split: if_splits)

lemma v1_no_panic [simp]:
  "v1_split_first b \<noteq> Panicked" "v1_unpack_pubkey b \<noteq> Panicked" "v1_unpack_pubkey_option b \<noteq> Panicked"
  "v1_authority_from t \<noteq> Panicked" "v1_split_amount b = Panicked \<longleftrightarrow> length b < 8"
  by (auto simp: v1_split_first_def v1_unpack_pubkey_def v1_unpack_pubkey_option_def v1_authority_from_def
      v1_split_amount_def split: list.splits)

text \<open>C36: token-2022 speaks the first version's language: it packs every instruction to the same bytes,
  unpacks what the first version unpacks to the same instruction, except a \<open>GetAccountDataSize\<close>
  with trailing data, which the first version ignores and token-2022 reads as extension types (so
  that it becomes a request about them or is refused), and its builders make, for the first
  version's program id, the very instructions that the old builders make.\<close>

theorem v1_instructions_understood:
  "token_instruction_pack (instruction_2022 i) = v1_instruction_pack i \<and>
   (v1_instruction_unpack b = Ok i \<and> (i = V1_GetAccountDataSize \<longrightarrow> length b = 1) \<longrightarrow>
      token_instruction_unpack b = Ok (instruction_2022 i)) \<and>
   (v1_instruction_unpack b = Ok V1_GetAccountDataSize \<longrightarrow>
      token_instruction_unpack b = try_bind (unpack_extension_types (tl b)) (\<lambda>ts. Ok (TI_GetAccountDataSize ts))) \<and>
   ix1_initialize_mint ids spl_token_id mint_key authority freeze d = ix_initialize_mint ids spl_token_id mint_key authority freeze d \<and>
   ix1_initialize_mint2 spl_token_id mint_key authority freeze d = ix_initialize_mint2 spl_token_id mint_key authority freeze d \<and>
   ix1_initialize_account ids spl_token_id account mint_key owner = ix_initialize_account ids spl_token_id account mint_key owner \<and>
   ix1_initialize_account2 ids spl_token_id account mint_key owner = ix_initialize_account2 ids spl_token_id account mint_key owner \<and>
   ix1_initialize_account3 spl_token_id account mint_key owner = ix_initialize_account3 spl_token_id account mint_key owner \<and>
   ix1_initialize_multisig ids spl_token_id multisig_key signers m = ix_initialize_multisig ids spl_token_id multisig_key signers m \<and>
   ix1_initialize_multisig2 spl_token_id multisig_key signers m = ix_initialize_multisig2 spl_token_id multisig_key signers m \<and>
   ix1_transfer spl_token_id source destination authority signers amt = ix_transfer spl_token_id source destination authority signers amt \<and>
   ix1_approve spl_token_id source delegate_key authority signers amt = ix_approve spl_token_id source delegate_key authority signers amt \<and>
   ix1_set_authority spl_token_id owned new_authority which authority signers =
     ix_set_authority spl_token_id owned new_authority (authority_2022 which) authority signers \<and>
   ix1_revoke spl_token_id source authority signers = ix_revoke spl_token_id source authority signers \<and>
   ix1_mint_to spl_token_id mint_key account authority signers amt = ix_mint_to spl_token_id mint_key account authority signers amt \<and>
   ix1_burn spl_token_id account mint_key authority signers amt = ix_burn spl_token_id account mint_key authority signers amt \<and>
   ix1_close_account spl_token_id account destination authority signers = ix_close_account spl_token_id account destination authority signers \<and>
   ix1_freeze_account spl_token_id account mint_key authority signers = ix_freeze_account spl_token_id account mint_key authority signers \<and>
   ix1_thaw_account spl_token_id account mint_key authority signers = ix_thaw_account spl_token_id account mint_key authority signers \<and>
   ix1_transfer_checked spl_token_id source mint_key destination authority signers amt d = ix_transfer_checked spl_token_id source mint_key destination authority signers amt d \<and>
   ix1_approve_checked spl_token_id source mint_key delegate_key authority signers amt d = ix_approve_checked spl_token_id source mint_key delegate_key authority signers amt d \<and>
   ix1_mint_to_checked spl_token_id mint_key account authority signers amt d = ix_mint_to_checked spl_token_id mint_key account authority signers amt d \<and>
   ix1_burn_checked spl_token_id account mint_key authority signers amt d = ix_burn_checked spl_token_id account mint_key authority signers amt d \<and>
   ix1_sync_native spl_token_id account = ix_sync_native spl_token_id account \<and>
   ix1_initialize_immutable_owner spl_token_id account = ix_initialize_immutable_owner spl_token_id account \<and>
   ix1_amount_to_ui_amount spl_token_id mint_key amt = ix_amount_to_ui_amount spl_token_id mint_key amt \<and>
   ix1_ui_amount_to_amount spl_token_id mint_key ui_amount = ix_ui_amount_to_amount spl_token_id mint_key ui_amount \<and>
   ix1_get_account_data_size spl_token_id mint_key = ix_get_account_data_size spl_token_id mint_key []"
  (is "_ \<and> ?unpack \<and> ?sizes \<and> ?builders")
proof (intro conjI)
  show "token_instruction_pack (instruction_2022 i) = v1_instruction_pack i" by (rule v1_pack)
next
  show ?unpack
  proof (intro impI, elim conjE)
    assume u: "v1_instruction_unpack b = Ok i" and size: "i = V1_GetAccountDataSize \<longrightarrow> length b = 1"
    then obtain tag rest where b: "b = tag # rest"
      by (cases b) (auto simp: v1_instruction_unpack_def v1_split_first_def)
    show "token_instruction_unpack b = Ok (instruction_2022 i)"
      using u size unfolding b v1_instruction_unpack_def token_instruction_unpack_def
      by (auto simp: ok_simps v1_fields v1_amount_decimals_def unpack_amount_decimals_def Let_def
          dest!: v1_authority split: if_splits)
  qed
next
  show ?sizes
  proof
    assume u: "v1_instruction_unpack b = Ok V1_GetAccountDataSize"
    then obtain tag rest where b: "b = tag # rest"
      by (cases b) (auto simp: v1_instruction_unpack_def v1_split_first_def)
    with u have "tag = 21"
      by (auto simp: v1_instruction_unpack_def ok_simps v1_split_first_def Let_def split: if_splits)
    then show "token_instruction_unpack b = try_bind (unpack_extension_types (tl b)) (\<lambda>ts. Ok (TI_GetAccountDataSize ts))"
      by (simp add: b token_instruction_unpack_def split_first_def)
  qed
qed (simp_all add: v1_check_program_account_def check_spl_token_program_account_def v1_pack [symmetric]
    v1_is_valid_signer_index_def is_valid_signer_index_def MIN_SIGNERS_def MAX_SIGNERS_def
    ix1_initialize_mint_def ix_initialize_mint_def ix1_initialize_mint2_def ix_initialize_mint2_def
    ix1_initialize_account_def ix_initialize_account_def ix1_initialize_account2_def
    ix_initialize_account2_def ix1_initialize_account3_def ix_initialize_account3_def
    ix1_initialize_multisig_def ix_initialize_multisig_def ix1_initialize_multisig2_def
    ix_initialize_multisig2_def ix1_transfer_def ix_transfer_def ix1_approve_def ix_approve_def
    ix1_revoke_def ix_revoke_def ix1_mint_to_def ix_mint_to_def ix1_burn_def ix_burn_def
    ix1_close_account_def ix_close_account_def ix1_freeze_account_def ix_freeze_account_def
    ix1_thaw_account_def ix_thaw_account_def ix1_transfer_checked_def ix_transfer_checked_def
    ix1_approve_checked_def ix_approve_checked_def ix1_mint_to_checked_def ix_mint_to_checked_def
    ix1_burn_checked_def ix_burn_checked_def ix1_sync_native_def ix_sync_native_def
    ix1_initialize_immutable_owner_def ix_initialize_immutable_owner_def
    ix1_amount_to_ui_amount_def ix_amount_to_ui_amount_def ix1_ui_amount_to_amount_def
    ix_ui_amount_to_amount_def ix1_set_authority_def ix_set_authority_def
    ix1_get_account_data_size_def ix_get_account_data_size_def)

theorem v1_instructions_understood_witness:
  "token_instruction_unpack [12, 5, 0, 0, 0, 0, 0, 0, 0, 2] = Ok (TI_TransferChecked 5 2)"
proof -
  have five: "from_le_bytes [5, 0, 0, 0, 0, 0, 0, 0] = (5 :: u64)"
    by (simp add: from_le_bytes_def)
  have "v1_instruction_unpack [12, 5, 0, 0, 0, 0, 0, 0, 0, 2] = Ok (V1_TransferChecked 5 2)"
    by (simp add: v1_instruction_unpack_def v1_split_first_def v1_amount_decimals_def v1_split_amount_def five)
  then show ?thesis using v1_instructions_understood [of "V1_TransferChecked 5 2"] by simp
qed

text \<open>The old decoder panics, which the new one never does, exactly on the checked instructions
  and \<open>AmountToUiAmount\<close> when fewer than 8 bytes follow the tag.\<close>

theorem v1_unpack_panics:
  "v1_instruction_unpack b = Panicked \<longleftrightarrow>
   (\<exists>tag rest. b = tag # rest \<and> tag \<in> {12, 13, 14, 15, 23} \<and> length rest < 8)"
proof (cases b)
  case (Cons tag rest)
  have panic: "try_bind m f = Panicked \<longleftrightarrow> m = Panicked \<or> (\<exists>x. m = Ok x \<and> f x = Panicked)"
    for m :: "(program_error, 'x) result" and f :: "'x \<Rightarrow> (program_error, 'y) result"
    by (cases m) auto
  have if_panic: "(if c then x else y) = Panicked \<longleftrightarrow> (if c then x = Panicked else y = Panicked)"
    for c and x y :: "(program_error, v1_instruction) result"
    by simp
  show ?thesis
    unfolding Cons v1_instruction_unpack_def
    by (simp add: if_panic panic v1_amount_decimals_def Let_def case_prod_unfold v1_split_first_def [of "tag # rest"]
        split del: if_split cong: if_cong) auto
qed (simp add: v1_instruction_unpack_def v1_split_first_def)

end
