(* ===== verification/VoteInstruction.thy ===== *)
theory VoteInstruction
  imports VoteHandlers Instructions
begin

text \<open>
  The instructions of the vote program and the functions that build them
  (\<open>vote/vote_instruction.rs\<close>). \<open>encode\<close> is \<open>bincode\<close> of an instruction; the system program's
  builders and the id of the vote program are the SDK's. A handler asks for the signatures
  of a set of keys; the last section shows that each built instruction carries the ones its
  handler looks for.
\<close>

datatype vote_instruction =
    VI_InitializeAccount vote_init
  | VI_Authorize pubkey vote_authorize_kind
  | VI_Vote vote
  | VI_Withdraw u64
  | VI_UpdateValidatorIdentity
  | VI_UpdateCommission u8
  | VI_VoteSwitch vote hash
  | VI_AuthorizeChecked vote_authorize_kind
  | VI_UpdateVoteState vote_state_update
  | VI_UpdateVoteStateSwitch vote_state_update hash

record vote_sdk =
  vk_ids :: sdk_ids
  vk_id :: pubkey
  vk_encode :: "vote_instruction \<Rightarrow> bytes"
  vk_create_account :: "pubkey \<Rightarrow> pubkey \<Rightarrow> u64 \<Rightarrow> u64 \<Rightarrow> pubkey \<Rightarrow> instruction"
  vk_create_account_with_seed :: "pubkey \<Rightarrow> pubkey \<Rightarrow> pubkey \<Rightarrow> string \<Rightarrow> u64 \<Rightarrow> u64 \<Rightarrow> pubkey \<Rightarrow> instruction"

definition new_with_bincode :: "vote_sdk \<Rightarrow> vote_instruction \<Rightarrow> account_meta list \<Rightarrow> instruction" where
  "new_with_bincode K i metas = \<lparr>in_program_id = vk_id K, in_accounts = metas, in_data = vk_encode K i\<rparr>"

definition vix_initialize_account :: "vote_sdk \<Rightarrow> pubkey \<Rightarrow> vote_init \<Rightarrow> instruction" where
  "vix_initialize_account K vote_key init = new_with_bincode K (VI_InitializeAccount init)
     [meta_new vote_key False, meta_readonly (sid_rent (vk_ids K)) False,
      meta_readonly (sid_clock (vk_ids K)) False, meta_readonly (vi_node_pubkey init) True]"

definition vix_create_account ::
  "vote_sdk \<Rightarrow> pubkey \<Rightarrow> pubkey \<Rightarrow> vote_init \<Rightarrow> u64 \<Rightarrow> instruction list" where
  "vix_create_account K from_key vote_key init lamports =
     [vk_create_account K from_key vote_key lamports (word_of_nat VOTE_STATE_SIZE) (vk_id K),
      vix_initialize_account K vote_key init]"

definition vix_create_account_with_seed ::
  "vote_sdk \<Rightarrow> pubkey \<Rightarrow> pubkey \<Rightarrow> pubkey \<Rightarrow> string \<Rightarrow> vote_init \<Rightarrow> u64 \<Rightarrow> instruction list" where
  "vix_create_account_with_seed K from_key vote_key base_key seed init lamports =
     [vk_create_account_with_seed K from_key vote_key base_key seed lamports
        (word_of_nat VOTE_STATE_SIZE) (vk_id K),
      vix_initialize_account K vote_key init]"

definition vix_authorize ::
  "vote_sdk \<Rightarrow> pubkey \<Rightarrow> pubkey \<Rightarrow> pubkey \<Rightarrow> vote_authorize_kind \<Rightarrow> instruction" where
  "vix_authorize K vote_key authorized new_authorized which = new_with_bincode K (VI_Authorize new_authorized which)
     [meta_new vote_key False, meta_readonly (sid_clock (vk_ids K)) False, meta_readonly authorized True]"

definition vix_authorize_checked ::
  "vote_sdk \<Rightarrow> pubkey \<Rightarrow> pubkey \<Rightarrow> pubkey \<Rightarrow> vote_authorize_kind \<Rightarrow> instruction" where
  "vix_authorize_checked K vote_key authorized new_authorized which = new_with_bincode K (VI_AuthorizeChecked which)
     [meta_new vote_key False, meta_readonly (sid_clock (vk_ids K)) False, meta_readonly authorized True,
      meta_readonly new_authorized True]"

definition vix_update_validator_identity :: "vote_sdk \<Rightarrow> pubkey \<Rightarrow> pubkey \<Rightarrow> pubkey \<Rightarrow> instruction" where
  "vix_update_validator_identity K vote_key withdrawer node = new_with_bincode K VI_UpdateValidatorIdentity
     [meta_new vote_key False, meta_readonly node True, meta_readonly withdrawer True]"

definition vix_update_commission :: "vote_sdk \<Rightarrow> pubkey \<Rightarrow> pubkey \<Rightarrow> u8 \<Rightarrow> instruction" where
  "vix_update_commission K vote_key withdrawer commission = new_with_bincode K (VI_UpdateCommission commission)
     [meta_new vote_key False, meta_readonly withdrawer True]"

definition vix_vote :: "vote_sdk \<Rightarrow> pubkey \<Rightarrow> pubkey \<Rightarrow> vote \<Rightarrow> instruction" where
  "vix_vote K vote_key voter v = new_with_bincode K (VI_Vote v)
     [meta_new vote_key False, meta_readonly (sid_slot_hashes (vk_ids K)) False,
      meta_readonly (sid_clock (vk_ids K)) False, meta_readonly voter True]"

definition vix_vote_switch :: "vote_sdk \<Rightarrow> pubkey \<Rightarrow> pubkey \<Rightarrow> vote \<Rightarrow> hash \<Rightarrow> instruction" where
  "vix_vote_switch K vote_key voter v proof_hash = new_with_bincode K (VI_VoteSwitch v proof_hash)
     [meta_new vote_key False, meta_readonly (sid_slot_hashes (vk_ids K)) False,
      meta_readonly (sid_clock (vk_ids K)) False, meta_readonly voter True]"

definition vix_update_vote_state :: "vote_sdk \<Rightarrow> pubkey \<Rightarrow> pubkey \<Rightarrow> vote_state_update \<Rightarrow> instruction" where
  "vix_update_vote_state K vote_key voter u = new_with_bincode K (VI_UpdateVoteState u)
     [meta_new vote_key False, meta_readonly voter True]"

definition vix_update_vote_state_switch ::
  "vote_sdk \<Rightarrow> pubkey \<Rightarrow> pubkey \<Rightarrow> vote_state_update \<Rightarrow> hash \<Rightarrow> instruction" where
  "vix_update_vote_state_switch K vote_key voter u proof_hash =
     new_with_bincode K (VI_UpdateVoteStateSwitch u proof_hash)
       [meta_new vote_key False, meta_readonly voter True]"

definition vix_withdraw :: "vote_sdk \<Rightarrow> pubkey \<Rightarrow> pubkey \<Rightarrow> u64 \<Rightarrow> pubkey \<Rightarrow> instruction" where
  "vix_withdraw K vote_key withdrawer lamports to_key = new_with_bincode K (VI_Withdraw lamports)
     [meta_new vote_key False, meta_new to_key False, meta_readonly withdrawer True]"

section \<open>Signatures\<close>

lemmas vix_defs = vix_initialize_account_def vix_authorize_def vix_authorize_checked_def
  vix_update_validator_identity_def vix_update_commission_def vix_vote_def vix_vote_switch_def
  vix_update_vote_state_def vix_update_vote_state_switch_def vix_withdraw_def new_with_bincode_def

lemma vix_signed:
  "signed_keys (vix_initialize_account K v init) = {vi_node_pubkey init}"
  "signed_keys (vix_authorize K v a n w) = {a}"
  "signed_keys (vix_authorize_checked K v a n w) = {a, n}"
  "signed_keys (vix_update_validator_identity K v x n) = {n, x}"
  "signed_keys (vix_update_commission K v x c) = {x}"
  "signed_keys (vix_vote K v a vt) = {a}" "signed_keys (vix_vote_switch K v a vt h) = {a}"
  "signed_keys (vix_update_vote_state K v a u) = {a}" "signed_keys (vix_update_vote_state_switch K v a u h) = {a}"
  "signed_keys (vix_withdraw K v x l t) = {x}"
  by (auto simp: signed_keys_def vix_defs)

text \<open>An instruction built for the withdrawer of a vote account passes its handler's checks.\<close>

lemma built_identity_update:
  assumes "vo_get_state V c i = Ok versioned" "s = convert_to_current versioned"
    and "signed_keys (vix_update_validator_identity K v (vs_authorized_withdrawer s) node) \<subseteq> set signers"
  shows "update_validator_identity V c i node signers =
    vo_set_state V c i (new_current (s\<lparr>vs_node_pubkey := node\<rparr>))"
  using assms by (simp add: update_validator_identity_def vix_signed verify_authorized_signer_def Let_def)

lemma built_commission_update:
  assumes "vo_get_state V c i = Ok versioned" "s = convert_to_current versioned"
    and "signed_keys (vix_update_commission K v (vs_authorized_withdrawer s) n) \<subseteq> set signers"
  shows "update_commission V c i n signers = vo_set_state V c i (new_current (s\<lparr>vs_commission := n\<rparr>))"
  using assms by (simp add: update_commission_def vix_signed verify_authorized_signer_def Let_def)

end
