(* ===== verification/AssociatedToken.thy ===== *)
theory AssociatedToken
  imports TokenBase Instructions
begin

text \<open>
  Associated token accounts and memos (\<open>spl_associated_token_account/mod.rs\<close> and
  \<open>instruction.rs\<close>, \<open>spl_memo/mod.rs\<close>). The address of an associated account is derived from
  the wallet, the token program and the mint by \<open>find_program_address\<close>, the SDK's, which
  returns an address and a bump seed; \<open>borsh\<close> is the encoding of the instruction.
\<close>

datatype ata_instruction = ATA_Create | ATA_CreateIdempotent | ATA_RecoverNested

record ata_sdk =
  ak_ids :: sdk_ids
  ak_find_program_address :: "bytes list \<Rightarrow> pubkey \<Rightarrow> pubkey \<times> u8"
  ak_borsh :: "ata_instruction \<Rightarrow> (program_error, bytes) result"

definition ata_id :: pubkey where
  "ata_id = 40695635629901152665410025302173295360073252240518262094500050880242748069772"

section \<open>Addresses\<close>

definition get_associated_token_address_and_bump_seed_internal ::
  "ata_sdk \<Rightarrow> pubkey \<Rightarrow> pubkey \<Rightarrow> pubkey \<Rightarrow> pubkey \<Rightarrow> pubkey \<times> u8" where
  "get_associated_token_address_and_bump_seed_internal K wallet mint_key program_id token_program_id =
     ak_find_program_address K [to_le_bytes wallet, to_le_bytes token_program_id, to_le_bytes mint_key] program_id"

definition get_associated_token_address_with_program_id ::
  "ata_sdk \<Rightarrow> pubkey \<Rightarrow> pubkey \<Rightarrow> pubkey \<Rightarrow> pubkey" where
  "get_associated_token_address_with_program_id K wallet mint_key token_program_id =
     fst (get_associated_token_address_and_bump_seed_internal K wallet mint_key ata_id token_program_id)"

definition get_associated_token_address :: "ata_sdk \<Rightarrow> pubkey \<Rightarrow> pubkey \<Rightarrow> pubkey" where
  "get_associated_token_address K wallet mint_key =
     get_associated_token_address_with_program_id K wallet mint_key spl_token_id"

section \<open>Instructions\<close>

text \<open>\<open>assert_matches!\<close> admits the two creation instructions; encoding is unwrapped.\<close>

definition build_associated_token_account_instruction ::
  "ata_sdk \<Rightarrow> pubkey \<Rightarrow> pubkey \<Rightarrow> pubkey \<Rightarrow> pubkey \<Rightarrow> ata_instruction \<Rightarrow> ('e, instruction) result" where
  "build_associated_token_account_instruction K funding wallet mint_key token_program_id i =
     (let address = get_associated_token_address_with_program_id K wallet mint_key token_program_id in
      if i \<noteq> ATA_Create \<and> i \<noteq> ATA_CreateIdempotent then Panicked
      else case ak_borsh K i of
        Inl _ \<Rightarrow> Panicked
      | Inr d \<Rightarrow> Ok \<lparr>in_program_id = ata_id,
          in_accounts = [meta_new funding True, meta_new address False, meta_readonly wallet False,
            meta_readonly mint_key False, meta_readonly (sid_system_program (ak_ids K)) False,
            meta_readonly token_program_id False],
          in_data = d\<rparr>)"

definition create_associated_token_account ::
  "ata_sdk \<Rightarrow> pubkey \<Rightarrow> pubkey \<Rightarrow> pubkey \<Rightarrow> pubkey \<Rightarrow> ('e, instruction) result" where
  "create_associated_token_account K funding wallet mint_key token_program_id =
     build_associated_token_account_instruction K funding wallet mint_key token_program_id ATA_Create"

definition create_associated_token_account_idempotent ::
  "ata_sdk \<Rightarrow> pubkey \<Rightarrow> pubkey \<Rightarrow> pubkey \<Rightarrow> pubkey \<Rightarrow> ('e, instruction) result" where
  "create_associated_token_account_idempotent K funding wallet mint_key token_program_id =
     build_associated_token_account_instruction K funding wallet mint_key token_program_id ATA_CreateIdempotent"

definition recover_nested ::
  "ata_sdk \<Rightarrow> pubkey \<Rightarrow> pubkey \<Rightarrow> pubkey \<Rightarrow> pubkey \<Rightarrow> ('e, instruction) result" where
  "recover_nested K wallet owner_mint nested_mint token_program_id =
     (let owner_address = get_associated_token_address_with_program_id K wallet owner_mint token_program_id;
          destination = get_associated_token_address_with_program_id K wallet nested_mint token_program_id;
          nested_address = get_associated_token_address_with_program_id K owner_address nested_mint token_program_id in
      case ak_borsh K ATA_RecoverNested of
        Inl _ \<Rightarrow> Panicked
      | Inr d \<Rightarrow> Ok \<lparr>in_program_id = ata_id,
          in_accounts = [meta_new nested_address False, meta_readonly nested_mint False,
            meta_new destination False, meta_readonly owner_address False, meta_readonly owner_mint False,
            meta_new wallet True, meta_readonly token_program_id False],
          in_data = d\<rparr>)"

text \<open>The deprecated builder of the module's root, with the rent sysvar and no data.\<close>

definition create_associated_token_account_v1 :: "ata_sdk \<Rightarrow> pubkey \<Rightarrow> pubkey \<Rightarrow> pubkey \<Rightarrow> instruction" where
  "create_associated_token_account_v1 K funding wallet mint_key =
     \<lparr>in_program_id = ata_id,
      in_accounts = [meta_new funding True, meta_new (get_associated_token_address K wallet mint_key) False,
        meta_readonly wallet False, meta_readonly mint_key False,
        meta_readonly (sid_system_program (ak_ids K)) False, meta_readonly spl_token_id False,
        meta_readonly (sid_rent (ak_ids K)) False],
      in_data = []\<rparr>"

definition build_memo :: "bytes \<Rightarrow> pubkey list \<Rightarrow> instruction" where
  "build_memo memo signers =
     \<lparr>in_program_id = memo_id, in_accounts = map (\<lambda>k. meta_readonly k True) signers, in_data = memo\<rparr>"

section \<open>What they make\<close>

lemma created_accounts:
  assumes "create_associated_token_account K funding wallet mint_key pid = Ok ix"
  shows "in_accounts ix = [meta_new funding True,
      meta_new (get_associated_token_address_with_program_id K wallet mint_key pid) False,
      meta_readonly wallet False, meta_readonly mint_key False,
      meta_readonly (sid_system_program (ak_ids K)) False, meta_readonly pid False]"
    "in_program_id ix = ata_id"
  using assms
  by (auto simp: create_associated_token_account_def build_associated_token_account_instruction_def Let_def
      split: sum.splits)

text \<open>For the first version's program the two builders differ only in the rent sysvar and the data.\<close>

lemma create_versions:
  assumes "create_associated_token_account K funding wallet mint_key spl_token_id = Ok ix"
  shows "in_accounts (create_associated_token_account_v1 K funding wallet mint_key) =
    in_accounts ix @ [meta_readonly (sid_rent (ak_ids K)) False]"
    "in_program_id ix = in_program_id (create_associated_token_account_v1 K funding wallet mint_key)"
  by (simp_all add: created_accounts [OF assms] create_associated_token_account_v1_def get_associated_token_address_def)

text \<open>Recovering is signed by the wallet alone, and writes to the wallet, its account for the nested
  mint and the nested account, which is the one that creating an account for the owner's
  associated account makes.\<close>

lemma recover_nested_effect:
  assumes "recover_nested K wallet owner_mint nested_mint pid = Ok ix"
    and "create_associated_token_account K wallet wallet owner_mint pid = Ok owner_ix"
    and "create_associated_token_account K wallet (am_pubkey (in_accounts owner_ix ! 1)) nested_mint pid = Ok nested_ix"
    and "create_associated_token_account K wallet wallet nested_mint pid = Ok to_ix"
  shows "signed_keys ix = {wallet}"
    "written_keys ix = {am_pubkey (in_accounts nested_ix ! 1), am_pubkey (in_accounts to_ix ! 1), wallet}"
  using assms(1) created_accounts(1) [OF assms(2)] created_accounts(1) [OF assms(3)] created_accounts(1) [OF assms(4)]
  by (auto simp: recover_nested_def Let_def signed_keys_def written_keys_def simp del: set_filter split: sum.splits)

end
