(* ===== verification/AccountDecoder.thy ===== *)
theory AccountDecoder
  imports TokenUi PgTypes
begin

text \<open>
  The account decoder (\<open>account_decoder/mod.rs\<close>, \<open>parse_token.rs\<close>,
  \<open>parse_token_extension.rs\<close>): accounts and token amounts as the RPC presents them. Base58,
  base64 and the strings of keys are the crates', a record of functions with the law that
  decoding undoes encoding; strings are bytes, a JSON value and a float are type parameters.
\<close>

section \<open>Accounts\<close>

record ui_codec =
  uc_bs58_encode :: "bytes \<Rightarrow> bytes"
  uc_bs58_decode :: "bytes \<Rightarrow> bytes option"
  uc_base64_encode :: "bytes \<Rightarrow> bytes"
  uc_base64_decode :: "bytes \<Rightarrow> bytes option"
  uc_key_to_string :: "pubkey \<Rightarrow> bytes"
  uc_key_from_str :: "bytes \<Rightarrow> pubkey option"

record ui_data_slice_config =
  sl_offset :: nat
  sl_length :: nat

definition slice_data :: "bytes \<Rightarrow> ui_data_slice_config option \<Rightarrow> (unit, bytes) result" where
  "slice_data data config = (case config of
      Some c \<Rightarrow>
        if sl_offset c \<ge> length data then Ok []
        else if sl_length c > length data - sl_offset c then slice data (sl_offset c) (length data)
        else slice data (sl_offset c) (sl_offset c + sl_length c)
    | None \<Rightarrow> Ok data)"

datatype ui_account_encoding = UE_Binary | UE_Base58 | UE_Base64 | UE_JsonParsed

record 'json parsed_account =
  pa_program :: bytes
  pa_parsed :: 'json
  pa_space :: u64

datatype 'json ui_account_data =
    UD_LegacyBinary bytes
  | UD_Json "'json parsed_account"
  | UD_Binary bytes ui_account_encoding

record 'json ui_account =
  ui_lamports :: u64
  ui_data :: "'json ui_account_data"
  ui_owner :: bytes
  ui_executable :: bool
  ui_rent_epoch :: u64

definition MAX_BASE58_BYTES :: nat where "MAX_BASE58_BYTES = 128"

text \<open>The bytes of ``error: data too large for bs58 encoding''.\<close>

definition data_too_large :: bytes where
  "data_too_large = [101, 114, 114, 111, 114, 58, 32, 100, 97, 116, 97, 32, 116, 111, 111, 32, 108, 97, 114,
     103, 101, 32, 102, 111, 114, 32, 98, 115, 53, 56, 32, 101, 110, 99, 111, 100, 105, 110,
     103]"

definition encode_bs58 :: "ui_codec \<Rightarrow> account \<Rightarrow> ui_data_slice_config option \<Rightarrow> (unit, bytes) result" where
  "encode_bs58 C account config =
     (if length (acct_data account) \<le> MAX_BASE58_BYTES
      then try_bind (slice_data (acct_data account) config) (\<lambda>d. Ok (uc_bs58_encode C d))
      else Ok data_too_large)"

datatype parsable_account =
    PA_BpfUpgradeableLoader | PA_Config | PA_Nonce | PA_SplToken | PA_SplToken2022 | PA_Stake | PA_Sysvar | PA_Vote

datatype 'json parse_account_error =
    PAE_AccountNotParsable parsable_account
  | PAE_ProgramNotParsable
  | PAE_AdditionalDataMissing bytes
  | PAE_InstructionError
  | PAE_SerdeJsonError

text \<open>Parsing is not implemented: every program is reported as not parsable.\<close>

definition parse_account_data ::
  "pubkey \<Rightarrow> pubkey \<Rightarrow> bytes \<Rightarrow> u8 option \<Rightarrow> ('json parse_account_error, 'json parsed_account) result" where
  "parse_account_data key program_id data additional_data = Fail PAE_ProgramNotParsable"

definition ui_account_encode ::
  "ui_codec \<Rightarrow> pubkey \<Rightarrow> account \<Rightarrow> ui_account_encoding \<Rightarrow> u8 option \<Rightarrow> ui_data_slice_config option \<Rightarrow>
   (unit, 'json ui_account) result" where
  "ui_account_encode C key account encoding additional_data config =
     try_bind (case encoding of
         UE_Binary \<Rightarrow> try_bind (encode_bs58 C account config) (\<lambda>d. Ok (UD_LegacyBinary d))
       | UE_Base58 \<Rightarrow> try_bind (encode_bs58 C account config) (\<lambda>d. Ok (UD_Binary d encoding))
       | UE_Base64 \<Rightarrow> try_bind (slice_data (acct_data account) config) (\<lambda>d.
           Ok (UD_Binary (uc_base64_encode C d) encoding))
       | UE_JsonParsed \<Rightarrow>
           case parse_account_data key (acct_owner account) (acct_data account) additional_data of
             Inr parsed_data \<Rightarrow> Ok (UD_Json parsed_data)
           | Inl _ \<Rightarrow> Ok (UD_Binary (uc_base64_encode C (acct_data account)) UE_Base64)) (\<lambda>data.
     Ok \<lparr>ui_lamports = acct_lamports account, ui_data = data, ui_owner = uc_key_to_string C (acct_owner account),
        ui_executable = acct_executable account, ui_rent_epoch = acct_rent_epoch account\<rparr>)"

definition ui_account_decode :: "ui_codec \<Rightarrow> 'json ui_account \<Rightarrow> account option" where
  "ui_account_decode C u =
     Option.bind (case ui_data u of
         UD_Json _ \<Rightarrow> None
       | UD_LegacyBinary blob \<Rightarrow> uc_bs58_decode C blob
       | UD_Binary blob encoding \<Rightarrow> (case encoding of
             UE_Base58 \<Rightarrow> uc_bs58_decode C blob
           | UE_Base64 \<Rightarrow> uc_base64_decode C blob
           | _ \<Rightarrow> None)) (\<lambda>data.
     Option.bind (uc_key_from_str C (ui_owner u)) (\<lambda>owner.
     Some \<lparr>acct_lamports = ui_lamports u, acct_data = data, acct_owner = owner,
       acct_executable = ui_executable u, acct_rent_epoch = ui_rent_epoch u\<rparr>))"

section \<open>Token amounts\<close>

datatype ui_account_state = UAS_Uninitialized | UAS_Initialized | UAS_Frozen

definition ui_account_state_from :: "account_state \<Rightarrow> ui_account_state" where
  "ui_account_state_from s = (case s of
      AS_Uninitialized \<Rightarrow> UAS_Uninitialized | AS_Initialized \<Rightarrow> UAS_Initialized | AS_Frozen \<Rightarrow> UAS_Frozen)"

definition real_number_string :: "u64 \<Rightarrow> u8 \<Rightarrow> bytes" where
  "real_number_string amt dec =
     (let d = unat dec in
      if d > 0 then
        let s = zero_padded (d + 1) (unat amt) in
        take (length s - d) s @ [char_dot] @ drop (length s - d) s
      else decimal (unat amt))"

definition real_number_string_trimmed :: "u64 \<Rightarrow> u8 \<Rightarrow> bytes" where
  "real_number_string_trimmed amt dec =
     (let s = real_number_string amt dec in
      if dec > 0 then trim_end_matches char_dot (trim_end_matches char_zero s) else s)"

record 'f ui_token_amount =
  uta_ui_amount :: "'f option"
  uta_decimals :: u8
  uta_amount :: bytes
  uta_ui_amount_string :: bytes

definition uta_real_number_string :: "'f ui_token_amount \<Rightarrow> bytes" where
  "uta_real_number_string u =
     real_number_string (case parse_u64 (uta_amount u) of Some n \<Rightarrow> n | None \<Rightarrow> 0) (uta_decimals u)"

definition uta_real_number_string_trimmed :: "'f ui_token_amount \<Rightarrow> bytes" where
  "uta_real_number_string_trimmed u =
     (if uta_ui_amount_string u \<noteq> [] then uta_ui_amount_string u
      else real_number_string_trimmed (case parse_u64 (uta_amount u) of Some n \<Rightarrow> n | None \<Rightarrow> 0) (uta_decimals u))"

section \<open>Transfer fees\<close>

record ui_transfer_fee =
  utf_epoch :: u64
  utf_maximum_fee :: u64
  utf_basis_points :: u16

definition ui_transfer_fee_from :: "transfer_fee \<Rightarrow> ui_transfer_fee" where
  "ui_transfer_fee_from t =
     \<lparr>utf_epoch = fee_epoch t, utf_maximum_fee = maximum_fee t, utf_basis_points = transfer_fee_basis_points t\<rparr>"

record ui_transfer_fee_config =
  utc_transfer_fee_config_authority :: "bytes option"
  utc_withdraw_withheld_authority :: "bytes option"
  utc_withheld_amount :: u64
  utc_older_transfer_fee :: ui_transfer_fee
  utc_newer_transfer_fee :: ui_transfer_fee

definition ui_transfer_fee_config_from :: "ui_codec \<Rightarrow> transfer_fee_config \<Rightarrow> ui_transfer_fee_config" where
  "ui_transfer_fee_config_from C t =
     \<lparr>utc_transfer_fee_config_authority = map_option (uc_key_to_string C) (optional_key_get (transfer_fee_config_authority t)),
      utc_withdraw_withheld_authority = map_option (uc_key_to_string C) (optional_key_get (withdraw_withheld_authority t)),
      utc_withheld_amount = cfg_withheld_amount t,
      utc_older_transfer_fee = ui_transfer_fee_from (older_transfer_fee t),
      utc_newer_transfer_fee = ui_transfer_fee_from (newer_transfer_fee t)\<rparr>"

section \<open>Round trips\<close>

definition codec_laws :: "ui_codec \<Rightarrow> bool" where
  "codec_laws C \<longleftrightarrow>
     (\<forall>d. uc_bs58_decode C (uc_bs58_encode C d) = Some d) \<and>
     (\<forall>d. uc_base64_decode C (uc_base64_encode C d) = Some d) \<and>
     (\<forall>k. uc_key_from_str C (uc_key_to_string C k) = Some k) \<and>
     (\<forall>s. 32 \<in> set s \<longrightarrow> uc_bs58_decode C s = None)"

lemma slice_data_eq:
  "slice_data data config = Ok (case config of None \<Rightarrow> data | Some c \<Rightarrow> take (sl_length c) (drop (sl_offset c) data))"
  by (auto simp: slice_data_def slice_def split: option.split)

lemma real_number_string_eq:
  "real_number_string = amount_to_ui_amount_string" "real_number_string_trimmed = amount_to_ui_amount_string_trimmed"
  by (auto simp: fun_eq_iff real_number_string_def amount_to_ui_amount_string_def Let_def
      real_number_string_trimmed_def amount_to_ui_amount_string_trimmed_def)

lemma parse_decimal: "parse_u64 (decimal (unat n)) = Some n"
  using parse_u64_value [of "decimal (unat n)"] decimal_digits [of "unat n"] value_decimal [of "unat n"]
    unsigned_less [of n] by simp

text \<open>An account sent to a client and read back is the account, with its data sliced as asked; only
  base58 loses it, when the data are longer than 128 bytes.\<close>

theorem ui_account_round_trip:
  assumes "codec_laws C"
  shows "\<exists>u :: 'json ui_account. ui_account_encode C key a encoding extra config = Ok u \<and>
    ui_account_decode C u =
      (if encoding \<in> {UE_Binary, UE_Base58} \<and> length (acct_data a) > 128 then None
       else Some (a\<lparr>acct_data := (if encoding = UE_JsonParsed then acct_data a
           else case config of None \<Rightarrow> acct_data a | Some c \<Rightarrow> take (sl_length c) (drop (sl_offset c) (acct_data a)))\<rparr>))"
proof -
  have "32 \<in> set data_too_large" by (simp add: data_too_large_def)
  with assms show ?thesis
    by (cases encoding)
      (auto simp: ui_account_encode_def ui_account_decode_def encode_bs58_def slice_data_eq parse_account_data_def
        codec_laws_def MAX_BASE58_BYTES_def not_le)
qed

text \<open>A codec that writes each byte as two letters.\<close>

fun letters_decode :: "bytes \<Rightarrow> bytes option" where
  "letters_decode [] = Some []"
| "letters_decode [a] = None"
| "letters_decode (a # b # s) =
     (if 97 \<le> unat a \<and> unat a < 113 \<and> 97 \<le> unat b \<and> unat b < 113
      then map_option (\<lambda>d. word_of_nat (16 * (unat a - 97) + (unat b - 97)) # d) (letters_decode s)
      else None)"

definition letters_encode :: "bytes \<Rightarrow> bytes" where
  "letters_encode d = concat (map (\<lambda>b. [word_of_nat (97 + unat b div 16), word_of_nat (97 + unat b mod 16)]) d)"

definition ui_codec0 :: ui_codec where
  "ui_codec0 = \<lparr>uc_bs58_encode = letters_encode, uc_bs58_decode = letters_decode,
     uc_base64_encode = id, uc_base64_decode = Some,
     uc_key_to_string = to_le_bytes, uc_key_from_str = (\<lambda>s. Some (from_le_bytes s))\<rparr>"

lemma letters_decode_encode: "letters_decode (letters_encode d) = Some d"
proof (induction d)
  case (Cons b d)
  have b: "unat b < 256" using unsigned_less [of b] by simp
  have letter: "unat (word_of_nat (97 + x) :: byte) = 97 + x" if "x < 16" for x
    by (subst unat_of_nat) (use that in simp)
  have "unat (word_of_nat (97 + unat b div 16) :: byte) = 97 + unat b div 16"
    "unat (word_of_nat (97 + unat b mod 16) :: byte) = 97 + unat b mod 16"
    by (rule letter, use b in linarith, rule letter, simp)
  moreover have "unat b div 16 < 16" using b by linarith
  ultimately show ?case using Cons b by (simp add: letters_encode_def mult_div_mod_eq)
qed (simp add: letters_encode_def)

lemma letters_decode_space: "32 \<in> set s \<Longrightarrow> letters_decode s = None"
  by (induction s rule: letters_decode.induct) auto

lemma codec_laws0: "codec_laws ui_codec0"
  by (simp add: codec_laws_def ui_codec0_def letters_decode_encode letters_decode_space bytes_simps)

theorem ui_account_round_trip_witness:
  "\<exists>u :: unit ui_account. ui_account_encode ui_codec0 1 \<lparr>acct_lamports = 5, acct_data = [1, 2, 3], acct_owner = 9,
       acct_executable = False, acct_rent_epoch = 0\<rparr> UE_Base58 None (Some \<lparr>sl_offset = 1, sl_length = 1\<rparr>) = Ok u \<and>
     map_option acct_data (ui_account_decode ui_codec0 u) = Some [2]"
  using ui_account_round_trip [OF codec_laws0, where key = 1 and encoding = UE_Base58 and extra = None and
      config = "Some \<lparr>sl_offset = 1, sl_length = 1\<rparr>" and
      a = "\<lparr>acct_lamports = 5, acct_data = [1, 2, 3], acct_owner = 9, acct_executable = False, acct_rent_epoch = 0\<rparr>"]
  by auto

end
