(* ===== verification/TransactionStatus.thy ===== *)
theory TransactionStatus
  imports AccountDecoder
begin

text \<open>
  Transactions, messages and blocks as the RPC presents them (\<open>transaction_status.rs\<close>). The
  SDK's messages are records of what the code reads of them; resolving an index in a
  message's own and loaded keys (\<open>AccountKeys\<close>), the flags of a loaded message, \<open>bincode\<close> and
  \<open>sanitize\<close> are fields of \<open>tx_sdk\<close>, whose documented behaviour is \<open>tx_sdk_laws\<close>.
\<close>

section \<open>The SDK's messages\<close>

record message_header =
  mh_num_required_signatures :: u8
  mh_num_readonly_signed_accounts :: u8
  mh_num_readonly_unsigned_accounts :: u8

record loaded_addresses =
  la_writable :: "pubkey list"
  la_readonly :: "pubkey list"

record address_table_lookup =
  atl_account_key :: pubkey
  atl_writable_indexes :: "u8 list"
  atl_readonly_indexes :: "u8 list"

record tx_message =
  tm_header :: message_header
  tm_account_keys :: "pubkey list"
  tm_recent_blockhash :: hash
  tm_instructions :: "compiled_instruction list"

datatype versioned_message = VM_Legacy tx_message | VM_V0 tx_message "address_table_lookup list"

record tx_source =
  ts_signatures :: "signature list"
  ts_message :: versioned_message

record tx_sdk =
  tk_codec :: ui_codec
  tk_account_key :: "pubkey list \<Rightarrow> loaded_addresses option \<Rightarrow> nat \<Rightarrow> pubkey option"
  tk_is_writable :: "tx_message \<Rightarrow> nat \<Rightarrow> bool"
  tk_is_signer :: "tx_message \<Rightarrow> nat \<Rightarrow> bool"
  tk_loaded_is_writable :: "tx_message \<Rightarrow> loaded_addresses \<Rightarrow> nat \<Rightarrow> bool"
  tk_loaded_is_signer :: "tx_message \<Rightarrow> loaded_addresses \<Rightarrow> nat \<Rightarrow> bool"
  tk_hash_to_string :: "hash \<Rightarrow> bytes"
  tk_signature_to_string :: "signature \<Rightarrow> bytes"
  tk_serialize :: "tx_source \<Rightarrow> bytes option"
  tk_deserialize :: "bytes \<Rightarrow> tx_source option"
  tk_sanitize_ok :: "tx_source \<Rightarrow> bool"

section \<open>Instructions\<close>

datatype transaction_binary_encoding = TBE_Base58 | TBE_Base64

datatype ui_transaction_encoding = UTE_Binary | UTE_Base64 | UTE_Base58 | UTE_Json | UTE_JsonParsed

definition into_binary_encoding :: "ui_transaction_encoding \<Rightarrow> transaction_binary_encoding option" where
  "into_binary_encoding e = (case e of
      UTE_Binary \<Rightarrow> Some TBE_Base58 | UTE_Base58 \<Rightarrow> Some TBE_Base58 | UTE_Base64 \<Rightarrow> Some TBE_Base64 | _ \<Rightarrow> None)"

record ui_parsed_account =
  upa_pubkey :: bytes
  upa_writable :: bool
  upa_signer :: bool

record ui_compiled_instruction =
  uci_program_id_index :: u8
  uci_accounts :: "u8 list"
  uci_data :: bytes

definition ui_compiled_instruction_from :: "tx_sdk \<Rightarrow> compiled_instruction \<Rightarrow> ui_compiled_instruction" where
  "ui_compiled_instruction_from K ix =
     \<lparr>uci_program_id_index = ci_program_id_index ix, uci_accounts = ci_accounts ix,
      uci_data = uc_bs58_encode (tk_codec K) (ci_data ix)\<rparr>"

record ui_partially_decoded_instruction =
  updi_program_id :: bytes
  updi_accounts :: "bytes list"
  updi_data :: bytes

text \<open>Indexing the keys panics past their end.\<close>

type_synonym account_keys = "nat \<Rightarrow> pubkey option"

definition key_string :: "tx_sdk \<Rightarrow> account_keys \<Rightarrow> u8 \<Rightarrow> (unit, bytes) result" where
  "key_string K keys i = (case keys (unat i) of
      Some k \<Rightarrow> Ok (uc_key_to_string (tk_codec K) k) | None \<Rightarrow> Panicked)"

fun collect :: "('a \<Rightarrow> ('e, 'b) result) \<Rightarrow> 'a list \<Rightarrow> ('e, 'b list) result" where
  "collect f [] = Ok []"
| "collect f (x # xs) = try_bind (f x) (\<lambda>y. try_bind (collect f xs) (\<lambda>ys. Ok (y # ys)))"

definition partially_decoded_from ::
  "tx_sdk \<Rightarrow> compiled_instruction \<Rightarrow> account_keys \<Rightarrow> (unit, ui_partially_decoded_instruction) result" where
  "partially_decoded_from K ix keys =
     try_bind (key_string K keys (ci_program_id_index ix)) (\<lambda>program_id.
     try_bind (collect (key_string K keys) (ci_accounts ix)) (\<lambda>accounts.
     Ok \<lparr>updi_program_id = program_id, updi_accounts = accounts,
        updi_data = uc_bs58_encode (tk_codec K) (ci_data ix)\<rparr>))"

record 'json parsed_instruction =
  pi_program :: bytes
  pi_program_id :: bytes
  pi_parsed :: 'json

datatype 'json ui_parsed_instruction =
    UPI_Parsed "'json parsed_instruction"
  | UPI_PartiallyDecoded ui_partially_decoded_instruction

datatype 'json ui_instruction =
    UI_Compiled ui_compiled_instruction
  | UI_Parsed "'json ui_parsed_instruction"

text \<open>No program's instructions are parsed yet: they are only partially decoded.\<close>

definition ui_instruction_parse ::
  "tx_sdk \<Rightarrow> compiled_instruction \<Rightarrow> account_keys \<Rightarrow> (unit, 'json ui_instruction) result" where
  "ui_instruction_parse K ix keys =
     try_bind (partially_decoded_from K ix keys) (\<lambda>p. Ok (UI_Parsed (UPI_PartiallyDecoded p)))"

section \<open>Messages\<close>

record ui_address_table_lookup =
  ual_account_key :: bytes
  ual_writable_indexes :: "u8 list"
  ual_readonly_indexes :: "u8 list"

definition ui_address_table_lookup_from :: "tx_sdk \<Rightarrow> address_table_lookup \<Rightarrow> ui_address_table_lookup" where
  "ui_address_table_lookup_from K l =
     \<lparr>ual_account_key = uc_key_to_string (tk_codec K) (atl_account_key l),
      ual_writable_indexes = atl_writable_indexes l, ual_readonly_indexes = atl_readonly_indexes l\<rparr>"

record 'json ui_parsed_message =
  upm_account_keys :: "ui_parsed_account list"
  upm_recent_blockhash :: bytes
  upm_instructions :: "'json ui_instruction list"
  upm_address_table_lookups :: "ui_address_table_lookup list option"

record ui_raw_message =
  urm_header :: message_header
  urm_account_keys :: "bytes list"
  urm_recent_blockhash :: bytes
  urm_instructions :: "ui_compiled_instruction list"
  urm_address_table_lookups :: "ui_address_table_lookup list option"

datatype 'json ui_message = UM_Parsed "'json ui_parsed_message" | UM_Raw ui_raw_message

definition parsed_accounts_from ::
  "tx_sdk \<Rightarrow> pubkey list \<Rightarrow> (nat \<Rightarrow> bool) \<Rightarrow> (nat \<Rightarrow> bool) \<Rightarrow> ui_parsed_account list" where
  "parsed_accounts_from K keys writable signer =
     map (\<lambda>(i, k). \<lparr>upa_pubkey = uc_key_to_string (tk_codec K) k, upa_writable = writable i, upa_signer = signer i\<rparr>)
       (enumerate 0 keys)"

definition parse_accounts :: "tx_sdk \<Rightarrow> tx_message \<Rightarrow> ui_parsed_account list" where
  "parse_accounts K m = parsed_accounts_from K (tm_account_keys m) (tk_is_writable K m) (tk_is_signer K m)"

definition parse_static_accounts :: "tx_sdk \<Rightarrow> tx_message \<Rightarrow> loaded_addresses \<Rightarrow> ui_parsed_account list" where
  "parse_static_accounts K m loaded =
     parsed_accounts_from K (tm_account_keys m) (tk_loaded_is_writable K m loaded) (tk_loaded_is_signer K m loaded)"

definition raw_message :: "tx_sdk \<Rightarrow> tx_message \<Rightarrow> ui_address_table_lookup list option \<Rightarrow> ui_raw_message" where
  "raw_message K m lookups =
     \<lparr>urm_header = tm_header m, urm_account_keys = map (uc_key_to_string (tk_codec K)) (tm_account_keys m),
      urm_recent_blockhash = tk_hash_to_string K (tm_recent_blockhash m),
      urm_instructions = map (ui_compiled_instruction_from K) (tm_instructions m),
      urm_address_table_lookups = lookups\<rparr>"

definition legacy_message_encode ::
  "tx_sdk \<Rightarrow> tx_message \<Rightarrow> ui_transaction_encoding \<Rightarrow> (unit, 'json ui_message) result" where
  "legacy_message_encode K m encoding =
     (if encoding = UTE_JsonParsed then
        try_bind (collect (\<lambda>ix. ui_instruction_parse K ix (tk_account_key K (tm_account_keys m) None))
            (tm_instructions m)) (\<lambda>ixs.
        Ok (UM_Parsed \<lparr>upm_account_keys = parse_accounts K m,
          upm_recent_blockhash = tk_hash_to_string K (tm_recent_blockhash m),
          upm_instructions = ixs, upm_address_table_lookups = None\<rparr>))
      else Ok (UM_Raw (raw_message K m None)))"

definition v0_message_json_encode ::
  "tx_sdk \<Rightarrow> tx_message \<Rightarrow> address_table_lookup list \<Rightarrow> 'json ui_message" where
  "v0_message_json_encode K m lookups =
     UM_Raw (raw_message K m (Some (map (ui_address_table_lookup_from K) lookups)))"

definition v0_message_encode_with_meta ::
  "tx_sdk \<Rightarrow> tx_message \<Rightarrow> address_table_lookup list \<Rightarrow> ui_transaction_encoding \<Rightarrow> loaded_addresses \<Rightarrow>
   (unit, 'json ui_message) result" where
  "v0_message_encode_with_meta K m lookups encoding loaded =
     (if encoding = UTE_JsonParsed then
        try_bind (collect (\<lambda>ix. ui_instruction_parse K ix (tk_account_key K (tm_account_keys m) (Some loaded)))
            (tm_instructions m)) (\<lambda>ixs.
        Ok (UM_Parsed \<lparr>upm_account_keys = parse_static_accounts K m loaded,
          upm_recent_blockhash = tk_hash_to_string K (tm_recent_blockhash m),
          upm_instructions = ixs,
          upm_address_table_lookups = Some (map (ui_address_table_lookup_from K) lookups)\<rparr>))
      else Ok (v0_message_json_encode K m lookups))"

section \<open>Transactions\<close>

record 'json ui_transaction =
  utx_signatures :: "bytes list"
  utx_message :: "'json ui_message"

datatype 'json encoded_transaction =
    ET_LegacyBinary bytes
  | ET_Binary bytes transaction_binary_encoding
  | ET_Json "'json ui_transaction"

definition bincode_serialize :: "tx_sdk \<Rightarrow> tx_source \<Rightarrow> (unit, bytes) result" where
  "bincode_serialize K t = (case tk_serialize K t of Some d \<Rightarrow> Ok d | None \<Rightarrow> Panicked)"

definition ui_transaction_of :: "tx_sdk \<Rightarrow> tx_source \<Rightarrow> 'json ui_message \<Rightarrow> 'json encoded_transaction" where
  "ui_transaction_of K t m =
     ET_Json \<lparr>utx_signatures = map (tk_signature_to_string K) (ts_signatures t), utx_message = m\<rparr>"

definition transaction_json_encode :: "tx_sdk \<Rightarrow> tx_source \<Rightarrow> (unit, 'json encoded_transaction) result" where
  "transaction_json_encode K t =
     try_bind (case ts_message t of
         VM_Legacy m \<Rightarrow> legacy_message_encode K m UTE_Json
       | VM_V0 m lookups \<Rightarrow> Ok (v0_message_json_encode K m lookups)) (\<lambda>m.
     Ok (ui_transaction_of K t m))"

definition transaction_encode_with_meta ::
  "tx_sdk \<Rightarrow> tx_source \<Rightarrow> ui_transaction_encoding \<Rightarrow> loaded_addresses \<Rightarrow>
   (unit, 'json encoded_transaction) result" where
  "transaction_encode_with_meta K t encoding loaded = (case encoding of
      UTE_Binary \<Rightarrow> try_bind (bincode_serialize K t) (\<lambda>d. Ok (ET_LegacyBinary (uc_bs58_encode (tk_codec K) d)))
    | UTE_Base58 \<Rightarrow> try_bind (bincode_serialize K t) (\<lambda>d.
        Ok (ET_Binary (uc_bs58_encode (tk_codec K) d) TBE_Base58))
    | UTE_Base64 \<Rightarrow> try_bind (bincode_serialize K t) (\<lambda>d.
        Ok (ET_Binary (uc_base64_encode (tk_codec K) d) TBE_Base64))
    | UTE_Json \<Rightarrow> transaction_json_encode K t
    | UTE_JsonParsed \<Rightarrow>
        try_bind (case ts_message t of
            VM_Legacy m \<Rightarrow> legacy_message_encode K m UTE_JsonParsed
          | VM_V0 m lookups \<Rightarrow> v0_message_encode_with_meta K m lookups UTE_JsonParsed loaded) (\<lambda>m.
        Ok (ui_transaction_of K t m)))"

definition decode_blob :: "tx_sdk \<Rightarrow> bytes \<Rightarrow> transaction_binary_encoding \<Rightarrow> tx_source option" where
  "decode_blob K blob encoding = (case encoding of
      TBE_Base58 \<Rightarrow> Option.bind (uc_bs58_decode (tk_codec K) blob) (tk_deserialize K)
    | TBE_Base64 \<Rightarrow> Option.bind (uc_base64_decode (tk_codec K) blob) (tk_deserialize K))"

definition encoded_transaction_decode :: "tx_sdk \<Rightarrow> 'json encoded_transaction \<Rightarrow> tx_source option" where
  "encoded_transaction_decode K e =
     Option.bind (case e of
         ET_Json _ \<Rightarrow> None
       | ET_LegacyBinary blob \<Rightarrow> decode_blob K blob TBE_Base58
       | ET_Binary blob encoding \<Rightarrow> decode_blob K blob encoding) (\<lambda>t.
     if tk_sanitize_ok K t then Some t else None)"

section \<open>The status of a transaction\<close>

record reward =
  rw_pubkey :: bytes
  rw_lamports :: "64 word"
  rw_post_balance :: u64
  rw_reward_type :: "u8 option"
  rw_commission :: "u8 option"

record inner_instructions =
  ii_index :: u8
  ii_instructions :: "compiled_instruction list"

record 'json ui_inner_instructions =
  uii_index :: u8
  uii_instructions :: "'json ui_instruction list"

definition ui_inner_instructions_parse ::
  "tx_sdk \<Rightarrow> inner_instructions \<Rightarrow> account_keys \<Rightarrow> (unit, 'json ui_inner_instructions) result" where
  "ui_inner_instructions_parse K i keys =
     try_bind (collect (\<lambda>ix. ui_instruction_parse K ix keys) (ii_instructions i)) (\<lambda>ixs.
     Ok \<lparr>uii_index = ii_index i, uii_instructions = ixs\<rparr>)"

definition ui_inner_instructions_from :: "tx_sdk \<Rightarrow> inner_instructions \<Rightarrow> 'json ui_inner_instructions" where
  "ui_inner_instructions_from K i =
     \<lparr>uii_index = ii_index i,
      uii_instructions = map (\<lambda>ix. UI_Compiled (ui_compiled_instruction_from K ix)) (ii_instructions i)\<rparr>"

record 'f transaction_token_balance =
  ttb_account_index :: u8
  ttb_mint :: bytes
  ttb_ui_token_amount :: "'f ui_token_amount"
  ttb_owner :: bytes
  ttb_program_id :: bytes

record 'f ui_transaction_token_balance =
  utb_account_index :: u8
  utb_mint :: bytes
  utb_ui_token_amount :: "'f ui_token_amount"
  utb_owner :: "bytes option"
  utb_program_id :: "bytes option"

definition ui_transaction_token_balance_from ::
  "'f transaction_token_balance \<Rightarrow> 'f ui_transaction_token_balance" where
  "ui_transaction_token_balance_from b =
     \<lparr>utb_account_index = ttb_account_index b, utb_mint = ttb_mint b,
      utb_ui_token_amount = ttb_ui_token_amount b,
      utb_owner = (if ttb_owner b \<noteq> [] then Some (ttb_owner b) else None),
      utb_program_id = (if ttb_program_id b \<noteq> [] then Some (ttb_program_id b) else None)\<rparr>"

record ui_loaded_addresses =
  ula_writable :: "bytes list"
  ula_readonly :: "bytes list"

definition ui_loaded_addresses_from :: "tx_sdk \<Rightarrow> loaded_addresses \<Rightarrow> ui_loaded_addresses" where
  "ui_loaded_addresses_from K l =
     \<lparr>ula_writable = map (uc_key_to_string (tk_codec K)) (la_writable l),
      ula_readonly = map (uc_key_to_string (tk_codec K)) (la_readonly l)\<rparr>"

record 'f transaction_status_meta =
  tsm_status :: "(transaction_error, unit) result"
  tsm_fee :: u64
  tsm_pre_balances :: "u64 list"
  tsm_post_balances :: "u64 list"
  tsm_inner_instructions :: "inner_instructions list option"
  tsm_log_messages :: "bytes list option"
  tsm_pre_token_balances :: "'f transaction_token_balance list option"
  tsm_post_token_balances :: "'f transaction_token_balance list option"
  tsm_rewards :: "reward list option"
  tsm_loaded_addresses :: loaded_addresses
  tsm_return_data :: "(pubkey \<times> bytes) option"

definition transaction_status_meta_default :: "'f transaction_status_meta" where
  "transaction_status_meta_default =
     \<lparr>tsm_status = Ok (), tsm_fee = 0, tsm_pre_balances = [], tsm_post_balances = [],
      tsm_inner_instructions = None, tsm_log_messages = None, tsm_pre_token_balances = None,
      tsm_post_token_balances = None, tsm_rewards = None,
      tsm_loaded_addresses = \<lparr>la_writable = [], la_readonly = []\<rparr>, tsm_return_data = None\<rparr>"

section \<open>Blocks\<close>

text \<open>The transactions of a block with their metas, \<open>'t\<close>, are carried over as they are.\<close>

record 't ui_confirmed_block =
  ucb_previous_blockhash :: bytes
  ucb_blockhash :: bytes
  ucb_parent_slot :: u64
  ucb_transactions :: "'t list option"
  ucb_signatures :: "bytes list option"
  ucb_rewards :: "reward list option"
  ucb_block_time :: "64 word option"
  ucb_block_height :: "u64 option"

record 't encoded_confirmed_block =
  ecb_previous_blockhash :: bytes
  ecb_blockhash :: bytes
  ecb_parent_slot :: u64
  ecb_transactions :: "'t list"
  ecb_rewards :: "reward list"
  ecb_block_time :: "64 word option"
  ecb_block_height :: "u64 option"

definition encoded_confirmed_block_from :: "'t ui_confirmed_block \<Rightarrow> 't encoded_confirmed_block" where
  "encoded_confirmed_block_from b =
     \<lparr>ecb_previous_blockhash = ucb_previous_blockhash b, ecb_blockhash = ucb_blockhash b,
      ecb_parent_slot = ucb_parent_slot b,
      ecb_transactions = (case ucb_transactions b of Some ts \<Rightarrow> ts | None \<Rightarrow> []),
      ecb_rewards = (case ucb_rewards b of Some rs \<Rightarrow> rs | None \<Rightarrow> []),
      ecb_block_time = ucb_block_time b, ecb_block_height = ucb_block_height b\<rparr>"

section \<open>Reading transactions back\<close>

text \<open>What is used of \<open>bincode\<close> and \<open>AccountKeys\<close>: deserializing undoes serializing, and an index
  resolves in the keys of the message, followed by the writable and the readonly loaded keys.\<close>

definition all_keys :: "pubkey list \<Rightarrow> loaded_addresses option \<Rightarrow> pubkey list" where
  "all_keys keys loaded = keys @ (case loaded of None \<Rightarrow> [] | Some l \<Rightarrow> la_writable l @ la_readonly l)"

definition tx_sdk_laws :: "tx_sdk \<Rightarrow> bool" where
  "tx_sdk_laws K \<longleftrightarrow> codec_laws (tk_codec K) \<and>
     (\<forall>t d. tk_serialize K t = Some d \<longrightarrow> tk_deserialize K d = Some t) \<and>
     (\<forall>keys loaded i. tk_account_key K keys loaded i =
        (if i < length (all_keys keys loaded) then Some (all_keys keys loaded ! i) else None))"

lemma collect_panics:
  fixes f :: "'a \<Rightarrow> (unit, 'b) result"
  shows "(\<exists>ys. collect f xs = Ok ys) \<longleftrightarrow> (\<forall>x \<in> set xs. \<exists>y. f x = Ok y)"
  by (induction xs) (auto simp: try_bind_eq_Ok)

lemma unit_result_panics:
  fixes r :: "(unit, 'a) result"
  assumes "\<And>e. r \<noteq> Fail e"
  shows "r = Panicked \<longleftrightarrow> \<not> (\<exists>x. r = Ok x)"
proof (cases r)
  case (Inl a)
  with assms [of "()"] show ?thesis by (cases a) auto
qed simp

definition message_body :: "versioned_message \<Rightarrow> tx_message" where
  "message_body m = (case m of VM_Legacy b \<Rightarrow> b | VM_V0 b _ \<Rightarrow> b)"

text \<open>The keys an instruction of the message may refer to: only those of a version 0 message
  continue with the loaded ones.\<close>

definition message_keys :: "versioned_message \<Rightarrow> loaded_addresses \<Rightarrow> pubkey list" where
  "message_keys m loaded = (case m of
      VM_Legacy b \<Rightarrow> tm_account_keys b
    | VM_V0 b _ \<Rightarrow> tm_account_keys b @ la_writable loaded @ la_readonly loaded)"

definition indexes_within :: "nat \<Rightarrow> compiled_instruction \<Rightarrow> bool" where
  "indexes_within n ix \<longleftrightarrow> (\<forall>i \<in> set (ci_program_id_index ix # ci_accounts ix). unat i < n)"

lemma parse_ok_iff:
  assumes "\<And>i. keys i = (if i < length ks then Some (ks ! i) else None)"
  shows "(\<exists>u :: 'json ui_instruction. ui_instruction_parse K ix keys = Ok u) \<longleftrightarrow> indexes_within (length ks) ix"
proof -
  have key: "(\<exists>s. key_string K keys i = Ok s) \<longleftrightarrow> unat i < length ks" for i
    by (simp add: key_string_def assms)
  have "(\<exists>u :: 'json ui_instruction. ui_instruction_parse K ix keys = Ok u) \<longleftrightarrow>
      (\<exists>p. key_string K keys (ci_program_id_index ix) = Ok p) \<and>
      (\<exists>a. collect (key_string K keys) (ci_accounts ix) = Ok a)"
    by (auto simp: ui_instruction_parse_def partially_decoded_from_def try_bind_eq_Ok)
  then show ?thesis by (simp add: collect_panics key indexes_within_def)
qed

lemma never_fails:
  fixes f :: "'a \<Rightarrow> (unit, 'b) result"
  shows "(\<And>x e. f x \<noteq> Fail e) \<Longrightarrow> collect f xs \<noteq> Fail e"
  by (induction xs) (auto simp: try_bind_def split: sum.splits)

lemma parse_never_fails: "(ui_instruction_parse K ix keys :: (unit, 'json ui_instruction) result) \<noteq> Fail e"
proof -
  have k: "key_string K keys i \<noteq> Fail e" for i e by (simp add: key_string_def split: option.split)
  from k never_fails [of "key_string K keys", OF k] show ?thesis
    by (auto simp: ui_instruction_parse_def partially_decoded_from_def try_bind_def split: sum.splits)
qed

text \<open>C37: the binary encodings of a transaction read back as the transaction, provided it
  passes \<open>sanitize\<close>; the JSON encodings are for display and never read back.\<close>

theorem transaction_codec:
  assumes "tx_sdk_laws K" and "tk_serialize K t = Some d"
  shows "(encoding \<notin> {UTE_Json, UTE_JsonParsed} \<longrightarrow>
      (\<exists>e :: 'json encoded_transaction. transaction_encode_with_meta K t encoding loaded = Ok e \<and>
         encoded_transaction_decode K e = (if tk_sanitize_ok K t then Some t else None))) \<and>
    (\<forall>e :: 'json encoded_transaction. transaction_encode_with_meta K t encoding loaded = Ok e \<longrightarrow>
      encoding \<in> {UTE_Json, UTE_JsonParsed} \<longrightarrow> encoded_transaction_decode K e = None)"
  using assms
  by (cases encoding) (auto simp: transaction_encode_with_meta_def bincode_serialize_def
      encoded_transaction_decode_def decode_blob_def tx_sdk_laws_def codec_laws_def try_bind_eq_Ok
      transaction_json_encode_def ui_transaction_of_def)

text \<open>Showing a transaction with parsed instructions panics exactly when one of its instructions
  refers to a key the message does not have; the other forms never do.\<close>

theorem json_parsed_panics:
  assumes "tx_sdk_laws K" and "tk_serialize K t = Some d"
  shows "(transaction_encode_with_meta K t encoding loaded :: (unit, 'json encoded_transaction) result) = Panicked \<longleftrightarrow>
    encoding = UTE_JsonParsed \<and>
    (\<exists>ix \<in> set (tm_instructions (message_body (ts_message t))).
       \<not> indexes_within (length (message_keys (ts_message t) loaded)) ix)"
proof -
  have keys: "tk_account_key K ks l i = (if i < length (all_keys ks l) then Some (all_keys ks l ! i) else None)" for ks l i
    using assms(1) by (simp add: tx_sdk_laws_def)
  have ixs: "collect (\<lambda>ix. ui_instruction_parse K ix (tk_account_key K ks l)) xs = (Panicked :: (unit, 'json ui_instruction list) result)
      \<longleftrightarrow> (\<exists>ix \<in> set xs. \<not> indexes_within (length (all_keys ks l)) ix)" for ks l xs
    by (subst unit_result_panics [OF never_fails [OF parse_never_fails]])
      (simp add: collect_panics parse_ok_iff [OF keys])
  have bind: "try_bind r (\<lambda>x. Ok (g x)) = Panicked \<longleftrightarrow> r = Panicked" for r :: "(unit, 'a) result" and g :: "'a \<Rightarrow> 'b"
    by (cases r) auto
  show ?thesis
    by (cases encoding; cases "ts_message t")
      (auto simp: transaction_encode_with_meta_def bincode_serialize_def assms(2) transaction_json_encode_def
        legacy_message_encode_def v0_message_encode_with_meta_def ixs bind message_body_def message_keys_def all_keys_def)
qed

text \<open>A transaction of two keys whose only instruction may name a third one.\<close>

definition tx_body0 :: "u8 \<Rightarrow> tx_message" where
  "tx_body0 i =
     \<lparr>tm_header = \<lparr>mh_num_required_signatures = 1, mh_num_readonly_signed_accounts = 0,
        mh_num_readonly_unsigned_accounts = 1\<rparr>,
      tm_account_keys = [11, 12], tm_recent_blockhash = 7,
      tm_instructions = [\<lparr>ci_program_id_index = 1, ci_accounts = [0, i], ci_data = [9]\<rparr>]\<rparr>"

definition ui_tx0 :: tx_source where
  "ui_tx0 = \<lparr>ts_signatures = [5], ts_message = VM_V0 (tx_body0 2) []\<rparr>"

definition tx_sdk0 :: tx_sdk where
  "tx_sdk0 = \<lparr>tk_codec = ui_codec0,
     tk_account_key = (\<lambda>keys loaded i.
       if i < length (all_keys keys loaded) then Some (all_keys keys loaded ! i) else None),
     tk_is_writable = (\<lambda>m i. i = 0), tk_is_signer = (\<lambda>m i. i = 0),
     tk_loaded_is_writable = (\<lambda>m l i. i = 0), tk_loaded_is_signer = (\<lambda>m l i. i = 0),
     tk_hash_to_string = (\<lambda>_. [104]), tk_signature_to_string = (\<lambda>_. [115]),
     tk_serialize = (\<lambda>t. if t = ui_tx0 then Some [1, 2] else None),
     tk_deserialize = (\<lambda>d. if d = [1, 2] then Some ui_tx0 else None), tk_sanitize_ok = (\<lambda>_. True)\<rparr>"

lemma tx_sdk0_laws: "tx_sdk_laws tx_sdk0" "tk_serialize tx_sdk0 ui_tx0 = Some [1, 2]"
  using codec_laws0 by (auto simp: tx_sdk_laws_def tx_sdk0_def)

lemma transaction_codec_witness:
  "\<exists>e :: nat encoded_transaction.
     transaction_encode_with_meta tx_sdk0 ui_tx0 UTE_Base58 \<lparr>la_writable = [], la_readonly = []\<rparr> = Ok e \<and>
     encoded_transaction_decode tx_sdk0 e = Some ui_tx0"
  using transaction_codec [OF tx_sdk0_laws, where encoding = UTE_Base58 and 'json = nat] by (simp add: tx_sdk0_def)

lemma json_parsed_panics_witness:
  "(transaction_encode_with_meta tx_sdk0 ui_tx0 UTE_JsonParsed \<lparr>la_writable = [], la_readonly = []\<rparr> ::
      (unit, nat encoded_transaction) result) = Panicked \<and>
   (transaction_encode_with_meta tx_sdk0 ui_tx0 UTE_JsonParsed \<lparr>la_writable = [13], la_readonly = []\<rparr> ::
      (unit, nat encoded_transaction) result) \<noteq> Panicked"
  unfolding json_parsed_panics [OF tx_sdk0_laws]
  by (simp add: ui_tx0_def tx_body0_def message_body_def message_keys_def indexes_within_def)

end
