(* ===== verification/ClientIo.thy ===== *)
theory ClientIo
  imports Prelude
begin

text \<open>
  Computations that talk to a server or to the terminal: a function of the outside world
  \<open>'w\<close>, which every request may change, to a result and the world after it. An \<open>await\<close>
  followed by \<open>?\<close> is \<open>io_bind\<close>, which stops at the first error or panic.
\<close>

type_synonym ('w, 'e, 'a) io = "'w \<Rightarrow> ('e, 'a) result \<times> 'w"

definition io_lift :: "('e, 'a) result \<Rightarrow> ('w, 'e, 'a) io" where
  "io_lift r w = (r, w)"

abbreviation io_ok :: "'a \<Rightarrow> ('w, 'e, 'a) io" where "io_ok x \<equiv> io_lift (Ok x)"
abbreviation io_fail :: "'e \<Rightarrow> ('w, 'e, 'a) io" where "io_fail e \<equiv> io_lift (Fail e)"

definition io_bind :: "('w, 'e, 'a) io \<Rightarrow> ('a \<Rightarrow> ('w, 'e, 'b) io) \<Rightarrow> ('w, 'e, 'b) io" where
  "io_bind m f w = (case m w of (Inl e, w') \<Rightarrow> (Inl e, w') | (Inr x, w') \<Rightarrow> f x w')"

definition io_map_err :: "('e \<Rightarrow> 'g) \<Rightarrow> ('w, 'e, 'a) io \<Rightarrow> ('w, 'g, 'a) io" where
  "io_map_err f m w = (case m w of (r, w') \<Rightarrow> (map_err f r, w'))"

text \<open>A match on the outcome of a request.\<close>

definition io_attempt :: "('w, 'e, 'a) io \<Rightarrow> ('w, 'g, 'e + 'a) io" where
  "io_attempt m w = (case m w of (r, w') \<Rightarrow> (attempt r, w'))"

lemma io_lift_simps [simp]: "io_lift r w = (r, w)"
  by (simp add: io_lift_def)

lemma io_bind_lift [simp]:
  "io_bind (io_lift (Inr x)) f w = f x w" "io_bind (io_lift (Inl e)) f w = (Inl e, w)"
  by (simp_all add: io_bind_def)

lemma io_bind_eq_Ok [ok_simps]:
  "io_bind m f w = (Inr y, w'') \<longleftrightarrow> (\<exists>x w'. m w = (Inr x, w') \<and> f x w' = (Inr y, w''))"
  by (auto simp: io_bind_def split: prod.splits sum.splits)

lemma io_bind_Ok: "m w = (Inr x, w') \<Longrightarrow> io_bind m f w = f x w'"
  by (simp add: io_bind_def)

lemma io_bind_cong [fundef_cong]:
  "m = m' \<Longrightarrow> w = w' \<Longrightarrow> (\<And>x v. m' w' = (Inr x, v) \<Longrightarrow> f x v = f' x v) \<Longrightarrow> io_bind m f w = io_bind m' f' w'"
  by (auto simp: io_bind_def split: prod.splits sum.splits)

lemma io_map_err_eq_Ok [ok_simps]: "io_map_err f m w = (Inr x, w') \<longleftrightarrow> m w = (Inr x, w')"
  by (auto simp: io_map_err_def ok_simps split: prod.splits)

lemma io_attempt_eq_Ok [ok_simps]:
  "io_attempt m w = (Inr (Inr x), w') \<longleftrightarrow> m w = (Inr x, w')"
  "io_attempt m w = (Inr (Inl e), w') \<longleftrightarrow> m w = (Fail e, w')"
  by (auto simp: io_attempt_def attempt_def split: prod.splits sum.splits fault.splits)

lemma io_if_eq_Ok [ok_simps]:
  "((if c then io_lift (Inl e) else m) w = (Inr y, w')) \<longleftrightarrow> \<not> c \<and> m w = (Inr y, w')"
  "((if c then m else io_lift (Inl e)) w = (Inr y, w')) \<longleftrightarrow> c \<and> m w = (Inr y, w')"
  by auto

text \<open>Collecting the results of a list of requests, in order.\<close>

fun io_list :: "('a \<Rightarrow> ('w, 'e, 'b) io) \<Rightarrow> 'a list \<Rightarrow> ('w, 'e, 'b list) io" where
  "io_list f [] = io_ok []"
| "io_list f (x # xs) = io_bind (f x) (\<lambda>y. io_bind (io_list f xs) (\<lambda>ys. io_ok (y # ys)))"

end
