(* ===== verification/RpcClient.thy ===== *)
theory RpcClient
  imports ClientIo TransactionStatus PgNonce
begin

text \<open>
  The RPC client (\<open>solana-client/src/client.rs\<close>, \<open>utils/rpc_filter.rs\<close>,
  \<open>utils/rpc_config.rs\<close>, \<open>utils/nonce_utils.rs\<close>). A request with its JSON and the parsed
  response is a field of \<open>provider\<close>, which may fail, or panic when the response has another
  shape; what the client does with the responses is modelled. \<open>'m\<close> is the SDK's message.
\<close>

section \<open>Requests\<close>

text \<open>The deprecated commitment levels behave as \<open>Processed\<close> where the client tells them apart.\<close>

datatype commitment = CC_Processed | CC_Confirmed | CC_Finalized

datatype client_message =
    CM_SignatureNotFound signature
  | CM_AccountNotFound pubkey
  | CM_HashNotParsable
  | CM_MismatchedSignature signature signature
  | CM_NoProgramAccount
  | CM_InvalidPubkey bytes
  | CM_UnableToDecode pubkey
  | CM_BlockNotFound u64
  | CM_TokenAccountNotFound pubkey
  | CM_Serde
  | CM_Node bytes

record client_error =
  cle_id :: u16
  cle_code :: int
  cle_message :: client_message

definition client_error_new :: "client_message \<Rightarrow> client_error" where
  "client_error_new m = \<lparr>cle_id = 0, cle_code = 303, cle_message = m\<rparr>"

record rpc_account_info_config =
  rac_encoding :: "ui_account_encoding option"
  rac_data_slice :: "ui_data_slice_config option"
  rac_commitment :: "commitment option"
  rac_min_context_slot :: "u64 option"

definition rac_default :: rpc_account_info_config where
  "rac_default =
     \<lparr>rac_encoding = None, rac_data_slice = None, rac_commitment = None, rac_min_context_slot = None\<rparr>"

record rpc_send_transaction_config =
  rsc_skip_preflight :: bool
  rsc_preflight_commitment :: "commitment option"
  rsc_encoding :: "ui_transaction_encoding option"
  rsc_max_retries :: "nat option"
  rsc_min_context_slot :: "u64 option"

definition rsc_default :: rpc_send_transaction_config where
  "rsc_default = \<lparr>rsc_skip_preflight = False, rsc_preflight_commitment = None, rsc_encoding = None,
     rsc_max_retries = None, rsc_min_context_slot = None\<rparr>"

record 'json rpc_keyed_account =
  rka_pubkey :: bytes
  rka_account :: "'json ui_account"

datatype transaction_confirmation_status = TCS_Processed | TCS_Confirmed | TCS_Finalized

record signature_statuses_value =
  ssv_slot :: u64
  ssv_confirmations :: "u64 option"
  ssv_err :: "transaction_error option"
  ssv_confirmation_status :: "transaction_confirmation_status option"

record 'm transaction =
  tr_message :: 'm
  tr_signatures :: "signature list"

text \<open>Floats and the extensions of an account, which no command reads, are JSON values.\<close>

record 'json ui_token_account =
  uto_mint :: bytes
  uto_owner :: bytes
  uto_token_amount :: "'json ui_token_amount"
  uto_delegate :: "bytes option"
  uto_state :: ui_account_state
  uto_is_native :: bool
  uto_rent_exempt_reserve :: "'json ui_token_amount option"
  uto_delegated_amount :: "'json ui_token_amount option"
  uto_close_authority :: "bytes option"
  uto_extensions :: "'json list"

record 'json ui_mint =
  uim_mint_authority :: "bytes option"
  uim_supply :: bytes
  uim_decimals :: u8
  uim_is_initialized :: bool
  uim_freeze_authority :: "bytes option"
  uim_extensions :: "'json list"

record ui_multisig =
  uig_num_required_signers :: u8
  uig_num_valid_signers :: u8
  uig_is_initialized :: bool
  uig_signers :: "bytes list"

datatype 'json token_account_type =
    TAT_Account "'json ui_token_account"
  | TAT_Mint "'json ui_mint"
  | TAT_Multisig ui_multisig

section \<open>Filters\<close>

datatype memcmp_encoded_bytes = MB_Binary bytes | MB_Base58 bytes | MB_Base64 bytes | MB_Bytes bytes

datatype memcmp_encoding = ME_Binary

record memcmp =
  mc_offset :: nat
  mc_bytes :: memcmp_encoded_bytes
  mc_encoding :: "memcmp_encoding option"

definition memcmp_decoded :: "ui_codec \<Rightarrow> memcmp \<Rightarrow> bytes option" where
  "memcmp_decoded C m = (case mc_bytes m of
      MB_Binary b \<Rightarrow> uc_bs58_decode C b
    | MB_Base58 b \<Rightarrow> uc_bs58_decode C b
    | MB_Base64 b \<Rightarrow> uc_base64_decode C b
    | MB_Bytes b \<Rightarrow> Some b)"

definition bytes_match :: "ui_codec \<Rightarrow> memcmp \<Rightarrow> bytes \<Rightarrow> bool" where
  "bytes_match C m data = (case memcmp_decoded C m of
      Some b \<Rightarrow>
        if mc_offset m > length data then False
        else if length (drop (mc_offset m) data) < length b then False
        else take (length b) (drop (mc_offset m) data) = b
    | None \<Rightarrow> False)"

definition MAX_DATA_SIZE :: nat where "MAX_DATA_SIZE = 128"
definition MAX_DATA_BASE58_SIZE :: nat where "MAX_DATA_BASE58_SIZE = 175"
definition MAX_DATA_BASE64_SIZE :: nat where "MAX_DATA_BASE64_SIZE = 172"

datatype rpc_filter_type = RF_DataSize u64 | RF_Memcmp memcmp | RF_TokenAccountState

datatype rpc_filter_error =
    RFE_DataTooLarge | RFE_Base58DataTooLarge | RFE_DecodeError | RFE_Base58DecodeError | RFE_Base64DecodeError

definition filter_verify :: "ui_codec \<Rightarrow> rpc_filter_type \<Rightarrow> (rpc_filter_error, unit) result" where
  "filter_verify C f = (case f of
      RF_DataSize _ \<Rightarrow> Ok ()
    | RF_Memcmp m \<Rightarrow> (case mc_bytes m of
          MB_Binary b \<Rightarrow>
            if length b > MAX_DATA_BASE58_SIZE then Fail RFE_Base58DataTooLarge
            else try_bind (ok_or (uc_bs58_decode C b) RFE_DecodeError) (\<lambda>d.
              if length d > MAX_DATA_SIZE then Fail RFE_Base58DataTooLarge else Ok ())
        | MB_Base58 b \<Rightarrow>
            if length b > MAX_DATA_BASE58_SIZE then Fail RFE_DataTooLarge
            else try_bind (ok_or (uc_bs58_decode C b) RFE_Base58DecodeError) (\<lambda>d.
              if length d > MAX_DATA_SIZE then Fail RFE_DataTooLarge else Ok ())
        | MB_Base64 b \<Rightarrow>
            if length b > MAX_DATA_BASE64_SIZE then Fail RFE_DataTooLarge
            else try_bind (ok_or (uc_base64_decode C b) RFE_Base64DecodeError) (\<lambda>d.
              if length d > MAX_DATA_SIZE then Fail RFE_DataTooLarge else Ok ())
        | MB_Bytes b \<Rightarrow> if length b > MAX_DATA_SIZE then Fail RFE_DataTooLarge else Ok ())
    | RF_TokenAccountState \<Rightarrow> Ok ())"

definition filter_allows :: "ui_codec \<Rightarrow> rpc_filter_type \<Rightarrow> account \<Rightarrow> bool" where
  "filter_allows C f a = (case f of
      RF_DataSize n \<Rightarrow> word_of_nat (length (acct_data a)) = n
    | RF_Memcmp m \<Rightarrow> bytes_match C m (acct_data a)
    | RF_TokenAccountState \<Rightarrow> valid_account_data (acct_data a))"

record rpc_program_accounts_config =
  rpa_filters :: "rpc_filter_type list option"
  rpa_account_config :: rpc_account_info_config
  rpa_with_context :: "bool option"

datatype token_accounts_filter = TAF_Mint pubkey | TAF_ProgramId pubkey
datatype rpc_token_accounts_filter = RTAF_Mint bytes | RTAF_ProgramId bytes

section \<open>The client\<close>

record ('w, 'm, 'json) provider =
  pv_balance :: "pubkey \<Rightarrow> commitment \<Rightarrow> ('w, client_error, u64) io"
  pv_request_airdrop :: "pubkey \<Rightarrow> u64 \<Rightarrow> ('w, client_error, signature) io"
  pv_signature_statuses :: "signature list \<Rightarrow> ('w, client_error, signature_statuses_value option list) io"
  pv_account_info :: "pubkey \<Rightarrow> rpc_account_info_config \<Rightarrow> ('w, client_error, 'json ui_account option) io"
  pv_multiple_accounts ::
    "pubkey list \<Rightarrow> rpc_account_info_config \<Rightarrow> ('w, client_error, 'json ui_account option list) io"
  pv_program_accounts ::
    "pubkey \<Rightarrow> rpc_program_accounts_config \<Rightarrow> ('w, client_error, 'json rpc_keyed_account list option) io"
  pv_latest_blockhash :: "commitment \<Rightarrow> ('w, client_error, bytes \<times> u64) io"
  pv_blockhash_valid :: "hash \<Rightarrow> commitment \<Rightarrow> ('w, client_error, bool) io"
  pv_minimum_balance :: "nat \<Rightarrow> ('w, client_error, u64) io"
  pv_fee_for_message :: "'m \<Rightarrow> ('w, client_error, u64) io"
  pv_send_transaction :: "'m transaction \<Rightarrow> rpc_send_transaction_config \<Rightarrow> ('w, client_error, signature) io"
  pv_token_accounts_by_owner :: "pubkey \<Rightarrow> rpc_token_accounts_filter \<Rightarrow> rpc_account_info_config \<Rightarrow>
    ('w, client_error, 'json rpc_keyed_account list) io"
  pv_token_account_balance :: "pubkey \<Rightarrow> commitment \<Rightarrow> ('w, client_error, 'json ui_token_amount) io"
  pv_token_supply :: "pubkey \<Rightarrow> commitment \<Rightarrow> ('w, client_error, 'json ui_token_amount) io"
  pv_block_time :: "u64 \<Rightarrow> ('w, client_error, 64 word option) io"
  pv_genesis_hash :: "('w, client_error, bytes) io"
  pv_sleep :: "u64 \<Rightarrow> 'w \<Rightarrow> 'w"
  pv_codec :: ui_codec
  pv_hash_from_str :: "bytes \<Rightarrow> hash option"
  pv_token_account_type :: "'json \<Rightarrow> 'json token_account_type option"
  pv_nonce_state :: "account \<Rightarrow> nonce_state option"
  pv_system_program_id :: pubkey

record ('w, 'm, 'json) wasm_client =
  wc_provider :: "('w, 'm, 'json) provider"
  wc_commitment_config :: commitment

type_synonym ('w, 'a) client_io = "('w, client_error, 'a) io"

definition io_err :: "client_message \<Rightarrow> ('w, 'a) client_io" where
  "io_err m = io_fail (client_error_new m)"

definition get_balance_with_commitment ::
  "('w, 'm, 'json) wasm_client \<Rightarrow> pubkey \<Rightarrow> commitment \<Rightarrow> ('w, u64) client_io" where
  "get_balance_with_commitment C key c = pv_balance (wc_provider C) key c"

definition get_balance :: "('w, 'm, 'json) wasm_client \<Rightarrow> pubkey \<Rightarrow> ('w, u64) client_io" where
  "get_balance C key = get_balance_with_commitment C key (wc_commitment_config C)"

definition get_account_with_config ::
  "('w, 'm, 'json) wasm_client \<Rightarrow> pubkey \<Rightarrow> rpc_account_info_config \<Rightarrow> ('w, account option) client_io" where
  "get_account_with_config C key config =
     io_bind (pv_account_info (wc_provider C) key config) (\<lambda>v.
     io_ok (case v of Some u \<Rightarrow> ui_account_decode (pv_codec (wc_provider C)) u | None \<Rightarrow> None))"

definition get_account_with_commitment ::
  "('w, 'm, 'json) wasm_client \<Rightarrow> pubkey \<Rightarrow> commitment \<Rightarrow> ('w, account option) client_io" where
  "get_account_with_commitment C key c =
     get_account_with_config C key (rac_default\<lparr>rac_commitment := Some c, rac_encoding := Some UE_Base64\<rparr>)"

definition client_get_account :: "('w, 'm, 'json) wasm_client \<Rightarrow> pubkey \<Rightarrow> ('w, account) client_io" where
  "client_get_account C key =
     io_bind (get_account_with_commitment C key (wc_commitment_config C)) (\<lambda>a.
     case a of Some a \<Rightarrow> io_ok a | None \<Rightarrow> io_err (CM_AccountNotFound key))"

definition get_account_data :: "('w, 'm, 'json) wasm_client \<Rightarrow> pubkey \<Rightarrow> ('w, bytes) client_io" where
  "get_account_data C key = io_bind (client_get_account C key) (\<lambda>a. io_ok (acct_data a))"

definition get_latest_blockhash_with_config ::
  "('w, 'm, 'json) wasm_client \<Rightarrow> commitment \<Rightarrow> ('w, hash \<times> u64) client_io" where
  "get_latest_blockhash_with_config C c =
     io_bind (pv_latest_blockhash (wc_provider C) c) (\<lambda>(blockhash, height).
     case pv_hash_from_str (wc_provider C) blockhash of
       Some h \<Rightarrow> io_ok (h, height) | None \<Rightarrow> io_err CM_HashNotParsable)"

definition client_get_latest_blockhash :: "('w, 'm, 'json) wasm_client \<Rightarrow> ('w, hash) client_io" where
  "client_get_latest_blockhash C =
     io_bind (get_latest_blockhash_with_config C (wc_commitment_config C)) (\<lambda>(h, _). io_ok h)"

definition client_is_blockhash_valid ::
  "('w, 'm, 'json) wasm_client \<Rightarrow> hash \<Rightarrow> commitment \<Rightarrow> ('w, bool) client_io" where
  "client_is_blockhash_valid C h c = pv_blockhash_valid (wc_provider C) h c"

definition client_minimum_balance :: "('w, 'm, 'json) wasm_client \<Rightarrow> nat \<Rightarrow> ('w, u64) client_io" where
  "client_minimum_balance C n = pv_minimum_balance (wc_provider C) n"

definition client_fee_for_message :: "('w, 'm, 'json) wasm_client \<Rightarrow> 'm \<Rightarrow> ('w, u64) client_io" where
  "client_fee_for_message C m = pv_fee_for_message (wc_provider C) m"

definition client_get_block_time :: "('w, 'm, 'json) wasm_client \<Rightarrow> u64 \<Rightarrow> ('w, 64 word) client_io" where
  "client_get_block_time C slot =
     io_bind (pv_block_time (wc_provider C) slot) (\<lambda>t.
     case t of Some t \<Rightarrow> io_ok t | None \<Rightarrow> io_err (CM_BlockNotFound slot))"

definition client_get_genesis_hash :: "('w, 'm, 'json) wasm_client \<Rightarrow> ('w, hash) client_io" where
  "client_get_genesis_hash C =
     io_bind (pv_genesis_hash (wc_provider C)) (\<lambda>s.
     case pv_hash_from_str (wc_provider C) s of Some h \<Rightarrow> io_ok h | None \<Rightarrow> io_err CM_HashNotParsable)"

section \<open>Sending transactions\<close>

definition first_signature :: "'m transaction \<Rightarrow> ('e, signature) result" where
  "first_signature t = (case tr_signatures t of s # _ \<Rightarrow> Ok s | [] \<Rightarrow> Panicked)"

definition send_transaction_with_config ::
  "('w, 'm, 'json) wasm_client \<Rightarrow> 'm transaction \<Rightarrow> rpc_send_transaction_config \<Rightarrow> ('w, signature) client_io" where
  "send_transaction_with_config C t config =
     io_bind (pv_send_transaction (wc_provider C) t config) (\<lambda>s.
     io_bind (io_lift (first_signature t)) (\<lambda>expected.
     if s \<noteq> expected then io_err (CM_MismatchedSignature s expected) else io_ok expected))"

definition client_send_transaction ::
  "('w, 'm, 'json) wasm_client \<Rightarrow> 'm transaction \<Rightarrow> ('w, signature) client_io" where
  "client_send_transaction C t = send_transaction_with_config C t
     (rsc_default\<lparr>rsc_preflight_commitment := Some (wc_commitment_config C), rsc_encoding := Some UTE_Base64\<rparr>)"

definition commitment_matches :: "commitment \<Rightarrow> transaction_confirmation_status \<Rightarrow> bool" where
  "commitment_matches c s = (case c of
      CC_Finalized \<Rightarrow> s = TCS_Finalized
    | CC_Confirmed \<Rightarrow> s = TCS_Finalized \<or> s = TCS_Confirmed
    | CC_Processed \<Rightarrow> True)"

definition MAX_RETRIES :: nat where "MAX_RETRIES = 5"
definition SLEEP_MS :: u64 where "SLEEP_MS = 2000"

text \<open>One poll: \<open>Some\<close> ends the loop with the outcome; no status for the signature means no answer yet.\<close>

definition poll_outcome ::
  "commitment \<Rightarrow> signature_statuses_value option list \<Rightarrow> (client_error, bool option) result" where
  "poll_outcome c statuses = (case statuses of
      [] \<Rightarrow> Panicked
    | status # _ \<Rightarrow> (case status of
          None \<Rightarrow> Ok None
        | Some v \<Rightarrow> (case ssv_confirmation_status v of
              Some current \<Rightarrow> if commitment_matches c current then Ok (Some (ssv_err v = None)) else Ok None
            | None \<Rightarrow> Ok None)))"

fun confirm_loop :: "('w, 'm, 'json) wasm_client \<Rightarrow> signature \<Rightarrow> commitment \<Rightarrow> nat \<Rightarrow> ('w, bool) client_io" where
  "confirm_loop C s c 0 = io_ok False"
| "confirm_loop C s c (Suc n) =
     io_bind (pv_signature_statuses (wc_provider C) [s]) (\<lambda>statuses.
     io_bind (io_lift (poll_outcome c statuses)) (\<lambda>outcome.
     case outcome of
       Some is_success \<Rightarrow> io_ok is_success
     | None \<Rightarrow> (\<lambda>w. confirm_loop C s c n (pv_sleep (wc_provider C) SLEEP_MS w))))"

definition confirm_transaction_with_commitment ::
  "('w, 'm, 'json) wasm_client \<Rightarrow> signature \<Rightarrow> commitment \<Rightarrow> ('w, bool) client_io" where
  "confirm_transaction_with_commitment C s c = confirm_loop C s c MAX_RETRIES"

definition send_and_confirm_transaction_with_config ::
  "('w, 'm, 'json) wasm_client \<Rightarrow> 'm transaction \<Rightarrow> commitment \<Rightarrow> rpc_send_transaction_config \<Rightarrow>
   ('w, signature) client_io" where
  "send_and_confirm_transaction_with_config C t c config =
     io_bind (send_transaction_with_config C t config) (\<lambda>tx_hash.
     io_bind (confirm_transaction_with_commitment C tx_hash c) (\<lambda>_.
     io_ok tx_hash))"

definition send_and_confirm_transaction ::
  "('w, 'm, 'json) wasm_client \<Rightarrow> 'm transaction \<Rightarrow> ('w, signature) client_io" where
  "send_and_confirm_transaction C t =
     send_and_confirm_transaction_with_config C t (wc_commitment_config C)
       (rsc_default\<lparr>rsc_preflight_commitment := Some (wc_commitment_config C), rsc_encoding := Some UTE_Base64\<rparr>)"

section \<open>Accounts of programs and owners\<close>

definition keyed_account ::
  "ui_codec \<Rightarrow> 'json rpc_keyed_account \<Rightarrow> (client_error, pubkey \<times> account) result" where
  "keyed_account K a = (case uc_key_from_str K (rka_pubkey a) of
      None \<Rightarrow> Fail (client_error_new (CM_InvalidPubkey (rka_pubkey a)))
    | Some key \<Rightarrow> (case ui_account_decode K (rka_account a) of
          None \<Rightarrow> Fail (client_error_new (CM_UnableToDecode key))
        | Some account \<Rightarrow> Ok (key, account)))"

definition get_program_accounts_with_config ::
  "('w, 'm, 'json) wasm_client \<Rightarrow> pubkey \<Rightarrow> rpc_program_accounts_config \<Rightarrow> ('w, (pubkey \<times> account) list) client_io" where
  "get_program_accounts_with_config C key config =
     (let account_config = rpa_account_config config;
          c = (case rac_commitment account_config of Some c \<Rightarrow> c | None \<Rightarrow> wc_commitment_config C);
          config = config\<lparr>rpa_account_config := account_config\<lparr>rac_commitment := Some c\<rparr>\<rparr> in
      io_bind (pv_program_accounts (wc_provider C) key config) (\<lambda>r.
      case r of
        None \<Rightarrow> io_err CM_NoProgramAccount
      | Some accounts \<Rightarrow> io_lift (collect (keyed_account (pv_codec (wc_provider C))) accounts)))"

definition get_multiple_accounts_with_config ::
  "('w, 'm, 'json) wasm_client \<Rightarrow> pubkey list \<Rightarrow> rpc_account_info_config \<Rightarrow> ('w, account option list) client_io" where
  "get_multiple_accounts_with_config C keys config =
     io_bind (pv_multiple_accounts (wc_provider C) keys config) (\<lambda>accounts.
     io_ok (map (\<lambda>a. ui_account_decode (pv_codec (wc_provider C)) (the a)) (filter (\<lambda>a. a \<noteq> None) accounts)))"

definition get_token_account_with_commitment ::
  "('w, 'm, 'json) wasm_client \<Rightarrow> pubkey \<Rightarrow> commitment \<Rightarrow> ('w, 'json ui_token_account option) client_io" where
  "get_token_account_with_commitment C key c =
     io_bind (pv_account_info (wc_provider C) key
       (rac_default\<lparr>rac_encoding := Some UE_JsonParsed, rac_commitment := Some c\<rparr>)) (\<lambda>v.
     case v of
       Some u \<Rightarrow> (case ui_data u of
           UD_Json d \<Rightarrow> (case pv_token_account_type (wc_provider C) (pa_parsed d) of
               None \<Rightarrow> io_err CM_Serde
             | Some (TAT_Account a) \<Rightarrow> io_ok (Some a)
             | Some _ \<Rightarrow> io_err (CM_TokenAccountNotFound key))
         | _ \<Rightarrow> io_err (CM_TokenAccountNotFound key))
     | None \<Rightarrow> io_err (CM_TokenAccountNotFound key))"

definition get_token_account ::
  "('w, 'm, 'json) wasm_client \<Rightarrow> pubkey \<Rightarrow> ('w, 'json ui_token_account option) client_io" where
  "get_token_account C key = get_token_account_with_commitment C key (wc_commitment_config C)"

definition get_token_accounts_by_owner ::
  "('w, 'm, 'json) wasm_client \<Rightarrow> pubkey \<Rightarrow> token_accounts_filter \<Rightarrow> ('w, 'json rpc_keyed_account list) client_io" where
  "get_token_accounts_by_owner C owner f =
     (let to_string = uc_key_to_string (pv_codec (wc_provider C));
          f = (case f of TAF_Mint k \<Rightarrow> RTAF_Mint (to_string k) | TAF_ProgramId k \<Rightarrow> RTAF_ProgramId (to_string k)) in
      pv_token_accounts_by_owner (wc_provider C) owner f
        (rac_default\<lparr>rac_encoding := Some UE_JsonParsed, rac_commitment := Some (wc_commitment_config C)\<rparr>))"

definition get_token_account_balance ::
  "('w, 'm, 'json) wasm_client \<Rightarrow> pubkey \<Rightarrow> ('w, 'json ui_token_amount) client_io" where
  "get_token_account_balance C key = pv_token_account_balance (wc_provider C) key (wc_commitment_config C)"

definition client_get_token_supply ::
  "('w, 'm, 'json) wasm_client \<Rightarrow> pubkey \<Rightarrow> ('w, 'json ui_token_amount) client_io" where
  "client_get_token_supply C key = pv_token_supply (wc_provider C) key (wc_commitment_config C)"

end
