(* ===== verification/RpcNonce.thy ===== *)
theory RpcNonce
  imports RpcClient
begin

text \<open>
  Durable nonces on the client's side (\<open>utils/nonce_utils.rs\<close>), the choice of a blockhash
  (\<open>utils/rpc_config.rs\<close>), and what the client guarantees about transactions it sends.
\<close>

section \<open>Nonce accounts\<close>

datatype client_nonce_error =
    CNE_InvalidAccountOwner | CNE_InvalidAccountData | CNE_UnexpectedDataSize
  | CNE_InvalidHash hash hash | CNE_InvalidAuthority pubkey pubkey | CNE_InvalidStateForOperation
  | CNE_Client client_error | CNE_NotFound pubkey

definition account_identity_ok :: "('w, 'm, 'json) provider \<Rightarrow> account \<Rightarrow> (client_nonce_error, unit) result" where
  "account_identity_ok P a =
     (if acct_owner a \<noteq> pv_system_program_id P then Fail CNE_InvalidAccountOwner
      else if acct_data a = [] then Fail CNE_UnexpectedDataSize
      else Ok ())"

definition nonce_get_account_with_commitment ::
  "('w, 'm, 'json) wasm_client \<Rightarrow> pubkey \<Rightarrow> commitment \<Rightarrow> ('w, client_nonce_error, account) io" where
  "nonce_get_account_with_commitment C key c =
     io_bind (io_map_err CNE_Client (get_account_with_config C key (rac_default\<lparr>rac_commitment := Some c\<rparr>))) (\<lambda>opt.
     io_bind (io_lift (ok_or opt (CNE_NotFound key))) (\<lambda>a.
     io_bind (io_lift (account_identity_ok (wc_provider C) a)) (\<lambda>_. io_ok a)))"

text \<open>\<open>CommitmentConfig::default\<close> is finalized.\<close>

definition nonce_get_account ::
  "('w, 'm, 'json) wasm_client \<Rightarrow> pubkey \<Rightarrow> ('w, client_nonce_error, account) io" where
  "nonce_get_account C key = nonce_get_account_with_commitment C key CC_Finalized"

definition state_from_account ::
  "('w, 'm, 'json) provider \<Rightarrow> account \<Rightarrow> (client_nonce_error, nonce_state) result" where
  "state_from_account P a =
     try_bind (account_identity_ok P a) (\<lambda>_. ok_or (pv_nonce_state P a) CNE_InvalidAccountData)"

definition data_from_state :: "nonce_state \<Rightarrow> (client_nonce_error, nonce_data) result" where
  "data_from_state s = (case s of
      NS_Uninitialized \<Rightarrow> Fail CNE_InvalidStateForOperation
    | NS_Initialized d \<Rightarrow> Ok d)"

definition data_from_account ::
  "('w, 'm, 'json) provider \<Rightarrow> account \<Rightarrow> (client_nonce_error, nonce_data) result" where
  "data_from_account P a =
     try_bind (account_identity_ok P a) (\<lambda>_. try_bind (state_from_account P a) data_from_state)"

section \<open>Blockhashes\<close>

text \<open>\<open>data.blockhash()\<close> is the durable nonce. Errors are boxed.\<close>

datatype blockhash_source = BS_Cluster | BS_NonceAccount pubkey

datatype blockhash_error = BE_Client client_error | BE_Nonce client_nonce_error | BE_HashExpired hash

definition source_get_blockhash ::
  "('w, 'm, 'json) wasm_client \<Rightarrow> blockhash_source \<Rightarrow> commitment \<Rightarrow> ('w, blockhash_error, hash) io" where
  "source_get_blockhash C s c = (case s of
      BS_Cluster \<Rightarrow>
        io_map_err BE_Client (io_bind (get_latest_blockhash_with_config C c) (\<lambda>(h, _). io_ok h))
    | BS_NonceAccount key \<Rightarrow>
        io_map_err BE_Nonce (io_bind (nonce_get_account_with_commitment C key c) (\<lambda>a.
          io_bind (io_lift (data_from_account (wc_provider C) a)) (\<lambda>d. io_ok (nd_durable_nonce d)))))"

definition source_is_blockhash_valid ::
  "('w, 'm, 'json) wasm_client \<Rightarrow> blockhash_source \<Rightarrow> hash \<Rightarrow> commitment \<Rightarrow> ('w, blockhash_error, bool) io" where
  "source_is_blockhash_valid C s h c = (case s of
      BS_Cluster \<Rightarrow> io_map_err BE_Client (client_is_blockhash_valid C h c)
    | BS_NonceAccount key \<Rightarrow>
        io_map_err BE_Nonce (io_bind (nonce_get_account_with_commitment C key c) (\<lambda>a.
          io_bind (io_lift (data_from_account (wc_provider C) a)) (\<lambda>_. io_ok True))))"

datatype blockhash_query =
    BQ_None hash
  | BQ_FeeCalculator blockhash_source hash
  | BQ_All blockhash_source

definition blockhash_query_new :: "hash option \<Rightarrow> bool \<Rightarrow> pubkey option \<Rightarrow> ('e, blockhash_query) result" where
  "blockhash_query_new blockhash sign_only nonce_account =
     (let source = (case nonce_account of Some k \<Rightarrow> BS_NonceAccount k | None \<Rightarrow> BS_Cluster) in
      case blockhash of
        Some h \<Rightarrow> if sign_only then Ok (BQ_None h) else Ok (BQ_FeeCalculator source h)
      | None \<Rightarrow> if \<not> sign_only then Ok (BQ_All source) else Panicked)"

definition query_get_blockhash ::
  "('w, 'm, 'json) wasm_client \<Rightarrow> blockhash_query \<Rightarrow> commitment \<Rightarrow> ('w, blockhash_error, hash) io" where
  "query_get_blockhash C q c = (case q of
      BQ_None h \<Rightarrow> io_ok h
    | BQ_FeeCalculator source h \<Rightarrow>
        io_bind (source_is_blockhash_valid C source h c) (\<lambda>ok.
        if \<not> ok then io_fail (BE_HashExpired h) else io_ok h)
    | BQ_All source \<Rightarrow> source_get_blockhash C source c)"

section \<open>Filters\<close>

lemma bytes_match_iff:
  "bytes_match K m data \<longleftrightarrow>
     (\<exists>b pre post. memcmp_decoded K m = Some b \<and> data = pre @ b @ post \<and> length pre = mc_offset m)"
proof (cases "memcmp_decoded K m")
  case (Some b)
  have "take (length b) (drop (mc_offset m) data) = b \<and> mc_offset m \<le> length data \<longleftrightarrow>
      (\<exists>pre post. data = pre @ b @ post \<and> length pre = mc_offset m)"
  proof
    assume *: "take (length b) (drop (mc_offset m) data) = b \<and> mc_offset m \<le> length data"
    let ?pre = "take (mc_offset m) data" and ?post = "drop (length b) (drop (mc_offset m) data)"
    have "data = ?pre @ b @ ?post" using * by (metis append_take_drop_id)
    then show "\<exists>pre post. data = pre @ b @ post \<and> length pre = mc_offset m"
      using * by (intro exI [of _ ?pre] exI [of _ ?post]) (simp add: min_absorb2)
  qed auto
  then show ?thesis using Some
    by (auto simp: bytes_match_def split: if_splits)
qed (simp add: bytes_match_def)

text \<open>A filter that passes the checks compares at most 128 bytes.\<close>

lemma verified_filter_size:
  assumes "filter_verify K (RF_Memcmp m) = Ok ()"
  shows "\<exists>b. memcmp_decoded K m = Some b \<and> length b \<le> 128"
  using assms
  by (auto simp: filter_verify_def memcmp_decoded_def MAX_DATA_SIZE_def ok_simps not_less
      split: memcmp_encoded_bytes.splits if_splits)

section \<open>Confirmation\<close>

text \<open>A poll that settles the loop reports a status at the commitment asked for.\<close>

lemma poll_outcome_Some:
  assumes "poll_outcome c statuses = Ok (Some b)"
  shows "\<exists>v current rest. statuses = Some v # rest \<and> ssv_confirmation_status v = Some current \<and>
    commitment_matches c current \<and> b = (ssv_err v = None)"
  using assms by (auto simp: poll_outcome_def split: list.splits option.splits if_splits)

lemma confirm_loop_true:
  assumes "confirm_loop C s c n w = (Ok True, w')"
  shows "\<exists>v v' u rest current. pv_signature_statuses (wc_provider C) [s] v = (Ok (Some u # rest), v') \<and>
    ssv_confirmation_status u = Some current \<and> commitment_matches c current \<and> ssv_err u = None"
  using assms
proof (induction n arbitrary: w)
  case (Suc n)
  then obtain statuses outcome v where s: "pv_signature_statuses (wc_provider C) [s] w = (Ok statuses, v)"
      and o: "poll_outcome c statuses = Ok outcome"
      and rest: "(case outcome of Some b \<Rightarrow> io_ok b
        | None \<Rightarrow> (\<lambda>w. confirm_loop C s c n (pv_sleep (wc_provider C) SLEEP_MS w))) v = (Ok True, w')"
    by (auto simp: ok_simps)
  show ?case
  proof (cases outcome)
    case None
    with rest Suc.IH show ?thesis by auto
  next
    case (Some b)
    with rest poll_outcome_Some [of c statuses b] o s show ?thesis by auto
  qed
qed simp

end
