(* ===== verification/CliSpend.thy ===== *)
theory CliSpend
  imports RpcNonce Instructions
begin

text \<open>
  How the command line programs decide what to spend and whether it is there
  (\<open>solana-cli/src/utils/spend_utils.rs\<close>, \<open>checks.rs\<close>, \<open>memo.rs\<close> and the errors of
  \<open>cli.rs\<close>). Amounts in errors stay lamports. A message is built by the SDK: the fields of
  \<open>message_sdk\<close>, whose signers \<open>'s\<close> are opaque.
\<close>

section \<open>Errors\<close>

datatype bad_parameter =
    BP_IdenticalPubkeys pubkey
  | BP_NonceAccountExists pubkey
  | BP_AccountExistsNotNonce pubkey
  | BP_NeedsRentExemption u64 u64
  | BP_UnableToAdvance pubkey client_error

datatype rpc_request_error = RRE_Nonce client_nonce_error | RRE_Message bytes

datatype sign_error = SGE_Signer nat | SGE_CreateWithSeed nat

datatype cli_error =
    CLE_BadParameter bad_parameter
  | CLE_ClientError client_error
  | CLE_InsufficientFundsForFee u64 pubkey
  | CLE_InsufficientFundsForSpend u64 pubkey
  | CLE_InsufficientFundsForSpendAndFee u64 u64 pubkey
  | CLE_InvalidNonce client_nonce_error
  | CLE_Nonce client_nonce_error
  | CLE_RpcRequestError rpc_request_error
  | CLE_Blockhash blockhash_error
  | CLE_Signing sign_error
  | CLE_RecipientNotFunded pubkey

definition cli_error_from_nonce :: "client_nonce_error \<Rightarrow> cli_error" where
  "cli_error_from_nonce e = (case e of
      CNE_Client _ \<Rightarrow> CLE_RpcRequestError (RRE_Nonce e)
    | CNE_NotFound _ \<Rightarrow> CLE_RpcRequestError (RRE_Nonce e)
    | _ \<Rightarrow> CLE_InvalidNonce e)"

record ('m, 's) message_sdk =
  mk_new :: "instruction list \<Rightarrow> pubkey option \<Rightarrow> 'm"
  mk_new_with_nonce :: "instruction list \<Rightarrow> pubkey option \<Rightarrow> pubkey \<Rightarrow> pubkey \<Rightarrow> 'm"
  mk_set_blockhash :: "hash \<Rightarrow> 'm \<Rightarrow> 'm"
  mk_signer_keys :: "'m \<Rightarrow> pubkey list"
  mk_pubkey :: "'s \<Rightarrow> pubkey"
  mk_new_unsigned :: "'m \<Rightarrow> 'm transaction"
  mk_try_sign :: "'s list \<Rightarrow> hash \<Rightarrow> 'm transaction \<Rightarrow> (sign_error, 'm transaction) result"
  mk_try_partial_sign :: "'s list \<Rightarrow> hash \<Rightarrow> 'm transaction \<Rightarrow> (sign_error, 'm transaction) result"

section \<open>Memos\<close>

text \<open>The program id of a memo is made from the 43 characters of its base58 form, as bytes;
  \<open>Pubkey::try_from\<close> takes exactly 32 bytes, and its result is unwrapped.\<close>

definition memo_program_characters :: nat where "memo_program_characters = 43"

definition pubkey_try_from_bytes :: "bytes \<Rightarrow> pubkey option" where
  "pubkey_try_from_bytes b = (if length b = 32 then Some (from_le_bytes b) else None)"

definition memo_program_string :: bytes where
  "memo_program_string = map word_of_nat
     [77, 101, 109, 111, 83, 113, 52, 103, 113, 65, 66, 65, 88, 75, 98, 57, 54, 113, 110, 72, 56, 84,
      121, 115, 78, 99, 87, 120, 77, 121, 87, 67, 113, 88, 103, 68, 76, 71, 109, 102, 99, 72, 114]"

definition with_memo :: "instruction list \<Rightarrow> bytes option \<Rightarrow> ('e, instruction list) result" where
  "with_memo ixs memo = (case memo of
      None \<Rightarrow> Ok ixs
    | Some text \<Rightarrow> (case pubkey_try_from_bytes memo_program_string of
          None \<Rightarrow> Panicked
        | Some program_id \<Rightarrow> Ok (ixs @ [\<lparr>in_program_id = program_id, in_accounts = [], in_data = text\<rparr>])))"

lemma with_memo_eq: "with_memo ixs memo = (if memo = None then Ok ixs else Panicked)"
  by (auto simp: with_memo_def pubkey_try_from_bytes_def memo_program_string_def split: option.splits)

section \<open>Balances and fees\<close>

definition check_account_for_balance_with_commitment ::
  "('w, 'm, 'json) wasm_client \<Rightarrow> pubkey \<Rightarrow> u64 \<Rightarrow> commitment \<Rightarrow> ('w, bool) client_io" where
  "check_account_for_balance_with_commitment C key spending c =
     io_bind (get_balance_with_commitment C key c) (\<lambda>lams.
     io_ok (lams \<noteq> 0 \<and> lams \<ge> spending))"

definition check_account_for_balance ::
  "('w, 'm, 'json) wasm_client \<Rightarrow> pubkey \<Rightarrow> u64 \<Rightarrow> ('w, bool) client_io" where
  "check_account_for_balance C key spending =
     check_account_for_balance_with_commitment C key spending CC_Finalized"

fun fee_loop :: "('w, 'm, 'json) wasm_client \<Rightarrow> 'm list \<Rightarrow> u64 \<Rightarrow> ('w, u64) client_io" where
  "fee_loop C [] total_fee = io_ok total_fee"
| "fee_loop C (m # ms) total_fee =
     io_bind (client_fee_for_message C m) (\<lambda>fee. fee_loop C ms (total_fee + fee))"

definition get_fee_for_messages :: "('w, 'm, 'json) wasm_client \<Rightarrow> 'm list \<Rightarrow> ('w, cli_error, u64) io" where
  "get_fee_for_messages C ms = io_map_err CLE_ClientError (fee_loop C ms 0)"

definition check_account_for_spend_and_fee_with_commitment ::
  "('w, 'm, 'json) wasm_client \<Rightarrow> pubkey \<Rightarrow> u64 \<Rightarrow> u64 \<Rightarrow> commitment \<Rightarrow> ('w, cli_error, unit) io" where
  "check_account_for_spend_and_fee_with_commitment C key spending fee c =
     io_bind (io_map_err CLE_ClientError
       (check_account_for_balance_with_commitment C key (spending + fee) c)) (\<lambda>ok.
     if \<not> ok then
       (if spending > 0 then io_fail (CLE_InsufficientFundsForSpendAndFee spending fee key)
        else io_fail (CLE_InsufficientFundsForFee fee key))
     else io_ok ())"

definition check_account_for_spend_multiple_fees_with_commitment ::
  "('w, 'm, 'json) wasm_client \<Rightarrow> pubkey \<Rightarrow> u64 \<Rightarrow> 'm list \<Rightarrow> commitment \<Rightarrow> ('w, cli_error, unit) io" where
  "check_account_for_spend_multiple_fees_with_commitment C key spending ms c =
     io_bind (get_fee_for_messages C ms) (\<lambda>fee.
     check_account_for_spend_and_fee_with_commitment C key spending fee c)"

definition check_account_for_multiple_fees_with_commitment ::
  "('w, 'm, 'json) wasm_client \<Rightarrow> pubkey \<Rightarrow> 'm list \<Rightarrow> commitment \<Rightarrow> ('w, cli_error, unit) io" where
  "check_account_for_multiple_fees_with_commitment C key ms c =
     check_account_for_spend_multiple_fees_with_commitment C key 0 ms c"

definition check_account_for_fee_with_commitment ::
  "('w, 'm, 'json) wasm_client \<Rightarrow> pubkey \<Rightarrow> 'm \<Rightarrow> commitment \<Rightarrow> ('w, cli_error, unit) io" where
  "check_account_for_fee_with_commitment C key m c = check_account_for_multiple_fees_with_commitment C key [m] c"

definition check_account_for_multiple_fees ::
  "('w, 'm, 'json) wasm_client \<Rightarrow> pubkey \<Rightarrow> 'm list \<Rightarrow> ('w, cli_error, unit) io" where
  "check_account_for_multiple_fees C key ms = check_account_for_multiple_fees_with_commitment C key ms CC_Finalized"

definition check_account_for_fee :: "('w, 'm, 'json) wasm_client \<Rightarrow> pubkey \<Rightarrow> 'm \<Rightarrow> ('w, cli_error, unit) io" where
  "check_account_for_fee C key m = check_account_for_multiple_fees C key [m]"

definition check_unique_pubkeys :: "pubkey \<Rightarrow> pubkey \<Rightarrow> (cli_error, unit) result" where
  "check_unique_pubkeys a b = (if a = b then Fail (CLE_BadParameter (BP_IdenticalPubkeys a)) else Ok ())"

section \<open>What to spend\<close>

datatype spend_amount = SA_All | SA_Some u64 | SA_RentExempt

definition spend_amount_new :: "u64 option \<Rightarrow> bool \<Rightarrow> ('e, spend_amount) result" where
  "spend_amount_new spending sign_only = (case spending of
      Some lams \<Rightarrow> Ok (SA_Some lams)
    | None \<Rightarrow> if \<not> sign_only then Ok SA_All else Panicked)"

record spend_and_fee =
  saf_spend :: u64
  saf_fee :: u64

definition resolve_spend_message ::
  "('m, 's) message_sdk \<Rightarrow> ('w, 'm, 'json) wasm_client \<Rightarrow> spend_amount \<Rightarrow> hash option \<Rightarrow> u64 \<Rightarrow> pubkey \<Rightarrow> pubkey \<Rightarrow>
   u64 \<Rightarrow> (u64 \<Rightarrow> (cli_error, 'm) result) \<Rightarrow> ('w, cli_error, 'm \<times> spend_and_fee) io" where
  "resolve_spend_message S C spending blockhash from_balance from_key fee_key from_rent_exempt_minimum build_message =
     io_bind (case blockhash of
         Some h \<Rightarrow>
           io_bind (io_lift (build_message 0)) (\<lambda>dummy_message.
           get_fee_for_messages C [mk_set_blockhash S h dummy_message])
       | None \<Rightarrow> io_ok 0) (\<lambda>fee.
     let lams = (case spending of
         SA_Some lams \<Rightarrow> lams
       | SA_All \<Rightarrow> if from_key = fee_key then saturating_sub from_balance fee else from_balance
       | SA_RentExempt \<Rightarrow>
           saturating_sub (if from_key = fee_key then saturating_sub from_balance fee else from_balance)
             from_rent_exempt_minimum) in
     io_bind (io_lift (build_message lams)) (\<lambda>m.
     io_ok (m, \<lparr>saf_spend = lams, saf_fee = fee\<rparr>)))"

definition resolve_spend_tx_and_check_account_balances ::
  "('m, 's) message_sdk \<Rightarrow> ('w, 'm, 'json) wasm_client \<Rightarrow> bool \<Rightarrow> spend_amount \<Rightarrow> hash \<Rightarrow> pubkey \<Rightarrow> pubkey \<Rightarrow>
   (u64 \<Rightarrow> (cli_error, 'm) result) \<Rightarrow> commitment \<Rightarrow> ('w, cli_error, 'm \<times> u64) io" where
  "resolve_spend_tx_and_check_account_balances S C sign_only spending blockhash from_key fee_key build_message c =
     (if sign_only then
        io_bind (resolve_spend_message S C spending None 0 from_key fee_key 0 build_message) (\<lambda>(m, f).
        io_ok (m, saf_spend f))
      else
        io_bind (io_map_err CLE_ClientError (get_balance_with_commitment C from_key c)) (\<lambda>from_balance.
        io_bind (if spending = SA_RentExempt then
            io_bind (io_map_err CLE_ClientError (get_account_data C from_key)) (\<lambda>data.
            io_map_err CLE_ClientError (client_minimum_balance C (length data)))
          else io_ok 0) (\<lambda>from_rent_exempt_minimum.
        io_bind (resolve_spend_message S C spending (Some blockhash) from_balance from_key fee_key
          from_rent_exempt_minimum build_message) (\<lambda>(m, f).
        if from_key = fee_key then
          (if from_balance = 0 \<or> from_balance < saf_spend f + saf_fee f
           then io_fail (CLE_InsufficientFundsForSpendAndFee (saf_spend f) (saf_fee f) from_key)
           else io_ok (m, saf_spend f))
        else if from_balance < saf_spend f
        then io_fail (CLE_InsufficientFundsForSpend (saf_spend f) from_key)
        else
          io_bind (io_map_err CLE_ClientError
            (check_account_for_balance_with_commitment C fee_key (saf_fee f) c)) (\<lambda>ok.
          if \<not> ok then io_fail (CLE_InsufficientFundsForFee (saf_fee f) fee_key)
          else io_ok (m, saf_spend f))))))"

definition resolve_spend_tx_and_check_account_balance ::
  "('m, 's) message_sdk \<Rightarrow> ('w, 'm, 'json) wasm_client \<Rightarrow> bool \<Rightarrow> spend_amount \<Rightarrow> hash \<Rightarrow> pubkey \<Rightarrow>
   (u64 \<Rightarrow> (cli_error, 'm) result) \<Rightarrow> commitment \<Rightarrow> ('w, cli_error, 'm \<times> u64) io" where
  "resolve_spend_tx_and_check_account_balance S C sign_only spending blockhash from_key build_message c =
     resolve_spend_tx_and_check_account_balances S C sign_only spending blockhash from_key from_key build_message c"

end
