(* ===== verification/CliWallet.thy ===== *)
theory CliWallet
  imports CliSpend
begin

text \<open>
  The commands of \<open>solana-cli\<close> that move lamports or change nonce accounts
  (\<open>commands/wallet.rs\<close>, \<open>commands/nonce.rs\<close>, \<open>commands/feature.rs\<close>). The builders of
  system instructions and the derivation of seeded addresses are the SDK's. A signature is
  returned as such: formatting it is output.
\<close>

record system_builders =
  sb_transfer :: "pubkey \<Rightarrow> pubkey \<Rightarrow> u64 \<Rightarrow> instruction"
  sb_transfer_with_seed :: "pubkey \<Rightarrow> pubkey \<Rightarrow> bytes \<Rightarrow> pubkey \<Rightarrow> pubkey \<Rightarrow> u64 \<Rightarrow> instruction"
  sb_create_account :: "pubkey \<Rightarrow> pubkey \<Rightarrow> u64 \<Rightarrow> u64 \<Rightarrow> pubkey \<Rightarrow> instruction"
  sb_create_nonce_account :: "pubkey \<Rightarrow> pubkey \<Rightarrow> pubkey \<Rightarrow> u64 \<Rightarrow> instruction list"
  sb_create_nonce_account_with_seed ::
    "pubkey \<Rightarrow> pubkey \<Rightarrow> pubkey \<Rightarrow> bytes \<Rightarrow> pubkey \<Rightarrow> u64 \<Rightarrow> instruction list"
  sb_advance_nonce_account :: "pubkey \<Rightarrow> pubkey \<Rightarrow> instruction"
  sb_authorize_nonce_account :: "pubkey \<Rightarrow> pubkey \<Rightarrow> pubkey \<Rightarrow> instruction"
  sb_withdraw_nonce_account :: "pubkey \<Rightarrow> pubkey \<Rightarrow> pubkey \<Rightarrow> u64 \<Rightarrow> instruction"
  sb_create_with_seed :: "pubkey \<Rightarrow> bytes \<Rightarrow> pubkey \<Rightarrow> (sign_error, pubkey) result"
  sb_nonce_state_size :: nat
  sb_merge_nonce_error_feature :: pubkey
  sb_feature_activated_at :: "account \<Rightarrow> u64 option option"

record 's cli_config =
  cg_signers :: "'s list"
  cg_commitment_config :: commitment
  cg_send_transaction_config :: rpc_send_transaction_config

definition signer_at :: "'s cli_config \<Rightarrow> nat \<Rightarrow> (cli_error, 's) result" where
  "signer_at G i = (if i < length (cg_signers G) then Ok (cg_signers G ! i) else Panicked)"

section \<open>Features\<close>

datatype cli_feature_status = CFS_Inactive | CFS_Pending | CFS_Active u64

definition status_from_account :: "system_builders \<Rightarrow> account \<Rightarrow> cli_feature_status option" where
  "status_from_account B a = map_option (\<lambda>activated_at.
     case activated_at of None \<Rightarrow> CFS_Pending | Some slot \<Rightarrow> CFS_Active slot) (sb_feature_activated_at B a)"

definition get_feature_status ::
  "system_builders \<Rightarrow> ('w, 'm, 'json) wasm_client \<Rightarrow> pubkey \<Rightarrow> ('w, cli_feature_status option) client_io" where
  "get_feature_status B C key = io_bind (client_get_account C key) (\<lambda>a. io_ok (status_from_account B a))"

definition get_feature_is_active ::
  "system_builders \<Rightarrow> ('w, 'm, 'json) wasm_client \<Rightarrow> pubkey \<Rightarrow> ('w, bool) client_io" where
  "get_feature_is_active B C key = io_bind (get_feature_status B C key) (\<lambda>s.
     io_ok (case s of Some (CFS_Active _) \<Rightarrow> True | _ \<Rightarrow> False))"

section \<open>Nonce commands\<close>

definition check_nonce_account ::
  "('w, 'm, 'json) provider \<Rightarrow> account \<Rightarrow> pubkey \<Rightarrow> hash \<Rightarrow> (cli_error, unit) result" where
  "check_nonce_account P a nonce_authority nonce_hash =
     try_bind (map_err cli_error_from_nonce (state_from_account P a)) (\<lambda>s.
     case s of
       NS_Initialized d \<Rightarrow>
         if nd_durable_nonce d \<noteq> nonce_hash
         then Fail (cli_error_from_nonce (CNE_InvalidHash nonce_hash (nd_durable_nonce d)))
         else if nonce_authority \<noteq> nd_authority d
         then Fail (cli_error_from_nonce (CNE_InvalidAuthority nonce_authority (nd_authority d)))
         else Ok ()
     | NS_Uninitialized \<Rightarrow> Fail (cli_error_from_nonce CNE_InvalidStateForOperation))"

text \<open>Signing with all the signers of the configuration, checking the fee, sending.\<close>

definition sign_check_and_send ::
  "('m, 's) message_sdk \<Rightarrow> ('w, 'm, 'json) wasm_client \<Rightarrow> 's cli_config \<Rightarrow> 'm \<Rightarrow> hash \<Rightarrow> ('w, cli_error, signature) io" where
  "sign_check_and_send S C G m latest_blockhash =
     io_bind (io_lift (map_err CLE_Signing
       (mk_try_sign S (cg_signers G) latest_blockhash (mk_new_unsigned S m)))) (\<lambda>tx.
     io_bind (io_lift (signer_at G 0)) (\<lambda>payer.
     io_bind (check_account_for_fee_with_commitment C (mk_pubkey S payer) (tr_message tx) (cg_commitment_config G)) (\<lambda>_.
     io_map_err CLE_ClientError (send_and_confirm_transaction C tx))))"

definition process_authorize_nonce_account ::
  "system_builders \<Rightarrow> ('m, 's) message_sdk \<Rightarrow> ('w, 'm, 'json) wasm_client \<Rightarrow> 's cli_config \<Rightarrow> pubkey \<Rightarrow> nat \<Rightarrow>
   bytes option \<Rightarrow> pubkey \<Rightarrow> ('w, cli_error, signature) io" where
  "process_authorize_nonce_account B S C G nonce_account nonce_authority memo new_authority =
     io_bind (io_map_err CLE_ClientError (client_get_latest_blockhash C)) (\<lambda>latest_blockhash.
     io_bind (io_lift (signer_at G nonce_authority)) (\<lambda>nonce_authority.
     io_bind (io_lift (with_memo
       [sb_authorize_nonce_account B nonce_account (mk_pubkey S nonce_authority) new_authority] memo)) (\<lambda>ixs.
     io_bind (io_lift (signer_at G 0)) (\<lambda>payer.
     sign_check_and_send S C G (mk_new S ixs (Some (mk_pubkey S payer))) latest_blockhash))))"

definition process_withdraw_from_nonce_account ::
  "system_builders \<Rightarrow> ('m, 's) message_sdk \<Rightarrow> ('w, 'm, 'json) wasm_client \<Rightarrow> 's cli_config \<Rightarrow> pubkey \<Rightarrow> nat \<Rightarrow>
   bytes option \<Rightarrow> pubkey \<Rightarrow> u64 \<Rightarrow> ('w, cli_error, signature) io" where
  "process_withdraw_from_nonce_account B S C G nonce_account nonce_authority memo dest lams =
     io_bind (io_map_err CLE_ClientError (client_get_latest_blockhash C)) (\<lambda>latest_blockhash.
     io_bind (io_lift (signer_at G nonce_authority)) (\<lambda>nonce_authority.
     io_bind (io_lift (with_memo
       [sb_withdraw_nonce_account B nonce_account (mk_pubkey S nonce_authority) dest lams] memo)) (\<lambda>ixs.
     io_bind (io_lift (signer_at G 0)) (\<lambda>payer.
     sign_check_and_send S C G (mk_new S ixs (Some (mk_pubkey S payer))) latest_blockhash))))"

definition process_new_nonce ::
  "system_builders \<Rightarrow> ('m, 's) message_sdk \<Rightarrow> ('w, 'm, 'json) wasm_client \<Rightarrow> 's cli_config \<Rightarrow> pubkey \<Rightarrow> nat \<Rightarrow>
   bytes option \<Rightarrow> ('w, cli_error, signature) io" where
  "process_new_nonce B S C G nonce_account nonce_authority memo =
     io_bind (io_lift (signer_at G 0)) (\<lambda>payer.
     io_bind (io_lift (check_unique_pubkeys (mk_pubkey S payer) nonce_account)) (\<lambda>_.
     io_bind (io_attempt (client_get_account C nonce_account)) (\<lambda>r.
     case r of
       Inl err \<Rightarrow> io_fail (CLE_BadParameter (BP_UnableToAdvance nonce_account err))
     | Inr _ \<Rightarrow>
         io_bind (io_lift (signer_at G nonce_authority)) (\<lambda>nonce_authority.
         io_bind (io_lift (with_memo
           [sb_advance_nonce_account B nonce_account (mk_pubkey S nonce_authority)] memo)) (\<lambda>ixs.
         io_bind (io_map_err CLE_ClientError (client_get_latest_blockhash C)) (\<lambda>latest_blockhash.
         sign_check_and_send S C G (mk_new S ixs (Some (mk_pubkey S payer))) latest_blockhash))))))"

definition process_get_nonce ::
  "('w, 'm, 'json) wasm_client \<Rightarrow> 's cli_config \<Rightarrow> pubkey \<Rightarrow> ('w, cli_error, hash option) io" where
  "process_get_nonce C G nonce_account =
     io_bind (io_map_err CLE_Nonce
       (io_bind (nonce_get_account_with_commitment C nonce_account (cg_commitment_config G)) (\<lambda>a.
        io_lift (state_from_account (wc_provider C) a)))) (\<lambda>s.
     io_ok (case s of NS_Uninitialized \<Rightarrow> None | NS_Initialized d \<Rightarrow> Some (nd_durable_nonce d)))"

definition process_create_nonce_account ::
  "system_builders \<Rightarrow> ('m, 's) message_sdk \<Rightarrow> ('w, 'm, 'json) wasm_client \<Rightarrow> 's cli_config \<Rightarrow> nat \<Rightarrow>
   bytes option \<Rightarrow> pubkey option \<Rightarrow> bytes option \<Rightarrow> spend_amount \<Rightarrow> ('w, cli_error, signature) io" where
  "process_create_nonce_account B S C G nonce_account seed nonce_authority memo spending =
     io_bind (io_lift (signer_at G nonce_account)) (\<lambda>nonce_signer.
     let nonce_account_key = mk_pubkey S nonce_signer in
     io_bind (case seed of
         Some seed \<Rightarrow> io_lift (map_err CLE_Signing
           (sb_create_with_seed B nonce_account_key seed (pv_system_program_id (wc_provider C))))
       | None \<Rightarrow> io_ok nonce_account_key) (\<lambda>nonce_account_address.
     io_bind (io_lift (signer_at G 0)) (\<lambda>payer.
     let payer_key = mk_pubkey S payer in
     io_bind (io_lift (check_unique_pubkeys payer_key nonce_account_address)) (\<lambda>_.
     let authority = (case nonce_authority of Some a \<Rightarrow> a | None \<Rightarrow> payer_key);
         build_message = (\<lambda>lams.
           try_bind (with_memo (case seed of
               Some seed \<Rightarrow> sb_create_nonce_account_with_seed B payer_key nonce_account_address nonce_account_key
                 seed authority lams
             | None \<Rightarrow> sb_create_nonce_account B payer_key nonce_account_key authority lams) memo) (\<lambda>ixs.
           Ok (mk_new S ixs (Some payer_key)))) in
     io_bind (io_map_err CLE_ClientError (client_get_latest_blockhash C)) (\<lambda>latest_blockhash.
     io_bind (resolve_spend_tx_and_check_account_balance S C False spending latest_blockhash payer_key build_message
       (cg_commitment_config G)) (\<lambda>(m, lams).
     io_bind (io_attempt (nonce_get_account C nonce_account_address)) (\<lambda>existing.
     case existing of
       Inr a \<Rightarrow> io_bind (io_lift (is_ok (state_from_account (wc_provider C) a))) (\<lambda>is_nonce.
         io_fail (CLE_BadParameter (if is_nonce then BP_NonceAccountExists nonce_account_address
           else BP_AccountExistsNotNonce nonce_account_address)))
     | Inl _ \<Rightarrow>
         io_bind (io_map_err CLE_ClientError (client_minimum_balance C (sb_nonce_state_size B))) (\<lambda>minimum_balance.
         if lams < minimum_balance then io_fail (CLE_BadParameter (BP_NeedsRentExemption minimum_balance lams))
         else
           io_bind (io_lift (map_err CLE_Signing
             (mk_try_sign S (cg_signers G) latest_blockhash (mk_new_unsigned S m)))) (\<lambda>tx.
           io_bind (io_map_err CLE_ClientError
             (get_feature_is_active B C (sb_merge_nonce_error_feature B))) (\<lambda>_.
           io_map_err CLE_ClientError (send_and_confirm_transaction C tx)))))))))))"

section \<open>Wallet commands\<close>

definition cli_config_pubkey :: "('m, 's) message_sdk \<Rightarrow> 's cli_config \<Rightarrow> (cli_error, pubkey) result" where
  "cli_config_pubkey S G = (case cg_signers G of
      s # _ \<Rightarrow> Ok (mk_pubkey S s) | [] \<Rightarrow> Fail (CLE_Signing (SGE_Signer 0)))"

definition process_balance ::
  "('m, 's) message_sdk \<Rightarrow> ('w, 'm, 'json) wasm_client \<Rightarrow> 's cli_config \<Rightarrow> pubkey option \<Rightarrow> ('w, cli_error, u64) io" where
  "process_balance S C G key =
     io_bind (io_lift (case key of Some k \<Rightarrow> Ok k | None \<Rightarrow> cli_config_pubkey S G)) (\<lambda>key.
     io_map_err CLE_ClientError (get_balance_with_commitment C key (cg_commitment_config G)))"

text \<open>Whether the airdrop shows in the balance: the new balance, or nothing when it does not.\<close>

definition request_and_confirm_airdrop ::
  "('w, 'm, 'json) wasm_client \<Rightarrow> 's cli_config \<Rightarrow> pubkey \<Rightarrow> u64 \<Rightarrow> ('w, signature) client_io" where
  "request_and_confirm_airdrop C G to_key lams =
     io_bind (pv_request_airdrop (wc_provider C) to_key lams) (\<lambda>signature.
     io_bind (confirm_transaction_with_commitment C signature (cg_commitment_config G)) (\<lambda>_.
     io_ok signature))"

definition process_airdrop ::
  "('m, 's) message_sdk \<Rightarrow> ('w, 'm, 'json) wasm_client \<Rightarrow> 's cli_config \<Rightarrow> pubkey option \<Rightarrow> u64 \<Rightarrow>
   ('w, cli_error, u64 option) io" where
  "process_airdrop S C G key lams =
     io_bind (io_lift (case key of Some k \<Rightarrow> Ok k | None \<Rightarrow> cli_config_pubkey S G)) (\<lambda>key.
     io_bind (io_map_err CLE_ClientError (get_balance_with_commitment C key (cg_commitment_config G))) (\<lambda>pre_balance.
     io_bind (io_map_err CLE_ClientError (request_and_confirm_airdrop C G key lams)) (\<lambda>_.
     io_bind (io_map_err CLE_ClientError (get_balance_with_commitment C key (cg_commitment_config G))) (\<lambda>current_balance.
     io_ok (if current_balance < saturating_add pre_balance lams then None else Some current_balance)))))"

definition process_create_address_with_seed ::
  "system_builders \<Rightarrow> ('m, 's) message_sdk \<Rightarrow> 's cli_config \<Rightarrow> pubkey option \<Rightarrow> bytes \<Rightarrow> pubkey \<Rightarrow> (cli_error, pubkey) result" where
  "process_create_address_with_seed B S G from_key seed program_id =
     try_bind (case from_key of Some k \<Rightarrow> Ok k | None \<Rightarrow> cli_config_pubkey S G) (\<lambda>from_key.
     map_err CLE_Signing (sb_create_with_seed B from_key seed program_id))"

record transfer_args =
  ta_spending :: spend_amount
  ta_to :: pubkey
  ta_from :: nat
  ta_sign_only :: bool
  ta_allow_unfunded_recipient :: bool
  ta_no_wait :: bool
  ta_blockhash_query :: blockhash_query
  ta_nonce_account :: "pubkey option"
  ta_nonce_authority :: nat
  ta_memo :: "bytes option"
  ta_fee_payer :: nat
  ta_derived_address :: "(bytes \<times> pubkey) option"

definition send_tx_wrapper :: "('w, 'm, 'json) wasm_client \<Rightarrow> 'm transaction \<Rightarrow> bool \<Rightarrow> ('w, signature) client_io" where
  "send_tx_wrapper C tx no_wait =
     (if no_wait then client_send_transaction C tx else send_and_confirm_transaction C tx)"

text \<open>The message of a transfer of lamports; \<open>base\<close> is the key a derived sender comes from.\<close>

definition transfer_message ::
  "system_builders \<Rightarrow> ('m, 's) message_sdk \<Rightarrow> transfer_args \<Rightarrow> pubkey \<Rightarrow> pubkey \<Rightarrow> pubkey \<Rightarrow> pubkey \<Rightarrow> u64 \<Rightarrow>
   ('e, 'm) result" where
  "transfer_message B S A base_key from_key payer_key nonce_authority_key lams =
     try_bind (with_memo [case ta_derived_address A of
         Some (seed, program_id) \<Rightarrow> sb_transfer_with_seed B from_key base_key seed program_id (ta_to A) lams
       | None \<Rightarrow> sb_transfer B from_key (ta_to A) lams] (ta_memo A)) (\<lambda>ixs.
     Ok (case ta_nonce_account A of
         Some n \<Rightarrow> mk_new_with_nonce S ixs (Some payer_key) n nonce_authority_key
       | None \<Rightarrow> mk_new S ixs (Some payer_key)))"

text \<open>A transaction that is only signed is returned; otherwise the signature it was sent under.\<close>

definition process_transfer_cli ::
  "system_builders \<Rightarrow> ('m, 's) message_sdk \<Rightarrow> ('w, 'm, 'json) wasm_client \<Rightarrow> 's cli_config \<Rightarrow> transfer_args \<Rightarrow>
   ('w, cli_error, 'm transaction + signature) io" where
  "process_transfer_cli B S C G A =
     io_bind (io_lift (signer_at G (ta_from A))) (\<lambda>from.
     let base_key = mk_pubkey S from in
     io_bind (io_map_err CLE_Blockhash
       (query_get_blockhash C (ta_blockhash_query A) (cg_commitment_config G))) (\<lambda>recent_blockhash.
     io_bind (if \<not> ta_sign_only A \<and> \<not> ta_allow_unfunded_recipient A then
         io_bind (io_map_err CLE_ClientError
           (get_balance_with_commitment C (ta_to A) (cg_commitment_config G))) (\<lambda>recipient_balance.
         if recipient_balance = 0 then io_fail (CLE_RecipientNotFunded (ta_to A)) else io_ok ())
       else io_ok ()) (\<lambda>_.
     io_bind (io_lift (signer_at G (ta_nonce_authority A))) (\<lambda>nonce_authority.
     io_bind (io_lift (signer_at G (ta_fee_payer A))) (\<lambda>fee_payer.
     io_bind (case ta_derived_address A of
         Some (seed, program_id) \<Rightarrow> io_lift (map_err CLE_Signing (sb_create_with_seed B base_key seed program_id))
       | None \<Rightarrow> io_ok base_key) (\<lambda>from_key.
     let payer_key = mk_pubkey S fee_payer; nonce_key = mk_pubkey S nonce_authority in
     io_bind (resolve_spend_tx_and_check_account_balances S C (ta_sign_only A) (ta_spending A) recent_blockhash
       from_key payer_key (transfer_message B S A base_key from_key payer_key nonce_key)
       (cg_commitment_config G)) (\<lambda>(m, _).
     if ta_sign_only A then
       io_bind (io_lift (map_err CLE_Signing
         (mk_try_partial_sign S (cg_signers G) recent_blockhash (mk_new_unsigned S m)))) (\<lambda>tx.
       io_ok (Inl tx))
     else
       io_bind (case ta_nonce_account A of
           Some n \<Rightarrow>
             io_bind (io_map_err CLE_Nonce
               (nonce_get_account_with_commitment C n (cg_commitment_config G))) (\<lambda>a.
             io_lift (check_nonce_account (wc_provider C) a nonce_key recent_blockhash))
         | None \<Rightarrow> io_ok ()) (\<lambda>_.
       io_bind (io_lift (map_err CLE_Signing
         (mk_try_sign S (cg_signers G) recent_blockhash (mk_new_unsigned S m)))) (\<lambda>tx.
       io_bind (io_map_err CLE_ClientError (send_tx_wrapper C tx (ta_no_wait A))) (\<lambda>s.
       io_ok (Inr s)))))))))))"

end
