(* ===== verification/CliProperties.thy ===== *)
theory CliProperties
  imports CliWallet
begin

text \<open>
  What the command line programs guarantee: what they spend is there, what they report as
  sent was accepted by the node, and what goes wrong.
\<close>

section \<open>Sent transactions\<close>

lemma send_Ok_iff:
  "send_transaction_with_config C t config w = (Inr s, w') \<longleftrightarrow>
     pv_send_transaction (wc_provider C) t config w = (Inr s, w') \<and>
     (\<exists>rest. tr_signatures t = s # rest)"
  by (auto simp: send_transaction_with_config_def io_err_def first_signature_def ok_simps split: list.splits if_splits)

text \<open>A transaction reported as sent and confirmed was accepted by the node under its own first
  signature; whether it was confirmed, or failed, does not change the report.\<close>

theorem sent_transaction_reported:
  "send_and_confirm_transaction_with_config C t c config w = (Inr s, w') \<longleftrightarrow>
     (\<exists>w1 confirmed. pv_send_transaction (wc_provider C) t config w = (Inr s, w1) \<and>
        (\<exists>rest. tr_signatures t = s # rest) \<and>
        confirm_transaction_with_commitment C s c w1 = (Inr confirmed, w'))"
  by (auto simp: send_and_confirm_transaction_with_config_def ok_simps send_Ok_iff)

section \<open>Spending\<close>

text \<open>The lamports that are to be spent, given the balance, the fee and the rent to leave behind.\<close>

definition spend_of :: "spend_amount \<Rightarrow> bool \<Rightarrow> u64 \<Rightarrow> u64 \<Rightarrow> u64 \<Rightarrow> u64" where
  "spend_of a pays_fee balance fee rent = (case a of
      SA_Some n \<Rightarrow> n
    | SA_All \<Rightarrow> if pays_fee then saturating_sub balance fee else balance
    | SA_RentExempt \<Rightarrow> saturating_sub (if pays_fee then saturating_sub balance fee else balance) rent)"

definition covered :: "spend_amount \<Rightarrow> u64 \<Rightarrow> bool \<Rightarrow> u64 \<Rightarrow> u64 \<Rightarrow> u64 \<Rightarrow> bool" where
  "covered a n pays_fee balance fee rent \<longleftrightarrow>
     n = spend_of a pays_fee balance fee rent \<and>
     (pays_fee \<longrightarrow> balance \<noteq> 0 \<and>
       (unat n + unat fee < 2 ^ 64 \<longrightarrow> unat n + unat fee \<le> unat balance) \<and>
       (a = SA_All \<longrightarrow> unat n + unat fee = unat balance) \<and>
       (a = SA_RentExempt \<longrightarrow> n \<noteq> 0 \<longrightarrow> unat n + unat fee + unat rent = unat balance)) \<and>
     (\<not> pays_fee \<longrightarrow> n \<le> balance)"

lemma resolve_spend_message_Ok:
  "resolve_spend_message S C a (Some h) balance from_key fee_key rent build w = (Inr (m, f), w') \<longleftrightarrow>
     (\<exists>dummy. build 0 = Inr dummy \<and>
        get_fee_for_messages C [mk_set_blockhash S h dummy] w = (Inr (saf_fee f), w')) \<and>
     saf_spend f = spend_of a (from_key = fee_key) balance (saf_fee f) rent \<and> build (saf_spend f) = Inr m"
  by (cases f; cases a) (auto simp: resolve_spend_message_def ok_simps spend_of_def Let_def)

text \<open>The sum of what is spent and of the fee is a sum of words.\<close>

lemma paid_in_full:
  fixes balance fee n :: u64
  assumes "\<not> balance < n + fee"
  shows "unat n + unat fee < 2 ^ 64 \<Longrightarrow> unat n + unat fee \<le> unat balance"
  using assms by (simp add: not_less word_le_nat_alt unat_add_lem [THEN iffD1])

text \<open>The balance covers the spending, and the fee if the sender pays it, as long as their sum is a
  \<open>u64\<close>; spending everything leaves nothing, and spending down to rent exemption leaves the rent.\<close>

lemma spent_is_covered:
  assumes n: "n = saf_spend f"
    and s: "saf_spend f = spend_of a (from_key = fee_key) balance (saf_fee f) rent" "build (saf_spend f) = Inr m"
    and own: "from_key = fee_key \<Longrightarrow> balance \<noteq> 0 \<and> \<not> balance < saf_spend f + saf_fee f"
    and other: "from_key \<noteq> fee_key \<Longrightarrow> \<not> balance < saf_spend f"
  shows "covered a n (from_key = fee_key) balance (saf_fee f) rent"
proof -
  show ?thesis unfolding covered_def
  proof (intro conjI impI)
    show "n = spend_of a (from_key = fee_key) balance (saf_fee f) rent" using s n by simp
    show "from_key \<noteq> fee_key \<Longrightarrow> n \<le> balance" using other n by (simp add: not_less)
    assume eq: "from_key = fee_key"
    from own [OF eq] n show "balance \<noteq> 0" by simp
    from own [OF eq] n paid_in_full [of balance n "saf_fee f"]
    show "unat n + unat (saf_fee f) < 2 ^ 64 \<Longrightarrow> unat n + unat (saf_fee f) \<le> unat balance" by simp
    have le: "unat (saf_fee f) \<le> unat balance" if "a = SA_All \<or> a = SA_RentExempt \<and> n \<noteq> 0"
    proof (rule ccontr)
      assume "\<not> unat (saf_fee f) \<le> unat balance"
      then have "balance < saf_fee f" by (simp add: word_less_nat_alt)
      then have "saturating_sub balance (saf_fee f) = 0" by (auto simp: saturating_sub_def)
      moreover have "saturating_sub 0 rent = 0" by (simp add: saturating_sub_def)
      ultimately have "saf_spend f = 0" using that s(1) eq by (auto simp: spend_of_def)
      with own [OF eq] \<open>balance < saf_fee f\<close> show False by simp
    qed
    show "unat n + unat (saf_fee f) = unat balance" if "a = SA_All"
      using le that s(1) n eq by (simp add: spend_of_def unat_saturating_sub)
    show "unat n + unat (saf_fee f) + unat rent = unat balance" if "a = SA_RentExempt" "n \<noteq> 0"
    proof -
      have "unat n \<noteq> 0" using that(2) by (simp add: unat_eq_0)
      moreover have "unat n = unat balance - unat (saf_fee f) - unat rent"
        using that(1) s(1) n eq by (simp add: spend_of_def unat_saturating_sub)
      ultimately show ?thesis using le that by simp
    qed
  qed
qed

text \<open>What the client asks the node for to find out what can be spent: the balance of the sender,
  for spending down to rent exemption the rent of the sender's data, the fee of the message with
  nothing to spend under the blockhash, and, when another account pays the fee, the balance of that
  account, which covers the fee.\<close>

definition funded ::
  "('m, 's) message_sdk \<Rightarrow> ('w, 'm, 'json) wasm_client \<Rightarrow> spend_amount \<Rightarrow> hash \<Rightarrow> pubkey \<Rightarrow> pubkey \<Rightarrow>
   (u64 \<Rightarrow> (cli_error, 'm) result) \<Rightarrow> commitment \<Rightarrow> 'w \<Rightarrow> u64 \<Rightarrow> bool" where
  "funded S C a h from_key fee_key build c w n \<longleftrightarrow>
     (\<exists>balance w1 rent w2 dummy fee w3.
        get_balance_with_commitment C from_key c w = (Inr balance, w1) \<and>
        (if a = SA_RentExempt
         then \<exists>data v. get_account_data C from_key w1 = (Inr data, v) \<and>
           client_minimum_balance C (length data) v = (Inr rent, w2)
         else rent = 0 \<and> w2 = w1) \<and>
        build 0 = Inr dummy \<and>
        get_fee_for_messages C [mk_set_blockhash S h dummy] w2 = (Inr fee, w3) \<and>
        covered a n (from_key = fee_key) balance fee rent \<and>
        (from_key \<noteq> fee_key \<longrightarrow> (\<exists>payer_balance w4.
           get_balance_with_commitment C fee_key c w3 = (Inr payer_balance, w4) \<and>
           payer_balance \<noteq> 0 \<and> fee \<le> payer_balance)))"

lemma resolved_spending:
  assumes "resolve_spend_tx_and_check_account_balances S C False a h from_key fee_key build c w = (Inr (m, n), w')"
  shows "build n = Inr m \<and> funded S C a h from_key fee_key build c w n"
proof -
  from assms obtain balance w1 rent w2 f w3 where
      b: "get_balance_with_commitment C from_key c w = (Inr balance, w1)"
    and rent: "if a = SA_RentExempt
         then \<exists>data v. get_account_data C from_key w1 = (Inr data, v) \<and>
           client_minimum_balance C (length data) v = (Inr rent, w2)
         else rent = 0 \<and> w2 = w1"
    and f: "resolve_spend_message S C a (Some h) balance from_key fee_key rent build w2 = (Inr (m, f), w3)"
    and n: "n = saf_spend f"
    and own: "from_key = fee_key \<Longrightarrow> balance \<noteq> 0 \<and> \<not> balance < saf_spend f + saf_fee f"
    and other: "from_key \<noteq> fee_key \<Longrightarrow> \<not> balance < saf_spend f"
    and payer: "from_key \<noteq> fee_key \<Longrightarrow> \<exists>payer_balance w4.
           get_balance_with_commitment C fee_key c w3 = (Inr payer_balance, w4) \<and>
           payer_balance \<noteq> 0 \<and> saf_fee f \<le> payer_balance"
    unfolding resolve_spend_tx_and_check_account_balances_def
    by (auto simp: ok_simps check_account_for_balance_with_commitment_def split: if_splits)
  from f obtain dummy where s: "saf_spend f = spend_of a (from_key = fee_key) balance (saf_fee f) rent"
      "build (saf_spend f) = Inr m" "build 0 = Inr dummy"
      "get_fee_for_messages C [mk_set_blockhash S h dummy] w2 = (Inr (saf_fee f), w3)"
    unfolding resolve_spend_message_Ok by blast
  have cov: "covered a n (from_key = fee_key) balance (saf_fee f) rent"
    by (rule spent_is_covered, rule n, rule s(1), rule s(2)) (use own other in blast)+
  have "funded S C a h from_key fee_key build c w n"
    unfolding funded_def using b rent s(3,4) cov payer by blast
  with n s(2) show ?thesis by simp
qed

text \<open>A sum that wraps passes the check: a balance of one lamport covers spending all the lamports
  of a \<open>u64\<close> with a fee of one.\<close>

lemma wrapped_spending_passes: "\<not> (1 :: u64) < - 1 + 1"
  by simp

section \<open>Transfers\<close>

lemma message_without_memo:
  assumes "resolve_spend_tx_and_check_account_balances S C b a h from_key fee_key build c w = (Inr r, w')"
  shows "\<exists>n m. build n = Inr m"
  using assms
  by (auto simp: resolve_spend_tx_and_check_account_balances_def resolve_spend_message_def ok_simps Let_def
      split: if_splits)

lemma transfer_message_Ok:
  "transfer_message B S A b f p n l = Inr m \<Longrightarrow> ta_memo A = None"
  by (auto simp: transfer_message_def with_memo_eq split: if_splits)

lemma case_fail_Ok:
  "(case r of Inl e \<Rightarrow> io_lift (Inl (g e)) | Inr y \<Rightarrow> f y) w = (Inr x, w') \<longleftrightarrow> (\<exists>y. r = Inr y \<and> f y w = (Inr x, w'))"
  by (cases r) auto

lemma memo_free:
  "try_bind (with_memo ixs memo) g = Inr m \<Longrightarrow> memo = None"
  "io_bind (io_lift (with_memo ixs memo)) k w = (Inr r, w') \<Longrightarrow> memo = None"
  by (auto simp: with_memo_eq split: if_splits)

text \<open>A command that is given a memo never succeeds: the id of the memo program is made from bytes
  that are not 32, so building the instruction panics.\<close>

theorem memo_never_sent:
  "fst (process_transfer_cli B S C G (A\<lparr>ta_memo := Some memo\<rparr>) w) \<noteq> Inr r \<and>
   fst (process_authorize_nonce_account B S C G k i (Some memo) k' w) \<noteq> Inr s \<and>
   fst (process_withdraw_from_nonce_account B S C G k i (Some memo) k' l w) \<noteq> Inr s \<and>
   fst (process_new_nonce B S C G k i (Some memo) w) \<noteq> Inr s \<and>
   fst (process_create_nonce_account B S C G i seed au (Some memo) sp w) \<noteq> Inr s"
proof (intro conjI notI)
  fix M :: "bytes option" and A' :: transfer_args
  have fst: "fst p = x \<Longrightarrow> \<exists>w'. p = (x, w')" for p :: "'x \<times> 'y" and x by (cases p) simp
  show False if "fst (process_transfer_cli B S C G (A\<lparr>ta_memo := Some memo\<rparr>) w) = Inr r"
    using fst [OF that] unfolding process_transfer_cli_def io_bind_eq_Ok Let_def
    by (fastforce dest: message_without_memo transfer_message_Ok)
  show False if "fst (process_authorize_nonce_account B S C G k i (Some memo) k' w) = Inr s"
    using fst [OF that] by (auto simp: process_authorize_nonce_account_def with_memo_eq ok_simps)
  show False if "fst (process_withdraw_from_nonce_account B S C G k i (Some memo) k' l w) = Inr s"
    using fst [OF that] by (auto simp: process_withdraw_from_nonce_account_def with_memo_eq ok_simps)
  show False if "fst (process_new_nonce B S C G k i (Some memo) w) = Inr s"
    using fst [OF that] by (auto simp: process_new_nonce_def with_memo_eq ok_simps case_fail_Ok)
  show False if "fst (process_create_nonce_account B S C G i seed au (Some memo) sp w) = Inr s"
    using fst [OF that] unfolding process_create_nonce_account_def io_bind_eq_Ok Let_def
      resolve_spend_tx_and_check_account_balance_def
    by (fastforce dest: message_without_memo memo_free)
qed

text \<open>C39: a transfer that the command reports as sent was accepted by the node under its first
  signature. Its message moves the lamports resolved from the amount asked for, from the sender or from
  the address derived from its key, to the recipient, and is signed by the configuration's signers under
  the blockhash the fee was asked for. The balance read from the node covers the lamports, with the fee
  it quoted when the sender pays it (as long as the sum is a \<open>u64\<close>): spending all leaves nothing, and
  spending down to rent exemption the rent; when another account pays, its balance covers the fee. The
  recipient is funded, unless that is not asked for.\<close>

theorem transfer_is_covered:
  assumes "process_transfer_cli B S C G A w = (Inr (Inr s), w')"
  shows "\<exists>sender payer nonce from_key h n m tx rest w1.
    signer_at G (ta_from A) = Inr sender \<and> signer_at G (ta_fee_payer A) = Inr payer \<and>
    signer_at G (ta_nonce_authority A) = Inr nonce \<and>
    (\<exists>v v'. query_get_blockhash C (ta_blockhash_query A) (cg_commitment_config G) v = (Inr h, v')) \<and>
    (case ta_derived_address A of
       None \<Rightarrow> from_key = mk_pubkey S sender
     | Some (seed, program_id) \<Rightarrow> sb_create_with_seed B (mk_pubkey S sender) seed program_id = Inr from_key) \<and>
    (\<not> ta_allow_unfunded_recipient A \<longrightarrow> (\<exists>v b v'.
       get_balance_with_commitment C (ta_to A) (cg_commitment_config G) v = (Inr b, v') \<and> b \<noteq> 0)) \<and>
    (let build = transfer_message B S A (mk_pubkey S sender) from_key (mk_pubkey S payer) (mk_pubkey S nonce) in
     build n = Inr m \<and>
     funded S C (ta_spending A) h from_key (mk_pubkey S payer) build (cg_commitment_config G) w1 n) \<and>
    mk_try_sign S (cg_signers G) h (mk_new_unsigned S m) = Inr tx \<and> tr_signatures tx = s # rest \<and>
    (\<exists>config v v'. pv_send_transaction (wc_provider C) tx config v = (Inr s, v'))"
proof -
  have sent: "(\<exists>rest. tr_signatures tx = s # rest) \<and>
      (\<exists>config v v'. pv_send_transaction (wc_provider C) tx config v = (Inr s, v'))"
    if "send_tx_wrapper C tx b v = (Inr s, v')" for tx b v v'
    using that
    by (auto simp: send_tx_wrapper_def client_send_transaction_def send_and_confirm_transaction_def
        send_and_confirm_transaction_with_config_def send_Ok_iff ok_simps split: if_splits)
  have recipient: "\<exists>v b v'. get_balance_with_commitment C (ta_to A) (cg_commitment_config G) v = (Inr b, v') \<and> b \<noteq> 0"
    if "\<not> ta_allow_unfunded_recipient A"
    using assms that unfolding process_transfer_cli_def io_bind_eq_Ok Let_def
    by (auto simp: ok_simps split: if_splits)
  from assms obtain sender payer nonce from_key h m n tx v0 v1 v2 v3 v4 where
      "signer_at G (ta_from A) = Inr sender" "signer_at G (ta_fee_payer A) = Inr payer"
      "signer_at G (ta_nonce_authority A) = Inr nonce"
      "query_get_blockhash C (ta_blockhash_query A) (cg_commitment_config G) w = (Inr h, v0)"
    and derived: "case ta_derived_address A of
       None \<Rightarrow> from_key = mk_pubkey S sender
     | Some (seed, program_id) \<Rightarrow> sb_create_with_seed B (mk_pubkey S sender) seed program_id = Inr from_key"
    and spend: "resolve_spend_tx_and_check_account_balances S C False (ta_spending A) h from_key (mk_pubkey S payer)
       (transfer_message B S A (mk_pubkey S sender) from_key (mk_pubkey S payer) (mk_pubkey S nonce))
       (cg_commitment_config G) v1 = (Inr (m, n), v2)"
    and "mk_try_sign S (cg_signers G) h (mk_new_unsigned S m) = Inr tx"
    and send: "send_tx_wrapper C tx (ta_no_wait A) v3 = (Inr s, v4)"
    unfolding process_transfer_cli_def io_bind_eq_Ok Let_def
    by (cases "ta_derived_address A"; cases "ta_nonce_account A") (auto simp: ok_simps split: if_splits)
  with resolved_spending [OF spend] sent [OF send] recipient show ?thesis unfolding Let_def by blast
qed

section \<open>An example\<close>

text \<open>A node that knows one funded key, charges a fee of five and accepts what it is sent; signing puts
  the first signer's key as the signature, and a message is its instructions, payer and blockhash.\<close>

definition provider0 :: "(nat, instruction list \<times> pubkey option \<times> hash, unit) provider" where
  "provider0 = \<lparr>
     pv_balance = (\<lambda>k c. io_ok (if k = 1 \<or> k = 2 then 100 else 0)),
     pv_request_airdrop = (\<lambda>k n. io_ok 0),
     pv_signature_statuses = (\<lambda>ss. io_ok [Some \<lparr>ssv_slot = 1, ssv_confirmations = None,
        ssv_err = Some (TXE_External 0), ssv_confirmation_status = Some TCS_Finalized\<rparr>]),
     pv_account_info = (\<lambda>k c. io_ok None),
     pv_multiple_accounts = (\<lambda>ks c. io_ok []),
     pv_program_accounts = (\<lambda>k c. io_ok None),
     pv_latest_blockhash = (\<lambda>c. io_ok ([], 0)),
     pv_blockhash_valid = (\<lambda>h c. io_ok True),
     pv_minimum_balance = (\<lambda>n. io_ok 10),
     pv_fee_for_message = (\<lambda>m. io_ok 5),
     pv_send_transaction = (\<lambda>t c w. (Ok (hd (tr_signatures t)), Suc w)),
     pv_token_accounts_by_owner = (\<lambda>k f c. io_ok []),
     pv_token_account_balance = (\<lambda>k c. io_ok \<lparr>uta_ui_amount = None, uta_decimals = 0, uta_amount = [], uta_ui_amount_string = []\<rparr>),
     pv_token_supply = (\<lambda>k c. io_ok \<lparr>uta_ui_amount = None, uta_decimals = 0, uta_amount = [], uta_ui_amount_string = []\<rparr>),
     pv_block_time = (\<lambda>s. io_ok None),
     pv_genesis_hash = io_ok [],
     pv_sleep = (\<lambda>ms w. w),
     pv_codec = ui_codec0,
     pv_hash_from_str = (\<lambda>b. Some 9),
     pv_token_account_type = (\<lambda>j. None),
     pv_nonce_state = (\<lambda>a. None),
     pv_system_program_id = 0\<rparr>"

definition client0 :: "(nat, instruction list \<times> pubkey option \<times> hash, unit) wasm_client" where
  "client0 = \<lparr>wc_provider = provider0, wc_commitment_config = CC_Confirmed\<rparr>"

definition message_sdk0 :: "(instruction list \<times> pubkey option \<times> hash, pubkey) message_sdk" where
  "message_sdk0 = \<lparr>mk_new = (\<lambda>ixs p. (ixs, p, 0)), mk_new_with_nonce = (\<lambda>ixs p n a. (ixs, p, 0)),
     mk_set_blockhash = (\<lambda>h (ixs, p, _). (ixs, p, h)), mk_signer_keys = (\<lambda>_. []), mk_pubkey = id,
     mk_new_unsigned = (\<lambda>m. \<lparr>tr_message = m, tr_signatures = []\<rparr>),
     mk_try_sign = (\<lambda>ss h t. Ok (t\<lparr>tr_signatures := map ucast ss\<rparr>)),
     mk_try_partial_sign = (\<lambda>ss h t. Ok t)\<rparr>"

definition builders0 :: system_builders where
  "builders0 = (let ix = \<lparr>in_program_id = 0, in_accounts = [], in_data = []\<rparr> in
     \<lparr>sb_transfer = (\<lambda>a b n. ix\<lparr>in_accounts := [meta_new a True, meta_new b False], in_data := to_le_bytes n\<rparr>),
      sb_transfer_with_seed = (\<lambda>a b s p t n. ix), sb_create_account = (\<lambda>a b n l d. ix),
      sb_create_nonce_account = (\<lambda>a b c n. [ix]), sb_create_nonce_account_with_seed = (\<lambda>a b c s d n. [ix]),
      sb_advance_nonce_account = (\<lambda>a b. ix), sb_authorize_nonce_account = (\<lambda>a b c. ix),
      sb_withdraw_nonce_account = (\<lambda>a b c n. ix), sb_create_with_seed = (\<lambda>a s p. Ok a),
      sb_nonce_state_size = 80, sb_merge_nonce_error_feature = 0, sb_feature_activated_at = (\<lambda>a. None)\<rparr>)"

definition transfer_args0 :: transfer_args where
  "transfer_args0 = \<lparr>ta_spending = SA_All, ta_to = 2, ta_from = 0, ta_sign_only = False,
     ta_allow_unfunded_recipient = False, ta_no_wait = True, ta_blockhash_query = BQ_All BS_Cluster,
     ta_nonce_account = None, ta_nonce_authority = 0, ta_memo = None, ta_fee_payer = 0, ta_derived_address = None\<rparr>"

lemmas cli_example = provider0_def client0_def message_sdk0_def builders0_def transfer_args0_def

lemma cli_transfer0:
  "process_transfer_cli builders0 message_sdk0 client0 \<lparr>cg_signers = [1], cg_commitment_config = CC_Confirmed,
     cg_send_transaction_config = rsc_default\<rparr>
     transfer_args0 0 = (Inr (Inr 1), 1)"
  by (simp add: process_transfer_cli_def cli_example signer_at_def query_get_blockhash_def
      source_get_blockhash_def get_latest_blockhash_with_config_def io_map_err_def io_bind_def Let_def
      get_balance_with_commitment_def resolve_spend_tx_and_check_account_balances_def resolve_spend_message_def
      get_fee_for_messages_def client_fee_for_message_def transfer_message_def with_memo_def saturating_sub_def
      send_tx_wrapper_def client_send_transaction_def send_transaction_with_config_def first_signature_def)

text \<open>All of the balance of 100 but the fee of five is spent.\<close>

lemma transfer_is_covered_witness:
  "\<exists>n m. process_transfer_cli builders0 message_sdk0 client0 \<lparr>cg_signers = [1],
     cg_commitment_config = CC_Confirmed, cg_send_transaction_config = rsc_default\<rparr> transfer_args0 0 = (Inr (Inr 1), 1) \<and>
   transfer_message builders0 message_sdk0 transfer_args0 1 1 1 1 n = (Inr m :: (cli_error, _) result) \<and>
   unat n + 5 = 100"
  using transfer_is_covered [OF cli_transfer0] cli_transfer0
  by (auto simp: signer_at_def transfer_message_def with_memo_def transfer_args0_def message_sdk0_def funded_def
      covered_def Let_def client0_def provider0_def get_balance_with_commitment_def get_fee_for_messages_def
      client_fee_for_message_def io_map_err_def io_bind_def)

end
