(* ===== verification/CliProgram.thy ===== *)
theory CliProgram
  imports CliWallet
begin

text \<open>
  The commands of \<open>solana-cli\<close> on upgradeable programs and their buffers that the build
  contains (\<open>commands/program.rs\<close>): setting authorities, listing, showing and closing.
  The loader's ids, instructions and state are the SDK's, the fields of \<open>loader_sdk\<close>.
\<close>

datatype loader_state =
    LS_Uninitialized
  | LS_Buffer "pubkey option"
  | LS_Program pubkey
  | LS_ProgramData u64 "pubkey option"

record loader_sdk =
  ld_id :: pubkey
  ld_bpf_loader_id :: pubkey
  ld_bpf_loader_deprecated_id :: pubkey
  ld_state :: "account \<Rightarrow> loader_state option"
  ld_set_upgrade_authority :: "pubkey \<Rightarrow> pubkey \<Rightarrow> pubkey option \<Rightarrow> instruction"
  ld_set_buffer_authority :: "pubkey \<Rightarrow> pubkey \<Rightarrow> pubkey \<Rightarrow> instruction"
  ld_close_any :: "pubkey \<Rightarrow> pubkey \<Rightarrow> pubkey option \<Rightarrow> pubkey option \<Rightarrow> instruction"
  ld_size_of_programdata_metadata :: nat
  ld_size_of_buffer_metadata :: nat

datatype program_cli_error =
    PCE_Cli cli_error
  | PCE_Client client_error
  | PCE_Signing sign_error
  | PCE_NoCurrentAuthority
  | PCE_BufferAuthorityNone
  | PCE_NotProvided
  | PCE_SettingFailed client_error
  | PCE_ParsingBuffer pubkey
  | PCE_ParsingProgramData pubkey
  | PCE_NotOneProgram pubkey
  | PCE_Closed pubkey
  | PCE_NotUpgradeable pubkey
  | PCE_NotBpf pubkey
  | PCE_InvalidParameters
  | PCE_CloseFailed client_error
  | PCE_BufferAuthority "pubkey option" pubkey
  | PCE_ProgramAuthority "pubkey option" pubkey
  | PCE_NotProgramOrBuffer pubkey
  | PCE_NotFound pubkey
  | PCE_ParsePubkey

type_synonym ('w, 'a) program_io = "('w, program_cli_error, 'a) io"

definition program_signer :: "'s cli_config \<Rightarrow> nat \<Rightarrow> (program_cli_error, 's) result" where
  "program_signer G i = map_err PCE_Cli (signer_at G i)"

definition program_send_config :: "'s cli_config \<Rightarrow> rpc_send_transaction_config" where
  "program_send_config G = rsc_default\<lparr>rsc_skip_preflight := True,
     rsc_encoding := rsc_encoding (cg_send_transaction_config G),
     rsc_preflight_commitment := Some (cg_commitment_config G)\<rparr>"

section \<open>Authorities\<close>

datatype cli_program_account_type = PAT_Program | PAT_Buffer

definition set_authority_instruction ::
  "loader_sdk \<Rightarrow> pubkey option \<Rightarrow> pubkey option \<Rightarrow> pubkey \<Rightarrow> pubkey option \<Rightarrow> (program_cli_error, instruction) result" where
  "set_authority_instruction L program_key buffer_key authority_key new_authority = (case program_key of
      Some key \<Rightarrow> Ok (ld_set_upgrade_authority L key authority_key new_authority)
    | None \<Rightarrow> (case buffer_key of
          Some key \<Rightarrow> (case new_authority of
              Some new_authority \<Rightarrow> Ok (ld_set_buffer_authority L key authority_key new_authority)
            | None \<Rightarrow> Fail PCE_BufferAuthorityNone)
        | None \<Rightarrow> Fail PCE_NotProvided))"

definition process_set_authority_cli ::
  "loader_sdk \<Rightarrow> ('m, 's) message_sdk \<Rightarrow> ('w, 'm, 'json) wasm_client \<Rightarrow> 's cli_config \<Rightarrow> pubkey option \<Rightarrow>
   pubkey option \<Rightarrow> nat option \<Rightarrow> pubkey option \<Rightarrow> ('w, pubkey option \<times> cli_program_account_type) program_io" where
  "process_set_authority_cli L S C G program_key buffer_key authority new_authority = (case authority of
      None \<Rightarrow> io_fail PCE_NoCurrentAuthority
    | Some i \<Rightarrow>
        io_bind (io_lift (program_signer G i)) (\<lambda>authority_signer.
        io_bind (io_map_err PCE_Client (client_get_latest_blockhash C)) (\<lambda>blockhash.
        io_bind (io_lift (set_authority_instruction L program_key buffer_key (mk_pubkey S authority_signer)
          new_authority)) (\<lambda>ix.
        io_bind (io_lift (program_signer G 0)) (\<lambda>payer.
        io_bind (io_lift (map_err PCE_Signing (mk_try_sign S [payer, authority_signer] blockhash
          (mk_new_unsigned S (mk_new S [ix] (Some (mk_pubkey S payer))))))) (\<lambda>tx.
        io_bind (io_map_err PCE_SettingFailed (send_and_confirm_transaction_with_config C tx
          (cg_commitment_config G) (program_send_config G))) (\<lambda>_.
        io_ok (new_authority, if program_key \<noteq> None then PAT_Program else PAT_Buffer))))))))"

section \<open>Listing\<close>

definition ACCOUNT_TYPE_SIZE :: nat where "ACCOUNT_TYPE_SIZE = 4"
definition SLOT_SIZE :: nat where "SLOT_SIZE = 8"
definition OPTION_SIZE :: nat where "OPTION_SIZE = 1"
definition PUBKEY_LEN :: nat where "PUBKEY_LEN = 32"

record cli_upgradeable_buffer =
  cub_address :: pubkey
  cub_authority :: "pubkey option"
  cub_data_len :: nat
  cub_lamports :: u64

record cli_upgradeable_program =
  cup_program_id :: pubkey
  cup_owner :: pubkey
  cup_programdata_address :: pubkey
  cup_authority :: "pubkey option"
  cup_last_deploy_slot :: u64
  cup_data_len :: nat
  cup_lamports :: u64

definition base58_filter :: "ui_codec \<Rightarrow> nat \<Rightarrow> bytes \<Rightarrow> rpc_filter_type" where
  "base58_filter K offset b =
     RF_Memcmp \<lparr>mc_offset = offset, mc_bytes = MB_Base58 (uc_bs58_encode K b), mc_encoding = None\<rparr>"

definition get_accounts_with_filter ::
  "loader_sdk \<Rightarrow> ('w, 'm, 'json) wasm_client \<Rightarrow> rpc_filter_type list \<Rightarrow> nat \<Rightarrow>
   ('w, (pubkey \<times> account) list) program_io" where
  "get_accounts_with_filter L C filters len =
     io_map_err PCE_Client (get_program_accounts_with_config C (ld_id L)
       \<lparr>rpa_filters = Some filters,
        rpa_account_config = rac_default\<lparr>rac_encoding := Some UE_Base64,
          rac_data_slice := Some \<lparr>sl_offset = 0, sl_length = len\<rparr>\<rparr>,
        rpa_with_context = None\<rparr>)"

definition buffer_filters :: "ui_codec \<Rightarrow> pubkey option \<Rightarrow> rpc_filter_type list" where
  "buffer_filters K authority = base58_filter K 0 [1, 0, 0, 0] # (case authority of
      Some key \<Rightarrow> [base58_filter K ACCOUNT_TYPE_SIZE [1],
        base58_filter K (ACCOUNT_TYPE_SIZE + OPTION_SIZE) (to_le_bytes key)]
    | None \<Rightarrow> [])"

definition buffer_entry :: "loader_sdk \<Rightarrow> pubkey \<times> account \<Rightarrow> (program_cli_error, cli_upgradeable_buffer) result" where
  "buffer_entry L = (\<lambda>(address, a). case ld_state L a of
      Some (LS_Buffer authority) \<Rightarrow>
        Ok \<lparr>cub_address = address, cub_authority = authority, cub_data_len = 0, cub_lamports = acct_lamports a\<rparr>
    | _ \<Rightarrow> Fail (PCE_ParsingBuffer address))"

definition get_buffers ::
  "loader_sdk \<Rightarrow> ('w, 'm, 'json) wasm_client \<Rightarrow> pubkey option \<Rightarrow> ('w, cli_upgradeable_buffer list) program_io" where
  "get_buffers L C authority =
     io_bind (get_accounts_with_filter L C (buffer_filters (pv_codec (wc_provider C)) authority)
       (ACCOUNT_TYPE_SIZE + OPTION_SIZE + PUBKEY_LEN)) (\<lambda>results.
     io_lift (collect (buffer_entry L) results))"

definition program_filters :: "ui_codec \<Rightarrow> pubkey option \<Rightarrow> rpc_filter_type list" where
  "program_filters K authority = base58_filter K 0 [3, 0, 0, 0] # (case authority of
      Some key \<Rightarrow> [base58_filter K (ACCOUNT_TYPE_SIZE + SLOT_SIZE) [1],
        base58_filter K (ACCOUNT_TYPE_SIZE + SLOT_SIZE + OPTION_SIZE) (to_le_bytes key)]
    | None \<Rightarrow> [])"

text \<open>The length of the data without its metadata is a difference of \<open>usize\<close>, 32 bits wide in the
  browser; it would wrap for an account shorter than the metadata.\<close>

definition usize_sub :: "nat \<Rightarrow> nat \<Rightarrow> nat" where
  "usize_sub a b = unat (word_of_nat a - word_of_nat b :: u32)"

definition program_entry ::
  "loader_sdk \<Rightarrow> ('w, 'm, 'json) wasm_client \<Rightarrow> pubkey \<times> account \<Rightarrow> ('w, cli_upgradeable_program) program_io" where
  "program_entry L C = (\<lambda>(programdata_address, a). case ld_state L a of
      Some (LS_ProgramData slot authority) \<Rightarrow>
        io_bind (get_accounts_with_filter L C [base58_filter (pv_codec (wc_provider C)) 0
          ([2, 0, 0, 0] @ to_le_bytes programdata_address)] 0) (\<lambda>results.
        case results of
          [(program_id, _)] \<Rightarrow>
            io_ok \<lparr>cup_program_id = program_id, cup_owner = acct_owner a,
              cup_programdata_address = programdata_address, cup_authority = authority,
              cup_last_deploy_slot = slot,
              cup_data_len = usize_sub (length (acct_data a)) (ld_size_of_programdata_metadata L),
              cup_lamports = acct_lamports a\<rparr>
        | _ \<Rightarrow> io_fail (PCE_NotOneProgram programdata_address))
    | _ \<Rightarrow> io_fail (PCE_ParsingProgramData programdata_address))"

definition get_programs ::
  "loader_sdk \<Rightarrow> ('w, 'm, 'json) wasm_client \<Rightarrow> pubkey option \<Rightarrow> ('w, cli_upgradeable_program list) program_io" where
  "get_programs L C authority =
     io_bind (get_accounts_with_filter L C (program_filters (pv_codec (wc_provider C)) authority)
       (ACCOUNT_TYPE_SIZE + SLOT_SIZE + OPTION_SIZE + PUBKEY_LEN)) (\<lambda>results.
     io_list (program_entry L C) results)"

section \<open>Showing\<close>

datatype cli_program_display =
    CPD_Program pubkey pubkey nat
  | CPD_Upgradeable cli_upgradeable_program
  | CPD_Buffer cli_upgradeable_buffer
  | CPD_Programs "cli_upgradeable_program list"
  | CPD_Buffers "cli_upgradeable_buffer list"

definition show_upgradeable_program ::
  "loader_sdk \<Rightarrow> ('w, 'm, 'json) wasm_client \<Rightarrow> 's cli_config \<Rightarrow> pubkey \<Rightarrow> pubkey \<Rightarrow> pubkey \<Rightarrow>
   ('w, cli_program_display) program_io" where
  "show_upgradeable_program L C G key owner programdata_address =
     io_bind (io_map_err PCE_Client (get_account_with_commitment C programdata_address (cg_commitment_config G))) (\<lambda>v.
     case v of
       None \<Rightarrow> io_fail (PCE_Closed key)
     | Some d \<Rightarrow> (case ld_state L d of
           Some (LS_ProgramData slot authority) \<Rightarrow>
             io_ok (CPD_Upgradeable \<lparr>cup_program_id = key, cup_owner = owner,
               cup_programdata_address = programdata_address, cup_authority = authority,
               cup_last_deploy_slot = slot,
               cup_data_len = usize_sub (length (acct_data d)) (ld_size_of_programdata_metadata L),
               cup_lamports = acct_lamports d\<rparr>)
         | _ \<Rightarrow> io_fail (PCE_Closed key)))"

definition process_show_program ::
  "loader_sdk \<Rightarrow> ('w, 'm, 'json) wasm_client \<Rightarrow> 's cli_config \<Rightarrow> pubkey option \<Rightarrow> pubkey \<Rightarrow> bool \<Rightarrow> bool \<Rightarrow> bool \<Rightarrow>
   ('w, cli_program_display) program_io" where
  "process_show_program L C G account_key authority programs buffers show_all = (case account_key of
      Some key \<Rightarrow>
        io_bind (io_map_err PCE_Client (client_get_account C key)) (\<lambda>a.
        if acct_owner a = ld_bpf_loader_id L \<or> acct_owner a = ld_bpf_loader_deprecated_id L
        then io_ok (CPD_Program key (acct_owner a) (length (acct_data a)))
        else if acct_owner a = ld_id L then
          (case ld_state L a of
            Some (LS_Program programdata_address) \<Rightarrow>
              show_upgradeable_program L C G key (acct_owner a) programdata_address
          | Some (LS_Buffer authority) \<Rightarrow>
              io_ok (CPD_Buffer \<lparr>cub_address = key, cub_authority = authority,
                cub_data_len = usize_sub (length (acct_data a)) (ld_size_of_buffer_metadata L),
                cub_lamports = acct_lamports a\<rparr>)
          | _ \<Rightarrow> io_fail (PCE_NotUpgradeable key))
        else io_fail (PCE_NotBpf key))
    | None \<Rightarrow>
        let authority = (if show_all then None else Some authority) in
        if programs then io_bind (get_programs L C authority) (\<lambda>ps. io_ok (CPD_Programs ps))
        else if buffers then io_bind (get_buffers L C authority) (\<lambda>bs. io_ok (CPD_Buffers bs))
        else io_fail PCE_InvalidParameters)"

section \<open>Closing\<close>

datatype cli_program_closed =
    CPC_Buffers "cli_upgradeable_buffer list"
  | CPC_Program pubkey u64

definition close_program_account ::
  "loader_sdk \<Rightarrow> ('m, 's) message_sdk \<Rightarrow> ('w, 'm, 'json) wasm_client \<Rightarrow> 's cli_config \<Rightarrow> pubkey \<Rightarrow> pubkey \<Rightarrow> 's \<Rightarrow>
   pubkey option \<Rightarrow> ('w, unit) program_io" where
  "close_program_account L S C G account_key recipient authority_signer program_key =
     io_bind (io_map_err PCE_Client (client_get_latest_blockhash C)) (\<lambda>blockhash.
     io_bind (io_lift (program_signer G 0)) (\<lambda>payer.
     io_bind (io_lift (map_err PCE_Signing (mk_try_sign S [payer, authority_signer] blockhash
       (mk_new_unsigned S (mk_new S [ld_close_any L account_key recipient (Some (mk_pubkey S authority_signer))
         program_key] (Some (mk_pubkey S payer))))))) (\<lambda>tx.
     io_bind (io_map_err PCE_CloseFailed (send_and_confirm_transaction_with_config C tx
       (cg_commitment_config G) (program_send_config G))) (\<lambda>_.
     io_ok ()))))"

text \<open>All the buffers of an authority: those whose closing succeeds. Their addresses are displayed and
  parsed back.\<close>

fun close_buffers ::
  "loader_sdk \<Rightarrow> ('m, 's) message_sdk \<Rightarrow> ('w, 'm, 'json) wasm_client \<Rightarrow> 's cli_config \<Rightarrow> pubkey \<Rightarrow> 's \<Rightarrow>
   cli_upgradeable_buffer list \<Rightarrow> ('w, cli_upgradeable_buffer list) program_io" where
  "close_buffers L S C G recipient authority_signer [] = io_ok []"
| "close_buffers L S C G recipient authority_signer (b # bs) =
     (let K = pv_codec (wc_provider C) in
      io_bind (io_lift (ok_or (uc_key_from_str K (uc_key_to_string K (cub_address b))) PCE_ParsePubkey)) (\<lambda>key.
      io_bind (io_attempt (close_program_account L S C G key recipient authority_signer None)) (\<lambda>r.
      io_bind (close_buffers L S C G recipient authority_signer bs) (\<lambda>closed.
      io_ok (case r of Inr _ \<Rightarrow> b # closed | Inl _ \<Rightarrow> closed)))))"

definition close_program_of ::
  "loader_sdk \<Rightarrow> ('m, 's) message_sdk \<Rightarrow> ('w, 'm, 'json) wasm_client \<Rightarrow> 's cli_config \<Rightarrow> pubkey \<Rightarrow> pubkey \<Rightarrow> 's \<Rightarrow>
   pubkey \<Rightarrow> ('w, cli_program_closed) program_io" where
  "close_program_of L S C G key recipient authority_signer programdata_key =
             io_bind (io_map_err PCE_Client
               (get_account_with_commitment C programdata_key (cg_commitment_config G))) (\<lambda>v.
             case v of
               None \<Rightarrow> io_fail (PCE_Closed key)
             | Some d \<Rightarrow> (case ld_state L d of
                   Some (LS_ProgramData slot authority) \<Rightarrow>
                     if authority \<noteq> Some (mk_pubkey S authority_signer)
                     then io_fail (PCE_ProgramAuthority authority (mk_pubkey S authority_signer))
                     else io_bind (close_program_account L S C G programdata_key recipient authority_signer (Some key)) (\<lambda>_.
                       io_ok (CPC_Program key (acct_lamports d)))
                 | _ \<Rightarrow> io_fail (PCE_Closed key)))"

definition close_account_by_state ::
  "loader_sdk \<Rightarrow> ('m, 's) message_sdk \<Rightarrow> ('w, 'm, 'json) wasm_client \<Rightarrow> 's cli_config \<Rightarrow> pubkey \<Rightarrow> pubkey \<Rightarrow> 's \<Rightarrow>
   account \<Rightarrow> ('w, cli_program_closed) program_io" where
  "close_account_by_state L S C G key recipient authority_signer a = (case ld_state L a of
           Some (LS_Buffer authority) \<Rightarrow>
             if authority \<noteq> Some (mk_pubkey S authority_signer)
             then io_fail (PCE_BufferAuthority authority (mk_pubkey S authority_signer))
             else io_bind (close_program_account L S C G key recipient authority_signer None) (\<lambda>_.
               io_ok (CPC_Buffers [\<lparr>cub_address = key, cub_authority = authority, cub_data_len = 0,
                 cub_lamports = acct_lamports a\<rparr>]))
         | Some (LS_Program programdata_key) \<Rightarrow>
             close_program_of L S C G key recipient authority_signer programdata_key
         | _ \<Rightarrow> io_fail (PCE_NotProgramOrBuffer key))"

definition close_one ::
  "loader_sdk \<Rightarrow> ('m, 's) message_sdk \<Rightarrow> ('w, 'm, 'json) wasm_client \<Rightarrow> 's cli_config \<Rightarrow> pubkey \<Rightarrow> pubkey \<Rightarrow> 's \<Rightarrow>
   ('w, cli_program_closed) program_io" where
  "close_one L S C G key recipient authority_signer =
     io_bind (io_map_err PCE_Client (get_account_with_commitment C key (cg_commitment_config G))) (\<lambda>v.
     case v of
       None \<Rightarrow> io_fail (PCE_NotFound key)
     | Some a \<Rightarrow> close_account_by_state L S C G key recipient authority_signer a)"

definition process_close_program ::
  "loader_sdk \<Rightarrow> ('m, 's) message_sdk \<Rightarrow> ('w, 'm, 'json) wasm_client \<Rightarrow> 's cli_config \<Rightarrow> pubkey option \<Rightarrow> pubkey \<Rightarrow>
   nat \<Rightarrow> ('w, cli_program_closed) program_io" where
  "process_close_program L S C G account_key recipient authority_index =
     io_bind (io_lift (program_signer G authority_index)) (\<lambda>authority_signer.
     case account_key of
       Some key \<Rightarrow> close_one L S C G key recipient authority_signer
     | None \<Rightarrow>
         io_bind (get_buffers L C (Some (mk_pubkey S authority_signer))) (\<lambda>buffers.
         io_bind (close_buffers L S C G recipient authority_signer buffers) (\<lambda>closed.
         io_ok (CPC_Buffers closed))))"

end
