(* ===== verification/CliStake.thy ===== *)
theory CliStake
  imports CliWallet
begin

text \<open>
  Stake accounts and their rewards as \<open>solana-cli\<close> reports them (\<open>commands/stake.rs\<close>, what the
  build contains of it). The state of a stake account, its activation, the stake history, the
  clock and the epoch schedule are the SDK's, the fields of \<open>stake_sdk\<close>; the requests that
  these commands add are those of \<open>cluster\<close>. Floats \<open>'f\<close> are opaque.
\<close>

section \<open>Stake accounts of the SDK\<close>

record stake_lockup =
  slk_unix_timestamp :: i64
  slk_epoch :: u64
  slk_custodian :: pubkey

record stake_meta =
  smt_rent_exempt_reserve :: u64
  smt_staker :: pubkey
  smt_withdrawer :: pubkey
  smt_lockup :: stake_lockup

record stake_delegation =
  sd_voter_pubkey :: pubkey
  sd_stake :: u64
  sd_activation_epoch :: u64
  sd_deactivation_epoch :: u64

record stake_data =
  sdt_delegation :: stake_delegation
  sdt_credits_observed :: u64

datatype stake_state =
    SS_Uninitialized
  | SS_Initialized stake_meta
  | SS_Stake stake_meta stake_data
  | SS_RewardsPool

record stake_amounts =
  sa_effective :: u64
  sa_activating :: u64
  sa_deactivating :: u64

type_synonym stake_history = "(u64 \<times> stake_amounts) list"

record 'clock stake_sdk =
  sk_program_id :: pubkey
  sk_history_id :: pubkey
  sk_clock_id :: pubkey
  sk_default_pubkey :: pubkey
  sk_state :: "account \<Rightarrow> stake_state option"
  sk_history :: "account \<Rightarrow> stake_history option"
  sk_clock :: "account \<Rightarrow> 'clock option"
  sk_clock_epoch :: "'clock \<Rightarrow> u64"
  sk_activation :: "stake_delegation \<Rightarrow> u64 \<Rightarrow> stake_history \<Rightarrow> stake_amounts"
  sk_lockup_in_force :: "stake_lockup \<Rightarrow> 'clock \<Rightarrow> bool"

section \<open>Requests\<close>

record inflation_reward =
  ir_epoch :: u64
  ir_effective_slot :: u64
  ir_amount :: u64
  ir_post_balance :: u64
  ir_commission :: "u8 option"

record epoch_schedule =
  es_first_slot_in_epoch :: "u64 \<Rightarrow> u64"
  es_slots_in_epoch :: "u64 \<Rightarrow> u64"

record 'w cluster =
  cl_slot :: "('w, client_error, u64) io"
  cl_epoch :: "('w, client_error, u64) io"
  cl_epoch_schedule :: "('w, client_error, epoch_schedule) io"
  cl_inflation_reward :: "pubkey list \<Rightarrow> u64 option \<Rightarrow> ('w, client_error, inflation_reward option list) io"

section \<open>Errors\<close>

datatype report_error =
    RPE_Cli cli_error
  | RPE_Client client_error
  | RPE_InvalidAuthority pubkey "pubkey list"
  | RPE_StartTimeNotFound
  | RPE_NotStakeAccount pubkey
  | RPE_StakeState
  | RPE_StakeHistory
  | RPE_Clock
  | RPE_NoVoteAccount pubkey
  | RPE_NotVoteAccount pubkey
  | RPE_VoteState
  | RPE_NoAuthorizedVoter
  | RPE_InteractiveSigner pubkey

type_synonym ('w, 'a) report_io = "('w, report_error, 'a) io"

definition check_current_authority :: "pubkey list \<Rightarrow> pubkey \<Rightarrow> (report_error, unit) result" where
  "check_current_authority permitted_authorities provided =
     (if provided \<notin> set permitted_authorities then Fail (RPE_InvalidAuthority provided permitted_authorities)
      else Ok ())"

section \<open>Rewards\<close>

record 'f float_ops =
  fo_of_u64 :: "u64 \<Rightarrow> 'f"
  fo_of_i64 :: "i64 \<Rightarrow> 'f"
  fo_mul :: "'f \<Rightarrow> 'f \<Rightarrow> 'f"
  fo_div :: "'f \<Rightarrow> 'f \<Rightarrow> 'f"

record 'f cli_epoch_reward =
  cer_epoch :: u64
  cer_effective_slot :: u64
  cer_amount :: u64
  cer_post_balance :: u64
  cer_percent_change :: 'f
  cer_apr :: "'f option"
  cer_commission :: "u8 option"

definition checked_sub_i64 :: "i64 \<Rightarrow> i64 \<Rightarrow> i64 option" where
  "checked_sub_i64 a b = (let d = sint a - sint b in
     if - (2 ^ 63) \<le> d \<and> d < 2 ^ 63 then Some (a - b) else None)"

definition SECONDS_PER_DAY :: u64 where "SECONDS_PER_DAY = 86400"

definition make_cli_reward ::
  "'f float_ops \<Rightarrow> inflation_reward \<Rightarrow> i64 \<Rightarrow> i64 \<Rightarrow> 'f cli_epoch_reward option" where
  "make_cli_reward F r epoch_start_time epoch_end_time =
     (case checked_sub_i64 epoch_end_time epoch_start_time of
       None \<Rightarrow> None
     | Some wallclock_epoch_duration \<Rightarrow>
         if ir_post_balance r > ir_amount r then
           (let rate_change = fo_div F (fo_of_u64 F (ir_amount r)) (fo_of_u64 F (ir_post_balance r - ir_amount r));
                wallclock_epochs_per_year = fo_div F (fo_of_u64 F (SECONDS_PER_DAY * 365))
                  (fo_of_i64 F wallclock_epoch_duration);
                apr = fo_mul F rate_change wallclock_epochs_per_year
            in Some \<lparr>cer_epoch = ir_epoch r, cer_effective_slot = ir_effective_slot r,
                 cer_amount = ir_amount r, cer_post_balance = ir_post_balance r,
                 cer_percent_change = fo_mul F rate_change (fo_of_u64 F 100),
                 cer_apr = Some (fo_mul F apr (fo_of_u64 F 100)),
                 cer_commission = ir_commission r\<rparr>)
         else None)"

lemma slots_left: "\<not> slot \<ge> (effective :: u64) \<Longrightarrow> unat (effective - (slot + 1)) < unat (effective - slot)"
  using measure_unat [of "effective - slot"] by (simp add: diff_diff_eq linorder_not_le)

text \<open>The first slot from \<open>slot\<close> on, and before the reward took effect, that has a block time.\<close>

function epoch_start_time ::
  "('w, 'm, 'json) wasm_client \<Rightarrow> u64 \<Rightarrow> u64 \<Rightarrow> ('w, 64 word) report_io" where
  "epoch_start_time C effective_slot slot w =
     (if slot \<ge> effective_slot then io_fail RPE_StartTimeNotFound w
      else io_bind (io_attempt (client_get_block_time C slot)) (\<lambda>r.
        case r of
          Inr block_time \<Rightarrow> io_ok block_time
        | Inl _ \<Rightarrow> epoch_start_time C effective_slot (slot + 1)) w)"
  by pat_completeness auto

termination
  by (relation "measure (\<lambda>(C, effective_slot, slot, w). unat (effective_slot - slot))") (auto intro: slots_left)

declare epoch_start_time.simps [simp del]

definition get_epoch_boundary_timestamps ::
  "('w, 'm, 'json) wasm_client \<Rightarrow> inflation_reward \<Rightarrow> epoch_schedule \<Rightarrow> ('w, i64 \<times> i64) report_io" where
  "get_epoch_boundary_timestamps C r schedule =
     io_bind (io_map_err RPE_Client (client_get_block_time C (ir_effective_slot r))) (\<lambda>epoch_end_time.
     io_bind (epoch_start_time C (ir_effective_slot r) (es_first_slot_in_epoch schedule (ir_epoch r))) (\<lambda>start_time.
     io_ok (start_time, epoch_end_time)))"

text \<open>The rewards of one epoch; those the node does not have are left out.\<close>

definition epoch_rewards_of ::
  "'f float_ops \<Rightarrow> ('w, 'm, 'json) wasm_client \<Rightarrow> 'w cluster \<Rightarrow> epoch_schedule \<Rightarrow> pubkey \<Rightarrow> u64 \<Rightarrow>
   ('w, 'f cli_epoch_reward list) report_io" where
  "epoch_rewards_of F C Q schedule address rewards_epoch =
     io_bind (io_attempt (cl_inflation_reward Q [address] (Some rewards_epoch))) (\<lambda>r.
     case r of
       Inl _ \<Rightarrow> io_ok []
     | Inr [] \<Rightarrow> io_lift Panicked
     | Inr (None # _) \<Rightarrow> io_ok []
     | Inr (Some reward # _) \<Rightarrow>
         io_bind (get_epoch_boundary_timestamps C reward schedule) (\<lambda>(start_time, end_time).
         io_ok (case make_cli_reward F reward start_time end_time of None \<Rightarrow> [] | Some c \<Rightarrow> [c])))"

fun epoch_rewards_loop ::
  "'f float_ops \<Rightarrow> ('w, 'm, 'json) wasm_client \<Rightarrow> 'w cluster \<Rightarrow> epoch_schedule \<Rightarrow> pubkey \<Rightarrow> nat \<Rightarrow> u64 \<Rightarrow>
   ('w, 'f cli_epoch_reward list) report_io" where
  "epoch_rewards_loop F C Q schedule address 0 rewards_epoch = io_ok []"
| "epoch_rewards_loop F C Q schedule address (Suc num_epochs) rewards_epoch =
     (if rewards_epoch = 0 then io_ok []
      else let rewards_epoch = saturating_sub rewards_epoch 1 in
        io_bind (epoch_rewards_of F C Q schedule address rewards_epoch) (\<lambda>rewards.
        io_bind (epoch_rewards_loop F C Q schedule address num_epochs rewards_epoch) (\<lambda>rest.
        io_ok (rewards @ rest))))"

definition fetch_epoch_rewards ::
  "'f float_ops \<Rightarrow> ('w, 'm, 'json) wasm_client \<Rightarrow> 'w cluster \<Rightarrow> pubkey \<Rightarrow> nat \<Rightarrow>
   ('w, 'f cli_epoch_reward list) report_io" where
  "fetch_epoch_rewards F C Q address num_epochs =
     io_bind (io_map_err RPE_Client (cl_epoch_schedule Q)) (\<lambda>schedule.
     io_bind (io_map_err RPE_Client (cl_epoch Q)) (\<lambda>epoch.
     epoch_rewards_loop F C Q schedule address num_epochs epoch))"

text \<open>Rewards that cannot be fetched are not shown.\<close>

definition optional_rewards ::
  "'f float_ops \<Rightarrow> ('w, 'm, 'json) wasm_client \<Rightarrow> 'w cluster \<Rightarrow> pubkey \<Rightarrow> nat option \<Rightarrow>
   ('w, 'f cli_epoch_reward list option) report_io" where
  "optional_rewards F C Q address with_rewards = (case with_rewards of
      None \<Rightarrow> io_ok None
    | Some num_epochs \<Rightarrow>
        io_bind (io_attempt (fetch_epoch_rewards F C Q address num_epochs)) (\<lambda>r.
        io_ok (case r of Inr rewards \<Rightarrow> Some rewards | Inl _ \<Rightarrow> None)))"

section \<open>Stake accounts\<close>

datatype cli_stake_type = CST_Stake | CST_RewardsPool | CST_Uninitialized | CST_Initialized

record cli_authorized =
  cau_staker :: bytes
  cau_withdrawer :: bytes

record cli_lockup =
  clo_unix_timestamp :: i64
  clo_epoch :: u64
  clo_custodian :: bytes

record 'f cli_stake_state =
  css_stake_type :: cli_stake_type
  css_account_balance :: u64
  css_credits_observed :: "u64 option"
  css_delegated_stake :: "u64 option"
  css_delegated_vote_account_address :: "bytes option"
  css_activation_epoch :: "u64 option"
  css_deactivation_epoch :: "u64 option"
  css_authorized :: "cli_authorized option"
  css_lockup :: "cli_lockup option"
  css_use_lamports_unit :: bool
  css_current_epoch :: u64
  css_rent_exempt_reserve :: "u64 option"
  css_active_stake :: "u64 option"
  css_activating_stake :: "u64 option"
  css_deactivating_stake :: "u64 option"
  css_epoch_rewards :: "'f cli_epoch_reward list option"

definition cli_stake_state_default :: "'f cli_stake_state" where
  "cli_stake_state_default =
     \<lparr>css_stake_type = CST_Uninitialized, css_account_balance = 0, css_credits_observed = None,
      css_delegated_stake = None, css_delegated_vote_account_address = None, css_activation_epoch = None,
      css_deactivation_epoch = None, css_authorized = None, css_lockup = None,
      css_use_lamports_unit = False, css_current_epoch = 0, css_rent_exempt_reserve = None,
      css_active_stake = None, css_activating_stake = None, css_deactivating_stake = None,
      css_epoch_rewards = None\<rparr>"

definition cli_authorized_of :: "ui_codec \<Rightarrow> stake_meta \<Rightarrow> cli_authorized" where
  "cli_authorized_of K m = \<lparr>cau_staker = uc_key_to_string K (smt_staker m),
     cau_withdrawer = uc_key_to_string K (smt_withdrawer m)\<rparr>"

definition cli_lockup_of :: "ui_codec \<Rightarrow> stake_lockup \<Rightarrow> cli_lockup" where
  "cli_lockup_of K l = \<lparr>clo_unix_timestamp = slk_unix_timestamp l, clo_epoch = slk_epoch l,
     clo_custodian = uc_key_to_string K (slk_custodian l)\<rparr>"

definition u64_some_if_not_zero :: "u64 \<Rightarrow> u64 option" where
  "u64_some_if_not_zero n = (if 0 < n then Some n else None)"

definition lockup_in_force :: "'clock stake_sdk \<Rightarrow> ui_codec \<Rightarrow> 'clock \<Rightarrow> stake_lockup \<Rightarrow> cli_lockup option" where
  "lockup_in_force T K clock l = (if sk_lockup_in_force T l clock then Some (cli_lockup_of K l) else None)"

definition delegated_state ::
  "'clock stake_sdk \<Rightarrow> ui_codec \<Rightarrow> u64 \<Rightarrow> stake_meta \<Rightarrow> stake_data \<Rightarrow> bool \<Rightarrow> stake_history \<Rightarrow> 'clock \<Rightarrow>
   'f cli_stake_state" where
  "delegated_state T K account_balance m s use_lamports_unit history clock =
     (let d = sdt_delegation s;
          current_epoch = sk_clock_epoch T clock;
          amounts = sk_activation T d current_epoch history
      in cli_stake_state_default\<lparr>css_stake_type := CST_Stake,
           css_account_balance := account_balance,
           css_credits_observed := Some (sdt_credits_observed s),
           css_delegated_stake := Some (sd_stake d),
           css_delegated_vote_account_address :=
             (if sd_voter_pubkey d \<noteq> sk_default_pubkey T then Some (uc_key_to_string K (sd_voter_pubkey d)) else None),
           css_activation_epoch := Some (if sd_activation_epoch d < - 1 then sd_activation_epoch d else 0),
           css_deactivation_epoch :=
             (if sd_deactivation_epoch d < - 1 then Some (sd_deactivation_epoch d) else None),
           css_authorized := Some (cli_authorized_of K m),
           css_lockup := lockup_in_force T K clock (smt_lockup m),
           css_use_lamports_unit := use_lamports_unit,
           css_current_epoch := current_epoch,
           css_rent_exempt_reserve := Some (smt_rent_exempt_reserve m),
           css_active_stake := u64_some_if_not_zero (sa_effective amounts),
           css_activating_stake := u64_some_if_not_zero (sa_activating amounts),
           css_deactivating_stake := u64_some_if_not_zero (sa_deactivating amounts)\<rparr>)"

definition build_stake_state ::
  "'clock stake_sdk \<Rightarrow> ui_codec \<Rightarrow> u64 \<Rightarrow> stake_state \<Rightarrow> bool \<Rightarrow> stake_history \<Rightarrow> 'clock \<Rightarrow> 'f cli_stake_state" where
  "build_stake_state T K account_balance state use_lamports_unit history clock = (case state of
      SS_Stake m s \<Rightarrow> delegated_state T K account_balance m s use_lamports_unit history clock
    | SS_RewardsPool \<Rightarrow>
        cli_stake_state_default\<lparr>css_stake_type := CST_RewardsPool, css_account_balance := account_balance\<rparr>
    | SS_Uninitialized \<Rightarrow> cli_stake_state_default\<lparr>css_account_balance := account_balance\<rparr>
    | SS_Initialized m \<Rightarrow>
        cli_stake_state_default\<lparr>css_stake_type := CST_Initialized,
          css_account_balance := account_balance,
          css_credits_observed := Some 0,
          css_authorized := Some (cli_authorized_of K m),
          css_lockup := lockup_in_force T K clock (smt_lockup m),
          css_use_lamports_unit := use_lamports_unit,
          css_rent_exempt_reserve := Some (smt_rent_exempt_reserve m)\<rparr>)"

definition fetch_stake_history ::
  "'clock stake_sdk \<Rightarrow> ('w, 'm, 'json) wasm_client \<Rightarrow> ('w, stake_history) report_io" where
  "fetch_stake_history T C =
     io_bind (io_map_err RPE_Client (client_get_account C (sk_history_id T))) (\<lambda>a.
     io_lift (ok_or (sk_history T a) RPE_StakeHistory))"

definition process_show_stake_account ::
  "'clock stake_sdk \<Rightarrow> 'f float_ops \<Rightarrow> ('w, 'm, 'json) wasm_client \<Rightarrow> 'w cluster \<Rightarrow> pubkey \<Rightarrow> bool \<Rightarrow> nat option \<Rightarrow>
   ('w, 'f cli_stake_state) report_io" where
  "process_show_stake_account T F C Q address use_lamports_unit with_rewards =
     io_bind (io_map_err RPE_Client (client_get_account C address)) (\<lambda>a.
     if acct_owner a \<noteq> sk_program_id T then io_fail (RPE_NotStakeAccount address)
     else case sk_state T a of
       None \<Rightarrow> io_fail RPE_StakeState
     | Some state \<Rightarrow>
         io_bind (fetch_stake_history T C) (\<lambda>history.
         io_bind (io_map_err RPE_Client (client_get_account C (sk_clock_id T))) (\<lambda>clock_account.
         io_bind (io_lift (ok_or (sk_clock T clock_account) RPE_Clock)) (\<lambda>clock.
         let shown = build_stake_state T (pv_codec (wc_provider C)) (acct_lamports a) state use_lamports_unit
               history clock
         in if css_stake_type shown = CST_Stake \<and> css_activation_epoch shown \<noteq> None
            then io_bind (optional_rewards F C Q address with_rewards) (\<lambda>rewards.
              io_ok (shown\<lparr>css_epoch_rewards := rewards\<rparr>))
            else io_ok shown))))"

section \<open>Stake history\<close>

datatype output_format = OF_Display | OF_Json | OF_JsonCompact | OF_DisplayQuiet | OF_DisplayVerbose

record cli_stake_history_entry =
  she_epoch :: u64
  she_effective_stake :: u64
  she_activating_stake :: u64
  she_deactivating_stake :: u64

definition cli_stake_history_entry_of :: "u64 \<times> stake_amounts \<Rightarrow> cli_stake_history_entry" where
  "cli_stake_history_entry_of = (\<lambda>(epoch, e).
     \<lparr>she_epoch = epoch, she_effective_stake = sa_effective e, she_activating_stake = sa_activating e,
      she_deactivating_stake = sa_deactivating e\<rparr>)"

text \<open>A limit of none, \<open>usize::MAX\<close>, takes every entry of a list.\<close>

definition process_show_stake_history ::
  "'clock stake_sdk \<Rightarrow> ('w, 'm, 'json) wasm_client \<Rightarrow> output_format \<Rightarrow> nat \<Rightarrow>
   ('w, cli_stake_history_entry list) report_io" where
  "process_show_stake_history T C out_format limit_results =
     io_bind (fetch_stake_history T C) (\<lambda>history.
     io_ok (map cli_stake_history_entry_of
       (if out_format = OF_Json \<or> out_format = OF_JsonCompact \<or> limit_results = 0 then history
        else take limit_results history)))"

end
