(* ===== verification/CliVote.thy ===== *)
theory CliVote
  imports CliStake VoteHandlers VoteInstruction
begin

text \<open>
  The vote commands of \<open>solana-cli\<close> that the build contains (\<open>commands/vote.rs\<close>): changing an
  authority of a vote account, and showing one. The bincode codec of vote states is the
  parameter \<open>decode\<close>, as for the vote program; whether a signer is interactive is the wallet's.
\<close>

section \<open>Vote accounts\<close>

definition get_vote_account ::
  "vote_sdk \<Rightarrow> (bytes \<Rightarrow> vote_state_versions option) \<Rightarrow> ('w, 'm, 'json) wasm_client \<Rightarrow> pubkey \<Rightarrow> commitment \<Rightarrow>
   ('w, account \<times> vote_state) report_io" where
  "get_vote_account K decode C key c =
     io_bind (io_map_err RPE_Client (get_account_with_commitment C key c)) (\<lambda>v.
     case v of
       None \<Rightarrow> io_fail (RPE_NoVoteAccount key)
     | Some a \<Rightarrow>
         if acct_owner a \<noteq> vk_id K then io_fail (RPE_NotVoteAccount key)
         else io_bind (io_lift (map_err (\<lambda>_. RPE_VoteState) (vote_state_deserialize decode (acct_data a)))) (\<lambda>s.
           io_ok (a, s)))"

section \<open>Changing an authority\<close>

record authorize_args =
  vaa_vote_account :: pubkey
  vaa_new_authorized :: pubkey
  vaa_which :: vote_authorize_kind
  vaa_authorized :: nat
  vaa_new_authorized_signer :: "nat option"
  vaa_sign_only :: bool
  vaa_blockhash_query :: blockhash_query
  vaa_nonce_account :: "pubkey option"
  vaa_nonce_authority :: nat
  vaa_memo :: "bytes option"
  vaa_fee_payer :: nat

definition config_signer :: "'s cli_config \<Rightarrow> nat \<Rightarrow> ('w, 's) report_io" where
  "config_signer G i = io_lift (map_err RPE_Cli (signer_at G i))"

text \<open>What is checked of the new and the current authority; \<open>state\<close> is missing when only signing.\<close>

definition check_vote_authority ::
  "('m, 's) message_sdk \<Rightarrow> ('s \<Rightarrow> bool) \<Rightarrow> 'w cluster \<Rightarrow> vote_authorize_kind \<Rightarrow> vote_state option \<Rightarrow> 's \<Rightarrow> pubkey \<Rightarrow>
   's option \<Rightarrow> ('w, unit) report_io" where
  "check_vote_authority S interactive Q which state authorized new_authorized new_authorized_signer = (case which of
      VA_Voter \<Rightarrow> (case state of
          None \<Rightarrow> io_ok ()
        | Some s \<Rightarrow>
            io_bind (io_map_err RPE_Client (cl_epoch Q)) (\<lambda>epoch.
            io_bind (io_lift (ok_or (av_get_authorized_voter (vs_authorized_voters s) epoch)
              RPE_NoAuthorizedVoter)) (\<lambda>current_authorized_voter.
            io_bind (io_lift (check_current_authority
              [current_authorized_voter, vs_authorized_withdrawer s] (mk_pubkey S authorized))) (\<lambda>_.
            case new_authorized_signer of
              Some s \<Rightarrow> if interactive s then io_fail (RPE_InteractiveSigner new_authorized) else io_ok ()
            | None \<Rightarrow> io_ok ()))))
    | VA_Withdrawer \<Rightarrow>
        io_bind (io_lift (map_err RPE_Cli
          (check_unique_pubkeys (mk_pubkey S authorized) new_authorized))) (\<lambda>_.
        case state of
          None \<Rightarrow> io_ok ()
        | Some s \<Rightarrow> io_lift (check_current_authority [vs_authorized_withdrawer s] (mk_pubkey S authorized))))"

definition vote_authorize_instruction :: "vote_sdk \<Rightarrow> authorize_args \<Rightarrow> pubkey \<Rightarrow> instruction" where
  "vote_authorize_instruction K A authorized =
     (if vaa_new_authorized_signer A \<noteq> None
      then vix_authorize_checked K (vaa_vote_account A) authorized (vaa_new_authorized A) (vaa_which A)
      else vix_authorize K (vaa_vote_account A) authorized (vaa_new_authorized A) (vaa_which A))"

text \<open>The transaction of a checked change, signed, or signed and sent.\<close>

definition send_vote_authorize ::
  "vote_sdk \<Rightarrow> ('m, 's) message_sdk \<Rightarrow> ('w, 'm, 'json) wasm_client \<Rightarrow> 's cli_config \<Rightarrow> authorize_args \<Rightarrow> pubkey \<Rightarrow>
   ('w, 'm transaction + signature) report_io" where
  "send_vote_authorize K S C G A authorized_key =
     io_bind (io_lift (with_memo [vote_authorize_instruction K A authorized_key] (vaa_memo A))) (\<lambda>ixs.
     io_bind (io_map_err (\<lambda>e. RPE_Cli (CLE_Blockhash e))
       (query_get_blockhash C (vaa_blockhash_query A) (cg_commitment_config G))) (\<lambda>recent_blockhash.
     io_bind (config_signer G (vaa_nonce_authority A)) (\<lambda>nonce_authority.
     io_bind (config_signer G (vaa_fee_payer A)) (\<lambda>fee_payer.
     let m = (case vaa_nonce_account A of
           Some n \<Rightarrow> mk_new_with_nonce S ixs (Some (mk_pubkey S fee_payer)) n (mk_pubkey S nonce_authority)
         | None \<Rightarrow> mk_new S ixs (Some (mk_pubkey S fee_payer)))
     in if vaa_sign_only A then
          io_bind (io_lift (map_err (\<lambda>e. RPE_Cli (CLE_Signing e))
            (mk_try_partial_sign S (cg_signers G) recent_blockhash (mk_new_unsigned S m)))) (\<lambda>tx.
          io_ok (Inl tx))
        else
          io_bind (io_lift (map_err (\<lambda>e. RPE_Cli (CLE_Signing e))
            (mk_try_sign S (cg_signers G) recent_blockhash (mk_new_unsigned S m)))) (\<lambda>tx.
          io_bind (case vaa_nonce_account A of
              Some n \<Rightarrow>
                io_bind (io_map_err (\<lambda>e. RPE_Cli (CLE_Nonce e))
                  (nonce_get_account_with_commitment C n (cg_commitment_config G))) (\<lambda>a.
                io_lift (map_err RPE_Cli
                  (check_nonce_account (wc_provider C) a (mk_pubkey S nonce_authority) recent_blockhash)))
            | None \<Rightarrow> io_ok ()) (\<lambda>_.
          io_bind (config_signer G 0) (\<lambda>payer.
          io_bind (io_map_err RPE_Cli (check_account_for_fee_with_commitment C (mk_pubkey S payer)
            (tr_message tx) (cg_commitment_config G))) (\<lambda>_.
          io_bind (io_map_err RPE_Client (send_and_confirm_transaction C tx)) (\<lambda>s.
          io_ok (Inr s))))))))))"

definition process_vote_authorize ::
  "vote_sdk \<Rightarrow> (bytes \<Rightarrow> vote_state_versions option) \<Rightarrow> ('m, 's) message_sdk \<Rightarrow> ('s \<Rightarrow> bool) \<Rightarrow>
   ('w, 'm, 'json) wasm_client \<Rightarrow> 'w cluster \<Rightarrow> 's cli_config \<Rightarrow> authorize_args \<Rightarrow>
   ('w, 'm transaction + signature) report_io" where
  "process_vote_authorize K decode S interactive C Q G A =
     io_bind (config_signer G (vaa_authorized A)) (\<lambda>authorized.
     io_bind (case vaa_new_authorized_signer A of
         None \<Rightarrow> io_ok None
       | Some i \<Rightarrow> io_bind (config_signer G i) (\<lambda>s. io_ok (Some s))) (\<lambda>new_authorized_signer.
     io_bind (if \<not> vaa_sign_only A
         then io_bind (get_vote_account K decode C (vaa_vote_account A) (cg_commitment_config G)) (\<lambda>(_, s).
           io_ok (Some s))
         else io_ok None) (\<lambda>state.
     io_bind (check_vote_authority S interactive Q (vaa_which A) state authorized (vaa_new_authorized A)
       new_authorized_signer) (\<lambda>_.
     send_vote_authorize K S C G A (mk_pubkey S authorized)))))"

section \<open>Showing a vote account\<close>

record cli_lockout =
  clt_slot :: slot
  clt_confirmation_count :: u32

definition cli_lockout_of :: "lockout \<Rightarrow> cli_lockout" where
  "cli_lockout_of l = \<lparr>clt_slot = lo_slot l, clt_confirmation_count = lo_confirmation_count l\<rparr>"

record cli_epoch_voting_history =
  evh_epoch :: epoch
  evh_slots_in_epoch :: u64
  evh_credits_earned :: u64
  evh_credits :: u64
  evh_prev_credits :: u64

record 'f cli_vote_account =
  cva_account_balance :: u64
  cva_validator_identity :: bytes
  cva_authorized_voters :: "(epoch \<times> bytes) list"
  cva_authorized_withdrawer :: bytes
  cva_credits :: u64
  cva_commission :: u8
  cva_root_slot :: "slot option"
  cva_recent_timestamp :: block_timestamp
  cva_votes :: "cli_lockout list"
  cva_epoch_voting_history :: "cli_epoch_voting_history list"
  cva_use_lamports_unit :: bool
  cva_epoch_rewards :: "'f cli_epoch_reward list option"

text \<open>The voters are inserted into a new map, in order.\<close>

definition cli_authorized_voters_of :: "ui_codec \<Rightarrow> authorized_voters \<Rightarrow> (epoch \<times> bytes) list" where
  "cli_authorized_voters_of K av =
     fold (\<lambda>(epoch, voter) m. btree_insert epoch (uc_key_to_string K voter) m) av []"

definition voting_history_entry :: "epoch_schedule \<Rightarrow> epoch \<times> u64 \<times> u64 \<Rightarrow> cli_epoch_voting_history" where
  "voting_history_entry schedule = (\<lambda>(epoch, credits, prev_credits).
     \<lparr>evh_epoch = epoch, evh_slots_in_epoch = es_slots_in_epoch schedule epoch,
      evh_credits_earned = credits - prev_credits, evh_credits = credits, evh_prev_credits = prev_credits\<rparr>)"

definition process_show_vote_account ::
  "vote_sdk \<Rightarrow> (bytes \<Rightarrow> vote_state_versions option) \<Rightarrow> 'f float_ops \<Rightarrow> ('w, 'm, 'json) wasm_client \<Rightarrow> 'w cluster \<Rightarrow>
   's cli_config \<Rightarrow> pubkey \<Rightarrow> bool \<Rightarrow> nat option \<Rightarrow> ('w, 'f cli_vote_account) report_io" where
  "process_show_vote_account K decode F C Q G address use_lamports_unit with_rewards =
     io_bind (get_vote_account K decode C address (cg_commitment_config G)) (\<lambda>(a, s).
     io_bind (io_map_err RPE_Client (cl_epoch_schedule Q)) (\<lambda>schedule.
     io_bind (optional_rewards F C Q address with_rewards) (\<lambda>rewards.
     let U = pv_codec (wc_provider C) in
     io_ok \<lparr>cva_account_balance = acct_lamports a,
       cva_validator_identity = uc_key_to_string U (vs_node_pubkey s),
       cva_authorized_voters = cli_authorized_voters_of U (vs_authorized_voters s),
       cva_authorized_withdrawer = uc_key_to_string U (vs_authorized_withdrawer s),
       cva_credits = vs_credits s, cva_commission = vs_commission s, cva_root_slot = vs_root_slot s,
       cva_recent_timestamp = vs_last_timestamp s,
       cva_votes = (if vs_votes s = [] then [] else map cli_lockout_of (vs_votes s)),
       cva_epoch_voting_history =
         (if vs_votes s = [] then [] else map (voting_history_entry schedule) (vs_epoch_credits s)),
       cva_use_lamports_unit = use_lamports_unit, cva_epoch_rewards = rewards\<rparr>)))"

section \<open>What the client lets through, the program accepts\<close>

lemma config_signer_eq_Ok [ok_simps]:
  "config_signer G i w = (Inr s, w') \<longleftrightarrow> i < length (cg_signers G) \<and> s = cg_signers G ! i \<and> w' = w"
  by (auto simp: config_signer_def signer_at_def ok_simps)

lemma check_current_authority_Ok [ok_simps]:
  "check_current_authority keys k = Inr u \<longleftrightarrow> k \<in> set keys"
  by (simp add: check_current_authority_def)

text \<open>The signer a command accepts is the withdrawer of the account, or its voter at the epoch the
  cluster reported.\<close>

lemma check_vote_authority_Ok:
  assumes "check_vote_authority S interactive Q which (Some s) authorized new n w = (Inr u, w')"
  shows "which = VA_Withdrawer \<and> mk_pubkey S authorized = vs_authorized_withdrawer s \<and>
           mk_pubkey S authorized \<noteq> new \<or>
         which = VA_Voter \<and> (\<exists>epoch w1. cl_epoch Q w = (Inr epoch, w1) \<and>
           (mk_pubkey S authorized = vs_authorized_withdrawer s \<or>
            av_get_authorized_voter (vs_authorized_voters s) epoch = Some (mk_pubkey S authorized)))"
  using assms
  by (cases which) (auto simp: check_vote_authority_def check_unique_pubkeys_def ok_simps split: if_splits option.splits)

lemma get_vote_account_Ok:
  "get_vote_account K decode C key c w = (Inr (a, s), w') \<longleftrightarrow>
     get_account_with_commitment C key c w = (Inr (Some a), w') \<and> acct_owner a = vk_id K \<and>
     (\<exists>versioned. decode (acct_data a) = Some versioned \<and> s = convert_to_current versioned)"
  by (auto simp: get_vote_account_def vote_state_deserialize_def ok_simps split: option.splits if_splits)

end
