(* ===== verification/CliFeature.thy ===== *)
theory CliFeature
  imports CliStake "HOL-Library.Product_Lexorder" "HOL-Library.List_Lexorder"
begin

text \<open>
  The status of runtime features as \<open>solana-cli\<close> lists it (\<open>commands/feature.rs\<close>): the order of
  the statuses, and the listing up to its sorting. The names of the known features are the
  SDK's table; the statistics of the cluster's nodes, which are floats, are not modelled.
\<close>

section \<open>The order of the statuses\<close>

text \<open>Active features by slot, then the pending ones, then the inactive ones.\<close>

fun feature_status_le :: "cli_feature_status \<Rightarrow> cli_feature_status \<Rightarrow> bool" where
  "feature_status_le _ CFS_Inactive \<longleftrightarrow> True"
| "feature_status_le CFS_Inactive _ \<longleftrightarrow> False"
| "feature_status_le _ CFS_Pending \<longleftrightarrow> True"
| "feature_status_le CFS_Pending _ \<longleftrightarrow> False"
| "feature_status_le (CFS_Active a) (CFS_Active b) \<longleftrightarrow> a \<le> b"

instantiation cli_feature_status :: linorder
begin

definition less_eq_cli_feature_status :: "cli_feature_status \<Rightarrow> cli_feature_status \<Rightarrow> bool" where
  "less_eq_cli_feature_status = feature_status_le"

definition less_cli_feature_status :: "cli_feature_status \<Rightarrow> cli_feature_status \<Rightarrow> bool" where
  "less_cli_feature_status x y \<longleftrightarrow> x \<le> y \<and> \<not> y \<le> x"

instance
proof
  fix x y z :: cli_feature_status
  show "x < y \<longleftrightarrow> x \<le> y \<and> \<not> y \<le> x" by (simp add: less_cli_feature_status_def)
  show "x \<le> x" by (cases x) (auto simp: less_eq_cli_feature_status_def)
  show "x \<le> y \<Longrightarrow> y \<le> z \<Longrightarrow> x \<le> z"
    by (cases x; cases y; cases z) (auto simp: less_eq_cli_feature_status_def)
  show "x \<le> y \<Longrightarrow> y \<le> x \<Longrightarrow> x = y"
    by (cases x; cases y) (auto simp: less_eq_cli_feature_status_def)
  show "x \<le> y \<or> y \<le> x" by (cases x; cases y) (auto simp: less_eq_cli_feature_status_def)
qed

end

section \<open>The listing\<close>

definition MAX_MULTIPLE_ACCOUNTS :: nat where "MAX_MULTIPLE_ACCOUNTS = 100"
definition DEFAULT_MAX_ACTIVE_DISPLAY_AGE_SLOTS :: u64 where
  "DEFAULT_MAX_ACTIVE_DISPLAY_AGE_SLOTS = 15000000"

record cli_feature =
  cfe_id :: bytes
  cfe_description :: bytes
  cfe_status :: cli_feature_status

text \<open>The key features are compared by.\<close>

definition feature_key :: "cli_feature \<Rightarrow> cli_feature_status \<times> bytes" where
  "feature_key f = (cfe_status f, cfe_id f)"

definition get_multiple_accounts ::
  "('w, 'm, 'json) wasm_client \<Rightarrow> pubkey list \<Rightarrow> ('w, account option list) client_io" where
  "get_multiple_accounts C keys =
     get_multiple_accounts_with_config C keys (rac_default\<lparr>rac_commitment := Some (wc_commitment_config C)\<rparr>)"

text \<open>A feature with what was answered for it, and whether it counts as inactive.\<close>

definition feature_entry ::
  "system_builders \<Rightarrow> ui_codec \<Rightarrow> (pubkey \<Rightarrow> bytes option) \<Rightarrow> account option \<times> pubkey \<Rightarrow>
   (report_error, cli_feature \<times> bool) result" where
  "feature_entry B K names = (\<lambda>(a, feature_id).
     case names feature_id of
       None \<Rightarrow> Panicked
     | Some feature_name \<Rightarrow>
         (let f = \<lparr>cfe_id = uc_key_to_string K feature_id, cfe_description = feature_name, cfe_status = CFS_Inactive\<rparr> in
          Ok (case Option.bind a (status_from_account B) of
            Some status \<Rightarrow> (f\<lparr>cfe_status := status\<rparr>, False)
          | None \<Rightarrow> (f, True))))"

definition recent_enough :: "u64 option \<Rightarrow> cli_feature \<Rightarrow> bool" where
  "recent_enough min_activation f = (case (min_activation, cfe_status f) of
      (Some min_activation, CFS_Active activation) \<Rightarrow> activation > min_activation
    | _ \<Rightarrow> True)"

definition feature_chunk ::
  "system_builders \<Rightarrow> ('w, 'm, 'json) wasm_client \<Rightarrow> (pubkey \<Rightarrow> bytes option) \<Rightarrow> u64 option \<Rightarrow> pubkey list \<Rightarrow>
   ('w, cli_feature list \<times> bool) report_io" where
  "feature_chunk B C names min_activation feature_ids =
     io_bind (io_attempt (get_multiple_accounts C feature_ids)) (\<lambda>r.
     io_bind (io_lift (collect (feature_entry B (pv_codec (wc_provider C)) names)
       (zip (case r of Inr accounts \<Rightarrow> accounts | Inl _ \<Rightarrow> []) feature_ids))) (\<lambda>entries.
     io_ok (filter (recent_enough min_activation) (map fst entries), list_ex snd entries)))"

function chunks :: "nat \<Rightarrow> 'a list \<Rightarrow> 'a list list" where
  "chunks n xs = (if n = 0 \<or> xs = [] then [] else take n xs # chunks n (drop n xs))"
  by pat_completeness auto

termination
  by (relation "measure (length \<circ> snd)") auto

declare chunks.simps [simp del]

definition feature_statuses ::
  "system_builders \<Rightarrow> ('w, 'm, 'json) wasm_client \<Rightarrow> 'w cluster \<Rightarrow> (pubkey \<Rightarrow> bytes option) \<Rightarrow> pubkey list \<Rightarrow> bool \<Rightarrow>
   ('w, cli_feature list \<times> bool) report_io" where
  "feature_statuses B C Q names feature_ids display_all =
     io_bind (io_map_err RPE_Client (cl_slot Q)) (\<lambda>current_slot.
     let min_activation = (if \<not> display_all then checked_sub current_slot DEFAULT_MAX_ACTIVE_DISPLAY_AGE_SLOTS
           else None) in
     io_bind (io_list (feature_chunk B C names min_activation) (chunks MAX_MULTIPLE_ACCOUNTS feature_ids)) (\<lambda>parts.
     io_ok (sort_key feature_key (concat (map fst parts)), list_ex snd parts)))"

end
