(* ===== verification/CliReports.thy ===== *)
theory CliReports
  imports CliProperties CliProgram CliVote CliFeature "HOL-Library.Multiset"
begin

text \<open>
  What the commands on programs, votes, stakes and features guarantee, each with an example.
\<close>

section \<open>Closing programs and buffers\<close>

text \<open>A node returns accounts that pass the filters of the request, cut to the requested slice.\<close>

definition honest_filters :: "('w, 'm, 'json) wasm_client \<Rightarrow> bool" where
  "honest_filters C \<longleftrightarrow> (\<forall>key config v rs v' fs k a.
     get_program_accounts_with_config C key config v = (Inr rs, v') \<longrightarrow> rpa_filters config = Some fs \<longrightarrow>
     (k, a) \<in> set rs \<longrightarrow>
     (\<exists>full. (\<forall>f \<in> set fs. filter_allows (pv_codec (wc_provider C)) f full) \<and>
        acct_data a = (case rac_data_slice (rpa_account_config config) of
            None \<Rightarrow> acct_data full
          | Some s \<Rightarrow> take (sl_length s) (drop (sl_offset s) (acct_data full)))))"

lemma honest_filtersD:
  assumes "honest_filters C" "get_program_accounts_with_config C key config v = (Inr rs, v')"
    "rpa_filters config = Some fs" "(k, a) \<in> set rs"
  shows "\<exists>full. (\<forall>f \<in> set fs. filter_allows (pv_codec (wc_provider C)) f full) \<and>
        acct_data a = (case rac_data_slice (rpa_account_config config) of
            None \<Rightarrow> acct_data full
          | Some s \<Rightarrow> take (sl_length s) (drop (sl_offset s) (acct_data full)))"
  using assms unfolding honest_filters_def by blast

text \<open>The encoding of the loader's state: a tag of four bytes, then an option.\<close>

definition buffer_layout :: "loader_sdk \<Rightarrow> bool" where
  "buffer_layout L \<longleftrightarrow> (\<forall>a authority. ld_state L a = Some (LS_Buffer authority) \<longrightarrow>
     (\<exists>rest. acct_data a = [1, 0, 0, 0] @ (case authority of None \<Rightarrow> [0] | Some k \<Rightarrow> 1 # to_le_bytes k) @ rest))"

lemma base58_filter_allows:
  assumes "codec_laws K"
  shows "filter_allows K (base58_filter K offset b) a \<longleftrightarrow>
    (\<exists>pre post. acct_data a = pre @ b @ post \<and> length pre = offset)"
  using assms by (simp add: filter_allows_def base58_filter_def bytes_match_iff memcmp_decoded_def codec_laws_def)

lemma to_le_bytes_inj: "to_le_bytes (a :: pubkey) = to_le_bytes b \<Longrightarrow> a = b"
  by (drule arg_cong [of _ _ "from_le_bytes :: bytes \<Rightarrow> pubkey"]) (simp only: le_bytes_pubkey(2))

lemma filtered_authority:
  assumes "codec_laws K" "buffer_layout L" "ld_state L a = Some (LS_Buffer authority)"
    and full: "\<forall>f \<in> set (buffer_filters K (Some me)). filter_allows K f full"
    and slice: "acct_data a = take 37 (acct_data full)"
  shows "authority = Some me"
proof -
  have "filter_allows K (base58_filter K 4 [1]) full" "filter_allows K (base58_filter K 5 (to_le_bytes me)) full"
    using full by (simp_all add: buffer_filters_def ACCOUNT_TYPE_SIZE_def OPTION_SIZE_def)
  then obtain pre post pre' post' where 1: "acct_data full = pre @ [1] @ post" "length pre = 4"
    and 2: "acct_data full = pre' @ to_le_bytes me @ post'" "length pre' = 5"
    unfolding base58_filter_allows [OF assms(1)] by blast
  have tag: "acct_data a ! 4 = 1" using 1 by (simp add: slice nth_append)
  have key: "take 32 (drop 5 (acct_data a)) = to_le_bytes me"
    using 2 by (simp add: slice drop_take bytes_simps)
  obtain rest where "acct_data a = [1, 0, 0, 0] @ (case authority of None \<Rightarrow> [0] | Some k \<Rightarrow> 1 # to_le_bytes k) @ rest"
    using assms(2, 3) unfolding buffer_layout_def by blast
  then obtain k where "authority = Some k" "take 32 (drop 5 (acct_data a)) = to_le_bytes k"
    using tag by (cases authority) (auto simp: bytes_simps)
  with key have "k = me" using to_le_bytes_inj by metis
  with \<open>authority = Some k\<close> show ?thesis by blast
qed

lemma collect_member: "collect f xs = Inr ys \<Longrightarrow> y \<in> set ys \<Longrightarrow> \<exists>x \<in> set xs. f x = Inr y"
  by (induction xs arbitrary: ys) (auto simp: ok_simps)

lemma buffer_entry_Ok: "buffer_entry L (address, a) = Inr b \<Longrightarrow> ld_state L a = Some (LS_Buffer (cub_authority b))"
  by (cases "ld_state L a"; cases "the (ld_state L a)") (auto simp: buffer_entry_def)

lemma get_buffers_authority:
  assumes laws: "codec_laws (pv_codec (wc_provider C))" "honest_filters C" "buffer_layout L"
    and run: "get_buffers L C (Some me) w = (Inr bs, w')" and b: "b \<in> set bs"
  shows "cub_authority b = Some me"
proof -
  let ?fs = "buffer_filters (pv_codec (wc_provider C)) (Some me)"
  from run obtain rs v where rs: "get_accounts_with_filter L C ?fs 37 w = (Inr rs, v)"
    and bs: "collect (buffer_entry L) rs = Inr bs"
    by (auto simp: get_buffers_def io_bind_eq_Ok ACCOUNT_TYPE_SIZE_def OPTION_SIZE_def PUBKEY_LEN_def)
  obtain address a where x: "(address, a) \<in> set rs" "buffer_entry L (address, a) = Inr b"
    using collect_member [OF bs b] by auto
  obtain config where "get_program_accounts_with_config C (ld_id L) config w = (Inr rs, v)"
      "rpa_filters config = Some ?fs"
      "rac_data_slice (rpa_account_config config) = Some \<lparr>sl_offset = 0, sl_length = 37\<rparr>"
    using rs by (simp add: get_accounts_with_filter_def io_map_err_eq_Ok)
  from honest_filtersD [OF laws(2) this(1, 2) x(1)] this(3)
  obtain full where "\<forall>f \<in> set ?fs. filter_allows (pv_codec (wc_provider C)) f full"
      "acct_data a = take 37 (acct_data full)"
    by auto
  with filtered_authority [OF laws(1, 3) buffer_entry_Ok [OF x(2)]] show ?thesis by blast
qed

definition closed_with ::
  "loader_sdk \<Rightarrow> ('m, 's) message_sdk \<Rightarrow> ('w, 'm, 'json) wasm_client \<Rightarrow> 's cli_config \<Rightarrow> pubkey \<Rightarrow> 's \<Rightarrow> pubkey \<Rightarrow>
   pubkey option \<Rightarrow> bool" where
  "closed_with L S C G recipient signer key program \<longleftrightarrow> (\<exists>payer h tx s v v'. program_signer G 0 = Inr payer \<and>
     mk_try_sign S [payer, signer] h (mk_new_unsigned S
       (mk_new S [ld_close_any L key recipient (Some (mk_pubkey S signer)) program] (Some (mk_pubkey S payer)))) = Inr tx \<and>
     pv_send_transaction (wc_provider C) tx (program_send_config G) v = (Inr s, v'))"

lemma close_program_account_Ok:
  assumes "close_program_account L S C G key recipient signer program w = (Inr u, w')"
  shows "closed_with L S C G recipient signer key program"
  using assms unfolding close_program_account_def closed_with_def
  by (fastforce simp: io_bind_eq_Ok io_map_err_eq_Ok sent_transaction_reported map_err_eq_Ok)

lemma close_buffers_Ok:
  assumes "codec_laws (pv_codec (wc_provider C))"
    and "close_buffers L S C G recipient signer bs w = (Inr closed, w')" "b \<in> set closed"
  shows "b \<in> set bs \<and> closed_with L S C G recipient signer (cub_address b) None"
  using assms(2, 3)
proof (induction bs arbitrary: w closed w')
  case (Cons c bs)
  have key: "uc_key_from_str (pv_codec (wc_provider C)) (uc_key_to_string (pv_codec (wc_provider C)) k) = Some k" for k
    using assms(1) by (simp add: codec_laws_def)
  from Cons.prems(1) have "\<exists>r v rest v'.
      io_attempt (close_program_account L S C G (cub_address c) recipient signer None) w = (Inr r :: (program_cli_error, _) result, v) \<and>
      close_buffers L S C G recipient signer bs v = (Inr rest, v') \<and>
      closed = (case r of Inr _ \<Rightarrow> c # rest | Inl _ \<Rightarrow> rest)"
    by (simp add: Let_def io_bind_eq_Ok key ok_or_def) blast
  then obtain r v v' rest where
      r: "io_attempt (close_program_account L S C G (cub_address c) recipient signer None) w = (Inr r :: (program_cli_error, _) result, v)"
    and rest: "close_buffers L S C G recipient signer bs v = (Inr rest, v')"
    and closed: "closed = (case r of Inr _ \<Rightarrow> c # rest | Inl _ \<Rightarrow> rest)"
    by blast
  show ?case
  proof (cases "b \<in> set rest")
    case True
    then show ?thesis using Cons.IH [OF rest] by simp
  next
    case False
    with closed Cons.prems(2) obtain u where "r = Inr u" "b = c" by (cases r) auto
    with r show ?thesis using close_program_account_Ok by (fastforce simp: io_attempt_eq_Ok)
  qed
qed simp

lemma close_program_of_Ok:
  assumes "close_program_of L S C G key recipient signer programdata w = (Inr closed, w')"
  shows "\<exists>d slot v v'. closed = CPC_Program key (acct_lamports d) \<and>
    get_account_with_commitment C programdata (cg_commitment_config G) v = (Inr (Some d), v') \<and>
    ld_state L d = Some (LS_ProgramData slot (Some (mk_pubkey S signer))) \<and>
    closed_with L S C G recipient signer programdata (Some key)"
  using assms unfolding close_program_of_def io_bind_eq_Ok io_map_err_eq_Ok
  by (fastforce simp: io_bind_eq_Ok dest: close_program_account_Ok split: option.splits loader_state.splits if_splits)

lemma close_one_Ok:
  assumes "close_one L S C G key recipient signer w = (Inr closed, w')"
  shows "case closed of
      CPC_Buffers bs \<Rightarrow> \<forall>b \<in> set bs. cub_authority b = Some (mk_pubkey S signer) \<and>
        closed_with L S C G recipient signer (cub_address b) None
    | CPC_Program k lams \<Rightarrow> k = key \<and>
        (\<exists>d slot programdata v v'. get_account_with_commitment C programdata (cg_commitment_config G) v = (Inr (Some d), v') \<and>
          ld_state L d = Some (LS_ProgramData slot (Some (mk_pubkey S signer))) \<and> lams = acct_lamports d \<and>
          closed_with L S C G recipient signer programdata (Some key))"
proof -
  from assms obtain x v where run: "get_account_with_commitment C key (cg_commitment_config G) w = (Inr x, v)"
    and x: "(case x of None \<Rightarrow> io_fail (PCE_NotFound key) | Some a \<Rightarrow> close_account_by_state L S C G key recipient signer a) v =
      (Inr closed, w')"
    unfolding close_one_def io_bind_eq_Ok io_map_err_eq_Ok close_account_by_state_def by blast
  then obtain a where x: "close_account_by_state L S C G key recipient signer a v = (Inr closed, w')"
    by (cases x) auto
  show ?thesis
  proof (cases "ld_state L a")
    case (Some st)
    with x close_program_of_Ok show ?thesis unfolding close_account_by_state_def
      by (cases st) (fastforce simp: io_bind_eq_Ok dest: close_program_account_Ok split: if_splits)+
  qed (use x in \<open>simp add: close_account_by_state_def\<close>)
qed

text \<open>C13: whatever the close command reports as closed belongs to the signer it was given, and a
  transaction of the loader that closes it, signed by that signer, was accepted by the node. A
  closed program's data account named that signer as its upgrade authority; every closed
  buffer had it as its authority, also when all the buffers of the signer are asked for, given
  a node that honours the filters of the request.\<close>

theorem closed_by_authority:
  assumes laws: "codec_laws (pv_codec (wc_provider C))" "honest_filters C" "buffer_layout L"
    and run: "process_close_program L S C G account_key recipient i w = (Inr closed, w')"
  shows "\<exists>signer. program_signer G i = Inr signer \<and> (case closed of
      CPC_Buffers bs \<Rightarrow> \<forall>b \<in> set bs. cub_authority b = Some (mk_pubkey S signer) \<and>
        closed_with L S C G recipient signer (cub_address b) None
    | CPC_Program key lams \<Rightarrow> account_key = Some key \<and>
        (\<exists>d slot programdata v v'. get_account_with_commitment C programdata (cg_commitment_config G) v = (Inr (Some d), v') \<and>
          ld_state L d = Some (LS_ProgramData slot (Some (mk_pubkey S signer))) \<and> lams = acct_lamports d \<and>
          closed_with L S C G recipient signer programdata (Some key)))"
proof -
  from run obtain signer where s: "program_signer G i = Inr signer"
    and rest: "(case account_key of
       Some key \<Rightarrow> close_one L S C G key recipient signer
     | None \<Rightarrow>
         io_bind (get_buffers L C (Some (mk_pubkey S signer))) (\<lambda>buffers.
         io_bind (close_buffers L S C G recipient signer buffers) (\<lambda>closed.
         io_ok (CPC_Buffers closed)))) w = (Inr closed, w')"
    by (auto simp: process_close_program_def io_bind_eq_Ok)
  show ?thesis
  proof (cases account_key)
    case None
    with rest obtain bs v cs v' where bs: "get_buffers L C (Some (mk_pubkey S signer)) w = (Inr bs, v)"
      and cs: "close_buffers L S C G recipient signer bs v = (Inr cs, v')" "closed = CPC_Buffers cs"
      by (auto simp: io_bind_eq_Ok)
    have "cub_authority b = Some (mk_pubkey S signer) \<and> closed_with L S C G recipient signer (cub_address b) None"
      if "b \<in> set cs" for b
      using close_buffers_Ok [OF laws(1) cs(1) that] get_buffers_authority [OF laws bs] by blast
    with s cs(2) show ?thesis by auto
  next
    case (Some key)
    with rest have "close_one L S C G key recipient signer w = (Inr closed, w')" by simp
    then show ?thesis using close_one_Ok [of L S C G key recipient signer w closed w'] s Some by (cases closed) auto
  qed
qed

section \<open>Authorities of vote accounts\<close>

text \<open>The change itself, without the check of who asks for it.\<close>

definition authority_change ::
  "vote_authorize_kind \<Rightarrow> pubkey \<Rightarrow> vote_clock \<Rightarrow> vote_state \<Rightarrow> (vote_ie, vote_state) result" where
  "authority_change which new_authority clock s = (case which of
      VA_Voter \<Rightarrow> set_new_authorized_voter new_authority (vck_epoch clock) (vck_leader_schedule_epoch clock + 1)
        (\<lambda>_. Ok ()) s
    | VA_Withdrawer \<Rightarrow> Ok (s\<lparr>vs_authorized_withdrawer := new_authority\<rparr>))"

lemma get_and_update_voter:
  "get_and_update_authorized_voter e s = (case av_get_authorized_voter (vs_authorized_voters s) e of
      None \<Rightarrow> Fail VIE_InvalidAccountData
    | Some k \<Rightarrow> try_bind (av_purge e (fst (av_get_and_cache (vs_authorized_voters s) e)))
        (\<lambda>av. Ok (s\<lparr>vs_authorized_voters := av\<rparr>, k)))"
  by (auto simp: get_and_update_authorized_voter_def av_get_authorized_voter_def av_get_and_cache_def ok_or_def
      split: option.splits)

lemma verified_change:
  assumes "av_get_authorized_voter (vs_authorized_voters s) e = Some k" "verify k = Ok ()"
  shows "set_new_authorized_voter a e t verify s = set_new_authorized_voter a e t (\<lambda>_. Ok ()) s"
  using assms unfolding set_new_authorized_voter_def get_and_update_voter
  by (cases "av_purge e (fst (av_get_and_cache (vs_authorized_voters s) e)) :: (vote_ie, _) result") simp_all

lemma process_vote_authorize_checked:
  assumes "process_vote_authorize K decode S interactive C Q G A w = (Inr (Inr signature), w')"
  shows "\<exists>a s w1 signer w2 u. get_vote_account K decode C (vaa_vote_account A) (cg_commitment_config G) w = (Inr (a, s), w1) \<and>
    check_vote_authority S interactive Q (vaa_which A) (Some s) (cg_signers G ! vaa_authorized A)
      (vaa_new_authorized A) signer w1 = (Inr u, w2)"
proof -
  have "\<not> vaa_sign_only A"
    using assms by (auto simp: process_vote_authorize_def send_vote_authorize_def io_bind_eq_Ok Let_def)
  with assms show ?thesis
    by (cases "vaa_new_authorized_signer A") (auto simp: process_vote_authorize_def io_bind_eq_Ok config_signer_eq_Ok, metis+)
qed

text \<open>C12: when the client lets a change of authority through and the node accepts the transaction,
  the vote program's own check of the signer passes on the state the client read: its handler
  makes the change, and what can still fail is the change itself (an authority changed too
  soon) or the writing of the account.\<close>

theorem client_authority_accepted:
  assumes run: "process_vote_authorize K decode S interactive C Q G A w = (Inr (Inr signature), w')"
    and epoch: "\<And>v e v'. cl_epoch Q v = (Inr e, v') \<Longrightarrow> e = vck_epoch clock"
    and active: "active Vote_withdraw_authority_may_change_authorized_voter"
    and signers: "mk_pubkey S (cg_signers G ! vaa_authorized A) \<in> set signers"
  shows "\<exists>a s w1. get_vote_account K decode C (vaa_vote_account A) (cg_commitment_config G) w = (Inr (a, s), w1) \<and>
    (\<forall>versioned. vo_get_state V c n = Ok versioned \<and> convert_to_current versioned = s \<longrightarrow>
       vote_authorize V c n (vaa_new_authorized A) (vaa_which A) signers clock active =
       try_bind (authority_change (vaa_which A) (vaa_new_authorized A) clock s)
         (\<lambda>s'. vo_set_state V c n (new_current s')))"
proof -
  obtain a s w1 signer w2 u where
      account: "get_vote_account K decode C (vaa_vote_account A) (cg_commitment_config G) w = (Inr (a, s), w1)"
    and check: "check_vote_authority S interactive Q (vaa_which A) (Some s) (cg_signers G ! vaa_authorized A)
      (vaa_new_authorized A) signer w1 = (Inr u, w2)"
    using process_vote_authorize_checked [OF run] by blast
  have "vote_authorize V c n (vaa_new_authorized A) (vaa_which A) signers clock active =
       try_bind (authority_change (vaa_which A) (vaa_new_authorized A) clock s)
         (\<lambda>s'. vo_set_state V c n (new_current s'))"
    if v: "vo_get_state V c n = Ok versioned" and s: "convert_to_current versioned = s" for versioned
  proof (cases "vaa_which A")
    case VA_Withdrawer
    with check_vote_authority_Ok [OF check] signers v s show ?thesis
      by (simp add: vote_authorize_def authority_change_def verify_authorized_signer_def Let_def)
  next
    case VA_Voter
    show ?thesis
    proof (cases "vs_authorized_withdrawer s \<in> set signers")
      case True
      with VA_Voter v s active show ?thesis
        by (simp add: vote_authorize_def authority_change_def verify_authorized_signer_def is_ok_def Let_def)
    next
      case False
      with VA_Voter check_vote_authority_Ok [OF check] signers epoch
      have "av_get_authorized_voter (vs_authorized_voters s) (vck_epoch clock) =
          Some (mk_pubkey S (cg_signers G ! vaa_authorized A))" by auto
      from verified_change [OF this, of "\<lambda>k. verify_authorized_signer k signers"] False VA_Voter v s active signers
      show ?thesis
        by (simp add: vote_authorize_def authority_change_def verify_authorized_signer_def is_ok_def Let_def)
    qed
  qed
  with account show ?thesis by blast
qed

section \<open>The status of features\<close>

definition shown_feature ::
  "system_builders \<Rightarrow> ui_codec \<Rightarrow> (pubkey \<Rightarrow> bytes option) \<Rightarrow> pubkey \<Rightarrow> account option \<Rightarrow> cli_feature" where
  "shown_feature B K names k a = \<lparr>cfe_id = uc_key_to_string K k, cfe_description = the (names k),
     cfe_status = (case Option.bind a (status_from_account B) of Some status \<Rightarrow> status | None \<Rightarrow> CFS_Inactive)\<rparr>"

text \<open>The accounts among the keys of a request that exist, and what is shown from them.\<close>

definition existing :: "ui_codec \<Rightarrow> (pubkey \<Rightarrow> 'json ui_account option) \<Rightarrow> pubkey list \<Rightarrow> account option list" where
  "existing K accounts keys =
     map (\<lambda>a. ui_account_decode K (the a)) (filter (\<lambda>a. a \<noteq> None) (map accounts keys))"

definition shown_chunk ::
  "system_builders \<Rightarrow> ui_codec \<Rightarrow> (pubkey \<Rightarrow> bytes option) \<Rightarrow> (pubkey \<Rightarrow> 'json ui_account option) \<Rightarrow> pubkey list \<Rightarrow>
   cli_feature list" where
  "shown_chunk B K names accounts keys = map (\<lambda>(a, k). shown_feature B K names k a)
     (zip (existing K accounts keys) keys)"

definition answers_accounts :: "('w, 'm, 'json) wasm_client \<Rightarrow> (pubkey \<Rightarrow> 'json ui_account option) \<Rightarrow> bool" where
  "answers_accounts C accounts \<longleftrightarrow> (\<forall>keys config v. \<exists>v'.
     pv_multiple_accounts (wc_provider C) keys config v = (Inr (map accounts keys), v'))"

text \<open>The listing of all features leaves none out; the other one leaves out those that became active
  fifteen million slots ago or earlier.\<close>

definition displayed :: "u64 \<Rightarrow> bool \<Rightarrow> cli_feature \<Rightarrow> bool" where
  "displayed current_slot display_all f \<longleftrightarrow> display_all \<or> (case cfe_status f of
     CFS_Active activation \<Rightarrow> unat current_slot < unat activation + 15000000
   | _ \<Rightarrow> True)"

lemma recent_enough_displayed:
  "recent_enough (if \<not> display_all then checked_sub slot DEFAULT_MAX_ACTIVE_DISPLAY_AGE_SLOTS else None) =
   displayed slot display_all"
proof -
  have "unat (slot - 15000000) = unat slot - 15000000" if "15000000 \<le> slot"
    using that by (simp add: unat_sub)
  moreover have "15000000 \<le> slot \<longleftrightarrow> 15000000 \<le> unat slot"
    by (simp add: word_le_nat_alt)
  ultimately have "recent_enough (checked_sub slot 15000000) f = displayed slot False f" for f
    by (cases "cfe_status f"; cases "15000000 \<le> slot")
      (auto simp: recent_enough_def displayed_def checked_sub_def word_less_nat_alt)
  then show ?thesis
    by (auto simp: fun_eq_iff recent_enough_def [of None] displayed_def [of slot True] DEFAULT_MAX_ACTIVE_DISPLAY_AGE_SLOTS_def)
qed

lemma feature_entry_named:
  assumes "names k \<noteq> None"
  shows "feature_entry B K names (a, k) =
    Ok (shown_feature B K names k a, cfe_status (shown_feature B K names k a) = CFS_Inactive)"
proof -
  have "status_from_account B x \<noteq> Some CFS_Inactive" for x
    by (auto simp: status_from_account_def split: option.splits)
  with assms show ?thesis
    by (auto simp: feature_entry_def shown_feature_def bind_eq_Some_conv split: option.split)
qed

lemma collect_named:
  "\<forall>k \<in> set keys. names k \<noteq> None \<Longrightarrow> collect (feature_entry B K names) (zip xs keys) =
     Ok (map (\<lambda>(a, k). (shown_feature B K names k a, cfe_status (shown_feature B K names k a) = CFS_Inactive)) (zip xs keys))"
proof (induction keys arbitrary: xs)
  case (Cons k keys)
  then show ?case by (cases xs) (simp_all add: feature_entry_named)
qed simp

lemma feature_chunk_answered:
  assumes "answers_accounts C accounts" "\<forall>k \<in> set keys. names k \<noteq> None"
  shows "\<exists>v'. feature_chunk B C names min_activation keys v =
    (let fs = shown_chunk B (pv_codec (wc_provider C)) names accounts keys in
     (Inr (filter (recent_enough min_activation) fs, \<exists>f \<in> set fs. cfe_status f = CFS_Inactive), v'))"
proof -
  let ?K = "pv_codec (wc_provider C)"
  let ?as = "existing ?K accounts keys"
  obtain v' where "get_multiple_accounts C keys v = (Inr ?as, v')"
    using assms(1) unfolding answers_accounts_def get_multiple_accounts_def get_multiple_accounts_with_config_def existing_def
    by (metis (no_types, lifting) io_bind_Ok io_lift_simps)
  then have attempt: "io_attempt (get_multiple_accounts C keys) v = (Inr (Inr ?as) :: (report_error, _) result, v')"
    by (simp add: io_attempt_eq_Ok)
  have "collect (feature_entry B ?K names) (zip ?as keys) =
      Ok (map (\<lambda>f. (f, cfe_status f = CFS_Inactive)) (shown_chunk B ?K names accounts keys))"
    by (simp add: collect_named [OF assms(2)] shown_chunk_def split_def)
  then show ?thesis
    unfolding feature_chunk_def io_bind_Ok [where m = "io_attempt _", OF attempt]
    by (simp add: Let_def list_ex_iff comp_def)
qed

lemma feature_chunks_answered:
  assumes "answers_accounts C accounts" "\<forall>keys \<in> set parts. \<forall>k \<in> set keys. names k \<noteq> None"
  shows "\<exists>xs v'. io_list (feature_chunk B C names min_activation) parts v = (Inr xs, v') \<and>
    (let shown = concat (map (shown_chunk B (pv_codec (wc_provider C)) names accounts) parts) in
     concat (map fst xs) = filter (recent_enough min_activation) shown \<and>
     (list_ex snd xs \<longleftrightarrow> (\<exists>f \<in> set shown. cfe_status f = CFS_Inactive)))"
  using assms(2)
proof (induction parts arbitrary: v)
  case (Cons keys parts)
  let ?fs = "shown_chunk B (pv_codec (wc_provider C)) names accounts keys"
  obtain v' where 1: "feature_chunk B C names min_activation keys v =
      (Inr (filter (recent_enough min_activation) ?fs, \<exists>f \<in> set ?fs. cfe_status f = CFS_Inactive), v')"
    using feature_chunk_answered [OF assms(1), of keys names B min_activation v] Cons.prems
    unfolding Let_def by (meson list.set_intros(1))
  obtain xs v'' where 2: "io_list (feature_chunk B C names min_activation) parts v' = (Inr xs, v'')"
      "let shown = concat (map (shown_chunk B (pv_codec (wc_provider C)) names accounts) parts) in
       concat (map fst xs) = filter (recent_enough min_activation) shown \<and>
       (list_ex snd xs \<longleftrightarrow> (\<exists>f \<in> set shown. cfe_status f = CFS_Inactive))"
    using Cons.IH [of v'] Cons.prems by (meson list.set_intros(2))
  show ?case using 1 2 by (simp add: io_bind_Ok Let_def bex_Un)
qed (simp add: Let_def)

lemma concat_chunks: "0 < n \<Longrightarrow> concat (chunks n xs) = xs"
  by (induction n xs rule: chunks.induct) (subst chunks.simps, simp)

lemma chunk_of_chunks: "0 < n \<Longrightarrow> ys \<in> set (chunks n xs) \<Longrightarrow> set ys \<subseteq> set xs"
  using concat_chunks [of n xs] by (metis UN_upper set_concat)

lemma shown_chunk_all:
  "\<forall>k \<in> set keys. accounts k \<noteq> None \<Longrightarrow> shown_chunk B K names accounts keys =
     map (\<lambda>k. shown_feature B K names k (ui_account_decode K (the (accounts k)))) keys"
  by (induction keys) (auto simp: shown_chunk_def existing_def)

text \<open>C15: given a node that answers a request for accounts key by key, the listing of features is
  sorted, and for every hundred of them it shows the statuses of the accounts that exist under
  the first of the keys, in order: a feature without an account takes the status of a later one.
  Only when every account exists does each feature stand with its own status. The listing of all
  features leaves none out, the other one exactly those shown as active since fifteen million slots
  or more. It says that there are inactive features when one is shown as such.\<close>

theorem feature_listing:
  assumes node: "answers_accounts C accounts" "cl_slot Q w = (Inr slot, w1)"
    and known: "\<forall>k \<in> set ids. names k \<noteq> None"
  shows "\<exists>fs inactive v. feature_statuses B C Q names ids display_all w = (Inr (fs, inactive), v) \<and>
    (let K = pv_codec (wc_provider C);
         shown = concat (map (shown_chunk B K names accounts) (chunks 100 ids)) in
     sorted (map feature_key fs) \<and>
     mset fs = mset (filter (displayed slot display_all) shown) \<and>
     (inactive \<longleftrightarrow> (\<exists>f \<in> set shown. cfe_status f = CFS_Inactive)) \<and>
     ((\<forall>k \<in> set ids. accounts k \<noteq> None) \<longrightarrow>
       shown = map (\<lambda>k. shown_feature B K names k (ui_account_decode K (the (accounts k)))) ids))"
proof -
  let ?K = "pv_codec (wc_provider C)"
  let ?shown = "concat (map (shown_chunk B ?K names accounts) (chunks 100 ids))"
  let ?min = "if \<not> display_all then checked_sub slot DEFAULT_MAX_ACTIVE_DISPLAY_AGE_SLOTS else None"
  have sub: "set ys \<subseteq> set ids" if "ys \<in> set (chunks 100 ids)" for ys
    using chunk_of_chunks [OF _ that] by simp
  then have "\<forall>keys \<in> set (chunks 100 ids). \<forall>k \<in> set keys. names k \<noteq> None" using known by blast
  from feature_chunks_answered [OF node(1) this, of B ?min w1]
  obtain xs v where xs: "io_list (feature_chunk B C names ?min) (chunks 100 ids) w1 = (Inr xs, v)"
    "concat (map fst xs) = filter (displayed slot display_all) ?shown"
    "list_ex snd xs \<longleftrightarrow> (\<exists>f \<in> set ?shown. cfe_status f = CFS_Inactive)"
    unfolding recent_enough_displayed Let_def by blast
  have run: "feature_statuses B C Q names ids display_all w =
      (Inr (sort_key feature_key (filter (displayed slot display_all) ?shown), list_ex snd xs), v)"
    using node(2) xs(1)
    by (simp add: feature_statuses_def MAX_MULTIPLE_ACCOUNTS_def io_bind_def io_map_err_def map_err_def xs(2) [symmetric]
        del: map_eq_conv)
  have shown: "?shown = map (\<lambda>k. shown_feature B ?K names k (ui_account_decode ?K (the (accounts k)))) ids"
    if "\<forall>k \<in> set ids. accounts k \<noteq> None"
  proof -
    have "map (shown_chunk B ?K names accounts) (chunks 100 ids) =
        map (map (\<lambda>k. shown_feature B ?K names k (ui_account_decode ?K (the (accounts k))))) (chunks 100 ids)"
      using that sub by (intro map_cong refl shown_chunk_all) blast
    then show ?thesis by (simp only: map_concat [symmetric] concat_chunks zero_less_numeral)
  qed
  show ?thesis
    unfolding Let_def
    by (rule exI, rule exI, rule exI, rule conjI, rule run, intro conjI impI)
      (simp, simp only: mset_sort, rule xs(3), rule shown)
qed

section \<open>The start of an epoch\<close>

lemma upt_slots:
  assumes "\<not> slot \<ge> (effective :: u64)"
  shows "unat (slot + 1) = unat slot + 1" "[unat slot..<unat effective] = unat slot # [unat slot + 1..<unat effective]"
proof -
  have less: "unat slot < unat effective" using assms by (simp add: word_less_nat_alt [symmetric])
  then show "[unat slot..<unat effective] = unat slot # [unat slot + 1..<unat effective]" by (simp add: upt_conv_Cons)
  have "unat effective < 2 ^ 64" using unsigned_less [of effective] by simp
  then have "unat slot + 1 < 2 ^ 64" using less by linarith
  then show "unat (slot + 1) = unat slot + 1" by (simp add: unat_word_ariths)
qed

text \<open>C14: the search for the start of an epoch always ends: it asks for the time of each slot from the
  first of the epoch on, at most once and never at or after the slot the reward took effect
  in, and returns the time of the first of them the node knows, or fails when there is none.\<close>

theorem epoch_start_search:
  assumes answers: "\<And>s v. fst (client_get_block_time C s v) = (case time s of Some t \<Rightarrow> Ok t | None \<Rightarrow> Fail (err s))"
    and requests: "\<And>s v. requests (snd (client_get_block_time C s v)) \<le> requests v + (1 :: nat)"
  shows "fst (epoch_start_time C effective slot w) =
      (case find (\<lambda>s. time s \<noteq> None) (map word_of_nat [unat slot..<unat effective]) of
         Some s \<Rightarrow> Ok (the (time s)) | None \<Rightarrow> Fail RPE_StartTimeNotFound) \<and>
    requests (snd (epoch_start_time C effective slot w)) \<le> requests w + (unat effective - unat slot)"
  using answers requests
proof (induction C effective slot w rule: epoch_start_time.induct)
  case (1 C effective slot w)
  obtain r v where step: "client_get_block_time C slot w = (r, v)" by fastforce
  show ?case
  proof (cases "slot \<ge> effective")
    case True
    then have le: "unat effective \<le> unat slot" by (simp add: word_le_nat_alt)
    show ?thesis using True by (simp add: epoch_start_time.simps [of C effective slot] le)
  next
    case False
    note slots = upt_slots [OF False]
    have r: "r = (case time slot of Some t \<Rightarrow> Ok t | None \<Rightarrow> Fail (err slot))" and v: "requests v \<le> requests w + 1"
      using "1.prems"(1) [of slot w] "1.prems"(2) [of slot w] step by simp_all
    show ?thesis
    proof (cases "time slot")
      case None
      have attempt: "io_attempt (client_get_block_time C slot) w = (Inr (Inl (err slot)) :: (report_error, _) result, v)"
        using step r None by (simp add: io_attempt_eq_Ok)
      have run: "epoch_start_time C effective slot w = epoch_start_time C effective (slot + 1) v"
        using False by (simp add: epoch_start_time.simps [of C effective slot] io_bind_Ok [where m = "io_attempt _", OF attempt])
      note IH = "1.IH" [OF False attempt refl "1.prems"]
      have "unat effective - unat slot = Suc (unat effective - unat (slot + 1))"
        using False slots(1) by (simp add: word_less_nat_alt not_le)
      then have "requests (snd (epoch_start_time C effective slot w)) \<le> requests w + (unat effective - unat slot)"
        using conjunct2 [OF IH [of v]] v unfolding run by linarith
      moreover have "find (\<lambda>s. time s \<noteq> None) (map word_of_nat [unat slot..<unat effective]) =
          find (\<lambda>s. time s \<noteq> None) (map word_of_nat [unat (slot + 1)..<unat effective])"
        using None by (simp add: slots)
      ultimately show ?thesis using conjunct1 [OF IH [of v]] unfolding run by simp
    next
      case (Some t)
      have "io_attempt (client_get_block_time C slot) w = (Inr (Inr t) :: (report_error, _) result, v)"
        using step r Some by (simp add: io_attempt_eq_Ok)
      then have "epoch_start_time C effective slot w = (Inr t, v)"
        using False by (simp add: epoch_start_time.simps [of C effective slot] io_bind_Ok [where m = "io_attempt _"])
      moreover have "unat slot < unat effective" using False by (simp add: word_less_nat_alt [symmetric])
      ultimately show ?thesis using v Some slots by simp
    qed
  qed
qed

section \<open>An example\<close>

text \<open>A node with one buffer of key 1, a vote account under every key, one of the two features and
  one block time; the world counts the requests.\<close>

definition buffer_data :: bytes where "buffer_data = [1, 0, 0, 0, 1] @ to_le_bytes (1 :: pubkey)"

definition buffer_account :: "unit ui_account" where
  "buffer_account = \<lparr>ui_lamports = 5, ui_data = UD_Binary buffer_data UE_Base64, ui_owner = to_le_bytes (7 :: pubkey),
     ui_executable = False, ui_rent_epoch = 0\<rparr>"

definition buffer_request :: "rpc_program_accounts_config \<Rightarrow> bool" where
  "buffer_request config \<longleftrightarrow> rpa_filters config = Some (buffer_filters ui_codec0 (Some 1)) \<and>
     rac_data_slice (rpa_account_config config) = Some \<lparr>sl_offset = 0, sl_length = 37\<rparr>"

definition feature_account :: "pubkey \<Rightarrow> unit ui_account option" where
  "feature_account k = (if k = 2 then Some buffer_account else None)"

definition client1 :: "(nat, instruction list \<times> pubkey option \<times> hash, unit) wasm_client" where
  "client1 = \<lparr>wc_provider = provider0\<lparr>
       pv_program_accounts := (\<lambda>k c. io_ok (if buffer_request c
         then Some [\<lparr>rka_pubkey = to_le_bytes (8 :: pubkey), rka_account = buffer_account\<rparr>] else None)),
       pv_account_info := (\<lambda>k c. io_ok (Some buffer_account)),
       pv_multiple_accounts := (\<lambda>ks c. io_ok (map feature_account ks)),
       pv_block_time := (\<lambda>s w. (Ok (if s = 5 then Some 50 else None), Suc w))\<rparr>,
     wc_commitment_config = CC_Confirmed\<rparr>"

definition loader0 :: loader_sdk where
  "loader0 = (let ix = \<lparr>in_program_id = 0, in_accounts = [], in_data = []\<rparr> in
     \<lparr>ld_id = 7, ld_bpf_loader_id = 0, ld_bpf_loader_deprecated_id = 0,
      ld_state = (\<lambda>a. if acct_data a = buffer_data then Some (LS_Buffer (Some 1)) else None),
      ld_set_upgrade_authority = (\<lambda>a b c. ix), ld_set_buffer_authority = (\<lambda>a b c. ix),
      ld_close_any = (\<lambda>a b c d. ix), ld_size_of_programdata_metadata = 45, ld_size_of_buffer_metadata = 37\<rparr>)"

definition config1 :: "pubkey cli_config" where
  "config1 = \<lparr>cg_signers = [1], cg_commitment_config = CC_Confirmed, cg_send_transaction_config = rsc_default\<rparr>"

definition cluster0 :: "nat cluster" where
  "cluster0 = \<lparr>cl_slot = io_ok 9, cl_epoch = io_ok 7,
     cl_epoch_schedule = io_ok \<lparr>es_first_slot_in_epoch = (\<lambda>_. 3), es_slots_in_epoch = (\<lambda>_. 32)\<rparr>,
     cl_inflation_reward = (\<lambda>_ _. io_ok [None])\<rparr>"

lemma confirmed_at_once:
  assumes "pv_signature_statuses (wc_provider C) [s] w = (Inr (Some v # vs), w')"
    "ssv_confirmation_status v = Some status" "commitment_matches c status"
  shows "confirm_transaction_with_commitment C s c w = (Inr (ssv_err v = None), w')"
proof -
  have "confirm_loop C s c (Suc 4) w = (Inr (ssv_err v = None), w')"
    unfolding confirm_loop.simps using assms by (simp add: io_bind_def poll_outcome_def)
  then show ?thesis by (simp add: confirm_transaction_with_commitment_def MAX_RETRIES_def)
qed

lemma length_buffer_data: "length buffer_data = 37"
  by (simp add: buffer_data_def bytes_simps)

lemma buffer_layout0: "buffer_layout loader0"
  by (auto simp: buffer_layout_def loader0_def Let_def buffer_data_def split: if_splits)

lemma key0: "uc_key_from_str ui_codec0 (to_le_bytes (k :: pubkey)) = Some k"
  by (simp add: ui_codec0_def bytes_simps)

lemma key_string0: "uc_key_from_str ui_codec0 (uc_key_to_string ui_codec0 k) = Some k"
  by (simp add: ui_codec0_def bytes_simps)

lemma decoded_buffer: "ui_account_decode ui_codec0 buffer_account = Some \<lparr>acct_lamports = 5, acct_data = buffer_data,
    acct_owner = 7, acct_executable = False, acct_rent_epoch = 0\<rparr>"
  by (simp add: ui_account_decode_def buffer_account_def key0) (simp add: ui_codec0_def)

lemma codec1 [simp]: "pv_codec (wc_provider client1) = ui_codec0"
  by (simp add: client1_def provider0_def)

lemma program_accounts1:
  "get_program_accounts_with_config client1 k config v =
     (if buffer_request config then (Inr [(8, the (ui_account_decode ui_codec0 buffer_account))], v)
      else io_err CM_NoProgramAccount v)"
  by (simp add: get_program_accounts_with_config_def client1_def provider0_def Let_def io_bind_def buffer_request_def
      keyed_account_def key0 decoded_buffer)

lemma honest_filters0: "honest_filters client1"
proof -
  let ?full = "the (ui_account_decode ui_codec0 buffer_account)"
  have "filter_allows ui_codec0 (base58_filter ui_codec0 0 [1, 0, 0, 0]) ?full"
    unfolding base58_filter_allows [OF codec_laws0]
    by (rule exI [of _ "[]"], rule exI [of _ "1 # to_le_bytes (1 :: pubkey)"]) (simp add: decoded_buffer buffer_data_def)
  moreover have "filter_allows ui_codec0 (base58_filter ui_codec0 4 [1]) ?full"
    unfolding base58_filter_allows [OF codec_laws0]
    by (rule exI [of _ "[1, 0, 0, 0]"], rule exI [of _ "to_le_bytes (1 :: pubkey)"]) (simp add: decoded_buffer buffer_data_def)
  moreover have "filter_allows ui_codec0 (base58_filter ui_codec0 5 (to_le_bytes (1 :: pubkey))) ?full"
    unfolding base58_filter_allows [OF codec_laws0]
    by (rule exI [of _ "[1, 0, 0, 0, 1]"], rule exI [of _ "[]"]) (simp add: decoded_buffer buffer_data_def)
  ultimately have "\<forall>f \<in> set (buffer_filters ui_codec0 (Some 1)). filter_allows ui_codec0 f ?full"
    by (simp add: buffer_filters_def ACCOUNT_TYPE_SIZE_def OPTION_SIZE_def)
  moreover have "acct_data ?full = take 37 (acct_data ?full)"
    by (simp add: decoded_buffer length_buffer_data)
  ultimately show ?thesis
    unfolding honest_filters_def program_accounts1 codec1 buffer_request_def io_err_def
    by (auto split: if_splits)
qed

lemma buffer_closed:
  "process_close_program loader0 message_sdk0 client1 config1 None 3 0 0 =
     (Inr (CPC_Buffers [\<lparr>cub_address = 8, cub_authority = Some 1, cub_data_len = 0, cub_lamports = 5\<rparr>]), 1)"
proof -
  have close: "close_program_account loader0 message_sdk0 client1 config1 8 3 1 None 0 = (Inr (), 1)"
    by (simp add: close_program_account_def client_get_latest_blockhash_def get_latest_blockhash_with_config_def
        client1_def provider0_def io_bind_def io_map_err_def config1_def program_signer_def signer_at_def message_sdk0_def
        send_and_confirm_transaction_with_config_def send_transaction_with_config_def first_signature_def
        confirmed_at_once commitment_matches_def)
  have buffers: "get_buffers loader0 client1 (Some 1) 0 =
      (Inr [\<lparr>cub_address = 8, cub_authority = Some 1, cub_data_len = 0, cub_lamports = 5\<rparr>], 0)"
    by (simp add: get_buffers_def get_accounts_with_filter_def program_accounts1 buffer_request_def io_bind_def
        io_map_err_def rac_default_def ACCOUNT_TYPE_SIZE_def OPTION_SIZE_def PUBKEY_LEN_def buffer_entry_def decoded_buffer
        loader0_def Let_def)
  have "cg_signers config1 = [1]" "mk_pubkey message_sdk0 = id"
    by (simp_all add: config1_def message_sdk0_def)
  then show ?thesis
    by (simp add: process_close_program_def program_signer_def signer_at_def io_bind_def
        buffers close Let_def io_attempt_def attempt_def key_string0)
qed

lemma closed_by_authority_witness:
  "\<exists>b signer w'. process_close_program loader0 message_sdk0 client1 config1 None 3 0 0 = (Inr (CPC_Buffers [b]), w') \<and>
     program_signer config1 0 = Inr signer \<and> cub_authority b = Some (mk_pubkey message_sdk0 signer) \<and>
     closed_with loader0 message_sdk0 client1 config1 3 signer (cub_address b) None"
  using closed_by_authority [OF _ honest_filters0 buffer_layout0 buffer_closed] codec_laws0 buffer_closed by auto

text \<open>The voter of the account asks for the change.\<close>

definition vote_sdk0 :: vote_sdk where
  "vote_sdk0 = \<lparr>vk_ids = \<lparr>sid_rent = 0, sid_clock = 0, sid_slot_hashes = 0, sid_system_program = 0\<rparr>, vk_id = 7,
     vk_encode = (\<lambda>_. []), vk_create_account = (\<lambda>a b c d e. \<lparr>in_program_id = 0, in_accounts = [], in_data = []\<rparr>),
     vk_create_account_with_seed = (\<lambda>a b c d e f g. \<lparr>in_program_id = 0, in_accounts = [], in_data = []\<rparr>)\<rparr>"

definition vote_state1 :: vote_state where
  "vote_state1 = vote_state_new \<lparr>vi_node_pubkey = 4, vi_authorized_voter = 1, vi_authorized_withdrawer = 3,
     vi_commission = 10\<rparr> 7"

definition authorize_args0 :: authorize_args where
  "authorize_args0 = \<lparr>vaa_vote_account = 8, vaa_new_authorized = 2, vaa_which = VA_Voter, vaa_authorized = 0,
     vaa_new_authorized_signer = None, vaa_sign_only = False, vaa_blockhash_query = BQ_All BS_Cluster,
     vaa_nonce_account = None, vaa_nonce_authority = 0, vaa_memo = None, vaa_fee_payer = 0\<rparr>"

definition vote_ops1 :: "vote_state_versions vote_ops" where
  "vote_ops1 = \<lparr>vo_borrow = (\<lambda>_ _. Ok ()), vo_get_state = (\<lambda>c i. Ok c), vo_set_state = (\<lambda>c i v. Ok v),
     vo_data_len = (\<lambda>_ _. VOTE_STATE_SIZE), vo_lamports = (\<lambda>c i. 0),
     vo_checked_sub_lamports = (\<lambda>c i n. Ok c), vo_checked_add_lamports = (\<lambda>c i n. Ok c)\<rparr>"

lemma vote_account1: "get_vote_account vote_sdk0 (\<lambda>_. Some (Current vote_state1)) client1 8 CC_Confirmed 0 =
    (Inr (the (ui_account_decode ui_codec0 buffer_account), vote_state1), 0)"
  unfolding get_vote_account_Ok
  by (simp add: get_account_with_commitment_def get_account_with_config_def io_bind_def decoded_buffer vote_sdk0_def)
    (simp add: client1_def provider0_def io_bind_def decoded_buffer)

lemma vote_authorized1: "process_vote_authorize vote_sdk0 (\<lambda>_. Some (Current vote_state1)) message_sdk0 (\<lambda>_. False)
    client1 cluster0 config1 authorize_args0 0 = (Inr (Inr 1), 1)"
proof -
  have checked: "check_vote_authority message_sdk0 (\<lambda>_. False) cluster0 VA_Voter (Some vote_state1) 1 2 None 0 = (Inr (), 0)"
    by (simp add: check_vote_authority_def cluster0_def io_map_err_def io_bind_def vote_state1_def vote_state_new_def
        av_get_authorized_voter_def av_get_or_calculate_def av_new_def check_current_authority_def message_sdk0_def)
  have sent: "send_vote_authorize vote_sdk0 message_sdk0 client1 config1 authorize_args0 1 0 = (Inr (Inr 1), 1)"
    by (simp add: send_vote_authorize_def authorize_args0_def with_memo_def query_get_blockhash_def source_get_blockhash_def
        get_latest_blockhash_with_config_def client1_def provider0_def io_bind_def io_map_err_def config_signer_def
        signer_at_def config1_def message_sdk0_def Let_def check_account_for_fee_with_commitment_def
        check_account_for_multiple_fees_with_commitment_def check_account_for_spend_multiple_fees_with_commitment_def
        get_fee_for_messages_def client_fee_for_message_def check_account_for_balance_with_commitment_def
        get_balance_with_commitment_def send_and_confirm_transaction_def
        send_and_confirm_transaction_with_config_def send_transaction_with_config_def first_signature_def
        confirmed_at_once commitment_matches_def
        check_account_for_spend_and_fee_with_commitment_def)
  show ?thesis
    using checked sent vote_account1
    by (simp add: process_vote_authorize_def authorize_args0_def config_signer_def signer_at_def config1_def
        message_sdk0_def io_bind_def)
qed

lemma client_authority_accepted_witness:
  "\<exists>s'. vote_authorize vote_ops1 (Current vote_state1) 0 2 VA_Voter [1] \<lparr>vck_epoch = 7, vck_leader_schedule_epoch = 8\<rparr>
     (\<lambda>_. True) = Ok (new_current s') \<and>
   voter_at (vs_authorized_voters s') 9 = Some 2"
proof -
  let ?clock = "\<lparr>vck_epoch = 7, vck_leader_schedule_epoch = 8\<rparr>"
  have "vote_authorize vote_ops1 (Current vote_state1) 0 2 VA_Voter [1] ?clock (\<lambda>_. True) =
      try_bind (authority_change VA_Voter 2 ?clock vote_state1) (\<lambda>s'. Ok (new_current s'))"
    using client_authority_accepted [OF vote_authorized1, of ?clock "\<lambda>_. True" "[1]" vote_ops1 "Current vote_state1" 0]
      vote_account1
    by (simp add: cluster0_def config1_def authorize_args0_def message_sdk0_def vote_ops1_def)
  moreover have "case authority_change VA_Voter 2 ?clock vote_state1 of
      Inr s' \<Rightarrow> voter_at (vs_authorized_voters s') 9 = Some 2 | Inl _ \<Rightarrow> False"
    by code_simp
  ultimately show ?thesis by (auto split: sum.splits)
qed

text \<open>Feature 1 has no account, feature 2 is active since slot 7: the listing says that 1 is.
  In slot 20000000 the listing without \<open>--display-all\<close> is empty.\<close>

definition cluster20 :: "nat cluster" where
  "cluster20 = cluster0\<lparr>cl_slot := (\<lambda>w. (Inr 20000000, w))\<rparr>"

definition builders1 :: system_builders where
  "builders1 = builders0\<lparr>sb_feature_activated_at := (\<lambda>a. Some (Some 7))\<rparr>"

lemma feature_listing_witness:
  "(\<exists>f inactive v. feature_statuses builders1 client1 cluster0 (\<lambda>k. Some []) [1, 2] True 0 = (Inr ([f], inactive), v) \<and>
     cfe_id f = uc_key_to_string ui_codec0 1 \<and> cfe_status f = CFS_Active 7) \<and>
   (\<exists>v. feature_statuses builders1 client1 cluster20 (\<lambda>k. Some []) [1, 2] False 0 = (Inr ([], False), v))"
proof -
  have chunks: "chunks 100 [1, 2 :: pubkey] = [[1, 2]]"
    by (subst chunks.simps, simp, subst chunks.simps, simp)
  have node: "answers_accounts client1 feature_account"
    by (simp add: answers_accounts_def client1_def)
  have slot: "cl_slot cluster0 0 = (Inr 9, 0)" "cl_slot cluster20 0 = (Inr 20000000, 0)"
    by (simp_all add: cluster0_def cluster20_def)
  have shown: "shown_chunk builders1 ui_codec0 (\<lambda>k. Some []) feature_account [1, 2] =
      [\<lparr>cfe_id = uc_key_to_string ui_codec0 1, cfe_description = [], cfe_status = CFS_Active 7\<rparr>]"
    by (simp add: shown_chunk_def existing_def feature_account_def shown_feature_def decoded_buffer
        status_from_account_def builders1_def)
  have known: "\<forall>k \<in> set [1, 2 :: pubkey]. (\<lambda>k. Some ([] :: bytes)) k \<noteq> None" by simp
  have "displayed s True f" "\<not> displayed 20000000 False \<lparr>cfe_id = k, cfe_description = [], cfe_status = CFS_Active 7\<rparr>"
    for s f k by (simp_all add: displayed_def)
  then show ?thesis
    using feature_listing [OF node slot(1) known, of builders1 True] feature_listing [OF node slot(2) known, of builders1 False]
    unfolding chunks codec1 Let_def by (auto simp: shown)
qed

lemma epoch_start_search_witness:
  "fst (epoch_start_time client1 9 3 0) = Ok 50 \<and> snd (epoch_start_time client1 9 3 0) \<le> 6"
proof -
  let ?time = "\<lambda>s :: u64. if s = 5 then Some (50 :: i64) else None"
  have "fst (client_get_block_time client1 s v) = (case ?time s of Some t \<Rightarrow> Ok t
      | None \<Rightarrow> Fail (client_error_new (CM_BlockNotFound s)))" for s v
    by (simp add: client_get_block_time_def client1_def io_bind_def io_err_def)
  moreover have "id (snd (client_get_block_time client1 s v)) \<le> id v + (1 :: nat)" for s v
    by (simp add: client_get_block_time_def client1_def io_bind_def io_err_def)
  ultimately show ?thesis
    using epoch_start_search [where C = client1 and time = ?time and requests = id and effective = 9 and slot = 3 and w = 0
      and err = "\<lambda>s. client_error_new (CM_BlockNotFound s)"]
    by (simp add: upt_conv_Cons)
qed

end
