(* ===== verification/CliSigners.thy ===== *)
theory CliSigners
  imports CliSpend
begin

text \<open>
  Signers of the command line programs (\<open>solana-clap-v3-utils/src/keypair.rs\<close>,
  \<open>input_parsers.rs\<close>, \<open>input_validators.rs\<close>). A signer \<open>'s\<close> is opaque; two are equal when
  their keys are. Files, prompts, devices and the URI parser are fields of \<open>signer_env\<close>;
  the wallet manager, once found, is kept in a variable that is passed along.
\<close>

section \<open>Sets of signers\<close>

record sign_only =
  so_blockhash :: hash
  so_message :: "bytes option"
  so_present_signers :: "(pubkey \<times> signature) list"
  so_absent_signers :: "pubkey list"
  so_bad_signers :: "pubkey list"

definition has_all_signers :: "sign_only \<Rightarrow> bool" where
  "has_all_signers s \<longleftrightarrow> so_absent_signers s = [] \<and> so_bad_signers s = []"

definition presigner_from_pubkey_sigs :: "pubkey \<Rightarrow> (pubkey \<times> signature) list \<Rightarrow> (pubkey \<times> signature) option" where
  "presigner_from_pubkey_sigs key signers = find (\<lambda>(signer, sig). signer = key) signers"

definition presigner_of :: "sign_only \<Rightarrow> pubkey \<Rightarrow> (pubkey \<times> signature) option" where
  "presigner_of s key = presigner_from_pubkey_sigs key (so_present_signers s)"

fun signer_position :: "('a \<Rightarrow> bool) \<Rightarrow> 'a list \<Rightarrow> nat option" where
  "signer_position P [] = None"
| "signer_position P (x # xs) = (if P x then Some 0 else map_option Suc (signer_position P xs))"

record 's cli_signer_info =
  csi_signers :: "'s list"

definition index_of :: "('m, 's) message_sdk \<Rightarrow> 's cli_signer_info \<Rightarrow> pubkey option \<Rightarrow> nat option" where
  "index_of S I key = (case key of
      Some k \<Rightarrow> signer_position (\<lambda>s. mk_pubkey S s = k) (csi_signers I)
    | None \<Rightarrow> Some 0)"

definition index_of_or_none :: "('m, 's) message_sdk \<Rightarrow> 's cli_signer_info \<Rightarrow> pubkey option \<Rightarrow> nat option" where
  "index_of_or_none S I key = (case key of
      Some k \<Rightarrow> signer_position (\<lambda>s. mk_pubkey S s = k) (csi_signers I)
    | None \<Rightarrow> None)"

definition signers_for_message :: "('m, 's) message_sdk \<Rightarrow> 's cli_signer_info \<Rightarrow> 'm \<Rightarrow> 's list" where
  "signers_for_message S I m = filter (\<lambda>k. mk_pubkey S k \<in> set (mk_signer_keys S m)) (csi_signers I)"

fun push_unique :: "('m, 's) message_sdk \<Rightarrow> 's list \<Rightarrow> 's list \<Rightarrow> 's list" where
  "push_unique S unique_signers [] = unique_signers"
| "push_unique S unique_signers (s # ss) =
     push_unique S (if \<exists>u \<in> set unique_signers. mk_pubkey S u = mk_pubkey S s then unique_signers
       else unique_signers @ [s]) ss"

definition generate_unique_signers :: "('m, 's) message_sdk \<Rightarrow> 's \<Rightarrow> 's option list \<Rightarrow> 's cli_signer_info" where
  "generate_unique_signers S default_signer bulk_signers =
     \<lparr>csi_signers = push_unique S (if None \<in> set bulk_signers then [default_signer] else [])
        (List.map_filter id bulk_signers)\<rparr>"

section \<open>Sources of signers\<close>

datatype 'l signer_source_kind =
    SSK_Prompt
  | SSK_Filepath bytes
  | SSK_Usb 'l
  | SSK_Stdin
  | SSK_Pubkey pubkey

record ('l, 'd) signer_source =
  ssr_kind :: "'l signer_source_kind"
  ssr_derivation_path :: "'d option"
  ssr_legacy :: bool

datatype signer_source_error =
    SSE_UnrecognizedSource | SSE_RemoteWalletLocatorError nat | SSE_DerivationPathError nat | SSE_IoError nat

record uri =
  uri_scheme :: "bytes option"
  uri_path :: bytes

record ('w, 's, 'l, 'd, 'h) signer_env =
  en_parse_uri :: "bytes \<Rightarrow> uri option"
  en_derivation_any_query :: "uri \<Rightarrow> (signer_source_error, 'd option) result"
  en_derivation_key_query :: "uri \<Rightarrow> (signer_source_error, 'd option) result"
  en_locator :: "uri \<Rightarrow> (signer_source_error, 'l) result"
  en_file_exists :: "bytes \<Rightarrow> (signer_source_error, unit) result"
  en_pubkey_from_str :: "bytes \<Rightarrow> pubkey option"
  en_seed_phrase :: "bytes \<Rightarrow> bool \<Rightarrow> bool \<Rightarrow> 'd option \<Rightarrow> bool \<Rightarrow> ('w, signer_source_error, 's) io"
  en_read_keypair_file :: "bytes \<Rightarrow> ('w, signer_source_error, 's) io"
  en_read_keypair_stdin :: "('w, signer_source_error, 's) io"
  en_maybe_wallet_manager :: "('w, signer_source_error, 'h option) io"
  en_remote_keypair :: "'l \<Rightarrow> 'd option \<Rightarrow> 'h \<Rightarrow> bool \<Rightarrow> bytes \<Rightarrow> ('w, signer_source_error, 's) io"
  en_presigner :: "pubkey \<Rightarrow> signature \<Rightarrow> 's"
  en_null_signer :: "pubkey \<Rightarrow> 's"
  en_key :: "'s \<Rightarrow> pubkey"

definition ascii_lower :: "byte \<Rightarrow> byte" where
  "ascii_lower b = (if 65 \<le> b \<and> b \<le> 90 then b + 32 else b)"

definition signer_source_new :: "'l signer_source_kind \<Rightarrow> ('l, 'd) signer_source" where
  "signer_source_new k = \<lparr>ssr_kind = k, ssr_derivation_path = None, ssr_legacy = False\<rparr>"

definition signer_source_new_legacy :: "'l signer_source_kind \<Rightarrow> ('l, 'd) signer_source" where
  "signer_source_new_legacy k = \<lparr>ssr_kind = k, ssr_derivation_path = None, ssr_legacy = True\<rparr>"

text \<open>The words ``prompt'', ``file'', ``usb'', ``stdin'', ``-'' and ``ASK''.\<close>

definition SIGNER_SOURCE_PROMPT :: bytes where "SIGNER_SOURCE_PROMPT = [112, 114, 111, 109, 112, 116]"
definition SIGNER_SOURCE_FILEPATH :: bytes where "SIGNER_SOURCE_FILEPATH = [102, 105, 108, 101]"
definition SIGNER_SOURCE_USB :: bytes where "SIGNER_SOURCE_USB = [117, 115, 98]"
definition SIGNER_SOURCE_STDIN :: bytes where "SIGNER_SOURCE_STDIN = [115, 116, 100, 105, 110]"
definition STDOUT_OUTFILE_TOKEN :: bytes where "STDOUT_OUTFILE_TOKEN = [45]"
definition ASK_KEYWORD :: bytes where "ASK_KEYWORD = [65, 83, 75]"

definition parse_signer_source ::
  "('w, 's, 'l, 'd, 'h) signer_env \<Rightarrow> bytes \<Rightarrow> (signer_source_error, ('l, 'd) signer_source) result" where
  "parse_signer_source N source = (case en_parse_uri N source of
      None \<Rightarrow> Fail SSE_UnrecognizedSource
    | Some u \<Rightarrow> (case uri_scheme u of
          Some scheme \<Rightarrow>
            let scheme = map ascii_lower scheme in
            if scheme = SIGNER_SOURCE_PROMPT then
              try_bind (en_derivation_any_query N u) (\<lambda>d.
              Ok \<lparr>ssr_kind = SSK_Prompt, ssr_derivation_path = d, ssr_legacy = False\<rparr>)
            else if scheme = SIGNER_SOURCE_FILEPATH then Ok (signer_source_new (SSK_Filepath (uri_path u)))
            else if scheme = SIGNER_SOURCE_USB then
              try_bind (en_locator N u) (\<lambda>l.
              try_bind (en_derivation_key_query N u) (\<lambda>d.
              Ok \<lparr>ssr_kind = SSK_Usb l, ssr_derivation_path = d, ssr_legacy = False\<rparr>))
            else if scheme = SIGNER_SOURCE_STDIN then Ok (signer_source_new SSK_Stdin)
            else Fail SSE_UnrecognizedSource
        | None \<Rightarrow>
            if source = STDOUT_OUTFILE_TOKEN then Ok (signer_source_new SSK_Stdin)
            else if source = ASK_KEYWORD then Ok (signer_source_new_legacy SSK_Prompt)
            else (case en_pubkey_from_str N source of
                Some key \<Rightarrow> Ok (signer_source_new (SSK_Pubkey key))
              | None \<Rightarrow> try_bind (en_file_exists N source) (\<lambda>_. Ok (signer_source_new (SSK_Filepath source))))))"

section \<open>Loading signers\<close>

text \<open>What the loading reads of the arguments. The wallet manager is an option that is set once.\<close>

record signer_matches =
  sm_skip_seed_phrase_validation :: bool
  sm_confirm_key :: bool
  sm_sign_only :: bool
  sm_signers :: "(pubkey \<times> signature) list option"

datatype signer_error =
    SIE_Source signer_source_error
  | SIE_NoDeviceFound
  | SIE_MissingSignature pubkey
  | SIE_CannotRead bytes
  | SIE_UnsupportedKeypairOutput

definition find_wallet_manager ::
  "('w, 's, 'l, 'd, 'h) signer_env \<Rightarrow> 'h option \<Rightarrow> ('w, signer_error, 'h option) io" where
  "find_wallet_manager N wallet_manager = (case wallet_manager of
      Some h \<Rightarrow> io_ok (Some h)
    | None \<Rightarrow> io_map_err SIE_Source (en_maybe_wallet_manager N))"

text \<open>A file that cannot be read is reported with its path.\<close>

definition read_file ::
  "('w, 's, 'l, 'd, 'h) signer_env \<Rightarrow> bytes \<Rightarrow> ('w, signer_error, 's) io" where
  "read_file N path = io_map_err (\<lambda>_. SIE_CannotRead path) (en_read_keypair_file N path)"

definition signer_from_path_with_config ::
  "('w, 's, 'l, 'd, 'h) signer_env \<Rightarrow> signer_matches \<Rightarrow> bytes \<Rightarrow> bytes \<Rightarrow> 'h option \<Rightarrow> bool \<Rightarrow>
   ('w, signer_error, 's \<times> 'h option) io" where
  "signer_from_path_with_config N M path keypair_name wallet_manager allow_null_signer =
     io_bind (io_lift (map_err SIE_Source (parse_signer_source N path))) (\<lambda>source.
     case ssr_kind source of
       SSK_Prompt \<Rightarrow>
         io_bind (io_map_err SIE_Source (en_seed_phrase N keypair_name (sm_skip_seed_phrase_validation M) False
           (ssr_derivation_path source) (ssr_legacy source))) (\<lambda>s. io_ok (s, wallet_manager))
     | SSK_Filepath p \<Rightarrow> io_bind (read_file N p) (\<lambda>s. io_ok (s, wallet_manager))
     | SSK_Stdin \<Rightarrow> io_bind (io_map_err SIE_Source (en_read_keypair_stdin N)) (\<lambda>s. io_ok (s, wallet_manager))
     | SSK_Usb locator \<Rightarrow>
         io_bind (find_wallet_manager N wallet_manager) (\<lambda>wallet_manager.
         case wallet_manager of
           Some h \<Rightarrow> io_bind (io_map_err SIE_Source (en_remote_keypair N locator (ssr_derivation_path source) h
             (sm_confirm_key M) keypair_name)) (\<lambda>s. io_ok (s, wallet_manager))
         | None \<Rightarrow> io_fail SIE_NoDeviceFound)
     | SSK_Pubkey key \<Rightarrow> (case Option.bind (sm_signers M) (presigner_from_pubkey_sigs key) of
           Some (k, sig) \<Rightarrow> io_ok (en_presigner N k sig, wallet_manager)
         | None \<Rightarrow>
             if allow_null_signer \<or> sm_sign_only M then io_ok (en_null_signer N key, wallet_manager)
             else io_fail (SIE_MissingSignature key)))"

definition signer_from_path ::
  "('w, 's, 'l, 'd, 'h) signer_env \<Rightarrow> signer_matches \<Rightarrow> bytes \<Rightarrow> bytes \<Rightarrow> 'h option \<Rightarrow>
   ('w, signer_error, 's \<times> 'h option) io" where
  "signer_from_path N M path keypair_name wallet_manager =
     signer_from_path_with_config N M path keypair_name wallet_manager False"

definition pubkey_from_path ::
  "('w, 's, 'l, 'd, 'h) signer_env \<Rightarrow> signer_matches \<Rightarrow> bytes \<Rightarrow> bytes \<Rightarrow> 'h option \<Rightarrow>
   ('w, signer_error, pubkey \<times> 'h option) io" where
  "pubkey_from_path N M path keypair_name wallet_manager =
     io_bind (io_lift (map_err SIE_Source (parse_signer_source N path))) (\<lambda>source.
     case ssr_kind source of
       SSK_Pubkey key \<Rightarrow> io_ok (key, wallet_manager)
     | _ \<Rightarrow> io_bind (signer_from_path N M path keypair_name wallet_manager) (\<lambda>(s, wallet_manager).
         io_ok (en_key N s, wallet_manager)))"

definition keypair_from_path ::
  "('w, 's, 'l, 'd, 'h) signer_env \<Rightarrow> signer_matches \<Rightarrow> bytes \<Rightarrow> bytes \<Rightarrow> bool \<Rightarrow> ('w, signer_error, 's) io" where
  "keypair_from_path N M path keypair_name confirm_pubkey =
     io_bind (io_lift (map_err SIE_Source (parse_signer_source N path))) (\<lambda>source.
     case ssr_kind source of
       SSK_Prompt \<Rightarrow> io_map_err SIE_Source (en_seed_phrase N keypair_name (sm_skip_seed_phrase_validation M)
         confirm_pubkey (ssr_derivation_path source) (ssr_legacy source))
     | SSK_Filepath p \<Rightarrow> read_file N p
     | SSK_Stdin \<Rightarrow> io_map_err SIE_Source (en_read_keypair_stdin N)
     | _ \<Rightarrow> io_fail SIE_UnsupportedKeypairOutput)"

text \<open>Arguments that name signers, present or not.\<close>

definition signer_of ::
  "('w, 's, 'l, 'd, 'h) signer_env \<Rightarrow> signer_matches \<Rightarrow> bytes option \<Rightarrow> bytes \<Rightarrow> 'h option \<Rightarrow>
   ('w, signer_error, ('s \<times> pubkey) option \<times> 'h option) io" where
  "signer_of N M location name wallet_manager = (case location of
      Some location \<Rightarrow> io_bind (signer_from_path N M location name wallet_manager) (\<lambda>(s, wallet_manager).
        io_ok (Some (s, en_key N s), wallet_manager))
    | None \<Rightarrow> io_ok (None, wallet_manager))"

definition pubkey_of_signer ::
  "('w, 's, 'l, 'd, 'h) signer_env \<Rightarrow> signer_matches \<Rightarrow> bytes option \<Rightarrow> bytes \<Rightarrow> 'h option \<Rightarrow>
   ('w, signer_error, pubkey option \<times> 'h option) io" where
  "pubkey_of_signer N M location name wallet_manager = (case location of
      Some location \<Rightarrow> io_bind (pubkey_from_path N M location name wallet_manager) (\<lambda>(k, wallet_manager).
        io_ok (Some k, wallet_manager))
    | None \<Rightarrow> io_ok (None, wallet_manager))"

fun pubkeys_of_multiple_signers ::
  "('w, 's, 'l, 'd, 'h) signer_env \<Rightarrow> signer_matches \<Rightarrow> bytes list \<Rightarrow> bytes \<Rightarrow> 'h option \<Rightarrow>
   ('w, signer_error, pubkey list \<times> 'h option) io" where
  "pubkeys_of_multiple_signers N M [] name wallet_manager = io_ok ([], wallet_manager)"
| "pubkeys_of_multiple_signers N M (l # ls) name wallet_manager =
     io_bind (pubkey_from_path N M l name wallet_manager) (\<lambda>(k, wallet_manager).
     io_bind (pubkeys_of_multiple_signers N M ls name wallet_manager) (\<lambda>(ks, wallet_manager).
     io_ok (k # ks, wallet_manager)))"

section \<open>Unique signers\<close>

lemma signer_position_Some: "signer_position P xs = Some i \<Longrightarrow> i < length xs \<and> P (xs ! i) \<and> (\<forall>j < i. \<not> P (xs ! j))"
proof (induction xs arbitrary: i)
  case (Cons x xs)
  show ?case
  proof (cases "P x")
    case False
    with Cons.prems obtain k where k: "signer_position P xs = Some k" "i = Suc k" by auto
    with Cons.IH [OF k(1)] False show ?thesis by (auto simp: less_Suc_eq_0_disj)
  qed (use Cons.prems in auto)
qed simp

lemma signer_position_None: "signer_position P xs = None \<longleftrightarrow> (\<forall>x \<in> set xs. \<not> P x)"
  by (induction xs) auto

lemma push_unique_distinct:
  "distinct (map (mk_pubkey S) us) \<Longrightarrow> distinct (map (mk_pubkey S) (push_unique S us ss))"
proof (induction ss arbitrary: us)
  case (Cons s ss)
  then show ?case by (auto intro!: Cons.IH simp: image_iff) metis
qed simp

lemma push_unique_keys:
  "mk_pubkey S ` set (push_unique S us ss) = mk_pubkey S ` set us \<union> mk_pubkey S ` set ss"
proof (induction ss arbitrary: us)
  case (Cons s ss)
  show ?case
  proof (cases "mk_pubkey S s \<in> mk_pubkey S ` set us")
    case True
    then have "\<exists>u \<in> set us. mk_pubkey S u = mk_pubkey S s" by force
    with True show ?thesis by (simp add: Cons.IH insert_absorb)
  next
    case False
    then have "\<not> (\<exists>u \<in> set us. mk_pubkey S u = mk_pubkey S s)" by (metis imageI)
    then show ?thesis by (simp add: Cons.IH Un_commute)
  qed
qed simp

lemma push_unique_prefix: "\<exists>vs. push_unique S us ss = us @ vs"
proof (induction ss arbitrary: us)
  case (Cons s ss)
  show ?case using Cons.IH [of us] Cons.IH [of "us @ [s]"] by auto
qed simp

lemma set_map_filter: "set (List.map_filter id xs) = {x. Some x \<in> set xs}"
  by (induction xs) (auto simp: List.map_filter_simps split: option.splits)

text \<open>Every signer that was given, or stands in for one that was not, is among the signers, once per
  key, and can be found by it; the default signer comes first when it is needed.\<close>

lemma unique_signers:
  assumes "generate_unique_signers S d bulk = I"
  shows "distinct (map (mk_pubkey S) (csi_signers I))"
    and "mk_pubkey S ` set (csi_signers I) =
      (if None \<in> set bulk then {mk_pubkey S d} else {}) \<union> mk_pubkey S ` {s. Some s \<in> set bulk}"
    and "None \<in> set bulk \<Longrightarrow> index_of S I None = Some 0 \<and> csi_signers I ! 0 = d"
proof -
  let ?us = "if None \<in> set bulk then [d] else []"
  have I: "csi_signers I = push_unique S ?us (List.map_filter id bulk)"
    using assms by (auto simp: generate_unique_signers_def)
  show "distinct (map (mk_pubkey S) (csi_signers I))"
    unfolding I by (rule push_unique_distinct) simp
  show "mk_pubkey S ` set (csi_signers I) =
      (if None \<in> set bulk then {mk_pubkey S d} else {}) \<union> mk_pubkey S ` {s. Some s \<in> set bulk}"
    unfolding I by (simp add: push_unique_keys set_map_filter)
  show "None \<in> set bulk \<Longrightarrow> index_of S I None = Some 0 \<and> csi_signers I ! 0 = d"
    using push_unique_prefix [of S "[d]" "List.map_filter id bulk"] by (auto simp: I index_of_def)
qed

lemma unique_signer_index:
  assumes "Some s \<in> set bulk" and "generate_unique_signers S d bulk = I"
  shows "\<exists>i. index_of S I (Some (mk_pubkey S s)) = Some i \<and> i < length (csi_signers I) \<and>
    mk_pubkey S (csi_signers I ! i) = mk_pubkey S s"
proof -
  have "mk_pubkey S s \<in> mk_pubkey S ` set (csi_signers I)"
    unfolding unique_signers(2) [OF assms(2)] using assms(1) by auto
  then have "index_of S I (Some (mk_pubkey S s)) \<noteq> None"
    by (auto simp: index_of_def signer_position_None)
  then obtain i where i: "index_of S I (Some (mk_pubkey S s)) = Some i" by blast
  then show ?thesis using signer_position_Some [of "\<lambda>t. mk_pubkey S t = mk_pubkey S s" "csi_signers I" i] by (simp add: index_of_def)
qed

text \<open>The signers gathered for a command are those that were given, with the default signer for one that
  was left out, and no two of them have the same key.\<close>

theorem each_signer_once:
  "distinct (map (mk_pubkey S) (csi_signers (generate_unique_signers S d bulk))) \<and>
   mk_pubkey S ` set (csi_signers (generate_unique_signers S d bulk)) =
     (if None \<in> set bulk then {mk_pubkey S d} else {}) \<union> mk_pubkey S ` {s. Some s \<in> set bulk}"
  by (rule conjI [OF unique_signers(1) [OF refl] unique_signers(2) [OF refl]])

end
