(* ===== verification/TokenSort.thy ===== *)
theory TokenSort
  imports RpcClient AssociatedToken
begin

text \<open>
  Grouping the token accounts of an owner by mint (\<open>spl-token-cli/src/sort.rs\<close>). The
  \<open>BTreeMap\<close> from mints to accounts is an association list in the order of its keys.
\<close>

record 'json cli_token_account =
  cta_address :: bytes
  cta_account :: "'json ui_token_account"
  cta_is_associated :: bool

datatype unsupported_reason =
    UR_Program bytes | UR_NotATokenAccount | UR_ParseFailure | UR_DataFormat

record unsupported_account =
  ua_address :: bytes
  ua_err :: unsupported_reason

type_synonym 'json mint_accounts = "(bytes \<times> 'json cli_token_account list) list"

fun bytes_less :: "bytes \<Rightarrow> bytes \<Rightarrow> bool" where
  "bytes_less _ [] = False"
| "bytes_less [] (b # bs) = True"
| "bytes_less (a # as) (b # bs) = (a < b \<or> a = b \<and> bytes_less as bs)"

fun mint_push :: "bytes \<Rightarrow> 'v \<Rightarrow> (bytes \<times> 'v list) list \<Rightarrow> (bytes \<times> 'v list) list" where
  "mint_push k v [] = [(k, [v])]"
| "mint_push k v ((k', vs) # r) =
     (if k = k' then (k', vs @ [v]) # r
      else if bytes_less k k' then (k, [v]) # (k', vs) # r
      else (k', vs) # mint_push k v r)"

text \<open>``spl-token''\<close>

definition spl_token_name :: bytes where
  "spl_token_name = [115, 112, 108, 45, 116, 111, 107, 101, 110]"

record 'json sorted_accounts =
  sa_mint_accounts :: "'json mint_accounts"
  sa_unsupported :: "unsupported_account list"
  sa_max_len_balance :: nat
  sa_includes_aux :: bool

definition push_unsupported :: "bytes \<Rightarrow> unsupported_reason \<Rightarrow> 'json sorted_accounts \<Rightarrow> 'json sorted_accounts" where
  "push_unsupported address err s =
     s\<lparr>sa_unsupported := sa_unsupported s @ [\<lparr>ua_address = address, ua_err = err\<rparr>]\<rparr>"

text \<open>One account: \<open>C\<close> reads keys and JSON, \<open>K\<close> derives associated addresses.\<close>

definition sort_account ::
  "('w, 'm, 'json) provider \<Rightarrow> ata_sdk \<Rightarrow> pubkey \<Rightarrow> pubkey \<Rightarrow> 'json rpc_keyed_account \<Rightarrow>
   'json sorted_accounts \<Rightarrow> 'json sorted_accounts" where
  "sort_account P K owner program_id keyed s =
     (let address = rka_pubkey keyed in
      case ui_data (rka_account keyed) of
        UD_Json parsed_account \<Rightarrow>
          if pa_program parsed_account \<noteq> spl_token_name
          then push_unsupported address (UR_Program (pa_program parsed_account)) s
          else (case pv_token_account_type P (pa_parsed parsed_account) of
              Some (TAT_Account ui) \<Rightarrow>
                let key = uc_key_from_str (pv_codec P) (uto_mint ui);
                    is_associated = (case key of
                      Some m \<Rightarrow> uc_key_to_string (pv_codec P)
                        (get_associated_token_address_with_program_id K owner m program_id) = address
                    | None \<Rightarrow> False);
                    len_balance = length (uta_real_number_string_trimmed (uto_token_amount ui)) in
                s\<lparr>sa_includes_aux := (if key = None then True else sa_includes_aux s),
                  sa_max_len_balance := max (sa_max_len_balance s) len_balance,
                  sa_mint_accounts := mint_push (uto_mint ui)
                    \<lparr>cta_address = address, cta_account = ui, cta_is_associated = is_associated\<rparr> (sa_mint_accounts s)\<rparr>
            | Some _ \<Rightarrow> push_unsupported address UR_NotATokenAccount s
            | None \<Rightarrow> push_unsupported address UR_ParseFailure s)
      | _ \<Rightarrow> push_unsupported address UR_DataFormat s)"

text \<open>The stable sort that puts associated accounts first.\<close>

definition associated_first :: "'json cli_token_account list \<Rightarrow> 'json cli_token_account list" where
  "associated_first xs = sort_key (\<lambda>a. \<not> cta_is_associated a) xs"

definition sort_and_parse_token_accounts ::
  "('w, 'm, 'json) provider \<Rightarrow> ata_sdk \<Rightarrow> pubkey \<Rightarrow> 'json rpc_keyed_account list \<Rightarrow> pubkey \<Rightarrow> 'json sorted_accounts" where
  "sort_and_parse_token_accounts P K owner accounts program_id =
     (let s = fold (sort_account P K owner program_id) accounts
        \<lparr>sa_mint_accounts = [], sa_unsupported = [], sa_max_len_balance = 0, sa_includes_aux = False\<rparr> in
      s\<lparr>sa_mint_accounts := map (\<lambda>(k, vs). (k, associated_first vs)) (sa_mint_accounts s)\<rparr>)"

section \<open>Grouping\<close>

lemma bytes_less_irrefl [simp]: "\<not> bytes_less a a"
  by (induction a) auto

lemma bytes_less_total: "a \<noteq> b \<Longrightarrow> bytes_less a b \<or> bytes_less b a"
  by (induction a b rule: bytes_less.induct) (auto elim: bytes_less.elims, (metis bytes_less.simps(2) list.exhaust)+)

lemma bytes_less_trans: "bytes_less a b \<Longrightarrow> bytes_less b c \<Longrightarrow> bytes_less a c"
proof (induction a b arbitrary: c rule: bytes_less.induct)
  case (3 a as b bs)
  then show ?case by (cases c) auto
next
  case (2 b bs)
  then show ?case by (cases c) auto
qed auto

abbreviation mints_sorted :: "(bytes \<times> 'v list) list \<Rightarrow> bool" where
  "mints_sorted r \<equiv> sorted_wrt (\<lambda>a b. bytes_less (fst a) (fst b)) r"

lemma mint_push_keys: "fst ` set (mint_push k v r) = insert k (fst ` set r)"
  by (induction k v r rule: mint_push.induct) auto

lemma mint_push_sorted: "mints_sorted r \<Longrightarrow> mints_sorted (mint_push k v r)"
proof (induction k v r rule: mint_push.induct)
  case (2 k v k' vs r)
  show ?case
  proof (cases "k = k' \<or> bytes_less k k'")
    case True
    with 2(2) show ?thesis by (auto dest: bytes_less_trans)
  next
    case False
    then have less: "bytes_less k' k" using bytes_less_total by blast
    have "\<forall>x \<in> set (mint_push k v r). bytes_less k' (fst x)"
    proof
      fix x assume "x \<in> set (mint_push k v r)"
      then have "fst x \<in> insert k (fst ` set r)" using mint_push_keys [of k v r] by blast
      with 2(2) less show "bytes_less k' (fst x)" by auto
    qed
    with 2 False show ?thesis by simp
  qed
qed simp

text \<open>The accounts of a mint, in the order in which they came.\<close>

lemma mint_push_lookup:
  assumes "mints_sorted r"
  shows "map_of (mint_push k v r) =
    (map_of r)(k \<mapsto> (case map_of r k of None \<Rightarrow> [v] | Some vs \<Rightarrow> vs @ [v]))"
  using assms
proof (induction k v r rule: mint_push.induct)
  case (2 k v k' vs r)
  show ?case
  proof (cases "bytes_less k k'")
    case True
    have "map_of r k = None"
      using 2(2) True by (auto simp: map_of_eq_None_iff dest: bytes_less_trans)
    with True show ?thesis by (auto simp: fun_eq_iff)
  next
    case False
    with 2 show ?thesis by (auto simp: fun_eq_iff)
  qed
qed simp

text \<open>The token account that an account holds, as it is listed.\<close>

definition listed_account ::
  "('w, 'm, 'json) provider \<Rightarrow> ata_sdk \<Rightarrow> pubkey \<Rightarrow> pubkey \<Rightarrow> 'json rpc_keyed_account \<Rightarrow>
   'json cli_token_account option" where
  "listed_account P K owner program_id a = (case ui_data (rka_account a) of
      UD_Json d \<Rightarrow>
        if pa_program d \<noteq> spl_token_name then None
        else (case pv_token_account_type P (pa_parsed d) of
            Some (TAT_Account ui) \<Rightarrow> Some \<lparr>cta_address = rka_pubkey a, cta_account = ui,
              cta_is_associated = (case uc_key_from_str (pv_codec P) (uto_mint ui) of
                Some m \<Rightarrow> uc_key_to_string (pv_codec P)
                  (get_associated_token_address_with_program_id K owner m program_id) = rka_pubkey a
              | None \<Rightarrow> False)\<rparr>
          | _ \<Rightarrow> None)
    | _ \<Rightarrow> None)"

definition listed :: "('w, 'm, 'json) provider \<Rightarrow> ata_sdk \<Rightarrow> pubkey \<Rightarrow> pubkey \<Rightarrow> 'json rpc_keyed_account list \<Rightarrow>
    'json cli_token_account list" where
  "listed P K owner program_id = List.map_filter (listed_account P K owner program_id)"

text \<open>Why an account is not listed, and the report of those that are not.\<close>

definition unlisted_reason :: "('w, 'm, 'json) provider \<Rightarrow> 'json rpc_keyed_account \<Rightarrow> unsupported_reason" where
  "unlisted_reason P a = (case ui_data (rka_account a) of
      UD_Json d \<Rightarrow>
        if pa_program d \<noteq> spl_token_name then UR_Program (pa_program d)
        else if pv_token_account_type P (pa_parsed d) = None then UR_ParseFailure
        else UR_NotATokenAccount
    | _ \<Rightarrow> UR_DataFormat)"

definition unlisted :: "('w, 'm, 'json) provider \<Rightarrow> ata_sdk \<Rightarrow> pubkey \<Rightarrow> pubkey \<Rightarrow> 'json rpc_keyed_account list \<Rightarrow>
    unsupported_account list" where
  "unlisted P K owner program_id as =
     map (\<lambda>a. \<lparr>ua_address = rka_pubkey a, ua_err = unlisted_reason P a\<rparr>)
       (filter (\<lambda>a. listed_account P K owner program_id a = None) as)"

definition of_mint :: "bytes \<Rightarrow> 'json cli_token_account list \<Rightarrow> 'json cli_token_account list" where
  "of_mint k xs = filter (\<lambda>a. uto_mint (cta_account a) = k) xs"

definition bucket :: "'a list \<Rightarrow> 'a list option" where
  "bucket xs = (if xs = [] then None else Some xs)"

lemma listed_append:
  "listed P K owner pid (as @ bs) = listed P K owner pid as @ listed P K owner pid bs"
  "unlisted P K owner pid (as @ bs) = unlisted P K owner pid as @ unlisted P K owner pid bs"
  by (simp_all add: listed_def unlisted_def List.map_filter_def)

lemma bucket_snoc: "bucket (xs @ [x]) = Some (case bucket xs of None \<Rightarrow> [x] | Some ys \<Rightarrow> ys @ [x])"
  by (simp add: bucket_def)

text \<open>What the loop has done after some accounts.\<close>

definition sorted_so_far ::
  "('w, 'm, 'json) provider \<Rightarrow> 'json cli_token_account list \<Rightarrow> unsupported_account list \<Rightarrow>
   'json sorted_accounts \<Rightarrow> bool" where
  "sorted_so_far P xs us s \<longleftrightarrow>
     mints_sorted (sa_mint_accounts s) \<and>
     (\<forall>k. map_of (sa_mint_accounts s) k = bucket (of_mint k xs)) \<and>
     sa_unsupported s = us \<and>
     (sa_includes_aux s \<longleftrightarrow> (\<exists>a \<in> set xs. uc_key_from_str (pv_codec P) (uto_mint (cta_account a)) = None))"

lemma sort_account_step:
  assumes "sorted_so_far P xs us s"
  shows "sorted_so_far P (xs @ listed P K owner pid [a]) (us @ unlisted P K owner pid [a])
    (sort_account P K owner pid a s)"
proof (cases "listed_account P K owner pid a")
  case None
  then have "sort_account P K owner pid a s = push_unsupported (rka_pubkey a) (unlisted_reason P a) s"
    by (auto simp: listed_account_def unlisted_reason_def sort_account_def Let_def split: ui_account_data.splits if_splits option.splits
        token_account_type.splits)
  with None assms show ?thesis
    by (simp add: sorted_so_far_def push_unsupported_def listed_def unlisted_def List.map_filter_simps)
next
  case (Some x)
  let ?s = "sort_account P K owner pid a s"
  from Some have s: "sa_mint_accounts ?s = mint_push (uto_mint (cta_account x)) x (sa_mint_accounts s)"
      "sa_unsupported ?s = sa_unsupported s"
      "sa_includes_aux ?s \<longleftrightarrow> sa_includes_aux s \<or> uc_key_from_str (pv_codec P) (uto_mint (cta_account x)) = None"
    by (auto simp: listed_account_def sort_account_def Let_def split: ui_account_data.splits if_splits option.splits
        token_account_type.splits)
  have "map_of (sa_mint_accounts ?s) k = bucket (of_mint k (xs @ [x]))" for k
    using assms by (simp add: s sorted_so_far_def mint_push_lookup of_mint_def bucket_snoc)
  moreover have "listed P K owner pid [a] = [x]" "unlisted P K owner pid [a] = []"
    by (simp_all add: listed_def unlisted_def List.map_filter_simps Some)
  ultimately show ?thesis
    using assms by (auto simp: sorted_so_far_def s mint_push_sorted)
qed

lemma sort_accounts_fold:
  "sorted_so_far P (listed P K owner pid accounts) (unlisted P K owner pid accounts)
    (fold (sort_account P K owner pid) accounts
      \<lparr>sa_mint_accounts = [], sa_unsupported = [], sa_max_len_balance = 0, sa_includes_aux = False\<rparr>)"
proof (induction accounts rule: rev_induct)
  case Nil
  show ?case by (simp add: sorted_so_far_def listed_def unlisted_def List.map_filter_simps of_mint_def bucket_def)
next
  case (snoc a as)
  from sort_account_step [OF snoc] show ?case by (simp add: listed_append)
qed

text \<open>A stable sort by a truth value is a partition.\<close>

lemma insort_key_bool:
  "insort_key (\<lambda>a. \<not> P a) x (filter P xs @ filter (\<lambda>a. \<not> P a) xs) =
     (if P x then x # filter P xs @ filter (\<lambda>a. \<not> P a) xs
      else filter P xs @ x # filter (\<lambda>a. \<not> P a) xs)"
proof -
  have neg: "insort_key (\<lambda>a. \<not> P a) x ys = x # ys" if "\<forall>y \<in> set ys. \<not> P y" for ys
    using that by (cases ys) (auto simp: le_bool_def)
  show ?thesis
  proof (cases "P x")
    case True
    then show ?thesis
      by (cases "filter P xs @ filter (\<lambda>a. \<not> P a) xs") (auto simp: le_bool_def)
  next
    case False
    have split: "insort_key (\<lambda>a. \<not> P a) x (ys @ zs) = ys @ x # zs"
      if "\<forall>y \<in> set ys. P y" "\<forall>z \<in> set zs. \<not> P z" for ys zs
      using that False by (induction ys) (auto simp: neg le_bool_def)
    have "insort_key (\<lambda>a. \<not> P a) x (filter P xs @ filter (\<lambda>a. \<not> P a) xs) =
        filter P xs @ x # filter (\<lambda>a. \<not> P a) xs"
      by (rule split) auto
    with False show ?thesis by (simp only: if_False)
  qed
qed

lemma sort_key_bool: "sort_key (\<lambda>a. \<not> P a) xs = filter P xs @ filter (\<lambda>a. \<not> P a) xs"
  by (induction xs) (simp_all add: insort_key_bool)

text \<open>C40: the listing groups the token accounts of an owner by mint, in the order of the mints, the
  associated one before the others and each group otherwise in the order received; every other
  account, and no listed one, is reported as unsupported, in the order received, under its address and
  with the reason: another program, a token program's account that is none of tokens or cannot be parsed,
  or data in another format. The mark for auxiliary accounts is set only by accounts whose mint
  is not a key, never by an auxiliary account of a mint.\<close>

theorem accounts_grouped_by_mint:
  fixes P :: "('w, 'm, 'json) provider"
  shows "let s = sort_and_parse_token_accounts P K owner accounts pid;
             xs = listed P K owner pid accounts;
             grp = of_mint k xs in
    mints_sorted (sa_mint_accounts s) \<and>
    map_of (sa_mint_accounts s) k =
      bucket (filter cta_is_associated grp @ filter (\<lambda>a. \<not> cta_is_associated a) grp) \<and>
    sa_unsupported s = unlisted P K owner pid accounts \<and>
    length (sa_unsupported s) + length xs = length accounts \<and>
    (sa_includes_aux s \<longleftrightarrow>
       (\<exists>a \<in> set xs. uc_key_from_str (pv_codec P) (uto_mint (cta_account a)) = None))"
proof -
  let ?f = "fold (sort_account P K owner pid) accounts
      \<lparr>sa_mint_accounts = [], sa_unsupported = [], sa_max_len_balance = 0, sa_includes_aux = False\<rparr>"
  note f = sort_accounts_fold [of P K owner pid accounts, unfolded sorted_so_far_def]
  have map_of: "map_of (map (\<lambda>(k, vs). (k, associated_first vs)) r) k = map_option associated_first (map_of r k)" for r k
    by (induction r) auto
  have "map_option associated_first (bucket xs) =
      bucket (filter cta_is_associated xs @ filter (\<lambda>a. \<not> cta_is_associated a) xs)"
    for xs :: "'json cli_token_account list"
  proof -
    have "filter cta_is_associated xs @ filter (\<lambda>a. \<not> cta_is_associated a) xs = [] \<longleftrightarrow> xs = []"
      by (auto simp: filter_empty_conv)
    then show ?thesis by (auto simp: bucket_def associated_first_def sort_key_bool)
  qed
  moreover have "mints_sorted (map (\<lambda>(k, vs). (k, associated_first vs)) r)" if "mints_sorted r"
    for r :: "'json mint_accounts"
    using that by (auto simp: sorted_wrt_map split_def)
  moreover have "length (unlisted P K owner pid accounts) + length (listed P K owner pid accounts) = length accounts"
    by (induction accounts) (simp_all add: listed_def unlisted_def List.map_filter_simps split: option.split)
  ultimately show ?thesis
    using f by (simp add: sort_and_parse_token_accounts_def Let_def map_of)
qed

end
