(* ===== verification/TokenCliBase.thy ===== *)
theory TokenCliBase
  imports CliSigners CliWallet TokenSort SplToken TokenUi TokenState
begin

text \<open>
  What every command of \<open>spl-token-cli\<close> rests on (\<open>config.rs\<close> and the helpers of
  \<open>cli.rs\<close>): the configuration, the balance checks, the mint of an account and the handling
  of a transaction. The crates are the fields of \<open>token_tools\<close>; the floats \<open>'f\<close> of the command
  line are turned into amounts there. What a command prints is output.
\<close>

section \<open>Configuration\<close>

record ('m, 's, 'f) token_tools =
  tt_sdk :: "('m, 's) message_sdk"
  tt_builders :: system_builders
  tt_ata :: ata_sdk
  tt_env :: token_env
  tt_sol_to_lamports :: "'f \<Rightarrow> u64"
  tt_ui_amount_to_amount :: "'f \<Rightarrow> u8 \<Rightarrow> u64"

record ('w, 'm, 'json) token_config =
  tg_rpc_client :: "('w, 'm, 'json) wasm_client"
  tg_fee_payer :: pubkey
  tg_nonce_account :: "pubkey option"
  tg_nonce_authority :: "pubkey option"
  tg_blockhash_query :: blockhash_query
  tg_sign_only :: bool
  tg_dump_transaction_message :: bool
  tg_multisigner_pubkeys :: "pubkey list"
  tg_program_id :: pubkey

abbreviation ids_of :: "('m, 's, 'f) token_tools \<Rightarrow> sdk_ids" where
  "ids_of T \<equiv> ak_ids (tt_ata T)"

abbreviation ata_of :: "('m, 's, 'f) token_tools \<Rightarrow> ('w, 'm, 'json) token_config \<Rightarrow> pubkey \<Rightarrow> pubkey \<Rightarrow> pubkey" where
  "ata_of T G wallet mint_key \<equiv>
     get_associated_token_address_with_program_id (tt_ata T) wallet mint_key (tg_program_id G)"

section \<open>Errors\<close>

datatype token_cli_error =
    TCE_Client client_error
  | TCE_Blockhash blockhash_error
  | TCE_Program program_error
  | TCE_Signing sign_error
  | TCE_FeePayerBalance pubkey u64 u64
  | TCE_WalletBalance pubkey u64 u64
  | TCE_AccountExists pubkey
  | TCE_AuthorityNotForMints v1_authority_type
  | TCE_AuthorityNotForAccounts v1_authority_type
  | TCE_AssociatedAuthority v1_authority_type
  | TCE_UnsupportedData
  | TCE_NoTokenAccount pubkey
  | TCE_ParsePubkey
  | TCE_WrongMint pubkey pubkey
  | TCE_InvalidMint pubkey
  | TCE_SenderBalance pubkey client_error
  | TCE_BalanceParse pubkey
  | TCE_InsufficientFunds bytes
  | TCE_RecipientNotSystemOwned
  | TCE_RecipientNotFunded
  | TCE_UnsupportedRecipient pubkey
  | TCE_NoRecipientAccount
  | TCE_NoWrappedSol bool pubkey
  | TCE_NoDelegate pubkey
  | TCE_NotEmpty pubkey bytes

type_synonym ('w, 'a) token_io = "('w, token_cli_error, 'a) io"

section \<open>Balances\<close>

definition check_fee_payer_balance :: "('w, 'm, 'json) token_config \<Rightarrow> u64 \<Rightarrow> ('w, unit) token_io" where
  "check_fee_payer_balance G required_balance =
     io_bind (io_map_err TCE_Client (get_balance (tg_rpc_client G) (tg_fee_payer G))) (\<lambda>balance.
     if balance < required_balance then io_fail (TCE_FeePayerBalance (tg_fee_payer G) required_balance balance)
     else io_ok ())"

definition check_wallet_balance ::
  "('w, 'm, 'json) token_config \<Rightarrow> pubkey \<Rightarrow> u64 \<Rightarrow> ('w, unit) token_io" where
  "check_wallet_balance G wallet required_balance =
     io_bind (io_map_err TCE_Client (get_balance (tg_rpc_client G) wallet)) (\<lambda>balance.
     if balance < required_balance then io_fail (TCE_WalletBalance wallet required_balance balance)
     else io_ok ())"

section \<open>Handling a transaction\<close>

text \<open>What a command returns: the signature of what it sent, or the partially signed transaction
  of a command that only signs.\<close>

datatype 'm transaction_return_data =
    TR_CliSignature signature | TR_CliSignOnlyData "'m transaction" bool

definition token_message ::
  "('m, 's, 'f) token_tools \<Rightarrow> ('w, 'm, 'json) token_config \<Rightarrow> instruction list \<Rightarrow> ('e, 'm) result" where
  "token_message T G ixs = (case tg_nonce_account G of
      Some nonce_account \<Rightarrow> (case tg_nonce_authority G of
          Some nonce_authority \<Rightarrow>
            Ok (mk_new_with_nonce (tt_sdk T) ixs (Some (tg_fee_payer G)) nonce_account nonce_authority)
        | None \<Rightarrow> Panicked)
    | None \<Rightarrow> Ok (mk_new (tt_sdk T) ixs (Some (tg_fee_payer G))))"

definition handle_tx ::
  "('m, 's, 'f) token_tools \<Rightarrow> 's cli_signer_info \<Rightarrow> ('w, 'm, 'json) token_config \<Rightarrow> bool \<Rightarrow> u64 \<Rightarrow>
   instruction list \<Rightarrow> ('w, 'm transaction_return_data) token_io" where
  "handle_tx T signer_info G no_wait minimum_balance_for_rent_exemption ixs =
     (let C = tg_rpc_client G in
      io_bind (io_lift (token_message T G ixs)) (\<lambda>m.
      io_bind (io_map_err TCE_Blockhash
        (query_get_blockhash C (tg_blockhash_query G) (wc_commitment_config C))) (\<lambda>recent_blockhash.
      io_bind (io_map_err TCE_Client (client_fee_for_message C m)) (\<lambda>fee.
      io_bind (if \<not> tg_sign_only G
        then check_fee_payer_balance G (minimum_balance_for_rent_exemption + fee) else io_ok ()) (\<lambda>_.
      let signers = signers_for_message (tt_sdk T) signer_info m;
          tx = mk_new_unsigned (tt_sdk T) m in
      if tg_sign_only G then
        io_bind (io_lift (map_err TCE_Signing (mk_try_partial_sign (tt_sdk T) signers recent_blockhash tx))) (\<lambda>tx.
        io_ok (TR_CliSignOnlyData tx (tg_dump_transaction_message G)))
      else
        io_bind (io_lift (map_err TCE_Signing (mk_try_sign (tt_sdk T) signers recent_blockhash tx))) (\<lambda>tx.
        io_bind (io_map_err TCE_Client
          (if no_wait then client_send_transaction C tx else send_and_confirm_transaction C tx)) (\<lambda>sig.
        io_ok (TR_CliSignature sig))))))))"

section \<open>Mints\<close>

definition minimum_balance_unless_sign_only ::
  "('w, 'm, 'json) token_config \<Rightarrow> nat \<Rightarrow> ('w, u64) token_io" where
  "minimum_balance_unless_sign_only G len =
     (if \<not> tg_sign_only G then io_map_err TCE_Client (client_minimum_balance (tg_rpc_client G) len)
      else io_ok 0)"

definition existing_token_account ::
  "('w, 'm, 'json) token_config \<Rightarrow> pubkey \<Rightarrow> ('w, 'json ui_token_account) token_io" where
  "existing_token_account G key =
     io_bind (io_map_err TCE_Client (get_token_account (tg_rpc_client G) key)) (\<lambda>a.
     io_lift (ok_or a (TCE_NoTokenAccount key)))"

definition key_from_str ::
  "('w, 'm, 'json) token_config \<Rightarrow> bytes \<Rightarrow> pubkey option" where
  "key_from_str G s = uc_key_from_str (pv_codec (wc_provider (tg_rpc_client G))) s"

definition resolve_mint_info ::
  "('w, 'm, 'json) token_config \<Rightarrow> pubkey \<Rightarrow> pubkey option \<Rightarrow> u8 option \<Rightarrow> ('w, pubkey \<times> u8) token_io" where
  "resolve_mint_info G token_account mint_address mint_decimals =
     (if \<not> tg_sign_only G then
        io_bind (existing_token_account G token_account) (\<lambda>source_account.
        io_bind (io_lift (ok_or (key_from_str G (uto_mint source_account)) TCE_ParsePubkey)) (\<lambda>source_mint.
        case mint_address of
          Some m \<Rightarrow>
            if source_mint \<noteq> m then io_fail (TCE_WrongMint token_account m)
            else io_ok (source_mint, uta_decimals (uto_token_amount source_account))
        | None \<Rightarrow> io_ok (source_mint, uta_decimals (uto_token_amount source_account))))
      else io_ok (case mint_address of Some m \<Rightarrow> m | None \<Rightarrow> 0, case mint_decimals of Some d \<Rightarrow> d | None \<Rightarrow> 0))"

text \<open>Any error of the request, and data that does not unpack, make an invalid mint. A panic of the
  unpacking would be one of the command.\<close>

definition validate_mint ::
  "('m, 's, 'f) token_tools \<Rightarrow> ('w, 'm, 'json) token_config \<Rightarrow> pubkey \<Rightarrow> ('w, unit) token_io" where
  "validate_mint T G token =
     io_bind (io_attempt (client_get_account (tg_rpc_client G) token)) (\<lambda>r.
     case r of
       Inl _ \<Rightarrow> io_fail (TCE_InvalidMint token)
     | Inr a \<Rightarrow> io_bind (io_lift (is_ok (unpack (tt_env T) mint_pack (acct_data a)))) (\<lambda>ok.
         if \<not> ok then io_fail (TCE_InvalidMint token) else io_ok ()))"

end
