(* ===== verification/TokenCli.thy ===== *)
theory TokenCli
  imports TokenCliBase
begin

text \<open>
  The commands of \<open>spl-token-cli\<close> that change something on the chain (\<open>cli.rs\<close>), garbage
  collection apart. Each builds its instructions with the builders of the first token program
  and hands them to \<open>handle_tx\<close>; when signing offline nothing is asked of the server that the
  command line could answer.
\<close>

definition submit ::
  "('m, 's, 'f) token_tools \<Rightarrow> ('w, 'm, 'json) token_config \<Rightarrow> 's list \<Rightarrow> bool \<Rightarrow> u64 \<Rightarrow>
   instruction list \<Rightarrow> ('w, 'm transaction_return_data) token_io" where
  "submit T G bulk_signers no_wait min_balance ixs =
     handle_tx T \<lparr>csi_signers = bulk_signers\<rparr> G no_wait min_balance ixs"

definition memo_ixs :: "('w, 'm, 'json) token_config \<Rightarrow> bytes option \<Rightarrow> instruction list" where
  "memo_ixs G memo = (case memo of Some text \<Rightarrow> [build_memo text [tg_fee_payer G]] | None \<Rightarrow> [])"

definition pe :: "(program_error, 'a) result \<Rightarrow> ('w, 'a) token_io" where
  "pe r = io_lift (map_err TCE_Program r)"

section \<open>Creating\<close>

definition command_create_token ::
  "('m, 's, 'f) token_tools \<Rightarrow> ('w, 'm, 'json) token_config \<Rightarrow> u8 \<Rightarrow> pubkey \<Rightarrow> pubkey \<Rightarrow> bool \<Rightarrow>
   bytes option \<Rightarrow> 's list \<Rightarrow> ('w, 'm transaction_return_data) token_io" where
  "command_create_token T G d token authority enable_freeze memo bulk_signers =
     io_bind (minimum_balance_unless_sign_only G (pk_len mint_pack)) (\<lambda>min_balance.
     io_bind (pe (ix1_initialize_mint (ids_of T) (tg_program_id G) token authority
       (if enable_freeze then Some authority else None) d)) (\<lambda>init.
     submit T G bulk_signers False min_balance
       ([sb_create_account (tt_builders T) (tg_fee_payer G) token min_balance
           (word_of_nat (pk_len mint_pack)) (tg_program_id G), init] @ memo_ixs G memo)))"

definition command_create_account ::
  "('m, 's, 'f) token_tools \<Rightarrow> ('w, 'm, 'json) token_config \<Rightarrow> pubkey \<Rightarrow> pubkey \<Rightarrow> pubkey option \<Rightarrow>
   's list \<Rightarrow> ('w, 'm transaction_return_data) token_io" where
  "command_create_account T G token owner maybe_account bulk_signers =
     (let C = tg_rpc_client G in
      io_bind (minimum_balance_unless_sign_only G (pk_len account_pack)) (\<lambda>min_balance.
      io_bind (case maybe_account of
          Some acc \<Rightarrow>
            io_bind (pe (ix1_initialize_account (ids_of T) (tg_program_id G) acc token owner)) (\<lambda>init.
            io_ok (acc, False, [sb_create_account (tt_builders T) (tg_fee_payer G) acc min_balance
              (word_of_nat (pk_len account_pack)) (tg_program_id G), init]))
        | None \<Rightarrow>
            io_bind (io_lift (create_associated_token_account (tt_ata T) (tg_fee_payer G) owner token
              (tg_program_id G))) (\<lambda>create.
            io_ok (ata_of T G owner token, True, [create]))) (\<lambda>(acc, system_account_ok, ixs).
      io_bind (if \<not> tg_sign_only G then
          io_bind (io_map_err TCE_Client (get_account_with_commitment C acc (wc_commitment_config C))) (\<lambda>existing.
          case existing of
            Some a \<Rightarrow>
              if \<not> (acct_owner a = sid_system_program (ids_of T) \<and> system_account_ok)
              then io_fail (TCE_AccountExists acc) else io_ok ()
          | None \<Rightarrow> io_ok ())
        else io_ok ()) (\<lambda>_.
      submit T G bulk_signers False min_balance ixs))))"

definition command_create_multisig ::
  "('m, 's, 'f) token_tools \<Rightarrow> ('w, 'm, 'json) token_config \<Rightarrow> pubkey \<Rightarrow> u8 \<Rightarrow> pubkey list \<Rightarrow>
   's list \<Rightarrow> ('w, 'm transaction_return_data) token_io" where
  "command_create_multisig T G multisig_key minimum_signers multisig_members bulk_signers =
     io_bind (minimum_balance_unless_sign_only G (pk_len multisig_pack)) (\<lambda>min_balance.
     io_bind (pe (ix1_initialize_multisig (ids_of T) (tg_program_id G) multisig_key multisig_members
       minimum_signers)) (\<lambda>init.
     submit T G bulk_signers False min_balance
       [sb_create_account (tt_builders T) (tg_fee_payer G) multisig_key min_balance
          (word_of_nat (pk_len multisig_pack)) (tg_program_id G), init]))"

section \<open>Authorities\<close>

text \<open>The authority that is about to be replaced, for the display, or why it may not be.\<close>

definition check_associated_token_account ::
  "('m, 's, 'f) token_tools \<Rightarrow> ('w, 'm, 'json) token_config \<Rightarrow> pubkey \<Rightarrow> v1_authority_type \<Rightarrow> pubkey \<Rightarrow>
   pubkey option \<Rightarrow> bool \<Rightarrow> token_account \<Rightarrow> (token_cli_error, unit) result" where
  "check_associated_token_account T G acc authority_type authority new_authority force_authorize a =
     (if acc = ata_of T G (acc_owner a) (acc_mint a) \<and> \<not> force_authorize \<and> Some authority \<noteq> new_authority
      then Fail (TCE_AssociatedAuthority authority_type) else Ok ())"

definition previous_authority ::
  "('m, 's, 'f) token_tools \<Rightarrow> ('w, 'm, 'json) token_config \<Rightarrow> pubkey \<Rightarrow> v1_authority_type \<Rightarrow> pubkey \<Rightarrow>
   pubkey option \<Rightarrow> bool \<Rightarrow> bytes \<Rightarrow> (token_cli_error, pubkey option) result" where
  "previous_authority T G acc authority_type authority new_authority force_authorize data =
     try_bind (attempt (unpack (tt_env T) mint_pack data)) (\<lambda>as_mint.
     case as_mint of
       Inr m \<Rightarrow> (case authority_type of
           AUTH1_AccountOwner \<Rightarrow> Fail (TCE_AuthorityNotForMints authority_type)
         | AUTH1_CloseAccount \<Rightarrow> Fail (TCE_AuthorityNotForMints authority_type)
         | AUTH1_MintTokens \<Rightarrow> Ok (mint_authority m)
         | AUTH1_FreezeAccount \<Rightarrow> Ok (freeze_authority m))
     | Inl _ \<Rightarrow>
         try_bind (attempt (unpack (tt_env T) account_pack data)) (\<lambda>as_account.
         case as_account of
           Inl _ \<Rightarrow> Fail TCE_UnsupportedData
         | Inr a \<Rightarrow> (case authority_type of
               AUTH1_MintTokens \<Rightarrow> Fail (TCE_AuthorityNotForAccounts authority_type)
             | AUTH1_FreezeAccount \<Rightarrow> Fail (TCE_AuthorityNotForAccounts authority_type)
             | AUTH1_AccountOwner \<Rightarrow>
                 try_bind (check_associated_token_account T G acc authority_type authority new_authority
                   force_authorize a) (\<lambda>_. Ok (Some (acc_owner a)))
             | AUTH1_CloseAccount \<Rightarrow>
                 try_bind (check_associated_token_account T G acc authority_type authority new_authority
                   force_authorize a) (\<lambda>_.
                 Ok (Some (case close_authority a of Some c \<Rightarrow> c | None \<Rightarrow> acc_owner a))))))"

definition command_authorize ::
  "('m, 's, 'f) token_tools \<Rightarrow> ('w, 'm, 'json) token_config \<Rightarrow> pubkey \<Rightarrow> v1_authority_type \<Rightarrow> pubkey \<Rightarrow>
   pubkey option \<Rightarrow> bool \<Rightarrow> 's list \<Rightarrow> ('w, 'm transaction_return_data) token_io" where
  "command_authorize T G acc authority_type authority new_authority force_authorize bulk_signers =
     io_bind (if \<not> tg_sign_only G then
         io_bind (io_map_err TCE_Client (client_get_account (tg_rpc_client G) acc)) (\<lambda>target.
         io_lift (previous_authority T G acc authority_type authority new_authority force_authorize (acct_data target)))
       else io_ok None) (\<lambda>_.
     io_bind (pe (ix1_set_authority (tg_program_id G) acc new_authority authority_type authority
       (tg_multisigner_pubkeys G))) (\<lambda>ix.
     submit T G bulk_signers False 0 [ix]))"

section \<open>Transferring\<close>

record 'f token_transfer_args =
  tta_token :: pubkey
  tta_ui_amount :: "'f option"
  tta_recipient :: pubkey
  tta_sender :: "pubkey option"
  tta_sender_owner :: pubkey
  tta_allow_unfunded_recipient :: bool
  tta_fund_recipient :: bool
  tta_mint_decimals :: "u8 option"
  tta_recipient_is_ata_owner :: bool
  tta_use_unchecked_instruction :: bool
  tta_memo :: "bytes option"
  tta_no_wait :: bool
  tta_allow_non_system_account_recipient :: bool

text \<open>How much to transfer: what was asked for, or all, if the sender has it.\<close>

definition resolve_transfer_balance ::
  "('w, 'm, 'json) token_config \<Rightarrow> pubkey \<Rightarrow> u64 option \<Rightarrow> ('w, u64) token_io" where
  "resolve_transfer_balance G sender maybe_transfer_balance =
     (if \<not> tg_sign_only G then
        io_bind (io_map_err (TCE_SenderBalance sender) (get_token_account_balance (tg_rpc_client G) sender)) (\<lambda>b.
        io_bind (io_lift (ok_or (parse_u64 (uta_amount b)) (TCE_BalanceParse sender))) (\<lambda>sender_balance.
        let transfer_balance = (case maybe_transfer_balance of Some x \<Rightarrow> x | None \<Rightarrow> sender_balance) in
        if transfer_balance > sender_balance
        then io_fail (TCE_InsufficientFunds (uta_real_number_string_trimmed b))
        else io_ok transfer_balance))
      else io_lift (case maybe_transfer_balance of Some x \<Rightarrow> Ok x | None \<Rightarrow> Panicked))"

text \<open>Whether the recipient is itself a token account.\<close>

definition recipient_is_token_account ::
  "('m, 's, 'f) token_tools \<Rightarrow> ('w, 'm, 'json) token_config \<Rightarrow> 'f token_transfer_args \<Rightarrow> ('w, bool) token_io" where
  "recipient_is_token_account T G A =
     (if \<not> tg_sign_only G then
        io_bind (io_map_err TCE_Client (get_account_with_commitment (tg_rpc_client G) (tta_recipient A)
          (wc_commitment_config (tg_rpc_client G)))) (\<lambda>info.
        case info of
          Some a \<Rightarrow>
            let is_token_account = (acct_owner a = tg_program_id G \<and> length (acct_data a) = pk_len account_pack);
                is_system_account = (acct_owner a = sid_system_program (ids_of T)) in
            if \<not> is_token_account \<and> \<not> is_system_account \<and> \<not> tta_allow_non_system_account_recipient A
            then io_fail TCE_RecipientNotSystemOwned
            else io_ok is_token_account
        | None \<Rightarrow>
            if \<not> tta_allow_unfunded_recipient A then io_fail TCE_RecipientNotFunded else io_ok False)
      else io_ok (\<not> tta_recipient_is_ata_owner A))"

text \<open>Whether the recipient's associated account has to be created.\<close>

definition needs_funding ::
  "('m, 's, 'f) token_tools \<Rightarrow> ('w, 'm, 'json) token_config \<Rightarrow> 'f token_transfer_args \<Rightarrow> pubkey \<Rightarrow>
   ('w, bool) token_io" where
  "needs_funding T G A recipient_token_account =
     (if \<not> tg_sign_only G then
        io_bind (io_map_err TCE_Client (get_account_with_commitment (tg_rpc_client G) recipient_token_account
          (wc_commitment_config (tg_rpc_client G)))) (\<lambda>existing.
        case existing of
          Some a \<Rightarrow>
            if acct_owner a = sid_system_program (ids_of T) then io_ok True
            else if acct_owner a = tg_program_id G then io_ok False
            else io_fail (TCE_UnsupportedRecipient (tta_recipient A))
        | None \<Rightarrow> io_ok True)
      else io_ok (tta_fund_recipient A))"

text \<open>Where the tokens go, the instructions that create it and the lamports they take.\<close>

definition resolve_recipient ::
  "('m, 's, 'f) token_tools \<Rightarrow> ('w, 'm, 'json) token_config \<Rightarrow> 'f token_transfer_args \<Rightarrow> pubkey \<Rightarrow>
   ('w, pubkey \<times> instruction list \<times> u64) token_io" where
  "resolve_recipient T G A mint_pubkey =
     io_bind (recipient_is_token_account T G A) (\<lambda>is_token_account.
     if is_token_account then io_ok (tta_recipient A, [], 0)
     else
       let recipient_token_account = ata_of T G (tta_recipient A) mint_pubkey in
       io_bind (needs_funding T G A recipient_token_account) (\<lambda>funding.
       if funding then
         (if tta_fund_recipient A then
            io_bind (minimum_balance_unless_sign_only G (pk_len account_pack)) (\<lambda>min_balance.
            io_bind (io_lift (create_associated_token_account (tt_ata T) (tg_fee_payer G) (tta_recipient A)
              mint_pubkey (tg_program_id G))) (\<lambda>create.
            io_ok (recipient_token_account, [create], min_balance)))
          else io_fail TCE_NoRecipientAccount)
       else io_ok (recipient_token_account, [], 0)))"

definition sender_of ::
  "('m, 's, 'f) token_tools \<Rightarrow> ('w, 'm, 'json) token_config \<Rightarrow> 'f token_transfer_args \<Rightarrow> pubkey" where
  "sender_of T G A = (case tta_sender A of
      Some sender \<Rightarrow> sender | None \<Rightarrow> ata_of T G (tta_sender_owner A) (tta_token A))"

definition command_transfer ::
  "('m, 's, 'f) token_tools \<Rightarrow> ('w, 'm, 'json) token_config \<Rightarrow> 'f token_transfer_args \<Rightarrow> 's list \<Rightarrow>
   ('w, 'm transaction_return_data) token_io" where
  "command_transfer T G A bulk_signers =
     (let sender = sender_of T G A in
      io_bind (resolve_mint_info G sender (Some (tta_token A)) (tta_mint_decimals A)) (\<lambda>(mint_pubkey, d).
      io_bind (resolve_transfer_balance G sender
        (map_option (\<lambda>x. tt_ui_amount_to_amount T x d) (tta_ui_amount A))) (\<lambda>transfer_balance.
      io_bind (resolve_recipient T G A mint_pubkey) (\<lambda>(recipient_token_account, ixs, min_balance).
      io_bind (pe (if tta_use_unchecked_instruction A
          then ix1_transfer (tg_program_id G) sender recipient_token_account (tta_sender_owner A)
            (tg_multisigner_pubkeys G) transfer_balance
          else ix1_transfer_checked (tg_program_id G) sender mint_pubkey recipient_token_account (tta_sender_owner A)
            (tg_multisigner_pubkeys G) transfer_balance d)) (\<lambda>ix.
      submit T G bulk_signers (tta_no_wait A) min_balance (ixs @ [ix] @ memo_ixs G (tta_memo A)))))))"

section \<open>Supply\<close>

definition command_burn ::
  "('m, 's, 'f) token_tools \<Rightarrow> ('w, 'm, 'json) token_config \<Rightarrow> pubkey \<Rightarrow> pubkey \<Rightarrow> 'f \<Rightarrow> pubkey option \<Rightarrow>
   u8 option \<Rightarrow> bool \<Rightarrow> bytes option \<Rightarrow> 's list \<Rightarrow> ('w, 'm transaction_return_data) token_io" where
  "command_burn T G source source_owner ui_amount mint_address mint_decimals unchecked memo bulk_signers =
     io_bind (resolve_mint_info G source mint_address mint_decimals) (\<lambda>(mint_pubkey, d).
     let amt = tt_ui_amount_to_amount T ui_amount d in
     io_bind (pe (if unchecked
         then ix1_burn (tg_program_id G) source mint_pubkey source_owner (tg_multisigner_pubkeys G) amt
         else ix1_burn_checked (tg_program_id G) source mint_pubkey source_owner (tg_multisigner_pubkeys G) amt d)) (\<lambda>ix.
     submit T G bulk_signers False 0 (ix # memo_ixs G memo)))"

definition command_mint ::
  "('m, 's, 'f) token_tools \<Rightarrow> ('w, 'm, 'json) token_config \<Rightarrow> pubkey \<Rightarrow> 'f \<Rightarrow> pubkey \<Rightarrow> u8 option \<Rightarrow> pubkey \<Rightarrow>
   bool \<Rightarrow> 's list \<Rightarrow> ('w, 'm transaction_return_data) token_io" where
  "command_mint T G token ui_amount recipient mint_decimals authority unchecked bulk_signers =
     io_bind (resolve_mint_info G recipient None mint_decimals) (\<lambda>(_, d).
     let amt = tt_ui_amount_to_amount T ui_amount d in
     io_bind (pe (if unchecked
         then ix1_mint_to (tg_program_id G) token recipient authority (tg_multisigner_pubkeys G) amt
         else ix1_mint_to_checked (tg_program_id G) token recipient authority (tg_multisigner_pubkeys G) amt d)) (\<lambda>ix.
     submit T G bulk_signers False 0 [ix]))"

section \<open>Freezing\<close>

definition command_freeze ::
  "('m, 's, 'f) token_tools \<Rightarrow> ('w, 'm, 'json) token_config \<Rightarrow> pubkey \<Rightarrow> pubkey option \<Rightarrow> pubkey \<Rightarrow>
   's list \<Rightarrow> ('w, 'm transaction_return_data) token_io" where
  "command_freeze T G acc mint_address authority bulk_signers =
     io_bind (resolve_mint_info G acc mint_address None) (\<lambda>(token, _).
     io_bind (pe (ix1_freeze_account (tg_program_id G) acc token authority (tg_multisigner_pubkeys G))) (\<lambda>ix.
     submit T G bulk_signers False 0 [ix]))"

definition command_thaw ::
  "('m, 's, 'f) token_tools \<Rightarrow> ('w, 'm, 'json) token_config \<Rightarrow> pubkey \<Rightarrow> pubkey option \<Rightarrow> pubkey \<Rightarrow>
   's list \<Rightarrow> ('w, 'm transaction_return_data) token_io" where
  "command_thaw T G acc mint_address authority bulk_signers =
     io_bind (resolve_mint_info G acc mint_address None) (\<lambda>(token, _).
     io_bind (pe (ix1_thaw_account (tg_program_id G) acc token authority (tg_multisigner_pubkeys G))) (\<lambda>ix.
     submit T G bulk_signers False 0 [ix]))"

section \<open>Wrapped lamports\<close>

definition command_wrap ::
  "('m, 's, 'f) token_tools \<Rightarrow> ('w, 'm, 'json) token_config \<Rightarrow> 'f \<Rightarrow> pubkey \<Rightarrow> pubkey option \<Rightarrow>
   's list \<Rightarrow> ('w, 'm transaction_return_data) token_io" where
  "command_wrap T G sol wallet_address wrapped_sol_account bulk_signers =
     (let lams = tt_sol_to_lamports T sol;
          C = tg_rpc_client G in
      io_bind (case wrapped_sol_account of
          Some acc \<Rightarrow>
            io_bind (pe (ix1_initialize_account (ids_of T) (tg_program_id G) acc native_mint_id wallet_address)) (\<lambda>init.
            io_ok [sb_create_account (tt_builders T) wallet_address acc lams (word_of_nat (pk_len account_pack))
              (tg_program_id G), init])
        | None \<Rightarrow>
            let acc = ata_of T G wallet_address native_mint_id in
            io_bind (if \<not> tg_sign_only G then
                io_bind (io_map_err TCE_Client (get_account_with_commitment C acc (wc_commitment_config C))) (\<lambda>existing.
                case existing of
                  Some a \<Rightarrow> if acct_owner a \<noteq> sid_system_program (ids_of T) then io_fail (TCE_AccountExists acc) else io_ok ()
                | None \<Rightarrow> io_ok ())
              else io_ok ()) (\<lambda>_.
            io_bind (io_lift (create_associated_token_account (tt_ata T) (tg_fee_payer G) wallet_address native_mint_id
              (tg_program_id G))) (\<lambda>create.
            io_ok [sb_transfer (tt_builders T) wallet_address acc lams, create]))) (\<lambda>ixs.
      io_bind (if \<not> tg_sign_only G then check_wallet_balance G wallet_address lams else io_ok ()) (\<lambda>_.
      submit T G bulk_signers False 0 ixs)))"

definition command_unwrap ::
  "('m, 's, 'f) token_tools \<Rightarrow> ('w, 'm, 'json) token_config \<Rightarrow> pubkey \<Rightarrow> pubkey option \<Rightarrow>
   's list \<Rightarrow> ('w, 'm transaction_return_data) token_io" where
  "command_unwrap T G wallet_address address bulk_signers =
     (let use_associated_account = (address = None);
          acc = (case address of Some a \<Rightarrow> a | None \<Rightarrow> ata_of T G wallet_address native_mint_id) in
      io_bind (if \<not> tg_sign_only G then
          io_bind (io_map_err TCE_Client (get_balance (tg_rpc_client G) acc)) (\<lambda>lams.
          if lams = 0 then io_fail (TCE_NoWrappedSol use_associated_account acc) else io_ok ())
        else io_ok ()) (\<lambda>_.
      io_bind (pe (ix1_close_account (tg_program_id G) acc wallet_address wallet_address (tg_multisigner_pubkeys G))) (\<lambda>ix.
      submit T G bulk_signers False 0 [ix])))"

definition command_sync_native ::
  "('m, 's, 'f) token_tools \<Rightarrow> ('w, 'm, 'json) token_config \<Rightarrow> pubkey \<Rightarrow> 's list \<Rightarrow>
   ('w, 'm transaction_return_data) token_io" where
  "command_sync_native T G acc bulk_signers =
     io_bind (pe (ix1_sync_native (tg_program_id G) acc)) (\<lambda>ix. submit T G bulk_signers False 0 [ix])"

section \<open>Delegates and closing\<close>

definition command_approve ::
  "('m, 's, 'f) token_tools \<Rightarrow> ('w, 'm, 'json) token_config \<Rightarrow> pubkey \<Rightarrow> pubkey \<Rightarrow> 'f \<Rightarrow> pubkey \<Rightarrow>
   pubkey option \<Rightarrow> u8 option \<Rightarrow> bool \<Rightarrow> 's list \<Rightarrow> ('w, 'm transaction_return_data) token_io" where
  "command_approve T G acc owner ui_amount delegate_key mint_address mint_decimals unchecked bulk_signers =
     io_bind (resolve_mint_info G acc mint_address mint_decimals) (\<lambda>(mint_pubkey, d).
     let amt = tt_ui_amount_to_amount T ui_amount d in
     io_bind (pe (if unchecked
         then ix1_approve (tg_program_id G) acc delegate_key owner (tg_multisigner_pubkeys G) amt
         else ix1_approve_checked (tg_program_id G) acc mint_pubkey delegate_key owner (tg_multisigner_pubkeys G) amt d)) (\<lambda>ix.
     submit T G bulk_signers False 0 [ix]))"

definition command_revoke ::
  "('m, 's, 'f) token_tools \<Rightarrow> ('w, 'm, 'json) token_config \<Rightarrow> pubkey \<Rightarrow> pubkey \<Rightarrow> pubkey option \<Rightarrow>
   's list \<Rightarrow> ('w, 'm transaction_return_data) token_io" where
  "command_revoke T G acc owner delegate_key bulk_signers =
     io_bind (if \<not> tg_sign_only G then
         io_bind (existing_token_account G acc) (\<lambda>source_account.
         case uto_delegate source_account of
           Some s \<Rightarrow> io_lift (try_bind (ok_or (key_from_str G s) TCE_ParsePubkey) (\<lambda>k. Ok (Some k)))
         | None \<Rightarrow> io_ok None)
       else io_ok delegate_key) (\<lambda>delegate_key.
     case delegate_key of
       None \<Rightarrow> io_fail (TCE_NoDelegate acc)
     | Some _ \<Rightarrow>
         io_bind (pe (ix1_revoke (tg_program_id G) acc owner (tg_multisigner_pubkeys G))) (\<lambda>ix.
         submit T G bulk_signers False 0 [ix]))"

definition check_closable ::
  "('w, 'm, 'json) token_config \<Rightarrow> pubkey \<Rightarrow> ('w, unit) token_io" where
  "check_closable G acc =
     io_bind (existing_token_account G acc) (\<lambda>source_account.
     io_bind (io_lift (ok_or (parse_u64 (uta_amount (uto_token_amount source_account))) (TCE_BalanceParse acc))) (\<lambda>source_amount.
     if \<not> uto_is_native source_account \<and> source_amount > 0
     then io_fail (TCE_NotEmpty acc (uta_real_number_string_trimmed (uto_token_amount source_account)))
     else io_ok ()))"

definition command_close ::
  "('m, 's, 'f) token_tools \<Rightarrow> ('w, 'm, 'json) token_config \<Rightarrow> pubkey \<Rightarrow> pubkey \<Rightarrow> pubkey \<Rightarrow>
   's list \<Rightarrow> ('w, 'm transaction_return_data) token_io" where
  "command_close T G acc authority recipient bulk_signers =
     io_bind (if \<not> tg_sign_only G then check_closable G acc else io_ok ()) (\<lambda>_.
     io_bind (pe (ix1_close_account (tg_program_id G) acc recipient authority (tg_multisigner_pubkeys G))) (\<lambda>ix.
     submit T G bulk_signers False 0 [ix]))"

section \<open>Queries\<close>

text \<open>What a query shows is returned; its formatting is output. Any error in reading a balance is
  reported as an account that could not be found.\<close>

definition command_balance ::
  "('w, 'm, 'json) token_config \<Rightarrow> pubkey \<Rightarrow> ('w, 'json ui_token_amount) token_io" where
  "command_balance G address =
     io_map_err (\<lambda>_. TCE_NoTokenAccount address) (get_token_account_balance (tg_rpc_client G) address)"

definition command_supply ::
  "('w, 'm, 'json) token_config \<Rightarrow> pubkey \<Rightarrow> ('w, 'json ui_token_amount) token_io" where
  "command_supply G address = io_map_err TCE_Client (client_get_token_supply (tg_rpc_client G) address)"

definition command_accounts ::
  "('m, 's, 'f) token_tools \<Rightarrow> ('w, 'm, 'json) token_config \<Rightarrow> pubkey option \<Rightarrow> pubkey \<Rightarrow>
   ('w, ('json sorted_accounts \<times> nat) option) token_io" where
  "command_accounts T G token owner =
     io_bind (case token of Some token \<Rightarrow> validate_mint T G token | None \<Rightarrow> io_ok ()) (\<lambda>_.
     io_bind (io_map_err TCE_Client (get_token_accounts_by_owner (tg_rpc_client G) owner
       (case token of Some token \<Rightarrow> TAF_Mint token | None \<Rightarrow> TAF_ProgramId (tg_program_id G)))) (\<lambda>accounts.
     if accounts = [] then io_ok None
     else
       let s = sort_and_parse_token_accounts (wc_provider (tg_rpc_client G)) (tt_ata T) owner accounts (tg_program_id G) in
       io_ok (Some (s, if sa_includes_aux s then 10 else 0))))"

definition command_address ::
  "('m, 's, 'f) token_tools \<Rightarrow> ('w, 'm, 'json) token_config \<Rightarrow> pubkey option \<Rightarrow> pubkey \<Rightarrow>
   ('w, pubkey \<times> pubkey option) token_io" where
  "command_address T G token owner = (case token of
      Some token \<Rightarrow> io_bind (validate_mint T G token) (\<lambda>_. io_ok (owner, Some (ata_of T G owner token)))
    | None \<Rightarrow> io_ok (owner, None))"

definition command_account_info ::
  "('m, 's, 'f) token_tools \<Rightarrow> ('w, 'm, 'json) token_config \<Rightarrow> pubkey \<Rightarrow> ('w, 'json cli_token_account) token_io" where
  "command_account_info T G address =
     io_bind (io_map_err (\<lambda>_. TCE_NoTokenAccount address) (get_token_account (tg_rpc_client G) address)) (\<lambda>a.
     case a of
       None \<Rightarrow> io_lift Panicked
     | Some a \<Rightarrow> (case (key_from_str G (uto_mint a), key_from_str G (uto_owner a)) of
           (Some m, Some owner) \<Rightarrow>
             io_ok \<lparr>cta_address = uc_key_to_string (pv_codec (wc_provider (tg_rpc_client G))) address,
               cta_account = a, cta_is_associated = (ata_of T G owner m = address)\<rparr>
         | _ \<Rightarrow> io_lift Panicked))"

definition token_get_multisig ::
  "('m, 's, 'f) token_tools \<Rightarrow> ('w, 'm, 'json) token_config \<Rightarrow> pubkey \<Rightarrow> ('w, multisig) token_io" where
  "token_get_multisig T G address =
     io_bind (io_map_err TCE_Client (client_get_account (tg_rpc_client G) address)) (\<lambda>a.
     pe (unpack (tt_env T) multisig_pack (acct_data a)))"

definition command_multisig ::
  "('m, 's, 'f) token_tools \<Rightarrow> ('w, 'm, 'json) token_config \<Rightarrow> pubkey \<Rightarrow> ('w, u8 \<times> u8 \<times> pubkey list) token_io" where
  "command_multisig T G address =
     io_bind (token_get_multisig T G address) (\<lambda>m.
     let n = unat (ms_n m) in
     if \<not> n \<le> length (ms_signers m) then io_lift Panicked
     else io_ok (ms_m m, ms_n m, take n (ms_signers m)))"

end
