(* ===== verification/TokenGc.thy ===== *)
theory TokenGc
  imports TokenCli "HOL-Library.AList"
begin

text \<open>
  The garbage collection of \<open>spl-token-cli\<close> (\<open>command_gc\<close> of \<open>cli.rs\<close>): the accounts of an
  owner are grouped by token, what is in auxiliary accounts is moved to the associated one, and
  accounts that are empty then are closed. A \<open>HashMap\<close> is an association list, each key once; the
  order in which it is walked, which the source leaves open, is the argument \<open>order\<close>.
\<close>

section \<open>Tables\<close>

record gc_account =
  gca_amount :: u64
  gca_decimals :: u8
  gca_frozen :: bool
  gca_close_authority :: pubkey

type_synonym gc_accounts = "(pubkey \<times> gc_account) list"
type_synonym gc_table = "(pubkey \<times> gc_accounts) list"

definition parse_or_panic :: "('a \<Rightarrow> 'b option) \<Rightarrow> 'a \<Rightarrow> ('e, 'b) result" where
  "parse_or_panic f s = (case f s of Some x \<Rightarrow> Ok x | None \<Rightarrow> Panicked)"

text \<open>The token, the key and the entry of an account that is listed; any other is passed over.\<close>

definition gc_entry ::
  "('w, 'm, 'json) token_config \<Rightarrow> pubkey \<Rightarrow> 'json rpc_keyed_account \<Rightarrow>
   ('e, (pubkey \<times> pubkey \<times> gc_account) option) result" where
  "gc_entry G owner keyed = (case ui_data (rka_account keyed) of
      UD_Json d \<Rightarrow>
        if pa_program d = spl_token_name then
          (case pv_token_account_type (wc_provider (tg_rpc_client G)) (pa_parsed d) of
            Some (TAT_Account ui) \<Rightarrow>
              try_bind (parse_or_panic (key_from_str G) (uto_mint ui)) (\<lambda>token.
              try_bind (parse_or_panic (key_from_str G) (rka_pubkey keyed)) (\<lambda>token_account.
              try_bind (parse_or_panic parse_u64 (uta_amount (uto_token_amount ui))) (\<lambda>token_amount.
              try_bind (case uto_close_authority ui of
                  Some s \<Rightarrow> parse_or_panic (key_from_str G) s | None \<Rightarrow> Ok owner) (\<lambda>authority.
              Ok (Some (token, token_account,
                \<lparr>gca_amount = token_amount, gca_decimals = uta_decimals (uto_token_amount ui),
                 gca_frozen = (uto_state ui = UAS_Frozen), gca_close_authority = authority\<rparr>))))))
          | _ \<Rightarrow> Ok None)
        else Ok None
    | _ \<Rightarrow> Ok None)"

definition gc_insert :: "pubkey \<Rightarrow> pubkey \<Rightarrow> gc_account \<Rightarrow> gc_table \<Rightarrow> gc_table" where
  "gc_insert token key a table =
     AList.update token (AList.update key a (case map_of table token of Some accs \<Rightarrow> accs | None \<Rightarrow> [])) table"

fun accounts_by_token ::
  "('w, 'm, 'json) token_config \<Rightarrow> pubkey \<Rightarrow> 'json rpc_keyed_account list \<Rightarrow> gc_table \<Rightarrow> ('e, gc_table) result" where
  "accounts_by_token G owner [] table = Ok table"
| "accounts_by_token G owner (keyed # rest) table =
     try_bind (gc_entry G owner keyed) (\<lambda>e.
     accounts_by_token G owner rest (case e of
         Some (token, key, a) \<Rightarrow> gc_insert token key a table | None \<Rightarrow> table))"

section \<open>Instructions\<close>

text \<open>The instructions for one account: none when it is left alone.\<close>

definition gc_account_instructions ::
  "('m, 's, 'f) token_tools \<Rightarrow> ('w, 'm, 'json) token_config \<Rightarrow> pubkey \<Rightarrow> bool \<Rightarrow> pubkey \<Rightarrow> u64 \<Rightarrow>
   pubkey \<times> gc_account \<Rightarrow> (program_error, instruction list) result" where
  "gc_account_instructions T G owner close_empty token total_balance = (\<lambda>(address, a).
     let ata = ata_of T G owner token in
     if address = ata \<and> (total_balance > 0 \<or> \<not> close_empty) then Ok []
     else if gca_frozen a then Ok []
     else if \<not> (gca_amount a = 0 \<or> address \<noteq> ata) then Panicked
     else
       try_bind (if gca_amount a > 0 then
           try_bind (ix1_transfer_checked (tg_program_id G) address token ata owner (tg_multisigner_pubkeys G)
             (gca_amount a) (gca_decimals a)) (\<lambda>ix. Ok [ix])
         else Ok []) (\<lambda>moved.
       try_bind (if gca_close_authority a = owner then
           try_bind (ix1_close_account (tg_program_id G) address owner owner (tg_multisigner_pubkeys G)) (\<lambda>ix. Ok [ix])
         else Ok []) (\<lambda>closed.
       Ok (moved @ closed))))"

fun gc_accounts_instructions ::
  "('m, 's, 'f) token_tools \<Rightarrow> ('w, 'm, 'json) token_config \<Rightarrow> pubkey \<Rightarrow> bool \<Rightarrow> pubkey \<Rightarrow> u64 \<Rightarrow>
   gc_accounts \<Rightarrow> (program_error, instruction list list) result" where
  "gc_accounts_instructions T G owner close_empty token total_balance [] = Ok []"
| "gc_accounts_instructions T G owner close_empty token total_balance (a # as) =
     try_bind (gc_account_instructions T G owner close_empty token total_balance a) (\<lambda>ixs.
     try_bind (gc_accounts_instructions T G owner close_empty token total_balance as) (\<lambda>rest.
     Ok (if ixs \<noteq> [] then ixs # rest else rest)))"

definition gc_total :: "gc_accounts \<Rightarrow> u64" where
  "gc_total accs = sum_list (map (\<lambda>(_, a). gca_amount a) accs)"

definition gc_token_instructions ::
  "('m, 's, 'f) token_tools \<Rightarrow> ('w, 'm, 'json) token_config \<Rightarrow> (gc_accounts \<Rightarrow> gc_accounts) \<Rightarrow> pubkey \<Rightarrow> bool \<Rightarrow> u64 \<Rightarrow>
   pubkey \<times> gc_accounts \<Rightarrow> (program_error, instruction list list \<times> u64) result" where
  "gc_token_instructions T G order owner close_empty min_balance = (\<lambda>(token, accs).
     let ata = ata_of T G owner token;
         total_balance = gc_total accs in
     try_bind (if total_balance > 0 \<and> ata \<notin> fst ` set accs then
         try_bind (create_associated_token_account (tt_ata T) (tg_fee_payer G) owner token (tg_program_id G)) (\<lambda>ix.
         Ok ([[ix]], min_balance))
       else Ok ([], 0)) (\<lambda>(created, needed).
     try_bind (gc_accounts_instructions T G owner close_empty token total_balance (order accs)) (\<lambda>ixs.
     Ok (created @ ixs, needed))))"

fun gc_instructions ::
  "('m, 's, 'f) token_tools \<Rightarrow> ('w, 'm, 'json) token_config \<Rightarrow> (gc_accounts \<Rightarrow> gc_accounts) \<Rightarrow> pubkey \<Rightarrow> bool \<Rightarrow> u64 \<Rightarrow>
   gc_table \<Rightarrow> (program_error, instruction list list \<times> u64) result" where
  "gc_instructions T G order owner close_empty min_balance [] = Ok ([], 0)"
| "gc_instructions T G order owner close_empty min_balance (t # ts) =
     try_bind (gc_token_instructions T G order owner close_empty min_balance t) (\<lambda>(ixs, needed).
     try_bind (gc_instructions T G order owner close_empty min_balance ts) (\<lambda>(rest, more).
     Ok (ixs @ rest, needed + more)))"

definition command_gc ::
  "('m, 's, 'f) token_tools \<Rightarrow> ('w, 'm, 'json) token_config \<Rightarrow> (gc_table \<Rightarrow> gc_table) \<Rightarrow>
   (gc_accounts \<Rightarrow> gc_accounts) \<Rightarrow> pubkey \<Rightarrow> bool \<Rightarrow> 's list \<Rightarrow> ('w, 'm transaction_return_data list) token_io" where
  "command_gc T G order_tokens order owner close_empty bulk_signers =
     io_bind (io_map_err TCE_Client (get_token_accounts_by_owner (tg_rpc_client G) owner
       (TAF_ProgramId (tg_program_id G)))) (\<lambda>accounts.
     if accounts = [] then io_ok []
     else
       io_bind (minimum_balance_unless_sign_only G (pk_len account_pack)) (\<lambda>min_balance.
       io_bind (io_lift (accounts_by_token G owner accounts [])) (\<lambda>table.
       io_bind (pe (gc_instructions T G order owner close_empty min_balance (order_tokens table))) (\<lambda>(groups, lamports_needed).
       io_list (\<lambda>ixs. handle_tx T \<lparr>csi_signers = bulk_signers\<rparr> G False lamports_needed ixs) groups))))"

end
