(* ===== verification/TokenGcLedger.thy ===== *)
theory TokenGcLedger
  imports TokenGc "HOL-Library.Multiset"
begin

text \<open>
  What the garbage collection does to the balances: a ledger of token accounts, on which the
  instructions act as the token program and the associated token program document it, read
  from the bytes that the builders wrote. A frozen account can neither be moved from or to nor
  closed, and only an empty account can be closed.
\<close>

section \<open>The ledger\<close>

type_synonym ledger = "pubkey \<Rightarrow> nat option"

datatype ledger_effect = LE_Create pubkey | LE_Move pubkey pubkey nat | LE_Close pubkey

definition account_key :: "instruction \<Rightarrow> nat \<Rightarrow> pubkey" where
  "account_key ix i = am_pubkey (in_accounts ix ! i)"

definition effect_of :: "instruction \<Rightarrow> ledger_effect option" where
  "effect_of ix =
     (if in_program_id ix = ata_id then Some (LE_Create (account_key ix 1))
      else if in_program_id ix = spl_token_id then
        (case v1_instruction_unpack (in_data ix) of
          Inr (V1_TransferChecked n d) \<Rightarrow> Some (LE_Move (account_key ix 0) (account_key ix 2) (unat n))
        | Inr (V1_Transfer n) \<Rightarrow> Some (LE_Move (account_key ix 0) (account_key ix 1) (unat n))
        | Inr V1_CloseAccount \<Rightarrow> Some (LE_Close (account_key ix 0))
        | _ \<Rightarrow> None)
      else None)"

fun ledger_step :: "pubkey set \<Rightarrow> ledger_effect \<Rightarrow> ledger \<Rightarrow> ledger option" where
  "ledger_step F (LE_Create k) L = (if L k = None then Some (L(k := Some 0)) else None)"
| "ledger_step F (LE_Move a b n) L = (case (L a, L b) of
      (Some x, Some y) \<Rightarrow>
        if n \<le> x \<and> a \<noteq> b \<and> a \<notin> F \<and> b \<notin> F then Some (L(a := Some (x - n), b := Some (y + n))) else None
    | _ \<Rightarrow> None)"
| "ledger_step F (LE_Close k) L = (if L k = Some 0 \<and> k \<notin> F then Some (L(k := None)) else None)"

fun ledger_run :: "pubkey set \<Rightarrow> instruction list \<Rightarrow> ledger \<Rightarrow> ledger option" where
  "ledger_run F [] L = Some L"
| "ledger_run F (ix # ixs) L =
     Option.bind (effect_of ix) (\<lambda>e. Option.bind (ledger_step F e L) (ledger_run F ixs))"

lemma ledger_run_append:
  "ledger_run F (xs @ ys) L = Option.bind (ledger_run F xs L) (ledger_run F ys)"
  by (induction xs arbitrary: L) (auto split: Option.bind_splits)

section \<open>The effects of what is built\<close>

lemma created_effect:
  assumes "create_associated_token_account K funding wallet mint_key pid = Ok ix"
  shows "effect_of ix = Some (LE_Create (get_associated_token_address_with_program_id K wallet mint_key pid))"
  by (simp add: effect_of_def account_key_def created_accounts [OF assms])

lemma v1_close_round [simp]: "v1_instruction_unpack (v1_instruction_pack V1_CloseAccount) = Ok V1_CloseAccount"
  by (simp add: v1_instruction_pack_def v1_instruction_unpack_def v1_split_first_def)

lemma v1_transfer_checked_round [simp]:
  "v1_instruction_unpack (v1_instruction_pack (V1_TransferChecked n d)) = Ok (V1_TransferChecked n d)"
proof -
  have "length (to_le_bytes n) = 8" by (simp add: length_to_le_bytes)
  then show ?thesis
    by (simp add: v1_instruction_pack_def v1_instruction_unpack_def v1_split_first_def v1_amount_decimals_def
        v1_split_amount_def from_to_le_bytes)
qed

lemma ids_differ: "ata_id \<noteq> spl_token_id"
  by (simp add: ata_id_def spl_token_id_def)

lemma transfer_checked_effect:
  assumes "ix1_transfer_checked pid source m dest owner signers n d = Ok ix"
  shows "effect_of ix = Some (LE_Move source dest (unat n))"
  using assms ids_differ
  by (auto simp: ix1_transfer_checked_def v1_check_program_account_def effect_of_def account_key_def ok_simps
      split: if_splits)

lemma v1_transfer_round [simp]:
  "v1_instruction_unpack (v1_instruction_pack (V1_Transfer n)) = Ok (V1_Transfer n)"
  by (simp add: v1_instruction_pack_def v1_instruction_unpack_def v1_split_first_def v1_split_amount_def
      from_to_le_bytes length_to_le_bytes)

lemma transfer_effect:
  assumes "ix1_transfer pid source dest owner signers n = Ok ix"
  shows "effect_of ix = Some (LE_Move source dest (unat n))"
  using assms ids_differ
  by (auto simp: ix1_transfer_def v1_check_program_account_def effect_of_def account_key_def ok_simps
      split: if_splits)

lemma close_effect:
  assumes "ix1_close_account pid a dest owner signers = Ok ix"
  shows "effect_of ix = Some (LE_Close a)"
  using assms ids_differ
  by (auto simp: ix1_close_account_def v1_check_program_account_def effect_of_def account_key_def ok_simps
      split: if_splits)

section \<open>What is expected\<close>

definition gc_sum :: "gc_accounts \<Rightarrow> nat" where
  "gc_sum accs = sum_list (map (\<lambda>(_, a). unat (gca_amount a)) accs)"

text \<open>What the token's associated account ends with: all that is not frozen.\<close>

definition gc_moved :: "pubkey \<Rightarrow> gc_accounts \<Rightarrow> nat" where
  "gc_moved ata accs =
     gc_sum (filter (\<lambda>(k, a). k \<noteq> ata \<and> \<not> gca_frozen a) accs)"

text \<open>What an account that is not an associated one with tokens ends with.\<close>

definition gc_left :: "pubkey \<Rightarrow> bool \<Rightarrow> pubkey \<Rightarrow> bool \<Rightarrow> ledger \<Rightarrow> pubkey \<Rightarrow> gc_account \<Rightarrow> nat option" where
  "gc_left owner close_empty ata any L k a =
     (if k = ata \<and> (any \<or> \<not> close_empty) \<or> gca_frozen a then L k
      else if gca_close_authority a = owner then None else Some 0)"

definition gc_final :: "pubkey \<Rightarrow> bool \<Rightarrow> pubkey \<Rightarrow> bool \<Rightarrow> nat \<Rightarrow> gc_accounts \<Rightarrow> ledger \<Rightarrow> ledger" where
  "gc_final owner close_empty ata any c accs L k =
     (if k = ata \<and> any then Some (c + gc_moved ata accs)
      else case map_of accs k of Some a \<Rightarrow> gc_left owner close_empty ata any L k a | None \<Rightarrow> L k)"

text \<open>The table tells the truth about the ledger; the balance of an associated account that is moved
  to is \<open>c\<close> instead.\<close>

definition gc_entries_ok :: "pubkey set \<Rightarrow> pubkey \<Rightarrow> bool \<Rightarrow> ledger \<Rightarrow> gc_accounts \<Rightarrow> bool" where
  "gc_entries_ok F ata any L accs \<longleftrightarrow>
     (\<forall>(k, a) \<in> set accs. (k = ata \<and> any \<or> L k = Some (unat (gca_amount a))) \<and> (k \<in> F \<longleftrightarrow> gca_frozen a) \<and>
       (any \<or> gca_amount a = 0))"

lemma gc_total_sum: "gc_total accs = word_of_nat (gc_sum accs)"
  by (induction accs) (auto simp: gc_total_def gc_sum_def)

lemma gc_total_positive: "gc_sum accs < 2 ^ 64 \<Longrightarrow> 0 < gc_total accs \<longleftrightarrow> 0 < gc_sum accs"
  by (simp add: gc_total_sum word_less_nat_alt unat_of_nat)

text \<open>One account: what it does to the ledger, when it is neither skipped nor frozen.\<close>

lemma gc_account_effect:
  assumes "gc_account_instructions T G owner close_empty token tot (k, a) = Ok ixs"
    and "ata_of T G owner token = ata"
    and "k = ata \<and> (tot > 0 \<or> \<not> close_empty) \<or> gca_frozen a"
  shows "ixs = []"
  using assms by (auto simp: gc_account_instructions_def Let_def split: if_splits)

lemma gc_account_run:
  assumes ixs: "gc_account_instructions T G owner close_empty token tot (k, a) = Ok ixs"
    and ata: "ata_of T G owner token = ata"
    and live: "\<not> (k = ata \<and> (tot > 0 \<or> \<not> close_empty))" "\<not> gca_frozen a"
    and L: "L k = Some (unat (gca_amount a))" "k \<notin> F" "ata \<notin> F"
    and c: "gca_amount a > 0 \<Longrightarrow> L ata = Some c"
  shows "ledger_run F ixs L =
    Some ((if gca_amount a > 0 then L(ata := Some (c + unat (gca_amount a))) else L)
      (k := if gca_close_authority a = owner then None else Some 0))"
proof -
  have here: "gca_amount a = 0 \<or> k \<noteq> ata"
    using ixs live ata by (auto simp: gc_account_instructions_def Let_def split: if_splits)
  from ixs live ata here obtain moved closed where parts: "ixs = moved @ closed"
    and moved: "(if gca_amount a > 0 then
           try_bind (ix1_transfer_checked (tg_program_id G) k token ata owner (tg_multisigner_pubkeys G)
             (gca_amount a) (gca_decimals a)) (\<lambda>ix. Ok [ix])
         else Ok []) = Ok moved"
    and closed: "(if gca_close_authority a = owner then
           try_bind (ix1_close_account (tg_program_id G) k owner owner (tg_multisigner_pubkeys G)) (\<lambda>ix. Ok [ix])
         else Ok []) = Ok closed"
    by (auto simp: gc_account_instructions_def Let_def ok_simps simp del: word_neq_0_conv split: if_splits)
  let ?L = "(if gca_amount a > 0 then L(ata := Some (c + unat (gca_amount a))) else L)(k := Some 0)"
  have "ledger_run F moved L = Some ?L"
  proof (cases "gca_amount a > 0")
    case True
    with moved obtain ix where ix: "ix1_transfer_checked (tg_program_id G) k token ata owner
        (tg_multisigner_pubkeys G) (gca_amount a) (gca_decimals a) = Ok ix" "moved = [ix]"
      by (auto simp: ok_simps)
    have "k \<noteq> ata" using here True by auto
    with True ix(2) L c show ?thesis
      by (simp add: transfer_checked_effect [OF ix(1)] fun_upd_twist)
  next
    case False
    then have zero: "gca_amount a = 0" by (simp add: word_gt_0)
    then have "L(k := Some 0) = L" using L(1) by (simp add: fun_upd_idem)
    with False moved show ?thesis by simp
  qed
  moreover have "ledger_run F closed ?L = Some (if gca_close_authority a = owner then ?L(k := None) else ?L)"
  proof (cases "gca_close_authority a = owner")
    case True
    with closed obtain ix where ix: "ix1_close_account (tg_program_id G) k owner owner
        (tg_multisigner_pubkeys G) = Ok ix" "closed = [ix]"
      by (auto simp: ok_simps)
    with True L(2) show ?thesis by (simp add: close_effect [OF ix(1)])
  qed (use closed in simp)
  ultimately show ?thesis by (simp add: parts ledger_run_append)
qed

text \<open>The accounts of a token, in the order in which they are walked.\<close>

lemma gc_final_left:
  assumes "k = ata \<and> (any \<or> \<not> close_empty) \<or> gca_frozen a" and "k \<notin> fst ` set accs"
  shows "gc_final owner close_empty ata any c ((k, a) # accs) L = gc_final owner close_empty ata any c accs L"
proof
  fix k'
  have "map_of accs k = None" using assms(2) by (simp add: map_of_eq_None_iff)
  with assms(1) show "gc_final owner close_empty ata any c ((k, a) # accs) L k' =
      gc_final owner close_empty ata any c accs L k'"
    by (auto simp: gc_final_def gc_moved_def gc_sum_def gc_left_def)
qed

lemma gc_final_live:
  assumes "\<not> (k = ata \<and> (any \<or> \<not> close_empty))" "\<not> gca_frozen a" and "k \<notin> fst ` set accs"
    and "any \<or> gca_amount a = 0"
    and "L1 = (if gca_amount a > 0 then L(ata := Some (c + unat (gca_amount a))) else L)
      (k := if gca_close_authority a = owner then None else Some 0)"
  shows "gc_final owner close_empty ata any (c + unat (gca_amount a)) accs L1 =
    gc_final owner close_empty ata any c ((k, a) # accs) L"
proof
  fix k'
  have none: "map_of accs k = None" using assms(3) by (simp add: map_of_eq_None_iff)
  show "gc_final owner close_empty ata any (c + unat (gca_amount a)) accs L1 k' =
      gc_final owner close_empty ata any c ((k, a) # accs) L k'"
  proof (cases "k' = ata \<and> any")
    case True
    with assms(1,2) show ?thesis by (auto simp: gc_final_def gc_moved_def gc_sum_def)
  next
    case False
    then have "k' \<noteq> k \<Longrightarrow> L1 k' = L k'" using assms(4) by (auto simp: assms(5))
    with False assms(1,2) none show ?thesis
      by (cases "k' = k") (auto simp: gc_final_def gc_left_def assms(5) split: option.splits)
  qed
qed

lemma gc_accounts_run:
  assumes ata: "ata_of T G owner token = ata" and frozen: "ata \<notin> F"
    and "gc_accounts_instructions T G owner close_empty token tot accs = Ok groups"
    and "distinct (map fst accs)" and "gc_entries_ok F ata (tot > 0) L accs"
    and "tot > 0 \<Longrightarrow> L ata = Some c"
  shows "ledger_run F (concat groups) L = Some (gc_final owner close_empty ata (tot > 0) c accs L)"
  using assms(3-)
proof (induction accs arbitrary: groups L c)
  case Nil
  then show ?case by (auto simp: gc_final_def gc_moved_def gc_sum_def fun_eq_iff)
next
  case (Cons x accs)
  obtain k a where x: "x = (k, a)" by force
  from Cons.prems(1) obtain ixs rest
    where ixs: "gc_account_instructions T G owner close_empty token tot (k, a) = Ok ixs"
      and rest: "gc_accounts_instructions T G owner close_empty token tot accs = Ok rest"
      and groups: "concat groups = ixs @ concat rest"
    by (auto simp: x ok_simps split: if_splits)
  from Cons.prems(2) have k: "k \<notin> fst ` set accs" and dist: "distinct (map fst accs)" by (auto simp: x)
  from Cons.prems(3) have entries: "gc_entries_ok F ata (tot > 0) L accs" by (simp add: gc_entries_ok_def x)
  show ?case
  proof (cases "k = ata \<and> (tot > 0 \<or> \<not> close_empty) \<or> gca_frozen a")
    case True
    have "ixs = []" by (rule gc_account_effect [OF ixs ata True])
    with Cons.IH [OF rest dist entries Cons.prems(4)] show ?thesis
      by (simp add: groups x gc_final_left [OF True k])
  next
    case False
    then have live: "\<not> (k = ata \<and> (tot > 0 \<or> \<not> close_empty))" "\<not> gca_frozen a" by auto
    from Cons.prems(3) live have L: "L k = Some (unat (gca_amount a))" "k \<notin> F" "tot > 0 \<or> gca_amount a = 0"
      by (auto simp: gc_entries_ok_def x)
    define L1 where "L1 = (if gca_amount a > 0 then L(ata := Some (c + unat (gca_amount a))) else L)
      (k := if gca_close_authority a = owner then None else Some 0)"
    have run: "ledger_run F ixs L = Some L1" unfolding L1_def
      by (rule gc_account_run [where L = L and k = k and F = F, OF ixs ata live L(1,2) frozen])
        (use L(3) Cons.prems(4) in auto)
    have "(k' = ata \<and> tot > 0 \<or> L1 k' = Some (unat (gca_amount b))) \<and> (k' \<in> F \<longleftrightarrow> gca_frozen b) \<and>
        (tot > 0 \<or> gca_amount b = 0)" if kb: "(k', b) \<in> set accs" for k' b
    proof -
      from kb k have "k' \<noteq> k" by force
      moreover from entries kb have "k' = ata \<and> tot > 0 \<or> L k' = Some (unat (gca_amount b))"
          "k' \<in> F \<longleftrightarrow> gca_frozen b" "tot > 0 \<or> gca_amount b = 0"
        by (auto simp: gc_entries_ok_def)
      ultimately show ?thesis using L(3) by (cases "k' = ata") (auto simp: L1_def)
    qed
    then have "gc_entries_ok F ata (tot > 0) L1 accs" by (auto simp: gc_entries_ok_def)
    moreover have "L1 ata = Some (c + unat (gca_amount a))" if "tot > 0"
      using Cons.prems(4) [OF that] live that by (auto simp: L1_def word_gt_0)
    ultimately show ?thesis
      using Cons.IH [OF rest dist, of L1 "c + unat (gca_amount a)"] run
      by (simp add: groups ledger_run_append x gc_final_live [OF live k L(3) L1_def])
  qed
qed

section \<open>Tokens\<close>

definition gc_touched :: "('m, 's, 'f) token_tools \<Rightarrow> ('w, 'm, 'json) token_config \<Rightarrow> pubkey \<Rightarrow> pubkey \<times> gc_accounts \<Rightarrow> pubkey set" where
  "gc_touched T G owner = (\<lambda>(token, accs). insert (ata_of T G owner token) (fst ` set accs))"

text \<open>What is assumed of a token: its accounts are as listed, its associated account is not
  frozen and exists exactly when it is listed, and its tokens are counted by 64 bits.\<close>

definition gc_token_ok ::
  "('m, 's, 'f) token_tools \<Rightarrow> ('w, 'm, 'json) token_config \<Rightarrow> pubkey \<Rightarrow> pubkey set \<Rightarrow> ledger \<Rightarrow>
   pubkey \<times> gc_accounts \<Rightarrow> bool" where
  "gc_token_ok T G owner F L = (\<lambda>(token, accs).
     (\<forall>(k, a) \<in> set accs. L k = Some (unat (gca_amount a)) \<and> (k \<in> F \<longleftrightarrow> gca_frozen a)) \<and>
     ata_of T G owner token \<notin> F \<and>
     (ata_of T G owner token \<notin> fst ` set accs \<longrightarrow> L (ata_of T G owner token) = None) \<and>
     gc_sum accs < 2 ^ 64)"

text \<open>What is expected of it: nothing is frozen and moved, what is not frozen is in the associated
  account, and what the owner may close and is empty is closed.\<close>

definition gc_unfrozen :: "gc_accounts \<Rightarrow> nat" where
  "gc_unfrozen accs = gc_sum (filter (\<lambda>(k, a). \<not> gca_frozen a) accs)"

definition gc_settled ::
  "('m, 's, 'f) token_tools \<Rightarrow> ('w, 'm, 'json) token_config \<Rightarrow> pubkey \<Rightarrow> bool \<Rightarrow> ledger \<Rightarrow> ledger \<Rightarrow>
   pubkey \<times> gc_accounts \<Rightarrow> bool" where
  "gc_settled T G owner close_empty L L' = (\<lambda>(token, accs).
     let ata = ata_of T G owner token in
     (\<forall>(k, a) \<in> set accs. k \<noteq> ata \<longrightarrow>
        L' k = (if gca_frozen a then L k else if gca_close_authority a = owner then None else Some 0)) \<and>
     (if gc_sum accs > 0 then L' ata = Some (gc_unfrozen accs)
      else L' ata = (if close_empty \<and> (\<exists>a. (ata, a) \<in> set accs \<and> gca_close_authority a = owner) then None else L ata)))"

lemma gc_sum_perm: "mset xs = mset ys \<Longrightarrow> gc_sum xs = gc_sum ys"
  by (simp add: gc_sum_def flip: sum_mset_sum_list)

lemma gc_moved_perm: "mset xs = mset ys \<Longrightarrow> gc_moved ata xs = gc_moved ata ys"
  by (simp add: gc_moved_def gc_sum_perm)

lemma map_of_perm:
  assumes "mset xs = mset ys" and "distinct (map fst ys)"
  shows "map_of xs = map_of ys"
proof -
  have "distinct (map fst xs)"
    by (metis assms mset_eq_imp_distinct_iff mset_map)
  with assms show ?thesis by (metis map_of_inject_set mset_eq_setD)
qed

lemma gc_moved_plus:
  assumes "distinct (map fst accs)" "(ata, a) \<in> set accs" "\<not> gca_frozen a"
  shows "gc_unfrozen accs = unat (gca_amount a) + gc_moved ata accs"
  using assms
proof (induction accs)
  case (Cons x accs)
  show ?case
  proof (cases "x = (ata, a)")
    case True
    with Cons.prems have "\<forall>(k, b) \<in> set accs. k \<noteq> ata" by force
    then have "filter (\<lambda>(k, b). k \<noteq> ata \<and> \<not> gca_frozen b) accs = filter (\<lambda>(k, b). \<not> gca_frozen b) accs"
      by (auto intro: filter_cong)
    with True Cons.prems show ?thesis by (simp add: gc_unfrozen_def gc_moved_def gc_sum_def)
  next
    case False
    obtain k b where x: "x = (k, b)" by force
    with False Cons.prems have "(ata, a) \<in> set accs" "distinct (map fst accs)" "k \<noteq> ata"
      by (auto simp: rev_image_eqI)
    with Cons.IH Cons.prems(3) show ?thesis by (simp add: x gc_unfrozen_def gc_moved_def gc_sum_def)
  qed
qed simp

lemma gc_moved_absent: "ata \<notin> fst ` set accs \<Longrightarrow> gc_unfrozen accs = gc_moved ata accs"
proof -
  assume "ata \<notin> fst ` set accs"
  then have "filter (\<lambda>(k, b). k \<noteq> ata \<and> \<not> gca_frozen b) accs = filter (\<lambda>(k, b). \<not> gca_frozen b) accs"
    by (intro filter_cong) force+
  then show ?thesis by (simp add: gc_unfrozen_def gc_moved_def)
qed

lemma gc_created_run:
  assumes "(if any \<and> ata_of T G owner token \<notin> keys then
         try_bind (create_associated_token_account (tt_ata T) (tg_fee_payer G) owner token (tg_program_id G)) (\<lambda>ix.
         Ok ([[ix]], min_balance))
       else Ok ([], 0)) = Ok (created, needed)"
    and "ata_of T G owner token \<notin> keys \<Longrightarrow> L (ata_of T G owner token) = None"
  shows "ledger_run F (concat created) L =
    Some (if any \<and> ata_of T G owner token \<notin> keys then L(ata_of T G owner token := Some 0) else L)"
  using assms by (auto simp: ok_simps created_effect split: if_splits)

lemma gc_settled_final:
  assumes ok: "gc_token_ok T G owner F L (token, accs)" and dist: "distinct (map fst accs)"
    and ata: "ata = ata_of T G owner token" and any: "any \<longleftrightarrow> gc_sum accs > 0"
    and L1: "L1 = (if any \<and> ata \<notin> fst ` set accs then L(ata := Some 0) else L)"
    and c: "c = (case map_of accs ata of Some a \<Rightarrow> unat (gca_amount a) | None \<Rightarrow> 0)"
  shows "gc_settled T G owner close_empty L (gc_final owner close_empty ata any c accs L1) (token, accs)"
proof -
  have left: "gc_final owner close_empty ata any c accs L1 k =
      (if gca_frozen a then L k else if gca_close_authority a = owner then None else Some 0)"
    if "(k, a) \<in> set accs" "k \<noteq> ata" for k a
    using that dist by (simp add: gc_final_def gc_left_def L1 map_of_is_SomeI)
  have unfrozen: "\<not> gca_frozen a \<and> L ata = Some (unat (gca_amount a))" if "(ata, a) \<in> set accs" for a
    using ok that by (auto simp: gc_token_ok_def ata)
  have settled: "gc_settled T G owner close_empty L L' (token, accs) \<longleftrightarrow>
      (\<forall>k a. (k, a) \<in> set accs \<longrightarrow> k \<noteq> ata \<longrightarrow>
        L' k = (if gca_frozen a then L k else if gca_close_authority a = owner then None else Some 0)) \<and>
      (if any then L' ata = Some (gc_unfrozen accs)
       else L' ata = (if close_empty \<and> (\<exists>a. (ata, a) \<in> set accs \<and> gca_close_authority a = owner) then None else L ata))"
    for L'
    unfolding gc_settled_def ata any Let_def prod.case by blast
  show ?thesis
  proof (cases any)
    case True
    have "c + gc_moved ata accs = gc_unfrozen accs"
    proof (cases "map_of accs ata")
      case None
      then have "ata \<notin> fst ` set accs" by (simp add: map_of_eq_None_iff)
      with None show ?thesis by (simp add: c gc_moved_absent)
    next
      case (Some a)
      then have "(ata, a) \<in> set accs" by (rule map_of_SomeD)
      with Some unfrozen gc_moved_plus [OF dist] show ?thesis by (simp add: c)
    qed
    with True have "gc_final owner close_empty ata any c accs L1 ata = Some (gc_unfrozen accs)"
      by (simp add: gc_final_def)
    with True left show ?thesis unfolding settled by simp
  next
    case False
    then have zero: "unat (gca_amount a) = 0" if "(k, a) \<in> set accs" for k a
      using any that by (force simp: gc_sum_def)
    have "gc_final owner close_empty ata any c accs L1 ata =
        (if close_empty \<and> (\<exists>a. (ata, a) \<in> set accs \<and> gca_close_authority a = owner) then None else L ata)"
    proof (cases "map_of accs ata")
      case None
      then have "ata \<notin> fst ` set accs" by (simp add: map_of_eq_None_iff)
      with None False show ?thesis by (force simp: gc_final_def L1)
    next
      case (Some a)
      then have a: "(ata, a) \<in> set accs" by (rule map_of_SomeD)
      have "b = a" if "(ata, b) \<in> set accs" for b using that Some dist by simp
      with a have closable: "(\<exists>b. (ata, b) \<in> set accs \<and> gca_close_authority b = owner) \<longleftrightarrow>
          gca_close_authority a = owner" by blast
      have "L ata = Some 0" using unfrozen [OF a] zero [OF a] by simp
      with Some False unfrozen [OF a] show ?thesis
        unfolding closable by (simp add: gc_final_def gc_left_def L1)
    qed
    with False left show ?thesis unfolding settled by simp
  qed
qed

lemma gc_token_run:
  assumes ixs: "gc_token_instructions T G order owner close_empty min_balance (token, accs) = Ok (groups, needed)"
    and perm: "mset (order accs) = mset accs" and dist: "distinct (map fst accs)"
    and ok: "gc_token_ok T G owner F L (token, accs)"
  shows "\<exists>L'. ledger_run F (concat groups) L = Some L' \<and> gc_settled T G owner close_empty L L' (token, accs) \<and>
    (\<forall>k. k \<notin> gc_touched T G owner (token, accs) \<longrightarrow> L' k = L k)"
proof -
  define ata where "ata = ata_of T G owner token"
  define any where "any \<longleftrightarrow> gc_total accs > 0"
  define L1 where "L1 = (if any \<and> ata \<notin> fst ` set accs then L(ata := Some 0) else L)"
  define c where "c = (case map_of accs ata of Some a \<Rightarrow> unat (gca_amount a) | None \<Rightarrow> 0)"
  have any: "any \<longleftrightarrow> gc_sum accs > 0"
    using ok gc_total_positive by (auto simp: any_def gc_token_ok_def)
  define keys where "keys = fst ` set accs"
  from ixs have "\<exists>created rest.
    (if any \<and> ata_of T G owner token \<notin> keys then
         try_bind (create_associated_token_account (tt_ata T) (tg_fee_payer G) owner token (tg_program_id G)) (\<lambda>ix.
         Ok ([[ix]], min_balance))
       else Ok ([], 0)) = (Ok (created, needed) :: (program_error, instruction list list \<times> u64) result) \<and>
    gc_accounts_instructions T G owner close_empty token (gc_total accs) (order accs) = Ok rest \<and>
    groups = created @ rest"
    by (auto simp: gc_token_instructions_def Let_def ok_simps any_def simp flip: keys_def)
  then obtain created rest where
    created: "(if any \<and> ata_of T G owner token \<notin> keys then
         try_bind (create_associated_token_account (tt_ata T) (tg_fee_payer G) owner token (tg_program_id G)) (\<lambda>ix.
         Ok ([[ix]], min_balance))
       else Ok ([], 0)) = (Ok (created, needed) :: (program_error, instruction list list \<times> u64) result)"
    and rest: "gc_accounts_instructions T G owner close_empty token (gc_total accs) (order accs) = Ok rest"
    and groups: "groups = created @ rest"
    by blast
  have run1: "ledger_run F (concat created) L = Some L1"
    using gc_created_run [OF created, of L F] ok by (simp add: L1_def ata_def gc_token_ok_def keys_def)
  have set: "set (order accs) = set accs" using perm by (metis mset_eq_setD)
  have mapo: "map_of (order accs) = map_of accs" by (rule map_of_perm [OF perm dist])
  have disto: "distinct (map fst (order accs))" by (metis perm dist mset_eq_imp_distinct_iff mset_map)
  have entries: "gc_entries_ok F ata any L1 (order accs)"
    unfolding gc_entries_ok_def set
  proof clarify
    fix k a assume ka: "(k, a) \<in> set accs"
    then have "L k = Some (unat (gca_amount a)) \<and> (k \<in> F \<longleftrightarrow> gca_frozen a)"
      using ok by (auto simp: gc_token_ok_def)
    moreover have "any \<or> gca_amount a = 0"
      using ka any by (force simp: gc_sum_def unat_eq_zero)
    moreover have "k = ata \<and> any \<or> L1 k = L k" by (auto simp: L1_def)
    ultimately show "(k = ata \<and> any \<or> L1 k = Some (unat (gca_amount a))) \<and> (k \<in> F) = gca_frozen a \<and>
        (any \<or> gca_amount a = 0)" by auto
  qed
  have alive: "L1 ata = Some c" if any
  proof (cases "map_of accs ata")
    case None
    then have "ata \<notin> fst ` set accs" by (simp add: map_of_eq_None_iff)
    with None that show ?thesis by (simp add: L1_def c_def)
  next
    case (Some a)
    then have "(ata, a) \<in> set accs" by (rule map_of_SomeD)
    with Some ok show ?thesis by (force simp: L1_def c_def gc_token_ok_def)
  qed
  let ?L = "gc_final owner close_empty ata any c (order accs) L1"
  have L': "?L = gc_final owner close_empty ata any c accs L1"
    by (simp add: gc_final_def fun_eq_iff mapo gc_moved_perm [OF perm])
  have "ata \<notin> F" using ok by (simp add: gc_token_ok_def ata_def)
  from gc_accounts_run [where L = L1 and c = c, OF ata_def [symmetric] this rest disto entries [unfolded any_def]] alive
  have "ledger_run F (concat rest) L1 = Some ?L" by (simp add: any_def)
  with run1 have "ledger_run F (concat groups) L = Some ?L" by (simp add: groups ledger_run_append)
  moreover have "gc_settled T G owner close_empty L ?L (token, accs)"
    unfolding L' by (rule gc_settled_final [OF ok dist ata_def any L1_def c_def])
  moreover have "?L k = L k" if "k \<notin> gc_touched T G owner (token, accs)" for k
  proof -
    from that have "k \<noteq> ata" "map_of accs k = None" by (auto simp: gc_touched_def ata_def map_of_eq_None_iff)
    then show ?thesis by (simp only: L' gc_final_def) (simp add: L1_def)
  qed
  ultimately show ?thesis by blast
qed

section \<open>All tokens\<close>

lemma gc_token_ok_cong:
  assumes "\<And>k. k \<in> gc_touched T G owner t \<Longrightarrow> M k = L k"
  shows "gc_token_ok T G owner F M t \<longleftrightarrow> gc_token_ok T G owner F L t"
proof -
  obtain token accs where t: "t = (token, accs)" by force
  have "M k = L k" if "(k, a) \<in> set accs" for k a
    by (rule assms) (use that in \<open>force simp: t gc_touched_def\<close>)
  moreover have "M (ata_of T G owner token) = L (ata_of T G owner token)"
    using assms by (simp add: t gc_touched_def)
  ultimately show ?thesis unfolding t gc_token_ok_def prod.case by (metis (no_types, lifting) case_prodD case_prodI2)
qed

lemma gc_settled_cong:
  assumes "\<And>k. k \<in> gc_touched T G owner t \<Longrightarrow> M k = L k \<and> M' k = L' k"
  shows "gc_settled T G owner close_empty M M' t \<longleftrightarrow> gc_settled T G owner close_empty L L' t"
proof -
  obtain token accs where t: "t = (token, accs)" by force
  have "M k = L k \<and> M' k = L' k" if "(k, a) \<in> set accs" for k a
    by (rule assms) (use that in \<open>force simp: t gc_touched_def\<close>)
  then have "(\<forall>(k, a) \<in> set accs. k \<noteq> ata_of T G owner token \<longrightarrow>
        M' k = (if gca_frozen a then M k else if gca_close_authority a = owner then None else Some 0)) \<longleftrightarrow>
      (\<forall>(k, a) \<in> set accs. k \<noteq> ata_of T G owner token \<longrightarrow>
        L' k = (if gca_frozen a then L k else if gca_close_authority a = owner then None else Some 0))"
    by (intro ball_cong) auto
  moreover have "M (ata_of T G owner token) = L (ata_of T G owner token)"
      "M' (ata_of T G owner token) = L' (ata_of T G owner token)"
    using assms by (simp_all add: t gc_touched_def)
  ultimately show ?thesis by (simp only: t gc_settled_def prod.case Let_def)
qed

lemma gc_tokens_run:
  assumes "gc_instructions T G order owner close_empty min_balance ts = Ok (groups, needed)"
    and order: "\<And>accs. mset (order accs) = mset accs"
    and "distinct ts" and "\<forall>t \<in> set ts. distinct (map fst (snd t)) \<and> gc_token_ok T G owner F L t"
    and "\<forall>t \<in> set ts. \<forall>u \<in> set ts. t \<noteq> u \<longrightarrow> gc_touched T G owner t \<inter> gc_touched T G owner u = {}"
  shows "\<exists>L'. ledger_run F (concat groups) L = Some L' \<and>
    (\<forall>t \<in> set ts. gc_settled T G owner close_empty L L' t) \<and>
    (\<forall>k. (\<forall>t \<in> set ts. k \<notin> gc_touched T G owner t) \<longrightarrow> L' k = L k)"
  using assms(1,3-)
proof (induction ts arbitrary: groups needed L)
  case (Cons t ts)
  obtain token accs where t: "t = (token, accs)" by force
  from Cons.prems(1) obtain first n1 rest n2
    where first: "gc_token_instructions T G order owner close_empty min_balance (token, accs) = Ok (first, n1)"
      and rest: "gc_instructions T G order owner close_empty min_balance ts = Ok (rest, n2)"
      and groups: "concat groups = concat first @ concat rest"
    by (auto simp: ok_simps t)
  have "distinct (map fst accs)" "gc_token_ok T G owner F L (token, accs)"
    using Cons.prems(3) by (auto simp: t)
  from gc_token_run [OF first order this] obtain L1
    where L1: "ledger_run F (concat first) L = Some L1" "gc_settled T G owner close_empty L L1 t"
      "\<And>k. k \<notin> gc_touched T G owner t \<Longrightarrow> L1 k = L k" by (auto simp: t)
  have apart: "k \<notin> gc_touched T G owner t" if "u \<in> set ts" "k \<in> gc_touched T G owner u" for u k
    using Cons.prems(2,4) that by (auto simp: disjoint_iff)
  have same: "L1 k = L k" if "u \<in> set ts" "k \<in> gc_touched T G owner u" for u k
    using apart [OF that] by (rule L1(3))
  have oks: "\<forall>u \<in> set ts. distinct (map fst (snd u)) \<and> gc_token_ok T G owner F L1 u"
  proof
    fix u assume u: "u \<in> set ts"
    have "gc_token_ok T G owner F L1 u \<longleftrightarrow> gc_token_ok T G owner F L u"
      by (rule gc_token_ok_cong) (rule same [OF u])
    with Cons.prems(3) u show "distinct (map fst (snd u)) \<and> gc_token_ok T G owner F L1 u" by simp
  qed
  have ts: "distinct ts"
      "\<forall>t \<in> set ts. \<forall>u \<in> set ts. t \<noteq> u \<longrightarrow> gc_touched T G owner t \<inter> gc_touched T G owner u = {}"
    using Cons.prems(2,4) by auto
  from Cons.IH [OF rest ts(1) oks ts(2)] obtain L'
    where L': "ledger_run F (concat rest) L1 = Some L'"
      "\<forall>u \<in> set ts. gc_settled T G owner close_empty L1 L' u"
      "\<forall>k. (\<forall>u \<in> set ts. k \<notin> gc_touched T G owner u) \<longrightarrow> L' k = L1 k"
    by blast
  have "gc_settled T G owner close_empty L L' u" if u: "u \<in> set ts" for u
    using L'(2) u gc_settled_cong [where L = L and M = L1 and L' = L' and M' = L' and t = u] same [OF u]
    by metis
  moreover have "gc_settled T G owner close_empty L L' t"
  proof -
    have "L' k = L1 k" if "k \<in> gc_touched T G owner t" for k
      using that L'(3) apart by blast
    then show ?thesis
      using L1(2) gc_settled_cong [where L = L and M = L and L' = L1 and M' = L' and t = t] by metis
  qed
  ultimately have "\<forall>u \<in> set (t # ts). gc_settled T G owner close_empty L L' u" by simp
  moreover have "ledger_run F (concat groups) L = Some L'"
    by (simp add: groups ledger_run_append L1(1) L'(1))
  moreover have "\<forall>k. (\<forall>u \<in> set (t # ts). k \<notin> gc_touched T G owner u) \<longrightarrow> L' k = L k"
    using L'(3) L1(3) by simp
  ultimately show ?case by blast
qed simp

section \<open>The table\<close>

definition gc_table_wf :: "gc_table \<Rightarrow> bool" where
  "gc_table_wf table \<longleftrightarrow> distinct (map fst table) \<and> (\<forall>t \<in> set table. distinct (map fst (snd t)))"

lemma set_alist_update: "set (AList.update k v xs) \<subseteq> insert (k, v) (set xs)"
  by (induction xs) auto

lemma gc_insert_wf: "gc_table_wf table \<Longrightarrow> gc_table_wf (gc_insert token key a table)"
proof -
  assume wf: "gc_table_wf table"
  let ?accs = "case map_of table token of Some accs \<Rightarrow> accs | None \<Rightarrow> []"
  have "distinct (map fst ?accs)"
    using wf by (force simp: gc_table_wf_def split: option.split dest: map_of_SomeD)
  then have "distinct (map fst (AList.update key a ?accs))" by (rule AList.distinct_update)
  moreover have "distinct (map fst (gc_insert token key a table))"
    using wf unfolding gc_insert_def gc_table_wf_def by (simp add: AList.distinct_update)
  moreover have "set (gc_insert token key a table) \<subseteq> insert (token, AList.update key a ?accs) (set table)"
    unfolding gc_insert_def by (rule set_alist_update)
  ultimately show ?thesis using wf unfolding gc_table_wf_def by (metis (no_types, lifting) insertE snd_conv subsetD)
qed

lemma accounts_by_token_wf:
  "accounts_by_token G owner xs table = (Ok table' :: ('e, gc_table) result) \<Longrightarrow> gc_table_wf table \<Longrightarrow> gc_table_wf table'"
proof (induction xs arbitrary: table)
  case (Cons keyed rest)
  from Cons.prems(1) have "\<exists>e. accounts_by_token G owner rest
      (case e of Some (token, key, a) \<Rightarrow> gc_insert token key a table | None \<Rightarrow> table) = (Ok table' :: ('e, gc_table) result)"
    by (simp only: accounts_by_token.simps ok_simps) blast
  then obtain e where "accounts_by_token G owner rest
      (case e of Some (token, key, a) \<Rightarrow> gc_insert token key a table | None \<Rightarrow> table) = (Ok table' :: ('e, gc_table) result)" by blast
  then show ?case
    by (rule Cons.IH) (use Cons.prems(2) in \<open>auto simp: gc_insert_wf split: option.split\<close>)
qed simp

end
