(* ===== verification/TokenCliProperties.thy ===== *)
theory TokenCliProperties
  imports TokenGcLedger CliProperties TokenExamples
begin

text \<open>
  What the commands of \<open>spl-token-cli\<close> guarantee, with example configurations.
\<close>

section \<open>Transfers\<close>

text \<open>The decimals of a token: those of the sending account as the server shows it, which must be of
  that token, or, when the command only signs, those given with it (zero when none are).\<close>

definition decimals_of ::
  "('w, 'm, 'json) token_config \<Rightarrow> pubkey \<Rightarrow> pubkey \<Rightarrow> u8 option \<Rightarrow> 'w \<Rightarrow> u8 \<Rightarrow> bool" where
  "decimals_of G sender token given w d \<longleftrightarrow>
     (if tg_sign_only G then d = (case given of Some d \<Rightarrow> d | None \<Rightarrow> 0)
      else \<exists>acc w1. existing_token_account G sender w = (Inr acc, w1) \<and>
        key_from_str G (uto_mint acc) = Some token \<and> d = uta_decimals (uto_token_amount acc))"

lemma resolved_mint:
  "resolve_mint_info G key (Some token) given w = (Inr (m, d), w') \<Longrightarrow>
     m = token \<and> decimals_of G key token given w d"
  by (auto simp: resolve_mint_info_def decimals_of_def ok_simps Let_def split: if_splits option.splits)

lemma resolved_balance:
  assumes "resolve_transfer_balance G sender asked w = (Inr amt, w')"
  shows "(case asked of Some x \<Rightarrow> amt = x | None \<Rightarrow> \<not> tg_sign_only G)"
    and "\<not> tg_sign_only G \<Longrightarrow> \<exists>b balance v v'.
      get_token_account_balance (tg_rpc_client G) sender v = (Inr b, v') \<and>
      parse_u64 (uta_amount b) = Some balance \<and> amt \<le> balance \<and> (asked = None \<longrightarrow> amt = balance)"
  using assms
  by (auto simp: resolve_transfer_balance_def ok_simps Let_def not_less split: if_splits option.splits)

lemma resolved_recipient:
  assumes "resolve_recipient T G A m w = (Inr (dest, prep, min_balance), w')"
  shows "dest = tta_recipient A \<and> prep = [] \<and> (\<exists>v v'. recipient_is_token_account T G A v = (Inr True, v')) \<or>
    dest = ata_of T G (tta_recipient A) m \<and> (\<exists>v v'. recipient_is_token_account T G A v = (Inr False, v')) \<and>
      (prep = [] \<or> tta_fund_recipient A \<and> (\<exists>c. prep = [c] \<and> effect_of c = Some (LE_Create dest)))"
proof -
  from assms obtain b v where t: "recipient_is_token_account T G A w = (Inr b, v)"
    unfolding resolve_recipient_def io_bind_eq_Ok by blast
  show ?thesis
  proof (cases b)
    case True
    with assms t have "dest = tta_recipient A \<and> prep = []" by (simp add: resolve_recipient_def io_bind_Ok)
    moreover have "recipient_is_token_account T G A w = (Inr True, v)" using t True by simp
    ultimately show ?thesis by blast
  next
    case False
    with assms t have "dest = ata_of T G (tta_recipient A) m \<and>
      (prep = [] \<or> tta_fund_recipient A \<and> (\<exists>c. prep = [c] \<and> effect_of c = Some (LE_Create dest)))"
      by (auto simp: resolve_recipient_def ok_simps Let_def created_effect split: if_splits)
    moreover have "recipient_is_token_account T G A w = (Inr False, v)" using t False by simp
    ultimately show ?thesis by blast
  qed
qed

text \<open>C11: a transfer of tokens that the command makes submits one instruction of the token program
  that moves the amount asked for, or all, from the sender to the recipient, when that is a token
  account, or else to its associated account, which is created only when the command is to fund the
  recipient. The amount asked for is scaled by the decimals of the token, which a checked transfer
  carries with the token itself: the decimals the server shows for the sending account, which must be
  one of that token, or, when the command only signs, those it was given. Unless it only signs, the
  amount is within the balance that the server reported, and transferring all is that balance.\<close>

theorem token_transfer_covered:
  assumes "command_transfer T G A signers w = (Inr r, w')"
  shows "\<exists>amt d dest prep ix min_balance v.
    handle_tx T \<lparr>csi_signers = signers\<rparr> G (tta_no_wait A) min_balance (prep @ [ix] @ memo_ixs G (tta_memo A)) v =
      (Inr r, w') \<and>
    (if tta_use_unchecked_instruction A
     then ix1_transfer (tg_program_id G) (sender_of T G A) dest (tta_sender_owner A)
       (tg_multisigner_pubkeys G) amt
     else ix1_transfer_checked (tg_program_id G) (sender_of T G A) (tta_token A) dest (tta_sender_owner A)
       (tg_multisigner_pubkeys G) amt d) = Ok ix \<and>
    effect_of ix = Some (LE_Move (sender_of T G A) dest (unat amt)) \<and>
    (dest = tta_recipient A \<and> prep = [] \<and> (\<exists>v v'. recipient_is_token_account T G A v = (Inr True, v')) \<or>
     dest = ata_of T G (tta_recipient A) (tta_token A) \<and>
       (\<exists>v v'. recipient_is_token_account T G A v = (Inr False, v')) \<and>
       (prep = [] \<or> tta_fund_recipient A \<and> (\<exists>c. prep = [c] \<and> effect_of c = Some (LE_Create dest)))) \<and>
    decimals_of G (sender_of T G A) (tta_token A) (tta_mint_decimals A) w d \<and>
    (case tta_ui_amount A of Some u \<Rightarrow> amt = tt_ui_amount_to_amount T u d | None \<Rightarrow> \<not> tg_sign_only G) \<and>
    (tg_sign_only G \<or> (\<exists>b balance v v'.
      get_token_account_balance (tg_rpc_client G) (sender_of T G A) v = (Inr b, v') \<and>
      parse_u64 (uta_amount b) = Some balance \<and> amt \<le> balance \<and> (tta_ui_amount A = None \<longrightarrow> amt = balance)))"
proof -
  from assms obtain m d w1 amt w2 dest prep min_balance w3 ix
    where mint: "resolve_mint_info G (sender_of T G A) (Some (tta_token A)) (tta_mint_decimals A) w = (Inr (m, d), w1)"
    and amount: "resolve_transfer_balance G (sender_of T G A)
        (map_option (\<lambda>x. tt_ui_amount_to_amount T x d) (tta_ui_amount A)) w1 = (Inr amt, w2)"
    and recipient: "resolve_recipient T G A m w2 = (Inr (dest, prep, min_balance), w3)"
    and ix: "(if tta_use_unchecked_instruction A
          then ix1_transfer (tg_program_id G) (sender_of T G A) dest (tta_sender_owner A)
            (tg_multisigner_pubkeys G) amt
          else ix1_transfer_checked (tg_program_id G) (sender_of T G A) m dest (tta_sender_owner A)
            (tg_multisigner_pubkeys G) amt d) = Ok ix"
    and submit: "submit T G signers (tta_no_wait A) min_balance (prep @ [ix] @ memo_ixs G (tta_memo A)) w3 = (Inr r, w')"
    unfolding command_transfer_def Let_def pe_def
    by (auto simp: ok_simps)
  from resolved_mint [OF mint] have m: "m = tta_token A"
    and decimals: "decimals_of G (sender_of T G A) (tta_token A) (tta_mint_decimals A) w d" by auto
  have effect: "effect_of ix = Some (LE_Move (sender_of T G A) dest (unat amt))"
    using ix by (auto simp: transfer_effect transfer_checked_effect split: if_splits)
  have asked: "case tta_ui_amount A of Some u \<Rightarrow> amt = tt_ui_amount_to_amount T u d | None \<Rightarrow> \<not> tg_sign_only G"
    using resolved_balance(1) [OF amount] by (cases "tta_ui_amount A") auto
  have covered: "tg_sign_only G \<or> (\<exists>b balance v v'.
      get_token_account_balance (tg_rpc_client G) (sender_of T G A) v = (Inr b, v') \<and>
      parse_u64 (uta_amount b) = Some balance \<and> amt \<le> balance \<and> (tta_ui_amount A = None \<longrightarrow> amt = balance))"
    using resolved_balance(2) [OF amount] by auto
  have handled: "handle_tx T \<lparr>csi_signers = signers\<rparr> G (tta_no_wait A) min_balance
      (prep @ [ix] @ memo_ixs G (tta_memo A)) w3 = (Inr r, w')"
    using submit by (simp add: submit_def)
  show ?thesis
    by (intro exI conjI)
      (rule handled ix [unfolded m] effect resolved_recipient [OF recipient, unfolded m] decimals asked covered)+
qed

section \<open>Offline signing\<close>

text \<open>The same client with another way of sending transactions.\<close>

definition with_send ::
  "('w, 'm, 'json) token_config \<Rightarrow> ('m transaction \<Rightarrow> rpc_send_transaction_config \<Rightarrow> ('w, client_error, signature) io) \<Rightarrow>
   ('w, 'm, 'json) token_config" where
  "with_send G send = G\<lparr>tg_rpc_client := (tg_rpc_client G)\<lparr>wc_provider :=
     (wc_provider (tg_rpc_client G))\<lparr>pv_send_transaction := send\<rparr>\<rparr>\<rparr>"

lemma with_send_simps [simp]:
  "tg_sign_only (with_send G send) = tg_sign_only G" "tg_fee_payer (with_send G send) = tg_fee_payer G"
  "tg_blockhash_query (with_send G send) = tg_blockhash_query G"
  "tg_dump_transaction_message (with_send G send) = tg_dump_transaction_message G"
  "token_message T (with_send G send) ixs = token_message T G ixs"
  "wc_commitment_config (tg_rpc_client (with_send G send)) = wc_commitment_config (tg_rpc_client G)"
  "client_fee_for_message (tg_rpc_client (with_send G send)) = client_fee_for_message (tg_rpc_client G)"
  by (auto simp: with_send_def token_message_def client_fee_for_message_def fun_eq_iff split: option.splits)

lemma with_send_account [simp]:
  "get_account_with_config (tg_rpc_client (with_send G send)) k c = get_account_with_config (tg_rpc_client G) k c"
  by (simp add: with_send_def get_account_with_config_def cong: option.case_cong)

lemma with_send_data [simp]:
  "data_from_account (wc_provider (tg_rpc_client (with_send G send))) a =
   data_from_account (wc_provider (tg_rpc_client G)) a"
  by (simp add: with_send_def data_from_account_def state_from_account_def account_identity_ok_def)

lemma with_send_sources [simp]:
  "source_get_blockhash (tg_rpc_client (with_send G send)) s c = source_get_blockhash (tg_rpc_client G) s c"
  "source_is_blockhash_valid (tg_rpc_client (with_send G send)) s h c = source_is_blockhash_valid (tg_rpc_client G) s h c"
proof -
  have "account_identity_ok (wc_provider (tg_rpc_client (with_send G send))) = account_identity_ok (wc_provider (tg_rpc_client G))"
    by (simp add: with_send_def account_identity_ok_def fun_eq_iff)
  then have account: "nonce_get_account_with_commitment (tg_rpc_client (with_send G send)) k c =
      nonce_get_account_with_commitment (tg_rpc_client G) k c" for k
    by (simp add: nonce_get_account_with_commitment_def cong: option.case_cong)
  have latest: "get_latest_blockhash_with_config (tg_rpc_client (with_send G send)) c =
      get_latest_blockhash_with_config (tg_rpc_client G) c"
    by (simp add: with_send_def get_latest_blockhash_with_config_def)
  have valid: "client_is_blockhash_valid (tg_rpc_client (with_send G send)) h c =
      client_is_blockhash_valid (tg_rpc_client G) h c"
    by (simp add: with_send_def client_is_blockhash_valid_def)
  show "source_get_blockhash (tg_rpc_client (with_send G send)) s c = source_get_blockhash (tg_rpc_client G) s c"
    by (cases s) (simp_all add: source_get_blockhash_def account latest)
  show "source_is_blockhash_valid (tg_rpc_client (with_send G send)) s h c = source_is_blockhash_valid (tg_rpc_client G) s h c"
    by (cases s) (simp_all add: source_is_blockhash_valid_def account valid)
qed

lemma with_send_blockhash [simp]:
  "query_get_blockhash (tg_rpc_client (with_send G send)) q c = query_get_blockhash (tg_rpc_client G) q c"
  by (cases q) (simp_all add: query_get_blockhash_def)

lemma balance_checked:
  "check_fee_payer_balance G required w = (Inr u, w') \<Longrightarrow>
   \<exists>balance. get_balance (tg_rpc_client G) (tg_fee_payer G) w = (Inr balance, w') \<and> required \<le> balance"
  by (auto simp: check_fee_payer_balance_def ok_simps not_less split: if_splits)

text \<open>C38: a command that only signs never sends: whatever sending would do, what it does and returns is
  the same. A command that succeeds without being told to only sign has seen a balance of the fee
  payer that covers the fee and the rent it asked for, and returns a signature.\<close>

theorem only_signing_never_sends:
  "(tg_sign_only G \<longrightarrow> handle_tx T I (with_send G send) no_wait rent ixs w = handle_tx T I G no_wait rent ixs w) \<and>
   (handle_tx T I G no_wait rent ixs w = (Inr r, w') \<longrightarrow>
     (if tg_sign_only G then \<exists>tx. r = TR_CliSignOnlyData tx (tg_dump_transaction_message G)
      else (\<exists>sig. r = TR_CliSignature sig) \<and>
        (\<exists>m fee balance v v1 v2. token_message T G ixs = (Ok m :: (token_cli_error, _) result) \<and>
          client_fee_for_message (tg_rpc_client G) m v = (Inr fee, v1) \<and>
          get_balance (tg_rpc_client G) (tg_fee_payer G) v1 = (Inr balance, v2) \<and> rent + fee \<le> balance)))"
proof (intro conjI impI)
  assume "tg_sign_only G"
  then show "handle_tx T I (with_send G send) no_wait rent ixs w = handle_tx T I G no_wait rent ixs w"
    by (simp add: handle_tx_def Let_def)
next
  assume ok: "handle_tx T I G no_wait rent ixs w = (Inr r, w')"
  show "if tg_sign_only G then \<exists>tx. r = TR_CliSignOnlyData tx (tg_dump_transaction_message G)
      else (\<exists>sig. r = TR_CliSignature sig) \<and>
        (\<exists>m fee balance v v1 v2. token_message T G ixs = (Ok m :: (token_cli_error, _) result) \<and>
          client_fee_for_message (tg_rpc_client G) m v = (Inr fee, v1) \<and>
          get_balance (tg_rpc_client G) (tg_fee_payer G) v1 = (Inr balance, v2) \<and> rent + fee \<le> balance)"
  proof (cases "tg_sign_only G")
    case True
    with ok show ?thesis by (auto simp: handle_tx_def Let_def ok_simps)
  next
    case False
    with ok show ?thesis by (auto simp: handle_tx_def Let_def ok_simps dest!: balance_checked) blast+
  qed
qed

section \<open>Garbage collection\<close>

text \<open>C10: the instructions of a garbage collection, in any order of its tables, run through on a ledger
  that agrees with the listed accounts: no account is closed with tokens in it, none that is frozen
  is touched, each token's associated account ends with all that was not frozen, the
  emptied accounts that the owner may close are closed, and no other account changes.\<close>

theorem gc_moves_then_closes:
  assumes "accounts_by_token G owner accounts [] = (Ok table :: ('e, gc_table) result)"
    and "mset ts = mset table" and order: "\<And>accs. mset (order accs) = mset accs"
    and ixs: "gc_instructions T G order owner close_empty min_balance ts = Ok (groups, needed)"
    and "\<forall>t \<in> set table. gc_token_ok T G owner F L t"
    and "\<forall>t \<in> set table. \<forall>u \<in> set table. t \<noteq> u \<longrightarrow> gc_touched T G owner t \<inter> gc_touched T G owner u = {}"
  shows "\<exists>L'. ledger_run F (concat groups) L = Some L' \<and>
    (\<forall>t \<in> set table. gc_settled T G owner close_empty L L' t) \<and>
    (\<forall>k. (\<forall>t \<in> set table. k \<notin> gc_touched T G owner t) \<longrightarrow> L' k = L k)"
proof -
  have wf: "gc_table_wf table"
    by (rule accounts_by_token_wf [OF assms(1)]) (simp add: gc_table_wf_def)
  have set: "set ts = set table" using assms(2) by (rule mset_eq_setD)
  have "distinct table" using wf by (auto simp: gc_table_wf_def distinct_map)
  then have "distinct ts" using assms(2) mset_eq_imp_distinct_iff by blast
  moreover have "\<forall>t \<in> set table. distinct (map fst (snd t)) \<and> gc_token_ok T G owner F L t"
    using wf assms(5) by (simp add: gc_table_wf_def)
  ultimately show ?thesis
    using gc_tokens_run [OF ixs order, where F = F and L = L] assms(6) by (simp add: set)
qed

section \<open>Examples\<close>

definition ui_account0 :: "unit ui_token_account" where
  "ui_account0 = \<lparr>uto_mint = [], uto_owner = [],
     uto_token_amount = \<lparr>uta_ui_amount = None, uta_decimals = 0, uta_amount = [51], uta_ui_amount_string = []\<rparr>,
     uto_delegate = None, uto_state = UAS_Initialized, uto_is_native = False, uto_rent_exempt_reserve = None,
     uto_delegated_amount = None, uto_close_authority = None, uto_extensions = []\<rparr>"

definition parsed0 :: "unit ui_account" where
  "parsed0 = \<lparr>ui_lamports = 1, ui_data = UD_Json \<lparr>pa_program = spl_token_name, pa_parsed = (), pa_space = 0\<rparr>,
     ui_owner = [], ui_executable = False, ui_rent_epoch = 0\<rparr>"

definition token_provider0 :: "(nat, instruction list \<times> pubkey option \<times> hash, unit) provider" where
  "token_provider0 = provider0\<lparr>
     pv_account_info := (\<lambda>k c. io_ok (if rac_encoding c = Some UE_JsonParsed then Some parsed0 else None)),
     pv_token_account_type := (\<lambda>_. Some (TAT_Account ui_account0)),
     pv_token_account_balance := (\<lambda>k c. io_ok (uto_token_amount ui_account0)),
     pv_codec := ui_codec0\<lparr>uc_key_from_str := (\<lambda>s. Some (word_of_nat (length s)))\<rparr>\<rparr>"

definition token_config0 :: "bool \<Rightarrow> (nat, instruction list \<times> pubkey option \<times> hash, unit) token_config" where
  "token_config0 only_sign = \<lparr>tg_rpc_client = \<lparr>wc_provider = token_provider0, wc_commitment_config = CC_Confirmed\<rparr>,
     tg_fee_payer = 1, tg_nonce_account = None, tg_nonce_authority = None, tg_blockhash_query = BQ_None 9,
     tg_sign_only = only_sign, tg_dump_transaction_message = False, tg_multisigner_pubkeys = [],
     tg_program_id = spl_token_id\<rparr>"

definition token_tools0 :: "token_env \<Rightarrow> (instruction list \<times> pubkey option \<times> hash, pubkey, u64) token_tools" where
  "token_tools0 E = \<lparr>tt_sdk = message_sdk0\<lparr>mk_signer_keys := (\<lambda>_. [1])\<rparr>, tt_builders = builders0,
     tt_ata = \<lparr>ak_ids = \<lparr>sid_rent = 0, sid_clock = 0, sid_slot_hashes = 0, sid_system_program = 0\<rparr>,
       ak_find_program_address = (\<lambda>_ _. (2, 255)), ak_borsh = (\<lambda>_. Ok [0])\<rparr>,
     tt_env = E, tt_sol_to_lamports = id, tt_ui_amount_to_amount = (\<lambda>f d. f)\<rparr>"

definition listed0 :: "unit rpc_keyed_account list" where
  "listed0 = [\<lparr>rka_pubkey = [0], rka_account = parsed0\<rparr>, \<lparr>rka_pubkey = [0, 0], rka_account = parsed0\<rparr>]"

lemmas token_example = ui_account0_def parsed0_def token_provider0_def token_config0_def token_tools0_def listed0_def
  provider0_def message_sdk0_def builders0_def ui_codec0_def

lemma three: "parse_u64 [51] = Some 3"
  using parse_digits_value [of "[51]" 0]
  by (simp add: parse_u64_def is_digit_def digit_value_def del: parse_digits.simps)

definition token_args0 :: "u64 token_transfer_args" where
  "token_args0 = \<lparr>tta_token = 0, tta_ui_amount = None, tta_recipient = 5,
     tta_sender = Some 1, tta_sender_owner = 7, tta_allow_unfunded_recipient = True, tta_fund_recipient = True,
     tta_mint_decimals = None, tta_recipient_is_ata_owner = False, tta_use_unchecked_instruction = False,
     tta_memo = None, tta_no_wait = True, tta_allow_non_system_account_recipient = False\<rparr>"

lemma token_transfer0:
  "command_transfer (token_tools0 E) (token_config0 False) token_args0 [1] 0 =
   (Inr (TR_CliSignature 1), 1)"
  by (simp add: command_transfer_def token_args0_def Let_def sender_of_def resolve_mint_info_def existing_token_account_def
      get_token_account_def get_token_account_with_commitment_def key_from_str_def three io_bind_def io_map_err_def
      resolve_transfer_balance_def get_token_account_balance_def resolve_recipient_def recipient_is_token_account_def
      get_account_with_commitment_def get_account_with_config_def rac_default_def needs_funding_def
      minimum_balance_unless_sign_only_def client_minimum_balance_def create_associated_token_account_def
      build_associated_token_account_instruction_def get_associated_token_address_with_program_id_def
      get_associated_token_address_and_bump_seed_internal_def ix1_transfer_checked_def v1_check_program_account_def
      pe_def submit_def handle_tx_def token_message_def query_get_blockhash_def client_fee_for_message_def
      check_fee_payer_balance_def get_balance_def get_balance_with_commitment_def signers_for_message_def
      client_send_transaction_def send_transaction_with_config_def first_signature_def token_example)

lemma token_config0_simps [simp]:
  "tg_sign_only (token_config0 b) = b"
  "get_token_account_balance (tg_rpc_client (token_config0 b)) k v = (Ok (uto_token_amount ui_account0), v)"
  "parse_u64 (uta_amount (uto_token_amount ui_account0)) = Some 3"
  by (simp_all add: token_config0_def get_token_account_balance_def token_provider0_def ui_account0_def three)

text \<open>The three tokens of account 1, all that it holds, are moved.\<close>

theorem token_transfer_covered_witness:
  "command_transfer (token_tools0 env0) (token_config0 False) token_args0 [1] 0 = (Inr (TR_CliSignature 1), 1) \<and>
   (\<exists>dest prep ix min_balance v. effect_of ix = Some (LE_Move 1 dest 3) \<and>
     handle_tx (token_tools0 env0) \<lparr>csi_signers = [1]\<rparr> (token_config0 False) True min_balance
       (prep @ [ix] @ memo_ixs (token_config0 False) None) v = (Inr (TR_CliSignature 1), 1))"
proof -
  have args: "sender_of (token_tools0 env0) (token_config0 False) token_args0 = 1" "tta_ui_amount token_args0 = None"
    "tta_no_wait token_args0" "tta_memo token_args0 = None"
    by (simp_all add: token_args0_def sender_of_def)
  note t = token_transfer_covered [OF token_transfer0 [of env0], unfolded args]
  have "\<exists>amt :: u64. \<exists>dest prep ix min_balance v.
    handle_tx (token_tools0 env0) \<lparr>csi_signers = [1]\<rparr> (token_config0 False) (tta_no_wait token_args0) min_balance
       (prep @ [ix] @ memo_ixs (token_config0 False) None) v = (Inr (TR_CliSignature 1), 1) \<and>
    effect_of ix = Some (LE_Move 1 dest (unat amt)) \<and>
    (tg_sign_only (token_config0 False) \<or> (\<exists>b balance v v'.
      get_token_account_balance (tg_rpc_client (token_config0 False)) 1 v = (Inr b, v') \<and>
      parse_u64 (uta_amount b) = Some balance \<and> amt \<le> balance \<and> (None = (None :: u64 option) \<longrightarrow> amt = balance)))"
    using t by (elim exE conjE) (intro exI conjI; assumption)
  then obtain amt :: u64 and dest prep ix min_balance v where
    h: "handle_tx (token_tools0 env0) \<lparr>csi_signers = [1]\<rparr> (token_config0 False) (tta_no_wait token_args0) min_balance
       (prep @ [ix] @ memo_ixs (token_config0 False) None) v = (Inr (TR_CliSignature 1), 1)"
    and e: "effect_of ix = Some (LE_Move 1 dest (unat amt))" and "amt = 3"
    by auto
  then have "effect_of ix = Some (LE_Move 1 dest 3)" by simp
  with h [unfolded eqTrueI [OF args(3)]] token_transfer0 [of env0] show ?thesis by blast
qed

lemma token_handled0:
  "\<exists>tx. handle_tx (token_tools0 E) \<lparr>csi_signers = [1]\<rparr> (token_config0 True) False 0 [] 0 = (Inr (TR_CliSignOnlyData tx False), 0)"
  by (simp add: handle_tx_def Let_def token_message_def query_get_blockhash_def client_fee_for_message_def
      io_bind_def io_map_err_def signers_for_message_def token_example)

theorem only_signing_never_sends_witness:
  "handle_tx (token_tools0 env0) \<lparr>csi_signers = [1]\<rparr> (with_send (token_config0 True) (\<lambda>t c w. (Panicked, w + 7))) False 0 [] 0 =
   handle_tx (token_tools0 env0) \<lparr>csi_signers = [1]\<rparr> (token_config0 True) False 0 [] 0"
  by (rule only_signing_never_sends [THEN conjunct1, THEN mp]) simp

lemma gc_table0:
  "accounts_by_token (token_config0 False) 7 listed0 [] =
   Ok [(0, [(1, \<lparr>gca_amount = 3, gca_decimals = 0, gca_frozen = False, gca_close_authority = 7\<rparr>),
     (2, \<lparr>gca_amount = 3, gca_decimals = 0, gca_frozen = False, gca_close_authority = 7\<rparr>)])]"
  by (simp add: gc_entry_def gc_insert_def parse_or_panic_def key_from_str_def three token_example)

lemma gc_instructions0:
  "\<exists>groups needed. gc_instructions (token_tools0 E) (token_config0 False) id 7 False 10
     [(0, [(1, \<lparr>gca_amount = 3, gca_decimals = 0, gca_frozen = False, gca_close_authority = 7\<rparr>),
       (2, \<lparr>gca_amount = 3, gca_decimals = 0, gca_frozen = False, gca_close_authority = 7\<rparr>)])] = Ok (groups, needed)"
  by (simp add: gc_token_instructions_def gc_total_def gc_account_instructions_def Let_def ix1_transfer_checked_def
      ix1_close_account_def v1_check_program_account_def get_associated_token_address_with_program_id_def
      get_associated_token_address_and_bump_seed_internal_def token_tools0_def token_config0_def)

theorem gc_moves_then_closes_witness:
  "\<exists>groups L' needed. gc_instructions (token_tools0 env0) (token_config0 False) id 7 False 10
     [(0, [(1, \<lparr>gca_amount = 3, gca_decimals = 0, gca_frozen = False, gca_close_authority = 7\<rparr>),
       (2, \<lparr>gca_amount = 3, gca_decimals = 0, gca_frozen = False, gca_close_authority = 7\<rparr>)])] =
       (Ok (groups, needed)) \<and>
     ledger_run {} (concat groups) (\<lambda>k. if k = 1 \<or> k = 2 then Some 3 else None) = Some L' \<and>
     L' 1 = None \<and> L' 2 = Some 6"
proof -
  let ?table = "[(0, [(1, \<lparr>gca_amount = 3, gca_decimals = 0, gca_frozen = False, gca_close_authority = 7\<rparr>),
       (2, \<lparr>gca_amount = 3, gca_decimals = 0, gca_frozen = False, gca_close_authority = 7\<rparr>)])] :: gc_table"
  obtain groups needed where ixs: "gc_instructions (token_tools0 env0) (token_config0 False) id 7 False 10 ?table =
      Ok (groups, needed)" using gc_instructions0 by blast
  let ?L = "\<lambda>k :: pubkey. if k = 1 \<or> k = 2 then Some (3 :: nat) else None"
  have ata: "ata_of (token_tools0 env0) (token_config0 False) 7 0 = 2"
    by (simp add: get_associated_token_address_with_program_id_def token_tools0_def
        get_associated_token_address_and_bump_seed_internal_def)
  have "\<exists>L'. ledger_run {} (concat groups) ?L = Some L' \<and>
    (\<forall>t \<in> set ?table. gc_settled (token_tools0 env0) (token_config0 False) 7 False ?L L' t) \<and>
    (\<forall>k. (\<forall>t \<in> set ?table. k \<notin> gc_touched (token_tools0 env0) (token_config0 False) 7 t) \<longrightarrow> L' k = ?L k)"
    by (rule gc_moves_then_closes [OF gc_table0 refl _ ixs]) (auto simp: gc_token_ok_def ata gc_sum_def)
  then show ?thesis
    using ixs by (auto simp: gc_settled_def ata gc_sum_def gc_unfrozen_def Let_def)
qed

end
