(* ===== verification/Spec2Isabelle.thy ===== *)
theory Spec2Isabelle
  imports TokenProperties TokenCodec PgProperties VoteProperties TokenClient VoteInstruction
    AssociatedToken TransactionStatus CliProperties CliReports TokenCliProperties
begin

text \<open>
  Verification development for the Rust core of the playground: the token-2022 program of
  \<open>wasm/utils/solana-extra/src/program/spl_token_2022\<close> and Playnet, the in-browser
  blockchain of \<open>wasm/playnet/src\<close>, whose bank, message processor and builtin programs run
  transactions on accounts held in memory.

  \<^bold>\<open>Conventions\<close> (\<open>Prelude\<close>). A \<open>Result\<close> that may also panic is \<open>('e, 'a) result\<close>:
  \<open>Ok\<close>, \<open>Fail e\<close> or \<open>Panicked\<close>; every \<open>unwrap\<close>, slice index and \<open>todo!\<close> of the
  source is a branch of the model. Integers are words of their width: \<open>+\<close> wraps, as in the
  release profile the crates are built with, and \<open>checked_*\<close> and \<open>saturating_*\<close> are
  definitions. \<open>usize\<close> is \<^typ>\<open>nat\<close>. Keys and hashes are 256-bit words. An assignment
  through a mutable reference returns the updated value. What is not under \<open>src/\<close> (the SDK,
  the transaction context, the program machine, base58, bincode, JSON, the float functions) is a
  record of parameters, and what the code relies on is a named predicate on them.

  \<^bold>\<open>The token program.\<close> A store maps cells to lamports and data; an \<open>account_info\<close> names
  the cell it borrows, so that two infos may alias, and \<open>acquire\<close> is the borrow check of
  \<open>RefCell\<close>.
  \<^item> \<open>TokenBase\<close> (\<open>error.rs\<close>, ids, account infos), \<open>TokenPod\<close> (\<open>pod.rs\<close>; locale
    \<open>pod_codec\<close>), \<open>TokenState\<close> (\<open>state.rs\<close>, \<open>generic_token_account.rs\<close>; locale \<open>packable\<close>
    with the round trips of \<open>Mint\<close>, \<open>Account\<close> and \<open>Multisig\<close>).
  \<^item> \<open>TokenExtension\<close>, \<open>TokenTlv\<close> (\<open>extension/mod.rs\<close>): extension types, the walk over
    type-length-value entries (a \<open>function\<close> whose measure is the rest of the buffer) and the
    borrowed views. \<open>TokenViews\<close> (locale \<open>base_state\<close>) and \<open>TokenLaws\<close> (locale
    \<open>extension_impl\<close>, interpreted on all eight extensions) prove the get/put laws and that
    the walk refines lookup in an association list.
  \<^item> \<open>TransferFee\<close>, \<open>InterestBearing\<close>: the arithmetic of fees and average rates.
  \<^item> \<open>TokenInstruction\<close> (\<open>instruction.rs\<close>): decoding and encoding of every instruction.
  \<^item> \<open>TokenAuthority\<close> (\<open>validate_owner\<close>), \<open>TokenTransfer\<close>, \<open>TokenOwnership\<close>,
    \<open>TokenInitialize\<close>, \<open>TokenFees\<close>, \<open>TokenUi\<close> (\<open>processor.rs\<close> and the processors of the
    extensions): one definition per handler. \<open>TokenProcess\<close> is the dispatch.
  \<^item> \<open>TokenExamples\<close>: the concrete environment of the witnesses. \<open>TokenProperties\<close>: who may
    do what, what each handler changes, and what it conserves. \<open>TokenCodec\<close>: TLV data
    refine an association list; instructions and amounts are read back; harvesting.

  \<^bold>\<open>Playnet.\<close> The bank keeps accounts, the transaction history, slot, block height,
  blockhashes and the airdrop key pair.
  \<^item> \<open>PgTypes\<close> (\<open>types.rs\<close>, \<open>runtime/transaction_history.rs\<close>).
  \<^item> \<open>PgNonce\<close> (\<open>runtime/nonce_keyed_account.rs\<close>) and \<open>PgSystem\<close>
    (\<open>runtime/system_instruction_processor.rs\<close>), over \<open>runtime_ops\<close>, the transaction
    context; \<open>lamport_laws\<close>, \<open>data_laws\<close> and \<open>nonce_laws\<close> are its documented behaviour.
  \<^item> \<open>PgMessage\<close> (\<open>runtime/message_processor.rs\<close>), \<open>PgBank\<close>, \<open>PgLoad\<close>, \<open>PgExecute\<close>
    (\<open>runtime/bank.rs\<close>, \<open>utils.rs\<close>), \<open>PgRpc\<close> (\<open>rpc.rs\<close>, \<open>serde.rs\<close>,
    \<open>playnet.rs\<close>). The walk up the owners of a program ends after five levels, its measure.
  \<^item> \<open>PgSteps\<close>: a step relation for the client's operations and the invariant of the banks it
    reaches in fewer than \<open>2 ^ 64\<close> steps (the slot is a \<open>u64\<close>).
  \<^item> \<open>PgExamples\<close>, \<open>PgProperties\<close>: concrete instances, and the properties of each part.

  \<^bold>\<open>The vote program\<close> (\<open>wasm/utils/solana-extra/src/program/vote\<close>). A vote account keeps a
  tower of at most 31 lockouts, the root below it, the credits of the last 64 epochs and the
  authorized voters by epoch.
  \<^item> \<open>VoteTypes\<close> (the data of \<open>vote_state/mod.rs\<close>, \<open>vote_error.rs\<close>), \<open>VoteAuthorized\<close>
    (\<open>authorized_voters.rs\<close>; locale \<open>voter_schedule\<close>, what the vote state relies on),
    \<open>VoteState\<close> (\<open>impl VoteState\<close>, the versions), \<open>VoteUpdate\<close> (checking and applying
    votes and tower updates; the loops walk indexes and have measures), \<open>VoteHandlers\<close> (the
    free functions, over \<open>vote_ops\<close>, the borrowed accounts of the SDK).
  \<^item> \<open>VoteTower\<close>: the invariant of the tower and that a tower update refines voting, for slots
    below \<open>2 ^ 63\<close> (a lockout ends at most \<open>2 ^ 31\<close> slots later, so no sum wraps);
    \<open>VoteChecks\<close>: what the slot checks decide; \<open>VoteEffects\<close>: the other operations;
    \<open>VoteProperties\<close>: the theorems.

  \<^bold>\<open>Clients.\<close> The builders of instructions and what the RPC shows of accounts and transactions.
  \<^item> \<open>Instructions\<close> (the SDK's \<open>Instruction\<close> and \<open>AccountMeta\<close>), \<open>TokenBuilders\<close> (token-2022
    and its extensions), \<open>SplToken\<close> (\<open>spl_token\<close>, the first version: errors, instructions,
    builders), \<open>VoteInstruction\<close>, \<open>AssociatedToken\<close> (\<open>spl_associated_token_account\<close>,
    \<open>spl_memo\<close>). \<open>TokenClient\<close>: the program accepts what the client builds, and token-2022
    understands the instructions of the first version.
  \<^item> \<open>AccountDecoder\<close> (\<open>account_decoder\<close>), \<open>TransactionStatus\<close> (\<open>transaction_status.rs\<close>):
    encoding for display, and reading back.

  \<^bold>\<open>Command line programs.\<close> A computation that talks to a server is a function of the outside
  world \<open>'w\<close> to a result and the world after it (\<open>ClientIo\<close>); the server, the terminal and
  the key files are records of such computations, about which a theorem assumes only what it names.
  \<^item> \<open>RpcClient\<close> (\<open>wasm/solana-client/src/client.rs\<close>, \<open>utils/rpc_filter.rs\<close>; confirming polls at
    most \<open>MAX_RETRIES\<close> times), \<open>RpcNonce\<close> (\<open>utils/nonce_utils.rs\<close>, the blockhash queries of
    \<open>utils/rpc_config.rs\<close>), \<open>CliSigners\<close> (\<open>utils/solana-clap-v3-utils\<close>: sources and lists of signers).
  \<^item> \<open>CliSpend\<close>, \<open>CliWallet\<close> (\<open>wasm/solana-cli\<close>: what is spent, memos, the commands that move
    lamports or change nonce accounts). \<open>CliProperties\<close>: what is sent is covered, what is
    reported, and that no memo is ever sent.
  \<^item> \<open>CliProgram\<close>, \<open>CliStake\<close>, \<open>CliVote\<close>, \<open>CliFeature\<close> (\<open>wasm/solana-cli/src/commands\<close>: the commands
    on programs, stakes, votes and features that the build contains). \<open>CliReports\<close>: only what
    belongs to the signer is closed, the vote program accepts the authority the client lets
    through, the search for the start of an epoch ends, and what the listing of features shows.
  \<^item> \<open>TokenSort\<close>, \<open>TokenCliBase\<close>, \<open>TokenCli\<close>, \<open>TokenGc\<close> (\<open>wasm/spl-token-cli\<close>: the listing, the
    handling of a transaction, the commands, the garbage collection). \<open>TokenGcLedger\<close>: a ledger
    of balances on which the instructions act as the token program documents, and that the
    garbage collection settles it. \<open>TokenCliProperties\<close>: the theorems.

  \<^bold>\<open>Not modelled.\<close> \<open>StateWithExtensionsOwned\<close>; the confidential-transfer extension, which is
  commented out of the build; functions on \<open>f64\<close> (the compound interest, whose exponentials are
  parameters, and the amounts as floats); \<open>spl_token/state.rs\<close>, whose layouts are those of
  \<open>TokenState\<close> line by line; the zstd encoding; the JavaScript getters of Playnet; of the
  command line programs the parsing of arguments and the output, the statistics of the nodes in
  \<open>feature.rs\<close>, and the queries of the cluster; the requests of the RPC client that only forward;
  the vendored \<open>rustfmt\<close> and compiler crates, the build server and the TypeScript client.
\<close>

end
